(* ===== verification/Prelude.thy ===== *)
theory Prelude
  imports Complex_Main "HOL-Library.Sublist" "HOL-Library.Product_Lexorder"
begin

text \<open>
  Shared vocabulary of the development: timestamps, the text functions of the Rust standard
  library the code calls, and generic facts on lists and options.

  \<^item> \<open>timestamp\<close> is a PostgreSQL \<^verbatim>\<open>TIMESTAMPTZ\<close>: whole microseconds since the epoch.
    \<open>secs n\<close> is \<^verbatim>\<open>n * INTERVAL '1 second'\<close>.
  \<^item> Text is a list of ASCII characters. \<open>to_lower\<close> is both \<^verbatim>\<open>to_ascii_lowercase\<close> and, on
    ASCII text, \<^verbatim>\<open>to_lowercase\<close>; \<open>is_ws\<close> is \<^verbatim>\<open>char::is_whitespace\<close> on ASCII.
    On such text bytes, chars and positions agree, so \<^verbatim>\<open>len\<close>, \<^verbatim>\<open>chars().count()\<close> and slicing by
    byte index are the list operations.
  \<^item> The collections \<open>text_simps\<close> and \<open>table_simps\<close> hold the rewrite rules the
    component proofs share.
\<close>

named_theorems text_simps \<open>rewrite rules on text functions\<close>
named_theorems table_simps \<open>rewrite rules on table operations\<close>

type_synonym timestamp = int

definition secs :: "int \<Rightarrow> timestamp" where
  "secs n = n * 1000000"

lemma secs_nonneg [simp]: "0 \<le> n \<Longrightarrow> 0 \<le> secs n"
  by (simp add: secs_def)

lemma secs_0 [simp]: "secs 0 = 0"
  by (simp add: secs_def)

lemma secs_le_iff [simp]: "secs a \<le> secs b \<longleftrightarrow> a \<le> b"
  by (simp add: secs_def)

section \<open>Machine integers of the source, written out\<close>

abbreviation i64_max :: int where "i64_max \<equiv> 9223372036854775807"
abbreviation i64_min :: int where "i64_min \<equiv> - 9223372036854775808"

text \<open>\<^verbatim>\<open>i64::saturating_mul\<close> on values in range.\<close>

definition sat_i64 :: "int \<Rightarrow> int" where
  "sat_i64 x = max i64_min (min i64_max x)"

text \<open>\<^verbatim>\<open>Ord::clamp\<close> (the code never calls it with \<open>hi < lo\<close>, where Rust panics).\<close>

definition clamp :: "int \<Rightarrow> int \<Rightarrow> int \<Rightarrow> int" where
  "clamp lo hi x = (if x < lo then lo else if hi < x then hi else x)"

lemma clamp_bounds [simp]: "lo \<le> hi \<Longrightarrow> lo \<le> clamp lo hi x \<and> clamp lo hi x \<le> hi"
  by (simp add: clamp_def)

lemma clamp_mono: "x \<le> y \<Longrightarrow> lo \<le> hi \<Longrightarrow> clamp lo hi x \<le> clamp lo hi y"
  by (simp add: clamp_def)

lemma sat_i64_mono: "x \<le> y \<Longrightarrow> sat_i64 x \<le> sat_i64 y"
  by (simp add: sat_i64_def)

text \<open>The \<^verbatim>\<open>as\<close> casts between integer types: the value modulo the width, read back signed.\<close>

definition as_u32 :: "int \<Rightarrow> int" where
  "as_u32 n = n mod 4294967296"

definition as_i32 :: "int \<Rightarrow> int" where
  "as_i32 n = (let m = n mod 4294967296 in if m \<ge> 2147483648 then m - 4294967296 else m)"

definition as_i64_cast :: "int \<Rightarrow> int" where
  "as_i64_cast n = (let m = n mod 18446744073709551616 in if m \<ge> 9223372036854775808 then m - 18446744073709551616 else m)"

section \<open>Text\<close>

definition to_lower_char :: "char \<Rightarrow> char" where
  "to_lower_char c =
     (let n = (of_char c :: nat) in if 65 \<le> n \<and> n \<le> 90 then char_of (n + 32) else c)"

definition to_upper_char :: "char \<Rightarrow> char" where
  "to_upper_char c =
     (let n = (of_char c :: nat) in if 97 \<le> n \<and> n \<le> 122 then char_of (n - 32) else c)"

definition to_lower :: "string \<Rightarrow> string" where
  "to_lower s = map to_lower_char s"

definition is_ws :: "char \<Rightarrow> bool" where
  "is_ws c \<longleftrightarrow> (let n = (of_char c :: nat) in (9 \<le> n \<and> n \<le> 13) \<or> n = 32)"

definition is_ascii_digit :: "char \<Rightarrow> bool" where
  "is_ascii_digit c \<longleftrightarrow> (let n = (of_char c :: nat) in 48 \<le> n \<and> n \<le> 57)"

definition is_ascii_alnum :: "char \<Rightarrow> bool" where
  "is_ascii_alnum c \<longleftrightarrow> (let n = (of_char c :: nat) in
     (48 \<le> n \<and> n \<le> 57) \<or> (65 \<le> n \<and> n \<le> 90) \<or> (97 \<le> n \<and> n \<le> 122))"

definition is_ascii_punct :: "char \<Rightarrow> bool" where
  "is_ascii_punct c \<longleftrightarrow> (let n = (of_char c :: nat) in
     (33 \<le> n \<and> n \<le> 47) \<or> (58 \<le> n \<and> n \<le> 64) \<or> (91 \<le> n \<and> n \<le> 96) \<or> (123 \<le> n \<and> n \<le> 126))"

definition is_control :: "char \<Rightarrow> bool" where
  "is_control c \<longleftrightarrow> (let n = (of_char c :: nat) in n < 32 \<or> n = 127)"

definition trim_start :: "string \<Rightarrow> string" where
  "trim_start s = dropWhile is_ws s"

definition trim_end :: "string \<Rightarrow> string" where
  "trim_end s = rev (dropWhile is_ws (rev s))"

definition trim :: "string \<Rightarrow> string" where
  "trim s = trim_end (trim_start s)"

text \<open>\<^verbatim>\<open>trim_matches\<close> with a character predicate.\<close>

definition trim_matches :: "(char \<Rightarrow> bool) \<Rightarrow> string \<Rightarrow> string" where
  "trim_matches p s = rev (dropWhile p (rev (dropWhile p s)))"

definition starts_with :: "string \<Rightarrow> string \<Rightarrow> bool" where
  "starts_with s p \<longleftrightarrow> prefix p s"

definition ends_with :: "string \<Rightarrow> string \<Rightarrow> bool" where
  "ends_with s p \<longleftrightarrow> suffix p s"

definition contains :: "string \<Rightarrow> string \<Rightarrow> bool" where
  "contains s p \<longleftrightarrow> sublist p s"

definition contains_any :: "string \<Rightarrow> string list \<Rightarrow> bool" where
  "contains_any s ps \<longleftrightarrow> list_ex (contains s) ps"

definition eq_ignore_ascii_case :: "string \<Rightarrow> string \<Rightarrow> bool" where
  "eq_ignore_ascii_case a b \<longleftrightarrow> to_lower a = to_lower b"

text \<open>\<^verbatim>\<open>split_whitespace\<close>: the maximal runs of non-blank characters.\<close>

fun split_ws_acc :: "string \<Rightarrow> string \<Rightarrow> string list" where
  "split_ws_acc acc [] = (if acc = [] then [] else [rev acc])"
| "split_ws_acc acc (c # cs) =
     (if is_ws c then (if acc = [] then split_ws_acc [] cs else rev acc # split_ws_acc [] cs)
      else split_ws_acc (c # acc) cs)"

definition split_whitespace :: "string \<Rightarrow> string list" where
  "split_whitespace s = split_ws_acc [] s"

text \<open>\<^verbatim>\<open>split\<close> by a character predicate: every separator closes a piece, empty pieces included.\<close>

fun split_by :: "(char \<Rightarrow> bool) \<Rightarrow> string \<Rightarrow> string list" where
  "split_by p [] = [[]]"
| "split_by p (c # cs) =
     (if p c then [] # split_by p cs
      else (case split_by p cs of [] \<Rightarrow> [[c]] | x # xs \<Rightarrow> (c # x) # xs))"

text \<open>\<^verbatim>\<open>slice::join\<close>.\<close>

fun join :: "string \<Rightarrow> string list \<Rightarrow> string" where
  "join sep [] = []"
| "join sep [x] = x"
| "join sep (x # y # ys) = x @ sep @ join sep (y # ys)"

text \<open>\<^verbatim>\<open>Iterator::flatten\<close> over options.\<close>

definition flatten_opts :: "'a option list \<Rightarrow> 'a list" where
  "flatten_opts xs = List.map_filter (\<lambda>x. x) xs"

definition replace_char :: "char \<Rightarrow> char \<Rightarrow> string \<Rightarrow> string" where
  "replace_char a b s = map (\<lambda>c. if c = a then b else c) s"

lemma trim_matches_ends:
  "trim_matches p s = [] \<or> (\<not> p (hd (trim_matches p s)) \<and> \<not> p (last (trim_matches p s)))"
proof -
  define u where "u = dropWhile p s"
  define t where "t = dropWhile p (rev u)"
  have "t = [] \<or> \<not> p (hd t)" using hd_dropWhile [of p "rev u"] dropWhile_eq_Nil_conv [of p "rev u"] by (auto simp: t_def)
  moreover have "t = [] \<or> \<not> p (last t)"
  proof (cases "t = []")
    case False
    then have "last t = last (rev u)"
      unfolding t_def by (metis dropWhile_eq_Nil_conv dropWhile_dropWhile2 last_appendR takeWhile_dropWhile_id)
    moreover have "u \<noteq> []" using False by (auto simp: t_def)
    then have "last (rev u) = hd u" by (simp add: last_rev)
    moreover have "\<not> p (hd u)" using \<open>u \<noteq> []\<close> hd_dropWhile [of p s] by (simp add: u_def)
    ultimately show ?thesis by simp
  qed simp
  ultimately show ?thesis by (auto simp: trim_matches_def hd_rev last_rev simp flip: u_def t_def)
qed

lemma trim_matches_id: "s = [] \<or> (\<not> p (hd s) \<and> \<not> p (last s)) \<Longrightarrow> trim_matches p s = s"
proof -
  have "dropWhile p s = s" if "s = [] \<or> \<not> p (hd s)" for s using that by (cases s) auto
  then show "s = [] \<or> (\<not> p (hd s) \<and> \<not> p (last s)) \<Longrightarrow> trim_matches p s = s"
    by (cases "s = []") (auto simp: trim_matches_def hd_rev)
qed

lemma to_lower_char_idem [simp]: "to_lower_char (to_lower_char c) = to_lower_char c"
proof -
  have "(of_char c :: nat) < 256" by simp
  then show ?thesis by (auto simp: to_lower_char_def Let_def of_char_of take_bit_eq_mod)
qed

lemma to_lower_idem [simp, text_simps]: "to_lower (to_lower s) = to_lower s"
  by (simp add: to_lower_def)

lemma to_lower_Nil [simp]: "to_lower [] = []"
  by (simp add: to_lower_def)

lemma to_lower_eq_Nil [simp]: "to_lower s = [] \<longleftrightarrow> s = []"
  by (simp add: to_lower_def)

lemma length_to_lower [simp]: "length (to_lower s) = length s"
  by (simp add: to_lower_def)

lemma eq_ignore_ascii_case_refl [simp]: "eq_ignore_ascii_case a a"
  by (simp add: eq_ignore_ascii_case_def)

lemma eq_ignore_ascii_case_sym: "eq_ignore_ascii_case a b \<Longrightarrow> eq_ignore_ascii_case b a"
  by (simp add: eq_ignore_ascii_case_def)

lemma eq_ignore_ascii_case_trans [trans]:
  "eq_ignore_ascii_case a b \<Longrightarrow> eq_ignore_ascii_case b c \<Longrightarrow> eq_ignore_ascii_case a c"
  by (simp add: eq_ignore_ascii_case_def)

lemma set_dropWhile_subset: "set (dropWhile p xs) \<subseteq> set xs"
  by (induction xs) auto

lemma length_trim_le: "length (trim s) \<le> length s"
proof -
  have "length (trim s) \<le> length (trim_start s)"
    using length_dropWhile_le [of is_ws "rev (trim_start s)"] by (simp add: trim_def trim_end_def)
  also have "\<dots> \<le> length s" by (simp add: trim_start_def length_dropWhile_le)
  finally show ?thesis .
qed

section \<open>Numbers in text, errors, environment\<close>

definition digit_char :: "nat \<Rightarrow> char" where
  "digit_char d = char_of (48 + d)"

fun show_nat :: "nat \<Rightarrow> string" where
  "show_nat n = (if n < 10 then [digit_char n] else show_nat (n div 10) @ [digit_char (n mod 10)])"

declare show_nat.simps [simp del]

definition show_int :: "int \<Rightarrow> string" where
  "show_int n = (if n < 0 then CHR ''-'' # show_nat (nat (- n)) else show_nat (nat n))"

definition digit_val :: "char \<Rightarrow> nat" where
  "digit_val c = of_char c - 48"

definition parse_digits :: "string \<Rightarrow> int option" where
  "parse_digits s =
     (if s = [] \<or> \<not> list_all is_ascii_digit s then None
      else Some (foldl (\<lambda>acc c. 10 * acc + int (digit_val c)) 0 s))"

text \<open>
  \<^verbatim>\<open>str::parse\<close> at an integer type with the range \<open>lo .. hi\<close>: an optional sign (a minus only
  where the type is signed), then digits, \<open>None\<close> for the parse error.
\<close>

definition parse_int :: "int \<Rightarrow> int \<Rightarrow> string \<Rightarrow> int option" where
  "parse_int lo hi s =
     (let v = (case s of
                 [] \<Rightarrow> None
               | c # cs \<Rightarrow> (if c = CHR ''+'' then parse_digits cs
                            else if c = CHR ''-'' \<and> lo < 0 then map_option uminus (parse_digits cs)
                            else parse_digits s))
      in case v of None \<Rightarrow> None | Some n \<Rightarrow> (if lo \<le> n \<and> n \<le> hi then Some n else None))"

definition parse_i32 :: "string \<Rightarrow> int option" where
  "parse_i32 = parse_int (- 2147483648) 2147483647"

definition parse_i64 :: "string \<Rightarrow> int option" where
  "parse_i64 = parse_int i64_min i64_max"

definition parse_u32 :: "string \<Rightarrow> int option" where
  "parse_u32 = parse_int 0 4294967295"

text \<open>\<^verbatim>\<open>u64\<close>, and \<^verbatim>\<open>usize\<close> on the 64-bit targets the program is built for.\<close>

definition parse_u64 :: "string \<Rightarrow> int option" where
  "parse_u64 = parse_int 0 18446744073709551615"

lemma parse_int_range: "parse_int lo hi s = Some n \<Longrightarrow> lo \<le> n \<and> n \<le> hi"
  by (auto simp: parse_int_def Let_def split: option.splits if_splits)

text \<open>The process environment, as \<^verbatim>\<open>std::env::var\<close> reads it.\<close>

type_synonym env = "string \<Rightarrow> string option"

definition env_parse :: "env \<Rightarrow> (string \<Rightarrow> int option) \<Rightarrow> string \<Rightarrow> int \<Rightarrow> int" where
  "env_parse e p name dflt =
     (case Option.bind (e name) p of None \<Rightarrow> dflt | Some v \<Rightarrow> v)"

definition env_flag :: "env \<Rightarrow> string \<Rightarrow> bool \<Rightarrow> bool" where
  "env_flag e name dflt =
     (case e name of None \<Rightarrow> dflt | Some v \<Rightarrow> v = ''1'' \<or> eq_ignore_ascii_case v ''true'')"

text \<open>
  An \<^verbatim>\<open>anyhow::Error\<close> is its chain of messages, outermost context first: \<open>err_full\<close> is the
  \<^verbatim>\<open>{:#}\<close> rendering, \<open>err_top\<close> is \<^verbatim>\<open>to_string()\<close>, \<open>ctx\<close> adds a context.
\<close>

type_synonym err = "string list"
type_synonym 'a result = "err + 'a"

definition err_full :: "err \<Rightarrow> string" where
  "err_full e = join '': '' e"

definition err_top :: "err \<Rightarrow> string" where
  "err_top e = (case e of [] \<Rightarrow> [] | m # _ \<Rightarrow> m)"

definition ctx :: "string \<Rightarrow> 'a result \<Rightarrow> 'a result" where
  "ctx m r = (case r of Inl e \<Rightarrow> Inl (m # e) | Inr v \<Rightarrow> Inr v)"

text \<open>The \<^verbatim>\<open>?\<close> operator on a computation with a state: an error ends it.\<close>

definition and_then :: "('e + 'a) \<times> 'w \<Rightarrow> ('a \<Rightarrow> 'w \<Rightarrow> ('e + 'b) \<times> 'w) \<Rightarrow> ('e + 'b) \<times> 'w" where
  "and_then m f = (case m of (Inl e, w) \<Rightarrow> (Inl e, w) | (Inr v, w) \<Rightarrow> f v w)"

lemma and_then_simps [simp]:
  "and_then (Inl e, w) f = (Inl e, w)" "and_then (Inr v, w) f = f v w"
  by (simp_all add: and_then_def)

lemma and_then_Inr: "and_then m f = (Inr y, w') \<longleftrightarrow> (\<exists>v w. m = (Inr v, w) \<and> f v w = (Inr y, w'))"
  by (auto simp: and_then_def split: prod.splits sum.splits)

section \<open>Lists and options\<close>

fun find_map :: "('a \<Rightarrow> 'b option) \<Rightarrow> 'a list \<Rightarrow> 'b option" where
  "find_map f [] = None"
| "find_map f (x # xs) = (case f x of Some y \<Rightarrow> Some y | None \<Rightarrow> find_map f xs)"

lemma find_map_None: "find_map f xs = None \<longleftrightarrow> (\<forall>x \<in> set xs. f x = None)"
  by (induction xs) (auto split: option.splits)

definition find_opt :: "('a \<Rightarrow> bool) \<Rightarrow> 'a list \<Rightarrow> 'a option" where
  "find_opt p xs = List.find p xs"

lemma find_opt_Some: "find_opt p xs = Some x \<Longrightarrow> p x \<and> x \<in> set xs"
  by (auto simp: find_opt_def find_Some_iff)

lemma find_opt_None: "find_opt p xs = None \<longleftrightarrow> (\<forall>x \<in> set xs. \<not> p x)"
  by (auto simp: find_opt_def find_None_iff)

lemma sorted_take_drop_le:
  "sorted xs \<Longrightarrow> x \<in> set (take n xs) \<Longrightarrow> y \<in> set (drop n xs) \<Longrightarrow> x \<le> y"
  by (metis append_take_drop_id sorted_append)

end
