(* ===== verification/LeaseQueue.thy ===== *)
theory LeaseQueue
  imports Prelude "HOL-Library.Multiset"
begin

text \<open>
  The part the three durable queues of the program share. A table is a list of rows; a statement
  is a function on it. \<open>sql_update\<close> is \<^verbatim>\<open>UPDATE .. SET .. WHERE\<close>, \<open>sql_returning\<close> its
  \<^verbatim>\<open>RETURNING\<close> rows, \<open>claim_rows\<close> the common-table-expression claim
  (\<^verbatim>\<open>SELECT .. ORDER BY .. LIMIT .. FOR UPDATE SKIP LOCKED\<close>, then \<^verbatim>\<open>UPDATE .. FROM claimable\<close>).
  The locale \<open>lease_queue\<close> is the contract of a queue row: what leasing it to a worker, failing it
  and expiring its lease do. Its lemmas are the queue's correctness, proved once; \<open>CoreWork\<close>,
  \<open>BodySyncQueue\<close> and \<open>FrontierQueue\<close> interpret it on their own rows.
\<close>

section \<open>Statements on tables\<close>

datatype queue_status = Pending | Processing | Done | Failed | Dead

definition sql_update :: "('r \<Rightarrow> bool) \<Rightarrow> ('r \<Rightarrow> 'r) \<Rightarrow> 'r list \<Rightarrow> 'r list" where
  "sql_update p f t = map (\<lambda>r. if p r then f r else r) t"

definition sql_returning :: "('r \<Rightarrow> bool) \<Rightarrow> ('r \<Rightarrow> 'r) \<Rightarrow> 'r list \<Rightarrow> 'r list" where
  "sql_returning p f t = map f (filter p t)"

definition sql_count :: "('r \<Rightarrow> bool) \<Rightarrow> 'r list \<Rightarrow> int" where
  "sql_count p t = int (length (filter p t))"

definition sql_exists :: "('r \<Rightarrow> bool) \<Rightarrow> 'r list \<Rightarrow> bool" where
  "sql_exists p t \<longleftrightarrow> list_ex p t"

text \<open>\<^verbatim>\<open>ORDER BY ord LIMIT n\<close>; ties are resolved by the order of the table.\<close>

definition sql_top :: "('r \<Rightarrow> 'o::linorder) \<Rightarrow> nat \<Rightarrow> 'r list \<Rightarrow> 'r list" where
  "sql_top ord n t = take n (sort_key ord t)"

definition claim_rows ::
  "('r \<Rightarrow> string) \<Rightarrow> ('r \<Rightarrow> 'k) \<Rightarrow> string \<Rightarrow> ('r \<Rightarrow> bool) \<Rightarrow> ('r \<Rightarrow> 'o::linorder) \<Rightarrow> nat \<Rightarrow> ('r \<Rightarrow> 'r)
     \<Rightarrow> 'r list \<Rightarrow> 'r list \<times> 'r list" where
  "claim_rows acct key a ok ord n upd t =
     (let claimable = map key (sql_top ord n (filter (\<lambda>r. acct r = a \<and> ok r) t));
          hit = (\<lambda>r. acct r = a \<and> key r \<in> set claimable)
      in (sql_update hit upd t, sql_returning hit upd t))"

definition uniq :: "('r \<Rightarrow> 'k) \<Rightarrow> 'r list \<Rightarrow> bool" where
  "uniq k t \<longleftrightarrow> distinct (map k t)"

lemma length_sql_update [simp, table_simps]: "length (sql_update p f t) = length t"
  by (simp add: sql_update_def)

lemma set_sql_update [table_simps]:
  "set (sql_update p f t) = f ` {r \<in> set t. p r} \<union> {r \<in> set t. \<not> p r}"
  by (auto simp: sql_update_def)

lemma sql_update_Nil [simp]: "sql_update p f [] = []"
  by (simp add: sql_update_def)

lemma sql_update_Cons [simp]:
  "sql_update p f (r # t) = (if p r then f r else r) # sql_update p f t"
  by (simp add: sql_update_def)

lemma map_sql_update [table_simps]:
  "(\<And>r. p r \<Longrightarrow> k (f r) = k r) \<Longrightarrow> map k (sql_update p f t) = map k t"
  by (simp add: sql_update_def)

lemma uniq_sql_update [intro]:
  "(\<And>r. p r \<Longrightarrow> k (f r) = k r) \<Longrightarrow> uniq k t \<Longrightarrow> uniq k (sql_update p f t)"
  by (simp add: uniq_def map_sql_update)

lemma sql_update_all:
  "(\<And>r. r \<in> set t \<Longrightarrow> P r) \<Longrightarrow> (\<And>r. r \<in> set t \<Longrightarrow> P r \<Longrightarrow> p r \<Longrightarrow> P (f r))
     \<Longrightarrow> \<forall>r \<in> set (sql_update p f t). P r"
  by (auto simp: sql_update_def)

lemma sql_count_nonneg [simp]: "0 \<le> sql_count p t"
  by (simp add: sql_count_def)

lemma sql_count_pos_iff [table_simps]: "0 < sql_count p t \<longleftrightarrow> sql_exists p t"
  by (auto simp: sql_count_def sql_exists_def list_ex_iff filter_empty_conv)

lemma sql_exists_iff [table_simps]: "sql_exists p t \<longleftrightarrow> (\<exists>r \<in> set t. p r)"
  by (simp add: sql_exists_def list_ex_iff)

lemma uniq_inj: "uniq k t \<Longrightarrow> r \<in> set t \<Longrightarrow> s \<in> set t \<Longrightarrow> k r = k s \<Longrightarrow> r = s"
  by (auto simp: uniq_def distinct_map dest: inj_onD)

lemma uniq_filter_single: "uniq k t \<Longrightarrow> r \<in> set t \<Longrightarrow> filter (\<lambda>s. k s = k r) t = [r]"
  by (induction t) (auto simp: uniq_def filter_empty_conv image_iff)

lemma filter_sql_update:
  "(\<And>r. p r \<Longrightarrow> q (f r) = q r) \<Longrightarrow> filter q (sql_update p f t) = sql_update p f (filter q t)"
  by (induction t) (auto simp: sql_update_def)

lemma filter_sql_update_other:
  "(\<And>r. p r \<Longrightarrow> \<not> q r \<and> \<not> q (f r)) \<Longrightarrow> filter q (sql_update p f t) = filter q t"
  by (induction t) (auto simp: sql_update_def)

lemma sql_update_id: "(\<And>r. r \<in> set t \<Longrightarrow> \<not> p r) \<Longrightarrow> sql_update p f t = t"
  by (auto simp: sql_update_def intro: map_idI)

lemma uniq_distinct: "uniq k t \<Longrightarrow> distinct t"
  by (simp add: uniq_def distinct_map)

lemma uniq_snoc: "uniq k (t @ [r]) \<longleftrightarrow> uniq k t \<and> k r \<notin> k ` set t"
  by (auto simp: uniq_def)

section \<open>What a claim selects\<close>

lemma set_sql_top_subset: "set (sql_top ord n t) \<subseteq> set t"
  using set_take_subset [of n "sort_key ord t"] by (simp add: sql_top_def)

lemma sql_top_le:
  assumes "r \<in> set (sql_top ord n t)" "s \<in> set t" "s \<notin> set (sql_top ord n t)"
  shows "ord r \<le> ord s"
proof -
  let ?xs = "sort_key ord t"
  have "s \<in> set (take n ?xs) \<union> set (drop n ?xs)"
    using assms(2) by (simp only: set_append [symmetric] append_take_drop_id set_sort)
  with assms(3) have s: "s \<in> set (drop n ?xs)" by (simp add: sql_top_def)
  have "sorted (map ord (take n ?xs) @ map ord (drop n ?xs))"
    by (simp only: map_append [symmetric] append_take_drop_id) simp
  then have "\<forall>x \<in> set (map ord (take n ?xs)). \<forall>y \<in> set (map ord (drop n ?xs)). x \<le> y"
    unfolding sorted_append by blast
  with s assms(1) show ?thesis by (auto simp: sql_top_def)
qed

lemma length_sql_top: "length (sql_top ord n t) = min n (length t)"
  by (simp add: sql_top_def min.commute)

lemma distinct_sql_top: "distinct t \<Longrightarrow> distinct (sql_top ord n t)"
  by (simp add: sql_top_def)

text \<open>
  With unique keys the rows a claim updates are exactly the selected ones.
\<close>

definition claimed_set ::
  "('r \<Rightarrow> string) \<Rightarrow> string \<Rightarrow> ('r \<Rightarrow> bool) \<Rightarrow> ('r \<Rightarrow> 'o::linorder) \<Rightarrow> nat \<Rightarrow> 'r list \<Rightarrow> 'r set" where
  "claimed_set acct a ok ord n t = set (sql_top ord n (filter (\<lambda>r. acct r = a \<and> ok r) t))"

lemma claimed_set_ready:
  "r \<in> claimed_set acct a ok ord n t \<Longrightarrow> r \<in> set t \<and> acct r = a \<and> ok r"
  using set_sql_top_subset [of ord n "filter (\<lambda>r. acct r = a \<and> ok r) t"]
  by (auto simp: claimed_set_def)

lemma claim_rows_unfold:
  assumes "uniq (\<lambda>r. (acct r, key r)) t"
  shows "claim_rows acct key a ok ord n upd t =
    (sql_update (\<lambda>r. r \<in> claimed_set acct a ok ord n t) upd t,
     sql_returning (\<lambda>r. r \<in> claimed_set acct a ok ord n t) upd t)"
proof -
  let ?sel = "claimed_set acct a ok ord n t"
  have hit: "(acct r = a \<and> key r \<in> key ` ?sel) \<longleftrightarrow> r \<in> ?sel" if "r \<in> set t" for r
  proof
    assume "acct r = a \<and> key r \<in> key ` ?sel"
    then obtain s where s: "s \<in> ?sel" "key r = key s" "acct r = a" by auto
    with claimed_set_ready [OF s(1)] have "s \<in> set t" "acct s = a" by auto
    with s that have "r = s" using uniq_inj [OF assms, of r s] by simp
    with s show "r \<in> ?sel" by simp
  next
    assume "r \<in> ?sel"
    with claimed_set_ready [of r acct a ok ord n t] show "acct r = a \<and> key r \<in> key ` ?sel" by simp
  qed
  have "sql_update (\<lambda>r. acct r = a \<and> key r \<in> key ` ?sel) upd t = sql_update (\<lambda>r. r \<in> ?sel) upd t"
    unfolding sql_update_def by (rule map_cong) (auto simp: hit)
  moreover have "filter (\<lambda>r. acct r = a \<and> key r \<in> key ` ?sel) t = filter (\<lambda>r. r \<in> ?sel) t"
    by (rule filter_cong) (auto simp: hit)
  ultimately show ?thesis
    by (simp add: claim_rows_def Let_def claimed_set_def sql_returning_def)
qed

lemma claimed_set_length:
  assumes "distinct t"
  shows "length (filter (\<lambda>r. r \<in> claimed_set acct a ok ord n t) t)
           = min n (length (filter (\<lambda>r. acct r = a \<and> ok r) t))"
proof -
  let ?top = "sql_top ord n (filter (\<lambda>r. acct r = a \<and> ok r) t)"
  let ?hit = "filter (\<lambda>r. r \<in> claimed_set acct a ok ord n t) t"
  have sub: "claimed_set acct a ok ord n t \<subseteq> set t" by (auto dest: claimed_set_ready)
  have "distinct ?hit" "distinct ?top" using assms by (simp_all add: distinct_sql_top)
  note card_eqs = this [THEN distinct_card]
  have "set ?hit = set ?top" using sub by (auto simp: claimed_set_def)
  with card_eqs have "length ?hit = length ?top" by argo
  then show ?thesis by (simp only: length_sql_top)
qed

section \<open>The contract of a queue row\<close>

locale lease_queue =
  fixes acct :: "'r \<Rightarrow> string"
    and key :: "'r \<Rightarrow> 'k"
    and status :: "'r \<Rightarrow> queue_status"
    and attempts :: "'r \<Rightarrow> int"
    and available :: "'r \<Rightarrow> timestamp"
    and locked :: "'r \<Rightarrow> timestamp option"
    and worker :: "'r \<Rightarrow> string option"
    and lease :: "timestamp \<Rightarrow> string \<Rightarrow> 'r \<Rightarrow> 'r"
    and fail_with :: "timestamp \<Rightarrow> queue_status \<Rightarrow> int \<Rightarrow> string \<Rightarrow> 'r \<Rightarrow> 'r"
    and expire :: "timestamp \<Rightarrow> 'r \<Rightarrow> 'r"
  assumes lease_id: "acct (lease now w r) = acct r \<and> key (lease now w r) = key r"
    and lease_state: "status (lease now w r) = Processing \<and> attempts (lease now w r) = attempts r + 1"
    and lease_owner: "locked (lease now w r) = Some now \<and> worker (lease now w r) = Some w"
    and fail_id: "acct (fail_with now st d e r) = acct r \<and> key (fail_with now st d e r) = key r"
    and fail_state: "status (fail_with now st d e r) = st \<and> attempts (fail_with now st d e r) = attempts r"
    and fail_owner: "locked (fail_with now st d e r) = None \<and> worker (fail_with now st d e r) = None"
    and fail_available:
      "available (fail_with now st d e r) = (if st = Failed then now + secs d else available r)"
    and expire_id: "acct (expire now r) = acct r \<and> key (expire now r) = key r"
    and expire_state: "status (expire now r) = Failed \<and> attempts (expire now r) = attempts r"
    and expire_owner: "locked (expire now r) = None \<and> worker (expire now r) = None"
    and expire_available: "available (expire now r) = now"
begin

lemmas row_laws [simp] =
  lease_id lease_state lease_owner fail_id fail_state fail_owner fail_available
  expire_id expire_state expire_owner expire_available

text \<open>Ready to be claimed at \<open>now\<close>; \<open>skip\<close> are the keys other transactions hold locked.\<close>

definition ready :: "timestamp \<Rightarrow> ('k \<Rightarrow> bool) \<Rightarrow> 'r \<Rightarrow> bool" where
  "ready now skip r \<longleftrightarrow> status r \<in> {Pending, Failed} \<and> available r \<le> now \<and> \<not> skip (key r)"

text \<open>Exactly the processing rows have a lock and an owner.\<close>

definition lease_ok :: "'r \<Rightarrow> bool" where
  "lease_ok r \<longleftrightarrow> (status r = Processing \<longleftrightarrow> locked r \<noteq> None) \<and> (status r = Processing \<longleftrightarrow> worker r \<noteq> None)"

lemma lease_ok_ops [simp, intro]:
  "lease_ok (lease now w r)"
  "st \<noteq> Processing \<Longrightarrow> lease_ok (fail_with now st d e r)"
  "lease_ok (expire now r)"
  by (auto simp: lease_ok_def)

text \<open>The claim of up to \<open>n\<close> ready rows of account \<open>a\<close> by worker \<open>w\<close>, in the order \<open>ord\<close>.\<close>

definition claim ::
  "string \<Rightarrow> ('r \<Rightarrow> bool) \<Rightarrow> ('r \<Rightarrow> 'o::linorder) \<Rightarrow> nat \<Rightarrow> timestamp \<Rightarrow> string \<Rightarrow> 'r list \<Rightarrow> 'r list \<times> 'r list"
  where "claim a ok ord n now w t = claim_rows acct key a ok ord n (lease now w) t"

lemma uniq_ops:
  "uniq (\<lambda>r. (acct r, key r)) (sql_update p (lease now w) t) = uniq (\<lambda>r. (acct r, key r)) t"
  "uniq (\<lambda>r. (acct r, key r)) (sql_update p (fail_with now st d e) t) = uniq (\<lambda>r. (acct r, key r)) t"
  "uniq (\<lambda>r. (acct r, key r)) (sql_update p (expire now) t) = uniq (\<lambda>r. (acct r, key r)) t"
  by (simp_all add: uniq_def map_sql_update)

text \<open>The rows a claim returns are leased to the worker, one attempt later than a ready row.\<close>

lemma claim_returns_leased:
  assumes u: "uniq (\<lambda>r. (acct r, key r)) t" and c: "claim a ok ord n now w t = (t', rs)" and r: "r \<in> set rs"
  shows "\<exists>r0 \<in> set t. r = lease now w r0 \<and> acct r0 = a \<and> ok r0"
    and "status r = Processing" and "worker r = Some w" and "locked r = Some now" and "r \<in> set t'"
proof -
  from c r obtain r0 where r0: "r0 \<in> claimed_set acct a ok ord n t" "r = lease now w r0"
    by (auto simp: claim_def claim_rows_unfold [OF u] sql_returning_def)
  with claimed_set_ready [OF r0(1)] show "\<exists>r0 \<in> set t. r = lease now w r0 \<and> acct r0 = a \<and> ok r0"
    by blast
  from r0 show "status r = Processing" "worker r = Some w" "locked r = Some now" by simp_all
  from c r0 claimed_set_ready [OF r0(1)] show "r \<in> set t'"
    by (auto simp: claim_def claim_rows_unfold [OF u] set_sql_update)
qed

lemma claim_length:
  assumes u: "uniq (\<lambda>r. (acct r, key r)) t" and c: "claim a ok ord n now w t = (t', rs)"
  shows "length rs = min n (length (filter (\<lambda>r. acct r = a \<and> ok r) t))" and "length t' = length t"
  using c claimed_set_length [OF uniq_distinct [OF u], of acct a ok ord n]
  by (auto simp: claim_def claim_rows_unfold [OF u] sql_returning_def)

lemma claim_uniq:
  assumes u: "uniq (\<lambda>r. (acct r, key r)) t" and c: "claim a ok ord n now w t = (t', rs)"
  shows "uniq (\<lambda>r. (acct r, key r)) t'"
  using c u by (auto simp: claim_def claim_rows_unfold [OF u] uniq_ops)

lemma claim_lease_ok:
  assumes u: "uniq (\<lambda>r. (acct r, key r)) t" and c: "claim a ok ord n now w t = (t', rs)"
    and ok: "\<forall>r \<in> set t. lease_ok r"
  shows "\<forall>r \<in> set t'. lease_ok r"
  using c ok by (auto simp: claim_def claim_rows_unfold [OF u] set_sql_update)

text \<open>Rows a claim does not return are unchanged.\<close>

lemma claim_frame:
  assumes u: "uniq (\<lambda>r. (acct r, key r)) t" and c: "claim a ok ord n now w t = (t', rs)"
    and r: "r \<in> set t'" "r \<notin> set rs"
  shows "r \<in> set t"
  using c r by (auto simp: claim_def claim_rows_unfold [OF u] set_sql_update sql_returning_def)

text \<open>Priority: a ready row that was passed over is not before any claimed one.\<close>

lemma claim_priority:
  assumes u: "uniq (\<lambda>r. (acct r, key r)) t" and c: "claim a ok ord n now w t = (t', rs)"
    and r: "r \<in> set rs" and s: "s \<in> set t" "acct s = a" "ok s" "s \<in> set t'"
    and ns: "status s \<noteq> Processing"
  shows "\<exists>r0 \<in> set t. r = lease now w r0 \<and> ord r0 \<le> ord s"
proof -
  from c r obtain r0 where r0: "r0 \<in> claimed_set acct a ok ord n t" "r = lease now w r0"
    by (auto simp: claim_def claim_rows_unfold [OF u] sql_returning_def)
  have "s \<notin> claimed_set acct a ok ord n t"
  proof
    assume sc: "s \<in> claimed_set acct a ok ord n t"
    from c s(4) obtain s0 where "s0 \<in> set t"
      and "s = (if s0 \<in> claimed_set acct a ok ord n t then lease now w s0 else s0)"
      by (auto simp: claim_def claim_rows_unfold [OF u] sql_update_def)
    with sc ns show False by (auto split: if_splits)
  qed
  with r0 s have "ord r0 \<le> ord s"
    by (auto simp: claimed_set_def intro: sql_top_le)
  with r0 claimed_set_ready [OF r0(1)] show ?thesis by blast
qed

text \<open>Exclusion: two claims in a row never return the same key, whoever makes the second.\<close>

lemma claim_exclusive:
  assumes u: "uniq (\<lambda>r. (acct r, key r)) t" and c: "claim a ok ord n now w t = (t', rs)"
    and c': "claim a' ok' ord' n' now' w' t' = (t'', rs')"
    and ok': "\<And>r. ok' r \<Longrightarrow> status r \<in> {Pending, Failed}"
    and r: "r \<in> set rs" and s: "s \<in> set rs'"
  shows "(acct r, key r) \<noteq> (acct s, key s)"
proof
  assume eq: "(acct r, key r) = (acct s, key s)"
  have u': "uniq (\<lambda>r. (acct r, key r)) t'" by (rule claim_uniq [OF u c])
  from claim_returns_leased(1) [OF u' c' s] obtain s0 where s0: "s0 \<in> set t'" "s = lease now' w' s0" "ok' s0"
    by blast
  have "r \<in> set t'" by (rule claim_returns_leased(5) [OF u c r])
  with s0 eq uniq_inj [OF u', of r s0] have "r = s0" by simp
  with claim_returns_leased(2) [OF u c r] ok' [OF s0(3)] show False by simp
qed

lemma claim_progress:
  assumes u: "uniq (\<lambda>r. (acct r, key r)) t" and c: "claim a ok ord n now w t = (t', rs)"
    and n: "0 < n" and r: "r \<in> set t" "acct r = a" "ok r"
  shows "rs \<noteq> []"
proof -
  have "0 < length (filter (\<lambda>r. acct r = a \<and> ok r) t)" using r by (auto simp: filter_empty_conv)
  with n have "0 < min n (length (filter (\<lambda>r. acct r = a \<and> ok r) t))" by simp
  then have "0 < length rs" by (simp only: claim_length(1) [OF u c])
  then show ?thesis by simp
qed

text \<open>One attempt that fails: lease, then retry or bury, as the callers of the queue do it.\<close>

definition attempt :: "int \<Rightarrow> timestamp \<Rightarrow> int \<Rightarrow> string \<Rightarrow> string \<Rightarrow> 'r \<Rightarrow> 'r" where
  "attempt max_attempts now d e w r =
     (let r1 = lease now w r in fail_with now (if attempts r1 \<ge> max_attempts then Dead else Failed) d e r1)"

lemma attempts_iterate: "attempts ((attempt m now d e w ^^ k) r) = attempts r + int k"
  by (induction k) (simp_all add: attempt_def Let_def)

text \<open>The retry budget is exact: the row is buried by the attempt that reaches the limit, not before.\<close>

lemma retry_budget:
  "status ((attempt m now d e w ^^ Suc k) r) = (if attempts r + int (Suc k) \<ge> m then Dead else Failed)"
  by (simp add: attempt_def Let_def attempts_iterate algebra_simps)

text \<open>A worker that dies instead: lease, then the lease expires.\<close>

definition crash :: "timestamp \<Rightarrow> string \<Rightarrow> 'r \<Rightarrow> 'r" where
  "crash now w r = expire now (lease now w r)"

lemma crash_iterate:
  "status ((crash now w ^^ Suc k) r) = Failed"
  "attempts ((crash now w ^^ k) r) = attempts r + int k"
  by (induction k) (simp_all add: crash_def)

end

end
