(* ===== verification/Json.thy ===== *)
theory Json
  imports Prelude
begin

text \<open>
  JSON values as \<^verbatim>\<open>serde_json::Value\<close> holds them. A number is an integer (\<^verbatim>\<open>i64\<close> or \<^verbatim>\<open>u64\<close>) or a
  finite float, the latter as the rational it denotes; an object is the list of its entries with
  the keys distinct. The accessors are the ones of the crate the code calls.
\<close>

datatype json =
    JNull
  | JBool bool
  | JInt int
  | JFloat rat
  | JString string
  | JArray "json list"
  | JObject "(string \<times> json) list"

definition jget :: "string \<Rightarrow> json \<Rightarrow> json option" where
  "jget k v = (case v of JObject kvs \<Rightarrow> map_of kvs k | _ \<Rightarrow> None)"

definition as_str :: "json \<Rightarrow> string option" where
  "as_str v = (case v of JString s \<Rightarrow> Some s | _ \<Rightarrow> None)"

definition as_bool :: "json \<Rightarrow> bool option" where
  "as_bool v = (case v of JBool b \<Rightarrow> Some b | _ \<Rightarrow> None)"

definition as_u64 :: "json \<Rightarrow> int option" where
  "as_u64 v = (case v of JInt n \<Rightarrow> (if 0 \<le> n then Some n else None) | _ \<Rightarrow> None)"

definition as_f64 :: "json \<Rightarrow> rat option" where
  "as_f64 v = (case v of JInt n \<Rightarrow> Some (of_int n) | JFloat q \<Rightarrow> Some q | _ \<Rightarrow> None)"

definition as_array :: "json \<Rightarrow> json list option" where
  "as_array v = (case v of JArray xs \<Rightarrow> Some xs | _ \<Rightarrow> None)"

definition is_array :: "json \<Rightarrow> bool" where
  "is_array v = (case v of JArray _ \<Rightarrow> True | _ \<Rightarrow> False)"

definition get_str :: "string \<Rightarrow> json \<Rightarrow> string option" where
  "get_str k v = Option.bind (jget k v) as_str"

definition get_f64 :: "string \<Rightarrow> json \<Rightarrow> rat option" where
  "get_f64 k v = Option.bind (jget k v) as_f64"

lemmas json_defs = jget_def as_str_def as_bool_def as_u64_def as_f64_def as_array_def is_array_def
  get_str_def get_f64_def

end
