(* ===== verification/SubagentState.thy ===== *)
theory SubagentState
  imports LeaseQueue Json
begin

text \<open>
  \<^verbatim>\<open>src/database/subagent_state.rs\<close>: the tables of sub-agent tasks, results, skill lessons and
  assistant insights, and the statements on them. A row record has the columns the statements
  read or write; \<open>subagent_tables\<close> is the four tables with the sequence of \<^verbatim>\<open>result_id\<close>. Columns under a \<^verbatim>\<open>CHECK\<close>
  (the statuses) are datatypes. Counters are unbounded integers.
\<close>

section \<open>Records\<close>

datatype task_status = TPending | TRunning | TCompleted | TFailed | TCancelled

record subagent_task_record =
  tr_task_id :: string
  tr_task_kind :: string
  tr_worker_name :: string
  tr_skill_bundle :: string
  tr_message_ids :: "string list"
  tr_input_context :: json
  tr_priority :: int
  tr_correlation_id :: string
  tr_created_by :: string

record subagent_task_row =
  st_account :: string
  st_task :: subagent_task_record
  st_status :: task_status
  st_core_work_id :: "int option"
  st_error :: "string option"
  st_started :: "timestamp option"
  st_finished :: "timestamp option"
  st_updated :: timestamp

record subagent_result_record =
  sr_task_id :: string
  sr_worker_name :: string
  sr_task_kind :: string
  sr_result :: json
  sr_confidence :: "rat option"
  sr_evidence :: json
  sr_recommended_actions :: json
  sr_requires_review :: bool
  sr_agent_run_id :: "string option"

datatype lesson_status = LCandidate | LActive | LPaused | LSuperseded | LDiscarded

record skill_lesson =
  sl_skill_bundle :: string
  sl_lesson_key :: string
  sl_lesson_type :: string
  sl_status :: lesson_status
  sl_summary :: string
  sl_evidence :: json
  sl_score :: "rat option"
  sl_support_count :: int
  sl_negative_count :: int
  sl_source_task_id :: "string option"
  sl_source_result_id :: "int option"
  sl_source_run_id :: "string option"
  sl_worker_name :: "string option"
  sl_agent_spec_version :: "string option"

record skill_lesson_row =
  lr_account :: string
  lr_lesson :: skill_lesson
  lr_promoted_at :: "timestamp option"
  lr_last_seen_at :: timestamp
  lr_last_used_at :: "timestamp option"
  lr_updated_at :: timestamp

record assistant_insight =
  ai_account :: string
  ai_insight_type :: string
  ai_severity :: string
  ai_message :: string
  ai_related_message_id :: "string option"
  ai_related_folder :: "string option"
  ai_metadata :: json

record subagent_tables =
  sa_tasks :: "subagent_task_row list"
  sa_results :: "(string \<times> int \<times> subagent_result_record) list"
  sa_next_result :: int
  sa_lessons :: "skill_lesson_row list"
  sa_insights :: "assistant_insight list"

section \<open>Tasks\<close>

definition task_key :: "subagent_task_row \<Rightarrow> string \<times> string" where
  "task_key r = (st_account r, tr_task_id (st_task r))"

text \<open>The row an \<^verbatim>\<open>INSERT\<close> makes, and the \<^verbatim>\<open>ON CONFLICT (account_id, task_id) DO UPDATE\<close>.\<close>

definition new_task_row ::
  "timestamp \<Rightarrow> string \<Rightarrow> subagent_task_record \<Rightarrow> int option \<Rightarrow> task_status \<Rightarrow> subagent_task_row" where
  "new_task_row now account task core_work status =
     \<lparr>st_account = account, st_task = task, st_status = status, st_core_work_id = core_work,
      st_error = None, st_started = (if status = TRunning then Some now else None),
      st_finished = None, st_updated = now\<rparr>"

definition conflict_task_row ::
  "timestamp \<Rightarrow> subagent_task_record \<Rightarrow> int option \<Rightarrow> task_status \<Rightarrow> subagent_task_row \<Rightarrow> subagent_task_row" where
  "conflict_task_row now task core_work status r =
     r\<lparr>st_task := task, st_status := status,
       st_core_work_id := (case core_work of Some w \<Rightarrow> Some w | None \<Rightarrow> st_core_work_id r),
       st_started :=
         (if status = TRunning then (case st_started r of Some t \<Rightarrow> Some t | None \<Rightarrow> Some now)
          else if status = TPending then None else st_started r),
       st_finished :=
         (if status \<in> {TPending, TRunning} then None
          else if status \<in> {TCompleted, TFailed, TCancelled} then Some now else st_finished r),
       st_error := (if status \<in> {TPending, TRunning} then None else st_error r),
       st_updated := now\<rparr>"

definition upsert_subagent_task ::
  "timestamp \<Rightarrow> string \<Rightarrow> subagent_task_record \<Rightarrow> int option \<Rightarrow> task_status
     \<Rightarrow> subagent_task_row list \<Rightarrow> int \<times> subagent_task_row list" where
  "upsert_subagent_task now account task core_work status t =
     (let same = (\<lambda>r. task_key r = (account, tr_task_id task)) in
      if sql_exists same t then (1, sql_update same (conflict_task_row now task core_work status) t)
      else (1, t @ [new_task_row now account task core_work status]))"

definition mark_subagent_task_finished ::
  "timestamp \<Rightarrow> string \<Rightarrow> string \<Rightarrow> task_status \<Rightarrow> string option
     \<Rightarrow> subagent_task_row list \<Rightarrow> int \<times> subagent_task_row list" where
  "mark_subagent_task_finished now account task_id status error t =
     (let same = (\<lambda>r. task_key r = (account, task_id)) in
      (sql_count same t,
       sql_update same (\<lambda>r. r\<lparr>st_status := status, st_error := error,
                             st_finished := Some now, st_updated := now\<rparr>) t))"

definition insert_subagent_result ::
  "string \<Rightarrow> subagent_result_record \<Rightarrow> subagent_tables \<Rightarrow> int \<times> subagent_tables" where
  "insert_subagent_result account res s =
     (sa_next_result s,
      s\<lparr>sa_results := sa_results s @ [(account, sa_next_result s, res)],
        sa_next_result := sa_next_result s + 1\<rparr>)"

definition insert_assistant_insight :: "assistant_insight \<Rightarrow> subagent_tables \<Rightarrow> int \<times> subagent_tables" where
  "insert_assistant_insight i s = (1, s\<lparr>sa_insights := sa_insights s @ [i]\<rparr>)"

text \<open>
  The consistency of a task row: it is finished exactly in the three final states, and a
  running row has a start.
\<close>

definition task_row_ok :: "subagent_task_row \<Rightarrow> bool" where
  "task_row_ok r \<longleftrightarrow>
     (st_status r \<in> {TPending, TRunning} \<longrightarrow> st_finished r = None) \<and>
     (st_status r = TRunning \<longrightarrow> st_started r \<noteq> None) \<and>
     (st_status r = TPending \<longrightarrow> st_started r = None)"

lemma task_key_conflict [simp]:
  "task_key (conflict_task_row now task w st r) = (st_account r, tr_task_id task)"
  by (simp add: task_key_def conflict_task_row_def)

lemma task_key_new [simp]: "task_key (new_task_row now a task w st) = (a, tr_task_id task)"
  by (simp add: task_key_def new_task_row_def)

lemma task_row_ok_new: "task_row_ok (new_task_row now a task w st)"
  by (simp add: task_row_ok_def new_task_row_def)

lemma task_row_ok_conflict: "task_row_ok (conflict_task_row now task w st r)"
  by (auto simp: task_row_ok_def conflict_task_row_def split: option.splits)

lemma upsert_subagent_task_ok:
  assumes "\<forall>r \<in> set t. task_row_ok r" "upsert_subagent_task now a task w st t = (n, t')"
  shows "\<forall>r \<in> set t'. task_row_ok r"
  using assms task_row_ok_new task_row_ok_conflict
  by (auto simp: upsert_subagent_task_def Let_def set_sql_update split: if_splits)

lemma upsert_subagent_task_uniq:
  assumes u: "uniq task_key t" and up: "upsert_subagent_task now a task w st t = (n, t')"
  shows "uniq task_key t'"
proof (cases "sql_exists (\<lambda>r. task_key r = (a, tr_task_id task)) t")
  case True
  with up have "t' = sql_update (\<lambda>r. task_key r = (a, tr_task_id task)) (conflict_task_row now task w st) t"
    by (simp add: upsert_subagent_task_def Let_def)
  moreover have "uniq task_key \<dots>"
    using u by (intro uniq_sql_update) (auto simp: task_key_def conflict_task_row_def)
  ultimately show ?thesis by simp
next
  case False
  with u up show ?thesis
    by (auto simp: upsert_subagent_task_def Let_def uniq_snoc sql_exists_iff image_iff) metis
qed

section \<open>Skill lessons\<close>

text \<open>\<^verbatim>\<open>SUBAGENT_SKILL_LESSON_PROMOTION_SUPPORT\<close>, at least two.\<close>

definition promotion_support :: "env \<Rightarrow> int" where
  "promotion_support e = max (env_parse e parse_i32 ''SUBAGENT_SKILL_LESSON_PROMOTION_SUPPORT'' 2) 2"

definition lesson_key :: "skill_lesson_row \<Rightarrow> string \<times> string \<times> string" where
  "lesson_key r = (lr_account r, sl_skill_bundle (lr_lesson r), sl_lesson_key (lr_lesson r))"

text \<open>The values the statement binds: \<open>EXCLUDED\<close> of the conflict clause.\<close>

definition excluded_lesson :: "int \<Rightarrow> skill_lesson \<Rightarrow> skill_lesson" where
  "excluded_lesson promo l =
     (let status = (if sl_status l = LActive \<and> promo \<le> sl_support_count l then LActive else LCandidate);
          support = max (max (sl_support_count l) 1) 1;
          negative = max (max (sl_negative_count l) 0) 0
      in l\<lparr>sl_status := (if status = LActive \<and> promo \<le> support \<and> negative = 0 then LActive else LCandidate),
           sl_support_count := support, sl_negative_count := negative\<rparr>)"

definition new_lesson_row :: "timestamp \<Rightarrow> string \<Rightarrow> int \<Rightarrow> skill_lesson \<Rightarrow> skill_lesson_row" where
  "new_lesson_row now account promo l =
     (let x = excluded_lesson promo l in
      \<lparr>lr_account = account, lr_lesson = x,
       lr_promoted_at = (if sl_status x = LActive then Some now else None),
       lr_last_seen_at = now, lr_last_used_at = None, lr_updated_at = now\<rparr>)"

definition coalesce :: "'a option \<Rightarrow> 'a option \<Rightarrow> 'a option" where
  "coalesce a b = (case a of Some x \<Rightarrow> Some x | None \<Rightarrow> b)"

definition conflict_lesson_row ::
  "timestamp \<Rightarrow> int \<Rightarrow> skill_lesson \<Rightarrow> skill_lesson_row \<Rightarrow> skill_lesson_row" where
  "conflict_lesson_row now promo l r =
     (let x = excluded_lesson promo l; old = lr_lesson r;
          support = sl_support_count old + sl_support_count x;
          negative = sl_negative_count old + sl_negative_count x;
          frozen = sl_status old \<in> {LPaused, LSuperseded, LDiscarded}
      in r\<lparr>lr_lesson := old\<lparr>
             sl_lesson_type := sl_lesson_type x,
             sl_status := (if frozen then sl_status old else if negative > 0 then LCandidate
                           else if promo \<le> support then LActive else LCandidate),
             sl_summary := sl_summary x,
             sl_evidence := (if sl_evidence x = JArray [] then sl_evidence old else sl_evidence x),
             sl_score := coalesce (sl_score x) (sl_score old),
             sl_support_count := support,
             sl_negative_count := negative,
             sl_source_task_id := coalesce (sl_source_task_id x) (sl_source_task_id old),
             sl_source_result_id := coalesce (sl_source_result_id x) (sl_source_result_id old),
             sl_source_run_id := coalesce (sl_source_run_id x) (sl_source_run_id old),
             sl_worker_name := coalesce (sl_worker_name x) (sl_worker_name old),
             sl_agent_spec_version := coalesce (sl_agent_spec_version x) (sl_agent_spec_version old)\<rparr>,
           lr_promoted_at :=
             (if lr_promoted_at r = None \<and> sl_status old \<noteq> LActive \<and> \<not> frozen \<and> negative = 0 \<and> promo \<le> support
              then Some now else lr_promoted_at r),
           lr_last_seen_at := now, lr_updated_at := now\<rparr>)"

definition upsert_skill_lesson ::
  "timestamp \<Rightarrow> env \<Rightarrow> string \<Rightarrow> skill_lesson \<Rightarrow> skill_lesson_row list \<Rightarrow> int \<times> skill_lesson_row list" where
  "upsert_skill_lesson now e account l t =
     (let promo = promotion_support e;
          same = (\<lambda>r. lesson_key r = (account, sl_skill_bundle l, sl_lesson_key l)) in
      if sql_exists same t then (1, sql_update same (conflict_lesson_row now promo l) t)
      else (1, t @ [new_lesson_row now account promo l]))"

text \<open>
  The lessons injected into a worker run: the active ones of the bundle, best supported first,
  at most 50; listing them stamps \<^verbatim>\<open>last_used_at\<close>.
\<close>

definition list_active_skill_lessons ::
  "timestamp \<Rightarrow> string \<Rightarrow> string \<Rightarrow> int \<Rightarrow> skill_lesson_row list \<Rightarrow> skill_lesson list \<times> skill_lesson_row list" where
  "list_active_skill_lessons now account bundle max_n t =
     (let sel = sql_top (\<lambda>r. (- sl_support_count (lr_lesson r), - lr_updated_at r)) (nat (clamp 1 50 max_n))
                  (filter (\<lambda>r. lr_account r = account \<and> sl_skill_bundle (lr_lesson r) = bundle
                               \<and> sl_status (lr_lesson r) = LActive) t);
          keys = map (\<lambda>r. sl_lesson_key (lr_lesson r)) sel
      in (map lr_lesson sel,
          if keys = [] then t
          else sql_update (\<lambda>r. lr_account r = account \<and> sl_skill_bundle (lr_lesson r) = bundle
                               \<and> sl_lesson_key (lr_lesson r) \<in> set keys)
                 (\<lambda>r. r\<lparr>lr_last_used_at := Some now\<rparr>) t))"

text \<open>Active lessons are unopposed and supported at least twice.\<close>

definition lesson_row_ok :: "skill_lesson_row \<Rightarrow> bool" where
  "lesson_row_ok r \<longleftrightarrow>
     1 \<le> sl_support_count (lr_lesson r) \<and> 0 \<le> sl_negative_count (lr_lesson r) \<and>
     (sl_status (lr_lesson r) = LActive \<longrightarrow>
        2 \<le> sl_support_count (lr_lesson r) \<and> sl_negative_count (lr_lesson r) = 0)"

lemma promotion_support_ge_2: "2 \<le> promotion_support e"
  by (simp add: promotion_support_def)

lemma lesson_row_ok_new: "2 \<le> promo \<Longrightarrow> lesson_row_ok (new_lesson_row now a promo l)"
  by (auto simp: lesson_row_ok_def new_lesson_row_def excluded_lesson_def Let_def)

lemma excluded_lesson_counts [simp]:
  "1 \<le> sl_support_count (excluded_lesson promo l)" "0 \<le> sl_negative_count (excluded_lesson promo l)"
  by (simp_all add: excluded_lesson_def Let_def)

lemma lesson_row_ok_conflict:
  assumes "lesson_row_ok r" "2 \<le> promo"
  shows "lesson_row_ok (conflict_lesson_row now promo l r)"
  using assms excluded_lesson_counts [of promo l]
  by (auto simp: lesson_row_ok_def conflict_lesson_row_def Let_def simp del: excluded_lesson_counts)

lemma upsert_skill_lesson_ok:
  assumes "\<forall>r \<in> set t. lesson_row_ok r" "upsert_skill_lesson now e a l t = (n, t')"
  shows "\<forall>r \<in> set t'. lesson_row_ok r"
  using assms lesson_row_ok_new lesson_row_ok_conflict promotion_support_ge_2
  by (auto simp: upsert_skill_lesson_def Let_def set_sql_update split: if_splits)

lemma list_active_skill_lessons_ok:
  assumes "\<forall>r \<in> set t. lesson_row_ok r" "list_active_skill_lessons now a b n t = (ls, t')"
  shows "\<forall>r \<in> set t'. lesson_row_ok r"
  using assms
  by (auto simp: list_active_skill_lessons_def Let_def set_sql_update lesson_row_ok_def split: if_splits)

end
