(* ===== verification/CoreWork.thy ===== *)
theory CoreWork
  imports SubagentState
begin

text \<open>
  \<^verbatim>\<open>src/database/core_work.rs\<close>: the durable queue \<^verbatim>\<open>core_work_queue\<close>. A row is a
  \<open>core_row\<close>, the table a \<open>core_table\<close> with the sequence of its ids; each method of
  \<^verbatim>\<open>impl Database\<close> is a function of the same name, its \<^verbatim>\<open>NOW()\<close> the argument \<open>now\<close>. The
  predicate \<open>skip\<close> of a claim names the rows other transactions hold locked
  (\<^verbatim>\<open>SKIP LOCKED\<close>). Metrics and log lines are left out. The queue's contract is the
  interpretation \<open>core_q\<close> of \<open>lease_queue\<close>.
\<close>

section \<open>Data\<close>

datatype core_work_type =
    SyncFull | SyncIncremental | SyncBody | Analyze | Embed | Locate | FilePreview | FileApply
  | AssistantHeartbeat | SubagentTask

fun as_work_str :: "core_work_type \<Rightarrow> string" where
  "as_work_str SyncFull = ''sync_full''"
| "as_work_str SyncIncremental = ''sync_incremental''"
| "as_work_str SyncBody = ''sync_body''"
| "as_work_str Analyze = ''analyze''"
| "as_work_str Embed = ''embed''"
| "as_work_str Locate = ''locate''"
| "as_work_str FilePreview = ''file_preview''"
| "as_work_str FileApply = ''file_apply''"
| "as_work_str AssistantHeartbeat = ''assistant_heartbeat''"
| "as_work_str SubagentTask = ''subagent_task''"

definition work_type_from_str :: "string \<Rightarrow> core_work_type result" where
  "work_type_from_str v =
     (if v = ''sync_full'' then Inr SyncFull
      else if v = ''sync_incremental'' then Inr SyncIncremental
      else if v = ''sync_body'' then Inr SyncBody
      else if v = ''analyze'' then Inr Analyze
      else if v = ''embed'' then Inr Embed
      else if v = ''locate'' then Inr Locate
      else if v = ''file_preview'' then Inr FilePreview
      else if v = ''file_apply'' then Inr FileApply
      else if v = ''assistant_heartbeat'' then Inr AssistantHeartbeat
      else if v = ''subagent_task'' then Inr SubagentTask
      else Inl [''unknown core work type '' @ [CHR 0x27] @ v @ [CHR 0x27]])"

record core_entry =
  ce_id :: int
  ce_work_type :: core_work_type
  ce_payload :: json
  ce_attempt_count :: int
  ce_max_attempts :: int

record queue_depth =
  qd_pending :: int
  qd_failed :: int
  qd_processing :: int
  qd_dead :: int

text \<open>A row of the table; the \<^verbatim>\<open>CHECK\<close> constraints make type and status datatypes.\<close>

record core_row =
  cw_id :: int
  cw_account :: string
  cw_type :: core_work_type
  cw_key :: string
  cw_payload :: json
  cw_status :: queue_status
  cw_attempts :: int
  cw_max_attempts :: int
  cw_available :: timestamp
  cw_locked :: "timestamp option"
  cw_worker :: "string option"
  cw_error :: "string option"
  cw_created :: timestamp
  cw_updated :: timestamp
  cw_completed :: "timestamp option"

record core_table =
  ct_rows :: "core_row list"
  ct_next_id :: int

record core_status_item =
  ci_id :: int
  ci_work_type :: string
  ci_idempotency_key :: string
  ci_status :: queue_status
  ci_source :: "string option"
  ci_reason :: "string option"
  ci_attempt_count :: int
  ci_max_attempts :: int
  ci_worker_id :: "string option"
  ci_last_error :: "string option"
  ci_available_at :: timestamp
  ci_locked_at :: "timestamp option"
  ci_created_at :: timestamp
  ci_updated_at :: timestamp
  ci_completed_at :: "timestamp option"
  ci_payload :: json

record core_pipeline =
  cp_last_sync :: "timestamp option"
  cp_last_analysis :: "timestamp option"
  cp_last_locate :: "timestamp option"

record core_status_summary =
  cs_account_id :: string
  cs_state :: string
  cs_queue_depth :: queue_depth
  cs_active_work :: "core_status_item list"
  cs_recent_failures :: "core_status_item list"
  cs_recent_completed :: "core_status_item list"
  cs_pipeline :: core_pipeline
  cs_last_error :: "string option"

definition payload_text :: "json \<Rightarrow> string \<Rightarrow> string option" where
  "payload_text payload k =
     (case get_str k payload of None \<Rightarrow> None | Some s \<Rightarrow> (if trim s = [] then None else Some s))"

definition status_item_of_row :: "core_row \<Rightarrow> core_status_item" where
  "status_item_of_row r =
     \<lparr>ci_id = cw_id r, ci_work_type = as_work_str (cw_type r), ci_idempotency_key = cw_key r,
      ci_status = cw_status r,
      ci_source = (case payload_text (cw_payload r) ''requested_by'' of
                     Some s \<Rightarrow> Some s | None \<Rightarrow> payload_text (cw_payload r) ''source''),
      ci_reason = payload_text (cw_payload r) ''reason'',
      ci_attempt_count = cw_attempts r, ci_max_attempts = cw_max_attempts r,
      ci_worker_id = cw_worker r, ci_last_error = cw_error r, ci_available_at = cw_available r,
      ci_locked_at = cw_locked r, ci_created_at = cw_created r, ci_updated_at = cw_updated r,
      ci_completed_at = cw_completed r, ci_payload = cw_payload r\<rparr>"

definition core_state_from_work :: "queue_depth \<Rightarrow> core_status_item list \<Rightarrow> string" where
  "core_state_from_work depth active =
     (if qd_dead depth > 0 then ''error''
      else case active of
        item # _ \<Rightarrow>
          (let ty = ci_work_type item in
           if ty \<in> {''sync_full'', ''sync_incremental'', ''sync_body''} then ''syncing''
           else if ty \<in> {''analyze'', ''embed''} then ''analyzing''
           else if ty \<in> {''locate'', ''file_preview'', ''file_apply''} then ''locating''
           else ''working'')
      | [] \<Rightarrow>
          (if qd_failed depth > 0 then ''error''
           else if qd_pending depth > 0 then ''queued''
           else ''idle''))"

section \<open>Enqueue\<close>

text \<open>The unique key \<^verbatim>\<open>(account_id, work_type, idempotency_key)\<close>.\<close>

definition core_key :: "core_row \<Rightarrow> string \<times> core_work_type \<times> string" where
  "core_key r = (cw_account r, cw_type r, cw_key r)"

definition new_core_row ::
  "timestamp \<Rightarrow> int \<Rightarrow> string \<Rightarrow> core_work_type \<Rightarrow> string \<Rightarrow> json \<Rightarrow> core_row" where
  "new_core_row now i account ty k payload =
     \<lparr>cw_id = i, cw_account = account, cw_type = ty, cw_key = k, cw_payload = payload,
      cw_status = Pending, cw_attempts = 0, cw_max_attempts = 3, cw_available = now,
      cw_locked = None, cw_worker = None, cw_error = None, cw_created = now, cw_updated = now,
      cw_completed = None\<rparr>"

definition requeue_core_row :: "timestamp \<Rightarrow> json \<Rightarrow> core_row \<Rightarrow> core_row" where
  "requeue_core_row now payload r =
     r\<lparr>cw_payload := payload,
       cw_status := (if cw_status r = Processing then cw_status r else Pending),
       cw_attempts := (if cw_status r = Processing then cw_attempts r else 0),
       cw_available := (if cw_status r = Processing then cw_available r else now),
       cw_locked := (if cw_status r = Processing then cw_locked r else None),
       cw_worker := (if cw_status r = Processing then cw_worker r else None),
       cw_error := (if cw_status r = Processing then cw_error r else None),
       cw_completed := None,
       cw_updated := now\<rparr>"

text \<open>The id sequence advances on a conflict too: \<^verbatim>\<open>nextval\<close> is evaluated before it is found.\<close>

definition enqueue_core_work_for_account ::
  "timestamp \<Rightarrow> string \<Rightarrow> core_work_type \<Rightarrow> string \<Rightarrow> json \<Rightarrow> core_table \<Rightarrow> int \<times> core_table" where
  "enqueue_core_work_for_account now account ty k payload t =
     (let same = (\<lambda>r. core_key r = (account, ty, k));
          rows = (if sql_exists same (ct_rows t)
                  then sql_update same (requeue_core_row now payload) (ct_rows t)
                  else ct_rows t @ [new_core_row now (ct_next_id t) account ty k payload])
      in (1, \<lparr>ct_rows = rows, ct_next_id = ct_next_id t + 1\<rparr>))"

section \<open>Claim\<close>

definition claim_class :: "core_work_type \<Rightarrow> nat" where
  "claim_class ty = (if ty \<in> {AssistantHeartbeat, SubagentTask} then 1 else 0)"

fun claim_rank :: "core_work_type \<Rightarrow> nat" where
  "claim_rank SyncFull = 0"
| "claim_rank SyncBody = 1"
| "claim_rank SyncIncremental = 2"
| "claim_rank Analyze = 3"
| "claim_rank Embed = 4"
| "claim_rank Locate = 5"
| "claim_rank FilePreview = 6"
| "claim_rank FileApply = 7"
| "claim_rank AssistantHeartbeat = 8"
| "claim_rank SubagentTask = 9"

text \<open>\<^verbatim>\<open>ORDER BY\<close> class, \<^verbatim>\<open>available_at\<close>, type, id.\<close>

definition claim_order :: "core_row \<Rightarrow> nat \<times> timestamp \<times> nat \<times> int" where
  "claim_order r = (claim_class (cw_type r), cw_available r, claim_rank (cw_type r), cw_id r)"

definition core_ready :: "timestamp \<Rightarrow> (int \<Rightarrow> bool) \<Rightarrow> core_row \<Rightarrow> bool" where
  "core_ready now skip r \<longleftrightarrow>
     cw_status r \<in> {Pending, Failed} \<and> cw_available r \<le> now \<and> \<not> skip (cw_id r)"

definition lease_core_row :: "timestamp \<Rightarrow> string \<Rightarrow> core_row \<Rightarrow> core_row" where
  "lease_core_row now w r =
     r\<lparr>cw_status := Processing, cw_attempts := cw_attempts r + 1, cw_locked := Some now,
       cw_worker := Some w, cw_updated := now\<rparr>"

definition entry_of_row :: "core_row \<Rightarrow> core_entry" where
  "entry_of_row r =
     \<lparr>ce_id = cw_id r, ce_work_type = cw_type r, ce_payload = cw_payload r,
      ce_attempt_count = cw_attempts r, ce_max_attempts = cw_max_attempts r\<rparr>"

definition claim_core_work_for_account ::
  "timestamp \<Rightarrow> (int \<Rightarrow> bool) \<Rightarrow> string \<Rightarrow> string \<Rightarrow> core_table \<Rightarrow> core_entry option \<times> core_table" where
  "claim_core_work_for_account now skip account w t =
     (let (rows, claimed) =
            claim_rows cw_account cw_id account (core_ready now skip) claim_order 1
              (lease_core_row now w) (ct_rows t)
      in (case claimed of [] \<Rightarrow> None | r # _ \<Rightarrow> Some (entry_of_row r), t\<lparr>ct_rows := rows\<rparr>))"

definition claim_core_work_batch_for_account ::
  "timestamp \<Rightarrow> (int \<Rightarrow> bool) \<Rightarrow> string \<Rightarrow> string \<Rightarrow> core_work_type \<Rightarrow> nat \<Rightarrow> core_table
     \<Rightarrow> core_entry list \<times> core_table" where
  "claim_core_work_batch_for_account now skip account w ty n t =
     (let (rows, claimed) =
            claim_rows cw_account cw_id account (\<lambda>r. cw_type r = ty \<and> core_ready now skip r)
              (\<lambda>r. (cw_available r, cw_id r)) n (lease_core_row now w) (ct_rows t)
      in (map entry_of_row claimed, t\<lparr>ct_rows := rows\<rparr>))"

definition core_work_due_for_account ::
  "timestamp \<Rightarrow> string \<Rightarrow> core_work_type \<Rightarrow> string \<Rightarrow> int \<Rightarrow> core_table \<Rightarrow> bool" where
  "core_work_due_for_account now account ty k interval t =
     (case find_opt (\<lambda>r. core_key r = (account, ty, k)) (ct_rows t) of
        None \<Rightarrow> True
      | Some r \<Rightarrow>
          (if cw_status r \<in> {Pending, Processing, Failed} then False
           else case cw_completed r of
             None \<Rightarrow> True
           | Some completed \<Rightarrow> completed \<le> now - secs (max interval 1)))"

section \<open>Completion, retry, recovery\<close>

definition at_core_id :: "string \<Rightarrow> int \<Rightarrow> core_row \<Rightarrow> bool" where
  "at_core_id account i r \<longleftrightarrow> cw_account r = account \<and> cw_id r = i"

definition mark_core_work_done_for_account ::
  "timestamp \<Rightarrow> string \<Rightarrow> int \<Rightarrow> core_table \<Rightarrow> int \<times> core_table" where
  "mark_core_work_done_for_account now account i t =
     (if sql_exists (at_core_id account i) (ct_rows t)
      then (1, t\<lparr>ct_rows := sql_update (at_core_id account i)
                   (\<lambda>r. r\<lparr>cw_status := Done, cw_locked := None, cw_worker := None, cw_error := None,
                         cw_completed := Some now, cw_updated := now\<rparr>) (ct_rows t)\<rparr>)
      else (0, t))"

definition fail_core_row :: "timestamp \<Rightarrow> queue_status \<Rightarrow> int \<Rightarrow> string \<Rightarrow> core_row \<Rightarrow> core_row" where
  "fail_core_row now st delay e r =
     r\<lparr>cw_status := st,
       cw_available := (if st = Failed then now + secs delay else cw_available r),
       cw_locked := None, cw_worker := None, cw_error := Some (take 4000 e), cw_updated := now\<rparr>"

definition mark_core_work_retry_or_dead_for_account ::
  "timestamp \<Rightarrow> string \<Rightarrow> int \<Rightarrow> int \<Rightarrow> int \<Rightarrow> int \<Rightarrow> string \<Rightarrow> core_table
     \<Rightarrow> queue_status result \<times> core_table" where
  "mark_core_work_retry_or_dead_for_account now account i attempt_count max_attempts retry_after e t =
     (let next_status = (if attempt_count \<ge> max_attempts then Dead else Failed) in
      if sql_exists (at_core_id account i) (ct_rows t)
      then (Inr next_status,
            t\<lparr>ct_rows := sql_update (at_core_id account i)
                (fail_core_row now next_status (max retry_after 0) e) (ct_rows t)\<rparr>)
      else (Inl [''mark_core_work_retry_or_dead: queue item '' @ show_int i @ '' not found''], t))"

text \<open>\<open>expire_core_row\<close> keeps an error that is already there, as \<^verbatim>\<open>COALESCE\<close> does.\<close>

definition expire_core_row :: "timestamp \<Rightarrow> core_row \<Rightarrow> core_row" where
  "expire_core_row now r =
     r\<lparr>cw_status := Failed, cw_available := now, cw_locked := None, cw_worker := None,
       cw_error := coalesce (cw_error r) (Some ''stale lock reset''), cw_updated := now\<rparr>"

definition core_stale :: "timestamp \<Rightarrow> string \<Rightarrow> int \<Rightarrow> core_row \<Rightarrow> bool" where
  "core_stale now account stale_after r \<longleftrightarrow>
     cw_account r = account \<and> cw_status r = Processing \<and>
     (case cw_locked r of None \<Rightarrow> False | Some l \<Rightarrow> l < now - secs (max stale_after 1))"

definition reset_stale_core_work_for_account ::
  "timestamp \<Rightarrow> string \<Rightarrow> int \<Rightarrow> core_table \<Rightarrow> int \<times> core_table" where
  "reset_stale_core_work_for_account now account stale_after t =
     (sql_count (core_stale now account stale_after) (ct_rows t),
      t\<lparr>ct_rows := sql_update (core_stale now account stale_after) (expire_core_row now) (ct_rows t)\<rparr>)"

definition release_core_row :: "timestamp \<Rightarrow> string \<Rightarrow> core_row \<Rightarrow> core_row" where
  "release_core_row now reason r = fail_core_row now Failed 0 reason r"

definition requeue_running_tasks ::
  "timestamp \<Rightarrow> string \<Rightarrow> int list \<Rightarrow> string \<Rightarrow> subagent_task_row list \<Rightarrow> subagent_task_row list" where
  "requeue_running_tasks now account ids reason =
     sql_update (\<lambda>r. st_account r = account \<and> (\<exists>i \<in> set ids. st_core_work_id r = Some i)
                     \<and> st_status r = TRunning)
       (\<lambda>r. r\<lparr>st_status := TPending, st_started := None, st_finished := None,
             st_error := Some (take 4000 reason), st_updated := now\<rparr>)"

text \<open>Recovery and release: the rows first, then the running sub-agent tasks attached to them.\<close>

definition give_back ::
  "(core_row \<Rightarrow> bool) \<Rightarrow> timestamp \<Rightarrow> timestamp \<Rightarrow> string \<Rightarrow> string \<Rightarrow> core_table \<times> subagent_task_row list
     \<Rightarrow> int \<times> core_table \<times> subagent_task_row list" where
  "give_back p now now' account reason s =
     (let (t, tasks) = s;
          rows = sql_returning p (release_core_row now reason) (ct_rows t);
          t' = t\<lparr>ct_rows := sql_update p (release_core_row now reason) (ct_rows t)\<rparr>
      in if rows = [] then (0, t', tasks)
         else (int (length rows), t', requeue_running_tasks now' account (map cw_id rows) reason tasks))"

definition recover_orphaned_core_work_for_account ::
  "timestamp \<Rightarrow> timestamp \<Rightarrow> string \<Rightarrow> string \<Rightarrow> core_table \<times> subagent_task_row list
     \<Rightarrow> int \<times> core_table \<times> subagent_task_row list" where
  "recover_orphaned_core_work_for_account now now' account reason =
     give_back (\<lambda>r. cw_account r = account \<and> cw_status r = Processing) now now' account reason"

definition release_core_work_for_worker_for_account ::
  "timestamp \<Rightarrow> timestamp \<Rightarrow> string \<Rightarrow> string \<Rightarrow> string \<Rightarrow> core_table \<times> subagent_task_row list
     \<Rightarrow> int \<times> core_table \<times> subagent_task_row list" where
  "release_core_work_for_worker_for_account now now' account w reason =
     give_back (\<lambda>r. cw_account r = account \<and> cw_worker r = Some w \<and> cw_status r = Processing)
       now now' account reason"

section \<open>Queries\<close>

definition depth_of :: "('r \<Rightarrow> bool) \<Rightarrow> ('r \<Rightarrow> queue_status) \<Rightarrow> 'r list \<Rightarrow> queue_depth" where
  "depth_of p status t =
     \<lparr>qd_pending = sql_count (\<lambda>r. p r \<and> status r = Pending) t,
      qd_failed = sql_count (\<lambda>r. p r \<and> status r = Failed) t,
      qd_processing = sql_count (\<lambda>r. p r \<and> status r = Processing) t,
      qd_dead = sql_count (\<lambda>r. p r \<and> status r = Dead) t\<rparr>"

definition core_work_queue_depth_for_account :: "string \<Rightarrow> core_table \<Rightarrow> queue_depth" where
  "core_work_queue_depth_for_account account t =
     depth_of (\<lambda>r. cw_account r = account) cw_status (ct_rows t)"

definition core_active :: "core_row \<Rightarrow> bool" where
  "core_active r \<longleftrightarrow> cw_status r \<in> {Pending, Processing, Failed}"

definition has_active_core_work_type_for_account :: "string \<Rightarrow> core_work_type \<Rightarrow> core_table \<Rightarrow> bool" where
  "has_active_core_work_type_for_account account ty t =
     sql_exists (\<lambda>r. cw_account r = account \<and> cw_type r = ty \<and> core_active r) (ct_rows t)"

definition has_active_sync_work_for_account :: "string \<Rightarrow> core_table \<Rightarrow> bool" where
  "has_active_sync_work_for_account account t =
     sql_exists (\<lambda>r. cw_account r = account \<and> cw_type r \<in> {SyncFull, SyncIncremental, SyncBody}
                     \<and> cw_status r \<in> {Pending, Processing}) (ct_rows t)"

text \<open>\<^verbatim>\<open>MAX(completed_at) FILTER (WHERE ..)\<close>, \<^verbatim>\<open>NULL\<close> on no row; \<^verbatim>\<open>DESC NULLS LAST\<close> as a sort key.\<close>

definition sql_max :: "timestamp option list \<Rightarrow> timestamp option" where
  "sql_max xs = (case flatten_opts xs of [] \<Rightarrow> None | y # ys \<Rightarrow> Some (foldl max y ys))"

definition desc_nulls_last :: "timestamp option \<Rightarrow> nat \<times> int" where
  "desc_nulls_last x = (case x of None \<Rightarrow> (1, 0) | Some t \<Rightarrow> (0, - t))"

definition list_core_work_status_items ::
  "string \<Rightarrow> (core_row \<Rightarrow> bool) \<Rightarrow> (core_row \<Rightarrow> 'o::linorder) \<Rightarrow> int \<Rightarrow> core_table \<Rightarrow> core_status_item list" where
  "list_core_work_status_items account p ord max_n t =
     map status_item_of_row
       (sql_top ord (nat (max max_n 1)) (filter (\<lambda>r. cw_account r = account \<and> p r) (ct_rows t)))"

definition core_work_status_for_account :: "string \<Rightarrow> core_table \<Rightarrow> core_status_summary" where
  "core_work_status_for_account account t =
     (let depth = core_work_queue_depth_for_account account t;
          active = list_core_work_status_items account (\<lambda>r. cw_status r = Processing)
                     (\<lambda>r. (desc_nulls_last (cw_locked r), - cw_updated r)) 10 t;
          failures = list_core_work_status_items account (\<lambda>r. cw_status r \<in> {Failed, Dead})
                     (\<lambda>r. - cw_updated r) 10 t;
          completed = list_core_work_status_items account (\<lambda>r. cw_status r = Done)
                     (\<lambda>r. (desc_nulls_last (cw_completed r), - cw_updated r)) 10 t;
          done_at = (\<lambda>tys. sql_max (map cw_completed
                       (filter (\<lambda>r. cw_account r = account \<and> cw_status r = Done \<and> cw_type r \<in> tys) (ct_rows t))))
      in \<lparr>cs_account_id = account,
          cs_state = core_state_from_work depth active,
          cs_queue_depth = depth,
          cs_active_work = active,
          cs_recent_failures = failures,
          cs_recent_completed = completed,
          cs_pipeline = \<lparr>cp_last_sync = done_at {SyncFull, SyncIncremental, SyncBody},
                         cp_last_analysis = done_at {Analyze, Embed},
                         cp_last_locate = done_at {Locate, FilePreview, FileApply}\<rparr>,
          cs_last_error = find_map ci_last_error failures\<rparr>)"

end
