(* ===== verification/CoreWorkFacts.thy ===== *)
theory CoreWorkFacts
  imports CoreWork
begin

text \<open>
  Facts on \<open>CoreWork\<close>: the queue as an instance of \<open>lease_queue\<close>, the table invariant
  \<open>core_table_ok\<close> and its preservation by every statement, the lifecycle of a row as a step
  relation, and the properties of the queue.
\<close>

interpretation core_q: lease_queue cw_account cw_id cw_status cw_attempts cw_available cw_locked cw_worker
  lease_core_row fail_core_row expire_core_row
  by unfold_locales (simp_all add: lease_core_row_def fail_core_row_def expire_core_row_def)

lemma core_ready_eq: "core_ready now skip = core_q.ready now skip"
  by (rule ext) (simp add: core_ready_def core_q.ready_def)

section \<open>The table invariant\<close>

definition core_row_ok :: "core_row \<Rightarrow> bool" where
  "core_row_ok r \<longleftrightarrow> core_q.lease_ok r \<and> 0 \<le> cw_attempts r \<and> (cw_status r = Processing \<longrightarrow> 1 \<le> cw_attempts r)
     \<and> (cw_status r = Done \<longrightarrow> cw_completed r \<noteq> None)"

definition core_table_ok :: "core_table \<Rightarrow> bool" where
  "core_table_ok t \<longleftrightarrow>
     uniq cw_id (ct_rows t) \<and> uniq core_key (ct_rows t) \<and>
     (\<forall>r \<in> set (ct_rows t). cw_id r < ct_next_id t) \<and> (\<forall>r \<in> set (ct_rows t). core_row_ok r)"

definition empty_core_table :: core_table where
  "empty_core_table = \<lparr>ct_rows = [], ct_next_id = 1\<rparr>"

lemma core_table_ok_empty [simp]: "core_table_ok empty_core_table"
  by (simp add: core_table_ok_def empty_core_table_def uniq_def)

lemma uniq_id_account: "uniq cw_id t \<Longrightarrow> uniq (\<lambda>r. (cw_account r, cw_id r)) t"
  by (auto simp: uniq_def distinct_map inj_on_def)

lemma core_table_ok_uniq: "core_table_ok t \<Longrightarrow> uniq (\<lambda>r. (cw_account r, cw_id r)) (ct_rows t)"
  by (simp add: core_table_ok_def uniq_id_account)

text \<open>A statement that keeps ids and keys and turns good rows into good rows keeps the invariant.\<close>

lemma core_table_ok_update:
  assumes t: "core_table_ok t"
    and ids: "\<And>r. p r \<Longrightarrow> cw_id (f r) = cw_id r \<and> core_key (f r) = core_key r"
    and ok: "\<And>r. r \<in> set (ct_rows t) \<Longrightarrow> p r \<Longrightarrow> core_row_ok r \<Longrightarrow> core_row_ok (f r)"
  shows "core_table_ok (t\<lparr>ct_rows := sql_update p f (ct_rows t)\<rparr>)"
proof -
  have "map cw_id (sql_update p f (ct_rows t)) = map cw_id (ct_rows t)"
    and "map core_key (sql_update p f (ct_rows t)) = map core_key (ct_rows t)"
    using ids by (simp_all add: map_sql_update)
  moreover have "\<forall>r \<in> set (sql_update p f (ct_rows t)). cw_id r < ct_next_id t \<and> core_row_ok r"
    using t ids ok by (auto simp: core_table_ok_def set_sql_update)
  ultimately show ?thesis using t by (simp add: core_table_ok_def uniq_def)
qed

lemma core_key_rows [simp]:
  "core_key (lease_core_row now w r) = core_key r"
  "core_key (fail_core_row now st d e r) = core_key r"
  "core_key (expire_core_row now r) = core_key r"
  "core_key (requeue_core_row now payload r) = core_key r"
  "core_key (new_core_row now i a ty k payload) = (a, ty, k)"
  by (simp_all add: core_key_def lease_core_row_def fail_core_row_def expire_core_row_def
      requeue_core_row_def new_core_row_def)

lemma core_row_ok_rows [simp]:
  "core_row_ok r \<Longrightarrow> core_row_ok (lease_core_row now w r)"
  "core_row_ok r \<Longrightarrow> st \<notin> {Processing, Done} \<Longrightarrow> core_row_ok (fail_core_row now st d e r)"
  "core_row_ok r \<Longrightarrow> core_row_ok (expire_core_row now r)"
  "core_row_ok (new_core_row now i a ty k payload)"
  by (auto simp: core_row_ok_def core_q.lease_ok_def new_core_row_def)

lemma core_row_ok_requeue [simp]: "core_row_ok r \<Longrightarrow> core_row_ok (requeue_core_row now payload r)"
  by (auto simp: core_row_ok_def core_q.lease_ok_def requeue_core_row_def)

lemma cw_id_requeue [simp]: "cw_id (requeue_core_row now payload r) = cw_id r"
  by (simp add: requeue_core_row_def)

lemma cw_id_new [simp]: "cw_id (new_core_row now i a ty k payload) = i"
  by (simp add: new_core_row_def)

lemma ct_rows_eta [simp]: "t\<lparr>ct_rows := ct_rows t\<rparr> = t"
  by (cases t) simp

lemma enqueue_ok:
  assumes "core_table_ok t" "enqueue_core_work_for_account now a ty k payload t = (n, t')"
  shows "core_table_ok t'"
proof (cases "sql_exists (\<lambda>r. core_key r = (a, ty, k)) (ct_rows t)")
  case True
  let ?f = "requeue_core_row now payload" and ?p = "\<lambda>r. core_key r = (a, ty, k)"
  have "core_table_ok (t\<lparr>ct_rows := sql_update ?p ?f (ct_rows t)\<rparr>)"
    using assms(1) by (rule core_table_ok_update) simp_all
  then show ?thesis using assms(2) True
    by (force simp: enqueue_core_work_for_account_def core_table_ok_def)
next
  case False
  with assms show ?thesis
    by (fastforce simp: enqueue_core_work_for_account_def Let_def core_table_ok_def uniq_snoc sql_exists_iff)
qed

text \<open>Both claims are instances of the claim of \<open>lease_queue\<close>.\<close>

lemma claim_core_as_claim:
  "claim_core_work_for_account now skip a w t =
     (let (rows, claimed) = core_q.claim a (core_ready now skip) claim_order 1 now w (ct_rows t)
      in (case claimed of [] \<Rightarrow> None | r # _ \<Rightarrow> Some (entry_of_row r), t\<lparr>ct_rows := rows\<rparr>))"
  by (simp add: claim_core_work_for_account_def core_q.claim_def)

lemma claim_batch_as_claim:
  "claim_core_work_batch_for_account now skip a w ty n t =
     (let (rows, claimed) = core_q.claim a (\<lambda>r. cw_type r = ty \<and> core_ready now skip r)
                              (\<lambda>r. (cw_available r, cw_id r)) n now w (ct_rows t)
      in (map entry_of_row claimed, t\<lparr>ct_rows := rows\<rparr>))"
  by (simp add: claim_core_work_batch_for_account_def core_q.claim_def)

lemma core_claim_rows_ok:
  assumes t: "core_table_ok t"
    and c: "core_q.claim a ok ord n now w (ct_rows t) = (rows, rs)"
  shows "core_table_ok (t\<lparr>ct_rows := rows\<rparr>)"
proof -
  let ?sel = "claimed_set cw_account a ok ord n (ct_rows t)"
  have rows: "rows = sql_update (\<lambda>r. r \<in> ?sel) (lease_core_row now w) (ct_rows t)"
    using c by (simp add: core_q.claim_def claim_rows_unfold [OF core_table_ok_uniq [OF t]])
  show ?thesis unfolding rows by (rule core_table_ok_update [OF t]) simp_all
qed

lemma claim_core_ok:
  assumes "core_table_ok t" "claim_core_work_for_account now skip a w t = (e, t')"
  shows "core_table_ok t'"
  using assms by (auto simp: claim_core_as_claim Let_def split: prod.splits intro: core_claim_rows_ok)

lemma claim_batch_ok:
  assumes "core_table_ok t" "claim_core_work_batch_for_account now skip a w ty n t = (es, t')"
  shows "core_table_ok t'"
  using assms by (auto simp: claim_batch_as_claim Let_def split: prod.splits intro: core_claim_rows_ok)

lemma mark_done_ok:
  assumes "core_table_ok t" "mark_core_work_done_for_account now a i t = (n, t')"
  shows "core_table_ok t'"
proof -
  have "core_table_ok (t\<lparr>ct_rows := sql_update (at_core_id a i)
    (\<lambda>r. r\<lparr>cw_status := Done, cw_locked := None, cw_worker := None, cw_error := None,
            cw_completed := Some now, cw_updated := now\<rparr>) (ct_rows t)\<rparr>)"
    using assms(1) by (rule core_table_ok_update) (simp_all add: core_key_def core_row_ok_def core_q.lease_ok_def)
  with assms show ?thesis by (auto simp: mark_core_work_done_for_account_def split: if_splits)
qed

lemma mark_retry_ok:
  assumes "core_table_ok t" "mark_core_work_retry_or_dead_for_account now a i c m d e t = (s, t')"
  shows "core_table_ok t'"
proof -
  have "core_table_ok (t\<lparr>ct_rows := sql_update (at_core_id a i)
      (fail_core_row now (if c \<ge> m then Dead else Failed) (max d 0) e) (ct_rows t)\<rparr>)"
    using assms(1) by (rule core_table_ok_update) simp_all
  with assms show ?thesis
    by (auto simp: mark_core_work_retry_or_dead_for_account_def Let_def split: if_splits)
qed

lemma reset_stale_ok:
  assumes "core_table_ok t" "reset_stale_core_work_for_account now a d t = (n, t')"
  shows "core_table_ok t'"
  using assms(2) core_table_ok_update [OF assms(1), of "core_stale now a d" "expire_core_row now"]
  by (auto simp: reset_stale_core_work_for_account_def)

lemma give_back_ok:
  assumes "core_table_ok t" "give_back p now now' a reason (t, tasks) = (n, t', tasks')"
  shows "core_table_ok t'"
  using assms(2) core_table_ok_update [OF assms(1), of p "release_core_row now reason"]
  by (auto simp: give_back_def Let_def release_core_row_def split: if_splits)

section \<open>What one claim returns\<close>

lemma core_claim_one:
  assumes t: "core_table_ok t"
    and c: "claim_core_work_for_account now skip a w t = (res, t')"
  shows "case res of
      None \<Rightarrow> \<not> (\<exists>s \<in> set (ct_rows t). cw_account s = a \<and> core_ready now skip s)
    | Some e \<Rightarrow> \<exists>r \<in> set (ct_rows t). cw_account r = a \<and> core_ready now skip r
          \<and> e = entry_of_row (lease_core_row now w r) \<and> lease_core_row now w r \<in> set (ct_rows t')
          \<and> (\<forall>s \<in> set (ct_rows t). cw_account s = a \<and> core_ready now skip s \<longrightarrow> claim_order r \<le> claim_order s)"
proof -
  note u = core_table_ok_uniq [OF t]
  let ?ok = "core_ready now skip" and ?F = "filter (\<lambda>r. cw_account r = a \<and> core_ready now skip r) (ct_rows t)"
  obtain rows rs where cl: "core_q.claim a ?ok claim_order 1 now w (ct_rows t) = (rows, rs)"
    by (cases "core_q.claim a ?ok claim_order 1 now w (ct_rows t)")
  with c have t': "t' = t\<lparr>ct_rows := rows\<rparr>"
    and res: "res = (case rs of [] \<Rightarrow> None | r # _ \<Rightarrow> Some (entry_of_row r))"
    by (simp_all add: claim_core_as_claim Let_def)
  show ?thesis
  proof (cases rs)
    case Nil
    then have "length ?F = 0" using core_q.claim_length(1) [OF u cl] by (cases ?F) auto
    then show ?thesis using res Nil by (auto simp: filter_empty_conv)
  next
    case (Cons l ls)
    have l: "l \<in> set rs" using Cons by simp
    have sel: "rs = sql_returning (\<lambda>r. r \<in> claimed_set cw_account a ?ok claim_order 1 (ct_rows t)) (lease_core_row now w) (ct_rows t)"
      using cl by (simp add: core_q.claim_def claim_rows_unfold [OF u])
    with l obtain r where r: "r \<in> claimed_set cw_account a ?ok claim_order 1 (ct_rows t)" "l = lease_core_row now w r"
      by (auto simp: sql_returning_def)
    have le: "claim_order r \<le> claim_order s" if s: "s \<in> set (ct_rows t)" "cw_account s = a" "?ok s" for s
    proof (cases "s \<in> claimed_set cw_account a ?ok claim_order 1 (ct_rows t)")
      case True
      have "length (sql_top claim_order 1 ?F) \<le> 1" by (simp add: length_sql_top)
      with True r(1) have "s = r"
        by (cases "sql_top claim_order 1 ?F") (auto simp: claimed_set_def)
      then show ?thesis by simp
    next
      case False
      with s r(1) show ?thesis by (auto simp: claimed_set_def intro: sql_top_le)
    qed
    have "l \<in> set rows" by (rule core_q.claim_returns_leased(5) [OF u cl l])
    with r claimed_set_ready [OF r(1)] le show ?thesis
      unfolding res t' Cons by auto
  qed
qed

section \<open>The lifecycle of a row\<close>

text \<open>Every statement of the queue, with any arguments, is a step of the table.\<close>

inductive core_step :: "core_table \<Rightarrow> core_table \<Rightarrow> bool" where
  enqueue: "enqueue_core_work_for_account now a ty k payload t = (n, t') \<Longrightarrow> core_step t t'"
| claim: "claim_core_work_for_account now skip a w t = (e, t') \<Longrightarrow> core_step t t'"
| claim_batch: "claim_core_work_batch_for_account now skip a w ty m t = (es, t') \<Longrightarrow> core_step t t'"
| finish: "mark_core_work_done_for_account now a i t = (n, t') \<Longrightarrow> core_step t t'"
| retry: "mark_core_work_retry_or_dead_for_account now a i c m d msg t = (st, t') \<Longrightarrow> core_step t t'"
| stale: "reset_stale_core_work_for_account now a d t = (n, t') \<Longrightarrow> core_step t t'"
| recover: "recover_orphaned_core_work_for_account now now' a reason (t, tasks) = (n, t', tasks') \<Longrightarrow> core_step t t'"
| release: "release_core_work_for_worker_for_account now now' a w reason (t, tasks) = (n, t', tasks') \<Longrightarrow> core_step t t'"

inductive core_reachable :: "core_table \<Rightarrow> bool" where
  start: "core_reachable empty_core_table"
| step: "core_reachable t \<Longrightarrow> core_step t t' \<Longrightarrow> core_reachable t'"

lemmas core_statement_ok = enqueue_ok claim_core_ok claim_batch_ok mark_done_ok mark_retry_ok
  reset_stale_ok give_back_ok

lemma core_step_ok: "core_step t t' \<Longrightarrow> core_table_ok t \<Longrightarrow> core_table_ok t'"
  by (induction rule: core_step.induct)
    (auto simp: recover_orphaned_core_work_for_account_def release_core_work_for_worker_for_account_def
      intro: core_statement_ok)

lemma core_reachable_ok: "core_reachable t \<Longrightarrow> core_table_ok t"
  by (induction rule: core_reachable.induct) (auto intro: core_step_ok)

text \<open>The row with a given id after an update, when the ids are unique and kept.\<close>

lemma row_after_update:
  assumes u: "uniq cw_id rows" and r: "r \<in> set rows" and r': "r' \<in> set (sql_update p f rows)"
    and eq: "cw_id r' = cw_id r" and keep: "\<And>s. p s \<Longrightarrow> cw_id (f s) = cw_id s"
  shows "r' = (if p r then f r else r)"
proof -
  from r' obtain s where s: "s \<in> set rows" "r' = (if p s then f s else s)"
    by (auto simp: sql_update_def)
  with keep eq have "cw_id s = cw_id r" by (auto split: if_splits)
  with uniq_inj [OF u s(1) r] s show ?thesis by simp
qed

text \<open>One statement at a time: the lease of a processing row is never handed to another worker.\<close>

definition keeps_lease :: "core_row \<Rightarrow> core_row \<Rightarrow> bool" where
  "keeps_lease r r' \<longleftrightarrow> (cw_status r' = Processing \<longrightarrow>
     cw_worker r' = cw_worker r \<and> cw_locked r' = cw_locked r \<and> cw_attempts r' = cw_attempts r)"

lemma keeps_lease_rows [simp]:
  "keeps_lease r r"
  "st \<noteq> Processing \<Longrightarrow> keeps_lease r (fail_core_row now st d e r)"
  "keeps_lease r (expire_core_row now r)"
  "cw_status r = Processing \<Longrightarrow> keeps_lease r (requeue_core_row now payload r)"
  by (simp_all add: keeps_lease_def requeue_core_row_def)

lemma keeps_lease_update:
  assumes "uniq cw_id rows" "r \<in> set rows" "r' \<in> set (sql_update p f rows)" "cw_id r' = cw_id r"
    and "\<And>s. p s \<Longrightarrow> cw_id (f s) = cw_id s" and "p r \<Longrightarrow> keeps_lease r (f r)"
  shows "keeps_lease r r'"
  using row_after_update [OF assms(1-5)] assms(6) by auto

lemma keeps_lease_claim:
  assumes u: "uniq cw_id rows" and r: "r \<in> set rows" "cw_status r = Processing"
    and c: "core_q.claim a ok ord n now w rows = (rows', rs)" and ok: "\<And>s. ok s \<Longrightarrow> cw_status s \<noteq> Processing"
    and r': "r' \<in> set rows'" "cw_id r' = cw_id r"
  shows "keeps_lease r r'"
proof -
  let ?sel = "claimed_set cw_account a ok ord n rows"
  have rows': "rows' = sql_update (\<lambda>r. r \<in> ?sel) (lease_core_row now w) rows"
    using c by (simp add: core_q.claim_def claim_rows_unfold [OF uniq_id_account [OF u]])
  have "r \<notin> ?sel" using ok r(2) by (auto dest: claimed_set_ready)
  have "r' \<in> set (sql_update (\<lambda>r. r \<in> ?sel) (lease_core_row now w) rows)" using r'(1) rows' by simp
  then have "r' = (if r \<in> ?sel then lease_core_row now w r else r)"
    using r'(2) by (rule row_after_update [OF u r(1)]) simp
  with \<open>r \<notin> ?sel\<close> show ?thesis by simp
qed

lemma core_ready_not_processing: "core_ready now skip r \<Longrightarrow> cw_status r \<noteq> Processing"
  by (auto simp: core_ready_def)


lemma core_ready_status: "core_ready now skip r \<Longrightarrow> cw_status r \<in> {Pending, Failed}"
  by (simp add: core_ready_def)

lemma core_step_keeps_lease:
  assumes "core_step t t'" and u: "uniq cw_id (ct_rows t)"
    and r: "r \<in> set (ct_rows t)" "cw_status r = Processing"
    and r': "r' \<in> set (ct_rows t')" "cw_id r' = cw_id r"
    and fresh: "cw_id r < ct_next_id t"
  shows "keeps_lease r r'"
  using assms(1)
proof cases
  case (enqueue now a ty k payload n)
  then consider "r' \<in> set (sql_update (\<lambda>r. core_key r = (a, ty, k)) (requeue_core_row now payload) (ct_rows t))"
    | "r' \<in> set (ct_rows t)" | "r' = new_core_row now (ct_next_id t) a ty k payload"
    using r' by (auto simp: enqueue_core_work_for_account_def Let_def split: if_splits)
  then show ?thesis
  proof cases
    case 1
    then show ?thesis by (rule keeps_lease_update [OF u r(1) _ r'(2)]) (simp_all add: r(2))
  next
    case 2
    then have "r' = r" using uniq_inj [OF u 2 r(1)] r'(2) by simp
    then show ?thesis by simp
  next
    case 3
    then show ?thesis using r'(2) fresh by simp
  qed
next
  case (claim now skip a w e)
  then show ?thesis using r'
    by (auto simp: claim_core_as_claim Let_def split: prod.splits
        intro: keeps_lease_claim [OF u r, where ok = "core_ready now skip"] dest: core_ready_not_processing)
next
  case (claim_batch now skip a w ty m es)
  then show ?thesis using r'
    by (auto simp: claim_batch_as_claim Let_def split: prod.splits dest: core_ready_not_processing
        intro: keeps_lease_claim [OF u r, where ok = "\<lambda>r. cw_type r = ty \<and> core_ready now skip r"])
next
  case (finish now a i n)
  then have "r' \<in> set (sql_update (at_core_id a i) (\<lambda>r. r\<lparr>cw_status := Done, cw_locked := None,
      cw_worker := None, cw_error := None, cw_completed := Some now, cw_updated := now\<rparr>) (ct_rows t)) \<or> r' \<in> set (ct_rows t)"
    using r' by (auto simp: mark_core_work_done_for_account_def split: if_splits)
  then show ?thesis
  proof
    assume "r' \<in> set (ct_rows t)"
    then have "r' = r" using uniq_inj [OF u _ r(1)] r'(2) by simp
    then show ?thesis by simp
  qed (erule keeps_lease_update [OF u r(1) _ r'(2)], simp_all add: keeps_lease_def)
next
  case (retry now a i c m d msg st)
  then have "r' \<in> set (sql_update (at_core_id a i) (fail_core_row now (if c \<ge> m then Dead else Failed) (max d 0) msg) (ct_rows t))
      \<or> r' \<in> set (ct_rows t)"
    using r' by (auto simp: mark_core_work_retry_or_dead_for_account_def Let_def split: if_splits)
  then show ?thesis
  proof
    assume "r' \<in> set (ct_rows t)"
    then have "r' = r" using uniq_inj [OF u _ r(1)] r'(2) by simp
    then show ?thesis by simp
  qed (erule keeps_lease_update [OF u r(1) _ r'(2)], simp_all)
next
  case (stale now a d n)
  then have "r' \<in> set (sql_update (core_stale now a d) (expire_core_row now) (ct_rows t))"
    using r' by (auto simp: reset_stale_core_work_for_account_def)
  then show ?thesis by (rule keeps_lease_update [OF u r(1) _ r'(2)]) simp_all
next
  case (recover now now' a reason tasks n tasks')
  then have "r' \<in> set (sql_update (\<lambda>r. cw_account r = a \<and> cw_status r = Processing) (release_core_row now reason) (ct_rows t))"
    using r' by (auto simp: recover_orphaned_core_work_for_account_def give_back_def Let_def split: if_splits)
  then show ?thesis
    by (rule keeps_lease_update [OF u r(1) _ r'(2)]) (simp_all add: release_core_row_def)
next
  case (release now now' a w reason tasks n tasks')
  then have "r' \<in> set (sql_update (\<lambda>r. cw_account r = a \<and> cw_worker r = Some w \<and> cw_status r = Processing)
      (release_core_row now reason) (ct_rows t))"
    using r' by (auto simp: release_core_work_for_worker_for_account_def give_back_def Let_def split: if_splits)
  then show ?thesis
    by (rule keeps_lease_update [OF u r(1) _ r'(2)]) (simp_all add: release_core_row_def)
qed

end
