(* ===== verification/CoreWorkProps.thy ===== *)
theory CoreWorkProps
  imports CoreWorkFacts
begin

text \<open>
  The properties of the queue \<open>CoreWork\<close> with their witnesses. \<open>sample_core\<close> is a queue
  reached by three enqueues: a heartbeat first, then a body sync and a locate step.
\<close>

definition sample_core :: core_table where
  "sample_core =
     (let t1 = snd (enqueue_core_work_for_account 10 ''a'' AssistantHeartbeat ''h'' JNull empty_core_table);
          t2 = snd (enqueue_core_work_for_account 20 ''a'' SyncBody ''b'' JNull t1)
      in snd (enqueue_core_work_for_account 30 ''a'' Locate ''l'' JNull t2))"

lemma enqueue_reachable:
  "core_reachable t \<Longrightarrow> core_reachable (snd (enqueue_core_work_for_account now a ty k payload t))"
  by (rule core_reachable.step, assumption, rule core_step.enqueue [where n = 1])
    (simp add: enqueue_core_work_for_account_def Let_def)

lemma sample_core_reachable [simp]: "core_reachable sample_core"
  by (simp add: sample_core_def Let_def enqueue_reachable core_reachable.start)

lemma sample_core_rows:
  "ct_rows sample_core =
     [new_core_row 10 1 ''a'' AssistantHeartbeat ''h'' JNull, new_core_row 20 2 ''a'' SyncBody ''b'' JNull,
      new_core_row 30 3 ''a'' Locate ''l'' JNull]"
  by (simp add: sample_core_def empty_core_table_def enqueue_core_work_for_account_def Let_def
      sql_exists_def core_key_def new_core_row_def)

definition sample_claim :: "core_entry option \<times> core_table" where
  "sample_claim = claim_core_work_for_account 100 (\<lambda>_. False) ''a'' ''w1'' sample_core"

definition sample_claim2 :: "core_entry option \<times> core_table" where
  "sample_claim2 = claim_core_work_for_account 100 (\<lambda>_. False) ''a'' ''w2'' (snd sample_claim)"

lemmas claim_eval = claim_core_work_for_account_def claim_rows_def sql_top_def core_ready_def claim_order_def
  claim_class_def sql_update_def sql_returning_def lease_core_row_def new_core_row_def entry_of_row_def Let_def

lemma sample_claim_value:
  "fst sample_claim = Some \<lparr>ce_id = 2, ce_work_type = SyncBody, ce_payload = JNull, ce_attempt_count = 1, ce_max_attempts = 3\<rparr>"
  "ct_rows (snd sample_claim) =
     [new_core_row 10 1 ''a'' AssistantHeartbeat ''h'' JNull,
      lease_core_row 100 ''w1'' (new_core_row 20 2 ''a'' SyncBody ''b'' JNull),
      new_core_row 30 3 ''a'' Locate ''l'' JNull]"
  by (simp_all add: sample_claim_def claim_eval sample_core_rows)

lemma sample_claim2_value:
  "fst sample_claim2 = Some \<lparr>ce_id = 3, ce_work_type = Locate, ce_payload = JNull, ce_attempt_count = 1, ce_max_attempts = 3\<rparr>"
  by (simp add: sample_claim2_def claim_eval sample_claim_value(2))

lemma sample_claims_run:
  "claim_core_work_for_account 100 (\<lambda>_. False) ''a'' ''w1'' sample_core =
     (Some \<lparr>ce_id = 2, ce_work_type = SyncBody, ce_payload = JNull, ce_attempt_count = 1, ce_max_attempts = 3\<rparr>, snd sample_claim)"
  "claim_core_work_for_account 100 (\<lambda>_. False) ''a'' ''w2'' (snd sample_claim) =
     (Some \<lparr>ce_id = 3, ce_work_type = Locate, ce_payload = JNull, ce_attempt_count = 1, ce_max_attempts = 3\<rparr>, snd sample_claim2)"
  using sample_claim_value(1) sample_claim2_value
  by (simp_all only: prod_eq_iff sample_claim_def [symmetric] sample_claim2_def [symmetric] fst_conv snd_conv)

lemma sample_claim_reachable [simp]: "core_reachable (snd sample_claim)"
  by (rule core_reachable.step [OF sample_core_reachable], rule core_step.claim [where e = "fst sample_claim"])
    (simp add: sample_claim_def)

section \<open>Well-formedness\<close>

text \<open>C3: In every table the queue's statements can reach from the empty one, with any arguments
  and in any order, ids and the keys (account, type, idempotency key) are unique, ids are below the
  sequence, a row has a lock time and an owner exactly while it is processing, a processing row
  counts at least one attempt, and a done row has a completion time.\<close>

theorem core_queue_well_formed: "core_reachable t \<Longrightarrow> core_table_ok t"
  by (rule core_reachable_ok)

lemma core_queue_well_formed_witness:
  "core_table_ok (snd sample_claim) \<and> (\<exists>r \<in> set (ct_rows (snd sample_claim)). cw_status r = Processing)"
  using core_queue_well_formed [OF sample_claim_reachable] by (simp add: sample_claim_value lease_core_row_def)

section \<open>Claims\<close>

text \<open>C1: A claim on a reachable queue returns nothing exactly when the account has no ready row;
  otherwise it returns the ready row that is first in the claim order (class, time available, type,
  id), now leased to the caller with one attempt more.\<close>

theorem core_claim_first_ready:
  assumes "core_reachable t" "claim_core_work_for_account now skip a w t = (res, t')"
  shows "case res of
      None \<Rightarrow> \<not> (\<exists>s \<in> set (ct_rows t). cw_account s = a \<and> core_ready now skip s)
    | Some e \<Rightarrow> \<exists>r \<in> set (ct_rows t). cw_account r = a \<and> core_ready now skip r
          \<and> e = entry_of_row (lease_core_row now w r) \<and> lease_core_row now w r \<in> set (ct_rows t')
          \<and> (\<forall>s \<in> set (ct_rows t). cw_account s = a \<and> core_ready now skip s \<longrightarrow> claim_order r \<le> claim_order s)"
  by (rule core_claim_one [OF core_reachable_ok [OF assms(1)] assms(2)])

lemma core_claim_first_ready_witness:
  "\<exists>r \<in> set (ct_rows sample_core). entry_of_row (lease_core_row 100 ''w1'' r) =
      \<lparr>ce_id = 2, ce_work_type = SyncBody, ce_payload = JNull, ce_attempt_count = 1, ce_max_attempts = 3\<rparr>"
  using core_claim_first_ready [OF sample_core_reachable sample_claims_run(1)]
  unfolding option.case by (elim bexE conjE) (rule bexI, rule sym)

text \<open>Heartbeats and sub-agent tasks never get in front of the mail pipeline: a claim returns one
  only when no pipeline row of the account is ready, however long it has been waiting.\<close>

theorem core_claim_pipeline_first:
  assumes "core_reachable t" "claim_core_work_for_account now skip a w t = (Some e, t')"
    and "ce_work_type e \<in> {AssistantHeartbeat, SubagentTask}"
    and "s \<in> set (ct_rows t)" "cw_account s = a" "core_ready now skip s"
  shows "cw_type s \<in> {AssistantHeartbeat, SubagentTask}"
proof -
  from core_claim_one [OF core_reachable_ok [OF assms(1)] assms(2)] obtain r where
    r: "e = entry_of_row (lease_core_row now w r)" and le: "claim_order r \<le> claim_order s"
    using assms(4-6) by auto
  from r assms(3) have "claim_class (cw_type r) = 1"
    by (auto simp: entry_of_row_def lease_core_row_def claim_class_def)
  with le have "claim_class (cw_type s) \<noteq> 0"
    by (auto simp: claim_order_def)
  then show ?thesis by (simp add: claim_class_def split: if_splits)
qed

definition sample_heartbeat :: core_table where
  "sample_heartbeat = snd (enqueue_core_work_for_account 10 ''a'' AssistantHeartbeat ''h'' JNull empty_core_table)"

lemma core_claim_pipeline_first_witness:
  "cw_type (new_core_row 10 1 ''a'' AssistantHeartbeat ''h'' JNull) \<in> {AssistantHeartbeat, SubagentTask}"
proof -
  have rows: "ct_rows sample_heartbeat = [new_core_row 10 1 ''a'' AssistantHeartbeat ''h'' JNull]"
    by (simp add: sample_heartbeat_def empty_core_table_def enqueue_core_work_for_account_def Let_def sql_exists_def)
  let ?c = "claim_core_work_for_account 100 (\<lambda>_. False) ''a'' ''w1'' sample_heartbeat"
  have "?c = (Some \<lparr>ce_id = 1, ce_work_type = AssistantHeartbeat, ce_payload = JNull, ce_attempt_count = 1, ce_max_attempts = 3\<rparr>, snd ?c)"
    by (simp add: claim_eval rows)
  from core_claim_pipeline_first [OF _ this] show ?thesis
    by (simp add: rows core_ready_def new_core_row_def sample_heartbeat_def enqueue_reachable core_reachable.start)
qed

text \<open>Two workers never hold the same row: a claim that follows another one, by any worker, at any
  time and with any locked rows, returns a different id.\<close>

theorem core_claim_exclusive:
  assumes "core_reachable t" "claim_core_work_for_account now skip a w t = (Some e, t')"
    and "claim_core_work_for_account now' skip' a w' t' = (Some e', t'')"
  shows "ce_id e \<noteq> ce_id e'"
proof -
  note ok = core_reachable_ok [OF assms(1)] and ok' = claim_core_ok [OF core_reachable_ok [OF assms(1)] assms(2)]
  from core_claim_one [OF ok assms(2)] obtain r where
    r: "e = entry_of_row (lease_core_row now w r)" "lease_core_row now w r \<in> set (ct_rows t')" by auto
  from core_claim_one [OF ok' assms(3)] obtain r' where
    r': "r' \<in> set (ct_rows t')" "core_ready now' skip' r'" "e' = entry_of_row (lease_core_row now' w' r')" by auto
  have u: "uniq cw_id (ct_rows t')" using ok' by (simp add: core_table_ok_def)
  show ?thesis
  proof
    assume "ce_id e = ce_id e'"
    then have "cw_id (lease_core_row now w r) = cw_id r'"
      unfolding r(1) r'(3) by (simp add: entry_of_row_def lease_core_row_def)
    from uniq_inj [OF u r(2) r'(1) this] core_ready_not_processing [OF r'(2)]
    show False by (auto simp: lease_core_row_def)
  qed
qed

lemma core_claim_exclusive_witness: "(2::int) \<noteq> 3"
  using core_claim_exclusive [OF sample_core_reachable sample_claims_run] by simp

text \<open>C5: No statement of the queue hands a running lease over: if a row is processing before and
  after one statement, its worker, lock time and attempt count are the same. A lease ends only by
  done, retry, stale reset, recovery or release.\<close>

theorem core_lease_not_stolen:
  assumes "core_reachable t" "core_step t t'"
    and "r \<in> set (ct_rows t)" "cw_status r = Processing"
    and "r' \<in> set (ct_rows t')" "cw_id r' = cw_id r" "cw_status r' = Processing"
  shows "cw_worker r' = cw_worker r \<and> cw_locked r' = cw_locked r \<and> cw_attempts r' = cw_attempts r"
proof -
  have "uniq cw_id (ct_rows t)" "cw_id r < ct_next_id t"
    using core_reachable_ok [OF assms(1)] assms(3) by (simp_all add: core_table_ok_def)
  from core_step_keeps_lease [OF assms(2) this(1) assms(3,4,5,6) this(2)] assms(7)
  show ?thesis unfolding keeps_lease_def by blast
qed

definition sample_requeued :: core_table where
  "sample_requeued = snd (enqueue_core_work_for_account 200 ''a'' SyncBody ''b'' (JBool True) (snd sample_claim))"

lemma sample_requeued_rows:
  "ct_rows sample_requeued =
     [new_core_row 10 1 ''a'' AssistantHeartbeat ''h'' JNull,
      requeue_core_row 200 (JBool True) (lease_core_row 100 ''w1'' (new_core_row 20 2 ''a'' SyncBody ''b'' JNull)),
      new_core_row 30 3 ''a'' Locate ''l'' JNull]"
  by (simp add: sample_requeued_def enqueue_core_work_for_account_def Let_def sample_claim_value(2)
      sql_exists_def sql_update_def)

lemma core_lease_not_stolen_witness:
  "cw_worker (requeue_core_row 200 (JBool True) (lease_core_row 100 ''w1'' (new_core_row 20 2 ''a'' SyncBody ''b'' JNull)))
     = Some ''w1''"
proof -
  let ?r = "lease_core_row 100 ''w1'' (new_core_row 20 2 ''a'' SyncBody ''b'' JNull)"
  have st: "core_step (snd sample_claim) sample_requeued"
    by (rule core_step.enqueue [where n = 1]) (simp add: enqueue_core_work_for_account_def Let_def sample_requeued_def)
  show ?thesis
    using core_lease_not_stolen [OF sample_claim_reachable st, of ?r "requeue_core_row 200 (JBool True) ?r"]
    by (simp add: sample_requeued_rows sample_claim_value(2) requeue_core_row_def lease_core_row_def)
qed

section \<open>Enqueue and retry\<close>

text \<open>An enqueue leaves exactly one row for its key, with the new payload and no completion time,
  and every row of another key as it was. A processing row keeps its lease; any other row is pending,
  with a fresh attempt budget, and ready at once.\<close>

theorem core_enqueue_effect:
  assumes "core_reachable t" "enqueue_core_work_for_account now a ty k payload t = (n, t')"
  shows "\<exists>r'. filter (\<lambda>r. core_key r = (a, ty, k)) (ct_rows t') = [r'] \<and> n = 1
      \<and> cw_payload r' = payload \<and> cw_completed r' = None
      \<and> (if \<exists>r \<in> set (ct_rows t). core_key r = (a, ty, k) \<and> cw_status r = Processing
         then cw_status r' = Processing
         else core_ready now (\<lambda>_. False) r' \<and> cw_attempts r' = 0 \<and> cw_worker r' = None)
      \<and> filter (\<lambda>r. core_key r \<noteq> (a, ty, k)) (ct_rows t') = filter (\<lambda>r. core_key r \<noteq> (a, ty, k)) (ct_rows t)"
proof (cases "sql_exists (\<lambda>r. core_key r = (a, ty, k)) (ct_rows t)")
  case True
  then obtain r where r: "r \<in> set (ct_rows t)" "core_key r = (a, ty, k)" by (auto simp: sql_exists_iff)
  have u: "uniq core_key (ct_rows t)" using core_reachable_ok [OF assms(1)] by (simp add: core_table_ok_def)
  have only: "r0 = r" if "r0 \<in> set (ct_rows t)" "core_key r0 = (a, ty, k)" for r0
    using uniq_inj [OF u that(1) r(1)] that(2) r(2) by simp
  have rows: "ct_rows t' = sql_update (\<lambda>r. core_key r = (a, ty, k)) (requeue_core_row now payload) (ct_rows t)"
    and n: "n = 1"
    using assms(2) True by (auto simp: enqueue_core_work_for_account_def Let_def)
  have "filter (\<lambda>s. core_key s = (a, ty, k)) (ct_rows t) = [r]"
    using uniq_filter_single [OF u r(1)] r(2) by simp
  then have one: "filter (\<lambda>s. core_key s = (a, ty, k)) (ct_rows t') = [requeue_core_row now payload r]"
    unfolding rows by (simp add: filter_sql_update) (simp add: sql_update_def r(2))
  have others: "filter (\<lambda>r. core_key r \<noteq> (a, ty, k)) (ct_rows t') = filter (\<lambda>r. core_key r \<noteq> (a, ty, k)) (ct_rows t)"
    unfolding rows by (rule filter_sql_update_other) simp
  have ex: "(\<exists>s \<in> set (ct_rows t). core_key s = (a, ty, k) \<and> cw_status s = Processing) \<longleftrightarrow> cw_status r = Processing"
    using r only by blast
  show ?thesis unfolding one others ex
    by (intro exI [of _ "requeue_core_row now payload r"])
      (simp add: requeue_core_row_def core_ready_def n)
next
  case False
  then have none: "filter (\<lambda>r. core_key r = (a, ty, k)) (ct_rows t) = []"
    and ex: "\<not> (\<exists>s \<in> set (ct_rows t). core_key s = (a, ty, k) \<and> cw_status s = Processing)"
    by (auto simp: sql_exists_iff filter_empty_conv)
  have rows: "ct_rows t' = ct_rows t @ [new_core_row now (ct_next_id t) a ty k payload]" and n: "n = 1"
    using assms(2) False by (auto simp: enqueue_core_work_for_account_def Let_def)
  show ?thesis unfolding rows if_not_P [OF ex]
    by (simp add: none n) (simp add: core_ready_def new_core_row_def)
qed

lemma core_enqueue_effect_witness:
  "\<exists>r'. filter (\<lambda>r. core_key r = (''a'', SyncBody, ''b'')) (ct_rows sample_requeued) = [r'] \<and> cw_status r' = Processing"
proof -
  have "enqueue_core_work_for_account 200 ''a'' SyncBody ''b'' (JBool True) (snd sample_claim) = (1, sample_requeued)"
    by (simp add: sample_requeued_def enqueue_core_work_for_account_def Let_def)
  from core_enqueue_effect [OF sample_claim_reachable this]
  show ?thesis by (auto simp: sample_claim_value(2) lease_core_row_def new_core_row_def core_key_def)
qed

text \<open>The retry budget is exact. A claimed item that fails is buried by the attempt that reaches
  its limit and by no earlier one; otherwise it waits \<open>max d 0\<close> seconds, unowned, with one attempt more.\<close>

theorem core_retry_budget:
  assumes "core_reachable t" "claim_core_work_for_account now skip a w t = (Some e, t1)"
    and "mark_core_work_retry_or_dead_for_account now' a (ce_id e) (ce_attempt_count e) (ce_max_attempts e) d msg t1 = (res, t2)"
  shows "\<exists>r \<in> set (ct_rows t). cw_id r = ce_id e \<and> core_ready now skip r \<and>
      (let st = (if cw_attempts r + 1 \<ge> cw_max_attempts r then Dead else Failed) in
       res = Inr st \<and> (\<exists>r2 \<in> set (ct_rows t2). cw_id r2 = cw_id r \<and> cw_status r2 = st
         \<and> cw_attempts r2 = cw_attempts r + 1 \<and> cw_worker r2 = None \<and> cw_locked r2 = None
         \<and> (st = Failed \<longrightarrow> cw_available r2 = now' + secs (max d 0))))"
proof -
  from core_claim_one [OF core_reachable_ok [OF assms(1)] assms(2)] obtain r where
    r: "r \<in> set (ct_rows t)" "cw_account r = a" "core_ready now skip r"
      "e = entry_of_row (lease_core_row now w r)" "lease_core_row now w r \<in> set (ct_rows t1)" by auto
  let ?l = "lease_core_row now w r" and ?st = "if cw_attempts r + 1 \<ge> cw_max_attempts r then Dead else Failed"
  let ?f = "fail_core_row now' ?st (max d 0) msg"
  have e: "ce_id e = cw_id r" "ce_attempt_count e = cw_attempts r + 1" "ce_max_attempts e = cw_max_attempts r"
    using r(4) by (simp_all add: entry_of_row_def lease_core_row_def)
  have at: "at_core_id a (cw_id r) ?l" using r(2) by (simp add: at_core_id_def lease_core_row_def)
  then have "sql_exists (at_core_id a (cw_id r)) (ct_rows t1)" using r(5) by (auto simp: sql_exists_iff)
  then have res: "res = Inr ?st" and t2: "ct_rows t2 = sql_update (at_core_id a (cw_id r)) ?f (ct_rows t1)"
    using assms(3) e by (auto simp: mark_core_work_retry_or_dead_for_account_def Let_def)
  have "?f ?l \<in> set (ct_rows t2)" unfolding t2 using r(5) at by (force simp: sql_update_def)
  then show ?thesis using r(1,3) e(1) res
    by (intro bexI [of _ r]) (auto simp: Let_def lease_core_row_def fail_core_row_def intro!: bexI [of _ "?f ?l"])
qed

lemma core_retry_budget_witness:
  "fst (mark_core_work_retry_or_dead_for_account 200 ''a'' 2 1 3 30 ''timeout'' (snd sample_claim)) = Inr Failed"
proof -
  let ?m = "mark_core_work_retry_or_dead_for_account 200 ''a'' 2 1 3 30 ''timeout'' (snd sample_claim)"
  have "?m = (fst ?m, snd ?m)" by simp
  then show ?thesis
    using core_retry_budget [OF sample_core_reachable sample_claims_run(1), of 200 30 "''timeout''" "fst ?m" "snd ?m"]
    by (auto simp: sample_core_rows new_core_row_def Let_def)
qed

section \<open>Recovery\<close>

lemma no_running_after_requeue:
  assumes "x \<in> set (requeue_running_tasks now a ids reason tasks)" "st_account x = a"
    and "st_core_work_id x = Some i" "i \<in> set ids"
  shows "st_status x \<noteq> TRunning"
proof
  assume run: "st_status x = TRunning"
  from assms(1) obtain y where y: "x = (if st_account y = a \<and> (\<exists>i \<in> set ids. st_core_work_id y = Some i) \<and> st_status y = TRunning
      then y\<lparr>st_status := TPending, st_started := None, st_finished := None, st_error := Some (take 4000 reason), st_updated := now\<rparr>
      else y)"
    unfolding requeue_running_tasks_def sql_update_def set_map by blast
  show False using y run assms(2-4) by (auto split: if_splits)
qed

text \<open>Recovering an account's orphans gives back every processing row of it: none is left, each is
  failed, ready at once, unowned, with its attempts kept, every other row is untouched, and no running
  sub-agent task stays attached to a recovered row.\<close>

theorem core_recover_all:
  assumes "core_reachable t" "recover_orphaned_core_work_for_account now now' a reason (t, tasks) = (n, t', tasks')"
  shows "n = sql_count (\<lambda>r. cw_account r = a \<and> cw_status r = Processing) (ct_rows t)
      \<and> (\<forall>r' \<in> set (ct_rows t'). cw_account r' = a \<longrightarrow> cw_status r' \<noteq> Processing)
      \<and> list_all2 (\<lambda>r r'. if cw_account r = a \<and> cw_status r = Processing
           then cw_id r' = cw_id r \<and> cw_status r' = Failed \<and> cw_worker r' = None \<and> cw_attempts r' = cw_attempts r
                \<and> core_ready now (\<lambda>_. False) r'
           else r' = r) (ct_rows t) (ct_rows t')
      \<and> (\<forall>x \<in> set tasks'. \<forall>r \<in> set (ct_rows t). cw_account r = a \<and> cw_status r = Processing
           \<and> st_account x = a \<and> st_core_work_id x = Some (cw_id r) \<longrightarrow> st_status x \<noteq> TRunning)"
proof -
  let ?p = "\<lambda>r. cw_account r = a \<and> cw_status r = Processing" and ?f = "release_core_row now reason"
  have t': "ct_rows t' = sql_update ?p ?f (ct_rows t)"
    and n: "n = sql_count ?p (ct_rows t)"
    using assms(2) by (auto simp: recover_orphaned_core_work_for_account_def give_back_def Let_def
        sql_count_def sql_returning_def split: if_splits)
  have rows: "list_all2 (\<lambda>r r'. if ?p r
           then cw_id r' = cw_id r \<and> cw_status r' = Failed \<and> cw_worker r' = None \<and> cw_attempts r' = cw_attempts r
                \<and> core_ready now (\<lambda>_. False) r'
           else r' = r) (ct_rows t) (ct_rows t')"
    unfolding t' sql_update_def list_all2_map2
    by (rule list.rel_refl) (auto simp: release_core_row_def fail_core_row_def core_ready_def)
  have none: "\<forall>r' \<in> set (ct_rows t'). cw_account r' = a \<longrightarrow> cw_status r' \<noteq> Processing"
  proof
    fix r' assume "r' \<in> set (ct_rows t')"
    then obtain s where "r' = (if ?p s then ?f s else s)" unfolding t' sql_update_def set_map by blast
    then show "cw_account r' = a \<longrightarrow> cw_status r' \<noteq> Processing"
      by (cases "?p s") (simp_all add: release_core_row_def fail_core_row_def)
  qed
  have tasks': "st_status x \<noteq> TRunning"
    if x: "x \<in> set tasks'" "r \<in> set (ct_rows t)" "?p r" "st_account x = a" "st_core_work_id x = Some (cw_id r)" for x r
  proof -
    have mem: "cw_id r \<in> set (map cw_id (sql_returning ?p ?f (ct_rows t)))"
      using x(2,3) by (force simp: sql_returning_def release_core_row_def)
    then have "tasks' = requeue_running_tasks now' a (map cw_id (sql_returning ?p ?f (ct_rows t))) reason tasks"
      using assms(2) by (auto simp: recover_orphaned_core_work_for_account_def give_back_def Let_def split: if_splits)
    with no_running_after_requeue x(1,4,5) mem show ?thesis by blast
  qed
  from n none rows tasks' show ?thesis by blast
qed

definition sample_task :: subagent_task_row where
  "sample_task = new_task_row 100 ''a''
     \<lparr>tr_task_id = ''t1'', tr_task_kind = ''k'', tr_worker_name = ''w'', tr_skill_bundle = ''s'', tr_message_ids = [],
      tr_input_context = JNull, tr_priority = 0, tr_correlation_id = ''c'', tr_created_by = ''h''\<rparr> (Some 2) TRunning"

definition sample_recovered :: "int \<times> core_table \<times> subagent_task_row list" where
  "sample_recovered = recover_orphaned_core_work_for_account 300 301 ''a'' ''shutdown'' (snd sample_claim, [sample_task])"

lemma core_recover_all_witness:
  "fst sample_recovered = 1 \<and> filter (\<lambda>x. st_status x = TRunning) (snd (snd sample_recovered)) = []"
proof -
  let ?r = "lease_core_row 100 ''w1'' (new_core_row 20 2 ''a'' SyncBody ''b'' JNull)"
  have "recover_orphaned_core_work_for_account 300 301 ''a'' ''shutdown'' (snd sample_claim, [sample_task])
      = (fst sample_recovered, fst (snd sample_recovered), snd (snd sample_recovered))"
    by (simp add: sample_recovered_def)
  note all = core_recover_all [OF sample_claim_reachable this]
  have r: "?r \<in> set (ct_rows (snd sample_claim))" "cw_account ?r = ''a'' \<and> cw_status ?r = Processing" "cw_id ?r = 2"
    by (simp_all add: sample_claim_value(2) lease_core_row_def new_core_row_def)
  have n: "sql_count (\<lambda>r. cw_account r = ''a'' \<and> cw_status r = Processing) (ct_rows (snd sample_claim)) = 1"
    by (simp add: sql_count_def sample_claim_value(2) lease_core_row_def new_core_row_def)
  have one: "fst sample_recovered = 1" using all unfolding n by blast
  have task: "st_account x = ''a'' \<and> st_core_work_id x = Some 2" if "x \<in> set (snd (snd sample_recovered))" for x
    using that by (auto simp: sample_recovered_def sample_task_def recover_orphaned_core_work_for_account_def
        give_back_def Let_def requeue_running_tasks_def new_task_row_def sql_update_def split: if_splits)
  have "st_status x \<noteq> TRunning" if "x \<in> set (snd (snd sample_recovered))" for x
    using conjunct2 [OF conjunct2 [OF conjunct2 [OF all]]] r task [OF that] that by metis
  with one show ?thesis by (simp add: filter_empty_conv)
qed

text \<open>A worker that shuts down gives back its own rows only: rows of another worker, account or
  state are untouched, and its own processing rows are failed and ready at once.\<close>

theorem core_release_own:
  assumes "core_reachable t" "release_core_work_for_worker_for_account now now' a w reason (t, tasks) = (n, t', tasks')"
  shows "list_all2 (\<lambda>r r'. if cw_account r = a \<and> cw_worker r = Some w
           then cw_id r' = cw_id r \<and> cw_status r' = Failed \<and> cw_worker r' = None \<and> core_ready now (\<lambda>_. False) r'
           else r' = r) (ct_rows t) (ct_rows t')"
proof -
  let ?p = "\<lambda>r. cw_account r = a \<and> cw_worker r = Some w \<and> cw_status r = Processing"
  have t': "ct_rows t' = sql_update ?p (release_core_row now reason) (ct_rows t)"
    using assms(2) by (auto simp: release_core_work_for_worker_for_account_def give_back_def Let_def split: if_splits)
  have "cw_status r = Processing" if "r \<in> set (ct_rows t)" "cw_worker r = Some w" for r
    using core_reachable_ok [OF assms(1)] that
    by (auto simp: core_table_ok_def core_row_ok_def core_q.lease_ok_def)
  then show ?thesis unfolding t' sql_update_def list_all2_map2
    by (intro list.rel_refl_strong) (auto simp: release_core_row_def fail_core_row_def core_ready_def)
qed

lemma core_release_own_witness:
  "cw_status (ct_rows (fst (snd (release_core_work_for_worker_for_account 300 301 ''a'' ''w1'' ''bye'' (snd sample_claim, [])))) ! 1) = Failed"
proof -
  let ?x = "release_core_work_for_worker_for_account 300 301 ''a'' ''w1'' ''bye'' (snd sample_claim, [])"
  have "?x = (fst ?x, fst (snd ?x), snd (snd ?x))" by simp
  from core_release_own [OF sample_claim_reachable this, THEN list_all2_nthD, of 1] show ?thesis
    by (simp add: sample_claim_value(2) lease_core_row_def new_core_row_def)
qed

text \<open>One cycle in which a worker claims and dies, and the next start recovers the orphan.\<close>

definition crash_cycle :: "timestamp \<Rightarrow> string \<Rightarrow> string \<Rightarrow> core_table \<Rightarrow> core_table" where
  "crash_cycle now a w t =
     fst (snd (recover_orphaned_core_work_for_account now now a ''orphaned''
       (snd (claim_core_work_for_account now (\<lambda>_. False) a w t), [])))"

lemma crash_cycle_single:
  assumes "ct_rows t = [r]" "cw_account r = a" "core_ready now (\<lambda>_. False) r"
  shows "ct_rows (crash_cycle now a w t) = [release_core_row now ''orphaned'' (lease_core_row now w r)]"
  using assms
  by (simp add: crash_cycle_def claim_core_work_for_account_def claim_rows_def sql_top_def sql_update_def
      sql_returning_def recover_orphaned_core_work_for_account_def give_back_def Let_def lease_core_row_def)

text \<open>Crashes have no budget: an item whose worker dies every time is claimed and recovered for ever.
  After any number of such cycles it is ready again and not buried, its attempt count beyond any limit.\<close>

theorem core_crash_never_buried:
  assumes "ct_rows t = [r]" "cw_account r = a" "core_ready now (\<lambda>_. False) r"
  shows "\<exists>r'. ct_rows ((crash_cycle now a w ^^ k) t) = [r'] \<and> cw_id r' = cw_id r \<and> cw_account r' = a
      \<and> core_ready now (\<lambda>_. False) r' \<and> cw_attempts r' = cw_attempts r + int k \<and> cw_max_attempts r' = cw_max_attempts r"
proof (induction k)
  case 0
  then show ?case using assms by simp
next
  case (Suc k)
  then obtain r' where r': "ct_rows ((crash_cycle now a w ^^ k) t) = [r']" "cw_account r' = a"
      "core_ready now (\<lambda>_. False) r'" "cw_id r' = cw_id r" "cw_attempts r' = cw_attempts r + int k"
      "cw_max_attempts r' = cw_max_attempts r" by auto
  from crash_cycle_single [OF r'(1-3), of w] r'(2-6) show ?case
    by (simp add: release_core_row_def fail_core_row_def lease_core_row_def core_ready_def)
qed

lemma core_crash_never_buried_witness:
  "\<exists>r'. ct_rows ((crash_cycle 100 ''a'' ''w'' ^^ 5) sample_heartbeat) = [r'] \<and> cw_attempts r' = 5 \<and> cw_max_attempts r' = 3"
proof -
  have "ct_rows sample_heartbeat = [new_core_row 10 1 ''a'' AssistantHeartbeat ''h'' JNull]"
    by (simp add: sample_heartbeat_def empty_core_table_def enqueue_core_work_for_account_def Let_def sql_exists_def)
  from core_crash_never_buried [OF this, of "''a''" 100 5 "''w''"] show ?thesis
    by (auto simp: new_core_row_def core_ready_def)
qed

section \<open>Status and names\<close>

text \<open>The status endpoint reports an account idle exactly when all its rows are done, and an error
  whenever one is dead.\<close>

theorem core_status_idle_iff:
  "(cs_state (core_work_status_for_account a t) = ''idle''
      \<longleftrightarrow> (\<forall>r \<in> set (ct_rows t). cw_account r = a \<longrightarrow> cw_status r = Done))
   \<and> ((\<exists>r \<in> set (ct_rows t). cw_account r = a \<and> cw_status r = Dead)
      \<longrightarrow> cs_state (core_work_status_for_account a t) = ''error'')"
proof -
  let ?d = "core_work_queue_depth_for_account a t"
  let ?l = "list_core_work_status_items a (\<lambda>r. cw_status r = Processing)
                     (\<lambda>r. (desc_nulls_last (cw_locked r), - cw_updated r)) 10 t"
  have st: "cs_state (core_work_status_for_account a t) = core_state_from_work ?d ?l"
    by (simp add: core_work_status_for_account_def Let_def)
  have depth: "(0 < qd_pending ?d) = (\<exists>r \<in> set (ct_rows t). cw_account r = a \<and> cw_status r = Pending)"
    "(0 < qd_failed ?d) = (\<exists>r \<in> set (ct_rows t). cw_account r = a \<and> cw_status r = Failed)"
    "(0 < qd_dead ?d) = (\<exists>r \<in> set (ct_rows t). cw_account r = a \<and> cw_status r = Dead)"
    by (simp_all add: core_work_queue_depth_for_account_def depth_of_def table_simps)
  have "length ?l = min 10 (length (filter (\<lambda>r. cw_account r = a \<and> cw_status r = Processing) (ct_rows t)))"
    by (simp add: list_core_work_status_items_def length_sql_top)
  then have "length ?l = 0 \<longleftrightarrow> length (filter (\<lambda>r. cw_account r = a \<and> cw_status r = Processing) (ct_rows t)) = 0"
    by linarith
  then have active: "?l = [] \<longleftrightarrow> \<not> (\<exists>r \<in> set (ct_rows t). cw_account r = a \<and> cw_status r = Processing)"
    unfolding length_0_conv filter_empty_conv by blast
  have done_iff: "cw_status r = Done \<longleftrightarrow> cw_status r \<noteq> Pending \<and> cw_status r \<noteq> Failed \<and> cw_status r \<noteq> Dead
      \<and> cw_status r \<noteq> Processing" for r :: core_row
    by (cases "cw_status r") simp_all
  have all: "(\<forall>r \<in> set (ct_rows t). cw_account r = a \<longrightarrow> cw_status r = Done) \<longleftrightarrow>
      \<not> 0 < qd_pending ?d \<and> \<not> 0 < qd_failed ?d \<and> \<not> 0 < qd_dead ?d \<and> ?l = []"
    unfolding depth active using done_iff by blast
  show ?thesis unfolding st all depth(3) [symmetric]
    by (auto simp: core_state_from_work_def Let_def split: list.splits)
qed

lemma core_status_idle_iff_witness:
  "cs_state (core_work_status_for_account ''a'' empty_core_table) = ''idle''"
  using core_status_idle_iff [of "''a''" empty_core_table] by (simp add: empty_core_table_def)

text \<open>The stored names of work types parse back to the same type, and nothing else parses.\<close>

theorem work_type_roundtrip: "work_type_from_str v = Inr ty \<longleftrightarrow> v = as_work_str ty"
  by (cases ty) (auto simp: work_type_from_str_def)

end
