(* ===== verification/SubagentProps.thy ===== *)
theory SubagentProps
  imports SubagentState
begin

text \<open>
  Properties of the sub-agent tables of \<open>SubagentState\<close>: when a skill lesson is promoted, that
  opposed lessons are never active, and the consistency of task rows under every statement.
\<close>

section \<open>Lessons\<close>

text \<open>Every statement on the lessons of any account is a step.\<close>

inductive lessons_reachable :: "skill_lesson_row list \<Rightarrow> bool" where
  start: "lessons_reachable []"
| upsert: "lessons_reachable t \<Longrightarrow> upsert_skill_lesson now e a l t = (n, t') \<Longrightarrow> lessons_reachable t'"
| list_active: "lessons_reachable t \<Longrightarrow> list_active_skill_lessons now a b m t = (ls, t') \<Longrightarrow> lessons_reachable t'"

lemma upsert_skill_lesson_uniq:
  assumes u: "uniq lesson_key t" and up: "upsert_skill_lesson now e a l t = (n, t')"
  shows "uniq lesson_key t'"
proof (cases "sql_exists (\<lambda>r. lesson_key r = (a, sl_skill_bundle l, sl_lesson_key l)) t")
  case True
  with up have "t' = sql_update (\<lambda>r. lesson_key r = (a, sl_skill_bundle l, sl_lesson_key l))
      (conflict_lesson_row now (promotion_support e) l) t"
    by (simp add: upsert_skill_lesson_def Let_def)
  moreover have "uniq lesson_key \<dots>"
    using u by (intro uniq_sql_update) (auto simp: lesson_key_def conflict_lesson_row_def Let_def)
  ultimately show ?thesis by simp
next
  case False
  have "lesson_key (new_lesson_row now a promo l) = (a, sl_skill_bundle l, sl_lesson_key l)" for promo
    by (simp add: lesson_key_def new_lesson_row_def excluded_lesson_def Let_def)
  with False u up show ?thesis
    by (force simp: upsert_skill_lesson_def Let_def uniq_snoc sql_exists_iff)
qed

lemma list_active_uniq:
  assumes "uniq lesson_key t" "list_active_skill_lessons now a b m t = (ls, t')"
  shows "uniq lesson_key t'"
  using assms by (auto simp: list_active_skill_lessons_def Let_def lesson_key_def uniq_def map_sql_update split: if_splits)

lemma lessons_reachable_ok: "lessons_reachable t \<Longrightarrow> uniq lesson_key t \<and> (\<forall>r \<in> set t. lesson_row_ok r)"
proof (induction rule: lessons_reachable.induct)
  case start
  show ?case by (simp add: uniq_def)
next
  case (upsert t now e a l n t')
  show ?case using upsert_skill_lesson_uniq [OF _ upsert.hyps(2)] upsert_skill_lesson_ok [OF _ upsert.hyps(2)] upsert.IH by simp
next
  case (list_active t now a b m ls t')
  show ?case using list_active_uniq [OF _ list_active.hyps(2)] list_active_skill_lessons_ok [OF _ list_active.hyps(2)] list_active.IH by simp
qed

definition lesson_example :: skill_lesson where
  "lesson_example = \<lparr>sl_skill_bundle = ''triage'', sl_lesson_key = ''k1'', sl_lesson_type = ''rule'', sl_status = LCandidate,
     sl_summary = ''s'', sl_evidence = JArray [], sl_score = None, sl_support_count = 1, sl_negative_count = 0,
     sl_source_task_id = None, sl_source_result_id = None, sl_source_run_id = None, sl_worker_name = None,
     sl_agent_spec_version = None\<rparr>"

text \<open>However lessons are reported and listed, an active one has no negative report and at least two
  supporting ones, and a bundle has one row per lesson key.\<close>

theorem active_lessons_supported:
  assumes "lessons_reachable t"
  shows "uniq lesson_key t \<and> (\<forall>r \<in> set t. sl_status (lr_lesson r) = LActive \<longrightarrow>
           2 \<le> sl_support_count (lr_lesson r) \<and> sl_negative_count (lr_lesson r) = 0)"
  using lessons_reachable_ok [OF assms] by (auto simp: lesson_row_ok_def)

lemma active_lessons_supported_witness:
  "uniq lesson_key (snd (upsert_skill_lesson 5 (\<lambda>_. None) ''a'' lesson_example []))"
proof -
  let ?x = "upsert_skill_lesson 5 (\<lambda>_. None) ''a'' lesson_example []"
  have "?x = (fst ?x, snd ?x)" by simp
  from active_lessons_supported [OF lessons_reachable.upsert [OF lessons_reachable.start this]]
  show ?thesis by blast
qed

text \<open>A candidate lesson with one supporting report, as the workers build it, reported \<open>k\<close> times.\<close>

definition report_lesson :: "timestamp \<Rightarrow> env \<Rightarrow> string \<Rightarrow> skill_lesson \<Rightarrow> skill_lesson_row list \<Rightarrow> skill_lesson_row list" where
  "report_lesson now e a l t = snd (upsert_skill_lesson now e a l t)"

lemma report_lesson_Suc:
  assumes "sl_status l = LCandidate" "sl_support_count l = 1" "sl_negative_count l = 0"
  shows "\<exists>r. (report_lesson now e a l ^^ Suc k) [] = [r] \<and> lesson_key r = (a, sl_skill_bundle l, sl_lesson_key l)
     \<and> sl_support_count (lr_lesson r) = int (Suc k) \<and> sl_negative_count (lr_lesson r) = 0
     \<and> sl_status (lr_lesson r) = (if promotion_support e \<le> int (Suc k) then LActive else LCandidate)"
proof (induction k)
  case 0
  show ?case using assms promotion_support_ge_2 [of e]
    by (auto simp: report_lesson_def upsert_skill_lesson_def Let_def sql_exists_def new_lesson_row_def
        excluded_lesson_def lesson_key_def)
next
  case (Suc k)
  then obtain r where r: "(report_lesson now e a l ^^ Suc k) [] = [r]"
      "lesson_key r = (a, sl_skill_bundle l, sl_lesson_key l)" "sl_support_count (lr_lesson r) = int (Suc k)"
      "sl_negative_count (lr_lesson r) = 0"
      "sl_status (lr_lesson r) = (if promotion_support e \<le> int (Suc k) then LActive else LCandidate)" by blast
  let ?r' = "conflict_lesson_row now (promotion_support e) l r"
  have x: "sl_support_count (excluded_lesson (promotion_support e) l) = 1"
    "sl_negative_count (excluded_lesson (promotion_support e) l) = 0"
    using assms by (simp_all add: excluded_lesson_def Let_def)
  have "(report_lesson now e a l ^^ Suc (Suc k)) [] = [?r']"
    unfolding funpow.simps(2) [of "Suc k"] comp_def r(1) using r(2)
    by (simp add: report_lesson_def upsert_skill_lesson_def Let_def sql_exists_def sql_update_def)
  moreover have "lesson_key ?r' = lesson_key r" by (simp add: lesson_key_def conflict_lesson_row_def Let_def)
  ultimately show ?case using r(2-5) x
    by (auto simp: conflict_lesson_row_def Let_def split: if_splits)
qed

text \<open>A lesson reported again and again becomes active by the report that reaches
  \<^verbatim>\<open>SUBAGENT_SKILL_LESSON_PROMOTION_SUPPORT\<close> (never less than two) and not before: one report
  never changes how the workers behave.\<close>

theorem lesson_promotion_exact:
  assumes "sl_status l = LCandidate" "sl_support_count l = 1" "sl_negative_count l = 0"
  shows "map (\<lambda>r. sl_status (lr_lesson r)) ((report_lesson now e a l ^^ Suc k) [])
           = [if promotion_support e \<le> int (Suc k) then LActive else LCandidate]"
  using report_lesson_Suc [OF assms, of k now e a] by auto

lemma lesson_promotion_exact_witness:
  "map (\<lambda>r. sl_status (lr_lesson r)) ((report_lesson 5 (\<lambda>_. None) ''a'' lesson_example ^^ 1) []) = [LCandidate]"
  using lesson_promotion_exact [of lesson_example 0 5 "\<lambda>_. None" "''a''"]
  by (simp add: lesson_example_def promotion_support_def env_parse_def)

section \<open>Tasks\<close>

inductive tasks_reachable :: "subagent_task_row list \<Rightarrow> bool" where
  start: "tasks_reachable []"
| upsert: "tasks_reachable t \<Longrightarrow> upsert_subagent_task now a task w st t = (n, t') \<Longrightarrow> tasks_reachable t'"
| finish: "tasks_reachable t \<Longrightarrow> st \<in> {TCompleted, TFailed} \<Longrightarrow>
    mark_subagent_task_finished now a i st err t = (n, t') \<Longrightarrow> tasks_reachable t'"

lemma mark_finished_ok:
  assumes "\<forall>r \<in> set t. task_row_ok r" "st \<in> {TCompleted, TFailed}"
    "mark_subagent_task_finished now a i st err t = (n, t')"
  shows "\<forall>r \<in> set t'. task_row_ok r"
  using assms by (auto simp: mark_subagent_task_finished_def Let_def set_sql_update task_row_ok_def)

lemma mark_finished_uniq:
  assumes "uniq task_key t" "mark_subagent_task_finished now a i st err t = (n, t')"
  shows "uniq task_key t'"
  using assms by (auto simp: mark_subagent_task_finished_def Let_def uniq_def map_sql_update task_key_def)

text \<open>The task table stays consistent under the statements the workers use: one row per account and
  task id, a running task has a start and no finish, a pending one neither.\<close>

theorem subagent_tasks_consistent:
  "tasks_reachable t \<Longrightarrow> uniq task_key t \<and> (\<forall>r \<in> set t. task_row_ok r)"
proof (induction rule: tasks_reachable.induct)
  case start
  show ?case by (simp add: uniq_def)
next
  case (upsert t now a task w st n t')
  show ?case using upsert_subagent_task_uniq [OF _ upsert.hyps(2)] upsert_subagent_task_ok [OF _ upsert.hyps(2)] upsert.IH by simp
next
  case (finish t st now a i err n t')
  show ?case using mark_finished_ok [OF _ finish.hyps(2,3)] mark_finished_uniq [OF _ finish.hyps(3)] finish.IH by simp
qed

definition task_example :: subagent_task_record where
  "task_example = \<lparr>tr_task_id = ''t1'', tr_task_kind = ''k'', tr_worker_name = ''w'', tr_skill_bundle = ''s'',
     tr_message_ids = [], tr_input_context = JNull, tr_priority = 0, tr_correlation_id = ''c'', tr_created_by = ''h''\<rparr>"

lemma subagent_tasks_consistent_witness:
  "uniq task_key (snd (upsert_subagent_task 5 ''a'' task_example (Some 1) TRunning []))"
proof -
  let ?x = "upsert_subagent_task 5 ''a'' task_example (Some 1) TRunning []"
  have "?x = (fst ?x, snd ?x)" by simp
  from subagent_tasks_consistent [OF tasks_reachable.upsert [OF tasks_reachable.start this]] show ?thesis by blast
qed

end
