(* ===== verification/BodySyncQueue.thy ===== *)
theory BodySyncQueue
  imports CoreWork
begin

text \<open>
  \<^verbatim>\<open>src/database/body_sync_queue.rs\<close>: the durable queue of full-body fetches. A row is a
  \<open>body_row\<close>; the methods are functions of the same name. \<open>emails a m\<close> says that account
  \<open>a\<close> has the message \<open>m\<close>, which the foreign key of a new row requires. An \<^verbatim>\<open>INSERT .. ON
  CONFLICT DO UPDATE\<close> of several rows fails as a whole when two of them have the same key or
  a new one violates the foreign key. The methods without an account are the ones with it at
  \<^verbatim>\<open>DEFAULT_ACCOUNT_ID\<close>.
\<close>

text \<open>\<^verbatim>\<open>DEFAULT_ACCOUNT_ID\<close>.\<close>

definition default_account_id :: string where
  "default_account_id = ''default''"

record body_item =
  bi_folder :: string
  bi_uid :: int
  bi_uid_validity :: int
  bi_message_id :: string

record body_entry =
  be_id :: int
  be_folder :: string
  be_uid :: int
  be_uid_validity :: int
  be_message_id :: string
  be_attempt_count :: int

record body_row =
  bq_id :: int
  bq_account :: string
  bq_folder :: string
  bq_uid :: int
  bq_uid_validity :: int
  bq_message_id :: string
  bq_status :: queue_status
  bq_attempts :: int
  bq_available :: timestamp
  bq_locked :: "timestamp option"
  bq_worker :: "string option"
  bq_error :: "string option"
  bq_updated :: timestamp

record body_table =
  bt_rows :: "body_row list"
  bt_next_id :: int

section \<open>Enqueue\<close>

type_synonym body_key = "string \<times> string \<times> int \<times> int \<times> string"

definition body_key_of :: "body_row \<Rightarrow> body_key" where
  "body_key_of r = (bq_account r, bq_folder r, bq_uid r, bq_uid_validity r, bq_message_id r)"

definition item_key :: "string \<Rightarrow> body_item \<Rightarrow> body_key" where
  "item_key a i = (a, bi_folder i, bi_uid i, bi_uid_validity i, bi_message_id i)"

definition new_body_row :: "timestamp \<Rightarrow> int \<Rightarrow> string \<Rightarrow> body_item \<Rightarrow> body_row" where
  "new_body_row now n a i =
     \<lparr>bq_id = n, bq_account = a, bq_folder = bi_folder i, bq_uid = bi_uid i,
      bq_uid_validity = bi_uid_validity i, bq_message_id = bi_message_id i, bq_status = Pending,
      bq_attempts = 0, bq_available = now, bq_locked = None, bq_worker = None, bq_error = None,
      bq_updated = now\<rparr>"

text \<open>The conflict clause: a done row only gets a new \<^verbatim>\<open>updated_at\<close>; the attempt count is kept.\<close>

definition requeue_body_row :: "timestamp \<Rightarrow> body_row \<Rightarrow> body_row" where
  "requeue_body_row now r =
     r\<lparr>bq_status := (if bq_status r = Done then bq_status r else Pending),
       bq_available := (if bq_status r = Done then bq_available r else now),
       bq_locked := (if bq_status r = Done then bq_locked r else None),
       bq_worker := (if bq_status r = Done then bq_worker r else None),
       bq_error := (if bq_status r = Done then bq_error r else None),
       bq_updated := now\<rparr>"

definition upsert_body_row :: "timestamp \<Rightarrow> string \<Rightarrow> body_item \<Rightarrow> body_table \<Rightarrow> body_table" where
  "upsert_body_row now a i t =
     (let same = (\<lambda>r. body_key_of r = item_key a i) in
      \<lparr>bt_rows = (if sql_exists same (bt_rows t) then sql_update same (requeue_body_row now) (bt_rows t)
                  else bt_rows t @ [new_body_row now (bt_next_id t) a i]),
       bt_next_id = bt_next_id t + 1\<rparr>)"

definition insert_body_items ::
  "timestamp \<Rightarrow> (string \<Rightarrow> string \<Rightarrow> bool) \<Rightarrow> string \<Rightarrow> body_item list \<Rightarrow> body_table \<Rightarrow> body_table option" where
  "insert_body_items now emails a items t =
     (if \<not> distinct (map (item_key a) items)
         \<or> list_ex (\<lambda>i. \<not> sql_exists (\<lambda>r. body_key_of r = item_key a i) (bt_rows t)
                        \<and> \<not> emails a (bi_message_id i)) items
      then None
      else Some (fold (upsert_body_row now a) items t))"

definition enqueue_body_sync_items_for_account ::
  "timestamp \<Rightarrow> (string \<Rightarrow> string \<Rightarrow> bool) \<Rightarrow> string \<Rightarrow> body_item list \<Rightarrow> body_table \<Rightarrow> int result \<times> body_table" where
  "enqueue_body_sync_items_for_account now emails a items t =
     (if items = [] then (Inr 0, t)
      else case insert_body_items now emails a items t of
             None \<Rightarrow> (Inl [''enqueue_body_sync_items''], t)
           | Some t' \<Rightarrow> (Inr (int (length items)), t'))"

text \<open>
  Envelopes and queue rows in one transaction: \<open>upsert\<close> is the statement
  \<^verbatim>\<open>SELECT upsert_emails_from_envelope\<close> on the mail tables of type \<open>'m\<close>, \<open>emails_in\<close>
  the keys those tables hold. An error rolls both back.
\<close>

definition upsert_envelopes_and_enqueue_body_sync_for_account ::
  "(string \<Rightarrow> json \<Rightarrow> 'm \<Rightarrow> 'm option) \<Rightarrow> ('m \<Rightarrow> string \<Rightarrow> string \<Rightarrow> bool) \<Rightarrow> timestamp \<Rightarrow> string \<Rightarrow> json
     \<Rightarrow> body_item list \<Rightarrow> 'm \<times> body_table \<Rightarrow> unit result \<times> 'm \<times> body_table" where
  "upsert_envelopes_and_enqueue_body_sync_for_account upsert emails_in now a payload items s =
     (let (m, t) = s in
      case upsert a payload m of
        None \<Rightarrow> (Inl [''upsert envelopes in envelope+queue tx''], m, t)
      | Some m' \<Rightarrow>
          (if items = [] then (Inr (), m', t)
           else case insert_body_items now (emails_in m') a items t of
                  None \<Rightarrow> (Inl [''enqueue body_sync_queue in envelope+queue tx''], m, t)
                | Some t' \<Rightarrow> (Inr (), m', t')))"

section \<open>Claim, completion, retry\<close>

definition lease_body_row :: "timestamp \<Rightarrow> string \<Rightarrow> body_row \<Rightarrow> body_row" where
  "lease_body_row now w r =
     r\<lparr>bq_status := Processing, bq_attempts := bq_attempts r + 1, bq_locked := Some now,
       bq_worker := Some w, bq_updated := now\<rparr>"

definition body_ready :: "timestamp \<Rightarrow> (int \<Rightarrow> bool) \<Rightarrow> body_row \<Rightarrow> bool" where
  "body_ready now skip r \<longleftrightarrow>
     bq_status r \<in> {Pending, Failed} \<and> bq_available r \<le> now \<and> \<not> skip (bq_id r)"

definition body_entry_of_row :: "body_row \<Rightarrow> body_entry" where
  "body_entry_of_row r =
     \<lparr>be_id = bq_id r, be_folder = bq_folder r, be_uid = bq_uid r, be_uid_validity = bq_uid_validity r,
      be_message_id = bq_message_id r, be_attempt_count = bq_attempts r\<rparr>"

definition claim_body_sync_batch_for_account ::
  "timestamp \<Rightarrow> (int \<Rightarrow> bool) \<Rightarrow> string \<Rightarrow> string \<Rightarrow> nat \<Rightarrow> body_table \<Rightarrow> body_entry list \<times> body_table" where
  "claim_body_sync_batch_for_account now skip a w n t =
     (let (rows, claimed) =
            claim_rows bq_account bq_id a (body_ready now skip) (\<lambda>r. (bq_available r, bq_id r)) n
              (lease_body_row now w) (bt_rows t)
      in (map body_entry_of_row claimed, t\<lparr>bt_rows := rows\<rparr>))"

definition finish_body_row :: "timestamp \<Rightarrow> body_row \<Rightarrow> body_row" where
  "finish_body_row now r =
     r\<lparr>bq_status := Done, bq_locked := None, bq_worker := None, bq_error := None, bq_updated := now\<rparr>"

definition mark_body_sync_done_for_account ::
  "timestamp \<Rightarrow> string \<Rightarrow> int list \<Rightarrow> body_table \<Rightarrow> int \<times> body_table" where
  "mark_body_sync_done_for_account now a ids t =
     (if ids = [] then (0, t)
      else let p = (\<lambda>r. bq_account r = a \<and> bq_id r \<in> set ids) in
           (sql_count p (bt_rows t), t\<lparr>bt_rows := sql_update p (finish_body_row now) (bt_rows t)\<rparr>))"

definition fail_body_row :: "timestamp \<Rightarrow> queue_status \<Rightarrow> int \<Rightarrow> string \<Rightarrow> body_row \<Rightarrow> body_row" where
  "fail_body_row now st delay e r =
     r\<lparr>bq_status := st, bq_available := (if st = Failed then now + secs delay else bq_available r),
       bq_locked := None, bq_worker := None, bq_error := Some (take 4000 e), bq_updated := now\<rparr>"

definition mark_body_sync_retry_or_dead_for_account ::
  "timestamp \<Rightarrow> string \<Rightarrow> int \<Rightarrow> int \<Rightarrow> int \<Rightarrow> int \<Rightarrow> string \<Rightarrow> body_table \<Rightarrow> queue_status result \<times> body_table" where
  "mark_body_sync_retry_or_dead_for_account now a i attempt_count max_attempts retry_after e t =
     (let next_status = (if attempt_count \<ge> max_attempts then Dead else Failed);
          p = (\<lambda>r. bq_account r = a \<and> bq_id r = i) in
      if sql_count p (bt_rows t) = 0
      then (Inl [''mark_body_sync_retry_or_dead: queue item '' @ show_int i @ '' not found''], t)
      else (Inr next_status,
            t\<lparr>bt_rows := sql_update p (fail_body_row now next_status (max retry_after 0) e) (bt_rows t)\<rparr>))"

definition expire_body_row :: "timestamp \<Rightarrow> body_row \<Rightarrow> body_row" where
  "expire_body_row now r =
     r\<lparr>bq_status := Failed, bq_available := now, bq_locked := None, bq_worker := None,
       bq_error := coalesce (bq_error r) (Some ''stale lock reset''), bq_updated := now\<rparr>"

definition body_stale :: "timestamp \<Rightarrow> string \<Rightarrow> int \<Rightarrow> body_row \<Rightarrow> bool" where
  "body_stale now a stale_after r \<longleftrightarrow>
     bq_account r = a \<and> bq_status r = Processing \<and>
     (case bq_locked r of None \<Rightarrow> False | Some l \<Rightarrow> l < now - secs (max stale_after 1))"

definition reset_stale_body_sync_processing_for_account ::
  "timestamp \<Rightarrow> string \<Rightarrow> int \<Rightarrow> body_table \<Rightarrow> int \<times> body_table" where
  "reset_stale_body_sync_processing_for_account now a stale_after t =
     (sql_count (body_stale now a stale_after) (bt_rows t),
      t\<lparr>bt_rows := sql_update (body_stale now a stale_after) (expire_body_row now) (bt_rows t)\<rparr>)"

definition body_sync_queue_depth_for_account :: "string \<Rightarrow> body_table \<Rightarrow> queue_depth" where
  "body_sync_queue_depth_for_account a t = depth_of (\<lambda>r. bq_account r = a) bq_status (bt_rows t)"

section \<open>The queue as a \<open>lease_queue\<close>, and its invariant\<close>

interpretation body_q: lease_queue bq_account bq_id bq_status bq_attempts bq_available bq_locked bq_worker
  lease_body_row fail_body_row expire_body_row
  by unfold_locales (simp_all add: lease_body_row_def fail_body_row_def expire_body_row_def)

definition body_table_ok :: "body_table \<Rightarrow> bool" where
  "body_table_ok t \<longleftrightarrow>
     uniq bq_id (bt_rows t) \<and> uniq body_key_of (bt_rows t) \<and>
     (\<forall>r \<in> set (bt_rows t). bq_id r < bt_next_id t) \<and> (\<forall>r \<in> set (bt_rows t). body_q.lease_ok r)"

lemma body_uniq_acct: "body_table_ok t \<Longrightarrow> uniq (\<lambda>r. (bq_account r, bq_id r)) (bt_rows t)"
  by (auto simp: body_table_ok_def uniq_def distinct_map inj_on_def)

lemma body_table_ok_update:
  assumes t: "body_table_ok t"
    and ids: "\<And>r. p r \<Longrightarrow> bq_id (f r) = bq_id r \<and> body_key_of (f r) = body_key_of r"
    and ok: "\<And>r. r \<in> set (bt_rows t) \<Longrightarrow> p r \<Longrightarrow> body_q.lease_ok r \<Longrightarrow> body_q.lease_ok (f r)"
  shows "body_table_ok (t\<lparr>bt_rows := sql_update p f (bt_rows t)\<rparr>)"
proof -
  have "map bq_id (sql_update p f (bt_rows t)) = map bq_id (bt_rows t)"
    and "map body_key_of (sql_update p f (bt_rows t)) = map body_key_of (bt_rows t)"
    using ids by (simp_all add: map_sql_update)
  moreover have "\<forall>r \<in> set (sql_update p f (bt_rows t)). bq_id r < bt_next_id t \<and> body_q.lease_ok r"
    using t ids ok by (auto simp: body_table_ok_def set_sql_update)
  ultimately show ?thesis using t by (simp add: body_table_ok_def uniq_def)
qed

lemma body_row_ids [simp]:
  "bq_id (lease_body_row now w r) = bq_id r" "body_key_of (lease_body_row now w r) = body_key_of r"
  "bq_id (fail_body_row now st d e r) = bq_id r" "body_key_of (fail_body_row now st d e r) = body_key_of r"
  "bq_id (expire_body_row now r) = bq_id r" "body_key_of (expire_body_row now r) = body_key_of r"
  "bq_id (finish_body_row now r) = bq_id r" "body_key_of (finish_body_row now r) = body_key_of r"
  "bq_id (requeue_body_row now r) = bq_id r" "body_key_of (requeue_body_row now r) = body_key_of r"
  "bq_id (new_body_row now n a i) = n" "body_key_of (new_body_row now n a i) = item_key a i"
  by (simp_all add: body_key_of_def item_key_def lease_body_row_def fail_body_row_def expire_body_row_def
      finish_body_row_def requeue_body_row_def new_body_row_def)

lemma body_lease_ok_rows [simp]:
  "body_q.lease_ok (finish_body_row now r)" "body_q.lease_ok (new_body_row now n a i)"
  "body_q.lease_ok r \<Longrightarrow> body_q.lease_ok (requeue_body_row now r)"
  by (auto simp: body_q.lease_ok_def finish_body_row_def requeue_body_row_def new_body_row_def)

lemma upsert_body_row_ok:
  assumes t: "body_table_ok t"
  shows "body_table_ok (upsert_body_row now a i t)"
proof (cases "sql_exists (\<lambda>r. body_key_of r = item_key a i) (bt_rows t)")
  case True
  have "body_table_ok (t\<lparr>bt_rows := sql_update (\<lambda>r. body_key_of r = item_key a i) (requeue_body_row now) (bt_rows t)\<rparr>)"
    by (rule body_table_ok_update [OF t]) simp_all
  with True show ?thesis by (force simp: upsert_body_row_def Let_def body_table_ok_def)
next
  case False
  with t show ?thesis
    by (fastforce simp: upsert_body_row_def Let_def body_table_ok_def uniq_snoc sql_exists_iff)
qed

lemma fold_upsert_body_ok: "body_table_ok t \<Longrightarrow> body_table_ok (fold (upsert_body_row now a) items t)"
  by (induction items arbitrary: t) (simp_all add: upsert_body_row_ok)

lemma insert_body_items_ok: "body_table_ok t \<Longrightarrow> insert_body_items now em a items t = Some t' \<Longrightarrow> body_table_ok t'"
  by (auto simp: insert_body_items_def fold_upsert_body_ok split: if_splits)

lemma body_claim_rows:
  assumes t: "body_table_ok t"
  shows "claim_body_sync_batch_for_account now skip a w n t =
    (let sel = claimed_set bq_account a (body_ready now skip) (\<lambda>r. (bq_available r, bq_id r)) n (bt_rows t)
     in (map body_entry_of_row (sql_returning (\<lambda>r. r \<in> sel) (lease_body_row now w) (bt_rows t)),
         t\<lparr>bt_rows := sql_update (\<lambda>r. r \<in> sel) (lease_body_row now w) (bt_rows t)\<rparr>))"
  by (simp add: claim_body_sync_batch_for_account_def claim_rows_unfold [OF body_uniq_acct [OF t]] Let_def)

lemma claim_body_ok:
  assumes t: "body_table_ok t" and c: "claim_body_sync_batch_for_account now skip a w n t = (es, t')"
  shows "body_table_ok t'"
  using c body_table_ok_update [OF t, of _ "lease_body_row now w"]
  by (auto simp: body_claim_rows [OF t] Let_def)

lemma mark_body_done_ok:
  "body_table_ok t \<Longrightarrow> mark_body_sync_done_for_account now a ids t = (n, t') \<Longrightarrow> body_table_ok t'"
  using body_table_ok_update [of t "\<lambda>r. bq_account r = a \<and> bq_id r \<in> set ids" "finish_body_row now"]
  by (auto simp: mark_body_sync_done_for_account_def Let_def split: if_splits)

lemma mark_body_retry_ok:
  "body_table_ok t \<Longrightarrow> mark_body_sync_retry_or_dead_for_account now a i c m d e t = (s, t') \<Longrightarrow> body_table_ok t'"
  using body_table_ok_update [of t "\<lambda>r. bq_account r = a \<and> bq_id r = i"
      "fail_body_row now (if c \<ge> m then Dead else Failed) (max d 0) e"]
  by (auto simp: mark_body_sync_retry_or_dead_for_account_def Let_def split: if_splits)

lemma reset_stale_body_ok:
  "body_table_ok t \<Longrightarrow> reset_stale_body_sync_processing_for_account now a d t = (n, t') \<Longrightarrow> body_table_ok t'"
  using body_table_ok_update [of t "body_stale now a d" "expire_body_row now"]
  by (auto simp: reset_stale_body_sync_processing_for_account_def)

end
