(* ===== verification/BodySyncService.thy ===== *)
theory BodySyncService
  imports BodySyncQueue
begin

text \<open>
  \<^verbatim>\<open>src/body_sync_service.rs\<close>: the workers that drain \<open>BodySyncQueue\<close>. A \<open>body_world\<close> is the
  queue, the trace of the statements on the mail tables that took effect, and the number of
  statements so far. A \<open>body_host\<close> is what the code does not decide: the clock read by the
  \<open>n\<close>-th statement, the IMAP server's answer to a fetch, whether a statement on the mail tables
  fails, the rows other transactions hold locked, the iteration order of a \<^verbatim>\<open>HashMap\<close>, and
  the library's \<^verbatim>\<open>to_rfc3339\<close>. The loop of a worker has fuel; \<open>None\<close> means out of fuel.
  Printing and metrics are left out.
\<close>

section \<open>Configuration\<close>

record body_config =
  bc_workers :: int
  bc_claim_batch_size :: int
  bc_max_attempts :: int
  bc_retry_base_secs :: int
  bc_max_retry_delay_secs :: int
  bc_stale_processing_secs :: int

definition slow_sync_batch_size :: int where
  "slow_sync_batch_size = 25"

definition body_config_from_env :: "env \<Rightarrow> body_config" where
  "body_config_from_env e =
     \<lparr>bc_workers = max (env_parse e parse_u64 ''BODY_SYNC_WORKERS'' 2) 1,
      bc_claim_batch_size = max (env_parse e parse_u64 ''BODY_SYNC_CLAIM_BATCH_SIZE'' slow_sync_batch_size) 1,
      bc_max_attempts = max (env_parse e parse_i32 ''BODY_SYNC_MAX_ATTEMPTS'' 5) 1,
      bc_retry_base_secs = max (env_parse e parse_i64 ''BODY_SYNC_RETRY_BASE_SECS'' 30) 1,
      bc_max_retry_delay_secs = max (env_parse e parse_i64 ''BODY_SYNC_MAX_RETRY_DELAY_SECS'' 3600) 1,
      bc_stale_processing_secs = max (env_parse e parse_i64 ''BODY_SYNC_STALE_PROCESSING_SECS'' 900) 30\<rparr>"

text \<open>The shift is by at most 16, so \<^verbatim>\<open>checked_shl\<close> never fails; the product saturates.\<close>

definition retry_delay_secs :: "int \<Rightarrow> int \<Rightarrow> int \<Rightarrow> int" where
  "retry_delay_secs base attempt_count max_delay =
     (let exponent = nat (clamp 0 16 (attempt_count - 1));
          factor = push_bit exponent (1::int)
      in clamp 1 (max max_delay 1) (sat_i64 (base * factor)))"

section \<open>Casts\<close>

definition json_i64 :: "json \<Rightarrow> int option" where
  "json_i64 v = (case v of JInt n \<Rightarrow> (if i64_min \<le> n \<and> n \<le> i64_max then Some n else None) | _ \<Rightarrow> None)"

definition opt_json :: "('a \<Rightarrow> json) \<Rightarrow> 'a option \<Rightarrow> json" where
  "opt_json f x = (case x of None \<Rightarrow> JNull | Some v \<Rightarrow> f v)"

section \<open>Fetched messages and payloads\<close>

record full_message =
  fm_subject :: "string option"
  fm_sender :: "string option"
  fm_received_date :: "timestamp option"
  fm_recipients_to :: "string list"
  fm_recipients_cc :: "string list"
  fm_recipients_bcc :: "string list"
  fm_raw_email_content :: string
  fm_body_text :: "string option"
  fm_is_read :: bool
  fm_message_size :: "int option"
  fm_modseq :: "int option"
  fm_list_unsubscribe :: "string option"
  fm_list_id :: "string option"
  fm_x_priority :: "string option"
  fm_return_path :: "string option"
  fm_reply_to :: "string option"
  fm_custom_headers :: json
  fm_in_reply_to :: "string option"
  fm_references :: "string list"

datatype mail_write =
    UpsertAndMark string json "string option" "int list option" "string list option"
  | LastFullSyncUid string string int
  | HighestModseq string string int

record body_host =
  bx_clock :: "nat \<Rightarrow> timestamp"
  bx_fetch :: "nat \<Rightarrow> string \<Rightarrow> int list \<Rightarrow> int \<Rightarrow> (int \<times> full_message) list result"
  bx_store :: "nat \<Rightarrow> mail_write \<Rightarrow> err option"
  bx_skip :: "nat \<Rightarrow> int \<Rightarrow> bool"
  bx_order :: "string list \<Rightarrow> string list"
  bx_rfc3339 :: "timestamp \<Rightarrow> string"

record body_world =
  bw_queue :: body_table
  bw_mail :: "mail_write list"
  bw_tick :: nat

definition strip_nul :: "string \<Rightarrow> string" where
  "strip_nul s = replace_char (char_of (0::nat)) (CHR '' '') s"

definition related_ids :: "full_message \<Rightarrow> string list" where
  "related_ids m =
     fold (\<lambda>r ids. if trim r \<noteq> [] \<and> r \<notin> set ids then ids @ [r] else ids) (fm_references m)
       (case fm_in_reply_to m of None \<Rightarrow> [] | Some r \<Rightarrow> (if trim r \<noteq> [] then [r] else []))"

text \<open>The fields both payloads share: from \<^verbatim>\<open>message_id\<close> to \<^verbatim>\<open>uid_validity\<close>, and from
  \<^verbatim>\<open>list_unsubscribe\<close> on.\<close>

definition payload_head :: "string \<Rightarrow> string \<Rightarrow> int \<Rightarrow> int \<Rightarrow> (string \<times> json) list" where
  "payload_head mid folder uid uid_validity =
     [(''message_id'', JString mid), (''location'', JString folder), (''uid'', JInt uid),
      (''uid_validity'', JInt (as_i32 uid_validity))]"

definition payload_recipients :: "full_message \<Rightarrow> (string \<times> json) list" where
  "payload_recipients m =
     [(''recipients_to'', JArray (map JString (fm_recipients_to m))),
      (''recipients_cc'', JArray (map JString (fm_recipients_cc m))),
      (''recipients_bcc'', JArray (map JString (fm_recipients_bcc m)))]"

definition payload_tail :: "full_message \<Rightarrow> (string \<times> json) list" where
  "payload_tail m =
     [(''modseq'', opt_json (\<lambda>n. JInt (as_i64_cast n)) (fm_modseq m)),
      (''list_unsubscribe'', opt_json JString (fm_list_unsubscribe m)),
      (''list_id'', opt_json JString (fm_list_id m)),
      (''x_priority'', opt_json JString (fm_x_priority m)),
      (''return_path'', opt_json JString (fm_return_path m)),
      (''reply_to'', opt_json JString (fm_reply_to m)),
      (''custom_headers'', fm_custom_headers m),
      (''related_message_ids'', JArray (map JString (related_ids m)))]"

definition body_payload :: "(timestamp \<Rightarrow> string) \<Rightarrow> string \<Rightarrow> int \<Rightarrow> int \<Rightarrow> string \<Rightarrow> full_message \<Rightarrow> json" where
  "body_payload rfc folder uid_validity uid mid m =
     JObject (payload_head mid folder uid uid_validity @
       [(''subject'', opt_json JString (fm_subject m)),
        (''sender'', opt_json JString (fm_sender m)),
        (''received_date'', opt_json (\<lambda>d. JString (rfc d)) (fm_received_date m))] @
       payload_recipients m @
       [(''raw_email_content'', JString (strip_nul (fm_raw_email_content m))),
        (''body_text'', opt_json (\<lambda>s. JString (strip_nul s)) (fm_body_text m)),
        (''is_read'', JBool (fm_is_read m)),
        (''message_size'', opt_json (\<lambda>n. JInt (as_i32 n)) (fm_message_size m))] @
       payload_tail m)"

record backfill_entry =
  bf_uid :: int
  bf_uid_validity :: int
  bf_message_id :: string
  bf_fill_subject :: bool
  bf_fill_sender :: bool
  bf_fill_received_date :: bool
  bf_fill_raw :: bool
  bf_fill_body :: bool
  bf_fill_size :: bool

definition backfill_payload :: "(timestamp \<Rightarrow> string) \<Rightarrow> string \<Rightarrow> int \<Rightarrow> backfill_entry \<Rightarrow> full_message \<Rightarrow> json" where
  "backfill_payload rfc folder uid_validity b m =
     (let raw = strip_nul (fm_raw_email_content m);
          body = map_option strip_nul (fm_body_text m)
      in JObject (payload_head (bf_message_id b) folder (bf_uid b) uid_validity @
       [(''subject'', if bf_fill_subject b then opt_json JString (fm_subject m) else JNull),
        (''sender'', if bf_fill_sender b then opt_json JString (fm_sender m) else JNull),
        (''received_date'', if bf_fill_received_date b then opt_json (\<lambda>d. JString (rfc d)) (fm_received_date m) else JNull)] @
       payload_recipients m @
       [(''raw_email_content'', if bf_fill_raw b \<and> raw \<noteq> [] then JString raw else JNull),
        (''body_text'', if bf_fill_body b then opt_json JString (Option.bind body (\<lambda>s. if s \<noteq> [] then Some s else None)) else JNull),
        (''is_read'', JBool (fm_is_read m)),
        (''message_size'', if bf_fill_size b then opt_json (\<lambda>n. JInt (as_i32 n)) (fm_message_size m) else JNull)] @
       payload_tail m))"

text \<open>A list collected into a \<^verbatim>\<open>HashMap\<close>: the last entry of a key wins.\<close>

definition uid_map :: "(int \<times> full_message) list \<Rightarrow> int \<Rightarrow> full_message option" where
  "uid_map results = map_of (rev results)"

definition uid_map_values :: "(int \<times> full_message) list \<Rightarrow> full_message list" where
  "uid_map_values results = flatten_opts (map (uid_map results) (remdups (map fst results)))"

definition max_list :: "int list \<Rightarrow> int option" where
  "max_list xs = (case xs of [] \<Rightarrow> None | y # ys \<Rightarrow> Some (foldl max y ys))"

section \<open>Statements on the mail tables\<close>

definition write_mail :: "body_host \<Rightarrow> string \<Rightarrow> mail_write \<Rightarrow> body_world \<Rightarrow> unit result \<times> body_world" where
  "write_mail h c wr w =
     (case bx_store h (bw_tick w) wr of
        Some e \<Rightarrow> (Inl (c # e), w\<lparr>bw_tick := bw_tick w + 1\<rparr>)
      | None \<Rightarrow> (Inr (), w\<lparr>bw_mail := bw_mail w @ [wr], bw_tick := bw_tick w + 1\<rparr>))"

text \<open>The tail of both flushes: the folder's highest uid and modification sequence.\<close>

definition update_folder_marks ::
  "body_host \<Rightarrow> string \<Rightarrow> string \<Rightarrow> (int \<times> full_message) list \<Rightarrow> body_world \<Rightarrow> unit result \<times> body_world" where
  "update_folder_marks h a folder results w =
     (let highest = (case max_list (map fst results) of None \<Rightarrow> 0 | Some n \<Rightarrow> n);
          modseqs = flatten_opts (map (\<lambda>m. map_option as_i64_cast (fm_modseq m)) (uid_map_values results));
          (r1, w1) = (if highest > 0
                      then write_mail h ''Failed to update last_full_sync_uid'' (LastFullSyncUid a folder (as_i32 highest)) w
                      else (Inr (), w))
      in case r1 of
           Inl e \<Rightarrow> (Inl e, w1)
         | Inr _ \<Rightarrow> (case max_list modseqs of
               None \<Rightarrow> (Inr (), w1)
             | Some n \<Rightarrow> write_mail h ''Failed to update highest_modseq'' (HighestModseq a folder n) w1))"

definition fetch_full ::
  "body_host \<Rightarrow> string \<Rightarrow> int list \<Rightarrow> int \<Rightarrow> body_world \<Rightarrow> (int \<times> full_message) list result \<times> body_world" where
  "fetch_full h folder uids uid_validity w =
     (ctx ''Failed to fetch full messages'' (bx_fetch h (bw_tick w) folder uids uid_validity), w\<lparr>bw_tick := bw_tick w + 1\<rparr>)"

definition has_text :: "string \<Rightarrow> json \<Rightarrow> bool" where
  "has_text k obj = (case get_str k obj of None \<Rightarrow> False | Some s \<Rightarrow> s \<noteq> [])"

definition flush_backfill_batch ::
  "body_host \<Rightarrow> string \<Rightarrow> backfill_entry list \<Rightarrow> body_world \<Rightarrow> int result \<times> body_world" where
  "flush_backfill_batch h folder batch w =
     (case batch of [] \<Rightarrow> (Inr 0, w)
      | first # _ \<Rightarrow>
        (let uids = map (\<lambda>b. as_u32 (bf_uid b)) batch;
             uid_validity = as_u32 (bf_uid_validity first);
             (fetched, w1) = fetch_full h folder uids uid_validity w
         in case fetched of
              Inl e \<Rightarrow> (Inl e, w1)
            | Inr results \<Rightarrow>
              (let payload_array = flatten_opts (map (\<lambda>b.
                     map_option (backfill_payload (bx_rfc3339 h) folder uid_validity b) (uid_map results (as_u32 (bf_uid b)))) batch)
               in if payload_array = [] then (Inr 0, w1)
                  else
                    (let mark = flatten_opts (map (\<lambda>obj. Option.bind (get_str ''message_id'' obj)
                           (\<lambda>mid. if has_text ''raw_email_content'' obj \<or> has_text ''body_text'' obj then Some mid else None)) payload_array);
                         (r2, w2) = write_mail h ''Failed to upsert backfill''
                           (UpsertAndMark default_account_id (JArray payload_array) None None (Some mark)) w1
                     in case r2 of
                          Inl e \<Rightarrow> (Inl e, w2)
                        | Inr _ \<Rightarrow>
                          (let (r3, w3) = update_folder_marks h default_account_id folder results w2
                           in case r3 of Inl e \<Rightarrow> (Inl e, w3) | Inr _ \<Rightarrow> (Inr (int (length mark)), w3))))))"

text \<open>A batch is the list of (uid, uid validity, message id); the validity sent is the first one's.\<close>

definition flush_body_sync_batch ::
  "body_host \<Rightarrow> string \<Rightarrow> string \<Rightarrow> (int \<times> int \<times> string) list \<Rightarrow> body_world \<Rightarrow> string list result \<times> body_world" where
  "flush_body_sync_batch h a folder batch w =
     (case batch of [] \<Rightarrow> (Inr [], w)
      | first # _ \<Rightarrow>
        (let uids = map (\<lambda>(u, _, _). as_u32 u) batch;
             uid_validity = as_u32 (fst (snd first));
             (fetched, w1) = fetch_full h folder uids uid_validity w
         in case fetched of
              Inl e \<Rightarrow> (Inl e, w1)
            | Inr results \<Rightarrow>
              (let payload_array = flatten_opts (map (\<lambda>(u, _, mid).
                     map_option (body_payload (bx_rfc3339 h) folder uid_validity u mid) (uid_map results (as_u32 u))) batch)
               in if payload_array = [] then (Inr [], w1)
                  else
                    (let uids_to_mark = flatten_opts (map (\<lambda>obj. map_option as_i32 (Option.bind (jget ''uid'' obj) json_i64)) payload_array);
                         synced = flatten_opts (map (get_str ''message_id'') payload_array);
                         (r2, w2) = write_mail h ''Failed to upsert and mark body synced''
                           (UpsertAndMark a (JArray payload_array) (Some folder) (Some uids_to_mark) None) w1
                     in case r2 of
                          Inl e \<Rightarrow> (Inl e, w2)
                        | Inr _ \<Rightarrow>
                          (let (r3, w3) = update_folder_marks h a folder results w2
                           in case r3 of Inl e \<Rightarrow> (Inl e, w3) | Inr _ \<Rightarrow> (Inr synced, w3))))))"

section \<open>The worker\<close>

definition schedule_retry ::
  "body_host \<Rightarrow> string \<Rightarrow> body_entry \<Rightarrow> body_config \<Rightarrow> string \<Rightarrow> body_world \<Rightarrow> unit result \<times> body_world" where
  "schedule_retry h a e cfg msg w =
     (let delay = retry_delay_secs (bc_retry_base_secs cfg) (be_attempt_count e) (bc_max_retry_delay_secs cfg);
          (r, q) = mark_body_sync_retry_or_dead_for_account (bx_clock h (bw_tick w)) a (be_id e)
                     (be_attempt_count e) (bc_max_attempts cfg) delay msg (bw_queue w);
          w' = w\<lparr>bw_queue := q, bw_tick := bw_tick w + 1\<rparr>
      in case r of Inl e \<Rightarrow> (Inl e, w') | Inr _ \<Rightarrow> (Inr (), w'))"

fun schedule_retries ::
  "body_host \<Rightarrow> string \<Rightarrow> body_config \<Rightarrow> string \<Rightarrow> body_entry list \<Rightarrow> body_world \<Rightarrow> unit result \<times> body_world" where
  "schedule_retries h a cfg msg [] w = (Inr (), w)"
| "schedule_retries h a cfg msg (e # es) w =
     (let (r, w') = schedule_retry h a e cfg msg w
      in case r of Inl x \<Rightarrow> (Inl x, w') | Inr _ \<Rightarrow> schedule_retries h a cfg msg es w')"

definition process_claimed_folder_batch ::
  "body_host \<Rightarrow> string \<Rightarrow> body_config \<Rightarrow> string \<Rightarrow> body_entry list \<Rightarrow> body_world \<Rightarrow> int result \<times> body_world" where
  "process_claimed_folder_batch h a cfg folder entries w =
     (if entries = [] then (Inr 0, w)
      else
        (let batch = map (\<lambda>e. (be_uid e, be_uid_validity e, be_message_id e)) entries;
             (flushed, w1) = flush_body_sync_batch h a folder batch w
         in case flushed of
              Inr synced \<Rightarrow>
                (let done_ids = map be_id (filter (\<lambda>e. be_message_id e \<in> set synced) entries);
                     (done_count, w2) =
                       (if done_ids = [] then (0, w1)
                        else let (n, q) = mark_body_sync_done_for_account (bx_clock h (bw_tick w1)) a done_ids (bw_queue w1)
                             in (n, w1\<lparr>bw_queue := q, bw_tick := bw_tick w1 + 1\<rparr>));
                     (r, w3) = schedule_retries h a cfg ''IMAP full fetch returned no content for queued UID''
                                 (filter (\<lambda>e. be_message_id e \<notin> set synced) entries) w2
                 in case r of Inl x \<Rightarrow> (Inl x, w3) | Inr _ \<Rightarrow> (Inr done_count, w3))
            | Inl err \<Rightarrow>
                (let (r, w2) = schedule_retries h a cfg (err_top err) entries w1
                 in case r of Inl x \<Rightarrow> (Inl x, w2) | Inr _ \<Rightarrow> (Inr 0, w2))))"

text \<open>The claimed entries grouped by folder, the groups in the order of the \<^verbatim>\<open>HashMap\<close>.\<close>

definition by_folder :: "body_host \<Rightarrow> body_entry list \<Rightarrow> (string \<times> body_entry list) list" where
  "by_folder h es =
     map (\<lambda>f. (f, filter (\<lambda>e. be_folder e = f) es)) (bx_order h (remdups (map be_folder es)))"

fun process_groups ::
  "body_host \<Rightarrow> string \<Rightarrow> body_config \<Rightarrow> (string \<times> body_entry list) list \<Rightarrow> int \<Rightarrow> body_world \<Rightarrow> int result \<times> body_world" where
  "process_groups h a cfg [] tot w = (Inr tot, w)"
| "process_groups h a cfg ((folder, entries) # gs) tot w =
     (let (r, w') = process_claimed_folder_batch h a cfg folder entries w
      in case r of Inl x \<Rightarrow> (Inl x, w') | Inr n \<Rightarrow> process_groups h a cfg gs (tot + n) w')"

definition body_worker_id :: "int \<Rightarrow> int \<Rightarrow> string" where
  "body_worker_id pid index = ''body-sync-'' @ show_int pid @ ''-'' @ show_int index"

fun run_body_sync_worker ::
  "nat \<Rightarrow> body_host \<Rightarrow> string \<Rightarrow> string \<Rightarrow> body_config \<Rightarrow> int \<Rightarrow> body_world \<Rightarrow> (int result \<times> body_world) option" where
  "run_body_sync_worker 0 h a wid cfg tot w = None"
| "run_body_sync_worker (Suc fuel) h a wid cfg tot w =
     (let (claimed, q) = claim_body_sync_batch_for_account (bx_clock h (bw_tick w)) (bx_skip h (bw_tick w)) a wid
                           (nat (bc_claim_batch_size cfg)) (bw_queue w);
          w1 = w\<lparr>bw_queue := q, bw_tick := bw_tick w + 1\<rparr>
      in if claimed = [] then Some (Inr tot, w1)
         else (let (r, w2) = process_groups h a cfg (by_folder h claimed) tot w1
               in case r of Inl x \<Rightarrow> Some (Inl x, w2)
                | Inr tot' \<Rightarrow> run_body_sync_worker fuel h a wid cfg tot' w2))"

end
