(* ===== verification/BodySyncFacts.thy ===== *)
theory BodySyncFacts
  imports BodySyncService
begin

text \<open>
  Facts on \<open>BodySyncQueue\<close> and \<open>BodySyncService\<close>: what one statement does to the other rows
  (\<open>settles\<close>), the remaining work of a queue (\<open>remaining\<close>), and the termination of a worker.
\<close>

section \<open>Settling claimed rows\<close>

text \<open>The attempts a row can still cost: a processing row already paid for the running one.\<close>

definition weight :: "string \<Rightarrow> int \<Rightarrow> body_row \<Rightarrow> nat" where
  "weight a m r =
     (if bq_account r \<noteq> a \<or> bq_status r \<in> {Done, Dead} then 0
      else if bq_status r = Processing then nat (m - bq_attempts r) else nat (max 1 (m - bq_attempts r)))"

definition remaining :: "string \<Rightarrow> int \<Rightarrow> body_table \<Rightarrow> nat" where
  "remaining a m t = sum_list (map (weight a m) (bt_rows t))"

text \<open>
  From \<open>t\<close> to \<open>t'\<close> the rows with ids in \<open>I\<close> stop processing, no other row changes, and no
  work is added.
\<close>

definition settles :: "string \<Rightarrow> int \<Rightarrow> int set \<Rightarrow> body_table \<Rightarrow> body_table \<Rightarrow> bool" where
  "settles a m I t t' \<longleftrightarrow>
     body_table_ok t' \<and> remaining a m t' \<le> remaining a m t
     \<and> (\<forall>r' \<in> set (bt_rows t'). bq_status r' = Processing \<longrightarrow> r' \<in> set (bt_rows t) \<and> bq_id r' \<notin> I)
     \<and> (\<forall>r \<in> set (bt_rows t). bq_id r \<notin> I \<longrightarrow> r \<in> set (bt_rows t'))"

lemma settles_refl: "body_table_ok t \<Longrightarrow> settles a m {} t t"
  by (simp add: settles_def)

lemma settles_trans: "settles a m I t t' \<Longrightarrow> settles a m J t' t'' \<Longrightarrow> settles a m (I \<union> J) t t''"
  unfolding settles_def by (intro conjI ballI impI) (blast intro: order_trans)+

text \<open>An entry that is still the processing row it was claimed from.\<close>

definition held :: "string \<Rightarrow> body_table \<Rightarrow> body_entry \<Rightarrow> bool" where
  "held a t e \<longleftrightarrow> (\<exists>r \<in> set (bt_rows t). bq_id r = be_id e \<and> bq_account r = a \<and> bq_status r = Processing
     \<and> bq_attempts r = be_attempt_count e)"

lemma held_settles: "settles a m I t t' \<Longrightarrow> held a t e \<Longrightarrow> be_id e \<notin> I \<Longrightarrow> held a t' e"
  by (fastforce simp: settles_def held_def)

lemma held_row: "body_table_ok t \<Longrightarrow> held a t e \<Longrightarrow> r \<in> set (bt_rows t) \<Longrightarrow> bq_id r = be_id e \<Longrightarrow>
    bq_account r = a \<and> bq_status r = Processing \<and> bq_attempts r = be_attempt_count e"
  unfolding held_def body_table_ok_def by (metis uniq_inj)

lemma sum_list_update_le:
  assumes "\<And>r. r \<in> set t \<Longrightarrow> p r \<Longrightarrow> w (f r) \<le> w r"
  shows "sum_list (map w (sql_update p f t)) \<le> (sum_list (map w t) :: nat)"
  using assms by (induction t) (auto simp: sql_update_def add_mono)

lemma settles_update:
  assumes t: "body_table_ok t"
    and ids: "\<And>r. p r \<Longrightarrow> bq_id (f r) = bq_id r \<and> body_key_of (f r) = body_key_of r"
    and I: "\<And>r. r \<in> set (bt_rows t) \<Longrightarrow> p r \<longleftrightarrow> bq_id r \<in> I"
    and st: "\<And>r. p r \<Longrightarrow> bq_status (f r) \<noteq> Processing \<and> body_q.lease_ok (f r)"
    and wt: "\<And>r. r \<in> set (bt_rows t) \<Longrightarrow> p r \<Longrightarrow> weight a m (f r) \<le> weight a m r"
  shows "settles a m I t (t\<lparr>bt_rows := sql_update p f (bt_rows t)\<rparr>)"
proof -
  have "body_table_ok (t\<lparr>bt_rows := sql_update p f (bt_rows t)\<rparr>)"
    by (rule body_table_ok_update [OF t ids]) (use st in auto)
  moreover have "remaining a m (t\<lparr>bt_rows := sql_update p f (bt_rows t)\<rparr>) \<le> remaining a m t"
    using wt by (simp add: remaining_def sum_list_update_le)
  ultimately show ?thesis using st I by (auto simp: settles_def set_sql_update)
qed

lemma settles_retry:
  assumes t: "body_table_ok t" and e: "held a t e"
    and r: "mark_body_sync_retry_or_dead_for_account now a (be_id e) (be_attempt_count e) m d msg t = (res, t')"
  shows "res = Inr (if be_attempt_count e \<ge> m then Dead else Failed) \<and> settles a m {be_id e} t t'"
proof -
  let ?p = "\<lambda>r. bq_account r = a \<and> bq_id r = be_id e"
  let ?st = "if be_attempt_count e \<ge> m then Dead else Failed" and ?f = "\<lambda>st. fail_body_row now st (max d 0) msg"
  from e have "sql_exists ?p (bt_rows t)" by (auto simp: held_def sql_exists_iff)
  then have "0 < sql_count ?p (bt_rows t)" by (simp only: sql_count_pos_iff)
  then have res: "res = Inr ?st" and t': "t' = t\<lparr>bt_rows := sql_update ?p (?f ?st) (bt_rows t)\<rparr>"
    using r by (auto simp: mark_body_sync_retry_or_dead_for_account_def Let_def)
  have "settles a m {be_id e} t t'" unfolding t'
  proof (rule settles_update [OF t])
    fix r assume "r \<in> set (bt_rows t)"
    then show "?p r \<longleftrightarrow> bq_id r \<in> {be_id e}" using held_row [OF t e] by auto
  next
    fix r assume "r \<in> set (bt_rows t)" "?p r"
    then have "bq_status r = Processing" "bq_attempts r = be_attempt_count e" "bq_account r = a"
      using held_row [OF t e] by auto
    then show "weight a m (?f ?st r) \<le> weight a m r"
      by (simp add: weight_def fail_body_row_def)
  qed simp_all
  with res show ?thesis by simp
qed

lemma settles_done:
  assumes t: "body_table_ok t" and e: "\<And>e. e \<in> set es \<Longrightarrow> held a t e"
    and r: "mark_body_sync_done_for_account now a (map be_id es) t = (n, t')"
  shows "settles a m (be_id ` set es) t t'"
proof (cases "es = []")
  case True
  then show ?thesis using r t by (simp add: mark_body_sync_done_for_account_def settles_refl)
next
  case False
  let ?p = "\<lambda>r. bq_account r = a \<and> bq_id r \<in> set (map be_id es)"
  have t': "t' = t\<lparr>bt_rows := sql_update ?p (finish_body_row now) (bt_rows t)\<rparr>"
    using r False by (simp add: mark_body_sync_done_for_account_def Let_def)
  show ?thesis unfolding t'
  proof (rule settles_update [OF t])
    fix r assume r: "r \<in> set (bt_rows t)"
    show "?p r \<longleftrightarrow> bq_id r \<in> be_id ` set es" using held_row [OF t e r] by auto
  qed (simp_all add: weight_def finish_body_row_def body_q.lease_ok_def body_key_of_def)
qed

section \<open>A folder batch\<close>

lemma schedule_retry_settles:
  assumes t: "body_table_ok (bw_queue w)" and e: "held a (bw_queue w) e"
    and s: "schedule_retry h a e cfg msg w = (r, w')"
  shows "r = Inr () \<and> settles a (bc_max_attempts cfg) {be_id e} (bw_queue w) (bw_queue w')"
proof -
  let ?d = "retry_delay_secs (bc_retry_base_secs cfg) (be_attempt_count e) (bc_max_retry_delay_secs cfg)"
  obtain x q where m: "mark_body_sync_retry_or_dead_for_account (bx_clock h (bw_tick w)) a (be_id e)
      (be_attempt_count e) (bc_max_attempts cfg) ?d msg (bw_queue w) = (x, q)" by fastforce
  from settles_retry [OF t e m] s m show ?thesis by (auto simp: schedule_retry_def Let_def)
qed

lemma schedule_retries_settles:
  assumes "body_table_ok (bw_queue w)" "\<And>e. e \<in> set es \<Longrightarrow> held a (bw_queue w) e" "distinct (map be_id es)"
    and "schedule_retries h a cfg msg es w = (r, w')"
  shows "r = Inr () \<and> settles a (bc_max_attempts cfg) (be_id ` set es) (bw_queue w) (bw_queue w')"
  using assms
proof (induction es arbitrary: w)
  case Nil
  then show ?case by (simp add: settles_refl)
next
  case (Cons e es)
  obtain r1 w1 where s: "schedule_retry h a e cfg msg w = (r1, w1)" by (cases "schedule_retry h a e cfg msg w")
  from schedule_retry_settles [OF Cons.prems(1) _ s] Cons.prems(2)
  have r1: "r1 = Inr ()" and st: "settles a (bc_max_attempts cfg) {be_id e} (bw_queue w) (bw_queue w1)" by auto
  have rest: "schedule_retries h a cfg msg es w1 = (r, w')" using Cons.prems(4) s r1 by simp
  have held: "held a (bw_queue w1) x" if "x \<in> set es" for x
  proof (rule held_settles [OF st])
    show "held a (bw_queue w) x" using Cons.prems(2) that by simp
    have "be_id x \<in> be_id ` set es" using that by (rule imageI)
    then show "be_id x \<notin> {be_id e}" using Cons.prems(3) by auto
  qed
  have "body_table_ok (bw_queue w1)" using st by (simp add: settles_def)
  from Cons.IH [OF this held _ rest] Cons.prems(3)
  have "r = Inr ()" "settles a (bc_max_attempts cfg) (be_id ` set es) (bw_queue w1) (bw_queue w')" by simp_all
  with settles_trans [OF st this(2)] show ?case by simp
qed

lemma write_mail_queue [simp]: "write_mail h c wr w = (r, w') \<Longrightarrow> bw_queue w' = bw_queue w"
  by (auto simp: write_mail_def split: option.splits)

lemma update_folder_marks_queue: "update_folder_marks h a folder results w = (r, w') \<Longrightarrow> bw_queue w' = bw_queue w"
  by (auto simp: update_folder_marks_def Let_def dest!: write_mail_queue split: prod.splits sum.splits option.splits if_splits)

lemma flush_body_sync_batch_queue:
  "flush_body_sync_batch h a folder batch w = (r, w') \<Longrightarrow> bw_queue w' = bw_queue w"
  by (auto simp: flush_body_sync_batch_def fetch_full_def Let_def
      dest!: write_mail_queue update_folder_marks_queue split: list.splits prod.splits sum.splits if_splits)

lemma process_batch_settles:
  assumes t: "body_table_ok (bw_queue w)" and h: "\<And>e. e \<in> set es \<Longrightarrow> held a (bw_queue w) e"
    and d: "distinct (map be_id es)"
    and p: "process_claimed_folder_batch x a cfg folder es w = (r, w')"
  shows "(\<exists>n. r = Inr n) \<and> settles a (bc_max_attempts cfg) (be_id ` set es) (bw_queue w) (bw_queue w')"
proof (cases "es = []")
  case True
  then show ?thesis using p t by (auto simp: process_claimed_folder_batch_def settles_refl)
next
  case False
  let ?b = "map (\<lambda>e. (be_uid e, be_uid_validity e, be_message_id e)) es"
  obtain fl w1 where fl: "flush_body_sync_batch x a folder ?b w = (fl, w1)"
    by (cases "flush_body_sync_batch x a folder ?b w")
  note q1 = flush_body_sync_batch_queue [OF fl]
  show ?thesis
  proof (cases fl)
    case (Inl err)
    then obtain r1 where s: "schedule_retries x a cfg (err_top err) es w1 = (r1, w')"
      using p False fl by (auto simp: process_claimed_folder_batch_def Let_def split: prod.splits sum.splits)
    from schedule_retries_settles [OF _ _ d s] t h q1 have "r1 = Inr ()"
      and "settles a (bc_max_attempts cfg) (be_id ` set es) (bw_queue w) (bw_queue w')" by auto
    then show ?thesis using p False fl Inl s by (auto simp: process_claimed_folder_batch_def Let_def)
  next
    case (Inr synced)
    let ?y = "filter (\<lambda>e. be_message_id e \<in> set synced) es" and ?n = "filter (\<lambda>e. be_message_id e \<notin> set synced) es"
    obtain k q where mk: "mark_body_sync_done_for_account (bx_clock x (bw_tick w1)) a (map be_id ?y) (bw_queue w1) = (k, q)"
      by (cases "mark_body_sync_done_for_account (bx_clock x (bw_tick w1)) a (map be_id ?y) (bw_queue w1)")
    have sd: "settles a (bc_max_attempts cfg) (be_id ` set ?y) (bw_queue w1) q"
      by (rule settles_done [OF _ _ mk]) (use t h q1 in auto)
    let ?w2 = "if map be_id ?y = [] then w1 else w1\<lparr>bw_queue := q, bw_tick := bw_tick w1 + 1\<rparr>"
    have q2: "bw_queue ?w2 = q" using mk by (auto simp: mark_body_sync_done_for_account_def)
    obtain r1 w3 where s: "schedule_retries x a cfg ''IMAP full fetch returned no content for queued UID'' ?n ?w2 = (r1, w3)"
      by (cases "schedule_retries x a cfg ''IMAP full fetch returned no content for queued UID'' ?n ?w2")
    have pr: "(case r1 of Inl y \<Rightarrow> (Inl y, w3) | Inr _ \<Rightarrow> (Inr (if map be_id ?y = [] then 0 else k), w3)) = (r, w')"
      using p False fl Inr mk s by (auto simp: process_claimed_folder_batch_def Let_def split: if_splits)
    have "be_id e \<notin> be_id ` set ?y" if "e \<in> set ?n" for e
      using that d by (auto simp: distinct_map inj_on_def)
    then have held2: "held a (bw_queue ?w2) e" if "e \<in> set ?n" for e
      using that held_settles [OF sd] h q1 unfolding q2 by simp
    have ok2: "body_table_ok (bw_queue ?w2)" using sd unfolding q2 by (simp add: settles_def)
    have d2: "distinct (map be_id ?n)" using d by (rule distinct_map_filter)
    have "r1 = Inr () \<and> settles a (bc_max_attempts cfg) (be_id ` set ?n) q (bw_queue w3)"
      using schedule_retries_settles [OF ok2 held2 d2 s] unfolding q2 by blast
    moreover have "be_id ` set ?y \<union> be_id ` set ?n = be_id ` set es" by auto
    ultimately show ?thesis using pr q1 settles_trans [OF sd, of "be_id ` set ?n" "bw_queue w3"] by auto
  qed
qed

section \<open>A claimed batch and the loop\<close>

lemma process_groups_settles:
  assumes "body_table_ok (bw_queue w)" "\<And>e. e \<in> set (concat (map snd gs)) \<Longrightarrow> held a (bw_queue w) e"
    and "distinct (map be_id (concat (map snd gs)))" and "process_groups x a cfg gs tot w = (r, w')"
  shows "(\<exists>n. r = Inr n) \<and> settles a (bc_max_attempts cfg) (be_id ` set (concat (map snd gs))) (bw_queue w) (bw_queue w')"
  using assms
proof (induction gs arbitrary: tot w)
  case Nil
  then show ?case by (auto simp: settles_refl)
next
  case (Cons g gs)
  obtain f es where g: "g = (f, es)" by (cases g)
  let ?rest = "concat (map snd gs)"
  obtain r1 w1 where s: "process_claimed_folder_batch x a cfg f es w = (r1, w1)"
    by (cases "process_claimed_folder_batch x a cfg f es w")
  have "distinct (map be_id es)" "\<And>e. e \<in> set es \<Longrightarrow> held a (bw_queue w) e"
    using Cons.prems(2,3) g by auto
  from process_batch_settles [OF Cons.prems(1) this(2,1) s] obtain n where
    r1: "r1 = Inr n" and st: "settles a (bc_max_attempts cfg) (be_id ` set es) (bw_queue w) (bw_queue w1)" by auto
  have rest: "process_groups x a cfg gs (tot + n) w1 = (r, w')" using Cons.prems(4) s r1 g by simp
  have held: "held a (bw_queue w1) e" if "e \<in> set ?rest" for e
  proof (rule held_settles [OF st])
    show "held a (bw_queue w) e" using Cons.prems(2) that g by auto
    have "be_id e \<in> be_id ` set ?rest" using that by (rule imageI)
    then show "be_id e \<notin> be_id ` set es" using Cons.prems(3) g by auto
  qed
  have "body_table_ok (bw_queue w1)" "distinct (map be_id ?rest)"
    using st Cons.prems(3) g by (auto simp: settles_def)
  from Cons.IH [OF this(1) held this(2) rest] settles_trans [OF st]
  show ?case unfolding g by (simp add: image_Un)
qed

text \<open>The order of a \<^verbatim>\<open>HashMap\<close>: some order of the same keys.\<close>

definition order_ok :: "body_host \<Rightarrow> bool" where
  "order_ok x \<longleftrightarrow> (\<forall>ks. distinct ks \<longrightarrow> distinct (bx_order x ks) \<and> set (bx_order x ks) = set ks)"

lemma by_folder_entries:
  assumes "order_ok x" "distinct (map be_id es)"
  shows "set (concat (map snd (by_folder x es))) = set es"
    and "distinct (map be_id (concat (map snd (by_folder x es))))"
proof -
  let ?fs = "bx_order x (remdups (map be_folder es))"
  have fs: "distinct ?fs" "set ?fs = be_folder ` set es" using assms(1) by (auto simp: order_ok_def)
  have c: "concat (map snd (by_folder x es)) = concat (map (\<lambda>f. filter (\<lambda>e. be_folder e = f) es) ?fs)"
    by (simp add: by_folder_def o_def)
  show "set (concat (map snd (by_folder x es))) = set es" unfolding c using fs(2) by auto
  have "distinct (map be_id (concat (map (\<lambda>f. filter (\<lambda>e. be_folder e = f) es) gs)))" if "distinct gs" for gs
    using that assms(2)
    by (induction gs) (auto simp: distinct_map_filter distinct_map inj_on_def)
  then show "distinct (map be_id (concat (map snd (by_folder x es))))" unfolding c using fs(1) by simp
qed

lemma weight_lease_less:
  assumes "bq_account r = a" "bq_status r \<in> {Pending, Failed}"
  shows "weight a m (lease_body_row now w r) < weight a m r"
  using assms by (auto simp: weight_def lease_body_row_def)

lemma sum_list_update_less:
  assumes "\<And>r. r \<in> set t \<Longrightarrow> p r \<Longrightarrow> w (f r) < w r" "\<exists>r \<in> set t. p r"
  shows "sum_list (map w (sql_update p f t)) < (sum_list (map w t) :: nat)"
  using assms
proof (induction t)
  case (Cons r t)
  have le: "sum_list (map w (sql_update p f t)) \<le> sum_list (map w t)"
    using Cons.prems(1) by (intro sum_list_update_le) (auto dest: less_imp_le)
  show ?case
  proof (cases "p r")
    case True
    then show ?thesis using Cons.prems(1) [of r] le by (simp add: sql_update_def add_less_le_mono)
  next
    case False
    then show ?thesis using Cons by (auto simp: sql_update_def)
  qed
qed simp

text \<open>A claim holds what it returns, takes only rows that were not processing, and costs attempts.\<close>

lemma claim_body_facts:
  assumes t: "body_table_ok t" and c: "claim_body_sync_batch_for_account now skip a w n t = (es, t')"
  shows "body_table_ok t'" and "distinct (map be_id es)" and "e \<in> set es \<Longrightarrow> held a t' e"
    and "r' \<in> set (bt_rows t') \<Longrightarrow> bq_status r' = Processing \<Longrightarrow> r' \<in> set (bt_rows t) \<or> bq_id r' \<in> be_id ` set es"
    and "es \<noteq> [] \<Longrightarrow> remaining a m t' < remaining a m t"
    and "es = [] \<Longrightarrow> t' = t \<and> (n = 0 \<or> \<not> (\<exists>r \<in> set (bt_rows t). bq_account r = a \<and> body_ready now skip r))"
proof -
  let ?sel = "claimed_set bq_account a (body_ready now skip) (\<lambda>r. (bq_available r, bq_id r)) n (bt_rows t)"
  let ?rs = "filter (\<lambda>r. r \<in> ?sel) (bt_rows t)"
  note eq = c [unfolded body_claim_rows [OF t] Let_def]
  have es: "es = map body_entry_of_row (map (lease_body_row now w) ?rs)"
    and t': "t' = t\<lparr>bt_rows := sql_update (\<lambda>r. r \<in> ?sel) (lease_body_row now w) (bt_rows t)\<rparr>"
    using eq by (auto simp: sql_returning_def)
  have ready: "bq_account r = a \<and> bq_status r \<in> {Pending, Failed}" if "r \<in> ?sel" for r
    using claimed_set_ready [OF that] by (simp add: body_ready_def)
  have ids: "map be_id es = map bq_id ?rs" by (simp add: es body_entry_of_row_def)
  show "body_table_ok t'" by (rule claim_body_ok [OF t c])
  have "distinct (map bq_id (bt_rows t))" using t by (simp add: body_table_ok_def uniq_def)
  then show "distinct (map be_id es)" unfolding ids by (rule distinct_map_filter)
  show "held a t' e" if "e \<in> set es"
  proof -
    from that obtain r where r: "r \<in> set (bt_rows t)" "r \<in> ?sel" "e = body_entry_of_row (lease_body_row now w r)"
      unfolding es by auto
    then have "lease_body_row now w r \<in> set (bt_rows t')" unfolding t' by (force simp: sql_update_def)
    with r ready [OF r(2)] show ?thesis
      unfolding held_def by (intro bexI [of _ "lease_body_row now w r"]) (auto simp: body_entry_of_row_def)
  qed
  show "r' \<in> set (bt_rows t) \<or> bq_id r' \<in> be_id ` set es" if "r' \<in> set (bt_rows t')" "bq_status r' = Processing"
  proof -
    from that(1) obtain r where r: "r \<in> set (bt_rows t)" "r' = (if r \<in> ?sel then lease_body_row now w r else r)"
      unfolding t' by (auto simp: sql_update_def)
    show ?thesis
    proof (cases "r \<in> ?sel")
      case True
      then have "bq_id r' \<in> set (map be_id es)" using r unfolding ids by simp
      then show ?thesis by simp
    qed (use r in simp)
  qed
  show "remaining a m t' < remaining a m t" if "es \<noteq> []"
  proof -
    from that have "\<exists>r \<in> set (bt_rows t). r \<in> ?sel" by (auto simp: es filter_empty_conv)
    moreover have "weight a m (lease_body_row now w r) < weight a m r" if "r \<in> ?sel" for r
      using ready [OF that] by (intro weight_lease_less) simp_all
    ultimately have "sum_list (map (weight a m) (sql_update (\<lambda>r. r \<in> ?sel) (lease_body_row now w) (bt_rows t)))
        < sum_list (map (weight a m) (bt_rows t))"
      by (intro sum_list_update_less)
    then show ?thesis by (simp add: t' remaining_def)
  qed
  show "t' = t \<and> (n = 0 \<or> \<not> (\<exists>r \<in> set (bt_rows t). bq_account r = a \<and> body_ready now skip r))" if "es = []"
  proof
    have "?rs = []" using that by (simp add: es)
    then have "sql_update (\<lambda>r. r \<in> ?sel) (lease_body_row now w) (bt_rows t) = bt_rows t"
      by (intro sql_update_id) (auto simp: filter_empty_conv)
    then show "t' = t" unfolding t' by simp
    have "distinct (bt_rows t)" by (rule uniq_distinct [OF body_uniq_acct [OF t]])
    from claimed_set_length [OF this, of bq_account a "body_ready now skip" "\<lambda>r. (bq_available r, bq_id r)" n] \<open>?rs = []\<close>
    have "min n (length (filter (\<lambda>r. bq_account r = a \<and> body_ready now skip r) (bt_rows t))) = 0" by simp
    then show "n = 0 \<or> \<not> (\<exists>r \<in> set (bt_rows t). bq_account r = a \<and> body_ready now skip r)"
      by (auto simp: min_def filter_empty_conv split: if_splits)
  qed
qed

lemma worker_drains:
  assumes "body_table_ok (bw_queue w)" "order_ok x" "1 \<le> bc_claim_batch_size cfg"
    and "remaining a (bc_max_attempts cfg) (bw_queue w) < fuel"
  shows "\<exists>n w'. run_body_sync_worker fuel x a wid cfg tot w = Some (Inr n, w') \<and> body_table_ok (bw_queue w')
     \<and> (\<forall>r \<in> set (bt_rows (bw_queue w')). bq_status r = Processing \<longrightarrow> r \<in> set (bt_rows (bw_queue w)))
     \<and> \<not> (\<exists>r \<in> set (bt_rows (bw_queue w')). bq_account r = a
           \<and> body_ready (bx_clock x (bw_tick w' - 1)) (bx_skip x (bw_tick w' - 1)) r)"
  using assms(1,4)
proof (induction fuel arbitrary: tot w)
  case 0
  then show ?case by (simp only: not_less0)
next
  case (Suc fuel)
  let ?now = "bx_clock x (bw_tick w)" and ?m = "bc_max_attempts cfg"
  obtain es q where c: "claim_body_sync_batch_for_account ?now (bx_skip x (bw_tick w)) a wid
      (nat (bc_claim_batch_size cfg)) (bw_queue w) = (es, q)" by fastforce
  let ?w1 = "w\<lparr>bw_queue := q, bw_tick := bw_tick w + 1\<rparr>"
  note f = claim_body_facts [OF Suc.prems(1) c]
  show ?case
  proof (cases "es = []")
    case True
    with f(6) assms(3) c Suc.prems(1) show ?thesis by auto
  next
    case False
    obtain r w2 where pg: "process_groups x a cfg (by_folder x es) tot ?w1 = (r, w2)"
      by (cases "process_groups x a cfg (by_folder x es) tot ?w1")
    note bf = by_folder_entries [OF assms(2) f(2)]
    have "body_table_ok (bw_queue ?w1)" "\<And>e. e \<in> set (concat (map snd (by_folder x es))) \<Longrightarrow> held a (bw_queue ?w1) e"
      using f(1,3) unfolding bf(1) by simp_all
    from process_groups_settles [OF this bf(2) pg] obtain n where r: "r = Inr n"
      and st: "settles a ?m (be_id ` set es) q (bw_queue w2)" unfolding bf(1) by auto
    from st f(5) [OF False, of ?m] Suc.prems(2) have ok2: "body_table_ok (bw_queue w2)"
      and less: "remaining a ?m (bw_queue w2) < fuel" by (auto simp: settles_def)
    have proc: "r \<in> set (bt_rows (bw_queue w))" if "r \<in> set (bt_rows (bw_queue w2))" "bq_status r = Processing" for r
      using that st f(4) [of r] by (auto simp: settles_def)
    have step: "run_body_sync_worker (Suc fuel) x a wid cfg tot w = run_body_sync_worker fuel x a wid cfg n w2"
      using c pg r False by simp
    from Suc.IH [OF ok2 less, of n] show ?thesis unfolding step using proc by blast
  qed
qed

end
