(* ===== verification/BodySyncProps.thy ===== *)
theory BodySyncProps
  imports BodySyncFacts
begin

text \<open>Properties of the body-sync queue and its workers, with their witnesses.\<close>

definition empty_body_table :: body_table where
  "empty_body_table = \<lparr>bt_rows = [], bt_next_id = 1\<rparr>"

lemma empty_body_table_ok [simp]: "body_table_ok empty_body_table"
  by (simp add: body_table_ok_def empty_body_table_def uniq_def)

definition item_example :: body_item where
  "item_example = \<lparr>bi_folder = ''INBOX'', bi_uid = 7, bi_uid_validity = 1, bi_message_id = ''m7''\<rparr>"

definition queue_example :: body_table where
  "queue_example = upsert_body_row 10 ''a'' item_example empty_body_table"

lemma queue_example_rows: "bt_rows queue_example = [new_body_row 10 1 ''a'' item_example]"
  by (simp add: queue_example_def upsert_body_row_def Let_def empty_body_table_def sql_exists_def)

lemma queue_example_ok [simp]: "body_table_ok queue_example"
  by (simp add: queue_example_def upsert_body_row_ok)

text \<open>A host on which the clock runs, the server knows no message and every statement succeeds.\<close>

definition host_example :: body_host where
  "host_example = \<lparr>bx_clock = (\<lambda>n. 100 + int n), bx_fetch = (\<lambda>_ _ _ _. Inr []), bx_store = (\<lambda>_ _. None),
     bx_skip = (\<lambda>_ _. False), bx_order = (\<lambda>ks. ks), bx_rfc3339 = (\<lambda>_. [])\<rparr>"

section \<open>The workers\<close>



text \<open>The delay before a retry is exponential back-off within the configured bounds: always between
  one second and the maximum, never shorter for a later attempt, and for the attempts 1 to 17 exactly
  the base doubled each time, until it hits the maximum (the product saturates, it never wraps).\<close>

theorem retry_delay_backoff:
  assumes "1 \<le> base" "1 \<le> mx" "mx \<le> i64_max"
  shows "1 \<le> retry_delay_secs base k mx \<and> retry_delay_secs base k mx \<le> mx
    \<and> (k \<le> k' \<longrightarrow> retry_delay_secs base k mx \<le> retry_delay_secs base k' mx)
    \<and> (1 \<le> k \<and> k \<le> 17 \<longrightarrow> retry_delay_secs base k mx = min mx (base * 2 ^ nat (k - 1)))"
proof -
  have eq: "retry_delay_secs base j mx = min mx (base * 2 ^ nat (clamp 0 16 (j - 1)))" for j
  proof -
    have one: "1 * 1 \<le> base * 2 ^ nat (clamp 0 16 (j - 1))"
      using assms(1) by (intro mult_mono) simp_all
    then have "sat_i64 (base * 2 ^ nat (clamp 0 16 (j - 1))) = min i64_max (base * 2 ^ nat (clamp 0 16 (j - 1)))"
      by (simp add: sat_i64_def)
    with one assms(2,3) show ?thesis
      by (auto simp: retry_delay_secs_def Let_def push_bit_eq_mult clamp_def min_def)
  qed
  have "base * 2 ^ nat (clamp 0 16 (k - 1)) \<le> base * 2 ^ nat (clamp 0 16 (k' - 1))" if "k \<le> k'"
    using assms(1) clamp_mono [of "k - 1" "k' - 1" 0 16] that
    by (intro mult_left_mono power_increasing) (auto intro: nat_mono)
  moreover have "1 * 1 \<le> base * 2 ^ nat (clamp 0 16 (k - 1))"
    using assms(1) by (intro mult_mono) simp_all
  moreover have "clamp 0 16 (k - 1) = k - 1" if "1 \<le> k" "k \<le> 17" using that by (simp add: clamp_def)
  ultimately show ?thesis unfolding eq using assms(2) by auto
qed

lemma retry_delay_backoff_witness: "retry_delay_secs 30 3 3600 = 120 \<and> retry_delay_secs 30 3 3600 \<le> 3600"
  using retry_delay_backoff [of 30 3600 3 4] by simp

section \<open>Enqueue\<close>

lemma fold_upsert_rows:
  assumes "distinct (map (item_key a) items)" "r \<in> set (bt_rows t)"
  shows "(if body_key_of r \<in> item_key a ` set items then requeue_body_row now r else r)
           \<in> set (bt_rows (fold (upsert_body_row now a) items t))"
  using assms
proof (induction items arbitrary: t r)
  case (Cons i items)
  let ?r = "if body_key_of r = item_key a i then requeue_body_row now r else r"
  have "?r \<in> set (bt_rows (upsert_body_row now a i t))"
    using Cons.prems(2) by (force simp: upsert_body_row_def Let_def sql_exists_iff sql_update_def)
  from Cons.IH [OF _ this] Cons.prems(1) show ?case by (auto split: if_splits)
qed simp

lemma upsert_has_row: "\<exists>r \<in> set (bt_rows (upsert_body_row now a i t)). body_key_of r = item_key a i
    \<and> (bq_status r = Done \<or> bq_status r = Pending \<and> bq_worker r = None \<and> bq_available r = now)"
proof (cases "sql_exists (\<lambda>r. body_key_of r = item_key a i) (bt_rows t)")
  case True
  then obtain r where r: "r \<in> set (bt_rows t)" "body_key_of r = item_key a i" by (auto simp: sql_exists_iff)
  then have "requeue_body_row now r \<in> set (bt_rows (upsert_body_row now a i t))"
    using True by (force simp: upsert_body_row_def Let_def sql_update_def)
  then show ?thesis by (rule bexI [rotated]) (use r(2) in \<open>auto simp: requeue_body_row_def body_key_of_def\<close>)
next
  case False
  then show ?thesis by (auto simp: upsert_body_row_def Let_def) (auto simp: new_body_row_def body_key_of_def item_key_def)
qed

lemma fold_upsert_has_row:
  assumes "distinct (map (item_key a) items)" "i \<in> set items"
  shows "\<exists>r \<in> set (bt_rows (fold (upsert_body_row now a) items t)). body_key_of r = item_key a i
    \<and> (bq_status r = Done \<or> bq_status r = Pending \<and> bq_worker r = None \<and> bq_available r = now)"
  using assms
proof (induction items arbitrary: t)
  case (Cons j items)
  show ?case
  proof (cases "i \<in> set items")
    case True
    with Cons show ?thesis by simp
  next
    case False
    with Cons.prems have ij: "i = j" and new: "item_key a i \<notin> item_key a ` set items" by auto
    obtain r where r: "r \<in> set (bt_rows (upsert_body_row now a i t))" "body_key_of r = item_key a i"
      "bq_status r = Done \<or> bq_status r = Pending \<and> bq_worker r = None \<and> bq_available r = now"
      using upsert_has_row [of now a i t] by blast
    from fold_upsert_rows [OF _ r(1), of a items now] Cons.prems(1) new r(2)
    have "r \<in> set (bt_rows (fold (upsert_body_row now a) items (upsert_body_row now a i t)))" by simp
    with r(2,3) ij show ?thesis by auto
  qed
qed simp

text \<open>An enqueue of body-sync items that succeeds leaves a row for every item: a done row stays done,
  any other is pending, unowned and available at once. That includes rows that are processing: unlike
  the core queue, this one takes the lease from the worker that holds it. Rows of other keys are
  untouched and attempt counts are kept, so that a buried row re-enters with its budget spent.\<close>

theorem body_enqueue_effect:
  assumes "enqueue_body_sync_items_for_account now emails a items t = (Inr n, t')"
  shows "n = int (length items)
    \<and> (\<forall>i \<in> set items. \<exists>r \<in> set (bt_rows t'). body_key_of r = item_key a i
         \<and> (bq_status r = Done \<or> bq_status r = Pending \<and> bq_worker r = None \<and> bq_available r = now))
    \<and> (\<forall>r \<in> set (bt_rows t). body_key_of r \<in> item_key a ` set items \<longrightarrow>
         requeue_body_row now r \<in> set (bt_rows t') \<and> bq_attempts (requeue_body_row now r) = bq_attempts r)
    \<and> (\<forall>r \<in> set (bt_rows t). body_key_of r \<notin> item_key a ` set items \<longrightarrow> r \<in> set (bt_rows t'))"
proof (cases "items = []")
  case True
  then show ?thesis using assms by (simp add: enqueue_body_sync_items_for_account_def)
next
  case False
  then have n: "n = int (length items)" and d: "distinct (map (item_key a) items)"
    and t': "t' = fold (upsert_body_row now a) items t"
    using assms by (auto simp: enqueue_body_sync_items_for_account_def insert_body_items_def split: if_splits)
  have "bq_attempts (requeue_body_row now r) = bq_attempts r" for r by (simp add: requeue_body_row_def)
  moreover have "requeue_body_row now r \<in> set (bt_rows t')"
    if "r \<in> set (bt_rows t)" "body_key_of r \<in> item_key a ` set items" for r
    using fold_upsert_rows [OF d that(1), of now] that(2) unfolding t' by simp
  moreover have "r \<in> set (bt_rows t')"
    if "r \<in> set (bt_rows t)" "body_key_of r \<notin> item_key a ` set items" for r
    using fold_upsert_rows [OF d that(1), of now] that(2) unfolding t' by simp
  ultimately show ?thesis using n fold_upsert_has_row [OF d, of _ now t] unfolding t' by blast
qed

lemma body_enqueue_effect_witness:
  "\<exists>r \<in> set (bt_rows queue_example). body_key_of r = item_key ''a'' item_example"
proof -
  have "enqueue_body_sync_items_for_account 10 (\<lambda>_ _. True) ''a'' [item_example] empty_body_table = (Inr 1, queue_example)"
    by (simp add: enqueue_body_sync_items_for_account_def insert_body_items_def queue_example_def)
  from body_enqueue_effect [OF this] show ?thesis by auto
qed

text \<open>Envelopes and queue rows are written together or not at all: after an error neither table has
  changed, and a success means the envelope statement took effect and every item has a row.\<close>

theorem envelope_tx_atomic:
  "case upsert_envelopes_and_enqueue_body_sync_for_account up emails_in now a payload items (m, t) of
     (Inl e, m', t') \<Rightarrow> m' = m \<and> t' = t
   | (Inr _, m', t') \<Rightarrow> up a payload m = Some m'
       \<and> list_all (\<lambda>i. sql_exists (\<lambda>r. body_key_of r = item_key a i) (bt_rows t')) items"
proof -
  have "list_all (\<lambda>i. sql_exists (\<lambda>r. body_key_of r = item_key a i) (bt_rows t')) items"
    if "insert_body_items now em a items t = Some t'" for em t'
  proof -
    from that have "distinct (map (item_key a) items)" "t' = fold (upsert_body_row now a) items t"
      by (auto simp: insert_body_items_def split: if_splits)
    then show ?thesis using fold_upsert_has_row [of a items _ now t] by (auto simp: list_all_iff sql_exists_iff)
  qed
  then show ?thesis
    by (auto simp: upsert_envelopes_and_enqueue_body_sync_for_account_def split: option.splits if_splits)
qed

end
