(* ===== verification/FrontierQueue.thy ===== *)
theory FrontierQueue
  imports BodySyncService
begin

text \<open>
  \<^verbatim>\<open>src/database/frontier_queue.rs\<close>, the durable queue of messages to analyse again with the
  frontier model, and its worker in \<^verbatim>\<open>src/cli_commands/analysis_cli.rs\<close>
  (\<^verbatim>\<open>run_process_frontier_queue_for_account\<close> from the stale reset to the end of the loop). A
  row is deleted when it is done. The provider, the e-mail lookup and the statement that saves a
  result are the fields of a \<open>frontier_host\<close>, indexed by the number of calls so far. Log lines,
  metrics and the construction of the provider are left out.
\<close>

record frontier_entry =
  fe_message_id :: string
  fe_attempt_count :: int

record frontier_row =
  fq_account :: string
  fq_message_id :: string
  fq_enqueued :: timestamp
  fq_status :: queue_status
  fq_attempts :: int
  fq_available :: timestamp
  fq_locked :: "timestamp option"
  fq_worker :: "string option"
  fq_error :: "string option"
  fq_updated :: timestamp

definition frontier_key :: "frontier_row \<Rightarrow> string \<times> string" where
  "frontier_key r = (fq_account r, fq_message_id r)"

section \<open>The queue\<close>

definition new_frontier_row :: "timestamp \<Rightarrow> string \<Rightarrow> string \<Rightarrow> frontier_row" where
  "new_frontier_row now a m =
     \<lparr>fq_account = a, fq_message_id = m, fq_enqueued = now, fq_status = Pending, fq_attempts = 0,
      fq_available = now, fq_locked = None, fq_worker = None, fq_error = None, fq_updated = now\<rparr>"

definition requeue_frontier_row :: "timestamp \<Rightarrow> frontier_row \<Rightarrow> frontier_row" where
  "requeue_frontier_row now r =
     r\<lparr>fq_enqueued := now, fq_status := Pending, fq_attempts := 0, fq_available := now,
       fq_locked := None, fq_worker := None, fq_error := None, fq_updated := now\<rparr>"

text \<open>\<open>emails a m\<close>: the foreign key of a new row.\<close>

definition enqueue_frontier_analysis_for_account ::
  "timestamp \<Rightarrow> (string \<Rightarrow> string \<Rightarrow> bool) \<Rightarrow> string \<Rightarrow> string \<Rightarrow> frontier_row list \<Rightarrow> int result \<times> frontier_row list" where
  "enqueue_frontier_analysis_for_account now emails a m t =
     (let same = (\<lambda>r. frontier_key r = (a, m)) in
      if sql_exists same t then (Inr 1, sql_update same (requeue_frontier_row now) t)
      else if emails a m then (Inr 1, t @ [new_frontier_row now a m])
      else (Inl [''enqueue_frontier_analysis''], t))"

definition lease_frontier_row :: "timestamp \<Rightarrow> string \<Rightarrow> frontier_row \<Rightarrow> frontier_row" where
  "lease_frontier_row now w r =
     r\<lparr>fq_status := Processing, fq_attempts := fq_attempts r + 1, fq_locked := Some now,
       fq_worker := Some w, fq_updated := now\<rparr>"

definition frontier_ready :: "timestamp \<Rightarrow> (string \<Rightarrow> bool) \<Rightarrow> frontier_row \<Rightarrow> bool" where
  "frontier_ready now skip r \<longleftrightarrow>
     fq_status r \<in> {Pending, Failed} \<and> fq_available r \<le> now \<and> \<not> skip (fq_message_id r)"

definition frontier_entry_of_row :: "frontier_row \<Rightarrow> frontier_entry" where
  "frontier_entry_of_row r = \<lparr>fe_message_id = fq_message_id r, fe_attempt_count = fq_attempts r\<rparr>"

definition claim_frontier_queue_batch_for_account ::
  "timestamp \<Rightarrow> (string \<Rightarrow> bool) \<Rightarrow> string \<Rightarrow> string \<Rightarrow> nat \<Rightarrow> frontier_row list
     \<Rightarrow> frontier_entry list \<times> frontier_row list" where
  "claim_frontier_queue_batch_for_account now skip a w n t =
     (let (rows, claimed) =
            claim_rows fq_account fq_message_id a (frontier_ready now skip) (\<lambda>r. (fq_available r, fq_enqueued r)) n
              (lease_frontier_row now w) t
      in (map frontier_entry_of_row claimed, rows))"

definition mark_frontier_done_for_account :: "string \<Rightarrow> string \<Rightarrow> frontier_row list \<Rightarrow> int \<times> frontier_row list" where
  "mark_frontier_done_for_account a m t =
     (sql_count (\<lambda>r. frontier_key r = (a, m)) t, filter (\<lambda>r. frontier_key r \<noteq> (a, m)) t)"

definition fail_frontier_row :: "timestamp \<Rightarrow> queue_status \<Rightarrow> int \<Rightarrow> string \<Rightarrow> frontier_row \<Rightarrow> frontier_row" where
  "fail_frontier_row now st delay e r =
     r\<lparr>fq_status := st, fq_available := (if st = Failed then now + secs delay else fq_available r),
       fq_locked := None, fq_worker := None, fq_error := Some (take 4000 e), fq_updated := now\<rparr>"

definition mark_frontier_retry_or_dead_for_account ::
  "timestamp \<Rightarrow> string \<Rightarrow> string \<Rightarrow> int \<Rightarrow> int \<Rightarrow> int \<Rightarrow> string \<Rightarrow> frontier_row list
     \<Rightarrow> queue_status result \<times> frontier_row list" where
  "mark_frontier_retry_or_dead_for_account now a m attempt_count max_attempts retry_after e t =
     (let next_status = (if attempt_count \<ge> max_attempts then Dead else Failed);
          p = (\<lambda>r. frontier_key r = (a, m)) in
      if sql_count p t = 0
      then (Inl [''mark_frontier_retry_or_dead: queue item '' @ m @ '' not found''], t)
      else (Inr next_status, sql_update p (fail_frontier_row now next_status (max retry_after 0) e) t))"

definition expire_frontier_row :: "timestamp \<Rightarrow> frontier_row \<Rightarrow> frontier_row" where
  "expire_frontier_row now r =
     r\<lparr>fq_status := Failed, fq_available := now, fq_locked := None, fq_worker := None,
       fq_error := coalesce (fq_error r) (Some ''stale lock reset''), fq_updated := now\<rparr>"

definition frontier_stale :: "timestamp \<Rightarrow> string \<Rightarrow> int \<Rightarrow> frontier_row \<Rightarrow> bool" where
  "frontier_stale now a stale_after r \<longleftrightarrow>
     fq_account r = a \<and> fq_status r = Processing \<and>
     (case fq_locked r of None \<Rightarrow> False | Some l \<Rightarrow> l < now - secs (max stale_after 1))"

definition reset_stale_frontier_processing_for_account ::
  "timestamp \<Rightarrow> string \<Rightarrow> int \<Rightarrow> frontier_row list \<Rightarrow> int \<times> frontier_row list" where
  "reset_stale_frontier_processing_for_account now a stale_after t =
     (sql_count (frontier_stale now a stale_after) t,
      sql_update (frontier_stale now a stale_after) (expire_frontier_row now) t)"

definition frontier_queue_depth_for_account :: "string \<Rightarrow> frontier_row list \<Rightarrow> queue_depth" where
  "frontier_queue_depth_for_account a t = depth_of (\<lambda>r. fq_account r = a) fq_status t"

section \<open>The worker\<close>

record frontier_config =
  fc_max_attempts :: int
  fc_retry_base_secs :: int
  fc_max_retry_delay_secs :: int
  fc_stale_processing_secs :: int

definition frontier_config_from_env :: "env \<Rightarrow> frontier_config" where
  "frontier_config_from_env e =
     \<lparr>fc_max_attempts = max (env_parse e parse_i32 ''FRONTIER_QUEUE_MAX_ATTEMPTS'' 5) 1,
      fc_retry_base_secs = max (env_parse e parse_i64 ''FRONTIER_QUEUE_RETRY_BASE_SECS'' 30) 1,
      fc_max_retry_delay_secs = max (env_parse e parse_i64 ''FRONTIER_QUEUE_MAX_RETRY_DELAY_SECS'' 3600) 1,
      fc_stale_processing_secs = max (env_parse e parse_i64 ''FRONTIER_QUEUE_STALE_PROCESSING_SECS'' 900) 30\<rparr>"

definition frontier_retry_delay_secs :: "int \<Rightarrow> int \<Rightarrow> int \<Rightarrow> int" where
  "frontier_retry_delay_secs base attempt_count max_delay =
     (let exponent = nat (clamp 0 16 (attempt_count - 1));
          factor = push_bit exponent (1::int)
      in clamp 1 (max max_delay 1) (sat_i64 (base * factor)))"

definition is_transient_frontier_error :: "string \<Rightarrow> bool" where
  "is_transient_frontier_error message =
     contains_any (to_lower message)
       [''503'', ''service unavailable'', ''429'', ''too many requests'', ''resource_exhausted'', ''quota'', ''high demand'']"

fun numbered_causes :: "nat \<Rightarrow> err \<Rightarrow> string" where
  "numbered_causes n [] = []"
| "numbered_causes n (c # cs) = [CHR 0x0A] @ ''    '' @ show_nat n @ '': '' @ c @ numbered_causes (n + 1) cs"

definition format_error_chain :: "err \<Rightarrow> string" where
  "format_error_chain e = err_top e @ numbered_causes 1 (drop 1 e)"

record ('e, 'r, 'm) frontier_host =
  fx_clock :: "nat \<Rightarrow> timestamp"
  fx_skip :: "nat \<Rightarrow> string \<Rightarrow> bool"
  fx_email :: "nat \<Rightarrow> string \<Rightarrow> 'e option result"
  fx_analyze :: "nat \<Rightarrow> 'e \<Rightarrow> 'r result"
  fx_apply :: "nat \<Rightarrow> string \<Rightarrow> 'r \<Rightarrow> 'm \<Rightarrow> unit result \<times> 'm"
  fx_done_error :: "nat \<Rightarrow> err option"

record 'm frontier_world =
  fw_queue :: "frontier_row list"
  fw_mail :: 'm
  fw_tick :: nat

datatype loop_step = Continue | Break | Fail err

text \<open>The error of a retry that finds no row is only logged.\<close>

definition schedule_frontier_retry ::
  "('e, 'r, 'm) frontier_host \<Rightarrow> string \<Rightarrow> frontier_entry \<Rightarrow> frontier_config \<Rightarrow> string \<Rightarrow> 'm frontier_world \<Rightarrow> 'm frontier_world" where
  "schedule_frontier_retry h a e cfg msg w =
     (let delay = frontier_retry_delay_secs (fc_retry_base_secs cfg) (fe_attempt_count e) (fc_max_retry_delay_secs cfg);
          (r, q) = mark_frontier_retry_or_dead_for_account (fx_clock h (fw_tick w)) a (fe_message_id e)
                     (fe_attempt_count e) (fc_max_attempts cfg) delay msg (fw_queue w)
      in w\<lparr>fw_queue := q, fw_tick := fw_tick w + 1\<rparr>)"

text \<open>The delete that may fail, with its error.\<close>

definition complete_frontier ::
  "('e, 'r, 'm) frontier_host \<Rightarrow> string \<Rightarrow> string \<Rightarrow> 'm frontier_world \<Rightarrow> err option \<times> 'm frontier_world" where
  "complete_frontier h a m w =
     (let w' = w\<lparr>fw_tick := fw_tick w + 1\<rparr>
      in case fx_done_error h (fw_tick w) of
           Some e \<Rightarrow> (Some e, w')
         | None \<Rightarrow> (None, w'\<lparr>fw_queue := snd (mark_frontier_done_for_account a m (fw_queue w))\<rparr>))"

definition process_frontier_entry ::
  "('e, 'r, 'm) frontier_host \<Rightarrow> string \<Rightarrow> frontier_config \<Rightarrow> frontier_entry \<Rightarrow> 'm frontier_world \<Rightarrow> loop_step \<times> 'm frontier_world" where
  "process_frontier_entry h a cfg e w =
     (let m = fe_message_id e;
          w0 = w\<lparr>fw_tick := fw_tick w + 1\<rparr>
      in case fx_email h (fw_tick w) m of
           Inl err \<Rightarrow> (Fail err, w0)
         | Inr None \<Rightarrow> (Continue, snd (complete_frontier h a m w0))
         | Inr (Some email) \<Rightarrow>
             (let w1 = w0\<lparr>fw_tick := fw_tick w0 + 1\<rparr>
              in case fx_analyze h (fw_tick w0) email of
                   Inr result \<Rightarrow>
                     (let (ra, mail) = fx_apply h (fw_tick w1) m result (fw_mail w1);
                          w2 = w1\<lparr>fw_mail := mail, fw_tick := fw_tick w1 + 1\<rparr>
                      in case ra of
                           Inl err \<Rightarrow> (Continue, schedule_frontier_retry h a e cfg (format_error_chain err) w2)
                         | Inr _ \<Rightarrow>
                             (let (rd, w3) = complete_frontier h a m w2
                              in case rd of
                                   Some err \<Rightarrow> (Continue, schedule_frontier_retry h a e cfg (format_error_chain err) w3)
                                 | None \<Rightarrow> (Continue, w3)))
                 | Inl err \<Rightarrow>
                     (let error_text = format_error_chain err;
                          w2 = schedule_frontier_retry h a e cfg error_text w1
                      in (if is_transient_frontier_error error_text then Break else Continue, w2))))"

fun process_frontier_entries ::
  "('e, 'r, 'm) frontier_host \<Rightarrow> string \<Rightarrow> frontier_config \<Rightarrow> frontier_entry list \<Rightarrow> 'm frontier_world \<Rightarrow> unit result \<times> 'm frontier_world" where
  "process_frontier_entries h a cfg [] w = (Inr (), w)"
| "process_frontier_entries h a cfg (e # es) w =
     (let (st, w') = process_frontier_entry h a cfg e w
      in case st of Continue \<Rightarrow> process_frontier_entries h a cfg es w'
       | Break \<Rightarrow> (Inr (), w')
       | Fail err \<Rightarrow> (Inl err, w'))"

definition run_process_frontier_queue_for_account ::
  "('e, 'r, 'm) frontier_host \<Rightarrow> string \<Rightarrow> int \<Rightarrow> frontier_config \<Rightarrow> nat \<Rightarrow> 'm frontier_world \<Rightarrow> unit result \<times> 'm frontier_world" where
  "run_process_frontier_queue_for_account h a pid cfg n w =
     (let q1 = snd (reset_stale_frontier_processing_for_account (fx_clock h (fw_tick w)) a (fc_stale_processing_secs cfg) (fw_queue w));
          worker = ''frontier-worker-'' @ show_int pid @ ''-'' @ a;
          tk = fw_tick w + 1;
          (claimed, q2) = claim_frontier_queue_batch_for_account (fx_clock h tk) (fx_skip h tk) a worker n q1;
          w2 = w\<lparr>fw_queue := q2, fw_tick := tk + 1\<rparr>
      in if claimed = [] then (Inr (), w2) else process_frontier_entries h a cfg claimed w2)"

section \<open>The queue as a \<open>lease_queue\<close>\<close>

interpretation frontier_q: lease_queue fq_account fq_message_id fq_status fq_attempts fq_available fq_locked fq_worker
  lease_frontier_row fail_frontier_row expire_frontier_row
  by unfold_locales (simp_all add: lease_frontier_row_def fail_frontier_row_def expire_frontier_row_def)

lemma claim_frontier_as_claim:
  "claim_frontier_queue_batch_for_account now skip a w n t =
     (let (rows, claimed) = frontier_q.claim a (frontier_ready now skip) (\<lambda>r. (fq_available r, fq_enqueued r)) n now w t
      in (map frontier_entry_of_row claimed, rows))"
  by (simp add: claim_frontier_queue_batch_for_account_def frontier_q.claim_def)

end
