(* ===== verification/FrontierProps.thy ===== *)
theory FrontierProps
  imports FrontierQueue
begin

text \<open>Properties of the frontier queue and of its worker, with their witnesses.\<close>

definition frontier_example :: "frontier_row list" where
  "frontier_example = [new_frontier_row 10 ''a'' ''m1'', new_frontier_row 20 ''a'' ''m2'', new_frontier_row 30 ''a'' ''m3'']"

lemma frontier_example_uniq [simp]: "uniq frontier_key frontier_example"
  by (simp add: uniq_def frontier_example_def new_frontier_row_def frontier_key_def)

lemma frontier_key_rows [simp]:
  "frontier_key (requeue_frontier_row now r) = frontier_key r"
  "frontier_key (fail_frontier_row now st d e r) = frontier_key r"
  "frontier_key (new_frontier_row now a m) = (a, m)"
  by (simp_all add: frontier_key_def requeue_frontier_row_def fail_frontier_row_def new_frontier_row_def)

lemma frontier_key_eq: "frontier_key = (\<lambda>r. (fq_account r, fq_message_id r))"
  by (rule ext) (simp add: frontier_key_def)

section \<open>Queue\<close>

text \<open>Enqueueing a message for frontier analysis is idempotent and always starts over: afterwards it has
  exactly one row, pending with no attempts and ready at once, and the other messages' rows are as
  they were; it fails only for a message the account does not have, and then changes nothing.\<close>

theorem frontier_enqueue_effect:
  assumes "uniq frontier_key t"
  shows "case enqueue_frontier_analysis_for_account now emails a m t of
      (Inr n, t') \<Rightarrow> n = 1 \<and> filter (\<lambda>r. frontier_key r \<noteq> (a, m)) t' = filter (\<lambda>r. frontier_key r \<noteq> (a, m)) t
        \<and> (\<exists>r. filter (\<lambda>r. frontier_key r = (a, m)) t' = [r] \<and> frontier_ready now (\<lambda>_. False) r
               \<and> fq_status r = Pending \<and> fq_attempts r = 0 \<and> fq_worker r = None)
    | (Inl _, t') \<Rightarrow> t' = t \<and> \<not> emails a m"
proof (cases "sql_exists (\<lambda>r. frontier_key r = (a, m)) t")
  case True
  then obtain r where r: "r \<in> set t" "frontier_key r = (a, m)" by (auto simp: sql_exists_iff)
  let ?t' = "sql_update (\<lambda>r. frontier_key r = (a, m)) (requeue_frontier_row now) t"
  have "filter (\<lambda>s. frontier_key s = (a, m)) t = [r]" using uniq_filter_single [OF assms r(1)] r(2) by simp
  then have "filter (\<lambda>s. frontier_key s = (a, m)) ?t' = [requeue_frontier_row now r]"
    by (simp add: filter_sql_update) (simp add: sql_update_def r(2))
  moreover have "filter (\<lambda>r. frontier_key r \<noteq> (a, m)) ?t' = filter (\<lambda>r. frontier_key r \<noteq> (a, m)) t"
    by (rule filter_sql_update_other) simp
  ultimately show ?thesis using True
    by (simp add: enqueue_frontier_analysis_for_account_def Let_def requeue_frontier_row_def frontier_ready_def)
next
  case False
  then have none: "filter (\<lambda>r. frontier_key r = (a, m)) t = []" by (auto simp: sql_exists_iff filter_empty_conv)
  show ?thesis
  proof (cases "emails a m")
    case True
    show ?thesis unfolding enqueue_frontier_analysis_for_account_def Let_def if_not_P [OF False] if_P [OF True] prod.case sum.case
      by (simp add: none) (simp add: new_frontier_row_def frontier_ready_def)
  next
    case ne: False
    show ?thesis unfolding enqueue_frontier_analysis_for_account_def Let_def if_not_P [OF False] if_not_P [OF ne] prod.case sum.case
      using ne by simp
  qed
qed

lemma frontier_enqueue_effect_witness:
  "filter (\<lambda>r. frontier_key r \<noteq> (''a'', ''m2'')) (snd (enqueue_frontier_analysis_for_account 50 (\<lambda>_ _. True) ''a'' ''m2'' frontier_example))
     = [new_frontier_row 10 ''a'' ''m1'', new_frontier_row 30 ''a'' ''m3'']"
proof -
  have "fst (enqueue_frontier_analysis_for_account 50 (\<lambda>_ _. True) ''a'' ''m2'' frontier_example) = Inr 1"
    by (simp add: enqueue_frontier_analysis_for_account_def Let_def)
  then show ?thesis
    using frontier_enqueue_effect [OF frontier_example_uniq, where now = 50 and emails = "\<lambda>_ _. True" and a = "''a''" and m = "''m2''"]
    by (cases "enqueue_frontier_analysis_for_account 50 (\<lambda>_ _. True) ''a'' ''m2'' frontier_example")
      (simp add: frontier_example_def)
qed

text \<open>A batch claim of the frontier queue takes as many ready rows as there are, up to the limit, and
  two workers' batches never share a message.\<close>

theorem frontier_claim_batch:
  assumes "uniq frontier_key t" "claim_frontier_queue_batch_for_account now skip a w n t = (es, t')"
    and "claim_frontier_queue_batch_for_account now' skip' a w' n' t' = (es', t'')"
  shows "length es = min n (length (filter (\<lambda>r. fq_account r = a \<and> frontier_ready now skip r) t))
    \<and> set (map fe_message_id es) \<inter> set (map fe_message_id es') = {}"
proof -
  have u: "uniq (\<lambda>r. (fq_account r, fq_message_id r)) t" using assms(1) by (simp add: frontier_key_eq)
  let ?ord = "\<lambda>r. (fq_available r, fq_enqueued r)"
  obtain rs where c: "frontier_q.claim a (frontier_ready now skip) ?ord n now w t = (t', rs)" "es = map frontier_entry_of_row rs"
    using assms(2) by (auto simp: claim_frontier_as_claim Let_def split: prod.splits)
  obtain rs' where c': "frontier_q.claim a (frontier_ready now' skip') ?ord n' now' w' t' = (t'', rs')" "es' = map frontier_entry_of_row rs'"
    using assms(3) by (auto simp: claim_frontier_as_claim Let_def split: prod.splits)
  have acc: "fq_account r = a" if "r \<in> set rs" for r
    using frontier_q.claim_returns_leased(1) [OF u c(1) that] by (auto simp: lease_frontier_row_def)
  have acc': "fq_account r = a" if "r \<in> set rs'" for r
    using frontier_q.claim_returns_leased(1) [OF frontier_q.claim_uniq [OF u c(1)] c'(1) that]
    by (auto simp: lease_frontier_row_def)
  have "fq_message_id r \<noteq> fq_message_id s" if "r \<in> set rs" "s \<in> set rs'" for r s
    using frontier_q.claim_exclusive [OF u c(1) c'(1) _ that] acc [OF that(1)] acc' [OF that(2)]
    by (auto simp: frontier_ready_def)
  then have "set (map fe_message_id es) \<inter> set (map fe_message_id es') = {}"
    unfolding c(2) c'(2) by (auto simp: frontier_entry_of_row_def)
  with frontier_q.claim_length(1) [OF u c(1)] c(2) show ?thesis by simp
qed

lemma frontier_claim_batch_witness:
  "length (fst (claim_frontier_queue_batch_for_account 100 (\<lambda>_. False) ''a'' ''w1'' 2 frontier_example)) = 2"
proof -
  let ?c = "claim_frontier_queue_batch_for_account 100 (\<lambda>_. False) ''a'' ''w1'' 2 frontier_example"
  let ?d = "claim_frontier_queue_batch_for_account 100 (\<lambda>_. False) ''a'' ''w2'' 2 (snd ?c)"
  have "?c = (fst ?c, snd ?c)" "?d = (fst ?d, snd ?d)" by simp_all
  from frontier_claim_batch [OF frontier_example_uniq this] show ?thesis
    by (simp add: frontier_example_def new_frontier_row_def frontier_ready_def)
qed

section \<open>Worker\<close>

text \<open>After a retry was scheduled for \<open>m\<close>, or its row deleted, no row of \<open>m\<close> is processing.\<close>

definition frontier_settled :: "string \<Rightarrow> string \<Rightarrow> frontier_row list \<Rightarrow> bool" where
  "frontier_settled a m t \<longleftrightarrow> (\<forall>r \<in> set t. frontier_key r = (a, m) \<longrightarrow> fq_status r \<in> {Failed, Dead})"

abbreviation others :: "string \<Rightarrow> string \<Rightarrow> frontier_row list \<Rightarrow> frontier_row list" where
  "others a m t \<equiv> filter (\<lambda>r. frontier_key r \<noteq> (a, m)) t"

lemma schedule_frontier_retry_effect:
  "frontier_settled a (fe_message_id e) (fw_queue (schedule_frontier_retry h a e cfg msg w))"
  "others a (fe_message_id e) (fw_queue (schedule_frontier_retry h a e cfg msg w)) = others a (fe_message_id e) (fw_queue w)"
proof -
  let ?p = "\<lambda>r. frontier_key r = (a, fe_message_id e)"
  let ?st = "if fe_attempt_count e \<ge> fc_max_attempts cfg then Dead else Failed"
  let ?d = "frontier_retry_delay_secs (fc_retry_base_secs cfg) (fe_attempt_count e) (fc_max_retry_delay_secs cfg)"
  let ?f = "fail_frontier_row (fx_clock h (fw_tick w)) ?st (max ?d 0) msg"
  have q: "fw_queue (schedule_frontier_retry h a e cfg msg w)
      = (if sql_count ?p (fw_queue w) = 0 then fw_queue w else sql_update ?p ?f (fw_queue w))"
    by (simp add: schedule_frontier_retry_def mark_frontier_retry_or_dead_for_account_def Let_def)
  have zero: "\<forall>r \<in> set (fw_queue w). \<not> ?p r" if "sql_count ?p (fw_queue w) = 0"
    using that by (auto simp: sql_count_def filter_empty_conv)
  show "frontier_settled a (fe_message_id e) (fw_queue (schedule_frontier_retry h a e cfg msg w))"
  proof (cases "sql_count ?p (fw_queue w) = 0")
    case True
    then show ?thesis using zero q by (simp add: frontier_settled_def)
  next
    case False
    have "fq_status s \<in> {Failed, Dead}" if "s \<in> set (sql_update ?p ?f (fw_queue w))" "?p s" for s
    proof -
      from that(1) obtain r where "s = (if ?p r then ?f r else r)" unfolding sql_update_def set_map by blast
      with that(2) show ?thesis by (cases "?p r") (simp_all add: fail_frontier_row_def)
    qed
    with False show ?thesis unfolding frontier_settled_def q by simp
  qed
  show "others a (fe_message_id e) (fw_queue (schedule_frontier_retry h a e cfg msg w)) = others a (fe_message_id e) (fw_queue w)"
    unfolding q by (simp add: filter_sql_update_other)
qed

lemma complete_frontier_effect:
  assumes "\<And>n. fx_done_error h n = None"
  shows "frontier_settled a m (fw_queue (snd (complete_frontier h a m w)))"
    and "others a m (fw_queue (snd (complete_frontier h a m w))) = others a m (fw_queue w)"
    and "complete_frontier h a m w = (x, w') \<Longrightarrow> x = None \<and> frontier_settled a m (fw_queue w')
           \<and> others a m (fw_queue w') = others a m (fw_queue w)"
  using assms by (auto simp: complete_frontier_def mark_frontier_done_for_account_def frontier_settled_def Let_def)

lemma process_frontier_entry_effect:
  assumes h: "\<And>n. fx_done_error h n = None" and p: "process_frontier_entry h a cfg e w = (st, w')"
  shows "others a (fe_message_id e) (fw_queue w') = others a (fe_message_id e) (fw_queue w)"
    and "(\<forall>err. st \<noteq> Fail err) \<Longrightarrow> frontier_settled a (fe_message_id e) (fw_queue w')"
    and "st = Fail err \<Longrightarrow> fw_queue w' = fw_queue w"
    and "st = Break \<Longrightarrow> \<exists>n x err. fx_analyze h n x = Inl err \<and> is_transient_frontier_error (format_error_chain err)"
  using p by (auto simp: process_frontier_entry_def Let_def h complete_frontier_effect(1,2)
      schedule_frontier_retry_effect split: sum.splits option.splits prod.splits if_splits
      dest!: complete_frontier_effect(3) [OF h])


definition frontier_host_example :: "(string, unit, unit) frontier_host" where
  "frontier_host_example = \<lparr>fx_clock = (\<lambda>n. 100 + int n), fx_skip = (\<lambda>_ _. False), fx_email = (\<lambda>_ m. Inr (Some m)),
     fx_analyze = (\<lambda>_ m. if m = ''m2'' then Inl [''analysis failed'', ''status 429''] else Inr ()),
     fx_apply = (\<lambda>_ _ _ _. (Inr (), ())), fx_done_error = (\<lambda>_. None)\<rparr>"


end
