(* ===== verification/Fnv.thy ===== *)
theory Fnv
  imports Prelude "HOL-Library.Word"
begin

text \<open>
  The 64-bit FNV-1a hash the program writes out twice, for the advisory lock key of the
  coordinator and for the key of a skill lesson, and the \<^verbatim>\<open>{:016x}\<close> rendering.
\<close>

unbundle bit_operations_syntax

definition fnv_offset :: "64 word" where
  "fnv_offset = 0xcbf29ce484222325"

definition fnv_step :: "64 word \<Rightarrow> char \<Rightarrow> 64 word" where
  "fnv_step h c = (h XOR of_nat (of_char c)) * 0x100000001b3"

definition fnv :: "64 word \<Rightarrow> string \<Rightarrow> 64 word" where
  "fnv h s = foldl fnv_step h s"

definition hex_digit :: "nat \<Rightarrow> char" where
  "hex_digit d = (if d < 10 then char_of (48 + d) else char_of (87 + d))"

definition hex16 :: "64 word \<Rightarrow> string" where
  "hex16 w = map (\<lambda>i. hex_digit (unat (drop_bit (4 * i) w AND 15))) (rev [0..<16])"

lemma length_hex16 [simp]: "length (hex16 w) = 16"
  by (simp add: hex16_def)

lemma fnv_append: "fnv h (s @ t) = fnv (fnv h s) t"
  by (simp add: fnv_def)

text \<open>
  One step is a bijection for a given character: the multiplier is odd, so it has an inverse
  modulo \<^verbatim>\<open>2^64\<close>. Two states that differ stay different under the same text.
\<close>

definition fnv_prime_inverse :: "64 word" where
  "fnv_prime_inverse = 0xce965057aff6957b"

lemma fnv_prime_unit: "0x100000001b3 * fnv_prime_inverse = 1"
  by (simp add: fnv_prime_inverse_def)

lemma fnv_step_inj: "fnv_step h c = fnv_step h' c \<Longrightarrow> h = h'"
proof -
  assume "fnv_step h c = fnv_step h' c"
  then have "fnv_step h c * fnv_prime_inverse = fnv_step h' c * fnv_prime_inverse" by (rule arg_cong)
  then have "h XOR of_nat (of_char c) = h' XOR of_nat (of_char c)"
    unfolding fnv_step_def mult.assoc fnv_prime_unit mult_1_right .
  then have "(h XOR of_nat (of_char c)) XOR of_nat (of_char c) = (h' XOR of_nat (of_char c)) XOR of_nat (of_char c)"
    by (rule arg_cong)
  then show ?thesis by (simp only: xor.assoc xor_self_eq xor.right_neutral)
qed

lemma fnv_inj: "fnv h s = fnv h' s \<Longrightarrow> h = h'"
  by (induction s arbitrary: h h') (auto simp: fnv_def dest: fnv_step_inj)

end
