(* ===== verification/WorkerRuntime.thy ===== *)
theory WorkerRuntime
  imports CoreWork Fnv
begin

text \<open>
  \<^verbatim>\<open>src/worker_runtime.rs\<close>: the runner of sub-agent tasks. A \<open>sub_world\<close> is the core queue,
  the sub-agent tables and the number of external calls and statements so far; a \<open>sub_host\<close>
  answers what is outside: the clock, the environment, the agent specs, the AI configuration, the
  tool bundle and the agent run itself. A JSON payload is read the way the derived
  \<^verbatim>\<open>Deserialize\<close> reads it. Scores are rationals (the rounding to \<^verbatim>\<open>f32\<close> is left out), metrics
  and log lines are left out.
\<close>

section \<open>Payloads\<close>

definition default_created_by :: string where
  "default_created_by = ''mail-assistant''"

definition default_worker_for_skill_bundle :: "string \<Rightarrow> string" where
  "default_worker_for_skill_bundle b =
     (if b = ''email_classification'' then ''classification-worker''
      else if b = ''folder_recommendation'' then ''folder-recommendation-worker''
      else if b = ''digest_generation'' then ''digest-worker''
      else if b = ''folder_learning'' then ''folder-learning-worker''
      else if b = ''conflict_review'' \<or> b = ''safety_policy'' then ''conflict-review-worker''
      else if b = ''mailbox_context'' then ''mail-assistant''
      else ''conflict-review-worker'')"

definition subagent_payload_from_record :: "subagent_task_record \<Rightarrow> string \<Rightarrow> json" where
  "subagent_payload_from_record task reason =
     JObject
       [(''task_id'', JString (tr_task_id task)),
        (''task_kind'', JString (tr_task_kind task)),
        (''worker_name'', JString (tr_worker_name task)),
        (''skill_bundle'', JString (tr_skill_bundle task)),
        (''message_ids'', JArray (map JString (tr_message_ids task))),
        (''input_context'', tr_input_context task),
        (''priority'', JInt (tr_priority task)),
        (''correlation_id'', JString (tr_correlation_id task)),
        (''created_by'', JString (tr_created_by task)),
        (''requested_by'', JString default_created_by),
        (''source'', JString default_created_by),
        (''reason'', JString reason)]"

text \<open>The fields of \<^verbatim>\<open>SubagentTaskPayload\<close> in order; serde also reads a struct from an array.\<close>

definition payload_fields :: "string list" where
  "payload_fields = [''task_id'', ''task_kind'', ''worker_name'', ''skill_bundle'', ''message_ids'',
     ''input_context'', ''priority'', ''correlation_id'', ''created_by'']"

definition payload_field :: "json \<Rightarrow> string \<Rightarrow> json option" where
  "payload_field v k =
     (case v of JObject kvs \<Rightarrow> map_of kvs k
      | JArray xs \<Rightarrow> map_of (zip payload_fields xs) k
      | _ \<Rightarrow> None)"

definition serde_string :: "json option \<Rightarrow> string option" where
  "serde_string v = Option.bind v as_str"

text \<open>\<^verbatim>\<open>#[serde(default)] Option<String>\<close>: absent and null are \<open>None\<close>; another type is an error.\<close>

definition serde_opt_string :: "json option \<Rightarrow> string option option" where
  "serde_opt_string v =
     (case v of None \<Rightarrow> Some None | Some JNull \<Rightarrow> Some None | Some (JString s) \<Rightarrow> Some (Some s) | _ \<Rightarrow> None)"

definition serde_strings :: "json option \<Rightarrow> string list option" where
  "serde_strings v =
     (case v of None \<Rightarrow> Some []
      | Some (JArray xs) \<Rightarrow> (if list_all (\<lambda>x. as_str x \<noteq> None) xs then Some (map (\<lambda>x. the (as_str x)) xs) else None)
      | _ \<Rightarrow> None)"

definition serde_i32 :: "json option \<Rightarrow> int option" where
  "serde_i32 v =
     (case v of None \<Rightarrow> Some 0
      | Some (JInt n) \<Rightarrow> (if - 2147483648 \<le> n \<and> n \<le> 2147483647 then Some n else None)
      | _ \<Rightarrow> None)"

definition parse_task_payload :: "json \<Rightarrow> subagent_task_record result" where
  "parse_task_payload payload =
     (let shape = (case payload of JObject _ \<Rightarrow> True | JArray xs \<Rightarrow> length xs \<le> 9 | _ \<Rightarrow> False);
          f = payload_field payload;
          created_by = map_option (\<lambda>c. case c of None \<Rightarrow> default_created_by | Some s \<Rightarrow> s) (serde_opt_string (f ''created_by''))
      in case (serde_string (f ''task_id''), serde_string (f ''task_kind''), serde_opt_string (f ''worker_name''),
               serde_string (f ''skill_bundle''), serde_strings (f ''message_ids''), serde_i32 (f ''priority''),
               serde_opt_string (f ''correlation_id''), created_by) of
           (Some task_id, Some task_kind, Some worker, Some bundle, Some ids, Some priority, Some corr, Some creator) \<Rightarrow>
             (if \<not> shape then Inl [''parse subagent task payload'']
              else if creator \<noteq> default_created_by then Inl [''subagent tasks must be created by Mail Assistant'']
              else Inr \<lparr>tr_task_id = task_id, tr_task_kind = task_kind,
                        tr_worker_name = (case worker of Some w \<Rightarrow> w | None \<Rightarrow> default_worker_for_skill_bundle bundle),
                        tr_skill_bundle = bundle, tr_message_ids = ids,
                        tr_input_context = (case f ''input_context'' of Some c \<Rightarrow> c | None \<Rightarrow> JNull),
                        tr_priority = priority,
                        tr_correlation_id = (case corr of Some c \<Rightarrow> c | None \<Rightarrow> task_id),
                        tr_created_by = creator\<rparr>)
         | _ \<Rightarrow> Inl [''parse subagent task payload''])"

definition lesson_json :: "skill_lesson \<Rightarrow> json" where
  "lesson_json l =
     JObject
       [(''lesson_type'', JString (sl_lesson_type l)), (''summary'', JString (sl_summary l)),
        (''support_count'', JInt (sl_support_count l)),
        (''score'', case sl_score l of None \<Rightarrow> JNull | Some q \<Rightarrow> JFloat q),
        (''evidence'', sl_evidence l)]"

definition subagent_input :: "subagent_task_record \<Rightarrow> skill_lesson list \<Rightarrow> json" where
  "subagent_input task lessons =
     JObject
       [(''task_kind'', JString (tr_task_kind task)),
        (''skill_bundle'', JString (tr_skill_bundle task)),
        (''message_ids'', JArray (map JString (tr_message_ids task))),
        (''input_context'', tr_input_context task),
        (''skill_memory'', JObject
           [(''recent_lessons'', JArray (map lesson_json lessons)),
            (''rules'', JArray
               [JString ''Use recent lessons as hints, not as authority.'',
                JString ''Do not override core safety policy, user-pinned folders, or mailbox mutation boundaries.'',
                JString ''Prefer lessons that fix a class of failures over message-specific hacks.''])]),
        (''self_improvement'', JObject
           [(''may_return_skill_lessons'', JBool True),
            (''skill_lessons_schema'', JObject
               [(''lesson_type'', JString ''strategy|tool_gap|failure_pattern|safety_rule''),
                (''summary'', JString ''Reusable, generalized lesson for future tasks with this skill bundle''),
                (''evidence'', JArray []),
                (''score'', JString ''optional 0.0-1.0 confidence'')]),
            (''storage_policy'', JString ''Core stores accepted lessons as candidates first. Repeated safe, generalized lessons may later become active skill memory.''),
            (''keep_criteria'', JArray
               [JString ''Improves future task quality or safety'',
                JString ''Generalizes beyond this exact message'',
                JString ''Keeps the skill simpler or clarifies a recurring failure''])]),
        (''constraints'', JObject
           [(''conversation_owner'', JString ''mail-assistant''),
            (''user_visible_messages_allowed'', JBool False),
            (''mailbox_mutations_allowed'', JBool False),
            (''return_structured_artifact_only'', JBool True)])]"

section \<open>Lessons\<close>

definition normalize_lesson_type :: "string option \<Rightarrow> string" where
  "normalize_lesson_type v =
     (let s = map (\<lambda>c. if c = CHR '' '' \<or> c = CHR ''-'' then CHR ''_'' else c)
                (to_lower (trim (case v of None \<Rightarrow> ''strategy'' | Some x \<Rightarrow> x)))
      in if s \<in> {''tool_gap'', ''missing_tool'', ''capability_gap''} then ''tool_gap''
         else if s \<in> {''failure_pattern'', ''failure'', ''mistake'', ''regression''} then ''failure_pattern''
         else if s \<in> {''safety_rule'', ''policy'', ''guardrail''} then ''safety_rule''
         else ''strategy'')"

definition stable_lesson_key :: "string \<Rightarrow> string \<Rightarrow> string \<Rightarrow> string" where
  "stable_lesson_key bundle lesson_type summary =
     lesson_type @ ''-'' @ hex16 (fnv fnv_offset (bundle @ lesson_type @ to_lower (trim summary)))"

definition extract_skill_lesson_summary :: "json \<Rightarrow> string option" where
  "extract_skill_lesson_summary v =
     (let s = (case v of
                 JString x \<Rightarrow> Some (trim x)
               | JObject kvs \<Rightarrow>
                   map_option trim (Option.bind
                     (coalesce (coalesce (map_of kvs ''summary'') (map_of kvs ''lesson'')) (map_of kvs ''description'')) as_str)
               | _ \<Rightarrow> None)
      in case s of None \<Rightarrow> None | Some x \<Rightarrow> (if x = [] then None else Some (take 500 x)))"

lemma size_json_elem [simp]: "x \<in> set xs \<Longrightarrow> size x < Suc (size_list size xs)"
  by (induction xs) auto

lemma size_json_field [simp]: "(k, v) \<in> set kvs \<Longrightarrow> size v < Suc (size_list (size_prod (\<lambda>_. 0) size) kvs)"
  by (induction kvs) auto

function bounded_lesson_evidence :: "json \<Rightarrow> json" where
  "bounded_lesson_evidence (JArray xs) = JArray (map bounded_lesson_evidence (take 6 xs))"
| "bounded_lesson_evidence (JObject kvs) = JObject (map (\<lambda>(k, v). (k, bounded_lesson_evidence v)) (take 12 kvs))"
| "bounded_lesson_evidence (JString s) = JString (take 500 s)"
| "bounded_lesson_evidence JNull = JNull"
| "bounded_lesson_evidence (JBool b) = JBool b"
| "bounded_lesson_evidence (JInt n) = JInt n"
| "bounded_lesson_evidence (JFloat q) = JFloat q"
  by pat_completeness auto

termination
  by (relation "measure size") (auto dest!: in_set_takeD)

definition clamp01 :: "rat \<Rightarrow> rat" where
  "clamp01 q = (if q < 0 then 0 else if 1 < q then 1 else q)"

definition object_field :: "string \<Rightarrow> json \<Rightarrow> json option" where
  "object_field k v = (case v of JObject kvs \<Rightarrow> map_of kvs k | _ \<Rightarrow> None)"

definition lesson_of_value :: "subagent_task_record \<Rightarrow> rat option \<Rightarrow> json \<Rightarrow> skill_lesson option" where
  "lesson_of_value task fallback v =
     (case extract_skill_lesson_summary v of
        None \<Rightarrow> None
      | Some summary \<Rightarrow>
          (let ty = normalize_lesson_type (Option.bind (object_field ''lesson_type'' v) as_str)
           in Some \<lparr>sl_skill_bundle = tr_skill_bundle task,
                sl_lesson_key = stable_lesson_key (tr_skill_bundle task) ty summary,
                sl_lesson_type = ty, sl_status = LCandidate, sl_summary = summary,
                sl_evidence = (case object_field ''evidence'' v of None \<Rightarrow> JArray [] | Some e \<Rightarrow> bounded_lesson_evidence e),
                sl_score = coalesce (map_option clamp01 (Option.bind (object_field ''score'' v) as_f64)) fallback,
                sl_support_count = 1, sl_negative_count = 0, sl_source_task_id = None, sl_source_result_id = None,
                sl_source_run_id = None, sl_worker_name = None, sl_agent_spec_version = None\<rparr>))"

definition extract_skill_lessons :: "subagent_task_record \<Rightarrow> json \<Rightarrow> rat option \<Rightarrow> skill_lesson list" where
  "extract_skill_lessons task output fallback =
     (case Option.bind (coalesce (jget ''skill_lessons'' output)
              (Option.bind (jget ''result'' output) (jget ''skill_lessons''))) as_array of
        None \<Rightarrow> []
      | Some values \<Rightarrow> take 5 (flatten_opts (map (lesson_of_value task fallback) values)))"

definition failure_skill_lesson :: "subagent_task_record \<Rightarrow> err \<Rightarrow> skill_lesson" where
  "failure_skill_lesson task e =
     (let short_error = take 240 (err_full e);
          summary = tr_worker_name task @ '' failed; future runs should gather prerequisite context, return valid JSON, or request review before retrying this pattern. Error: '' @ short_error
      in \<lparr>sl_skill_bundle = tr_skill_bundle task,
          sl_lesson_key = stable_lesson_key (tr_skill_bundle task) ''failure_pattern'' summary,
          sl_lesson_type = ''failure_pattern'', sl_status = LCandidate, sl_summary = summary,
          sl_evidence = JArray [JObject
            [(''task_id'', JString (tr_task_id task)), (''task_kind'', JString (tr_task_kind task)),
             (''worker_name'', JString (tr_worker_name task)), (''error'', JString short_error)]],
          sl_score = Some 0, sl_support_count = 1, sl_negative_count = 0, sl_source_task_id = None,
          sl_source_result_id = None, sl_source_run_id = None, sl_worker_name = None, sl_agent_spec_version = None\<rparr>)"

datatype lesson_validation = Accepted | Rejected string

fun split_once :: "char \<Rightarrow> string \<Rightarrow> (string \<times> string) option" where
  "split_once c [] = None"
| "split_once c (x # xs) =
     (if x = c then Some ([], xs) else map_option (\<lambda>(a, b). (x # a, b)) (split_once c xs))"

definition looks_like_email_address :: "string \<Rightarrow> bool" where
  "looks_like_email_address v =
     list_ex (\<lambda>token. case split_once (CHR ''@'') token of
                None \<Rightarrow> False
              | Some (loc, domain) \<Rightarrow>
                  loc \<noteq> [] \<and> CHR ''.'' \<in> set domain
                  \<and> list_all (\<lambda>c. is_ascii_alnum c \<or> c = CHR ''.'' \<or> c = CHR ''-'' \<or> c = CHR ''_'') domain)
       (split_by (\<lambda>c. is_ws c \<or> c = CHR ''<'' \<or> c = CHR ''>'' \<or> c = CHR 0x22 \<or> c = CHR 0x27 \<or> c = CHR '','' \<or> c = CHR '';'') v)"

definition looks_like_message_identifier :: "string \<Rightarrow> bool" where
  "looks_like_message_identifier v =
     contains_any (to_lower v) [''message_id'', ''message id'', ''task_id'', ''task id'', ''run_id'', ''run id'']"

definition is_mailbox_mutation_directive :: "string \<Rightarrow> bool" where
  "is_mailbox_mutation_directive v =
     contains_any v
       [''always move'', ''automatically move'', ''move messages directly'', ''move mail directly'',
        ''delete messages'', ''delete mail'', ''trash messages'', ''junk messages'', ''create folders directly'',
        ''apply imap'', ''bypass core'', ''override core'', ''ignore user-pinned'', ''ignore pinned folder'',
        ''ignore safety'', ''mutate mailbox'']"

definition is_one_off_preference :: "string \<Rightarrow> bool" where
  "is_one_off_preference v =
     contains_any v
       [''this email'', ''this message'', ''this sender'', ''that email'', ''that message'',
        ''should go to'', ''belongs in'', ''always goes to'', ''file this'']"

definition validate_skill_lesson :: "skill_lesson \<Rightarrow> lesson_validation" where
  "validate_skill_lesson l =
     (let summary = trim (sl_summary l); lower = to_lower summary in
      if length summary < 20 then Rejected ''summary_too_short''
      else if looks_like_message_identifier summary \<or> looks_like_email_address summary
      then Rejected ''message_specific_identifier''
      else if is_one_off_preference lower then Rejected ''one_off_preference''
      else if is_mailbox_mutation_directive lower then Rejected ''mutation_directive''
      else Accepted)"

definition with_lesson_provenance ::
  "skill_lesson \<Rightarrow> subagent_task_record \<Rightarrow> int option \<Rightarrow> string option \<Rightarrow> string \<Rightarrow> skill_lesson" where
  "with_lesson_provenance l task result_id run_id version =
     l\<lparr>sl_source_task_id := Some (tr_task_id task), sl_source_result_id := result_id,
       sl_source_run_id := run_id, sl_worker_name := Some (tr_worker_name task),
       sl_agent_spec_version := Some version\<rparr>"

section \<open>Running a task\<close>

record agent_run_result =
  ar_output :: json
  ar_should_escalate :: bool
  ar_run_id :: string

record sub_host =
  sx_clock :: "nat \<Rightarrow> timestamp"
  sx_env :: env
  sx_load_spec :: "nat \<Rightarrow> string \<Rightarrow> string result"
  sx_ai_config :: "nat \<Rightarrow> unit result"
  sx_build_tools :: "nat \<Rightarrow> string \<Rightarrow> string \<Rightarrow> unit result"
  sx_run :: "nat \<Rightarrow> string \<Rightarrow> string \<Rightarrow> json \<Rightarrow> agent_run_result result"

record sub_world =
  sb_core :: core_table
  sb_tables :: subagent_tables
  sb_tick :: nat

definition sb_now :: "sub_host \<Rightarrow> sub_world \<Rightarrow> timestamp" where
  "sb_now h w = sx_clock h (sb_tick w)"

definition tick :: "sub_world \<Rightarrow> sub_world" where
  "tick w = w\<lparr>sb_tick := sb_tick w + 1\<rparr>"

definition set_tables :: "sub_world \<Rightarrow> subagent_tables \<Rightarrow> sub_world" where
  "set_tables w s = (tick w)\<lparr>sb_tables := s\<rparr>"

text \<open>An external call that only answers.\<close>

definition ask :: "(nat \<Rightarrow> 'a result) \<Rightarrow> sub_world \<Rightarrow> 'a result \<times> sub_world" where
  "ask f w = (f (sb_tick w), tick w)"

definition do_upsert_task ::
  "sub_host \<Rightarrow> string \<Rightarrow> subagent_task_record \<Rightarrow> int option \<Rightarrow> task_status \<Rightarrow> sub_world \<Rightarrow> sub_world" where
  "do_upsert_task h a task core_work st w =
     set_tables w ((sb_tables w)\<lparr>sa_tasks := snd (upsert_subagent_task (sb_now h w) a task core_work st (sa_tasks (sb_tables w)))\<rparr>)"

definition do_finish_task ::
  "sub_host \<Rightarrow> string \<Rightarrow> string \<Rightarrow> task_status \<Rightarrow> string option \<Rightarrow> sub_world \<Rightarrow> sub_world" where
  "do_finish_task h a task_id st e w =
     set_tables w ((sb_tables w)\<lparr>sa_tasks := snd (mark_subagent_task_finished (sb_now h w) a task_id st e (sa_tasks (sb_tables w)))\<rparr>)"

definition store_skill_lesson_if_valid :: "sub_host \<Rightarrow> string \<Rightarrow> skill_lesson \<Rightarrow> sub_world \<Rightarrow> sub_world" where
  "store_skill_lesson_if_valid h a l w =
     (case validate_skill_lesson l of
        Accepted \<Rightarrow>
          set_tables w ((sb_tables w)\<lparr>sa_lessons :=
            snd (upsert_skill_lesson (sb_now h w) (sx_env h) a l (sa_lessons (sb_tables w)))\<rparr>)
      | Rejected _ \<Rightarrow> w)"

definition output_confidence :: "json \<Rightarrow> rat option" where
  "output_confidence output = map_option clamp01 (get_f64 ''confidence'' output)"

definition output_array_field :: "json \<Rightarrow> string \<Rightarrow> json" where
  "output_array_field output k =
     (case jget k output of None \<Rightarrow> JArray [] | Some v \<Rightarrow> (if is_array v then v else JArray []))"

definition output_requires_review :: "json \<Rightarrow> bool \<Rightarrow> bool" where
  "output_requires_review output should_escalate =
     (case Option.bind (jget ''requires_review'' output) as_bool of
        Some b \<Rightarrow> b
      | None \<Rightarrow> should_escalate \<or> (case output_confidence output of None \<Rightarrow> False | Some q \<Rightarrow> q < 7 / 10))"

definition task_json :: "subagent_task_record \<Rightarrow> json" where
  "task_json t =
     JObject
       [(''task_id'', JString (tr_task_id t)), (''task_kind'', JString (tr_task_kind t)),
        (''worker_name'', JString (tr_worker_name t)), (''skill_bundle'', JString (tr_skill_bundle t)),
        (''message_ids'', JArray (map JString (tr_message_ids t))), (''input_context'', tr_input_context t),
        (''priority'', JInt (tr_priority t)), (''correlation_id'', JString (tr_correlation_id t)),
        (''created_by'', JString (tr_created_by t))]"

text \<open>\<^verbatim>\<open>i32::saturating_add\<close> of ten.\<close>

definition review_task :: "subagent_task_record \<Rightarrow> subagent_result_record \<Rightarrow> subagent_task_record" where
  "review_task task r =
     \<lparr>tr_task_id = ''review-'' @ tr_task_id task, tr_task_kind = ''conflict_review'',
      tr_worker_name = ''conflict-review-worker'', tr_skill_bundle = ''conflict_review'',
      tr_message_ids = tr_message_ids task,
      tr_input_context = JObject
        [(''original_task'', task_json task), (''worker_result'', sr_result r),
         (''recommended_actions'', sr_recommended_actions r),
         (''reason'', JString ''worker_result_requires_review'')],
      tr_priority = min 2147483647 (tr_priority task + 10),
      tr_correlation_id = tr_correlation_id task, tr_created_by = default_created_by\<rparr>"

definition enqueue_conflict_review_if_needed ::
  "sub_host \<Rightarrow> string \<Rightarrow> subagent_task_record \<Rightarrow> subagent_result_record \<Rightarrow> sub_world \<Rightarrow> sub_world" where
  "enqueue_conflict_review_if_needed h a task r w =
     (if \<not> sr_requires_review r \<or> tr_skill_bundle task \<in> {''conflict_review'', ''safety_policy''} then w
      else
        (let rt = review_task task r;
             w1 = do_upsert_task h a rt None TPending w;
             (n, core) = enqueue_core_work_for_account (sb_now h w1) a SubagentTask (tr_task_id rt)
                           (subagent_payload_from_record rt ''worker_result_requires_review'') (sb_core w1)
         in (tick w1)\<lparr>sb_core := core\<rparr>))"

definition result_of_run :: "subagent_task_record \<Rightarrow> agent_run_result \<Rightarrow> subagent_result_record" where
  "result_of_run task run =
     \<lparr>sr_task_id = tr_task_id task, sr_worker_name = tr_worker_name task, sr_task_kind = tr_task_kind task,
      sr_result = ar_output run, sr_confidence = output_confidence (ar_output run),
      sr_evidence = output_array_field (ar_output run) ''evidence'',
      sr_recommended_actions = output_array_field (ar_output run) ''recommended_actions'',
      sr_requires_review = output_requires_review (ar_output run) (ar_should_escalate run),
      sr_agent_run_id = Some (ar_run_id run)\<rparr>"

definition finish_run ::
  "sub_host \<Rightarrow> string \<Rightarrow> subagent_task_record \<Rightarrow> string \<Rightarrow> agent_run_result \<Rightarrow> sub_world \<Rightarrow> sub_world" where
  "finish_run h a task version run w =
     (let r = result_of_run task run;
          (result_id, s) = insert_subagent_result a r (sb_tables w);
          w1 = set_tables w s;
          w2 = fold (\<lambda>l. store_skill_lesson_if_valid h a
                      (with_lesson_provenance l task (Some result_id) (sr_agent_run_id r) version))
                 (extract_skill_lessons task (ar_output run) (sr_confidence r)) w1;
          w3 = do_finish_task h a (tr_task_id task) TCompleted None w2
      in enqueue_conflict_review_if_needed h a task r w3)"

definition fail_run ::
  "sub_host \<Rightarrow> string \<Rightarrow> subagent_task_record \<Rightarrow> string \<Rightarrow> err \<Rightarrow> sub_world \<Rightarrow> sub_world" where
  "fail_run h a task version e w =
     store_skill_lesson_if_valid h a (with_lesson_provenance (failure_skill_lesson task e) task None None version)
       (do_finish_task h a (tr_task_id task) TFailed (Some (err_full e)) w)"

definition execute_subagent_task ::
  "sub_host \<Rightarrow> string \<Rightarrow> int \<Rightarrow> json \<Rightarrow> sub_world \<Rightarrow> unit result \<times> sub_world" where
  "execute_subagent_task h a core_work_id payload w =
     and_then (parse_task_payload payload, w) (\<lambda>task w.
     and_then (ask (\<lambda>n. ctx (''load subagent worker spec '' @ tr_worker_name task) (sx_load_spec h n (tr_worker_name task)))
                (do_upsert_task h a task (Some core_work_id) TRunning w)) (\<lambda>version w.
       let (lessons, ls) = list_active_skill_lessons (sb_now h w) a (tr_skill_bundle task) 8 (sa_lessons (sb_tables w));
           w = set_tables w ((sb_tables w)\<lparr>sa_lessons := ls\<rparr>)
       in
     and_then (ask (\<lambda>n. ctx ''Load AI config'' (sx_ai_config h n)) w) (\<lambda>_ w.
     and_then (ask (\<lambda>n. sx_build_tools h n (tr_skill_bundle task) a) w) (\<lambda>_ w.
       let (run, w) = ask (\<lambda>n. sx_run h n (tr_worker_name task) (''subagent-'' @ tr_task_id task) (subagent_input task lessons)) w
       in case run of
            Inr r \<Rightarrow> (Inr (), finish_run h a task version r w)
          | Inl e \<Rightarrow> (Inl e, fail_run h a task version e w)))))"

end
