(* ===== verification/WorkerProps.thy ===== *)
theory WorkerProps
  imports WorkerRuntime SubagentProps
begin

text \<open>Properties of the sub-agent runner, with their witnesses.\<close>

section \<open>Payloads and evidence\<close>

lemma strings_roundtrip [simp]:
  "list_all (\<lambda>x. as_str x \<noteq> None) (map JString xs)" "map (\<lambda>x. the (as_str x)) (map JString xs) = xs"
  by (simp_all add: list_all_iff as_str_def comp_def)

text \<open>The payload the program writes for a sub-agent task reads back as the same task, whatever the
  reason, when Mail Assistant created it; a task of anyone else is refused.\<close>

theorem task_payload_roundtrip:
  assumes "- 2147483648 \<le> tr_priority t" "tr_priority t \<le> 2147483647"
  shows "parse_task_payload (subagent_payload_from_record t reason) =
    (if tr_created_by t = default_created_by then Inr t else Inl [''subagent tasks must be created by Mail Assistant''])"
proof -
  have f: "payload_field (subagent_payload_from_record t reason) ''task_id'' = Some (JString (tr_task_id t))"
    "payload_field (subagent_payload_from_record t reason) ''task_kind'' = Some (JString (tr_task_kind t))"
    "payload_field (subagent_payload_from_record t reason) ''worker_name'' = Some (JString (tr_worker_name t))"
    "payload_field (subagent_payload_from_record t reason) ''skill_bundle'' = Some (JString (tr_skill_bundle t))"
    "payload_field (subagent_payload_from_record t reason) ''message_ids'' = Some (JArray (map JString (tr_message_ids t)))"
    "payload_field (subagent_payload_from_record t reason) ''input_context'' = Some (tr_input_context t)"
    "payload_field (subagent_payload_from_record t reason) ''priority'' = Some (JInt (tr_priority t))"
    "payload_field (subagent_payload_from_record t reason) ''correlation_id'' = Some (JString (tr_correlation_id t))"
    "payload_field (subagent_payload_from_record t reason) ''created_by'' = Some (JString (tr_created_by t))"
    by (simp_all add: payload_field_def subagent_payload_from_record_def)
  have shape: "(case subagent_payload_from_record t reason of JObject _ \<Rightarrow> True | JArray xs \<Rightarrow> length xs \<le> 9 | _ \<Rightarrow> False)"
    by (simp add: subagent_payload_from_record_def)
  show ?thesis
    unfolding parse_task_payload_def Let_def f
    using assms shape
    by (simp add: serde_string_def serde_opt_string_def serde_strings_def serde_i32_def as_str_def list_all_iff comp_def)
qed

lemma task_payload_roundtrip_witness:
  "parse_task_payload (subagent_payload_from_record (task_example\<lparr>tr_created_by := ''mail-assistant''\<rparr>) ''x'')
     = Inr (task_example\<lparr>tr_created_by := ''mail-assistant''\<rparr>)"
  using task_payload_roundtrip [of "task_example\<lparr>tr_created_by := ''mail-assistant''\<rparr>" "''x''"]
  by (simp add: task_example_def default_created_by_def)

text \<open>The bounds on stored evidence, at every level.\<close>

fun evidence_bounded :: "json \<Rightarrow> bool" where
  "evidence_bounded (JArray xs) \<longleftrightarrow> length xs \<le> 6 \<and> list_all evidence_bounded xs"
| "evidence_bounded (JObject kvs) \<longleftrightarrow> length kvs \<le> 12 \<and> list_all evidence_bounded (map snd kvs)"
| "evidence_bounded (JString s) \<longleftrightarrow> length s \<le> 500"
| "evidence_bounded _ \<longleftrightarrow> True"

lemma evidence_bounded_result: "evidence_bounded (bounded_lesson_evidence v)"
  by (induction v rule: bounded_lesson_evidence.induct)
    (auto simp: list_all_iff case_prod_beta dest: in_set_takeD)

lemma evidence_bounded_fixed: "evidence_bounded v \<Longrightarrow> bounded_lesson_evidence v = v"
proof (induction v rule: bounded_lesson_evidence.induct)
  case (1 xs)
  then show ?case by (auto simp: list_all_iff intro: map_idI)
next
  case (2 kvs)
  then have "map (\<lambda>(k, v). (k, bounded_lesson_evidence v)) kvs = kvs"
    by (intro map_idI) (auto simp: list_all_iff)
  with 2 show ?case by simp
qed auto

text \<open>Lesson evidence is bounded before it is stored: at every level at most 6 array items, 12 fields
  and 500 characters, and evidence within these bounds is stored as it is. A run stores at most five
  lessons, each a candidate with one supporting report, a summary of at most 500 characters and a
  score between 0 and 1.\<close>

theorem extracted_lessons_bounded:
  assumes "l \<in> set (extract_skill_lessons task output fallback)"
    and "\<And>q. fallback = Some q \<Longrightarrow> 0 \<le> q \<and> q \<le> 1"
  shows "length (extract_skill_lessons task output fallback) \<le> 5 \<and> evidence_bounded (sl_evidence l)
    \<and> (evidence_bounded v \<longrightarrow> bounded_lesson_evidence v = v)
    \<and> sl_status l = LCandidate \<and> sl_support_count l = 1 \<and> sl_negative_count l = 0
    \<and> length (sl_summary l) \<le> 500 \<and> sl_skill_bundle l = tr_skill_bundle task
    \<and> (case sl_score l of None \<Rightarrow> True | Some q \<Rightarrow> 0 \<le> q \<and> q \<le> 1)"
proof -
  from assms(1) obtain vs where "l \<in> set (take 5 (flatten_opts (map (lesson_of_value task fallback) vs)))"
    by (auto simp: extract_skill_lessons_def split: option.splits)
  then have "l \<in> set (flatten_opts (map (lesson_of_value task fallback) vs))" by (rule in_set_takeD)
  then obtain x where l: "lesson_of_value task fallback x = Some l"
    by (auto simp: flatten_opts_def List.map_filter_def)
  have "length s \<le> 500" if "extract_skill_lesson_summary x = Some s" for s
    using that by (auto simp: extract_skill_lesson_summary_def Let_def split: option.splits if_splits)
  with l have "length (sl_summary l) \<le> 500" "sl_status l = LCandidate" "sl_support_count l = 1"
    "sl_negative_count l = 0" "sl_skill_bundle l = tr_skill_bundle task"
    by (auto simp: lesson_of_value_def Let_def split: option.splits)
  moreover have "evidence_bounded (sl_evidence l)"
    using l by (auto simp: lesson_of_value_def Let_def evidence_bounded_result split: option.splits)
  moreover have "case sl_score l of None \<Rightarrow> True | Some q \<Rightarrow> 0 \<le> q \<and> q \<le> 1"
    using l assms(2) by (auto simp: lesson_of_value_def Let_def coalesce_def clamp01_def split: option.splits)
  moreover have "length (extract_skill_lessons task output fallback) \<le> 5"
    by (simp add: extract_skill_lessons_def split: option.splits)
  ultimately show ?thesis using evidence_bounded_fixed by blast
qed

lemma extracted_lessons_bounded_witness:
  "sl_support_count (hd (extract_skill_lessons task_example
      (JObject [(''skill_lessons'', JArray [JString ''Check the thread before filing'']) ]) None)) = 1"
proof -
  let ?o = "JObject [(''skill_lessons'', JArray [JString ''Check the thread before filing'']) ]"
  have "extract_skill_lesson_summary (JString ''Check the thread before filing'') = Some ''Check the thread before filing''"
    by code_simp
  then have "extract_skill_lessons task_example ?o None \<noteq> []"
    by (simp add: extract_skill_lessons_def json_defs coalesce_def flatten_opts_def List.map_filter_def lesson_of_value_def Let_def)
  then have "hd (extract_skill_lessons task_example ?o None) \<in> set (extract_skill_lessons task_example ?o None)" by simp
  from extracted_lessons_bounded [OF this] show ?thesis by simp
qed

section \<open>Running a task\<close>

definition task_status_is :: "string \<Rightarrow> string \<Rightarrow> task_status \<Rightarrow> sub_world \<Rightarrow> bool" where
  "task_status_is a i st w \<longleftrightarrow>
     (\<exists>r \<in> set (sa_tasks (sb_tables w)). task_key r = (a, i))
     \<and> (\<forall>r \<in> set (sa_tasks (sb_tables w)). task_key r = (a, i) \<longrightarrow> st_status r = st)"

text \<open>Only the tasks matter.\<close>

lemma status_cong:
  "sa_tasks (sb_tables w) = sa_tasks (sb_tables w') \<Longrightarrow> task_status_is a i st w = task_status_is a i st w'"
  by (simp add: task_status_is_def)

lemma sub_world_simps [simp]:
  "sb_tables (set_tables w s) = s" "sb_core (set_tables w s) = sb_core w"
  "sb_tables (tick w) = sb_tables w" "sb_core (tick w) = sb_core w"
  by (simp_all add: set_tables_def tick_def)

lemma task_key_finished [simp]:
  "task_key (r\<lparr>st_status := st, st_error := e, st_finished := f, st_updated := u\<rparr>) = task_key r"
  by (simp add: task_key_def)

lemma upsert_task_rows:
  assumes "x \<in> set (snd (upsert_subagent_task now a task cw st t))"
  shows "(task_key x = (a, tr_task_id task) \<longrightarrow> st_status x = st) \<and> (task_key x \<noteq> (a, tr_task_id task) \<longrightarrow> x \<in> set t)"
proof (cases "sql_exists (\<lambda>r. task_key r = (a, tr_task_id task)) t")
  case True
  then have "x \<in> set (sql_update (\<lambda>r. task_key r = (a, tr_task_id task)) (conflict_task_row now task cw st) t)"
    using assms by (simp add: upsert_subagent_task_def Let_def)
  then obtain r where r: "r \<in> set t"
    "x = (if task_key r = (a, tr_task_id task) then conflict_task_row now task cw st r else r)"
    unfolding sql_update_def set_map by blast
  show ?thesis
  proof (cases "task_key r = (a, tr_task_id task)")
    case True
    then have "st_account r = a" by (simp add: task_key_def)
    with True r(2) show ?thesis by (simp add: conflict_task_row_def task_key_def)
  qed (use r in simp)
next
  case False
  then have "x \<in> set t \<and> task_key x \<noteq> (a, tr_task_id task) \<or> x = new_task_row now a task cw st"
    using assms by (auto simp: upsert_subagent_task_def Let_def sql_exists_iff)
  then show ?thesis by (auto simp: new_task_row_def task_key_def)
qed

lemma upsert_task_keeps:
  assumes "r \<in> set t" "task_key r \<noteq> (a, tr_task_id task)"
  shows "r \<in> set (snd (upsert_subagent_task now a task cw st t))"
  using assms by (force simp: upsert_subagent_task_def Let_def sql_update_def)

lemma upsert_task_exists:
  "\<exists>x \<in> set (snd (upsert_subagent_task now a task cw st t)). task_key x = (a, tr_task_id task)"
proof (cases "sql_exists (\<lambda>r. task_key r = (a, tr_task_id task)) t")
  case True
  then obtain r where r: "r \<in> set t" "task_key r = (a, tr_task_id task)" by (auto simp: sql_exists_iff)
  then have "conflict_task_row now task cw st r \<in> set (snd (upsert_subagent_task now a task cw st t))"
    using True by (force simp: upsert_subagent_task_def Let_def sql_update_def)
  moreover have "task_key (conflict_task_row now task cw st r) = (a, tr_task_id task)"
    using r(2) by (simp add: task_key_def conflict_task_row_def)
  ultimately show ?thesis by blast
next
  case False
  then show ?thesis by (simp add: upsert_subagent_task_def Let_def)
qed

lemma status_after_upsert: "task_status_is a (tr_task_id task) st (do_upsert_task h a task cw st w)"
  using upsert_task_exists upsert_task_rows unfolding task_status_is_def do_upsert_task_def by fastforce

lemma status_other_upsert:
  assumes "task_status_is a i st w" "tr_task_id task \<noteq> i"
  shows "task_status_is a i st (do_upsert_task h a task cw st' w)"
proof -
  let ?t = "sa_tasks (sb_tables w)" and ?t' = "snd (upsert_subagent_task (sb_now h w) a task cw st' (sa_tasks (sb_tables w)))"
  have ts: "sa_tasks (sb_tables (do_upsert_task h a task cw st' w)) = ?t'" by (simp add: do_upsert_task_def)
  from assms(1) obtain r where r: "r \<in> set ?t" "task_key r = (a, i)" by (auto simp: task_status_is_def)
  have "r \<in> set ?t'" by (rule upsert_task_keeps) (use r assms(2) in simp_all)
  moreover have "st_status x = st" if x: "x \<in> set ?t'" "task_key x = (a, i)" for x
    using upsert_task_rows [OF x(1)] x(2) assms by (simp add: task_status_is_def)
  ultimately show ?thesis unfolding task_status_is_def ts using r(2) by blast
qed

lemma status_after_finish:
  assumes "task_status_is a i st0 w"
  shows "task_status_is a i st (do_finish_task h a i st e w)"
proof -
  let ?f = "\<lambda>r. r\<lparr>st_status := st, st_error := e, st_finished := Some (sb_now h w), st_updated := sb_now h w\<rparr>"
  have ts: "sa_tasks (sb_tables (do_finish_task h a i st e w))
      = sql_update (\<lambda>r. task_key r = (a, i)) ?f (sa_tasks (sb_tables w))"
    by (simp add: do_finish_task_def mark_subagent_task_finished_def Let_def)
  from assms obtain r where r: "r \<in> set (sa_tasks (sb_tables w))" "task_key r = (a, i)" by (auto simp: task_status_is_def)
  then have "?f r \<in> set (sql_update (\<lambda>r. task_key r = (a, i)) ?f (sa_tasks (sb_tables w)))"
    by (force simp: sql_update_def)
  moreover have "task_key (?f r) = (a, i)" using r(2) by simp
  moreover have "st_status x = st"
    if x: "x \<in> set (sql_update (\<lambda>r. task_key r = (a, i)) ?f (sa_tasks (sb_tables w)))" "task_key x = (a, i)" for x
  proof -
    from x(1) obtain y where "x = (if task_key y = (a, i) then ?f y else y)" unfolding sql_update_def set_map by blast
    with x(2) show ?thesis by (cases "task_key y = (a, i)") simp_all
  qed
  ultimately show ?thesis unfolding task_status_is_def ts by blast
qed

lemma tasks_lesson [simp]: "sa_tasks (sb_tables (store_skill_lesson_if_valid h b l w)) = sa_tasks (sb_tables w)"
  by (simp add: store_skill_lesson_if_valid_def split: lesson_validation.splits)

lemma tasks_lessons [simp]:
  "sa_tasks (sb_tables (fold (\<lambda>l. store_skill_lesson_if_valid h b (f l)) ls w)) = sa_tasks (sb_tables w)"
  by (induction ls arbitrary: w) simp_all

lemma tasks_insert_result [simp]: "sa_tasks (snd (insert_subagent_result a r s)) = sa_tasks s"
  by (simp add: insert_subagent_result_def)

lemma status_tick [simp]: "task_status_is a i st (tick w) = task_status_is a i st w"
  by (rule status_cong) simp

lemma status_core [simp]: "task_status_is a i st (w\<lparr>sb_core := c\<rparr>) = task_status_is a i st w"
  by (rule status_cong) simp

lemma status_set_lessons [simp]:
  "task_status_is a i st (set_tables w ((sb_tables w)\<lparr>sa_lessons := ls\<rparr>)) = task_status_is a i st w"
  "task_status_is a i st (set_tables (tick w) ((sb_tables w)\<lparr>sa_lessons := ls\<rparr>)) = task_status_is a i st w"
  by (rule status_cong, simp)+

lemma status_lesson [simp]: "task_status_is a i st (store_skill_lesson_if_valid h b l w) = task_status_is a i st w"
  by (rule status_cong) simp

lemma status_review:
  "task_status_is a (tr_task_id task) st w \<Longrightarrow>
     task_status_is a (tr_task_id task) st (enqueue_conflict_review_if_needed h a task r w)"
  using status_other_upsert [of a "tr_task_id task" st w "review_task task r" h None TPending]
  by (auto simp: enqueue_conflict_review_if_needed_def Let_def review_task_def split: prod.splits)

lemma status_finish_run:
  assumes "task_status_is a (tr_task_id task) TRunning w"
  shows "task_status_is a (tr_task_id task) TCompleted (finish_run h a task version run w)"
proof -
  let ?w = "fold (\<lambda>l. store_skill_lesson_if_valid h a (with_lesson_provenance l task
        (Some (fst (insert_subagent_result a (result_of_run task run) (sb_tables w))))
        (sr_agent_run_id (result_of_run task run)) version))
      (extract_skill_lessons task (ar_output run) (sr_confidence (result_of_run task run)))
      (set_tables w (snd (insert_subagent_result a (result_of_run task run) (sb_tables w))))"
  have "task_status_is a (tr_task_id task) TRunning ?w = task_status_is a (tr_task_id task) TRunning w"
    by (rule status_cong) simp
  with assms have "task_status_is a (tr_task_id task) TCompleted (do_finish_task h a (tr_task_id task) TCompleted None ?w)"
    by (intro status_after_finish) simp
  then show ?thesis unfolding finish_run_def Let_def case_prod_beta by (rule status_review)
qed

text \<open>The phases of a run: set up in \<open>w1\<close>, where the task is running, then the end of the run.\<close>

lemma execute_phases:
  assumes "parse_task_payload payload = Inr task" "execute_subagent_task h a core_id payload w = (res, w')"
  shows "\<exists>w1. sa_tasks (sb_tables w1) = sa_tasks (sb_tables (do_upsert_task h a task (Some core_id) TRunning w))
    \<and> sb_core w1 = sb_core w
    \<and> (sa_lessons (sb_tables w1) = sa_lessons (sb_tables w)
       \<or> (\<exists>now ls. list_active_skill_lessons now a (tr_skill_bundle task) 8 (sa_lessons (sb_tables w)) = (ls, sa_lessons (sb_tables w1))))
    \<and> ((\<exists>e. res = Inl e \<and> w' = w1 \<and> (\<exists>n e'. sx_load_spec h n (tr_worker_name task) = Inl e' \<or> sx_ai_config h n = Inl e'
                        \<or> sx_build_tools h n (tr_skill_bundle task) a = Inl e'))
      \<or> (\<exists>v e n k i. res = Inl e \<and> w' = fail_run h a task v e w1 \<and> sx_run h n (tr_worker_name task) k i = Inl e)
      \<or> (\<exists>v run. res = Inr () \<and> w' = finish_run h a task v run w1))"
proof -
  let ?u = "do_upsert_task h a task (Some core_id) TRunning w"
  obtain ls t' where ls: "list_active_skill_lessons (sb_now h (tick ?u)) a (tr_skill_bundle task) 8 (sa_lessons (sb_tables w)) = (ls, t')"
    by fastforce
  let ?l = "set_tables (tick ?u) ((sb_tables ?u)\<lparr>sa_lessons := t'\<rparr>)"
  have les: "sa_lessons (sb_tables ?u) = sa_lessons (sb_tables w)" "sb_core ?u = sb_core w"
    by (simp_all add: do_upsert_task_def)
  note ex = assms(2) [unfolded execute_subagent_task_def assms(1) and_then_simps ask_def]
  show ?thesis
  proof (cases "sx_load_spec h (sb_tick ?u) (tr_worker_name task)")
    case (Inl e)
    with ex show ?thesis by (intro exI [of _ "tick ?u"]) (auto simp: ctx_def les)
  next
    case spec: (Inr v)
    show ?thesis
    proof (cases "sx_ai_config h (sb_tick ?l)")
      case (Inl e)
      with ex spec ls show ?thesis by (intro exI [of _ "tick ?l"]) (auto simp: ctx_def les)
    next
      case cfg: (Inr u)
      show ?thesis
      proof (cases "sx_build_tools h (sb_tick (tick ?l)) (tr_skill_bundle task) a")
        case (Inl e)
        then have "res = Inl e" "w' = tick (tick ?l)" using ex spec ls cfg
          by (auto simp: ctx_def les Let_def)
        moreover have "\<exists>n e'. sx_build_tools h n (tr_skill_bundle task) a = Inl e'" using Inl by blast
        ultimately show ?thesis using ls by (intro exI [of _ "tick (tick ?l)"]) (simp add: les, blast)
      next
        case tools: (Inr u')
        let ?key = "''subagent-'' @ tr_task_id task" and ?w3 = "tick (tick (tick ?l))"
        let ?run = "sx_run h (sb_tick (tick (tick ?l))) (tr_worker_name task) ?key (subagent_input task ls)"
        have "(case ?run of Inl e \<Rightarrow> (Inl e, fail_run h a task v e ?w3) | Inr r \<Rightarrow> (Inr (), finish_run h a task v r ?w3)) = (res, w')"
          using ex spec ls cfg tools by (simp add: ctx_def les Let_def)
        then have "(\<exists>e. res = Inl e \<and> w' = fail_run h a task v e ?w3 \<and> ?run = Inl e) \<or> (\<exists>r. res = Inr () \<and> w' = finish_run h a task v r ?w3)"
          by (cases ?run) auto
        then have ends: "(\<exists>v e n k i. res = Inl e \<and> w' = fail_run h a task v e ?w3 \<and> sx_run h n (tr_worker_name task) k i = Inl e)
            \<or> (\<exists>v run. res = Inr () \<and> w' = finish_run h a task v run ?w3)"
          by (elim disjE exE conjE) (intro disjI1 exI conjI, assumption+, intro disjI2 exI conjI, assumption+)
        have "sa_tasks (sb_tables ?w3) = sa_tasks (sb_tables ?u)" "sb_core ?w3 = sb_core w"
          "sa_lessons (sb_tables ?w3) = t'" by (simp_all add: les)
        note w3 = this
        show ?thesis
          by (rule exI [of _ ?w3], intro conjI, rule w3(1), rule w3(2), rule disjI2, unfold w3(3), intro exI, rule ls,
              rule disjI2, rule ends)
      qed
    qed
  qed
qed


definition sub_host_example :: sub_host where
  "sub_host_example = \<lparr>sx_clock = (\<lambda>n. 100 + int n), sx_env = (\<lambda>_. None), sx_load_spec = (\<lambda>_ _. Inl [''spec not found'']),
     sx_ai_config = (\<lambda>_. Inr ()), sx_build_tools = (\<lambda>_ _ _. Inr ()), sx_run = (\<lambda>_ _ _ _. Inl [''boom''])\<rparr>"

definition sub_world_example :: sub_world where
  "sub_world_example = \<lparr>sb_core = \<lparr>ct_rows = [], ct_next_id = 1\<rparr>,
     sb_tables = \<lparr>sa_tasks = [], sa_results = [], sa_next_result = 1, sa_lessons = [], sa_insights = []\<rparr>, sb_tick = 0\<rparr>"

definition own_task :: subagent_task_record where
  "own_task = task_example\<lparr>tr_created_by := ''mail-assistant''\<rparr>"

lemma own_task_payload: "parse_task_payload (subagent_payload_from_record own_task ''x'') = Inr own_task"
  by code_simp


section \<open>Lessons that are stored\<close>

definition lesson_safe :: "skill_lesson_row \<Rightarrow> bool" where
  "lesson_safe r \<longleftrightarrow> validate_skill_lesson (lr_lesson r) = Accepted"

lemma validate_summary: "sl_summary l = sl_summary l' \<Longrightarrow> validate_skill_lesson l = validate_skill_lesson l'"
  by (simp add: validate_skill_lesson_def)

lemma upsert_lesson_safe:
  assumes "validate_skill_lesson l = Accepted" "\<forall>r \<in> set t. lesson_safe r"
  shows "\<forall>r \<in> set (snd (upsert_skill_lesson now e a l t)). lesson_safe r"
proof -
  have sum: "sl_summary (excluded_lesson p l) = sl_summary l" for p by (simp add: excluded_lesson_def Let_def)
  have "lesson_safe (conflict_lesson_row now p l r)" for p r
    using assms(1) validate_summary [of "lr_lesson (conflict_lesson_row now p l r)" l]
    by (simp add: lesson_safe_def conflict_lesson_row_def Let_def sum)
  moreover have "lesson_safe (new_lesson_row now a p l)" for p
    using assms(1) validate_summary [of "excluded_lesson p l" l]
    by (simp add: lesson_safe_def new_lesson_row_def Let_def sum)
  ultimately show ?thesis using assms(2)
    by (auto simp: upsert_skill_lesson_def Let_def set_sql_update)
qed

definition lessons_ok :: "sub_world \<Rightarrow> bool" where
  "lessons_ok w \<longleftrightarrow> (\<forall>r \<in> set (sa_lessons (sb_tables w)). lesson_safe r \<and> lesson_row_ok r)"

lemma lessons_ok_cong: "sa_lessons (sb_tables w) = sa_lessons (sb_tables w') \<Longrightarrow> lessons_ok w = lessons_ok w'"
  by (simp add: lessons_ok_def)

lemma store_lesson_ok: "lessons_ok w \<Longrightarrow> lessons_ok (store_skill_lesson_if_valid h a l w)"
proof (cases "validate_skill_lesson l")
  case Accepted
  assume w: "lessons_ok w"
  let ?x = "upsert_skill_lesson (sb_now h w) (sx_env h) a l (sa_lessons (sb_tables w))"
  have "?x = (fst ?x, snd ?x)" by simp
  from upsert_skill_lesson_ok [OF _ this] w
  have "\<forall>r \<in> set (snd ?x). lesson_row_ok r" by (simp add: lessons_ok_def)
  moreover have "\<forall>r \<in> set (snd ?x). lesson_safe r"
    by (rule upsert_lesson_safe [OF Accepted]) (use w in \<open>simp add: lessons_ok_def\<close>)
  ultimately show ?thesis using Accepted by (simp add: store_skill_lesson_if_valid_def lessons_ok_def)
qed (simp add: store_skill_lesson_if_valid_def)

lemma fold_store_ok: "lessons_ok w \<Longrightarrow> lessons_ok (fold (\<lambda>l. store_skill_lesson_if_valid h a (f l)) ls w)"
  by (induction ls arbitrary: w) (simp_all add: store_lesson_ok)

lemma lessons_frame [simp]:
  "sa_lessons (sb_tables (do_upsert_task h a task cw st w)) = sa_lessons (sb_tables w)"
  "sa_lessons (sb_tables (do_finish_task h a i st e w)) = sa_lessons (sb_tables w)"
  "sa_lessons (snd (insert_subagent_result a r s)) = sa_lessons s"
  by (simp_all add: do_upsert_task_def do_finish_task_def insert_subagent_result_def)

lemma lessons_review [simp]:
  "sa_lessons (sb_tables (enqueue_conflict_review_if_needed h a task r w)) = sa_lessons (sb_tables w)"
  by (simp add: enqueue_conflict_review_if_needed_def Let_def split: prod.splits)

lemma finish_run_lessons:
  assumes "lessons_ok w"
  shows "lessons_ok (finish_run h a task version run w)"
proof -
  have "lessons_ok (set_tables w (snd (insert_subagent_result a (result_of_run task run) (sb_tables w))))"
    using assms by (simp add: lessons_ok_def)
  then show ?thesis
    unfolding finish_run_def Let_def case_prod_beta lessons_ok_cong [OF lessons_review]
      lessons_ok_cong [OF lessons_frame(2)] by (rule fold_store_ok)
qed

lemma fail_run_lessons: "lessons_ok w \<Longrightarrow> lessons_ok (fail_run h a task version e w)"
  unfolding fail_run_def by (rule store_lesson_ok) (simp add: lessons_ok_def)

lemma list_lessons_ok:
  assumes "\<forall>r \<in> set t. lesson_safe r \<and> lesson_row_ok r" "list_active_skill_lessons now a b n t = (ls, t')"
  shows "\<forall>r \<in> set t'. lesson_safe r \<and> lesson_row_ok r"
  using assms list_active_skill_lessons_ok [OF _ assms(2)]
  by (auto simp: list_active_skill_lessons_def Let_def set_sql_update lesson_safe_def split: if_splits)

text \<open>C31: What the workers learn stays within the policy. Running any task, with any agent output and any
  failure, keeps every stored lesson free of message identifiers, e-mail addresses, one-off
  preferences and mailbox-mutation directives, at least 20 characters long, and active only when it
  is unopposed and supported.\<close>

theorem worker_lessons_safe:
  assumes "lessons_ok w" "execute_subagent_task h a core_id payload w = (res, w')"
  shows "lessons_ok w'"
proof (cases "parse_task_payload payload")
  case (Inl e)
  then show ?thesis using assms by (simp add: execute_subagent_task_def)
next
  case (Inr task)
  from execute_phases [OF Inr assms(2)] obtain w1 where
    w1: "sa_lessons (sb_tables w1) = sa_lessons (sb_tables w)
       \<or> (\<exists>now ls. list_active_skill_lessons now a (tr_skill_bundle task) 8 (sa_lessons (sb_tables w)) = (ls, sa_lessons (sb_tables w1)))"
    and ends: "w' = w1 \<or> (\<exists>v e. w' = fail_run h a task v e w1) \<or> (\<exists>v run. w' = finish_run h a task v run w1)" by blast
  have "lessons_ok w1" using w1 assms(1) list_lessons_ok unfolding lessons_ok_def by metis
  with ends finish_run_lessons fail_run_lessons show ?thesis by blast
qed

lemma worker_lessons_safe_witness:
  "lessons_ok (snd (execute_subagent_task sub_host_example ''a'' 1 (subagent_payload_from_record own_task ''x'') sub_world_example))"
proof -
  have "lessons_ok sub_world_example" by (simp add: lessons_ok_def sub_world_example_def)
  from worker_lessons_safe [OF this] show ?thesis by (metis prod.collapse)
qed

section \<open>Reviews\<close>

lemma core_frame [simp]:
  "sb_core (do_upsert_task h a task cw st w) = sb_core w" "sb_core (do_finish_task h a i st e w) = sb_core w"
  "sb_core (store_skill_lesson_if_valid h a l w) = sb_core w"
  by (simp_all add: do_upsert_task_def do_finish_task_def store_skill_lesson_if_valid_def split: lesson_validation.splits)

lemma core_fold [simp]: "sb_core (fold (\<lambda>l. store_skill_lesson_if_valid h a (f l)) ls w) = sb_core w"
  by (induction ls arbitrary: w) simp_all

lemma core_finish_run:
  "sb_core (finish_run h a task version run w) =
     (if \<not> sr_requires_review (result_of_run task run) \<or> tr_skill_bundle task \<in> {''conflict_review'', ''safety_policy''}
      then sb_core w
      else snd (enqueue_core_work_for_account
             (sb_now h (do_upsert_task h a (review_task task (result_of_run task run)) None TPending
               (do_finish_task h a (tr_task_id task) TCompleted None
                 (fold (\<lambda>l. store_skill_lesson_if_valid h a (with_lesson_provenance l task
                      (Some (fst (insert_subagent_result a (result_of_run task run) (sb_tables w))))
                      (sr_agent_run_id (result_of_run task run)) version))
                   (extract_skill_lessons task (ar_output run) (sr_confidence (result_of_run task run)))
                   (set_tables w (snd (insert_subagent_result a (result_of_run task run) (sb_tables w))))))))
             a SubagentTask (''review-'' @ tr_task_id task)
             (subagent_payload_from_record (review_task task (result_of_run task run)) ''worker_result_requires_review'')
             (sb_core w)))"
  by (simp add: finish_run_def enqueue_conflict_review_if_needed_def Let_def case_prod_beta review_task_def)

text \<open>Reviews do not cascade. Running a task leaves the core queue alone or enqueues exactly one
  item: the review of this task, created by Mail Assistant in the bundle \<^verbatim>\<open>conflict_review\<close>; and
  running a task of that bundle, or of \<^verbatim>\<open>safety_policy\<close>, never enqueues anything.\<close>

theorem review_never_cascades:
  assumes "execute_subagent_task h a core_id payload w = (res, w')" "parse_task_payload payload = Inr task"
  shows "sb_core w' = sb_core w \<or>
    (tr_skill_bundle task \<notin> {''conflict_review'', ''safety_policy''}
     \<and> (\<exists>now rt. sb_core w' = snd (enqueue_core_work_for_account now a SubagentTask (tr_task_id rt)
            (subagent_payload_from_record rt ''worker_result_requires_review'') (sb_core w))
          \<and> tr_skill_bundle rt = ''conflict_review'' \<and> tr_created_by rt = default_created_by
          \<and> tr_task_id rt = ''review-'' @ tr_task_id task))"
proof -
  have rt: "tr_skill_bundle (review_task task r) = ''conflict_review'' \<and> tr_created_by (review_task task r) = default_created_by
      \<and> tr_task_id (review_task task r) = ''review-'' @ tr_task_id task" for r by (simp add: review_task_def)
  have fin: "sb_core (finish_run h a task version run x) = sb_core x \<or>
    (tr_skill_bundle task \<notin> {''conflict_review'', ''safety_policy''}
     \<and> (\<exists>now rt. sb_core (finish_run h a task version run x) = snd (enqueue_core_work_for_account now a SubagentTask (tr_task_id rt)
            (subagent_payload_from_record rt ''worker_result_requires_review'') (sb_core x))
          \<and> tr_skill_bundle rt = ''conflict_review'' \<and> tr_created_by rt = default_created_by
          \<and> tr_task_id rt = ''review-'' @ tr_task_id task))" for version run x
    using rt [of "result_of_run task run"] unfolding core_finish_run by metis
  have fail: "sb_core (fail_run h a task version e x) = sb_core x" for version e x by (simp add: fail_run_def)
  from execute_phases [OF assms(2,1)] obtain w1 where w1: "sb_core w1 = sb_core w"
    and ends: "w' = w1 \<or> (\<exists>v e. w' = fail_run h a task v e w1) \<or> (\<exists>v run. w' = finish_run h a task v run w1)" by blast
  from ends show ?thesis
  proof (elim disjE exE)
    fix v run assume "w' = finish_run h a task v run w1"
    with fin [of v run w1] show ?thesis unfolding w1 by simp
  qed (simp_all add: w1 fail)
qed

definition doubtful_run :: agent_run_result where
  "doubtful_run = \<lparr>ar_output = JObject [(''confidence'', JFloat (1 / 2))], ar_should_escalate = False, ar_run_id = ''r1''\<rparr>"

definition review_host :: sub_host where
  "review_host = sub_host_example\<lparr>sx_load_spec := (\<lambda>_ _. Inr ''v1''), sx_run := (\<lambda>_ _ _ _. Inr doubtful_run)\<rparr>"

lemma review_host_simps:
  "sx_load_spec review_host n s = Inr ''v1''" "sx_ai_config review_host n = Inr ()" "sx_build_tools review_host n b x = Inr ()"
  "sx_run review_host n s k j = Inr doubtful_run"
  by (simp_all add: review_host_def sub_host_example_def)

lemma doubtful_review: "sr_requires_review (result_of_run own_task doubtful_run)" "tr_skill_bundle own_task \<notin> {''conflict_review'', ''safety_policy''}"
  by code_simp+

lemma review_example:
  "map cw_key (ct_rows (sb_core (snd (execute_subagent_task review_host ''a'' 1 (subagent_payload_from_record own_task ''x'') sub_world_example))))
   = [''review-'' @ tr_task_id own_task]"
proof -
  let ?x = "execute_subagent_task review_host ''a'' 1 (subagent_payload_from_record own_task ''x'') sub_world_example"
  have "\<exists>w1. snd ?x = finish_run review_host ''a'' own_task ''v1'' doubtful_run w1 \<and> ct_rows (sb_core w1) = []"
    by (simp add: execute_subagent_task_def own_task_payload ask_def ctx_def review_host_simps Let_def case_prod_beta,
        intro exI conjI, rule refl, simp add: do_upsert_task_def set_tables_def tick_def sub_world_example_def)
  then obtain w1 where w1: "snd ?x = finish_run review_host ''a'' own_task ''v1'' doubtful_run w1" "ct_rows (sb_core w1) = []" by blast
  show ?thesis unfolding w1(1) core_finish_run using doubtful_review w1(2)
    by (simp add: enqueue_core_work_for_account_def Let_def sql_exists_def new_core_row_def)
qed

lemma review_never_cascades_witness:
  "tr_skill_bundle own_task \<notin> {''conflict_review'', ''safety_policy''}
   \<and> sb_core (snd (execute_subagent_task review_host ''a'' 1 (subagent_payload_from_record own_task ''x'') sub_world_example))
     \<noteq> sb_core sub_world_example"
proof -
  obtain res w' where x: "execute_subagent_task review_host ''a'' 1 (subagent_payload_from_record own_task ''x'') sub_world_example = (res, w')"
    by (rule prod.exhaust)
  have "ct_rows (sb_core sub_world_example) = []" by (simp add: sub_world_example_def)
  then have "sb_core w' \<noteq> sb_core sub_world_example" using review_example unfolding x by auto
  with review_never_cascades [OF x own_task_payload] show ?thesis unfolding x snd_conv by blast
qed

end
