(* ===== verification/MailTables.thy ===== *)
theory MailTables
  imports BodySyncQueue "HOL-Library.AList" "HOL-Library.List_Lexorder" "HOL-Library.Char_ord"
begin

text \<open>
  The mail tables of \<^verbatim>\<open>schema.sql\<close> and the statements on them that
  \<^verbatim>\<open>src/database/mailbox_sync.rs\<close> and \<^verbatim>\<open>src/database/email_analysis.rs\<close> issue. An
  \<open>email\<close> has the columns these files read or write, a \<open>folder\<close> those of \<^verbatim>\<open>imap_folders\<close>;
  \<open>mail_store\<close> is all mail tables with the body queue. \<open>now\<close> is \<^verbatim>\<open>NOW()\<close> of the statement;
  \<^verbatim>\<open>updated_at\<close> of emails and folders is not kept, since nothing modelled reads it. A statement that would
  violate a \<^verbatim>\<open>CHECK\<close> of \<^verbatim>\<open>emails\<close> fails and changes nothing. The methods without an account
  are the ones with it at \<^verbatim>\<open>DEFAULT_ACCOUNT_ID\<close>.
\<close>

section \<open>Rows\<close>

record email =
  em_account :: string
  em_message_id :: string
  em_subject :: "string option"
  em_sender :: "string option"
  em_received_date :: "timestamp option"
  em_recipients_to :: "string list"
  em_recipients_cc :: "string list"
  em_recipients_bcc :: "string list"
  em_location :: "string option"
  em_uid :: "int option"
  em_uid_validity :: "int option"
  em_is_read :: bool
  em_raw_email_content :: "string option"
  em_body_text :: "string option"
  em_body_synced_at :: "timestamp option"
  em_message_size :: "int option"
  em_message_tokens :: "int option"
  em_deleted_at :: "timestamp option"
  em_spam_status :: "string option"
  em_phishing_status :: "string option"
  em_marketing_status :: "string option"
  em_otp_status :: "string option"
  em_otp_code :: "string option"
  em_otp_expires :: "timestamp option"
  em_threat_level :: "string option"
  em_threat_indicators :: "json option"
  em_ai_summary :: "json option"
  em_human_summary :: "string option"
  em_category :: "string option"
  em_subcategory :: "string option"
  em_organization :: "string option"
  em_topic :: "string option"
  em_email_type :: "string option"
  em_location_recommendation :: "string option"
  em_create_if_missing :: "bool option"
  em_offer_expires :: "timestamp option"
  em_analyzed_by :: "string option"
  em_analyzed_at :: "timestamp option"
  em_analysis_attempts :: nat
  em_analysis_failed_at :: "timestamp option"
  em_analysis_permanent_failure :: bool
  em_last_analysis_error :: "string option"
  em_action_status :: "string option"
  em_action_applied_at :: "timestamp option"
  em_last_filed_at :: "timestamp option"
  em_last_filed_by :: "string option"
  em_last_user_moved_at :: "timestamp option"
  em_move_count :: int
  em_user_pinned_folder :: "string option"
  em_filing_lock_until :: "timestamp option"

record folder =
  fo_account :: string
  fo_name :: string
  fo_delimiter :: "string option"
  fo_noselect :: bool
  fo_last_synced_uid :: "int option"
  fo_last_full_sync_uid :: "int option"
  fo_uid_validity :: "int option"
  fo_message_count :: "int option"
  fo_priority :: "int option"
  fo_highest_modseq :: "int option"

record missing_id =
  mi_account :: string
  mi_folder :: string
  mi_uid :: int
  mi_uid_validity :: int
  mi_attempted_at :: timestamp

record location_event =
  le_account :: string
  le_message_id :: string
  le_event_type :: string
  le_actor :: string
  le_from :: "string option"
  le_to :: string
  le_reason :: string
  le_metadata :: json

record learning_rule =
  lr_account :: string
  lr_scope_type :: string
  lr_scope_value :: string
  lr_folder :: string
  lr_confidence :: rat
  lr_support :: int

record otp_code =
  ot_account :: string
  ot_message_id :: string
  ot_code :: string
  ot_expires :: "timestamp option"

record mail_store =
  ms_emails :: "email list"
  ms_folders :: "folder list"
  ms_missing_ids :: "missing_id list"
  ms_events :: "location_event list"
  ms_rules :: "learning_rule list"
  ms_otp_codes :: "otp_code list"
  ms_windows :: "((string \<times> int) \<times> timestamp) list"
  ms_body :: body_table

text \<open>A row as \<^verbatim>\<open>INSERT\<close> makes it when only the key is given.\<close>

definition new_email :: "string \<Rightarrow> string \<Rightarrow> email" where
  "new_email a mid =
     \<lparr>em_account = a, em_message_id = mid, em_subject = None, em_sender = None, em_received_date = None,
      em_recipients_to = [], em_recipients_cc = [], em_recipients_bcc = [], em_location = None, em_uid = None,
      em_uid_validity = None, em_is_read = False, em_raw_email_content = None, em_body_text = None,
      em_body_synced_at = None, em_message_size = None, em_message_tokens = None, em_deleted_at = None,
      em_spam_status = None, em_phishing_status = None, em_marketing_status = None, em_otp_status = None,
      em_otp_code = None, em_otp_expires = None, em_threat_level = None, em_threat_indicators = None,
      em_ai_summary = None, em_human_summary = None, em_category = None, em_subcategory = None,
      em_organization = None, em_topic = None, em_email_type = None, em_location_recommendation = None,
      em_create_if_missing = None, em_offer_expires = None, em_analyzed_by = None, em_analyzed_at = None,
      em_analysis_attempts = 0, em_analysis_failed_at = None, em_analysis_permanent_failure = False,
      em_last_analysis_error = None, em_action_status = None, em_action_applied_at = None,
      em_last_filed_at = None, em_last_filed_by = None, em_last_user_moved_at = None, em_move_count = 0,
      em_user_pinned_folder = None, em_filing_lock_until = None\<rparr>"

definition new_folder :: "string \<Rightarrow> string \<Rightarrow> string option \<Rightarrow> bool \<Rightarrow> folder" where
  "new_folder a name delim noselect =
     \<lparr>fo_account = a, fo_name = name, fo_delimiter = delim, fo_noselect = noselect,
      fo_last_synced_uid = None, fo_last_full_sync_uid = None, fo_uid_validity = None,
      fo_message_count = None, fo_priority = None, fo_highest_modseq = None\<rparr>"

definition empty_mail_store :: mail_store where
  "empty_mail_store =
     \<lparr>ms_emails = [], ms_folders = [], ms_missing_ids = [], ms_events = [], ms_rules = [], ms_otp_codes = [],
      ms_windows = [], ms_body = \<lparr>bt_rows = [], bt_next_id = 1\<rparr>\<rparr>"

abbreviation email_key :: "email \<Rightarrow> string \<times> string" where
  "email_key m \<equiv> (em_account m, em_message_id m)"

abbreviation folder_key :: "folder \<Rightarrow> string \<times> string" where
  "folder_key f \<equiv> (fo_account f, fo_name f)"

section \<open>The \<^verbatim>\<open>CHECK\<close> constraints of \<^verbatim>\<open>emails\<close>\<close>

definition null_or_in :: "string list \<Rightarrow> string option \<Rightarrow> bool" where
  "null_or_in vs x \<longleftrightarrow> (case x of None \<Rightarrow> True | Some v \<Rightarrow> v \<in> set vs)"

definition action_status_check :: "string option \<Rightarrow> bool" where
  "action_status_check x \<longleftrightarrow> null_or_in [''trashed'', ''junked'', ''otp_stored'', ''none''] x"

definition email_checks :: "email \<Rightarrow> bool" where
  "email_checks m \<longleftrightarrow>
     null_or_in [''spam'', ''not-spam''] (em_spam_status m)
     \<and> null_or_in [''phishing'', ''not-phishing''] (em_phishing_status m)
     \<and> null_or_in [''marketing'', ''not-marketing''] (em_marketing_status m)
     \<and> null_or_in [''otp'', ''magic_link'', ''password_reset'', ''not_otp''] (em_otp_status m)
     \<and> null_or_in [''personal'', ''work'', ''volunteering'', ''financial'', ''shopping'', ''social'', ''travel'',
         ''health'', ''education''] (em_category m)
     \<and> null_or_in [''newsletter'', ''announcement'', ''notification'', ''actionable'', ''conversation'',
         ''transactional'', ''receipt'', ''reference''] (em_email_type m)
     \<and> null_or_in [''none'', ''low'', ''medium'', ''high'', ''critical''] (em_threat_level m)
     \<and> action_status_check (em_action_status m)"

section \<open>Statements on emails and folders\<close>

text \<open>An \<^verbatim>\<open>UPDATE\<close> that cannot violate a constraint, with the number of rows affected.\<close>

definition update_emails :: "(email \<Rightarrow> bool) \<Rightarrow> (email \<Rightarrow> email) \<Rightarrow> mail_store \<Rightarrow> int \<times> mail_store" where
  "update_emails p f ms = (sql_count p (ms_emails ms), ms\<lparr>ms_emails := sql_update p f (ms_emails ms)\<rparr>)"

text \<open>An \<^verbatim>\<open>UPDATE\<close> of columns with a \<^verbatim>\<open>CHECK\<close>.\<close>

definition update_emails_checked ::
  "string \<Rightarrow> (email \<Rightarrow> bool) \<Rightarrow> (email \<Rightarrow> email) \<Rightarrow> mail_store \<Rightarrow> int result \<times> mail_store" where
  "update_emails_checked what p f ms =
     (if list_all (\<lambda>m. email_checks (f m)) (filter p (ms_emails ms))
      then (let (n, ms') = update_emails p f ms in (Inr n, ms'))
      else (Inl [what], ms))"

definition update_folders :: "(folder \<Rightarrow> bool) \<Rightarrow> (folder \<Rightarrow> folder) \<Rightarrow> mail_store \<Rightarrow> mail_store" where
  "update_folders p f ms = ms\<lparr>ms_folders := sql_update p f (ms_folders ms)\<rparr>"

definition email_at :: "string \<Rightarrow> string \<Rightarrow> email \<Rightarrow> bool" where
  "email_at a mid m \<longleftrightarrow> em_account m = a \<and> em_message_id m = mid"

definition in_folder :: "string \<Rightarrow> string \<Rightarrow> email \<Rightarrow> bool" where
  "in_folder a loc m \<longleftrightarrow> em_account m = a \<and> em_location m = Some loc"

definition uid_in :: "int list \<Rightarrow> email \<Rightarrow> bool" where
  "uid_in uids m \<longleftrightarrow> (case em_uid m of None \<Rightarrow> False | Some u \<Rightarrow> u \<in> set uids)"

definition folder_at :: "string \<Rightarrow> string \<Rightarrow> folder \<Rightarrow> bool" where
  "folder_at a n f \<longleftrightarrow> fo_account f = a \<and> fo_name f = n"

subsection \<open>\<^verbatim>\<open>src/database/mailbox_sync.rs\<close>: folder state\<close>

definition get_folder_last_synced_uid_for_account :: "string \<Rightarrow> string \<Rightarrow> mail_store \<Rightarrow> int option" where
  "get_folder_last_synced_uid_for_account a n ms =
     Option.bind (find_opt (folder_at a n) (ms_folders ms)) fo_last_synced_uid"

definition update_folder_last_synced_uid_for_account :: "string \<Rightarrow> string \<Rightarrow> int \<Rightarrow> mail_store \<Rightarrow> mail_store" where
  "update_folder_last_synced_uid_for_account a n uid ms =
     update_folders (folder_at a n) (\<lambda>f. f\<lparr>fo_last_synced_uid := Some uid\<rparr>) ms"

definition update_folder_last_full_sync_uid_for_account :: "string \<Rightarrow> string \<Rightarrow> int \<Rightarrow> mail_store \<Rightarrow> mail_store" where
  "update_folder_last_full_sync_uid_for_account a n uid ms =
     update_folders (folder_at a n) (\<lambda>f. f\<lparr>fo_last_full_sync_uid := Some uid\<rparr>) ms"

definition update_folder_highest_modseq_for_account :: "string \<Rightarrow> string \<Rightarrow> int \<Rightarrow> mail_store \<Rightarrow> mail_store" where
  "update_folder_highest_modseq_for_account a n modseq ms =
     update_folders (folder_at a n)
       (\<lambda>f. f\<lparr>fo_highest_modseq := Some (max (case fo_highest_modseq f of None \<Rightarrow> 0 | Some s \<Rightarrow> s) modseq)\<rparr>) ms"

definition get_folder_highest_modseq_for_account :: "string \<Rightarrow> string \<Rightarrow> mail_store \<Rightarrow> int option" where
  "get_folder_highest_modseq_for_account a n ms =
     Option.bind (find_opt (folder_at a n) (ms_folders ms)) fo_highest_modseq"

definition get_folder_uid_validity_for_account :: "string \<Rightarrow> string \<Rightarrow> mail_store \<Rightarrow> int option" where
  "get_folder_uid_validity_for_account a n ms =
     (case Option.bind (find_opt (folder_at a n) (ms_folders ms)) fo_uid_validity of
        Some v \<Rightarrow> Some v
      | None \<Rightarrow> find_map em_uid_validity (filter (in_folder a n) (ms_emails ms)))"

text \<open>The previous value, and the new one unless it is the same.\<close>

definition update_folder_uid_validity_for_account ::
  "string \<Rightarrow> string \<Rightarrow> int \<Rightarrow> mail_store \<Rightarrow> int option \<times> mail_store" where
  "update_folder_uid_validity_for_account a n v ms =
     (let previous = Option.bind (find_opt (folder_at a n) (ms_folders ms)) fo_uid_validity in
      (previous,
       if previous \<noteq> Some v then update_folders (folder_at a n) (\<lambda>f. f\<lparr>fo_uid_validity := Some v\<rparr>) ms else ms))"

definition reset_folder_sync_state_for_account :: "string \<Rightarrow> string \<Rightarrow> int \<Rightarrow> mail_store \<Rightarrow> mail_store" where
  "reset_folder_sync_state_for_account a n v ms =
     update_folders (folder_at a n)
       (\<lambda>f. f\<lparr>fo_last_synced_uid := None, fo_last_full_sync_uid := None, fo_highest_modseq := None,
             fo_uid_validity := Some v\<rparr>) ms"

definition reset_folder_sync_cursors_for_account :: "string \<Rightarrow> mail_store \<Rightarrow> int \<times> mail_store" where
  "reset_folder_sync_cursors_for_account a ms =
     (let p = (\<lambda>f. fo_account f = a \<and> \<not> fo_noselect f) in
      (sql_count p (ms_folders ms),
       update_folders p
         (\<lambda>f. f\<lparr>fo_last_synced_uid := None, fo_last_full_sync_uid := None, fo_highest_modseq := None\<rparr>) ms))"

definition record_sync_window_run_for_account :: "timestamp \<Rightarrow> string \<Rightarrow> int \<Rightarrow> mail_store \<Rightarrow> mail_store" where
  "record_sync_window_run_for_account now a days ms =
     ms\<lparr>ms_windows := AList.update (a, days) now (ms_windows ms)\<rparr>"

definition delete_imap_folder_for_account :: "string \<Rightarrow> string \<Rightarrow> mail_store \<Rightarrow> int \<times> mail_store" where
  "delete_imap_folder_for_account a n ms =
     (sql_count (folder_at a n) (ms_folders ms),
      ms\<lparr>ms_folders := filter (\<lambda>f. \<not> folder_at a n f) (ms_folders ms)\<rparr>)"

definition list_imap_folders_for_account :: "string \<Rightarrow> mail_store \<Rightarrow> folder list" where
  "list_imap_folders_for_account a ms = sort_key fo_name (filter (\<lambda>f. fo_account f = a) (ms_folders ms))"

text \<open>\<^verbatim>\<open>TRIM(x)\<close> removes blanks only; \<^verbatim>\<open>NULLIF(TRIM(x), '')\<close>.\<close>

definition sql_trim :: "string \<Rightarrow> string" where
  "sql_trim s = trim_matches (\<lambda>c. c = CHR '' '') s"

definition nullif_blank :: "string option \<Rightarrow> string option" where
  "nullif_blank x = (case x of None \<Rightarrow> None | Some s \<Rightarrow> if sql_trim s = [] then None else Some (sql_trim s))"

text \<open>
  The functions of \<^verbatim>\<open>schema.sql\<close> on \<^verbatim>\<open>imap_folders\<close>. A folder list is what
  \<^verbatim>\<open>list_mailboxes_with_attributes\<close> returns: name, \<^verbatim>\<open>NOSELECT\<close>, delimiter.
\<close>

type_synonym mailbox = "string \<times> bool \<times> string option"

definition upsert_folder :: "string \<Rightarrow> mailbox \<Rightarrow> mail_store \<Rightarrow> mail_store" where
  "upsert_folder a b ms =
     (let (name, noselect, delim) = b in
      if name = [] then ms
      else if sql_exists (folder_at a name) (ms_folders ms)
      then update_folders (folder_at a name) (\<lambda>f. f\<lparr>fo_delimiter := nullif_blank delim, fo_noselect := noselect\<rparr>) ms
      else ms\<lparr>ms_folders := ms_folders ms @ [new_folder a name (nullif_blank delim) noselect]\<rparr>)"

definition upsert_imap_folders_from_list :: "string \<Rightarrow> mailbox list \<Rightarrow> mail_store \<Rightarrow> mail_store" where
  "upsert_imap_folders_from_list a bs ms = fold (upsert_folder a) bs ms"

definition low_priority_name :: "string \<Rightarrow> bool" where
  "low_priority_name n \<longleftrightarrow>
     to_lower (sql_trim n) \<in> {''archive'', ''junk'', ''junk e-mail'', ''junk email'', ''trash'', ''deleted messages'',
        ''deleted'', ''bin'', ''deleted items''}
     \<or> contains (to_lower n) ''trash'' \<or> contains (to_lower n) ''deleted'' \<or> contains (to_lower n) ''junk''
     \<or> (contains (to_lower n) ''archive'' \<and> to_lower (sql_trim n) \<noteq> ''inbox'')"

definition folder_count :: "folder \<Rightarrow> int" where
  "folder_count f = (case fo_message_count f of None \<Rightarrow> 0 | Some c \<Rightarrow> c)"

text \<open>Rank \<open>rn\<close> of \<open>cnt\<close> folders, the largest first, mapped to 9 down to 2.\<close>

definition rank_priority :: "int \<Rightarrow> int \<Rightarrow> int" where
  "rank_priority cnt rn = min 9 (max 2 (2 + 7 * (cnt - rn) div max (cnt - 1) 1))"

fun number_rows :: "int \<Rightarrow> folder list \<Rightarrow> (string \<times> int) list" where
  "number_rows n [] = []"
| "number_rows n (f # fs) = (fo_name f, n) # number_rows (n + 1) fs"

definition recompute_imap_folder_priority_for_account :: "string \<Rightarrow> mail_store \<Rightarrow> mail_store" where
  "recompute_imap_folder_priority_for_account a ms =
     (let ms1 = update_folders (\<lambda>f. fo_account f = a \<and> to_lower (sql_trim (fo_name f)) = ''inbox'')
                  (\<lambda>f. f\<lparr>fo_priority := Some 10\<rparr>) ms;
          ms2 = update_folders (\<lambda>f. fo_account f = a \<and> fo_priority f \<noteq> Some 10 \<and> low_priority_name (fo_name f))
                  (\<lambda>f. f\<lparr>fo_priority := Some 1\<rparr>) ms1;
          is_other = (\<lambda>f. fo_account f = a \<and> fo_priority f \<noteq> Some 10 \<and> fo_priority f \<noteq> Some 1);
          other = sort_key (\<lambda>f. (- folder_count f, fo_name f)) (filter is_other (ms_folders ms2));
          rn = map_of (number_rows 1 other)
      in update_folders (\<lambda>f. fo_account f = a \<and> rn (fo_name f) \<noteq> None)
           (\<lambda>f. f\<lparr>fo_priority := map_option (rank_priority (int (length other))) (rn (fo_name f))\<rparr>) ms2)"

definition sync_folders_from_imap_for_account :: "string \<Rightarrow> mailbox list \<Rightarrow> mail_store \<Rightarrow> int \<times> mail_store" where
  "sync_folders_from_imap_for_account a bs ms =
     (as_i32 (int (length bs)), recompute_imap_folder_priority_for_account a (upsert_imap_folders_from_list a bs ms))"

text \<open>The name is trimmed before it is looked up.\<close>

definition set_message_count :: "string \<Rightarrow> string \<times> int \<Rightarrow> mail_store \<Rightarrow> mail_store" where
  "set_message_count a u ms =
     (case nullif_blank (Some (fst u)) of
        None \<Rightarrow> ms
      | Some n \<Rightarrow> update_folders (folder_at a n) (\<lambda>f. f\<lparr>fo_message_count := Some (snd u)\<rparr>) ms)"

definition update_imap_folder_message_counts_for_account ::
  "string \<Rightarrow> (string \<times> int) list \<Rightarrow> mail_store \<Rightarrow> mail_store" where
  "update_imap_folder_message_counts_for_account a us ms =
     (if us = [] then ms else recompute_imap_folder_priority_for_account a (fold (set_message_count a) us ms))"

subsection \<open>\<^verbatim>\<open>src/database/mailbox_sync.rs\<close>: emails\<close>

definition mark_emails_body_synced_by_message_id_for_account ::
  "timestamp \<Rightarrow> string \<Rightarrow> string list \<Rightarrow> mail_store \<Rightarrow> int \<times> mail_store" where
  "mark_emails_body_synced_by_message_id_for_account now a mids ms =
     (if mids = [] then (0, ms)
      else update_emails (\<lambda>m. em_account m = a \<and> em_message_id m \<in> set mids)
             (\<lambda>m. m\<lparr>em_body_synced_at := Some now\<rparr>) ms)"

definition mark_emails_body_synced_by_uid_for_account ::
  "timestamp \<Rightarrow> string \<Rightarrow> string \<Rightarrow> int list \<Rightarrow> mail_store \<Rightarrow> int \<times> mail_store" where
  "mark_emails_body_synced_by_uid_for_account now a loc uids ms =
     (if uids = [] then (0, ms)
      else update_emails (\<lambda>m. in_folder a loc m \<and> uid_in uids m) (\<lambda>m. m\<lparr>em_body_synced_at := Some now\<rparr>) ms)"

text \<open>\<^verbatim>\<open>DISTINCT ON\<close>: the first row of each run of equal keys of a sorted table.\<close>

fun distinct_on :: "('r \<Rightarrow> 'k) \<Rightarrow> 'r list \<Rightarrow> 'r list" where
  "distinct_on k [] = []"
| "distinct_on k [x] = [x]"
| "distinct_on k (x # y # zs) = (if k x = k y then distinct_on k (x # zs) else x # distinct_on k (y # zs))"

definition get_emails_needing_body_sync_for_account ::
  "string \<Rightarrow> string \<Rightarrow> nat \<Rightarrow> mail_store \<Rightarrow> (int \<times> string \<times> int) list" where
  "get_emails_needing_body_sync_for_account a loc n ms =
     (let uid = (\<lambda>m. case em_uid m of None \<Rightarrow> 0 | Some u \<Rightarrow> u);
          rows = filter (\<lambda>m. in_folder a loc m \<and> em_uid m \<noteq> None \<and> em_body_synced_at m = None) (ms_emails ms)
      in map (\<lambda>m. (uid m, em_message_id m, case em_uid_validity m of None \<Rightarrow> 0 | Some v \<Rightarrow> v))
           (take n (distinct_on uid (sort_key (\<lambda>m. (uid m, em_message_id m)) rows))))"

definition blank_text :: "string option \<Rightarrow> bool" where
  "blank_text x \<longleftrightarrow> (case x of None \<Rightarrow> True | Some s \<Rightarrow> sql_trim s = [])"

record backfill_row =
  br_message_id :: string
  br_location :: string
  br_uid :: int
  br_uid_validity :: int
  br_fill_subject :: bool
  br_fill_sender :: bool
  br_fill_received_date :: bool
  br_fill_raw :: bool
  br_fill_body :: bool
  br_fill_size :: bool

definition backfill_row_of :: "email \<Rightarrow> backfill_row option" where
  "backfill_row_of m =
     (case (em_location m, em_uid m, em_uid_validity m) of
        (Some l, Some u, Some v) \<Rightarrow>
          Some \<lparr>br_message_id = em_message_id m, br_location = l, br_uid = u, br_uid_validity = v,
                br_fill_subject = blank_text (em_subject m), br_fill_sender = blank_text (em_sender m),
                br_fill_received_date = (em_received_date m = None), br_fill_raw = (em_raw_email_content m = None),
                br_fill_body = (em_body_text m = None), br_fill_size = (em_message_size m = None)\<rparr>
      | _ \<Rightarrow> None)"

definition get_emails_needing_imap_backfill_for_account :: "string \<Rightarrow> nat \<Rightarrow> mail_store \<Rightarrow> backfill_row list" where
  "get_emails_needing_imap_backfill_for_account a n ms =
     List.map_filter backfill_row_of
       (sql_top (\<lambda>m. (desc_nulls_last (em_received_date m), case em_location m of None \<Rightarrow> [] | Some l \<Rightarrow> l,
                      case em_uid m of None \<Rightarrow> 0 | Some u \<Rightarrow> u)) n
         (filter (\<lambda>m. em_account m = a \<and> backfill_row_of m \<noteq> None
                    \<and> (blank_text (em_subject m) \<or> blank_text (em_sender m) \<or> em_received_date m = None
                       \<or> em_raw_email_content m = None \<or> em_body_text m = None \<or> em_message_size m = None
                       \<or> em_message_tokens m = None)) (ms_emails ms)))"

definition backfill_message_tokens_for_account :: "string \<Rightarrow> mail_store \<Rightarrow> int \<times> mail_store" where
  "backfill_message_tokens_for_account a ms =
     (let content = (\<lambda>m. case em_body_text m of Some b \<Rightarrow> b
                        | None \<Rightarrow> (case em_raw_email_content m of Some r \<Rightarrow> r | None \<Rightarrow> []))
      in update_emails
           (\<lambda>m. em_account m = a \<and> em_message_tokens m = None
              \<and> (\<not> blank_text (em_body_text m)
                 \<or> (case em_raw_email_content m of None \<Rightarrow> False | Some r \<Rightarrow> r \<noteq> [])))
           (\<lambda>m. m\<lparr>em_message_tokens := Some (int ((length (content m) + 3) div 4))\<rparr>) ms)"

definition clear_location :: "email \<Rightarrow> email" where
  "clear_location m = m\<lparr>em_location := None, em_uid := None, em_uid_validity := None\<rparr>"

definition clear_folder_uids_for_account :: "string \<Rightarrow> string \<Rightarrow> mail_store \<Rightarrow> int \<times> mail_store" where
  "clear_folder_uids_for_account a loc ms = update_emails (in_folder a loc) clear_location ms"

text \<open>Of two updates of one UID, \<^verbatim>\<open>UPDATE .. FROM\<close> applies one; here the first.\<close>

definition update_email_flags_for_account ::
  "string \<Rightarrow> string \<Rightarrow> (int \<times> bool) list \<Rightarrow> mail_store \<Rightarrow> int \<times> mail_store" where
  "update_email_flags_for_account a loc us ms =
     (if us = [] then (0, ms)
      else update_emails (\<lambda>m. in_folder a loc m \<and> uid_in (map fst us) m)
             (\<lambda>m. case Option.bind (em_uid m) (map_of us) of None \<Rightarrow> m | Some r \<Rightarrow> m\<lparr>em_is_read := r\<rparr>) ms)"

definition get_orphan_message_ids_for_account :: "string \<Rightarrow> mail_store \<Rightarrow> string list" where
  "get_orphan_message_ids_for_account a ms =
     map em_message_id (filter (\<lambda>m. em_account m = a \<and> em_location m = None \<and> em_deleted_at m = None) (ms_emails ms))"

definition mark_email_deleted_from_server_for_account ::
  "timestamp \<Rightarrow> string \<Rightarrow> string \<Rightarrow> mail_store \<Rightarrow> int \<times> mail_store" where
  "mark_email_deleted_from_server_for_account now a mid ms =
     update_emails (email_at a mid) (\<lambda>m. m\<lparr>em_deleted_at := Some now\<rparr>) ms"

definition set_location :: "string \<Rightarrow> int \<Rightarrow> int \<Rightarrow> email \<Rightarrow> email" where
  "set_location loc uid v m = m\<lparr>em_location := Some loc, em_uid := Some uid, em_uid_validity := Some v\<rparr>"

definition update_email_location_for_account ::
  "string \<Rightarrow> string \<Rightarrow> string \<Rightarrow> int \<Rightarrow> int \<Rightarrow> mail_store \<Rightarrow> int \<times> mail_store" where
  "update_email_location_for_account a mid loc uid v ms = update_emails (email_at a mid) (set_location loc uid v) ms"

definition mark_emails_expunged_for_account :: "string \<Rightarrow> string \<Rightarrow> int list \<Rightarrow> mail_store \<Rightarrow> int \<times> mail_store" where
  "mark_emails_expunged_for_account a loc uids ms =
     (if uids = [] then (0, ms) else update_emails (\<lambda>m. in_folder a loc m \<and> uid_in uids m) clear_location ms)"

definition get_folder_uids_for_account :: "string \<Rightarrow> string \<Rightarrow> mail_store \<Rightarrow> int list" where
  "get_folder_uids_for_account a loc ms =
     sort (remdups (flatten_opts (map em_uid (filter (in_folder a loc) (ms_emails ms)))))"

definition find_message_location_for_account :: "string \<Rightarrow> string \<Rightarrow> mail_store \<Rightarrow> string option" where
  "find_message_location_for_account a mid ms = find_map em_location (filter (email_at a mid) (ms_emails ms))"

text \<open>
  A filing move: the row goes to its new place, is locked for the cooldown, and an event is recorded
  unless the folder is the old one up to case. The insert of the event cannot fail: the row it
  refers to has just been updated.
\<close>

record filing_move =
  fv_account :: string
  fv_message_id :: string
  fv_location :: string
  fv_uid :: int
  fv_uid_validity :: int
  fv_actor :: string
  fv_cooldown_hours :: int

definition filed_row :: "timestamp \<Rightarrow> filing_move \<Rightarrow> email \<Rightarrow> email" where
  "filed_row now v m =
     (set_location (fv_location v) (fv_uid v) (fv_uid_validity v) m)
       \<lparr>em_last_filed_at := Some now, em_last_filed_by := Some (fv_actor v),
        em_filing_lock_until := Some (now + secs (3600 * max (fv_cooldown_hours v) 1)),
        em_move_count := em_move_count m + 1,
        em_user_pinned_folder := (case em_user_pinned_folder m of
            Some p \<Rightarrow> if to_lower p = to_lower (fv_location v) then None else Some p
          | None \<Rightarrow> None)\<rparr>"

definition record_system_filing_move_for_account :: "timestamp \<Rightarrow> filing_move \<Rightarrow> mail_store \<Rightarrow> int \<times> mail_store" where
  "record_system_filing_move_for_account now v ms =
     (let here = email_at (fv_account v) (fv_message_id v);
          previous = Option.bind (find_opt here (ms_emails ms)) em_location;
          (n, ms1) = update_emails here (filed_row now v) ms;
          event = \<lparr>le_account = fv_account v, le_message_id = fv_message_id v, le_event_type = ''system_moved'',
            le_actor = ''core'', le_from = previous, le_to = fv_location v, le_reason = ''file_apply'',
            le_metadata = JObject [(''last_filed_by'', JString (fv_actor v)),
                                   (''cooldown_hours'', JInt (max (fv_cooldown_hours v) 1))]\<rparr>
      in if n > 0 \<and> (case previous of None \<Rightarrow> True | Some p \<Rightarrow> \<not> eq_ignore_ascii_case p (fv_location v))
         then (n, ms1\<lparr>ms_events := ms_events ms1 @ [event]\<rparr>)
         else (n, ms1))"

end
