(* ===== verification/Completeness.thy ===== *)
theory Completeness
  imports MailTables
begin

text \<open>
  \<^verbatim>\<open>src/database/completeness.rs\<close> and the two candidate queries of
  \<^verbatim>\<open>src/database/email_analysis.rs\<close> the coordinator uses: what is missing in an account. SQL's
  three-valued comparisons are written out as the cases in which a \<^verbatim>\<open>WHERE\<close> keeps the row.
\<close>

record completeness_snapshot =
  sn_folder_count :: int
  sn_largest_folder_message_count :: int
  sn_email_count :: int
  sn_missing_message_id :: int
  sn_body_missing :: int
  sn_analysis_missing :: int
  sn_location_missing :: int
  sn_filing_pending :: int
  sn_body_sync :: queue_depth

definition needs_full_sync_backfill :: "completeness_snapshot \<Rightarrow> bool" where
  "needs_full_sync_backfill s \<longleftrightarrow>
     sn_email_count s = 0
     \<or> (sn_largest_folder_message_count s \<ge> 100
         \<and> sat_i64 (sn_email_count s * 4) < sn_largest_folder_message_count s)"

definition has_active_backlog :: "completeness_snapshot \<Rightarrow> bool" where
  "has_active_backlog s \<longleftrightarrow>
     needs_full_sync_backfill s \<or> sn_folder_count s = 0 \<or> sn_body_missing s > 0 \<or> sn_analysis_missing s > 0
     \<or> sn_location_missing s > 0 \<or> qd_pending (sn_body_sync s) > 0 \<or> qd_failed (sn_body_sync s) > 0
     \<or> qd_processing (sn_body_sync s) > 0"

section \<open>The conditions of the statements\<close>

definition mail_safe :: "email \<Rightarrow> bool" where
  "mail_safe m \<longleftrightarrow> em_spam_status m \<noteq> Some ''spam'' \<and> em_phishing_status m \<noteq> Some ''phishing''
     \<and> em_threat_level m \<noteq> Some ''high'' \<and> em_threat_level m \<noteq> Some ''critical''"

definition has_body :: "email \<Rightarrow> bool" where
  "has_body m \<longleftrightarrow> em_body_text m \<noteq> None \<or> em_raw_email_content m \<noteq> None"

definition body_is_missing :: "string \<Rightarrow> email \<Rightarrow> bool" where
  "body_is_missing a m \<longleftrightarrow> em_account m = a \<and> em_deleted_at m = None \<and> \<not> has_body m"

definition analysis_is_missing :: "string \<Rightarrow> email \<Rightarrow> bool" where
  "analysis_is_missing a m \<longleftrightarrow> em_account m = a \<and> em_analyzed_at m = None
     \<and> \<not> em_analysis_permanent_failure m \<and> em_deleted_at m = None \<and> has_body m"

definition location_is_missing :: "string \<Rightarrow> email \<Rightarrow> bool" where
  "location_is_missing a m \<longleftrightarrow> em_account m = a \<and> em_analyzed_at m \<noteq> None \<and> em_category m \<noteq> None
     \<and> em_location_recommendation m = None \<and> em_location m \<noteq> None \<and> mail_safe m"

definition filing_is_pending :: "timestamp \<Rightarrow> string \<Rightarrow> email \<Rightarrow> bool" where
  "filing_is_pending now a m \<longleftrightarrow> em_account m = a \<and> em_deleted_at m = None
     \<and> em_action_status m \<noteq> Some ''trashed'' \<and> em_action_status m \<noteq> Some ''junked'' \<and> mail_safe m
     \<and> em_user_pinned_folder m = None
     \<and> (case em_filing_lock_until m of None \<Rightarrow> True | Some t \<Rightarrow> t \<le> now)
     \<and> (case (em_location m, em_location_recommendation m) of
          (Some l, Some r) \<Rightarrow> to_lower (sql_trim r) \<noteq> to_lower (sql_trim l)
        | _ \<Rightarrow> False)"

definition db_completeness_snapshot_for_account :: "timestamp \<Rightarrow> string \<Rightarrow> mail_store \<Rightarrow> completeness_snapshot" where
  "db_completeness_snapshot_for_account now a ms =
     (let counts = flatten_opts (map fo_message_count (filter (\<lambda>f. fo_account f = a \<and> \<not> fo_noselect f) (ms_folders ms)))
      in \<lparr>sn_folder_count = sql_count (\<lambda>f. fo_account f = a) (ms_folders ms),
          sn_largest_folder_message_count = (case counts of [] \<Rightarrow> 0 | c # cs \<Rightarrow> foldl max c cs),
          sn_email_count = sql_count (\<lambda>m. em_account m = a) (ms_emails ms),
          sn_missing_message_id = sql_count (\<lambda>r. mi_account r = a) (ms_missing_ids ms),
          sn_body_missing = sql_count (body_is_missing a) (ms_emails ms),
          sn_analysis_missing = sql_count (analysis_is_missing a) (ms_emails ms),
          sn_location_missing = sql_count (location_is_missing a) (ms_emails ms),
          sn_filing_pending = sql_count (filing_is_pending now a) (ms_emails ms),
          sn_body_sync = body_sync_queue_depth_for_account a (ms_body ms)\<rparr>)"

section \<open>Candidates\<close>

text \<open>The back-off of a failed analysis: one minute, doubled per attempt, at most 64 minutes.\<close>

definition analysis_backoff :: "nat \<Rightarrow> timestamp" where
  "analysis_backoff attempts = secs (60 * 2 ^ min attempts 6)"

definition get_unanalyzed_emails_for_account :: "timestamp \<Rightarrow> string \<Rightarrow> nat \<Rightarrow> bool \<Rightarrow> mail_store \<Rightarrow> email list" where
  "get_unanalyzed_emails_for_account now a n force ms =
     sql_top (\<lambda>m. desc_nulls_last (em_received_date m)) n
       (filter (\<lambda>m. if force then em_account m = a \<and> em_deleted_at m = None \<and> has_body m
                    else analysis_is_missing a m
                      \<and> (em_analysis_attempts m = 0
                         \<or> (case em_analysis_failed_at m of None \<Rightarrow> True
                            | Some t \<Rightarrow> t < now - analysis_backoff (em_analysis_attempts m))))
         (ms_emails ms))"

definition get_emails_needing_location_for_account :: "string \<Rightarrow> nat \<Rightarrow> bool \<Rightarrow> mail_store \<Rightarrow> email list" where
  "get_emails_needing_location_for_account a n force ms =
     sql_top (\<lambda>m. desc_nulls_last (em_received_date m)) n
       (filter (\<lambda>m. if force then em_account m = a \<and> em_analyzed_at m \<noteq> None \<and> em_category m \<noteq> None
                           \<and> em_location m \<noteq> None \<and> mail_safe m
                    else location_is_missing a m)
         (ms_emails ms))"

lemma snapshot_counts [simp]:
  "0 < sn_location_missing (db_completeness_snapshot_for_account now a ms) \<longleftrightarrow> (\<exists>m \<in> set (ms_emails ms). location_is_missing a m)"
  "0 < sn_analysis_missing (db_completeness_snapshot_for_account now a ms) \<longleftrightarrow> (\<exists>m \<in> set (ms_emails ms). analysis_is_missing a m)"
  "0 < sn_filing_pending (db_completeness_snapshot_for_account now a ms) \<longleftrightarrow> (\<exists>m \<in> set (ms_emails ms). filing_is_pending now a m)"
  by (simp_all add: db_completeness_snapshot_for_account_def Let_def table_simps)

end
