(* ===== verification/CoreCoordinator.thy ===== *)
theory CoreCoordinator
  imports Completeness WorkerRuntime
begin

text \<open>
  \<^verbatim>\<open>src/core_work_queue.rs\<close>: the coordinator that plans, claims and runs core work. A
  \<open>core_world\<close> is the sub-agent world (core queue, sub-agent tables, tick) and the mail tables. A
  \<open>core_host\<close> is what lies outside: the sub-agent host with its clock, the rows other
  transactions hold locked, the configuration files, the pipeline jobs (synchronisation, analysis,
  embedding, location, filing), which may change the world, shutdown requests, and when the
  background synchronisation fires. Rows that the code processes concurrently
  (\<^verbatim>\<open>buffer_unordered\<close>) are processed one after the other. Log lines are left out.
\<close>

section \<open>Configuration\<close>

record coord_config =
  cc_account_id :: string
  cc_worker_id :: string
  cc_poll_interval_secs :: int
  cc_background_sync_enabled :: bool
  cc_background_sync_interval_secs :: int
  cc_stale_after_secs :: int
  cc_retry_after_secs :: int
  cc_analyze_limit :: int
  cc_embed_limit :: int
  cc_locate_limit :: int
  cc_file_apply_enabled :: bool
  cc_heartbeat_enabled :: bool
  cc_heartbeat_interval_secs :: int
  cc_heartbeat_task_limit :: int
  cc_subagent_concurrency :: int

definition coord_config_from_env :: "string \<Rightarrow> env \<Rightarrow> coord_config" where
  "coord_config_from_env uuid e =
     \<lparr>cc_account_id = (case e ''CORE_ACCOUNT_ID'' of None \<Rightarrow> ''default'' | Some a \<Rightarrow> a),
      cc_worker_id = ''core-'' @ uuid,
      cc_poll_interval_secs = max (env_parse e parse_u64 ''CORE_WORK_POLL_INTERVAL_SECS'' 15) 1,
      cc_background_sync_enabled = env_flag e ''CORE_BACKGROUND_SYNC'' True,
      cc_background_sync_interval_secs = max (env_parse e parse_u64 ''CORE_BACKGROUND_SYNC_INTERVAL_SECS'' 60) 5,
      cc_stale_after_secs = max (env_parse e parse_i64 ''CORE_WORK_STALE_AFTER_SECS'' 600) 1,
      cc_retry_after_secs = max (env_parse e parse_i64 ''CORE_WORK_RETRY_AFTER_SECS'' 60) 0,
      cc_analyze_limit = env_parse e parse_u64 ''CORE_ANALYZE_LIMIT'' 50,
      cc_embed_limit = env_parse e parse_u64 ''CORE_EMBED_LIMIT'' 50,
      cc_locate_limit = env_parse e parse_u64 ''CORE_LOCATE_LIMIT'' 50,
      cc_file_apply_enabled = env_flag e ''CORE_FILE_APPLY'' False,
      cc_heartbeat_enabled = env_flag e ''MAIL_ASSISTANT_HEARTBEAT'' True,
      cc_heartbeat_interval_secs = max (env_parse e parse_u64 ''MAIL_ASSISTANT_HEARTBEAT_INTERVAL_SECS'' 60) 5,
      cc_heartbeat_task_limit = max (env_parse e parse_u64 ''MAIL_ASSISTANT_HEARTBEAT_BATCH_SIZE'' 50) 1,
      cc_subagent_concurrency = max (env_parse e parse_u64 ''MAIL_ASSISTANT_SUBAGENT_CONCURRENCY'' 4) 1\<rparr>"

text \<open>The advisory lock key: the hash without its sign bit, so it is an \<^verbatim>\<open>i64\<close>.\<close>

definition core_runtime_lock_key :: "string \<Rightarrow> int" where
  "core_runtime_lock_key account =
     uint (fnv (fnv fnv_offset ''mailsubsystem-core-runtime'') account AND 0x7fffffffffffffff)"

section \<open>Plans\<close>

definition plan_has :: "core_work_type \<Rightarrow> (core_work_type \<times> string) list \<Rightarrow> bool" where
  "plan_has ty plan \<longleftrightarrow> list_ex (\<lambda>p. fst p = ty) plan"

definition follow_up_work_plan ::
  "core_work_type \<Rightarrow> bool \<Rightarrow> completeness_snapshot \<Rightarrow> (core_work_type \<times> string) list" where
  "follow_up_work_plan completed file_apply s =
     (let plan0 = (case completed of
            SyncFull \<Rightarrow> if sn_analysis_missing s > 0 then [(Analyze, ''sync_completed'')] else []
          | SyncIncremental \<Rightarrow> if sn_analysis_missing s > 0 then [(Analyze, ''sync_completed'')] else []
          | SyncBody \<Rightarrow> if sn_analysis_missing s > 0 then [(Analyze, ''sync_completed'')] else []
          | Analyze \<Rightarrow> (Embed, ''analysis_completed'') #
                       (if sn_location_missing s > 0 then [(Locate, ''analysis_completed'')] else [])
          | Embed \<Rightarrow> if sn_location_missing s > 0 then [(Locate, ''embed_completed'')] else []
          | Locate \<Rightarrow> if sn_filing_pending s > 0 then [(FilePreview, ''locate_completed'')] else []
          | FilePreview \<Rightarrow> if file_apply \<and> sn_filing_pending s > 0 then [(FileApply, ''file_preview_completed'')] else []
          | FileApply \<Rightarrow> []
          | AssistantHeartbeat \<Rightarrow> []
          | SubagentTask \<Rightarrow> []);
          plan1 = (if sn_analysis_missing s > 0 \<and> \<not> plan_has Analyze plan0
                   then plan0 @ [(Analyze, ''analysis_backlog'')] else plan0)
      in if sn_location_missing s > 0 \<and> \<not> plan_has Locate plan1
         then plan1 @ [(Locate, ''location_backlog'')] else plan1)"

definition has_body_backlog :: "completeness_snapshot \<Rightarrow> bool" where
  "has_body_backlog s \<longleftrightarrow> sn_body_missing s > 0 \<or> qd_pending (sn_body_sync s) > 0
     \<or> qd_failed (sn_body_sync s) > 0 \<or> qd_processing (sn_body_sync s) > 0"

definition backfill_reason :: "completeness_snapshot \<Rightarrow> string" where
  "backfill_reason s = (if sn_email_count s = 0 then ''blank_database'' else ''partial_database_backfill'')"

definition idle_work_plan :: "completeness_snapshot \<Rightarrow> bool \<Rightarrow> (core_work_type \<times> string) list" where
  "idle_work_plan s file_apply =
     (if needs_full_sync_backfill s then [(SyncFull, backfill_reason s)] else [(SyncIncremental, ''core_idle_poll'')])
     @ (if has_body_backlog s then [(SyncBody, ''body_backlog'')] else [])
     @ (if sn_analysis_missing s > 0 then [(Analyze, ''analysis_backlog'')] else [])
     @ (if sn_location_missing s > 0 then [(Locate, ''location_backlog'')] else [])
     @ (if file_apply \<and> sn_filing_pending s > 0 then [(FileApply, ''filing_backlog'')] else [])"

section \<open>World and host\<close>

datatype job =
    JobSyncFull string
  | JobSyncIncremental string
  | JobSyncSlow
  | JobAnalyze int string
  | JobEmbed int string
  | JobLocate int string
  | JobFile bool string

record core_world =
  w_sub :: sub_world
  w_mail :: mail_store

record core_host =
  hx_sub :: sub_host
  hx_skip :: "nat \<Rightarrow> int \<Rightarrow> bool"
  hx_load_db :: "nat \<Rightarrow> unit result"
  hx_load_account :: "nat \<Rightarrow> string \<Rightarrow> unit result"
  hx_job :: "nat \<Rightarrow> job \<Rightarrow> core_world \<Rightarrow> unit result \<times> core_world"
  hx_rfc3339 :: "timestamp \<Rightarrow> string"
  hx_lease :: "nat \<Rightarrow> int \<Rightarrow> bool result"
  hx_shutdown :: "nat \<Rightarrow> bool"
  hx_background :: "nat \<Rightarrow> bool"

definition w_tick :: "core_world \<Rightarrow> nat" where
  "w_tick w = sb_tick (w_sub w)"

definition w_now :: "core_host \<Rightarrow> core_world \<Rightarrow> timestamp" where
  "w_now h w = sx_clock (hx_sub h) (w_tick w)"

definition step_tick :: "core_world \<Rightarrow> core_world" where
  "step_tick w = w\<lparr>w_sub := tick (w_sub w)\<rparr>"

definition w_core :: "core_world \<Rightarrow> core_table" where
  "w_core w = sb_core (w_sub w)"

definition set_core :: "core_world \<Rightarrow> core_table \<Rightarrow> core_world" where
  "set_core w t = w\<lparr>w_sub := (tick (w_sub w))\<lparr>sb_core := t\<rparr>\<rparr>"

definition call :: "(nat \<Rightarrow> 'a result) \<Rightarrow> core_world \<Rightarrow> 'a result \<times> core_world" where
  "call f w = (f (w_tick w), step_tick w)"

text \<open>A job runs at its tick; the next tick is after it.\<close>

definition run_job :: "core_host \<Rightarrow> job \<Rightarrow> core_world \<Rightarrow> unit result \<times> core_world" where
  "run_job h j w = (let (r, w') = hx_job h (w_tick w) j w in (r, step_tick w'))"

definition snapshot :: "core_host \<Rightarrow> coord_config \<Rightarrow> core_world \<Rightarrow> completeness_snapshot \<times> core_world" where
  "snapshot h cfg w = (db_completeness_snapshot_for_account (w_now h w) (cc_account_id cfg) (w_mail w), step_tick w)"

section \<open>Enqueueing\<close>

definition should_coalesce_core_work :: "core_work_type \<Rightarrow> bool" where
  "should_coalesce_core_work ty \<longleftrightarrow> ty \<noteq> AssistantHeartbeat \<and> ty \<noteq> SubagentTask"

definition enqueue_core_work :: "core_host \<Rightarrow> string \<Rightarrow> core_work_type \<Rightarrow> string \<Rightarrow> json \<Rightarrow> core_world \<Rightarrow> core_world" where
  "enqueue_core_work h a ty k payload w =
     (let w1 = (if should_coalesce_core_work ty then step_tick w else w) in
      if should_coalesce_core_work ty \<and> has_active_core_work_type_for_account a ty (w_core w) then w1
      else set_core w1 (snd (enqueue_core_work_for_account (w_now h w1) a ty k payload (w_core w1))))"

definition reason_payload :: "string \<Rightarrow> json" where
  "reason_payload reason = JObject [(''reason'', JString reason)]"

definition heartbeat_payload :: "string \<Rightarrow> json" where
  "heartbeat_payload reason = JObject [(''reason'', JString reason), (''requested_by'', JString ''mail-assistant'')]"

definition enqueue_plan ::
  "core_host \<Rightarrow> coord_config \<Rightarrow> string \<Rightarrow> (core_work_type \<times> string) list \<Rightarrow> core_world \<Rightarrow> core_world" where
  "enqueue_plan h cfg k plan w =
     fold (\<lambda>(ty, reason). enqueue_core_work h (cc_account_id cfg) ty k (reason_payload reason)) plan w"

definition enqueue_follow_up_work :: "core_host \<Rightarrow> coord_config \<Rightarrow> core_work_type \<Rightarrow> core_world \<Rightarrow> core_world" where
  "enqueue_follow_up_work h cfg completed w =
     (let (s, w1) = snapshot h cfg w
      in enqueue_plan h cfg ''pipeline'' (follow_up_work_plan completed (cc_file_apply_enabled cfg) s) w1)"

definition enqueue_idle_work :: "core_host \<Rightarrow> coord_config \<Rightarrow> core_world \<Rightarrow> core_world" where
  "enqueue_idle_work h cfg w =
     (let (s, w1) = snapshot h cfg w;
          w2 = enqueue_plan h cfg ''periodic'' (idle_work_plan s (cc_file_apply_enabled cfg)) w1
      in if cc_heartbeat_enabled cfg
         then
           (let due = core_work_due_for_account (w_now h w2) (cc_account_id cfg) AssistantHeartbeat ''assistant-heartbeat''
                        (as_i64_cast (cc_heartbeat_interval_secs cfg)) (w_core w2);
                w3 = step_tick w2
            in if due then enqueue_core_work h (cc_account_id cfg) AssistantHeartbeat ''assistant-heartbeat''
                             (heartbeat_payload ''heartbeat_due'') w3
               else w3)
         else w2)"

definition seed_bootstrap_work :: "core_host \<Rightarrow> coord_config \<Rightarrow> core_world \<Rightarrow> core_world" where
  "seed_bootstrap_work h cfg w =
     (let (s, w1) = snapshot h cfg w;
          a = cc_account_id cfg;
          w2 = (if needs_full_sync_backfill s
                then enqueue_core_work h a SyncFull ''bootstrap'' (reason_payload (backfill_reason s)) w1
                else enqueue_core_work h a SyncIncremental ''periodic'' (reason_payload ''core_start'') w1);
          w3 = (if has_body_backlog s
                then enqueue_core_work h a SyncBody ''body-backlog'' (reason_payload ''active_body_backlog'') w2 else w2)
      in if cc_heartbeat_enabled cfg
         then enqueue_core_work h a AssistantHeartbeat ''assistant-heartbeat'' (heartbeat_payload ''core_start'') w3
         else w3)"

section \<open>Heartbeat\<close>

definition email_context :: "core_host \<Rightarrow> email \<Rightarrow> json" where
  "email_context h m =
     (let opt = (\<lambda>x. case x of None \<Rightarrow> JNull | Some s \<Rightarrow> JString s) in
      JObject
        [(''message_id'', JString (em_message_id m)), (''subject'', opt (em_subject m)), (''sender'', opt (em_sender m)),
         (''received_date'', opt (map_option (hx_rfc3339 h) (em_received_date m))),
         (''category'', opt (em_category m)), (''organization'', opt (em_organization m)),
         (''email_type'', opt (em_email_type m)), (''location'', opt (em_location m)),
         (''location_recommendation'', opt (em_location_recommendation m)),
         (''human_summary'', opt (em_human_summary m))])"

definition heartbeat_task ::
  "core_host \<Rightarrow> string \<Rightarrow> string \<Rightarrow> string \<Rightarrow> string \<Rightarrow> email list \<Rightarrow> json \<Rightarrow> subagent_task_record" where
  "heartbeat_task h task_id kind worker bundle emails context_json =
     \<lparr>tr_task_id = task_id, tr_task_kind = kind, tr_worker_name = worker, tr_skill_bundle = bundle,
      tr_message_ids = map em_message_id emails,
      tr_input_context = JObject [(''heartbeat_context'', context_json), (''emails'', JArray (map (email_context h) emails))],
      tr_priority = 0, tr_correlation_id = ''assistant-heartbeat'', tr_created_by = ''mail-assistant''\<rparr>"

definition enqueue_subagent_task_from_emails ::
  "core_host \<Rightarrow> string \<Rightarrow> string \<Rightarrow> string \<Rightarrow> string \<Rightarrow> string \<Rightarrow> email list \<Rightarrow> json \<Rightarrow> core_world \<Rightarrow> core_world" where
  "enqueue_subagent_task_from_emails h a task_id kind worker bundle emails context_json w =
     (if emails = [] then w
      else
        (let task = heartbeat_task h task_id kind worker bundle emails context_json;
             w1 = w\<lparr>w_sub := do_upsert_task (hx_sub h) a task None TPending (w_sub w)\<rparr>
         in enqueue_core_work h a SubagentTask task_id (subagent_payload_from_record task ''assistant_heartbeat'') w1))"

definition heartbeat_insight :: "string \<Rightarrow> completeness_snapshot \<Rightarrow> assistant_insight" where
  "heartbeat_insight a s =
     \<lparr>ai_account = a, ai_insight_type = ''mailbox_backlog'', ai_severity = ''info'',
      ai_message = ''Mail Assistant heartbeat found mailbox work that still needs worker processing.'',
      ai_related_message_id = None, ai_related_folder = None,
      ai_metadata = JObject
        [(''analysis_missing'', JInt (sn_analysis_missing s)), (''location_missing'', JInt (sn_location_missing s)),
         (''body_missing'', JInt (sn_body_missing s)),
         (''body_sync'', JObject
            [(''pending'', JInt (qd_pending (sn_body_sync s))), (''failed'', JInt (qd_failed (sn_body_sync s))),
             (''processing'', JInt (qd_processing (sn_body_sync s))), (''dead'', JInt (qd_dead (sn_body_sync s)))])]\<rparr>"

text \<open>\<^verbatim>\<open>min(u32::MAX)\<close> of the configured limit, as the \<^verbatim>\<open>LIMIT\<close> of the candidate queries.\<close>

definition heartbeat_limit :: "coord_config \<Rightarrow> nat" where
  "heartbeat_limit cfg = nat (min (cc_heartbeat_task_limit cfg) 4294967295)"

definition execute_assistant_heartbeat :: "core_host \<Rightarrow> coord_config \<Rightarrow> core_world \<Rightarrow> core_world" where
  "execute_assistant_heartbeat h cfg w =
     (let a = cc_account_id cfg;
          (s, w1) = snapshot h cfg w;
          w2 = (if sn_analysis_missing s > 0
                then enqueue_subagent_task_from_emails h a ''heartbeat-email-classification'' ''email_classification''
                       ''classification-worker'' ''email_classification''
                       (get_unanalyzed_emails_for_account (w_now h w1) a (heartbeat_limit cfg) False (w_mail w1))
                       (JObject
                          [(''snapshot'', JObject [(''analysis_missing'', JInt (sn_analysis_missing s)), (''body_missing'', JInt (sn_body_missing s))]),
                           (''instruction'', JString ''Classify these messages as structured artifacts only. Do not mutate mailbox state.'')])
                       (step_tick w1)
                else w1);
          w3 = (if sn_location_missing s > 0
                then enqueue_subagent_task_from_emails h a ''heartbeat-folder-recommendation'' ''folder_recommendation''
                       ''folder-recommendation-worker'' ''folder_recommendation''
                       (get_emails_needing_location_for_account a (heartbeat_limit cfg) False (w_mail w2))
                       (JObject
                          [(''snapshot'', JObject [(''location_missing'', JInt (sn_location_missing s))]),
                           (''instruction'', JString ''Recommend folders as structured artifacts only. Core filing policy decides whether a move is allowed.'')])
                       (step_tick w2)
                else w2)
      in if sn_analysis_missing s > 0 \<or> sn_location_missing s > 0 \<or> sn_body_missing s > 0
         then w3\<lparr>w_sub := set_tables (w_sub w3) (snd (insert_assistant_insight (heartbeat_insight a s) (sb_tables (w_sub w3))))\<rparr>
         else w3)"

section \<open>Executing work\<close>

definition limit_from_payload :: "json \<Rightarrow> string \<Rightarrow> int \<Rightarrow> int" where
  "limit_from_payload payload k dflt =
     max (case Option.bind (jget k payload) as_u64 of None \<Rightarrow> dflt | Some n \<Rightarrow> n) 1"

definition execute_work :: "core_host \<Rightarrow> core_entry \<Rightarrow> coord_config \<Rightarrow> core_world \<Rightarrow> unit result \<times> core_world" where
  "execute_work h e cfg w =
     (let a = cc_account_id cfg in
      case ce_work_type e of
        SyncFull \<Rightarrow>
          and_then (call (hx_load_db h) w) (\<lambda>_ w.
          and_then (call (\<lambda>n. ctx ''load account config'' (hx_load_account h n a))
                     (step_tick (w\<lparr>w_mail := snd (reset_folder_sync_cursors_for_account a (w_mail w))\<rparr>))) (\<lambda>_ w.
            run_job h (JobSyncFull a) w))
      | SyncIncremental \<Rightarrow>
          and_then (call (\<lambda>n. ctx ''load account config'' (hx_load_account h n a)) w) (\<lambda>_ w.
            run_job h (JobSyncIncremental a) w)
      | SyncBody \<Rightarrow> run_job h JobSyncSlow w
      | Analyze \<Rightarrow> run_job h (JobAnalyze (limit_from_payload (ce_payload e) ''limit'' (cc_analyze_limit cfg)) a) w
      | Embed \<Rightarrow> run_job h (JobEmbed (limit_from_payload (ce_payload e) ''limit'' (cc_embed_limit cfg)) a) w
      | Locate \<Rightarrow> run_job h (JobLocate (limit_from_payload (ce_payload e) ''limit'' (cc_locate_limit cfg)) a) w
      | FilePreview \<Rightarrow> run_job h (JobFile True a) w
      | FileApply \<Rightarrow> (if \<not> cc_file_apply_enabled cfg then (Inr (), w) else run_job h (JobFile False a) w)
      | AssistantHeartbeat \<Rightarrow> (Inr (), execute_assistant_heartbeat h cfg w)
      | SubagentTask \<Rightarrow>
          (let (r, s) = execute_subagent_task (hx_sub h) a (ce_id e) (ce_payload e) (w_sub w)
           in (r, w\<lparr>w_sub := s\<rparr>)))"

definition process_claimed_work :: "core_host \<Rightarrow> coord_config \<Rightarrow> core_entry \<Rightarrow> core_world \<Rightarrow> unit result \<times> core_world" where
  "process_claimed_work h cfg e w =
     (let a = cc_account_id cfg; (r, w1) = execute_work h e cfg w
      in case r of
           Inr _ \<Rightarrow>
             (Inr (), enqueue_follow_up_work h cfg (ce_work_type e)
               (set_core w1 (snd (mark_core_work_done_for_account (w_now h w1) a (ce_id e) (w_core w1)))))
         | Inl err \<Rightarrow>
             (let (s, t) = mark_core_work_retry_or_dead_for_account (w_now h w1) a (ce_id e) (ce_attempt_count e)
                             (ce_max_attempts e) (cc_retry_after_secs cfg) (err_full err) (w_core w1)
              in (case s of Inl x \<Rightarrow> Inl (''mark core work failed'' # x) | Inr _ \<Rightarrow> Inr (), set_core w1 t)))"

text \<open>All claimed items are processed, then the first error is returned.\<close>

fun process_batch :: "core_host \<Rightarrow> coord_config \<Rightarrow> core_entry list \<Rightarrow> core_world \<Rightarrow> unit result \<times> core_world" where
  "process_batch h cfg [] w = (Inr (), w)"
| "process_batch h cfg (e # es) w =
     (let (r, w1) = process_claimed_work h cfg e w; (rs, w2) = process_batch h cfg es w1
      in (case r of Inl x \<Rightarrow> Inl x | Inr _ \<Rightarrow> rs, w2))"

definition run_once :: "core_host \<Rightarrow> coord_config \<Rightarrow> core_world \<Rightarrow> bool result \<times> core_world" where
  "run_once h cfg w =
     (let a = cc_account_id cfg;
          w1 = set_core w (snd (reset_stale_core_work_for_account (w_now h w) a (cc_stale_after_secs cfg) (w_core w)));
          (claimed, t2) = claim_core_work_for_account (w_now h w1) (hx_skip h (w_tick w1)) a (cc_worker_id cfg) (w_core w1);
          w2 = set_core w1 t2
      in case claimed of
           None \<Rightarrow> (Inr False, w2)
         | Some e \<Rightarrow>
             (if ce_work_type e = SubagentTask \<and> cc_subagent_concurrency cfg > 1
              then
                (let (more, t3) = claim_core_work_batch_for_account (w_now h w2) (hx_skip h (w_tick w2)) a (cc_worker_id cfg)
                                    SubagentTask (nat (cc_subagent_concurrency cfg - 1)) (w_core w2);
                     (r, w4) = process_batch h cfg (e # more) (set_core w2 t3)
                 in (case r of Inl x \<Rightarrow> Inl x | Inr _ \<Rightarrow> Inr True, w4))
              else
                (let (r, w3) = process_claimed_work h cfg e w2
                 in (case r of Inl x \<Rightarrow> Inl x | Inr _ \<Rightarrow> Inr True, w3))))"

section \<open>The loop\<close>

text \<open>One firing of the background synchronisation.\<close>

definition background_sync :: "core_host \<Rightarrow> coord_config \<Rightarrow> core_world \<Rightarrow> core_world" where
  "background_sync h cfg w =
     (let a = cc_account_id cfg; w1 = step_tick w in
      if has_active_sync_work_for_account a (w_core w) then w1
      else case call (\<lambda>n. hx_load_account h n a) w1 of
             (Inl _, w2) \<Rightarrow> w2
           | (Inr _, w2) \<Rightarrow>
               (case run_job h (JobSyncIncremental a) w2 of
                  (Inr _, w3) \<Rightarrow> enqueue_follow_up_work h cfg SyncIncremental w3
                | (Inl _, w3) \<Rightarrow> w3))"

definition maybe_background :: "core_host \<Rightarrow> coord_config \<Rightarrow> core_world \<Rightarrow> core_world" where
  "maybe_background h cfg w =
     (if cc_background_sync_enabled cfg \<and> hx_background h (w_tick w) then background_sync h cfg w else w)"

text \<open>
  The loop, with fuel. The background task runs in between two iterations when the host says so; a
  shutdown ends the loop at the test of an iteration or during the sleep after an idle one.
\<close>

fun coordinator_loop :: "nat \<Rightarrow> core_host \<Rightarrow> coord_config \<Rightarrow> core_world \<Rightarrow> (unit result \<times> core_world) option" where
  "coordinator_loop 0 h cfg w = None"
| "coordinator_loop (Suc fuel) h cfg w =
     (let w = maybe_background h cfg w in
      if hx_shutdown h (w_tick w) then Some (Inr (), w)
      else
        (let (r, w1) = run_once h cfg w
         in case r of
              Inl e \<Rightarrow> Some (Inl e, w1)
            | Inr True \<Rightarrow> coordinator_loop fuel h cfg w1
            | Inr False \<Rightarrow>
                (if hx_shutdown h (w_tick w1) then Some (Inr (), w1)
                 else coordinator_loop fuel h cfg (enqueue_idle_work h cfg (step_tick w1)))))"

definition run_core_coordinator_loop :: "nat \<Rightarrow> core_host \<Rightarrow> coord_config \<Rightarrow> core_world \<Rightarrow> (unit result \<times> core_world) option" where
  "run_core_coordinator_loop fuel h cfg w = coordinator_loop fuel h cfg (seed_bootstrap_work h cfg w)"

definition give_back_claims ::
  "(timestamp \<Rightarrow> timestamp \<Rightarrow> core_table \<times> subagent_task_row list \<Rightarrow> int \<times> core_table \<times> subagent_task_row list)
     \<Rightarrow> core_host \<Rightarrow> core_world \<Rightarrow> int \<times> core_world" where
  "give_back_claims f h w =
     (let s = w_sub w;
          (n, t, tasks) = f (w_now h w) (w_now h (step_tick w)) (sb_core s, sa_tasks (sb_tables s))
      in (n, w\<lparr>w_sub := (tick (tick s))\<lparr>sb_core := t, sb_tables := (sb_tables s)\<lparr>sa_tasks := tasks\<rparr>\<rparr>\<rparr>))"

definition recover_at_startup :: "core_host \<Rightarrow> coord_config \<Rightarrow> core_world \<Rightarrow> int \<times> core_world" where
  "recover_at_startup h cfg =
     give_back_claims (\<lambda>now now'. recover_orphaned_core_work_for_account now now' (cc_account_id cfg)
       ''core startup recovered processing work without a live owner'') h"

definition release_worker_claims :: "core_host \<Rightarrow> coord_config \<Rightarrow> string \<Rightarrow> core_world \<Rightarrow> core_world" where
  "release_worker_claims h cfg reason w =
     snd (give_back_claims (\<lambda>now now'. release_core_work_for_worker_for_account now now' (cc_account_id cfg)
       (cc_worker_id cfg) reason) h w)"

definition cleanup_worker_claims_from_runtime ::
  "core_host \<Rightarrow> string \<Rightarrow> string \<Rightarrow> string \<Rightarrow> core_world \<Rightarrow> int result \<times> core_world" where
  "cleanup_worker_claims_from_runtime h a worker reason w =
     and_then (call (hx_load_db h) w) (\<lambda>_ w.
       let (n, w') = give_back_claims (\<lambda>now now'. release_core_work_for_worker_for_account now now' a worker reason) h w
       in (Inr n, w'))"

text \<open>The lease is acquired before anything else; without it the runtime exits at once.\<close>

definition run_core_coordinator_with_config ::
  "nat \<Rightarrow> core_host \<Rightarrow> coord_config \<Rightarrow> core_world \<Rightarrow> (unit result \<times> core_world) option" where
  "run_core_coordinator_with_config fuel h cfg w =
     (case and_then (call (hx_load_db h) w) (\<lambda>_ w.
             call (\<lambda>n. hx_lease h n (core_runtime_lock_key (cc_account_id cfg))) w) of
        (Inl e, w1) \<Rightarrow> Some (Inl e, w1)
      | (Inr False, w1) \<Rightarrow> Some (Inr (), w1)
      | (Inr True, w1) \<Rightarrow>
          (case run_core_coordinator_loop fuel h cfg (snd (recover_at_startup h cfg w1)) of
             None \<Rightarrow> None
           | Some (r, w2) \<Rightarrow> Some (r, release_worker_claims h cfg ''core coordinator shutdown'' w2)))"

end
