(* ===== verification/CoordinatorFacts.thy ===== *)
theory CoordinatorFacts
  imports CoreCoordinator CoreWorkFacts WorkerProps
begin

text \<open>
  Facts on \<open>CoreCoordinator\<close>: the relation \<open>keeps\<close> between the core queue before and after an
  operation (it stays reachable, and at most one active row per coalesced type stays so), and
  that every operation of the coordinator is in it.
\<close>

section \<open>One active row per type\<close>

definition active_of :: "string \<Rightarrow> core_work_type \<Rightarrow> core_row \<Rightarrow> bool" where
  "active_of a ty r \<longleftrightarrow> cw_account r = a \<and> cw_type r = ty \<and> core_active r"

definition single_active :: "string \<Rightarrow> core_table \<Rightarrow> bool" where
  "single_active a t \<longleftrightarrow> (\<forall>ty. should_coalesce_core_work ty \<longrightarrow> length (filter (active_of a ty) (ct_rows t)) \<le> 1)"

text \<open>
  From \<open>t\<close> to \<open>t'\<close> both invariants of the queue are kept, and rows with ids outside \<open>I\<close> that
  are processing stay so.
\<close>

definition keeps :: "string \<Rightarrow> int set \<Rightarrow> core_table \<Rightarrow> core_table \<Rightarrow> bool" where
  "keeps a I t t' \<longleftrightarrow>
     (core_reachable t \<longrightarrow> core_reachable t' \<and> (single_active a t \<longrightarrow> single_active a t')
        \<and> (\<forall>r \<in> set (ct_rows t). cw_status r = Processing \<and> cw_id r \<notin> I \<longrightarrow>
             (\<exists>r' \<in> set (ct_rows t'). cw_id r' = cw_id r \<and> cw_account r' = cw_account r \<and> cw_status r' = Processing)))"

lemma keeps_refl [simp]: "keeps a I t t"
  by (auto simp: keeps_def)

lemma keeps_trans: "keeps a I t t' \<Longrightarrow> keeps a I t' t'' \<Longrightarrow> keeps a I t t''"
  unfolding keeps_def by metis

lemma keeps_mono: "keeps a I t t' \<Longrightarrow> I \<subseteq> J \<Longrightarrow> keeps a J t t'"
  unfolding keeps_def by blast

lemma length_filter_update_le:
  assumes "\<And>r. r \<in> set t \<Longrightarrow> p r \<Longrightarrow> q (f r) \<Longrightarrow> q r"
  shows "length (filter q (sql_update p f t)) \<le> length (filter q t)"
  using assms by (induction t) (auto simp: sql_update_def)

lemma keeps_update:
  assumes step: "core_step t t'" and rows: "ct_rows t' = sql_update p f (ct_rows t)"
    and act: "\<And>r. r \<in> set (ct_rows t) \<Longrightarrow> p r \<Longrightarrow> cw_account (f r) = cw_account r \<and> cw_type (f r) = cw_type r
        \<and> cw_id (f r) = cw_id r \<and> (core_active (f r) \<longrightarrow> core_active r)"
    and proc: "\<And>r. r \<in> set (ct_rows t) \<Longrightarrow> p r \<Longrightarrow> cw_status r = Processing \<Longrightarrow> cw_id r \<in> I \<or> cw_status (f r) = Processing"
  shows "keeps a I t t'"
proof -
  have "length (filter (active_of a ty) (ct_rows t')) \<le> length (filter (active_of a ty) (ct_rows t))" for ty
    unfolding rows by (rule length_filter_update_le) (use act in \<open>auto simp: active_of_def\<close>)
  then have "single_active a t \<Longrightarrow> single_active a t'" unfolding single_active_def using order_trans by blast
  moreover have "\<exists>r' \<in> set (ct_rows t'). cw_id r' = cw_id r \<and> cw_account r' = cw_account r \<and> cw_status r' = Processing"
    if r: "r \<in> set (ct_rows t)" "cw_status r = Processing" "cw_id r \<notin> I" for r
  proof (cases "p r")
    case True
    then have "f r \<in> set (ct_rows t')" unfolding rows sql_update_def using r(1) by force
    with act [OF r(1) True] proc [OF r(1) True r(2)] r(3) show ?thesis by blast
  next
    case False
    then have "r \<in> set (ct_rows t')" unfolding rows sql_update_def using r(1) by force
    with r(2) show ?thesis by blast
  qed
  ultimately show ?thesis unfolding keeps_def using core_reachable.step [OF _ step] by blast
qed

lemma keeps_enqueue:
  assumes "should_coalesce_core_work ty \<Longrightarrow> \<not> has_active_core_work_type_for_account a ty t"
  shows "keeps a I t (snd (enqueue_core_work_for_account now a ty k payload t))"
proof -
  let ?t' = "snd (enqueue_core_work_for_account now a ty k payload t)"
  let ?same = "\<lambda>r. core_key r = (a, ty, k)" and ?new = "new_core_row now (ct_next_id t) a ty k payload"
  let ?f = "requeue_core_row now payload"
  have step: "core_step t ?t'"
    by (rule core_step.enqueue [where n = 1]) (simp add: enqueue_core_work_for_account_def Let_def)
  have rows: "ct_rows ?t' = (if sql_exists ?same (ct_rows t) then sql_update ?same ?f (ct_rows t) else ct_rows t @ [?new])"
    by (simp add: enqueue_core_work_for_account_def Let_def)
  have kf: "cw_account (?f r) = cw_account r \<and> cw_type (?f r) = cw_type r \<and> cw_id (?f r) = cw_id r
      \<and> (cw_status r = Processing \<longrightarrow> cw_status (?f r) = Processing)" for r
    by (simp add: requeue_core_row_def)
  have single: "length (filter (active_of a ty') (ct_rows ?t')) \<le> 1"
    if ok: "core_reachable t" and sa: "single_active a t" and ty': "should_coalesce_core_work ty'" for ty'
  proof (cases "ty' = ty")
    case False
    have "filter (active_of a ty') (sql_update ?same ?f (ct_rows t)) = filter (active_of a ty') (ct_rows t)"
      by (rule filter_sql_update_other) (use False kf in \<open>auto simp: active_of_def core_key_def\<close>)
    moreover have "\<not> active_of a ty' ?new" using False by (simp add: active_of_def new_core_row_def)
    ultimately show ?thesis using sa ty' unfolding rows single_active_def by auto
  next
    case True
    with ty' assms have none: "filter (active_of a ty') (ct_rows t) = []"
      by (auto simp: has_active_core_work_type_for_account_def sql_exists_iff filter_empty_conv active_of_def)
    show ?thesis
    proof (cases "sql_exists ?same (ct_rows t)")
      case False
      then show ?thesis unfolding rows using none by simp
    next
      case ex: True
      have u: "uniq core_key (ct_rows t)" using core_reachable_ok [OF ok] by (simp add: core_table_ok_def)
      from ex obtain r where r: "r \<in> set (ct_rows t)" "?same r" by (auto simp: sql_exists_iff)
      have "length (filter (active_of a ty') (sql_update ?same ?f (ct_rows t)))
          \<le> length (filter ?same (sql_update ?same ?f (ct_rows t)))"
      proof -
        have "?same x" if "x \<in> set (sql_update ?same ?f (ct_rows t))" "active_of a ty' x" for x
        proof -
          from that(1) obtain y where y: "y \<in> set (ct_rows t)" "x = (if ?same y then ?f y else y)"
            unfolding sql_update_def set_map by blast
          show ?thesis
          proof (cases "?same y")
            case False
            with y that(2) none show ?thesis by (auto simp: filter_empty_conv)
          qed (use y in simp)
        qed
        then have "filter (active_of a ty') (sql_update ?same ?f (ct_rows t))
            = filter (active_of a ty') (filter ?same (sql_update ?same ?f (ct_rows t)))"
          by (auto intro: filter_cong)
        then show ?thesis by (metis length_filter_le)
      qed
      also have "filter ?same (sql_update ?same ?f (ct_rows t)) = sql_update ?same ?f (filter ?same (ct_rows t))"
        by (rule filter_sql_update) simp
      also have "filter ?same (ct_rows t) = [r]" using uniq_filter_single [OF u r(1)] r(2) by simp
      finally show ?thesis unfolding rows if_P [OF ex] by simp
    qed
  qed
  have proc: "\<exists>r' \<in> set (ct_rows ?t'). cw_id r' = cw_id r \<and> cw_account r' = cw_account r \<and> cw_status r' = Processing"
    if "r \<in> set (ct_rows t)" "cw_status r = Processing" for r
  proof (cases "sql_exists ?same (ct_rows t)")
    case True
    have "(if ?same r then ?f r else r) \<in> set (ct_rows ?t')" unfolding rows if_P [OF True] sql_update_def using that(1) by force
    with kf [of r] that(2) show ?thesis by (intro bexI [of _ "if ?same r then ?f r else r"]) auto
  next
    case False
    then show ?thesis using that unfolding rows by auto
  qed
  show ?thesis unfolding keeps_def
    using core_reachable.step [OF _ step] single proc by (auto simp: single_active_def)
qed

section \<open>Operations of the coordinator\<close>

lemma w_core_simps [simp]:
  "w_core (step_tick w) = w_core w" "w_core (set_core w t) = t" "w_core (w\<lparr>w_mail := m\<rparr>) = w_core w"
  by (simp_all add: w_core_def step_tick_def set_core_def)

lemma keeps_enqueue_core_work: "keeps a I (w_core w) (w_core (enqueue_core_work h a ty k payload w))"
  by (auto simp: enqueue_core_work_def Let_def intro: keeps_enqueue)

lemma keeps_enqueue_plan: "keeps (cc_account_id cfg) I (w_core w) (w_core (enqueue_plan h cfg k plan w))"
proof (induction plan arbitrary: w)
  case (Cons p plan)
  obtain ty reason where p: "p = (ty, reason)" by (cases p)
  show ?case
    using keeps_trans [OF keeps_enqueue_core_work [of "cc_account_id cfg" I w h ty k "reason_payload reason"] Cons.IH]
    by (simp add: enqueue_plan_def p)
qed (simp add: enqueue_plan_def)

lemma keeps_follow_up: "keeps (cc_account_id cfg) I (w_core w) (w_core (enqueue_follow_up_work h cfg ty w))"
  using keeps_enqueue_plan [of cfg I "step_tick w"]
  by (simp add: enqueue_follow_up_work_def snapshot_def Let_def)

lemma keeps_idle: "keeps (cc_account_id cfg) I (w_core w) (w_core (enqueue_idle_work h cfg w))"
proof -
  let ?w2 = "enqueue_plan h cfg ''periodic''
      (idle_work_plan (fst (snapshot h cfg w)) (cc_file_apply_enabled cfg)) (step_tick w)"
  have "keeps (cc_account_id cfg) I (w_core w) (w_core ?w2)"
    using keeps_enqueue_plan [of cfg I "step_tick w"] by simp
  moreover have "keeps (cc_account_id cfg) I (w_core ?w2) (w_core (enqueue_core_work h (cc_account_id cfg)
      AssistantHeartbeat ''assistant-heartbeat'' (heartbeat_payload ''heartbeat_due'') (step_tick ?w2)))"
    using keeps_enqueue_core_work [of "cc_account_id cfg" I "step_tick ?w2"] by simp
  ultimately show ?thesis
    by (auto simp: enqueue_idle_work_def snapshot_def Let_def intro: keeps_trans)
qed

lemma keeps_seed: "keeps (cc_account_id cfg) I (w_core w) (w_core (seed_bootstrap_work h cfg w))"
proof -
  have e: "keeps (cc_account_id cfg) I (w_core x) (w_core (enqueue_core_work h (cc_account_id cfg) ty k p x))" for x ty k p
    by (rule keeps_enqueue_core_work)
  have e': "keeps (cc_account_id cfg) I (w_core w) (w_core (enqueue_core_work h (cc_account_id cfg) ty k p x))"
    if "keeps (cc_account_id cfg) I (w_core w) (w_core x)" for x ty k p
    using that e by (rule keeps_trans)
  have "keeps (cc_account_id cfg) I (w_core w) (w_core (step_tick w))" by simp
  then show ?thesis by (auto simp: seed_bootstrap_work_def snapshot_def Let_def intro!: e')
qed

lemma keeps_subagent_emails:
  "keeps a I (w_core w) (w_core (enqueue_subagent_task_from_emails h a i kd wk b es c w))"
proof (cases "es = []")
  case False
  let ?t = "heartbeat_task h i kd wk b es c"
  let ?w = "w\<lparr>w_sub := do_upsert_task (hx_sub h) a ?t None TPending (w_sub w)\<rparr>"
  have "w_core ?w = w_core w" by (simp add: w_core_def)
  with False keeps_enqueue_core_work [of a I ?w h SubagentTask i "subagent_payload_from_record ?t ''assistant_heartbeat''"]
  show ?thesis by (simp add: enqueue_subagent_task_from_emails_def Let_def)
qed (simp add: enqueue_subagent_task_from_emails_def)

lemma keeps_heartbeat: "keeps (cc_account_id cfg) I (w_core w) (w_core (execute_assistant_heartbeat h cfg w))"
proof -
  have e: "keeps (cc_account_id cfg) I (w_core w) (w_core (enqueue_subagent_task_from_emails h (cc_account_id cfg) i kd wk b es c (step_tick x)))"
    if "keeps (cc_account_id cfg) I (w_core w) (w_core x)" for x i kd wk b es c
    using that keeps_subagent_emails [of "cc_account_id cfg" I "step_tick x"] by (auto intro: keeps_trans)
  have s: "w_core (x\<lparr>w_sub := set_tables (w_sub x) tb\<rparr>) = w_core x" for x tb by (simp add: w_core_def)
  have "keeps (cc_account_id cfg) I (w_core w) (w_core (step_tick w))" by simp
  then show ?thesis
    by (auto simp: execute_assistant_heartbeat_def snapshot_def Let_def s intro!: e)
qed

text \<open>The jobs of the pipeline may enqueue core work, but they end no lease.\<close>

definition jobs_ok :: "core_host \<Rightarrow> string \<Rightarrow> bool" where
  "jobs_ok h a \<longleftrightarrow> (\<forall>n j w. keeps a {} (w_core w) (w_core (snd (hx_job h n j w))))"

lemma keeps_job: "jobs_ok h a \<Longrightarrow> keeps a {} (w_core w) (w_core (snd (run_job h j w)))"
  by (auto simp: run_job_def jobs_ok_def split: prod.splits) (metis snd_conv)

lemma keeps_subagent:
  assumes "execute_subagent_task h a i payload s = (r, s')"
  shows "keeps a {} (sb_core s) (sb_core s')"
proof (cases "parse_task_payload payload")
  case (Inl e)
  then show ?thesis using assms by (simp add: execute_subagent_task_def)
next
  case (Inr task)
  from execute_phases [OF Inr assms] obtain w1 where w1: "sb_core w1 = sb_core s"
    and ends: "s' = w1 \<or> (\<exists>v e. s' = fail_run h a task v e w1) \<or> (\<exists>v run. s' = finish_run h a task v run w1)" by blast
  have f: "sb_core (fail_run h a task v e w1) = sb_core w1" for v e by (simp add: fail_run_def)
  have g: "keeps a {} (sb_core w1) (sb_core (finish_run h a task v run w1))" for v run
    unfolding core_finish_run by (auto intro: keeps_enqueue simp: should_coalesce_core_work_def)
  from ends f g show ?thesis unfolding w1 [symmetric] by auto
qed

lemma keeps_execute:
  assumes "jobs_ok h (cc_account_id cfg)"
  shows "keeps (cc_account_id cfg) {} (w_core w) (w_core (snd (execute_work h e cfg w)))"
proof -
  have job: "keeps (cc_account_id cfg) {} (w_core w) (w_core (snd (run_job h j x)))" if "w_core x = w_core w" for j x
    using keeps_job [OF assms, of x j] that by simp
  have sub: "keeps (cc_account_id cfg) {} (w_core w) (w_core (w\<lparr>w_sub := snd (execute_subagent_task (hx_sub h) (cc_account_id cfg) i p (w_sub w))\<rparr>))"
    for i p using keeps_subagent [of "hx_sub h" "cc_account_id cfg" i p "w_sub w"]
    by (simp add: w_core_def) (metis prod.collapse)
  show ?thesis
    by (cases "ce_work_type e")
      (auto simp: execute_work_def Let_def and_then_def call_def keeps_heartbeat case_prod_beta split: sum.splits intro!: job sub)
qed

end
