(* ===== verification/CoordinatorProps.thy ===== *)
theory CoordinatorProps
  imports CoordinatorFacts
begin

text \<open>
  The properties of \<open>CoreCoordinator\<close>.
\<close>

section \<open>The invariants through a whole run\<close>

definition core_held :: "string \<Rightarrow> core_table \<Rightarrow> int \<Rightarrow> bool" where
  "core_held a t i \<longleftrightarrow> (\<exists>r \<in> set (ct_rows t). cw_id r = i \<and> cw_account r = a \<and> cw_status r = Processing)"

lemma keeps_held: "keeps a I t t' \<Longrightarrow> core_reachable t \<Longrightarrow> i \<notin> I \<Longrightarrow> core_held a t i \<Longrightarrow> core_held a t' i"
  unfolding keeps_def core_held_def by metis

lemma keeps_reachable: "keeps a I t t' \<Longrightarrow> core_reachable t \<Longrightarrow> core_reachable t'"
  by (simp add: keeps_def)

lemma core_reachable_uniq_id: "core_reachable t \<Longrightarrow> uniq cw_id (ct_rows t)"
  using core_reachable_ok by (simp add: core_table_ok_def)

lemma keeps_mark_done: "keeps a {i} t (snd (mark_core_work_done_for_account now a i t))"
proof (cases "sql_exists (at_core_id a i) (ct_rows t)")
  case True
  have rows: "ct_rows (snd (mark_core_work_done_for_account now a i t)) = sql_update (at_core_id a i)
      (\<lambda>r. r\<lparr>cw_status := Done, cw_locked := None, cw_worker := None, cw_error := None,
              cw_completed := Some now, cw_updated := now\<rparr>) (ct_rows t)"
    by (simp add: mark_core_work_done_for_account_def True)
  show ?thesis
    by (rule keeps_update [OF core_step.finish [OF prod.collapse [symmetric]] rows])
      (auto simp: core_active_def at_core_id_def)
qed (simp add: mark_core_work_done_for_account_def)

lemma keeps_mark_retry:
  assumes "core_reachable t" "core_held a t i"
  shows "keeps a {i} t (snd (mark_core_work_retry_or_dead_for_account now a i c m d msg t))"
proof (cases "sql_exists (at_core_id a i) (ct_rows t)")
  case True
  have proc: "cw_status r = Processing" if "r \<in> set (ct_rows t)" "at_core_id a i r" for r
    using assms(2) that uniq_inj [OF core_reachable_uniq_id [OF assms(1)]]
    unfolding core_held_def at_core_id_def by metis
  have rows: "ct_rows (snd (mark_core_work_retry_or_dead_for_account now a i c m d msg t))
      = sql_update (at_core_id a i) (fail_core_row now (if c \<ge> m then Dead else Failed) (max d 0) msg) (ct_rows t)"
    by (simp add: mark_core_work_retry_or_dead_for_account_def True)
  show ?thesis
    by (rule keeps_update [OF core_step.retry [OF prod.collapse [symmetric]] rows])
      (auto simp: fail_core_row_def core_active_def at_core_id_def dest: proc)
qed (simp add: mark_core_work_retry_or_dead_for_account_def)

lemma keeps_claim_update:
  assumes "core_step t t'"
    and "ct_rows t' = fst (claim_rows cw_account cw_id a p ord n (lease_core_row now w) (ct_rows t))"
    and "\<And>r. p r \<Longrightarrow> core_ready now skip r" and u: "core_reachable t"
  shows "keeps a {} t t'"
proof -
  have rows: "ct_rows t' = sql_update (\<lambda>r. r \<in> claimed_set cw_account a p ord n (ct_rows t)) (lease_core_row now w) (ct_rows t)"
    using assms(2) by (simp add: claim_rows_unfold [OF uniq_id_account [OF core_reachable_uniq_id [OF u]]])
  show ?thesis
    by (rule keeps_update [OF assms(1) rows])
      (auto simp: lease_core_row_def core_active_def core_ready_def dest!: claimed_set_ready assms(3))
qed

lemma keeps_claim: "core_reachable t \<Longrightarrow> keeps a {} t (snd (claim_core_work_for_account now skip a w t))"
  by (rule keeps_claim_update [OF core_step.claim [OF prod.collapse [symmetric]],
        where p = "core_ready now skip" and ord = claim_order and n = 1 and w = w])
    (auto simp: claim_core_work_for_account_def split: prod.splits)

lemma keeps_claim_batch: "core_reachable t \<Longrightarrow> keeps a {} t (snd (claim_core_work_batch_for_account now skip a w ty n t))"
  by (rule keeps_claim_update [OF core_step.claim_batch [OF prod.collapse [symmetric]],
        where p = "\<lambda>r. cw_type r = ty \<and> core_ready now skip r" and ord = "\<lambda>r. (cw_available r, cw_id r)" and n = n and w = w])
    (auto simp: claim_core_work_batch_for_account_def split: prod.splits)

lemma claim_held:
  assumes "core_reachable t" "claim_core_work_for_account now skip a w t = (Some e, t')"
  shows "core_held a t' (ce_id e)"
proof -
  from core_claim_one [OF core_reachable_ok [OF assms(1)] assms(2)] obtain r where
    "cw_account r = a" "e = entry_of_row (lease_core_row now w r)" "lease_core_row now w r \<in> set (ct_rows t')" by auto
  then show ?thesis unfolding core_held_def
    by (intro bexI [of _ "lease_core_row now w r"]) (simp_all add: entry_of_row_def lease_core_row_def)
qed

lemma claim_batch_held:
  assumes t: "core_reachable t" and c: "claim_core_work_batch_for_account now skip a w ty n t = (es, t')"
  shows "distinct (map ce_id es)" "e \<in> set es \<Longrightarrow> core_held a t' (ce_id e) \<and> \<not> core_held a t (ce_id e)"
proof -
  note u = core_reachable_uniq_id [OF t]
  let ?sel = "claimed_set cw_account a (\<lambda>r. cw_type r = ty \<and> core_ready now skip r) (\<lambda>r. (cw_available r, cw_id r)) n (ct_rows t)"
  have es: "es = map (\<lambda>r. entry_of_row (lease_core_row now w r)) (filter (\<lambda>r. r \<in> ?sel) (ct_rows t))"
    and t': "ct_rows t' = sql_update (\<lambda>r. r \<in> ?sel) (lease_core_row now w) (ct_rows t)"
    using c by (auto simp: claim_core_work_batch_for_account_def claim_rows_unfold [OF uniq_id_account [OF u]]
        sql_returning_def comp_def)
  have ids: "map ce_id es = map cw_id (filter (\<lambda>r. r \<in> ?sel) (ct_rows t))"
    unfolding es by (simp add: entry_of_row_def lease_core_row_def)
  show "distinct (map ce_id es)" unfolding ids using u by (simp add: uniq_def distinct_map_filter)
  assume "e \<in> set es"
  then obtain r where r: "r \<in> set (ct_rows t)" "r \<in> ?sel" "e = entry_of_row (lease_core_row now w r)"
    unfolding es by auto
  have e: "ce_id e = cw_id r" using r(3) by (simp add: entry_of_row_def lease_core_row_def)
  have ready: "cw_account r = a" "core_ready now skip r" using claimed_set_ready [OF r(2)] by auto
  have "lease_core_row now w r \<in> set (ct_rows t')" unfolding t' sql_update_def using r by force
  then have "core_held a t' (ce_id e)" unfolding core_held_def e
    by (intro bexI [of _ "lease_core_row now w r"]) (use ready in \<open>simp_all add: lease_core_row_def\<close>)
  moreover have "\<not> core_held a t (ce_id e)"
  proof
    assume "core_held a t (ce_id e)"
    then obtain s where s: "s \<in> set (ct_rows t)" "cw_id s = cw_id r" "cw_status s = Processing"
      unfolding core_held_def e by blast
    have "s = r" by (rule uniq_inj [OF u s(1) r(1) s(2)])
    with s(3) core_ready_not_processing [OF ready(2)] show False by simp
  qed
  ultimately show "core_held a t' (ce_id e) \<and> \<not> core_held a t (ce_id e)" ..
qed

lemma keeps_stale: "keeps a UNIV t (snd (reset_stale_core_work_for_account now a d t))"
  by (rule keeps_update [OF core_step.stale [OF prod.collapse [symmetric]],
        where p = "core_stale now a d" and f = "expire_core_row now"])
    (auto simp: reset_stale_core_work_for_account_def expire_core_row_def core_active_def core_stale_def)

lemma keeps_give_back:
  assumes step: "core_step t t'" and g: "give_back p now now' b reason (t, tasks) = (n, t', tasks')"
    and p: "\<And>r. p r \<Longrightarrow> cw_status r = Processing"
  shows "keeps a UNIV t t'"
proof -
  have rows: "ct_rows t' = sql_update p (release_core_row now reason) (ct_rows t)"
    using g by (auto simp: give_back_def Let_def split: if_splits)
  show ?thesis
    by (rule keeps_update [OF step rows]) (auto simp: release_core_row_def fail_core_row_def core_active_def p)
qed

lemma keeps_recover: "keeps a UNIV (w_core w) (w_core (snd (recover_at_startup h cfg w)))"
proof -
  obtain n t tasks where r: "recover_orphaned_core_work_for_account (w_now h w) (w_now h (step_tick w)) (cc_account_id cfg)
      ''core startup recovered processing work without a live owner'' (w_core w, sa_tasks (sb_tables (w_sub w))) = (n, t, tasks)"
    by (rule prod_cases3)
  have t: "w_core (snd (recover_at_startup h cfg w)) = t"
    using r by (simp add: recover_at_startup_def give_back_claims_def w_core_def Let_def)
  show ?thesis unfolding t
    by (rule keeps_give_back [OF core_step.recover [OF r] r [unfolded recover_orphaned_core_work_for_account_def]]) simp
qed

lemma release_worker_core:
  obtains n tasks where "release_core_work_for_worker_for_account (w_now h w) (w_now h (step_tick w)) (cc_account_id cfg)
      (cc_worker_id cfg) reason (w_core w, sa_tasks (sb_tables (w_sub w))) = (n, w_core (release_worker_claims h cfg reason w), tasks)"
proof -
  obtain n t tasks where r: "release_core_work_for_worker_for_account (w_now h w) (w_now h (step_tick w)) (cc_account_id cfg)
      (cc_worker_id cfg) reason (w_core w, sa_tasks (sb_tables (w_sub w))) = (n, t, tasks)"
    by (rule prod_cases3)
  moreover from r have "w_core (release_worker_claims h cfg reason w) = t"
    by (simp add: release_worker_claims_def give_back_claims_def w_core_def Let_def)
  ultimately show ?thesis using that by blast
qed

lemma keeps_release: "keeps a UNIV (w_core w) (w_core (release_worker_claims h cfg reason w))"
proof -
  obtain n tasks where r: "release_core_work_for_worker_for_account (w_now h w) (w_now h (step_tick w)) (cc_account_id cfg)
      (cc_worker_id cfg) reason (w_core w, sa_tasks (sb_tables (w_sub w))) = (n, w_core (release_worker_claims h cfg reason w), tasks)"
    by (rule release_worker_core)
  show ?thesis
    by (rule keeps_give_back [OF core_step.release [OF r] r [unfolded release_core_work_for_worker_for_account_def]]) simp
qed

lemma keeps_process:
  assumes j: "jobs_ok h (cc_account_id cfg)" and r: "core_reachable (w_core w)"
    and e: "core_held (cc_account_id cfg) (w_core w) (ce_id e)"
  shows "keeps (cc_account_id cfg) {ce_id e} (w_core w) (w_core (snd (process_claimed_work h cfg e w)))"
proof -
  let ?a = "cc_account_id cfg"
  obtain res w1 where x: "execute_work h e cfg w = (res, w1)" by (cases "execute_work h e cfg w")
  have k1: "keeps ?a {} (w_core w) (w_core w1)" using keeps_execute [OF j, of w e] by (simp add: x)
  then have k1': "keeps ?a {ce_id e} (w_core w) (w_core w1)" by (rule keeps_mono) simp
  have r1: "core_reachable (w_core w1)" using k1 r by (rule keeps_reachable)
  have h1: "core_held ?a (w_core w1) (ce_id e)" by (rule keeps_held [OF k1 r _ e]) simp
  show ?thesis
  proof (cases res)
    case (Inl err)
    have "keeps ?a {ce_id e} (w_core w1) (w_core (snd (process_claimed_work h cfg e w)))"
      using keeps_mark_retry [OF r1 h1] by (simp add: process_claimed_work_def x Inl Let_def case_prod_beta)
    with k1' show ?thesis by (rule keeps_trans)
  next
    case (Inr u)
    let ?w2 = "set_core w1 (snd (mark_core_work_done_for_account (w_now h w1) ?a (ce_id e) (w_core w1)))"
    have "keeps ?a {ce_id e} (w_core w1) (w_core ?w2)" using keeps_mark_done by simp
    then have "keeps ?a {ce_id e} (w_core w1) (w_core (enqueue_follow_up_work h cfg (ce_work_type e) ?w2))"
      by (rule keeps_trans) (rule keeps_follow_up)
    with k1' show ?thesis unfolding process_claimed_work_def x Inr Let_def by (auto intro: keeps_trans)
  qed
qed

lemma keeps_batch:
  assumes j: "jobs_ok h (cc_account_id cfg)"
  shows "core_reachable (w_core w) \<Longrightarrow> distinct (map ce_id es) \<Longrightarrow>
    (\<And>e. e \<in> set es \<Longrightarrow> core_held (cc_account_id cfg) (w_core w) (ce_id e)) \<Longrightarrow>
    keeps (cc_account_id cfg) UNIV (w_core w) (w_core (snd (process_batch h cfg es w)))"
proof (induction es arbitrary: w)
  case (Cons e es)
  let ?w1 = "snd (process_claimed_work h cfg e w)"
  have k: "keeps (cc_account_id cfg) {ce_id e} (w_core w) (w_core ?w1)"
    by (rule keeps_process [OF j Cons.prems(1)]) (simp add: Cons.prems(3))
  have "keeps (cc_account_id cfg) UNIV (w_core ?w1) (w_core (snd (process_batch h cfg es ?w1)))"
  proof (rule Cons.IH)
    show "core_reachable (w_core ?w1)" using k Cons.prems(1) by (rule keeps_reachable)
    show "distinct (map ce_id es)" using Cons.prems(2) by simp
    fix x assume "x \<in> set es"
    then have "ce_id x \<in> ce_id ` set es" by (rule imageI)
    with Cons.prems(2) have "ce_id x \<notin> {ce_id e}" by auto
    then show "core_held (cc_account_id cfg) (w_core ?w1) (ce_id x)"
      by (rule keeps_held [OF k Cons.prems(1)]) (simp add: Cons.prems(3) \<open>x \<in> set es\<close>)
  qed
  with keeps_mono [OF k, of UNIV] show ?case
    by (simp add: case_prod_beta keeps_trans)
qed simp

lemma keeps_run_once:
  assumes j: "jobs_ok h (cc_account_id cfg)"
  shows "keeps (cc_account_id cfg) UNIV (w_core w) (w_core (snd (run_once h cfg w)))"
proof (cases "core_reachable (w_core w)")
  case r: True
  let ?a = "cc_account_id cfg"
  let ?w1 = "set_core w (snd (reset_stale_core_work_for_account (w_now h w) ?a (cc_stale_after_secs cfg) (w_core w)))"
  have k1: "keeps ?a UNIV (w_core w) (w_core ?w1)" using keeps_stale by simp
  then have r1: "core_reachable (w_core ?w1)" using r by (rule keeps_reachable)
  obtain c t2 where c: "claim_core_work_for_account (w_now h ?w1) (hx_skip h (w_tick ?w1)) ?a (cc_worker_id cfg) (w_core ?w1) = (c, t2)"
    by (rule prod.exhaust)
  have k2: "keeps ?a {} (w_core ?w1) t2" using keeps_claim [OF r1, of ?a "w_now h ?w1" "hx_skip h (w_tick ?w1)" "cc_worker_id cfg"] unfolding c by simp
  have r2: "core_reachable t2" using k2 r1 by (rule keeps_reachable)
  have k12: "keeps ?a UNIV (w_core w) t2" using k1 keeps_mono [OF k2] by (auto intro: keeps_trans)
  let ?w2 = "set_core ?w1 t2"
  show ?thesis
  proof (cases c)
    case None
    show ?thesis unfolding run_once_def Let_def c None using k12 by simp
  next
    case (Some e)
    have h2: "core_held ?a t2 (ce_id e)" by (rule claim_held [OF r1 c [unfolded Some]])
    show ?thesis
    proof (cases "ce_work_type e = SubagentTask \<and> cc_subagent_concurrency cfg > 1")
      case False
      have "keeps ?a {ce_id e} (w_core ?w2) (w_core (snd (process_claimed_work h cfg e ?w2)))"
        by (rule keeps_process [OF j]) (simp_all add: r2 h2)
      then have "keeps ?a UNIV t2 (w_core (snd (process_claimed_work h cfg e ?w2)))"
        using keeps_mono by (metis subset_UNIV w_core_simps(2))
      with k12 have "keeps ?a UNIV (w_core w) (w_core (snd (process_claimed_work h cfg e ?w2)))" by (rule keeps_trans)
      moreover have "snd (run_once h cfg w) = snd (process_claimed_work h cfg e ?w2)"
        unfolding run_once_def Let_def c Some using False by (auto simp: case_prod_beta)
      ultimately show ?thesis by simp
    next
      case True
      obtain more t3 where b: "claim_core_work_batch_for_account (w_now h ?w2) (hx_skip h (w_tick ?w2)) ?a (cc_worker_id cfg)
          SubagentTask (nat (cc_subagent_concurrency cfg - 1)) (w_core ?w2) = (more, t3)" by (rule prod.exhaust)
      have b': "claim_core_work_batch_for_account (w_now h ?w2) (hx_skip h (w_tick ?w2)) ?a (cc_worker_id cfg)
          SubagentTask (nat (cc_subagent_concurrency cfg - 1)) t2 = (more, t3)" using b by simp
      have k3: "keeps ?a {} t2 t3" using keeps_claim_batch [OF r2] b' by (metis snd_conv)
      have r3: "core_reachable t3" using k3 r2 by (rule keeps_reachable)
      note bh = claim_batch_held [OF r2 b']
      have "keeps ?a UNIV t3 (w_core (snd (process_batch h cfg (e # more) (set_core ?w2 t3))))"
      proof (rule keeps_batch [OF j, of "set_core ?w2 t3", unfolded w_core_simps])
        show "core_reachable t3" by (rule r3)
        show "distinct (map ce_id (e # more))" using bh h2 by auto
        show "core_held ?a t3 (ce_id x)" if "x \<in> set (e # more)" for x
          using that bh(2) [of x] keeps_held [OF k3 r2 _ h2] by auto
      qed
      then have "keeps ?a UNIV (w_core w) (w_core (snd (process_batch h cfg (e # more) (set_core ?w2 t3))))"
        using k12 keeps_mono [OF k3, of UNIV] by (metis keeps_trans subset_UNIV)
      moreover have "snd (run_once h cfg w) = snd (process_batch h cfg (e # more) (set_core ?w2 t3))"
        unfolding run_once_def Let_def c Some using True b by (auto simp: case_prod_beta)
      ultimately show ?thesis by simp
    qed
  qed
qed (simp add: keeps_def)

lemma keeps_background:
  assumes j: "jobs_ok h (cc_account_id cfg)"
  shows "keeps (cc_account_id cfg) UNIV (w_core w) (w_core (maybe_background h cfg w))"
proof -
  have job: "keeps (cc_account_id cfg) UNIV (w_core w) (w_core w3)"
    if "run_job h jb w2 = (res, w3)" "w_core w2 = w_core w" for jb res w2 w3
    using keeps_mono [OF keeps_job [OF j, of w2 jb]] that by simp
  then show ?thesis
    by (auto simp: maybe_background_def background_sync_def call_def Let_def
        intro: keeps_trans [OF _ keeps_follow_up] split: prod.splits sum.splits)
qed

lemma keeps_loop:
  assumes j: "jobs_ok h (cc_account_id cfg)"
  shows "coordinator_loop fuel h cfg w = Some (r, w') \<Longrightarrow> keeps (cc_account_id cfg) UNIV (w_core w) (w_core w')"
proof (induction fuel arbitrary: w)
  case (Suc fuel)
  let ?a = "cc_account_id cfg"
  let ?b = "maybe_background h cfg w"
  obtain res w1 where o: "run_once h cfg ?b = (res, w1)" by (rule prod.exhaust)
  have kb: "keeps ?a UNIV (w_core w) (w_core ?b)" by (rule keeps_background [OF j])
  have "keeps ?a UNIV (w_core ?b) (w_core w1)" using keeps_run_once [OF j, of ?b] by (simp add: o)
  with kb have k1: "keeps ?a UNIV (w_core w) (w_core w1)" by (rule keeps_trans)
  have "keeps ?a UNIV (w_core (step_tick w1)) (w_core (enqueue_idle_work h cfg (step_tick w1)))" by (rule keeps_idle)
  then have k2: "keeps ?a UNIV (w_core w) (w_core (enqueue_idle_work h cfg (step_tick w1)))"
    using k1 by (auto intro: keeps_trans)
  from Suc.prems consider "w' = ?b" | "w' = w1" | "coordinator_loop fuel h cfg w1 = Some (r, w')"
    | "coordinator_loop fuel h cfg (enqueue_idle_work h cfg (step_tick w1)) = Some (r, w')"
    by (auto simp: Let_def o split: if_splits sum.splits bool.splits)
  then show ?case
  proof cases
    case 1
    then show ?thesis using kb by simp
  next
    case 2
    then show ?thesis using k1 by simp
  next
    case 3
    from k1 Suc.IH [OF 3] show ?thesis by (rule keeps_trans)
  next
    case 4
    from k2 Suc.IH [OF 4] show ?thesis by (rule keeps_trans)
  qed
qed simp

lemma keeps_coordinator:
  assumes j: "jobs_ok h (cc_account_id cfg)" and run: "run_core_coordinator_with_config fuel h cfg w = Some (r, w')"
  shows "keeps (cc_account_id cfg) UNIV (w_core w) (w_core w')"
proof -
  let ?a = "cc_account_id cfg"
  from run consider "w_core w' = w_core w"
    | w2 where "run_core_coordinator_loop fuel h cfg (snd (recover_at_startup h cfg (step_tick (step_tick w)))) = Some (r, w2)"
        "w' = release_worker_claims h cfg ''core coordinator shutdown'' w2"
    by (auto simp: run_core_coordinator_with_config_def and_then_def call_def split: sum.splits bool.splits option.splits prod.splits)
  then show ?thesis
  proof cases
    case 2
    let ?s = "snd (recover_at_startup h cfg (step_tick (step_tick w)))"
    have "keeps ?a UNIV (w_core w) (w_core ?s)"
      using keeps_recover [of ?a "step_tick (step_tick w)" h cfg] by simp
    moreover have "keeps ?a UNIV (w_core ?s) (w_core w2)"
      using keeps_loop [OF j] keeps_seed 2(1) unfolding run_core_coordinator_loop_def by (blast intro: keeps_trans)
    moreover have "keeps ?a UNIV (w_core w2) (w_core w')" unfolding 2(2) by (rule keeps_release)
    ultimately show ?thesis by (blast intro: keeps_trans)
  qed simp
qed


section \<open>The lease and the shutdown\<close>

text \<open>The account's advisory lock decides whether the runtime acts at all: without it the
  coordinator returns at once and leaves queue, sub-agent tables and mail untouched. With it, once
  the coordinator has returned, with or without an error, no row of the account is processing under
  its worker id, so nothing waits for a worker that is gone.\<close>

theorem coordinator_lease_scope:
  assumes "hx_load_db h (w_tick w) = Inr ()"
    and "hx_lease h (w_tick w + 1) (core_runtime_lock_key (cc_account_id cfg)) = Inr leased"
    and "run_core_coordinator_with_config fuel h cfg w = Some (r, w')"
  shows "(leased \<or> (r = Inr () \<and> w' = step_tick (step_tick w)))
    \<and> (\<not> leased \<or> \<not> sql_exists (\<lambda>x. cw_account x = cc_account_id cfg \<and> cw_worker x = Some (cc_worker_id cfg)
                       \<and> cw_status x = Processing) (ct_rows (w_core w')))"
proof (cases leased)
  case False
  then show ?thesis using assms
    by (auto simp: run_core_coordinator_with_config_def and_then_def call_def w_tick_def step_tick_def tick_def)
next
  case True
  then obtain w2 where w': "w' = release_worker_claims h cfg ''core coordinator shutdown'' w2"
    using assms by (auto simp: run_core_coordinator_with_config_def and_then_def call_def w_tick_def step_tick_def tick_def
        split: option.splits)
  obtain n tasks where r: "release_core_work_for_worker_for_account (w_now h w2) (w_now h (step_tick w2)) (cc_account_id cfg)
      (cc_worker_id cfg) ''core coordinator shutdown'' (w_core w2, sa_tasks (sb_tables (w_sub w2))) = (n, w_core w', tasks)"
    unfolding w' by (rule release_worker_core)
  let ?p = "\<lambda>x. cw_account x = cc_account_id cfg \<and> cw_worker x = Some (cc_worker_id cfg) \<and> cw_status x = Processing"
  have "w_core w' = (w_core w2)\<lparr>ct_rows := sql_update ?p (release_core_row (w_now h w2) ''core coordinator shutdown'') (ct_rows (w_core w2))\<rparr>"
    using r by (auto simp: release_core_work_for_worker_for_account_def give_back_def Let_def split: if_splits)
  then have rows: "ct_rows (w_core w') = sql_update ?p (release_core_row (w_now h w2) ''core coordinator shutdown'') (ct_rows (w_core w2))"
    by simp
  have "\<not> sql_exists ?p (ct_rows (w_core w'))"
    unfolding rows by (auto simp: sql_exists_iff sql_update_def release_core_row_def fail_core_row_def)
  with True show ?thesis by simp
qed

section \<open>Configuration\<close>

lemma env_parse_range: "(\<And>s n. p s = Some n \<Longrightarrow> lo \<le> n \<and> n \<le> hi) \<Longrightarrow> lo \<le> d \<Longrightarrow> d \<le> hi \<Longrightarrow> lo \<le> env_parse e p k d \<and> env_parse e p k d \<le> hi"
  by (auto simp: env_parse_def Option.bind_eq_Some_conv split: option.splits)

lemma env_u64: "0 \<le> d \<Longrightarrow> d \<le> 18446744073709551615 \<Longrightarrow> 0 \<le> env_parse e parse_u64 k d \<and> env_parse e parse_u64 k d \<le> 18446744073709551615"
  by (rule env_parse_range) (auto simp: parse_u64_def dest: parse_int_range)

lemma env_i64: "i64_min \<le> d \<Longrightarrow> d \<le> i64_max \<Longrightarrow> i64_min \<le> env_parse e parse_i64 k d \<and> env_parse e parse_i64 k d \<le> i64_max"
  by (rule env_parse_range) (auto simp: parse_i64_def dest: parse_int_range)

text \<open>Whatever the environment holds, malformed or hostile, the coordinator never polls without a
  pause, synchronises in the background at least five seconds apart, resets no lease younger than a
  second, schedules no retry in the past, asks for at least one candidate per heartbeat and at most
  a \<^verbatim>\<open>u32\<close> of them, and runs at least one task; and its advisory lock key is a non-negative
  \<^verbatim>\<open>i64\<close> for every account.\<close>

theorem coord_config_bounds:
  "1 \<le> cc_poll_interval_secs (coord_config_from_env uuid e) \<and> cc_poll_interval_secs (coord_config_from_env uuid e) \<le> 18446744073709551615
   \<and> 5 \<le> cc_background_sync_interval_secs (coord_config_from_env uuid e)
   \<and> 1 \<le> cc_stale_after_secs (coord_config_from_env uuid e) \<and> cc_stale_after_secs (coord_config_from_env uuid e) \<le> i64_max
   \<and> 0 \<le> cc_retry_after_secs (coord_config_from_env uuid e) \<and> cc_retry_after_secs (coord_config_from_env uuid e) \<le> i64_max
   \<and> 1 \<le> heartbeat_limit (coord_config_from_env uuid e) \<and> heartbeat_limit (coord_config_from_env uuid e) \<le> 4294967295
   \<and> 1 \<le> cc_subagent_concurrency (coord_config_from_env uuid e)
   \<and> 0 \<le> core_runtime_lock_key account \<and> core_runtime_lock_key account \<le> i64_max"
proof -
  have "core_runtime_lock_key account \<le> i64_max"
  proof -
    have "x AND (0x7fffffffffffffff :: 64 word) \<le> 0x7fffffffffffffff" for x by (rule word_and_le1)
    then show ?thesis by (simp add: core_runtime_lock_key_def word_le_def)
  qed
  then show ?thesis
    using env_u64 [of 15 e "''CORE_WORK_POLL_INTERVAL_SECS''"] env_i64 [of 600 e "''CORE_WORK_STALE_AFTER_SECS''"]
      env_i64 [of 60 e "''CORE_WORK_RETRY_AFTER_SECS''"]
    by (auto simp add: coord_config_from_env_def heartbeat_limit_def core_runtime_lock_key_def)
qed

section \<open>The plans\<close>

text \<open>The follow-up plan of a finished item, exactly: analysis and location are planned
  precisely when their backlog is not empty, embedding after an analysis, a filing preview after a
  location with filing pending, an applied filing only after a preview, with filing pending and
  enabled; nothing else ever, and nothing twice.\<close>

theorem follow_up_plan_exact:
  "plan_has ty (follow_up_work_plan completed file_apply s) \<longleftrightarrow>
     (case ty of
        Analyze \<Rightarrow> sn_analysis_missing s > 0
      | Locate \<Rightarrow> sn_location_missing s > 0
      | Embed \<Rightarrow> completed = Analyze
      | FilePreview \<Rightarrow> completed = Locate \<and> sn_filing_pending s > 0
      | FileApply \<Rightarrow> completed = FilePreview \<and> file_apply \<and> sn_filing_pending s > 0
      | _ \<Rightarrow> False)
   \<and> distinct (map fst (follow_up_work_plan completed file_apply s))"
  by (cases completed; cases ty) (auto simp: follow_up_work_plan_def plan_has_def Let_def)

text \<open>The idle plan always has exactly one synchronisation, a full one precisely when the
  mailbox is empty or far behind the server's largest folder; bodies, analysis and location are
  planned precisely when they have a backlog, an applied filing only when enabled; assistant work
  never, and nothing twice.\<close>

theorem idle_plan_exact:
  "plan_has ty (idle_work_plan s file_apply) \<longleftrightarrow>
     (case ty of
        SyncFull \<Rightarrow> needs_full_sync_backfill s
      | SyncIncremental \<Rightarrow> \<not> needs_full_sync_backfill s
      | SyncBody \<Rightarrow> has_body_backlog s
      | Analyze \<Rightarrow> sn_analysis_missing s > 0
      | Locate \<Rightarrow> sn_location_missing s > 0
      | FileApply \<Rightarrow> file_apply \<and> sn_filing_pending s > 0
      | _ \<Rightarrow> False)
   \<and> distinct (map fst (idle_work_plan s file_apply))"
  by (cases ty) (auto simp: idle_work_plan_def plan_has_def)

section \<open>The gate on mailbox moves\<close>

lemma other_job [simp]:
  fixes h :: core_host
  shows "w_now (h\<lparr>hx_job := g\<rparr>) w = w_now h w" "snapshot (h\<lparr>hx_job := g\<rparr>) cfg w = snapshot h cfg w"
    "enqueue_core_work (h\<lparr>hx_job := g\<rparr>) = enqueue_core_work h" "enqueue_plan (h\<lparr>hx_job := g\<rparr>) = enqueue_plan h"
    "enqueue_follow_up_work (h\<lparr>hx_job := g\<rparr>) = enqueue_follow_up_work h"
    "enqueue_idle_work (h\<lparr>hx_job := g\<rparr>) = enqueue_idle_work h"
    "seed_bootstrap_work (h\<lparr>hx_job := g\<rparr>) = seed_bootstrap_work h"
    "enqueue_subagent_task_from_emails (h\<lparr>hx_job := g\<rparr>) = enqueue_subagent_task_from_emails h"
    "execute_assistant_heartbeat (h\<lparr>hx_job := g\<rparr>) = execute_assistant_heartbeat h"
    "give_back_claims f (h\<lparr>hx_job := g\<rparr>) = give_back_claims f h"
    "recover_at_startup (h\<lparr>hx_job := g\<rparr>) = recover_at_startup h"
    "release_worker_claims (h\<lparr>hx_job := g\<rparr>) = release_worker_claims h"
proof -
  show n: "w_now (h\<lparr>hx_job := g\<rparr>) w = w_now h w" for w by (simp add: w_now_def)
  show s: "snapshot (h\<lparr>hx_job := g\<rparr>) cfg w = snapshot h cfg w" for cfg w by (simp add: snapshot_def n)
  show e: "enqueue_core_work (h\<lparr>hx_job := g\<rparr>) = enqueue_core_work h"
    by (intro ext) (simp add: enqueue_core_work_def n Let_def)
  show p: "enqueue_plan (h\<lparr>hx_job := g\<rparr>) = enqueue_plan h" by (intro ext) (simp add: enqueue_plan_def e)
  show "enqueue_follow_up_work (h\<lparr>hx_job := g\<rparr>) = enqueue_follow_up_work h"
    by (intro ext) (simp add: enqueue_follow_up_work_def s p)
  show "enqueue_idle_work (h\<lparr>hx_job := g\<rparr>) = enqueue_idle_work h"
    by (intro ext) (simp add: enqueue_idle_work_def s p e n Let_def case_prod_beta cong: if_cong)
  show "seed_bootstrap_work (h\<lparr>hx_job := g\<rparr>) = seed_bootstrap_work h"
    by (intro ext) (simp add: seed_bootstrap_work_def s e Let_def case_prod_beta cong: if_cong)
  have c: "email_context (h\<lparr>hx_job := g\<rparr>) = email_context h" by (intro ext) (simp add: email_context_def)
  have t: "heartbeat_task (h\<lparr>hx_job := g\<rparr>) = heartbeat_task h" by (intro ext) (simp add: heartbeat_task_def c)
  show es: "enqueue_subagent_task_from_emails (h\<lparr>hx_job := g\<rparr>) = enqueue_subagent_task_from_emails h"
    by (intro ext) (simp add: enqueue_subagent_task_from_emails_def e t Let_def)
  show "execute_assistant_heartbeat (h\<lparr>hx_job := g\<rparr>) = execute_assistant_heartbeat h"
    by (intro ext) (simp add: execute_assistant_heartbeat_def s es n Let_def case_prod_beta cong: if_cong)
  show b: "give_back_claims f (h\<lparr>hx_job := g\<rparr>) = give_back_claims f h" for f
    by (intro ext) (simp add: give_back_claims_def n Let_def case_prod_beta)
  show "recover_at_startup (h\<lparr>hx_job := g\<rparr>) = recover_at_startup h"
    by (intro ext) (simp add: recover_at_startup_def b)
  show "release_worker_claims (h\<lparr>hx_job := g\<rparr>) = release_worker_claims h"
    by (intro ext) (simp add: release_worker_claims_def b)
qed

definition not_apply :: "job \<Rightarrow> bool" where
  "not_apply j = (case j of JobFile dry _ \<Rightarrow> dry | _ \<Rightarrow> True)"

text \<open>Without \<^verbatim>\<open>CORE_FILE_APPLY\<close> the coordinator never runs the job that moves mail: its
  whole run, result and final state included, does not depend on what that job would do, even when
  a filing item is in the queue.\<close>

theorem filing_gate:
  assumes off: "\<not> cc_file_apply_enabled cfg"
    and same: "\<And>n j. not_apply j \<Longrightarrow> g n j = hx_job h n j"
  shows "run_core_coordinator_with_config fuel (h\<lparr>hx_job := g\<rparr>) cfg w = run_core_coordinator_with_config fuel h cfg w"
proof -
  let ?g = "h\<lparr>hx_job := g\<rparr>"
  have job: "run_job ?g j = run_job h j" if "not_apply j" for j by (intro ext) (simp add: run_job_def same [OF that])
  have x: "execute_work ?g e cfg w = execute_work h e cfg w" for e w
    by (cases "ce_work_type e") (simp_all add: execute_work_def off job not_apply_def Let_def)
  have p: "process_claimed_work ?g cfg e w = process_claimed_work h cfg e w" for e w
    by (simp add: process_claimed_work_def x Let_def case_prod_beta cong: sum.case_cong)
  have b: "process_batch ?g cfg es w = process_batch h cfg es w" for es w
    by (induction es arbitrary: w) (simp_all add: p Let_def case_prod_beta)
  have o: "run_once ?g cfg w = run_once h cfg w" for w
    by (simp add: run_once_def p b Let_def case_prod_beta cong: option.case_cong if_cong)
  have m: "maybe_background ?g cfg w = maybe_background h cfg w" for w
    by (simp add: maybe_background_def background_sync_def job not_apply_def Let_def case_prod_beta call_def
        cong: if_cong sum.case_cong)
  have l: "coordinator_loop fuel ?g cfg w = coordinator_loop fuel h cfg w" for w
    by (induction fuel arbitrary: w) (simp_all add: m o Let_def case_prod_beta cong: if_cong sum.case_cong bool.case_cong)
  show ?thesis
    by (simp add: run_core_coordinator_with_config_def run_core_coordinator_loop_def l case_prod_beta call_def
        cong: option.case_cong sum.case_cong bool.case_cong)
qed

section \<open>Witnesses\<close>

text \<open>A host whose jobs succeed and change nothing, a shutdown at a given tick, and an empty queue.\<close>

definition quiet_host :: "nat \<Rightarrow> core_host" where
  "quiet_host stop =
     \<lparr>hx_sub = sub_host_example, hx_skip = (\<lambda>_ _. False), hx_load_db = (\<lambda>_. Inr ()),
      hx_load_account = (\<lambda>_ _. Inr ()), hx_job = (\<lambda>_ _ w. (Inr (), w)), hx_rfc3339 = (\<lambda>_. []),
      hx_lease = (\<lambda>_ _. Inr True), hx_shutdown = (\<lambda>n. stop \<le> n), hx_background = (\<lambda>_. False)\<rparr>"

definition coord_example :: coord_config where
  "coord_example =
     \<lparr>cc_account_id = ''a'', cc_worker_id = ''core-1'', cc_poll_interval_secs = 15, cc_background_sync_enabled = True,
      cc_background_sync_interval_secs = 60, cc_stale_after_secs = 600, cc_retry_after_secs = 60, cc_analyze_limit = 50,
      cc_embed_limit = 50, cc_locate_limit = 50, cc_file_apply_enabled = False, cc_heartbeat_enabled = False,
      cc_heartbeat_interval_secs = 60, cc_heartbeat_task_limit = 50, cc_subagent_concurrency = 4\<rparr>"

definition world_example :: "email list \<Rightarrow> core_world" where
  "world_example ms =
     \<lparr>w_sub = sub_world_example,
      w_mail = empty_mail_store\<lparr>ms_emails := ms\<rparr>\<rparr>"

text \<open>The run seeds a full synchronisation, runs it, and plans the next one on the still empty mailbox.\<close>

lemma quiet_run_value:
  "map_option (\<lambda>(r, w). (r, w_tick w, map (\<lambda>r. (cw_type r, cw_status r)) (ct_rows (w_core w))))
     (run_core_coordinator_with_config 9 (quiet_host 18) coord_example (world_example []))
   = Some (Inr (), 23, [(SyncFull, Done), (SyncFull, Pending)])"
  by code_simp

lemma quiet_run: obtains w' where
  "run_core_coordinator_with_config 9 (quiet_host 18) coord_example (world_example []) = Some (Inr (), w')"
  using quiet_run_value
  by (cases "run_core_coordinator_with_config 9 (quiet_host 18) coord_example (world_example [])") auto

lemma quiet_jobs_ok [simp]: "jobs_ok (quiet_host n) a"
  by (simp add: jobs_ok_def quiet_host_def)

lemma world_example_start [simp]: "core_reachable (w_core (world_example ms))" "single_active a (w_core (world_example ms))"
  using core_reachable.start
  by (simp_all add: world_example_def sub_world_example_def w_core_def single_active_def empty_core_table_def)


lemma coordinator_lease_scope_witness:
  "\<exists>w'. run_core_coordinator_with_config 9 (quiet_host 18) coord_example (world_example []) = Some (Inr (), w')
     \<and> \<not> sql_exists (\<lambda>x. cw_account x = ''a'' \<and> cw_worker x = Some ''core-1'' \<and> cw_status x = Processing) (ct_rows (w_core w'))"
proof -
  obtain w' where r: "run_core_coordinator_with_config 9 (quiet_host 18) coord_example (world_example []) = Some (Inr (), w')"
    by (rule quiet_run)
  have "hx_load_db (quiet_host 18) (w_tick (world_example [])) = Inr ()"
    "hx_lease (quiet_host 18) (w_tick (world_example []) + 1) (core_runtime_lock_key (cc_account_id coord_example)) = Inr True"
    by (simp_all add: quiet_host_def)
  from coordinator_lease_scope [OF this r] r show ?thesis by (auto simp: coord_example_def)
qed

lemma filing_gate_witness:
  "run_core_coordinator_with_config 9 ((quiet_host 18)\<lparr>hx_job := \<lambda>_ j w. (if j = JobFile False ''a'' then Inl [''moved''] else Inr (), w)\<rparr>)
     coord_example (world_example [])
   = run_core_coordinator_with_config 9 (quiet_host 18) coord_example (world_example [])"
  by (rule filing_gate) (auto simp: coord_example_def quiet_host_def not_apply_def fun_eq_iff split: job.splits)

end
