(* ===== verification/CoordinatorBacklog.thy ===== *)
theory CoordinatorBacklog
  imports CoordinatorProps
begin

text \<open>
  The pipeline backlog: after every finished item each backlog has an active row
  (\<open>backlog_stays_scheduled\<close>), and what follows from it: a coordinator whose analysis job
  finds no candidate in the backlog never idles (\<open>backlog_busy_loop\<close>).
\<close>

section \<open>Active rows\<close>

abbreviation scheduled :: "string \<Rightarrow> core_work_type \<Rightarrow> core_world \<Rightarrow> bool" where
  "scheduled a ty w \<equiv> has_active_core_work_type_for_account a ty (w_core w)"

lemma active_after_enqueue:
  assumes "has_active_core_work_type_for_account a ty t"
  shows "has_active_core_work_type_for_account a ty (snd (enqueue_core_work_for_account now b ty' k p t))"
proof -
  let ?same = "\<lambda>r. core_key r = (b, ty', k)"
  from assms obtain r where r: "r \<in> set (ct_rows t)" "active_of a ty r"
    by (auto simp: has_active_core_work_type_for_account_def sql_exists_iff active_of_def)
  have q: "active_of a ty (requeue_core_row now p r)" if "active_of a ty r" for r
    using that by (simp add: active_of_def requeue_core_row_def core_active_def)
  have "\<exists>r' \<in> set (ct_rows (snd (enqueue_core_work_for_account now b ty' k p t))). active_of a ty r'"
  proof (cases "sql_exists ?same (ct_rows t)")
    case True
    have "(if ?same r then requeue_core_row now p r else r) \<in> set (sql_update ?same (requeue_core_row now p) (ct_rows t))"
      unfolding sql_update_def using r(1) by force
    moreover have "active_of a ty (if ?same r then requeue_core_row now p r else r)" using r(2) q by simp
    ultimately show ?thesis using True by (auto simp: enqueue_core_work_for_account_def Let_def)
  next
    case False
    then show ?thesis using r by (auto simp: enqueue_core_work_for_account_def Let_def)
  qed
  then show ?thesis
    by (auto simp: has_active_core_work_type_for_account_def sql_exists_iff active_of_def)
qed

lemma enqueued_is_active: "has_active_core_work_type_for_account a ty (snd (enqueue_core_work_for_account now a ty k p t))"
proof -
  let ?same = "\<lambda>r. core_key r = (a, ty, k)"
  have "\<exists>r' \<in> set (ct_rows (snd (enqueue_core_work_for_account now a ty k p t))). active_of a ty r'"
  proof (cases "sql_exists ?same (ct_rows t)")
    case True
    then obtain r where r: "r \<in> set (ct_rows t)" "?same r" by (auto simp: sql_exists_iff)
    then have "requeue_core_row now p r \<in> set (sql_update ?same (requeue_core_row now p) (ct_rows t))"
      unfolding sql_update_def by force
    moreover have "active_of a ty (requeue_core_row now p r)"
      using r(2) by (simp add: active_of_def requeue_core_row_def core_active_def core_key_def)
    ultimately show ?thesis using True by (auto simp: enqueue_core_work_for_account_def Let_def)
  next
    case False
    then show ?thesis by (simp add: enqueue_core_work_for_account_def Let_def active_of_def new_core_row_def core_active_def)
  qed
  then show ?thesis by (auto simp: has_active_core_work_type_for_account_def sql_exists_iff active_of_def)
qed

lemma scheduled_enqueue:
  "scheduled a ty w \<Longrightarrow> scheduled a ty (enqueue_core_work h b ty' k p w)"
  "scheduled a ty (enqueue_core_work h a ty k p w)"
  by (auto simp: enqueue_core_work_def Let_def intro: active_after_enqueue enqueued_is_active)

lemma scheduled_plan:
  "scheduled (cc_account_id cfg) ty w \<or> plan_has ty plan \<Longrightarrow> scheduled (cc_account_id cfg) ty (enqueue_plan h cfg k plan w)"
proof (induction plan arbitrary: w)
  case (Cons p plan)
  obtain ty' reason where p: "p = (ty', reason)" by (cases p)
  let ?w = "enqueue_core_work h (cc_account_id cfg) ty' k (reason_payload reason) w"
  have "scheduled (cc_account_id cfg) ty ?w \<or> plan_has ty plan"
    using Cons.prems scheduled_enqueue by (auto simp: plan_has_def p)
  from Cons.IH [OF this] show ?case by (simp add: enqueue_plan_def p)
qed (simp add: enqueue_plan_def plan_has_def)

lemma w_mail_simps [simp]:
  "w_mail (step_tick w) = w_mail w" "w_mail (set_core w t) = w_mail w"
  by (simp_all add: step_tick_def set_core_def)

lemma w_mail_enqueue [simp]: "w_mail (enqueue_core_work h a ty k p w) = w_mail w"
  by (simp add: enqueue_core_work_def Let_def)

lemma w_mail_plan [simp]: "w_mail (enqueue_plan h cfg k plan w) = w_mail w"
  by (induction plan arbitrary: w) (auto simp: enqueue_plan_def)

lemma w_mail_follow_up [simp]: "w_mail (enqueue_follow_up_work h cfg ty w) = w_mail w"
  by (simp add: enqueue_follow_up_work_def snapshot_def Let_def)

lemma scheduled_follow_up:
  assumes "(\<exists>m \<in> set (ms_emails (w_mail w)). analysis_is_missing (cc_account_id cfg) m) \<and> ty = Analyze
    \<or> (\<exists>m \<in> set (ms_emails (w_mail w)). location_is_missing (cc_account_id cfg) m) \<and> ty = Locate"
  shows "scheduled (cc_account_id cfg) ty (enqueue_follow_up_work h cfg completed w)"
proof -
  let ?s = "db_completeness_snapshot_for_account (w_now h w) (cc_account_id cfg) (w_mail w)"
  have "plan_has ty (follow_up_work_plan completed (cc_file_apply_enabled cfg) ?s)"
    using assms by (cases completed) (auto simp: follow_up_work_plan_def plan_has_def Let_def)
  then show ?thesis by (simp add: enqueue_follow_up_work_def snapshot_def Let_def scheduled_plan)
qed

text \<open>Whenever an item has been executed and marked done, its follow-up leaves the pipeline
  scheduled: if an email of the account still needs its analysis, a row of type \<^verbatim>\<open>analyze\<close> is
  active, and if one still needs its location, a row of type \<^verbatim>\<open>locate\<close> is. No backlog waits for
  the next idle poll.\<close>

theorem backlog_stays_scheduled:
  assumes "execute_work h e cfg w = (Inr (), w1)"
    and "m \<in> set (ms_emails (w_mail w1))"
    and "(analysis_is_missing (cc_account_id cfg) m \<and> ty = Analyze) \<or> (location_is_missing (cc_account_id cfg) m \<and> ty = Locate)"
  shows "has_active_core_work_type_for_account (cc_account_id cfg) ty (w_core (snd (process_claimed_work h cfg e w)))"
  unfolding process_claimed_work_def assms(1) Let_def
  using assms(2,3) by (auto intro!: scheduled_follow_up)

section \<open>The busy loop\<close>

text \<open>An \<^verbatim>\<open>analyze\<close> row of the account can be claimed now.\<close>

definition analyze_waiting :: "core_host \<Rightarrow> string \<Rightarrow> core_world \<Rightarrow> bool" where
  "analyze_waiting h a w \<longleftrightarrow>
     (\<exists>r \<in> set (ct_rows (w_core w)). cw_account r = a \<and> cw_type r = Analyze \<and> cw_status r = Pending \<and> cw_available r \<le> w_now h w)"

lemma waiting_later:
  "analyze_waiting h a w \<Longrightarrow> mono (sx_clock (hx_sub h)) \<Longrightarrow> set (ct_rows (w_core w)) \<subseteq> set (ct_rows (w_core w')) \<Longrightarrow> w_tick w \<le> w_tick w'
     \<Longrightarrow> analyze_waiting h a w'"
  unfolding analyze_waiting_def w_now_def by (meson monoD order_trans subsetD)

lemma waiting_scheduled: "analyze_waiting h a w \<Longrightarrow> scheduled a Analyze w"
  by (auto simp: analyze_waiting_def has_active_core_work_type_for_account_def sql_exists_iff core_active_def)

lemma w_tick_simps [simp]: "w_tick (step_tick w) = Suc (w_tick w)" "w_tick (set_core w t) = Suc (w_tick w)"
  by (simp_all add: w_tick_def step_tick_def set_core_def tick_def)

lemma waiting_enqueue:
  assumes mono: "mono (sx_clock (hx_sub h))"
    and w: "analyze_waiting h a w \<or> (\<not> scheduled a Analyze w \<and> ty = Analyze)"
  shows "analyze_waiting h a (enqueue_core_work h a ty k p w)"
proof (cases "should_coalesce_core_work ty \<and> scheduled a ty w")
  case True
  with w have "analyze_waiting h a w" by auto
  then have "analyze_waiting h a (step_tick w)" by (rule waiting_later [OF _ mono]) auto
  with True show ?thesis by (simp add: enqueue_core_work_def)
next
  case False
  let ?w1 = "if should_coalesce_core_work ty then step_tick w else w"
  let ?t = "snd (enqueue_core_work_for_account (w_now h ?w1) a ty k p (w_core w))"
  have e: "enqueue_core_work h a ty k p w = set_core ?w1 ?t" using False by (auto simp: enqueue_core_work_def Let_def)
  let ?same = "\<lambda>r. core_key r = (a, ty, k)"
  have le: "w_now h w \<le> w_now h (set_core ?w1 ?t)" "w_now h ?w1 \<le> w_now h (set_core ?w1 ?t)"
    using monoD [OF mono] by (auto simp: w_now_def)
  show ?thesis
  proof (cases "ty = Analyze")
    case ty: True
    then have none: "\<not> scheduled a Analyze w" using False by (simp add: should_coalesce_core_work_def)
    have "\<exists>r \<in> set (ct_rows ?t). cw_account r = a \<and> cw_type r = Analyze \<and> cw_status r = Pending \<and> cw_available r = w_now h ?w1"
    proof (cases "sql_exists ?same (ct_rows (w_core w))")
      case True
      then obtain r where r: "r \<in> set (ct_rows (w_core w))" "?same r" by (auto simp: sql_exists_iff)
      then have "cw_status r \<noteq> Processing" using none ty
        by (auto simp: has_active_core_work_type_for_account_def sql_exists_iff core_active_def core_key_def)
      moreover have "requeue_core_row (w_now h ?w1) p r \<in> set (ct_rows ?t)"
        using True r unfolding enqueue_core_work_for_account_def Let_def sql_update_def by force
      ultimately show ?thesis using r(2) ty
        by (intro bexI [of _ "requeue_core_row (w_now h ?w1) p r"]) (simp_all add: requeue_core_row_def core_key_def)
    next
      case no: False
      show ?thesis
        by (rule bexI [of _ "new_core_row (w_now h ?w1) (ct_next_id (w_core w)) a ty k p"])
          (use no ty in \<open>simp_all add: enqueue_core_work_for_account_def Let_def new_core_row_def\<close>)
    qed
    then show ?thesis unfolding e analyze_waiting_def using le(2) by auto
  next
    case ty: False
    with w obtain r where r: "r \<in> set (ct_rows (w_core w))" "cw_account r = a" "cw_type r = Analyze" "cw_status r = Pending"
      "cw_available r \<le> w_now h w" by (auto simp: analyze_waiting_def)
    have "\<not> ?same r" using r ty by (auto simp: core_key_def)
    then have "r \<in> set (ct_rows ?t)"
      using r(1) unfolding enqueue_core_work_for_account_def Let_def sql_update_def by force
    then show ?thesis unfolding e analyze_waiting_def using r le(1) by auto
  qed
qed

lemma not_scheduled_enqueue:
  assumes "ty \<noteq> Analyze" "\<not> scheduled a Analyze w"
  shows "\<not> scheduled a Analyze (enqueue_core_work h a ty k p w)"
proof -
  have "\<not> has_active_core_work_type_for_account a Analyze (snd (enqueue_core_work_for_account now a ty k p (w_core w)))" for now
    using assms
    by (auto simp: enqueue_core_work_for_account_def has_active_core_work_type_for_account_def sql_exists_iff Let_def
        sql_update_def new_core_row_def requeue_core_row_def core_active_def core_key_def split: if_splits)
  with assms(2) show ?thesis by (auto simp: enqueue_core_work_def Let_def)
qed

lemma waiting_plan:
  assumes mono: "mono (sx_clock (hx_sub h))"
  shows "analyze_waiting h (cc_account_id cfg) w \<or> (\<not> scheduled (cc_account_id cfg) Analyze w \<and> plan_has Analyze plan)
    \<Longrightarrow> analyze_waiting h (cc_account_id cfg) (enqueue_plan h cfg k plan w)"
proof (induction plan arbitrary: w)
  case (Cons p plan)
  obtain ty reason where p: "p = (ty, reason)" by (cases p)
  let ?a = "cc_account_id cfg" and ?w = "enqueue_core_work h (cc_account_id cfg) ty k (reason_payload reason) w"
  have "analyze_waiting h ?a ?w \<or> (\<not> scheduled ?a Analyze ?w \<and> plan_has Analyze plan)"
  proof (cases "analyze_waiting h ?a w \<or> ty = Analyze")
    case True
    then show ?thesis using Cons.prems waiting_enqueue [OF mono] by blast
  next
    case False
    then show ?thesis using Cons.prems not_scheduled_enqueue by (auto simp: plan_has_def p)
  qed
  from Cons.IH [OF this] show ?case by (simp add: enqueue_plan_def p)
qed (simp add: enqueue_plan_def plan_has_def)

lemma waiting_follow_up:
  assumes mono: "mono (sx_clock (hx_sub h))"
    and m: "m \<in> set (ms_emails (w_mail w))" "analysis_is_missing (cc_account_id cfg) m"
    and w: "analyze_waiting h (cc_account_id cfg) w \<or> \<not> scheduled (cc_account_id cfg) Analyze w"
  shows "analyze_waiting h (cc_account_id cfg) (enqueue_follow_up_work h cfg completed w)"
proof -
  let ?s = "db_completeness_snapshot_for_account (w_now h w) (cc_account_id cfg) (w_mail w)"
  have "plan_has Analyze (follow_up_work_plan completed (cc_file_apply_enabled cfg) ?s)"
    using m by (cases completed) (auto simp: follow_up_work_plan_def plan_has_def Let_def)
  moreover have "analyze_waiting h (cc_account_id cfg) (step_tick w) \<or> \<not> scheduled (cc_account_id cfg) Analyze (step_tick w)"
    using w waiting_later [OF _ mono, of "cc_account_id cfg" w "step_tick w"] by auto
  ultimately show ?thesis
    using waiting_plan [OF mono] by (simp add: enqueue_follow_up_work_def snapshot_def Let_def)
qed

text \<open>A host without errors, locks or effects: what the jobs do when they find no candidate.\<close>

definition quiet :: "core_host \<Rightarrow> bool" where
  "quiet h \<longleftrightarrow> (\<forall>n. hx_load_db h n = Inr ()) \<and> (\<forall>n a. hx_load_account h n a = Inr ()) \<and> (\<forall>n i. \<not> hx_skip h n i)
     \<and> (\<forall>n j w. hx_job h n j w = (Inr (), w)) \<and> mono (sx_clock (hx_sub h))"

lemma quiet_job: "quiet h \<Longrightarrow> run_job h j w = (Inr (), step_tick w)"
  by (simp add: quiet_def run_job_def)

lemma quiet_execute:
  assumes q: "quiet h" and ty: "ce_work_type e \<notin> {AssistantHeartbeat, SubagentTask}"
  obtains w1 where "execute_work h e cfg w = (Inr (), w1)" "w_core w1 = w_core w" "w_tick w \<le> w_tick w1"
    "ms_emails (w_mail w1) = ms_emails (w_mail w)"
proof -
  have t: "w_tick (w\<lparr>w_mail := ms\<rparr>) = w_tick w" for w ms by (simp add: w_tick_def)
  have "\<exists>w1. execute_work h e cfg w = (Inr (), w1) \<and> w_core w1 = w_core w \<and> w_tick w \<le> w_tick w1
      \<and> ms_emails (w_mail w1) = ms_emails (w_mail w)"
    using ty q by (cases "ce_work_type e")
      (auto simp: execute_work_def Let_def quiet_job [OF q] call_def quiet_def ctx_def t reset_folder_sync_cursors_for_account_def update_folders_def)
  with that show ?thesis by blast
qed

text \<open>One step of the loop: whatever pipeline item comes first, an \<^verbatim>\<open>analyze\<close> row waits afterwards.\<close>

lemma claim_single:
  assumes r: "core_reachable t" and c: "claim_core_work_for_account now skip a wid t = (Some e, t')"
  obtains r0 where "r0 \<in> set (ct_rows t)" "e = entry_of_row (lease_core_row now wid r0)"
    "ct_rows t' = sql_update (\<lambda>s. s = r0) (lease_core_row now wid) (ct_rows t)" "cw_account r0 = a"
    "\<And>s. s \<in> set (ct_rows t) \<Longrightarrow> cw_account s = a \<Longrightarrow> core_ready now skip s \<Longrightarrow> claim_order r0 \<le> claim_order s"
proof -
  note u = core_reachable_uniq_id [OF r]
  let ?sel = "claimed_set cw_account a (core_ready now skip) claim_order 1 (ct_rows t)"
  let ?l = "lease_core_row now wid"
  have "t' = t\<lparr>ct_rows := sql_update (\<lambda>s. s \<in> ?sel) ?l (ct_rows t)\<rparr>"
    using c by (auto simp: claim_core_work_for_account_def claim_rows_unfold [OF uniq_id_account [OF u]])
  then have t': "ct_rows t' = sql_update (\<lambda>s. s \<in> ?sel) ?l (ct_rows t)" by simp
  obtain r0 where r0: "r0 \<in> set (ct_rows t)" "cw_account r0 = a" "core_ready now skip r0" "e = entry_of_row (?l r0)"
      "?l r0 \<in> set (ct_rows t')"
    and least: "\<And>s. s \<in> set (ct_rows t) \<Longrightarrow> cw_account s = a \<Longrightarrow> core_ready now skip s \<Longrightarrow> claim_order r0 \<le> claim_order s"
    using core_claim_one [OF core_reachable_ok [OF r] c] by auto
  have "r0 \<in> ?sel"
  proof -
    from r0(5) obtain y where y: "y \<in> set (ct_rows t)" "?l r0 = (if y \<in> ?sel then ?l y else y)"
      unfolding t' sql_update_def set_map by blast
    from y(2) have "cw_id (?l r0) = cw_id (if y \<in> ?sel then ?l y else y)" by (rule arg_cong)
    then have "cw_id y = cw_id r0" by (simp add: lease_core_row_def split: if_splits)
    then have "y = r0" by (rule uniq_inj [OF u y(1) r0(1)])
    moreover have "?l r0 \<noteq> r0"
    proof
      assume "?l r0 = r0"
      then have "cw_status (?l r0) = cw_status r0" by simp
      with core_ready_not_processing [OF r0(3)] show False by (simp add: lease_core_row_def)
    qed
    ultimately show ?thesis using y(2) by metis
  qed
  moreover have "s = r0" if "s \<in> ?sel" for s
  proof -
    let ?L = "filter (\<lambda>s. s \<in> ?sel) (ct_rows t)"
    have "length ?L \<le> 1"
      using claimed_set_length [OF uniq_distinct [OF u], of cw_account a "core_ready now skip" claim_order 1] by simp
    moreover have "s \<in> set ?L" "r0 \<in> set ?L" using claimed_set_ready [OF that] claimed_set_ready [OF \<open>r0 \<in> ?sel\<close>] that \<open>r0 \<in> ?sel\<close> by auto
    ultimately show ?thesis by (cases ?L; cases "tl ?L") auto
  qed
  ultimately have eq: "(\<lambda>s. s \<in> ?sel) = (\<lambda>s. s = r0)" by blast
  show ?thesis by (rule that [OF r0(1,4) t' [unfolded eq] r0(2) least])
qed

lemma quiet_process:
  assumes q: "quiet h" and r: "core_reachable t1" and sa: "single_active a t1" and a: "a = cc_account_id cfg"
    and c: "claim_core_work_for_account now skip a wid t1 = (Some e, w_core w)"
    and an: "an \<in> set (ct_rows t1)" "cw_account an = a" "cw_type an = Analyze" "cw_status an = Pending" "core_ready now skip an"
      "cw_available an \<le> w_now h w"
    and m: "m \<in> set (ms_emails (w_mail w))" "analysis_is_missing a m"
  shows "ce_work_type e \<notin> {AssistantHeartbeat, SubagentTask} \<and> fst (process_claimed_work h cfg e w) = Inr ()
    \<and> analyze_waiting h a (snd (process_claimed_work h cfg e w))
    \<and> ms_emails (w_mail (snd (process_claimed_work h cfg e w))) = ms_emails (w_mail w)"
proof -
  have mono: "mono (sx_clock (hx_sub h))" using q by (simp add: quiet_def)
  note u = core_reachable_uniq_id [OF r]
  obtain r0 where r0: "r0 \<in> set (ct_rows t1)" "e = entry_of_row (lease_core_row now wid r0)" "cw_account r0 = a"
    and t2: "ct_rows (w_core w) = sql_update (\<lambda>s. s = r0) (lease_core_row now wid) (ct_rows t1)"
    and least: "claim_order r0 \<le> claim_order an"
    by (rule claim_single [OF r c]) (use an in blast)
  have ty: "ce_work_type e = cw_type r0" and i: "ce_id e = cw_id r0" using r0(2) by (simp_all add: entry_of_row_def lease_core_row_def)
  have "claim_class (cw_type r0) = 0" using least an(3) by (auto simp: claim_order_def claim_class_def less_eq_prod_def)
  then have pipe: "ce_work_type e \<notin> {AssistantHeartbeat, SubagentTask}" unfolding ty by (auto simp: claim_class_def split: if_splits)
  obtain w1 where x: "execute_work h e cfg w = (Inr (), w1)" "w_core w1 = w_core w" "w_tick w \<le> w_tick w1"
      "ms_emails (w_mail w1) = ms_emails (w_mail w)" by (rule quiet_execute [OF q pipe])
  let ?d = "\<lambda>s. s\<lparr>cw_status := Done, cw_locked := None, cw_worker := None, cw_error := None,
      cw_completed := Some (w_now h w1), cw_updated := w_now h w1\<rparr>"
  let ?w2 = "set_core w1 (snd (mark_core_work_done_for_account (w_now h w1) a (ce_id e) (w_core w1)))"
  have held: "core_held a (w_core w) (ce_id e)" by (rule claim_held [OF r c])
  then have ex: "sql_exists (at_core_id a (ce_id e)) (ct_rows (w_core w))"
    by (auto simp: core_held_def sql_exists_iff at_core_id_def)
  have rows: "ct_rows (w_core ?w2) = sql_update (at_core_id a (ce_id e)) ?d (ct_rows (w_core w))"
    using ex by (simp add: mark_core_work_done_for_account_def x(2))
  have "analyze_waiting h a ?w2 \<or> \<not> scheduled a Analyze ?w2"
  proof (cases "an = r0")
    case False
    then have "cw_id an \<noteq> ce_id e" using uniq_inj [OF u an(1) r0(1)] i by auto
    moreover have "an \<in> set (ct_rows (w_core w))" unfolding t2 sql_update_def using an(1) False by force
    ultimately have "an \<in> set (ct_rows (w_core ?w2))" unfolding rows sql_update_def at_core_id_def by force
    moreover have "cw_available an \<le> w_now h ?w2"
      using an(6) monoD [OF mono] x(3) by (auto simp: w_now_def intro: order_trans)
    ultimately show ?thesis using an by (auto simp: analyze_waiting_def)
  next
    case True
    have "\<not> active_of a Analyze s" if s: "s \<in> set (ct_rows (w_core ?w2))" for s
    proof
      assume act: "active_of a Analyze s"
      from s obtain y where y: "y \<in> set (ct_rows (w_core w))" "s = (if at_core_id a (ce_id e) y then ?d y else y)"
        unfolding rows sql_update_def set_map by blast
      with act have ny: "s = y" "\<not> at_core_id a (ce_id e) y" by (auto simp: active_of_def core_active_def split: if_splits)
      from y(1) obtain z where z: "z \<in> set (ct_rows t1)" "y = (if z = r0 then lease_core_row now wid z else z)"
        unfolding t2 sql_update_def set_map by blast
      have "z \<noteq> r0" using ny(2) z(2) r0(3) i by (auto simp: at_core_id_def lease_core_row_def)
      with z ny act have "z \<in> set (filter (active_of a Analyze) (ct_rows t1))" by simp
      moreover have "r0 \<in> set (filter (active_of a Analyze) (ct_rows t1))"
        using True an by (simp add: active_of_def core_active_def)
      moreover have "length (filter (active_of a Analyze) (ct_rows t1)) \<le> 1"
        using sa by (auto simp: single_active_def should_coalesce_core_work_def)
      ultimately show False using \<open>z \<noteq> r0\<close>
        by (cases "filter (active_of a Analyze) (ct_rows t1)"; cases "tl (filter (active_of a Analyze) (ct_rows t1))") auto
    qed
    then show ?thesis by (auto simp: has_active_core_work_type_for_account_def sql_exists_iff active_of_def)
  qed
  then have "analyze_waiting h (cc_account_id cfg) (enqueue_follow_up_work h cfg (ce_work_type e) ?w2)"
    using m x(4) unfolding a by (intro waiting_follow_up [OF mono]) auto
  then show ?thesis using pipe x(4) unfolding process_claimed_work_def x(1) Let_def a by simp
qed

lemma quiet_once:
  assumes q: "quiet h" and r: "core_reachable (w_core w)" and sa: "single_active (cc_account_id cfg) (w_core w)"
    and wt: "analyze_waiting h (cc_account_id cfg) w"
    and m: "m \<in> set (ms_emails (w_mail w))" "analysis_is_missing (cc_account_id cfg) m"
  shows "fst (run_once h cfg w) = Inr True" "analyze_waiting h (cc_account_id cfg) (snd (run_once h cfg w))"
    "ms_emails (w_mail (snd (run_once h cfg w))) = ms_emails (w_mail w)"
proof -
  let ?a = "cc_account_id cfg"
  have mono: "mono (sx_clock (hx_sub h))" using q by (simp add: quiet_def)
  let ?t1 = "snd (reset_stale_core_work_for_account (w_now h w) ?a (cc_stale_after_secs cfg) (w_core w))"
  let ?w1 = "set_core w ?t1"
  have k1: "keeps ?a UNIV (w_core w) ?t1" by (rule keeps_stale)
  have r1: "core_reachable ?t1" and sa1: "single_active ?a ?t1" using k1 r sa by (auto simp: keeps_def)
  obtain an where an: "an \<in> set (ct_rows (w_core w))" "cw_account an = ?a" "cw_type an = Analyze" "cw_status an = Pending"
    "cw_available an \<le> w_now h w" using wt by (auto simp: analyze_waiting_def)
  have "\<not> core_stale (w_now h w) ?a (cc_stale_after_secs cfg) an" using an(4) by (simp add: core_stale_def)
  then have an1: "an \<in> set (ct_rows ?t1)"
    using an(1) unfolding reset_stale_core_work_for_account_def sql_update_def by force
  have le: "w_now h w \<le> w_now h ?w1" using monoD [OF mono] by (simp add: w_now_def)
  have ready: "core_ready (w_now h ?w1) (hx_skip h (w_tick ?w1)) an" using an le q by (auto simp: core_ready_def quiet_def)
  obtain c t2 where c: "claim_core_work_for_account (w_now h ?w1) (hx_skip h (w_tick ?w1)) ?a (cc_worker_id cfg) (w_core ?w1) = (c, t2)"
    by (rule prod.exhaust)
  have c': "claim_core_work_for_account (w_now h ?w1) (hx_skip h (w_tick ?w1)) ?a (cc_worker_id cfg) ?t1 = (c, w_core (set_core ?w1 t2))"
    using c by simp
  obtain e where e: "c = Some e"
    using core_claim_one [OF core_reachable_ok [OF r1] c'] an1 an(2) ready by (cases c) auto
  have le2: "cw_available an \<le> w_now h (set_core ?w1 t2)"
    using an(5) monoD [OF mono, of "w_tick w" "Suc (Suc (w_tick w))"] by (simp add: w_now_def)
  have m2: "m \<in> set (ms_emails (w_mail (set_core ?w1 t2)))" using m(1) by simp
  note p = quiet_process [OF q r1 sa1 refl c' [unfolded e] an1 an(2-4) ready le2 m2 m(2)]
  let ?p = "process_claimed_work h cfg e (set_core ?w1 t2)"
  have ty: "ce_work_type e \<noteq> SubagentTask" using p by simp
  have "run_once h cfg w = (case fst ?p of Inl x \<Rightarrow> Inl x | Inr _ \<Rightarrow> Inr True, snd ?p)"
    unfolding run_once_def Let_def c e using ty by (simp add: case_prod_beta)
  with p show "fst (run_once h cfg w) = Inr True" "analyze_waiting h (cc_account_id cfg) (snd (run_once h cfg w))"
    "ms_emails (w_mail (snd (run_once h cfg w))) = ms_emails (w_mail w)" by simp_all
qed

definition iterate_once :: "core_host \<Rightarrow> coord_config \<Rightarrow> nat \<Rightarrow> core_world \<Rightarrow> core_world" where
  "iterate_once h cfg n w = ((\<lambda>w. snd (run_once h cfg w)) ^^ n) w"

text \<open>C32: The loop sleeps and polls only when an iteration finds no work. When an email of the
  account counts as missing its analysis while the analysis job has nothing to do for it, which
  the candidates' back-off (up to 64 minutes, not part of the count) brings about, that never
  happens: every iteration finishes an item and its follow-up plans the next analysis at once, so
  the coordinator spins without a pause for as long as the situation lasts.\<close>

theorem backlog_busy_loop:
  assumes "quiet h" and "core_reachable (w_core w)" and "single_active (cc_account_id cfg) (w_core w)"
    and "analyze_waiting h (cc_account_id cfg) w"
    and "m \<in> set (ms_emails (w_mail w))" "analysis_is_missing (cc_account_id cfg) m"
  shows "fst (run_once h cfg (iterate_once h cfg n w)) = Inr True"
proof -
  have j: "jobs_ok h (cc_account_id cfg)" using assms(1) by (simp add: jobs_ok_def quiet_def)
  let ?w = "\<lambda>n. iterate_once h cfg n w"
  have "core_reachable (w_core (?w n)) \<and> single_active (cc_account_id cfg) (w_core (?w n))
      \<and> analyze_waiting h (cc_account_id cfg) (?w n) \<and> m \<in> set (ms_emails (w_mail (?w n)))" for n
  proof (induction n)
    case 0
    then show ?case using assms by (simp add: iterate_once_def)
  next
    case (Suc n)
    have "?w (Suc n) = snd (run_once h cfg (?w n))" by (simp add: iterate_once_def)
    with Suc show ?case using quiet_once [OF assms(1), of "?w n" cfg m] assms(6) keeps_run_once [OF j, of "?w n"]
      by (simp add: keeps_def)
  qed
  then show ?thesis using quiet_once(1) [OF assms(1)] assms(6) by blast
qed

section \<open>Witnesses\<close>

text \<open>An email whose analysis failed a moment ago: missing, but not yet a candidate again.\<close>

definition backoff_email :: email where
  "backoff_email =
     (new_email ''a'' ''m1'')\<lparr>em_received_date := Some 50, em_location := Some ''INBOX'',
       em_body_text := Some ''hello'', em_analysis_attempts := 6, em_analysis_failed_at := Some 90\<rparr>"

definition backlog_world :: core_world where
  "backlog_world = set_core (world_example [backoff_email])
     (snd (enqueue_core_work_for_account 100 ''a'' Analyze ''pipeline'' JNull (w_core (world_example [backoff_email]))))"

definition locate_entry :: core_entry where
  "locate_entry = \<lparr>ce_id = 7, ce_work_type = Locate, ce_payload = JNull, ce_attempt_count = 1, ce_max_attempts = 3\<rparr>"

lemma backlog_stays_scheduled_witness:
  "has_active_core_work_type_for_account ''a'' Analyze
     (w_core (snd (process_claimed_work (quiet_host 9) coord_example locate_entry (world_example [backoff_email]))))"
proof -
  have a: "cc_account_id coord_example = ''a''" by (simp add: coord_example_def)
  show ?thesis unfolding a [symmetric]
    by (rule backlog_stays_scheduled [where m = backoff_email and ?w1.0 = "step_tick (world_example [backoff_email])"])
      (simp_all add: execute_work_def locate_entry_def run_job_def quiet_host_def world_example_def step_tick_def a
        analysis_is_missing_def backoff_email_def new_email_def empty_mail_store_def has_body_def)
qed

lemma backlog_busy_loop_witness:
  "get_unanalyzed_emails_for_account 130 ''a'' 50 False (w_mail backlog_world) = []
   \<and> fst (run_once (quiet_host 0) coord_example (iterate_once (quiet_host 0) coord_example 7 backlog_world)) = Inr True"
proof
  show "get_unanalyzed_emails_for_account 130 ''a'' 50 False (w_mail backlog_world) = []" by code_simp
  have a: "cc_account_id coord_example = ''a''" by (simp add: coord_example_def)
  show "fst (run_once (quiet_host 0) coord_example (iterate_once (quiet_host 0) coord_example 7 backlog_world)) = Inr True"
  proof (rule backlog_busy_loop [where m = backoff_email])
    show "quiet (quiet_host 0)" by (auto simp: quiet_def quiet_host_def sub_host_example_def mono_def)
    have k: "keeps ''a'' UNIV (w_core (world_example [backoff_email])) (w_core backlog_world)"
      unfolding backlog_world_def w_core_simps
      by (rule keeps_enqueue) (simp add: world_example_def sub_world_example_def w_core_def
          has_active_core_work_type_for_account_def sql_exists_def)
    then show "core_reachable (w_core backlog_world)" "single_active (cc_account_id coord_example) (w_core backlog_world)"
      by (simp_all add: keeps_def a)
    show "analyze_waiting (quiet_host 0) (cc_account_id coord_example) backlog_world"
      by (simp add: analyze_waiting_def backlog_world_def a w_core_simps enqueue_core_work_for_account_def
          world_example_def sub_world_example_def w_core_def sql_exists_def new_core_row_def w_now_def w_tick_def
          quiet_host_def sub_host_example_def set_core_def tick_def)
    show "backoff_email \<in> set (ms_emails (w_mail backlog_world))" by (simp add: backlog_world_def world_example_def)
    show "analysis_is_missing (cc_account_id coord_example) backoff_email"
      by (simp add: analysis_is_missing_def a backoff_email_def new_email_def has_body_def)
  qed
qed

end
