(* ===== verification/FolderPath.thy ===== *)
theory FolderPath
  imports Prelude
begin

text \<open>
  Folder paths (\<^verbatim>\<open>src/cli_commands/folder_location_cli.rs\<close>): the segments of a path are cleaned
  for IMAP and put in title case, and a few paths are rewritten to the canonical ones. \<open>policy\<close> is
  the variable \<^verbatim>\<open>FOLDER_CASING_POLICY\<close>. The facts at the end say what a canonical path looks like.
\<close>

text \<open>\<^verbatim>\<open>str::split\<close> with a string as separator; the code's separators are not empty.\<close>

fun split_on_acc :: "string \<Rightarrow> string \<Rightarrow> string \<Rightarrow> string list" where
  "split_on_acc sep acc [] = [rev acc]"
| "split_on_acc sep acc (c # cs) =
     (if sep \<noteq> [] \<and> prefix sep (c # cs) then rev acc # split_on_acc sep [] (drop (length sep - 1) cs)
      else split_on_acc sep (c # acc) cs)"

definition split_on :: "string \<Rightarrow> string \<Rightarrow> string list" where
  "split_on sep s = split_on_acc sep [] s"

definition path_segments :: "string \<Rightarrow> string \<Rightarrow> string list" where
  "path_segments delim path = filter (\<lambda>s. s \<noteq> []) (split_on delim path)"

section \<open>Segments\<close>

definition bad_folder_char :: "char \<Rightarrow> bool" where
  "bad_folder_char c \<longleftrightarrow>
     c \<in> set [CHR ''.'', CHR '':'', CHR '';'', CHR 0x22, CHR 0x27, CHR 0x60, CHR ''*'', CHR ''?'', CHR ''<'',
              CHR ''>'', CHR ''|'', CHR 0x5C]
     \<or> is_control c"

definition sanitize_folder_segment_for_imap :: "string \<Rightarrow> string" where
  "sanitize_folder_segment_for_imap segment =
     join '' ''
       (split_whitespace
         (concat (map (\<lambda>c. if c = CHR ''&'' then '' And '' else if bad_folder_char c then '' '' else [c]) (trim segment))))"

fun title_case_from :: "bool \<Rightarrow> string \<Rightarrow> string" where
  "title_case_from up [] = []"
| "title_case_from up (c # cs) =
     (if c = CHR '' '' \<or> c = CHR ''-'' \<or> c = CHR ''_'' then c # title_case_from True cs
      else (if up then to_upper_char c else to_lower_char c) # title_case_from False cs)"

definition to_title_case :: "string \<Rightarrow> string" where
  "to_title_case s = title_case_from True s"

definition clean_segment :: "string \<Rightarrow> string \<Rightarrow> string" where
  "clean_segment policy segment =
     (let sanitized = sanitize_folder_segment_for_imap segment in
      if policy = ''preserve'' then sanitized else to_title_case sanitized)"

definition normalize_folder_path :: "string \<Rightarrow> string \<Rightarrow> string \<Rightarrow> string" where
  "normalize_folder_path policy path delim =
     join delim (filter (\<lambda>s. s \<noteq> []) (map (clean_segment policy) (path_segments delim path)))"

section \<open>Canonical paths\<close>

definition canonical_segments :: "string list \<Rightarrow> string list option" where
  "canonical_segments segs =
     (case map to_lower segs of
        [a] \<Rightarrow>
          (if a = ''security'' then Some [''Personal'', ''Security'', ''Alerts'']
           else if a = ''personal'' then Some [''Personal'', ''General'']
           else if a = ''work'' then Some [''Work'', ''General'']
           else if a = ''financial'' then Some [''Financial'', ''General'']
           else if a = ''social'' then Some [''Social'', ''General'']
           else if a = ''education'' then Some [''Education'', ''General'']
           else if a = ''health'' then Some [''Health'', ''General'']
           else if a = ''travel'' then Some [''Travel'', ''General'']
           else if a = ''newsletters'' then Some [''Newsletters'', ''General'']
           else None)
      | [a, b] \<Rightarrow>
          (if a = ''security'' then Some [''Personal'', ''Security'', segs ! 1]
           else if a = ''personal'' \<and> b = ''security'' then Some [''Personal'', ''Security'', ''Alerts'']
           else if a = ''personal'' \<and> b = ''property'' then Some [''Personal'', ''Property'', ''General'']
           else if a = ''personal'' \<and> b = ''shopping'' then Some [''Personal'', ''Shopping'', ''General'']
           else None)
      | _ \<Rightarrow> None)"

definition canonicalize_location_folder_path :: "string \<Rightarrow> string \<Rightarrow> string \<Rightarrow> string" where
  "canonicalize_location_folder_path policy path delim =
     (let normalized = normalize_folder_path policy path delim in
      case canonical_segments (path_segments delim normalized) of
        Some segs \<Rightarrow> join delim segs
      | None \<Rightarrow> normalized)"

text \<open>\<^verbatim>\<open>should_create_missing_folder_for_filing\<close>: top-level folders that may always be created.\<close>

definition canonical_roots :: "string list" where
  "canonical_roots = [''Work'', ''Personal'', ''Financial'', ''Social'', ''Education'', ''Health'', ''Travel'',
                      ''Newsletters'', ''Security'']"

definition should_create_missing_folder_for_filing :: "string \<Rightarrow> string \<Rightarrow> bool \<Rightarrow> bool" where
  "should_create_missing_folder_for_filing target delim create_if_missing \<longleftrightarrow>
     create_if_missing \<or> (case path_segments delim target of [] \<Rightarrow> False | s # _ \<Rightarrow> s \<in> set canonical_roots)"

section \<open>Letters\<close>

definition letters :: "char list" where
  "letters = map char_of ([65..<91] @ [97..<123 :: nat])"

lemma char_of_letter: "(65 \<le> n \<and> n < 91) \<or> (97 \<le> n \<and> n < 123) \<Longrightarrow> char_of (n::nat) \<in> set letters"
  unfolding letters_def set_map set_append set_upt by (rule imageI) simp

lemma case_class:
  assumes "list_all (\<lambda>c. \<not> P c) letters"
  shows "P (to_upper_char c) = P c" and "P (to_lower_char c) = P c"
proof -
  have no: "\<not> P x" if "x \<in> set letters" for x using assms that by (simp add: list_all_iff)
  let ?n = "of_char c :: nat"
  have c: "c = char_of ?n" by simp
  show "P (to_upper_char c) = P c"
  proof (cases "97 \<le> ?n \<and> ?n \<le> 122")
    case True
    then have "char_of ?n \<in> set letters" by (intro char_of_letter) auto
    with c have "c \<in> set letters" by metis
    moreover have "to_upper_char c \<in> set letters"
      using True by (auto simp: to_upper_char_def Let_def intro!: char_of_letter)
    ultimately show ?thesis using no by simp
  qed (auto simp: to_upper_char_def Let_def)
  show "P (to_lower_char c) = P c"
  proof (cases "65 \<le> ?n \<and> ?n \<le> 90")
    case True
    then have "char_of ?n \<in> set letters" by (intro char_of_letter) auto
    with c have "c \<in> set letters" by metis
    moreover have "to_lower_char c \<in> set letters"
      using True by (auto simp: to_lower_char_def Let_def intro!: char_of_letter)
    ultimately show ?thesis using no by simp
  qed (auto simp: to_lower_char_def Let_def)
qed

lemma to_upper_char_idem [simp]: "to_upper_char (to_upper_char c) = to_upper_char c"
proof -
  have "(of_char c :: nat) < 256" by simp
  then show ?thesis by (auto simp: to_upper_char_def Let_def of_char_of take_bit_eq_mod)
qed

text \<open>A character that case mapping neither moves nor meets: the delimiters of IMAP are such.\<close>

definition plain_delim :: "char \<Rightarrow> bool" where
  "plain_delim d \<longleftrightarrow> d \<notin> set letters \<and> \<not> is_ws d"

lemma case_class_facts [simp]:
  "is_ws (to_upper_char c) = is_ws c" "is_ws (to_lower_char c) = is_ws c"
  "bad_folder_char (to_upper_char c) = bad_folder_char c" "bad_folder_char (to_lower_char c) = bad_folder_char c"
proof -
  have "list_all (\<lambda>c. \<not> is_ws c) letters" by code_simp
  from case_class [OF this] show "is_ws (to_upper_char c) = is_ws c" "is_ws (to_lower_char c) = is_ws c" .
  have "list_all (\<lambda>c. \<not> bad_folder_char c) letters" by code_simp
  from case_class [OF this]
  show "bad_folder_char (to_upper_char c) = bad_folder_char c" "bad_folder_char (to_lower_char c) = bad_folder_char c" .
qed

lemma case_delim:
  assumes "d \<notin> set letters"
  shows "to_upper_char c = d \<longleftrightarrow> c = d" "to_lower_char c = d \<longleftrightarrow> c = d"
proof -
  have "list_all (\<lambda>c. \<not> c = d) letters" using assms by (auto simp: list_all_iff)
  from case_class [OF this] show "to_upper_char c = d \<longleftrightarrow> c = d" "to_lower_char c = d \<longleftrightarrow> c = d" .
qed

lemma separators_not_letters: "list_all (\<lambda>d. d \<notin> set letters) '' -_&''"
  by code_simp

lemma case_separators [simp]:
  "to_upper_char c = CHR '' '' \<longleftrightarrow> c = CHR '' ''" "to_lower_char c = CHR '' '' \<longleftrightarrow> c = CHR '' ''"
  "to_upper_char c = CHR ''-'' \<longleftrightarrow> c = CHR ''-''" "to_lower_char c = CHR ''-'' \<longleftrightarrow> c = CHR ''-''"
  "to_upper_char c = CHR ''_'' \<longleftrightarrow> c = CHR ''_''" "to_lower_char c = CHR ''_'' \<longleftrightarrow> c = CHR ''_''"
  "to_upper_char c = CHR ''&'' \<longleftrightarrow> c = CHR ''&''" "to_lower_char c = CHR ''&'' \<longleftrightarrow> c = CHR ''&''"
  using separators_not_letters by (simp_all add: case_delim)

section \<open>Words\<close>

text \<open>A word: not empty, no blanks, no character the sanitizer replaces.\<close>

definition word_ok :: "string \<Rightarrow> bool" where
  "word_ok w \<longleftrightarrow> w \<noteq> [] \<and> list_all (\<lambda>c. \<not> is_ws c) w"

definition kept_char :: "char \<Rightarrow> bool" where
  "kept_char c \<longleftrightarrow> \<not> bad_folder_char c \<and> c \<noteq> CHR ''&''"

lemma split_ws_acc_words:
  "list_all (\<lambda>c. \<not> is_ws c) acc \<Longrightarrow> list_all word_ok (split_ws_acc acc s)"
  by (induction acc s rule: split_ws_acc.induct) (simp_all add: word_ok_def list_all_rev)

lemma split_whitespace_words: "list_all word_ok (split_whitespace s)"
  by (simp add: split_whitespace_def split_ws_acc_words)

lemma split_ws_acc_subset: "w \<in> set (split_ws_acc acc s) \<Longrightarrow> set w \<subseteq> set acc \<union> set s"
  by (induction acc s rule: split_ws_acc.induct) (auto split: if_splits)

lemma split_whitespace_subset: "w \<in> set (split_whitespace s) \<Longrightarrow> set w \<subseteq> set s"
  using split_ws_acc_subset [of w "[]" s] by (simp add: split_whitespace_def)

lemma split_ws_acc_word:
  "list_all (\<lambda>c. \<not> is_ws c) w \<Longrightarrow> split_ws_acc acc (w @ s) = split_ws_acc (rev w @ acc) s"
  by (induction w arbitrary: acc) auto

lemma is_ws_blank [simp]: "is_ws (CHR '' '')"
  by code_simp

lemma split_ws_acc_join:
  "list_all word_ok ws \<Longrightarrow> split_ws_acc [] (join '' '' ws) = ws"
proof (induction ws rule: induct_list012)
  case (2 w)
  then show ?case using split_ws_acc_word [of w "[]" "[]"] by (simp add: word_ok_def)
next
  case (3 w v ws)
  then have "split_ws_acc [] (w @ '' '' @ join '' '' (v # ws)) = split_ws_acc (rev w) ('' '' @ join '' '' (v # ws))"
    using split_ws_acc_word [of w "[]"] by (simp add: word_ok_def)
  with 3 show ?case by (simp add: word_ok_def)
qed simp

lemma split_whitespace_join: "list_all word_ok ws \<Longrightarrow> split_whitespace (join '' '' ws) = ws"
  by (simp add: split_whitespace_def split_ws_acc_join)

lemma set_join: "set (join sep ws) \<subseteq> set sep \<union> \<Union> (set ` set ws)"
  by (induction sep ws rule: join.induct) auto

lemma join_eq_Nil: "list_all (\<lambda>w. w \<noteq> []) ws \<Longrightarrow> join sep ws = [] \<longleftrightarrow> ws = []"
  by (induction sep ws rule: join.induct) auto

lemma hd_join: "ws \<noteq> [] \<Longrightarrow> hd ws \<noteq> [] \<Longrightarrow> hd (join sep ws) = hd (hd ws)"
  by (induction sep ws rule: join.induct) auto

lemma last_join: "ws \<noteq> [] \<Longrightarrow> list_all (\<lambda>w. w \<noteq> []) ws \<Longrightarrow> last (join sep ws) = last (last ws)"
  by (induction sep ws rule: join.induct) (auto simp: join_eq_Nil)

lemma trim_id: "s = [] \<or> (\<not> is_ws (hd s) \<and> \<not> is_ws (last s)) \<Longrightarrow> trim s = s"
proof (cases s rule: rev_cases)
  case (snoc ys y)
  assume s: "s = [] \<or> (\<not> is_ws (hd s) \<and> \<not> is_ws (last s))"
  with snoc have "dropWhile is_ws s = s" by (simp add: dropWhile_eq_self_iff)
  with s snoc show ?thesis by (simp add: trim_def trim_start_def trim_end_def)
qed (simp add: trim_def trim_start_def trim_end_def)

lemma trim_join: "list_all word_ok ws \<Longrightarrow> trim (join '' '' ws) = join '' '' ws"
proof (rule trim_id)
  assume ws: "list_all word_ok ws"
  show "join '' '' ws = [] \<or> (\<not> is_ws (hd (join '' '' ws)) \<and> \<not> is_ws (last (join '' '' ws)))"
  proof (cases "ws = []")
    case False
    from ws have ne: "list_all (\<lambda>w. w \<noteq> []) ws" by (auto simp: word_ok_def list_all_iff)
    from False ws have "word_ok (hd ws)" "word_ok (last ws)" by (simp_all add: list_all_iff)
    then have "\<not> is_ws (hd (hd ws))" "\<not> is_ws (last (last ws))" "hd ws \<noteq> []"
      by (auto simp: word_ok_def list_all_iff)
    with False ne show ?thesis by (simp add: hd_join last_join)
  qed simp
qed

section \<open>Clean segments\<close>

definition kept_words :: "string list \<Rightarrow> bool" where
  "kept_words ws \<longleftrightarrow> list_all word_ok ws \<and> list_all (list_all kept_char) ws"

lemma kept_literals [simp]: "kept_char (CHR '' '')" "kept_char (CHR ''A'')" "kept_char (CHR ''n'')" "kept_char (CHR ''d'')"
  by code_simp+

lemma sanitize_words: "\<exists>ws. kept_words ws \<and> sanitize_folder_segment_for_imap s = join '' '' ws"
proof -
  define repl where "repl = (\<lambda>c. if c = CHR ''&'' then '' And '' else if bad_folder_char c then '' '' else [c])"
  define raw where "raw = concat (map repl (trim s))"
  have "list_all kept_char (repl c)" for c by (simp add: repl_def kept_char_def [of c])
  then have "list_all kept_char raw" by (auto simp: raw_def list_all_iff)
  then have "list_all (list_all kept_char) (split_whitespace raw)"
    using split_whitespace_subset [of _ raw] by (fastforce simp: list_all_iff)
  then have "kept_words (split_whitespace raw)" by (simp add: kept_words_def split_whitespace_words)
  then show ?thesis
    unfolding sanitize_folder_segment_for_imap_def raw_def repl_def by blast
qed

lemma concat_map_id: "list_all (\<lambda>c. f c = [c]) s \<Longrightarrow> concat (map f s) = s"
  by (induction s) auto

lemma join_kept: "kept_words ws \<Longrightarrow> list_all kept_char (join '' '' ws)"
  using set_join [of "'' ''" ws] by (fastforce simp: kept_words_def list_all_iff)

lemma sanitize_join: "kept_words ws \<Longrightarrow> sanitize_folder_segment_for_imap (join '' '' ws) = join '' '' ws"
proof -
  assume ws: "kept_words ws"
  then have w: "list_all word_ok ws" by (simp add: kept_words_def)
  have "list_all (\<lambda>c. (if c = CHR ''&'' then '' And '' else if bad_folder_char c then '' '' else [c]) = [c]) (join '' '' ws)"
    using join_kept [OF ws] by (simp add: list_all_iff kept_char_def)
  from concat_map_id [OF this] show ?thesis
    by (simp only: sanitize_folder_segment_for_imap_def trim_join [OF w] split_whitespace_join [OF w])
qed

lemma title_case_append_blank:
  "title_case_from up (w @ CHR '' '' # s) = title_case_from up w @ CHR '' '' # title_case_from True s"
  by (induction up w rule: title_case_from.induct) auto

lemma title_case_join: "title_case_from True (join '' '' ws) = join '' '' (map (title_case_from True) ws)"
  by (induction ws rule: induct_list012) (simp_all add: title_case_append_blank)

lemma title_case_idem: "title_case_from up (title_case_from up s) = title_case_from up s"
  by (induction up s rule: title_case_from.induct) auto

lemma title_case_class:
  assumes "\<And>c. P (to_upper_char c) = P c" "\<And>c. P (to_lower_char c) = P c"
  shows "list_all P (title_case_from up s) = list_all P s"
  by (induction up s rule: title_case_from.induct) (auto simp: assms)

lemma length_title_case [simp]: "length (title_case_from up s) = length s"
  by (induction up s rule: title_case_from.induct) auto

lemma kept_words_title_case: "kept_words ws \<Longrightarrow> kept_words (map (title_case_from True) ws)"
proof -
  have "list_all (\<lambda>c. \<not> is_ws c) (title_case_from up w) = list_all (\<lambda>c. \<not> is_ws c) w" for up w
    by (rule title_case_class) simp_all
  moreover have "list_all kept_char (title_case_from up w) = list_all kept_char w" for up w
    by (rule title_case_class) (simp_all add: kept_char_def)
  moreover have "title_case_from up w \<noteq> [] \<longleftrightarrow> w \<noteq> []" for up w
    by (metis length_title_case length_0_conv)
  ultimately show "kept_words ws \<Longrightarrow> kept_words (map (title_case_from True) ws)"
    by (simp add: kept_words_def list.pred_map comp_def word_ok_def list_all_iff)
qed

lemma clean_segment_words: "\<exists>ws. kept_words ws \<and> clean_segment policy s = join '' '' ws"
proof -
  obtain ws where ws: "kept_words ws" "sanitize_folder_segment_for_imap s = join '' '' ws"
    using sanitize_words by blast
  then show ?thesis
    using kept_words_title_case [OF ws(1)] by (auto simp: clean_segment_def Let_def to_title_case_def title_case_join)
qed

lemma clean_segment_idem: "clean_segment policy (clean_segment policy s) = clean_segment policy s"
proof -
  obtain ws where ws: "kept_words ws" "sanitize_folder_segment_for_imap s = join '' '' ws"
    using sanitize_words by blast
  let ?tc = "map (title_case_from True) ws"
  have "sanitize_folder_segment_for_imap (join '' '' ?tc) = join '' '' ?tc"
    by (rule sanitize_join [OF kept_words_title_case [OF ws(1)]])
  moreover have "title_case_from True (join '' '' ?tc) = join '' '' ?tc"
    by (simp add: title_case_join title_case_idem comp_def)
  ultimately show ?thesis
    using ws sanitize_join [OF ws(1)] by (simp add: clean_segment_def Let_def to_title_case_def title_case_join)
qed

lemma clean_segment_no_delim:
  assumes d: "plain_delim d" and s: "d \<notin> set s"
  shows "d \<notin> set (clean_segment policy s)"
proof -
  let ?raw = "concat (map (\<lambda>c. if c = CHR ''&'' then '' And '' else if bad_folder_char c then '' '' else [c]) (trim s))"
  have and': "d \<notin> set '' And ''"
  proof -
    have "list_all (\<lambda>c. is_ws c \<or> c \<in> set letters) '' And ''" by code_simp
    with d show ?thesis by (auto simp: plain_delim_def list_all_iff)
  qed
  have "set (trim s) \<subseteq> set s"
    unfolding trim_def trim_end_def trim_start_def set_rev
    by (metis set_dropWhile_subset set_rev subset_trans)
  with s have t: "d \<notin> set (trim s)" by blast
  have "d \<notin> set ?raw" using t and' by (auto split: if_splits)
  then have "\<forall>w \<in> set (split_whitespace ?raw). d \<notin> set w" using split_whitespace_subset [of _ ?raw] by blast
  then have san: "d \<notin> set (sanitize_folder_segment_for_imap s)"
    unfolding sanitize_folder_segment_for_imap_def
    using set_join [of "'' ''" "split_whitespace ?raw"] and' by auto
  have "list_all (\<lambda>c. c \<noteq> d) (title_case_from True x) = list_all (\<lambda>c. c \<noteq> d) x" for x
    by (rule title_case_class) (use d in \<open>simp_all add: case_delim plain_delim_def\<close>)
  then have "d \<notin> set (title_case_from True x) \<longleftrightarrow> d \<notin> set x" for x
    by (simp add: list_all_iff) blast
  with san show ?thesis by (simp add: clean_segment_def Let_def to_title_case_def)
qed

section \<open>Splitting and joining\<close>

lemma split_by_nonempty: "split_by p s \<noteq> []"
  by (induction p s rule: split_by.induct) (auto split: list.splits)

lemma split_on_acc_single: "split_on_acc [d] acc s = (case split_by (\<lambda>c. c = d) s of x # xs \<Rightarrow> (rev acc @ x) # xs)"
  by (induction "[d]" acc s rule: split_on_acc.induct)
    (auto simp: split_by_nonempty split: list.splits)

lemma split_on_single: "split_on [d] s = split_by (\<lambda>c. c = d) s"
  using split_by_nonempty [of "\<lambda>c. c = d" s] by (auto simp: split_on_def split_on_acc_single split: list.splits)

lemma split_by_no_sep: "w \<in> set (split_by p s) \<Longrightarrow> c \<in> set w \<Longrightarrow> \<not> p c"
  by (induction p s arbitrary: w rule: split_by.induct) (fastforce split: if_splits list.splits)+

lemma split_by_word: "list_all (\<lambda>c. \<not> p c) w \<Longrightarrow> split_by p w = [w]"
  by (induction w) auto

lemma split_by_append:
  "list_all (\<lambda>c. \<not> p c) w \<Longrightarrow> p d \<Longrightarrow> split_by p (w @ d # s) = w # split_by p s"
  by (induction w) auto

lemma split_by_join:
  "ws \<noteq> [] \<Longrightarrow> list_all (\<lambda>w. d \<notin> set w) ws \<Longrightarrow> split_by (\<lambda>c. c = d) (join [d] ws) = ws"
proof (induction ws rule: induct_list012)
  case (2 w)
  then show ?case using split_by_word [of "\<lambda>c. c = d" w] by (auto simp: list_all_iff)
next
  case (3 w v ws)
  then show ?case using split_by_append [of "\<lambda>c. c = d" w d "join [d] (v # ws)"] by (auto simp: list_all_iff)
qed simp

lemma path_segments_join:
  assumes "list_all (\<lambda>w. w \<noteq> [] \<and> d \<notin> set w) ws"
  shows "path_segments [d] (join [d] ws) = ws"
proof (cases "ws = []")
  case False
  with assms have "split_by (\<lambda>c. c = d) (join [d] ws) = ws"
    by (intro split_by_join) (auto simp: list_all_iff)
  with assms show ?thesis by (simp add: path_segments_def split_on_single list_all_iff)
qed (simp add: path_segments_def split_on_single)

lemma path_segments_ok: "list_all (\<lambda>w. w \<noteq> [] \<and> d \<notin> set w) (path_segments [d] s)"
  using split_by_no_sep [of _ "\<lambda>c. c = d" s] by (auto simp: path_segments_def split_on_single list_all_iff)

section \<open>Canonical paths are stable\<close>

definition good_segment :: "string \<Rightarrow> char \<Rightarrow> string \<Rightarrow> bool" where
  "good_segment policy d s \<longleftrightarrow> s \<noteq> [] \<and> d \<notin> set s \<and> clean_segment policy s = s"

lemma good_segments_path: "list_all (good_segment policy d) segs \<Longrightarrow> path_segments [d] (join [d] segs) = segs"
  by (rule path_segments_join) (auto simp: good_segment_def list_all_iff)

lemma normalize_good:
  assumes "plain_delim d"
  shows "\<exists>segs. list_all (good_segment policy d) segs \<and> normalize_folder_path policy path [d] = join [d] segs"
proof -
  let ?segs = "filter (\<lambda>s. s \<noteq> []) (map (clean_segment policy) (path_segments [d] path))"
  have "list_all (good_segment policy d) ?segs"
    using path_segments_ok [of d path] clean_segment_no_delim [OF assms]
    by (auto simp: good_segment_def list_all_iff clean_segment_idem)
  then show ?thesis by (auto simp: normalize_folder_path_def)
qed

lemma normalize_join_good:
  assumes "list_all (good_segment policy d) segs"
  shows "normalize_folder_path policy (join [d] segs) [d] = join [d] segs"
proof -
  have "map (clean_segment policy) segs = segs" and "filter (\<lambda>s. s \<noteq> []) segs = segs"
    using assms by (auto simp: good_segment_def list_all_iff intro: map_idI)
  then show ?thesis by (simp add: normalize_folder_path_def good_segments_path [OF assms])
qed

definition canonical_names :: "string list" where
  "canonical_names =
     [''Personal'', ''Security'', ''Alerts'', ''General'', ''Work'', ''Financial'', ''Social'', ''Education'', ''Health'',
      ''Travel'', ''Newsletters'', ''Property'', ''Shopping'']"

definition is_letter :: "char \<Rightarrow> bool" where
  "is_letter c \<longleftrightarrow> (let n = (of_char c :: nat) in (65 \<le> n \<and> n < 91) \<or> (97 \<le> n \<and> n < 123))"

lemma is_letter_letters: "is_letter c \<Longrightarrow> c \<in> set letters"
  using char_of_letter [of "of_char c"] by (simp add: is_letter_def Let_def)

lemma canonical_names_letters: "list_all (\<lambda>s. s \<noteq> [] \<and> list_all is_letter s) canonical_names"
  by code_simp

lemma canonical_names_sanitized: "list_all (\<lambda>s. sanitize_folder_segment_for_imap s = s) canonical_names"
  by code_simp

lemma canonical_names_title_case: "list_all (\<lambda>s. to_title_case s = s) canonical_names"
  by code_simp

lemma good_names:
  assumes "plain_delim d" "s \<in> set canonical_names"
  shows "good_segment policy d s"
  using assms canonical_names_letters canonical_names_sanitized canonical_names_title_case
  by (auto simp: good_segment_def clean_segment_def plain_delim_def list_all_iff Let_def dest: is_letter_letters)

lemma good_literals:
  assumes "plain_delim d"
  shows "list_all (good_segment policy d)
     [''Personal'', ''Security'', ''Alerts'', ''General'', ''Work'', ''Financial'', ''Social'', ''Education'', ''Health'',
      ''Travel'', ''Newsletters'', ''Property'', ''Shopping'']"
  using good_names [OF assms] unfolding list_all_iff canonical_names_def by blast

lemma canonical_segments_2:
  "canonical_segments [''Personal'', ''General''] = None" "canonical_segments [''Work'', ''General''] = None"
  "canonical_segments [''Financial'', ''General''] = None" "canonical_segments [''Social'', ''General''] = None"
  "canonical_segments [''Education'', ''General''] = None" "canonical_segments [''Health'', ''General''] = None"
  "canonical_segments [''Travel'', ''General''] = None" "canonical_segments [''Newsletters'', ''General''] = None"
  by code_simp+

lemma canonical_segments_3 [simp]: "canonical_segments [a, b, c] = None"
  by (simp add: canonical_segments_def)

lemma canonical_segments_step:
  assumes d: "plain_delim d" and segs: "list_all (good_segment policy d) segs" and c: "canonical_segments segs = Some cs"
  shows "list_all (good_segment policy d) cs \<and> canonical_segments cs = None"
proof -
  consider (one) a where "segs = [a]" | (two) a b where "segs = [a, b]"
    using c by (auto simp: canonical_segments_def split: list.splits)
  then show ?thesis
  proof cases
    case one
    with c good_literals [OF d, of policy] show ?thesis
      by (auto simp: canonical_segments_def [of "[a]"] canonical_segments_2 split: if_splits)
  next
    case two
    with c segs good_literals [OF d, of policy] show ?thesis
      by (auto simp: canonical_segments_def [of "[a, b]"] canonical_segments_2 split: if_splits)
  qed
qed

lemma canonicalize_form:
  assumes d: "plain_delim d"
  shows "\<exists>segs. list_all (good_segment policy d) segs \<and> canonical_segments segs = None
    \<and> canonicalize_location_folder_path policy path [d] = join [d] segs"
proof -
  obtain segs where segs: "list_all (good_segment policy d) segs" "normalize_folder_path policy path [d] = join [d] segs"
    using normalize_good [OF d] by blast
  show ?thesis
  proof (cases "canonical_segments segs")
    case None
    with segs show ?thesis
      by (auto simp: canonicalize_location_folder_path_def Let_def good_segments_path [OF segs(1)])
  next
    case (Some cs)
    with segs canonical_segments_step [OF d segs(1) Some] show ?thesis
      by (auto simp: canonicalize_location_folder_path_def Let_def good_segments_path [OF segs(1)])
  qed
qed

lemma canonicalize_join:
  assumes "list_all (good_segment policy d) segs" "canonical_segments segs = None"
  shows "canonicalize_location_folder_path policy (join [d] segs) [d] = join [d] segs"
  by (simp add: canonicalize_location_folder_path_def normalize_join_good [OF assms(1)]
      good_segments_path [OF assms(1)] assms(2))

end
