(* ===== verification/EmailAnalysis.thy ===== *)
theory EmailAnalysis
  imports Completeness FolderPath
begin

text \<open>
  The other statements of \<^verbatim>\<open>src/database/email_analysis.rs\<close> on the mail tables: the columns an
  analysis writes, the status of the action taken on an email, failed attempts, the recommended
  folder, the emails waiting to be filed or to be cleaned up, and deletion.
\<close>

section \<open>Results of an analysis\<close>

record ai_fields =
  ai_message_id :: string
  ai_spam_status :: "string option"
  ai_phishing_status :: "string option"
  ai_marketing_status :: "string option"
  ai_otp_status :: "string option"
  ai_otp_code :: "string option"
  ai_otp_expires :: "timestamp option"
  ai_threat_level :: "string option"
  ai_threat_indicators :: "json option"
  ai_summary :: "json option"
  ai_human_summary :: "string option"
  ai_category :: "string option"
  ai_subcategory :: "string option"
  ai_organization :: "string option"
  ai_topic :: "string option"
  ai_email_type :: "string option"
  ai_location_recommendation :: "string option"
  ai_create_if_missing :: "bool option"
  ai_offer_expires :: "timestamp option"

definition analyzed_row :: "timestamp \<Rightarrow> ai_fields \<Rightarrow> email \<Rightarrow> email" where
  "analyzed_row now i m =
     m\<lparr>em_spam_status := coalesce (ai_spam_status i) (em_spam_status m),
       em_phishing_status := coalesce (ai_phishing_status i) (em_phishing_status m),
       em_marketing_status := coalesce (ai_marketing_status i) (em_marketing_status m),
       em_otp_status := coalesce (ai_otp_status i) (em_otp_status m),
       em_otp_code := coalesce (ai_otp_code i) (em_otp_code m),
       em_otp_expires := coalesce (ai_otp_expires i) (em_otp_expires m),
       em_threat_level := coalesce (ai_threat_level i) (em_threat_level m),
       em_threat_indicators := coalesce (ai_threat_indicators i) (em_threat_indicators m),
       em_ai_summary := coalesce (ai_summary i) (em_ai_summary m),
       em_human_summary := coalesce (ai_human_summary i) (em_human_summary m),
       em_category := coalesce (ai_category i) (em_category m),
       em_subcategory := coalesce (ai_subcategory i) (em_subcategory m),
       em_organization := coalesce (ai_organization i) (em_organization m),
       em_topic := coalesce (ai_topic i) (em_topic m),
       em_email_type := coalesce (ai_email_type i) (em_email_type m),
       em_location_recommendation := coalesce (ai_location_recommendation i) (em_location_recommendation m),
       em_create_if_missing := coalesce (ai_create_if_missing i) (em_create_if_missing m),
       em_offer_expires := coalesce (ai_offer_expires i) (em_offer_expires m),
       em_analyzed_at := Some now,
       em_analysis_failed_at := None,
       em_analysis_permanent_failure := False,
       em_last_analysis_error := None,
       em_action_status := None,
       em_action_applied_at := None\<rparr>"

definition update_ai_fields_for_account :: "timestamp \<Rightarrow> string \<Rightarrow> ai_fields \<Rightarrow> mail_store \<Rightarrow> int result \<times> mail_store" where
  "update_ai_fields_for_account now a i ms =
     update_emails_checked ''update_ai_fields'' (email_at a (ai_message_id i)) (analyzed_row now i) ms"

definition set_analyzed_by_for_account :: "string \<Rightarrow> string \<Rightarrow> string option \<Rightarrow> mail_store \<Rightarrow> int \<times> mail_store" where
  "set_analyzed_by_for_account a mid by_whom ms =
     update_emails (email_at a mid) (\<lambda>m. m\<lparr>em_analyzed_by := by_whom\<rparr>) ms"

definition record_analysis_attempt_failed_for_account ::
  "timestamp \<Rightarrow> string \<Rightarrow> string \<Rightarrow> string \<Rightarrow> mail_store \<Rightarrow> mail_store" where
  "record_analysis_attempt_failed_for_account now a mid e ms =
     snd (update_emails (email_at a mid)
            (\<lambda>m. m\<lparr>em_analysis_attempts := em_analysis_attempts m + 1, em_analysis_failed_at := Some now,
                  em_last_analysis_error := Some (take 2000 e)\<rparr>) ms)"

definition mark_analysis_permanent_failure_for_account :: "string \<Rightarrow> string \<Rightarrow> mail_store \<Rightarrow> mail_store" where
  "mark_analysis_permanent_failure_for_account a mid ms =
     snd (update_emails (email_at a mid) (\<lambda>m. m\<lparr>em_analysis_permanent_failure := True\<rparr>) ms)"

section \<open>Actions\<close>

definition get_emails_pending_action_for_account :: "string \<Rightarrow> nat \<Rightarrow> mail_store \<Rightarrow> email list" where
  "get_emails_pending_action_for_account a n ms =
     sql_top (\<lambda>m. desc_nulls_last (em_received_date m)) n
       (filter (\<lambda>m. em_account m = a \<and> em_analyzed_at m \<noteq> None
                  \<and> null_or_in [''pending_trash'', ''pending_junk''] (em_action_status m)
                  \<and> em_deleted_at m = None
                  \<and> (em_phishing_status m \<noteq> None \<or> em_spam_status m \<noteq> None \<or> em_otp_status m \<noteq> None
                     \<or> em_threat_level m \<noteq> None)) (ms_emails ms))"

definition set_action_status_for_account ::
  "string \<Rightarrow> string \<Rightarrow> string option \<Rightarrow> mail_store \<Rightarrow> int result \<times> mail_store" where
  "set_action_status_for_account a mid status ms =
     update_emails_checked ''set_action_status_for_account'' (email_at a mid)
       (\<lambda>m. m\<lparr>em_action_status := status, em_action_applied_at := None\<rparr>) ms"

definition mark_email_action_applied_for_account ::
  "timestamp \<Rightarrow> string \<Rightarrow> string \<Rightarrow> string \<Rightarrow> mail_store \<Rightarrow> int result \<times> mail_store" where
  "mark_email_action_applied_for_account now a mid action ms =
     update_emails_checked ''mark_email_action_applied'' (email_at a mid)
       (\<lambda>m. m\<lparr>em_action_status := Some action, em_action_applied_at := Some now\<rparr>) ms"

text \<open>The insert fails when there is no such email.\<close>

definition store_otp_code_for_account ::
  "string \<Rightarrow> string \<Rightarrow> string \<Rightarrow> timestamp option \<Rightarrow> mail_store \<Rightarrow> unit result \<times> mail_store" where
  "store_otp_code_for_account a mid code expires ms =
     (if sql_exists (email_at a mid) (ms_emails ms)
      then (Inr (), ms\<lparr>ms_otp_codes := ms_otp_codes ms
              @ [\<lparr>ot_account = a, ot_message_id = mid, ot_code = code, ot_expires = expires\<rparr>]\<rparr>)
      else (Inl [''store_otp_code''], ms))"

text \<open>
  The candidates of the lifecycle clean-up. \<^verbatim>\<open>action_status NOT IN ('lifecycle_trashed')\<close> is not
  true of a row without a status.
\<close>

definition lifecycle_candidate :: "timestamp \<Rightarrow> string \<Rightarrow> int \<Rightarrow> int \<Rightarrow> email \<Rightarrow> bool" where
  "lifecycle_candidate now a otp_max_age newsletter_max_days m \<longleftrightarrow>
     em_account m = a \<and> em_deleted_at m = None
     \<and> (case em_analyzed_at m of
          None \<Rightarrow> False
        | Some analyzed \<Rightarrow>
            (em_otp_status m = Some ''otp''
             \<and> (case em_otp_expires m of Some t \<Rightarrow> t < now | None \<Rightarrow> analyzed < now - secs otp_max_age))
            \<or> (em_email_type m = Some ''newsletter''
               \<and> (case em_received_date m of None \<Rightarrow> False | Some t \<Rightarrow> t < now - secs (86400 * newsletter_max_days))))
     \<and> (case em_action_status m of None \<Rightarrow> False | Some s \<Rightarrow> s \<noteq> ''lifecycle_trashed'')"

definition asc_nulls_last :: "timestamp option \<Rightarrow> nat \<times> int" where
  "asc_nulls_last x = (case x of None \<Rightarrow> (1, 0) | Some t \<Rightarrow> (0, t))"

definition get_lifecycle_cleanup_candidates_for_account ::
  "timestamp \<Rightarrow> string \<Rightarrow> int \<Rightarrow> int \<Rightarrow> nat \<Rightarrow> mail_store \<Rightarrow> email list" where
  "get_lifecycle_cleanup_candidates_for_account now a otp_max_age newsletter_max_days n ms =
     sql_top (\<lambda>m. asc_nulls_last (em_received_date m)) n
       (filter (lifecycle_candidate now a otp_max_age newsletter_max_days) (ms_emails ms))"

section \<open>Folders\<close>

definition update_location_recommendation_for_account ::
  "string \<Rightarrow> string \<Rightarrow> string \<Rightarrow> bool \<Rightarrow> mail_store \<Rightarrow> int \<times> mail_store" where
  "update_location_recommendation_for_account a mid loc create ms =
     update_emails (email_at a mid) (\<lambda>m. m\<lparr>em_location_recommendation := Some loc, em_create_if_missing := Some create\<rparr>) ms"

definition account_delimiter :: "folder list \<Rightarrow> string" where
  "account_delimiter folders =
     (case folders of [] \<Rightarrow> ''/'' | f # _ \<Rightarrow> (case fo_delimiter f of None \<Rightarrow> ''/'' | Some d \<Rightarrow> d))"

text \<open>Every prefix of the path that names a folder is selectable; a path without folders is.\<close>

definition is_path_selectable :: "string \<Rightarrow> mail_store \<Rightarrow> string \<Rightarrow> bool" where
  "is_path_selectable a ms path =
     (let folders = list_imap_folders_for_account a ms;
          delim = account_delimiter folders;
          segs = path_segments delim path
      in list_all (\<lambda>k. case find_opt (\<lambda>f. fo_name f = join delim (take (k + 1) segs)) folders of
                         Some f \<Rightarrow> \<not> fo_noselect f
                       | None \<Rightarrow> True) [0..<length segs])"

record pending_location =
  pl_message_id :: string
  pl_location :: "string option"
  pl_location_recommendation :: string
  pl_create_if_missing :: "bool option"
  pl_uid :: "int option"
  pl_uid_validity :: "int option"

definition pending_of :: "email \<Rightarrow> pending_location" where
  "pending_of m =
     \<lparr>pl_message_id = em_message_id m, pl_location = em_location m,
      pl_location_recommendation = (case em_location_recommendation m of None \<Rightarrow> [] | Some r \<Rightarrow> r),
      pl_create_if_missing = em_create_if_missing m, pl_uid = em_uid m, pl_uid_validity = em_uid_validity m\<rparr>"

text \<open>The same condition as in \<open>filing_is_pending\<close>, the one the snapshot counts.\<close>

definition get_emails_with_pending_location_for_account :: "timestamp \<Rightarrow> string \<Rightarrow> mail_store \<Rightarrow> pending_location list" where
  "get_emails_with_pending_location_for_account now a ms =
     map pending_of
       (sort_key (\<lambda>m. desc_nulls_last (em_received_date m))
         (filter
           (\<lambda>m. em_account m = a \<and> em_location m \<noteq> None \<and> em_deleted_at m = None
              \<and> em_location_recommendation m \<noteq> None
              \<and> em_action_status m \<noteq> Some ''trashed'' \<and> em_action_status m \<noteq> Some ''junked''
              \<and> em_spam_status m \<noteq> Some ''spam'' \<and> em_phishing_status m \<noteq> Some ''phishing''
              \<and> em_threat_level m \<noteq> Some ''high'' \<and> em_threat_level m \<noteq> Some ''critical''
              \<and> em_user_pinned_folder m = None
              \<and> (case em_filing_lock_until m of None \<Rightarrow> True | Some t \<Rightarrow> t \<le> now)
              \<and> map_option (\<lambda>r. to_lower (sql_trim r)) (em_location_recommendation m)
                  \<noteq> map_option (\<lambda>l. to_lower (sql_trim l)) (em_location m))
           (ms_emails ms)))"

section \<open>Deletion\<close>

text \<open>Rows that refer to a deleted email go with it.\<close>

definition delete_emails :: "(email \<Rightarrow> bool) \<Rightarrow> mail_store \<Rightarrow> int \<times> mail_store" where
  "delete_emails p ms =
     (let gone = email_key ` set (filter p (ms_emails ms)) in
      (sql_count p (ms_emails ms),
       ms\<lparr>ms_emails := filter (\<lambda>m. \<not> p m) (ms_emails ms),
          ms_events := filter (\<lambda>e. (le_account e, le_message_id e) \<notin> gone) (ms_events ms),
          ms_otp_codes := filter (\<lambda>c. (ot_account c, ot_message_id c) \<notin> gone) (ms_otp_codes ms),
          ms_body := (ms_body ms)\<lparr>bt_rows :=
            filter (\<lambda>r. (bq_account r, bq_message_id r) \<notin> gone) (bt_rows (ms_body ms))\<rparr>\<rparr>))"

definition delete_email_for_account :: "string \<Rightarrow> string \<Rightarrow> mail_store \<Rightarrow> int \<times> mail_store" where
  "delete_email_for_account a mid ms = delete_emails (email_at a mid) ms"

definition prune_emails_for_account :: "string \<Rightarrow> string option \<Rightarrow> string option \<Rightarrow> mail_store \<Rightarrow> int \<times> mail_store" where
  "prune_emails_for_account a category subcategory ms =
     delete_emails
       (\<lambda>m. em_account m = a
          \<and> (case category of None \<Rightarrow> True | Some c \<Rightarrow> em_category m = Some c)
          \<and> (case subcategory of None \<Rightarrow> True | Some s \<Rightarrow> em_subcategory m = Some s)) ms"

end
