(* ===== verification/MailIngest.thy ===== *)
theory MailIngest
  imports EmailAnalysis
begin

text \<open>
  Envelopes into the mail tables: \<^verbatim>\<open>upsert_emails_from_envelope\<close> of \<^verbatim>\<open>schema.sql\<close> and
  the methods of \<^verbatim>\<open>src/database/email_ingest.rs\<close> that do not store bodies. A payload is a JSON
  array; its elements hold strings, integers, arrays of strings and null. \<open>ts\<close> is PostgreSQL's
  cast of a text to a timestamp. An element without a message id, or a cast that fails, aborts the
  whole statement. \<^verbatim>\<open>REAL\<close> confidences are rationals.

  An email that shows up in another folder than the one recorded has been moved by the user: the
  move is recorded, the folder is learnt for the sender and its domain, and the email is pinned there.
\<close>

section \<open>Reading a payload\<close>

text \<open>\<^verbatim>\<open>(elem->>k)::integer\<close>: the outer option is failure, the inner \<^verbatim>\<open>NULL\<close>.\<close>

definition json_int4 :: "string \<Rightarrow> json \<Rightarrow> int option option" where
  "json_int4 k elem =
     (case jget k elem of
        None \<Rightarrow> Some None
      | Some JNull \<Rightarrow> Some None
      | Some (JInt n) \<Rightarrow> if - 2147483648 \<le> n \<and> n \<le> 2147483647 then Some (Some n) else None
      | Some (JString s) \<Rightarrow> map_option Some (parse_i32 (trim s))
      | _ \<Rightarrow> None)"

definition json_text_array :: "string \<Rightarrow> json \<Rightarrow> string list" where
  "json_text_array k elem =
     (case Option.bind (jget k elem) as_array of None \<Rightarrow> [] | Some xs \<Rightarrow> List.map_filter as_str xs)"

definition json_timestamp :: "(string \<Rightarrow> timestamp option) \<Rightarrow> string \<Rightarrow> json \<Rightarrow> timestamp option option" where
  "json_timestamp ts k elem = (case get_str k elem of None \<Rightarrow> Some None | Some s \<Rightarrow> map_option Some (ts s))"

record envelope_row =
  ev_message_id :: string
  ev_location :: "string option"
  ev_uid :: "int option"
  ev_uid_validity :: "int option"
  ev_subject :: "string option"
  ev_sender :: "string option"
  ev_to :: "string list"
  ev_cc :: "string list"
  ev_bcc :: "string list"
  ev_received_date :: "timestamp option"

definition read_envelope :: "(string \<Rightarrow> timestamp option) \<Rightarrow> json \<Rightarrow> envelope_row option" where
  "read_envelope ts elem =
     (case (json_int4 ''uid'' elem, json_int4 ''uid_validity'' elem, nullif_blank (get_str ''message_id'' elem),
            json_timestamp ts ''received_date'' elem) of
        (Some uid, Some v, Some mid, Some d) \<Rightarrow>
          Some \<lparr>ev_message_id = mid, ev_location = nullif_blank (get_str ''location'' elem), ev_uid = uid,
                ev_uid_validity = v, ev_subject = nullif_blank (get_str ''subject'' elem),
                ev_sender = nullif_blank (get_str ''sender'' elem),
                ev_to = json_text_array ''recipients_to'' elem, ev_cc = json_text_array ''recipients_cc'' elem,
                ev_bcc = json_text_array ''recipients_bcc'' elem, ev_received_date = d\<rparr>
      | _ \<Rightarrow> None)"

section \<open>User moves\<close>

text \<open>Both places are known and differ up to case.\<close>

definition moved_by_user :: "envelope_row \<Rightarrow> email \<Rightarrow> bool" where
  "moved_by_user e m \<longleftrightarrow>
     (case (ev_location e, em_location m) of (Some new, Some old) \<Rightarrow> to_lower new \<noteq> to_lower old | _ \<Rightarrow> False)"

definition learn_rule :: "string \<Rightarrow> string \<Rightarrow> string \<Rightarrow> string \<Rightarrow> rat \<Rightarrow> rat \<Rightarrow> rat \<Rightarrow> learning_rule list \<Rightarrow> learning_rule list" where
  "learn_rule a scope value folder initial step cap rules =
     (let same = (\<lambda>r. lr_account r = a \<and> lr_scope_type r = scope \<and> lr_scope_value r = value \<and> lr_folder r = folder) in
      if sql_exists same rules
      then sql_update same (\<lambda>r. r\<lparr>lr_support := lr_support r + 1, lr_confidence := min cap (lr_confidence r + step)\<rparr>) rules
      else rules @ [\<lparr>lr_account = a, lr_scope_type = scope, lr_scope_value = value, lr_folder = folder,
                     lr_confidence = initial, lr_support = 1\<rparr>])"

text \<open>\<^verbatim>\<open>split_part(sender, '@', 2)\<close> up to the first character that cannot be in a host name.\<close>

definition sender_domain :: "string \<Rightarrow> string option" where
  "sender_domain sender =
     (let part = (case split_by (\<lambda>c. c = CHR ''@'') sender of _ # p # _ \<Rightarrow> p | _ \<Rightarrow> []);
          domain = to_lower (takeWhile (\<lambda>c. is_ascii_alnum c \<or> c = CHR ''.'' \<or> c = CHR ''-'') part)
      in if domain = [] then None else Some domain)"

definition record_user_move :: "string \<Rightarrow> envelope_row \<Rightarrow> mail_store \<Rightarrow> mail_store" where
  "record_user_move a e ms =
     (case (ev_location e, find_opt (\<lambda>m. email_at a (ev_message_id e) m \<and> moved_by_user e m) (ms_emails ms)) of
        (Some loc, Some m) \<Rightarrow>
          (let event = \<lparr>le_account = a, le_message_id = ev_message_id e, le_event_type = ''user_moved'', le_actor = ''user'',
                        le_from = em_location m, le_to = loc, le_reason = ''observed_imap_location_change'',
                        le_metadata = JObject [(''source'', JString ''upsert_emails_from_envelope'')]\<rparr>;
               ms1 = ms\<lparr>ms_events := ms_events ms @ [event]\<rparr>
           in case ev_sender e of
                None \<Rightarrow> ms1
              | Some sender \<Rightarrow>
                  (let rules1 = learn_rule a ''sender'' (to_lower (sql_trim sender)) loc (65/100) (5/100) (95/100) (ms_rules ms1);
                       rules2 = (case sender_domain sender of
                                   None \<Rightarrow> rules1
                                 | Some dmn \<Rightarrow> learn_rule a ''domain'' dmn loc (55/100) (3/100) (90/100) rules1)
                   in ms1\<lparr>ms_rules := rules2\<rparr>))
      | _ \<Rightarrow> ms)"

section \<open>The upsert\<close>

definition merge_envelope :: "timestamp \<Rightarrow> envelope_row \<Rightarrow> email \<Rightarrow> email" where
  "merge_envelope now e m =
     (let moved = moved_by_user e m in
      m\<lparr>em_location := coalesce (ev_location e) (em_location m),
        em_last_user_moved_at := (if moved then Some now else em_last_user_moved_at m),
        em_user_pinned_folder := (if moved then ev_location e else em_user_pinned_folder m),
        em_filing_lock_until := (if moved then Some (now + secs (720 * 3600)) else em_filing_lock_until m),
        em_last_filed_by := (if moved then Some ''user'' else em_last_filed_by m),
        em_move_count := (if moved then em_move_count m + 1 else em_move_count m),
        em_uid := coalesce (ev_uid e) (em_uid m),
        em_uid_validity := coalesce (ev_uid_validity e) (em_uid_validity m),
        em_subject := coalesce (ev_subject e) (em_subject m),
        em_sender := coalesce (ev_sender e) (em_sender m),
        em_received_date := coalesce (ev_received_date e) (em_received_date m),
        em_recipients_to := (if ev_to e \<noteq> [] then ev_to e else em_recipients_to m),
        em_recipients_cc := (if ev_cc e \<noteq> [] then ev_cc e else em_recipients_cc m),
        em_recipients_bcc := (if ev_bcc e \<noteq> [] then ev_bcc e else em_recipients_bcc m)\<rparr>)"

definition envelope_email :: "string \<Rightarrow> envelope_row \<Rightarrow> email" where
  "envelope_email a e =
     (new_email a (ev_message_id e))
       \<lparr>em_location := ev_location e, em_uid := ev_uid e, em_uid_validity := ev_uid_validity e,
        em_subject := ev_subject e, em_sender := ev_sender e, em_received_date := ev_received_date e,
        em_recipients_to := ev_to e, em_recipients_cc := ev_cc e, em_recipients_bcc := ev_bcc e\<rparr>"

definition upsert_envelope :: "timestamp \<Rightarrow> string \<Rightarrow> envelope_row \<Rightarrow> mail_store \<Rightarrow> mail_store" where
  "upsert_envelope now a e ms =
     (let ms1 = record_user_move a e ms;
          same = email_at a (ev_message_id e)
      in ms1\<lparr>ms_emails := (if sql_exists same (ms_emails ms1) then sql_update same (merge_envelope now e) (ms_emails ms1)
                           else ms_emails ms1 @ [envelope_email a e])\<rparr>)"

definition upsert_emails_from_envelope ::
  "(string \<Rightarrow> timestamp option) \<Rightarrow> timestamp \<Rightarrow> string \<Rightarrow> json \<Rightarrow> mail_store \<Rightarrow> mail_store option" where
  "upsert_emails_from_envelope ts now a payload ms =
     (case as_array payload of
        None \<Rightarrow> None
      | Some elems \<Rightarrow>
          (if list_all (\<lambda>elem. read_envelope ts elem \<noteq> None) elems
           then Some (fold (upsert_envelope now a) (List.map_filter (read_envelope ts) elems) ms)
           else None))"

definition upsert_emails_from_envelope_for_account ::
  "(string \<Rightarrow> timestamp option) \<Rightarrow> timestamp \<Rightarrow> string \<Rightarrow> json \<Rightarrow> mail_store \<Rightarrow> unit result \<times> mail_store" where
  "upsert_emails_from_envelope_for_account ts now a payload ms =
     (case upsert_emails_from_envelope ts now a payload ms of
        None \<Rightarrow> (Inl [''Failed to upsert emails from envelope (ensure schema.sql is applied)''], ms)
      | Some ms' \<Rightarrow> (Inr (), ms'))"

text \<open>The key of \<^verbatim>\<open>emails_missing_message_id\<close> is account, folder, UID and UIDVALIDITY.\<close>

definition record_missing_message_id_for_account ::
  "timestamp \<Rightarrow> string \<Rightarrow> string \<Rightarrow> int \<Rightarrow> int \<Rightarrow> mail_store \<Rightarrow> mail_store" where
  "record_missing_message_id_for_account now a loc uid v ms =
     (let same = (\<lambda>r. mi_account r = a \<and> mi_folder r = loc \<and> mi_uid r = uid \<and> mi_uid_validity r = v) in
      ms\<lparr>ms_missing_ids :=
        (if sql_exists same (ms_missing_ids ms)
         then sql_update same (\<lambda>r. r\<lparr>mi_attempted_at := now\<rparr>) (ms_missing_ids ms)
         else ms_missing_ids ms @ [\<lparr>mi_account = a, mi_folder = loc, mi_uid = uid, mi_uid_validity = v,
                                    mi_attempted_at = now\<rparr>])\<rparr>)"

section \<open>With the body queue\<close>

text \<open>The transactions of \<open>BodySyncQueue\<close> on these tables: the envelopes with the queue of their bodies,
  and the queue alone. A row of the queue refers to an email.\<close>

definition emails_in :: "mail_store \<Rightarrow> string \<Rightarrow> string \<Rightarrow> bool" where
  "emails_in ms a mid \<longleftrightarrow> sql_exists (email_at a mid) (ms_emails ms)"

definition envelope_tx :: "(string \<Rightarrow> timestamp option) \<Rightarrow> timestamp \<Rightarrow> string \<Rightarrow> json \<Rightarrow> body_item list \<Rightarrow> mail_store
    \<Rightarrow> unit result \<times> mail_store" where
  "envelope_tx ts now a payload items ms =
     (let (r, ms', t) = upsert_envelopes_and_enqueue_body_sync_for_account (upsert_emails_from_envelope ts now) emails_in
                          now a payload items (ms, ms_body ms)
      in (r, ms'\<lparr>ms_body := t\<rparr>))"

definition queue_bodies :: "timestamp \<Rightarrow> string \<Rightarrow> body_item list \<Rightarrow> mail_store \<Rightarrow> int result \<times> mail_store" where
  "queue_bodies now a items ms =
     (let (r, t) = enqueue_body_sync_items_for_account now (emails_in ms) a items (ms_body ms) in (r, ms\<lparr>ms_body := t\<rparr>))"

end
