(* ===== verification/MailFacts.thy ===== *)
theory MailFacts
  imports MailIngest
begin

text \<open>
  What every statement on the mail tables keeps. \<open>row_update\<close> is the contract of an \<^verbatim>\<open>UPDATE\<close>
  of emails: it touches one account and no key; \<open>safe_update\<close> adds that it cannot violate a
  \<^verbatim>\<open>CHECK\<close>. Each statement of the code is an interpretation. \<open>mail_step\<close> is one statement of
  the program, \<open>mail_reachable\<close> the states of the tables, \<open>mail_ok\<close> their invariant: keys are unique,
  the checks hold, what refers to an email refers to one that exists, folder priorities are 1 to 10.
\<close>

section \<open>The invariant\<close>

definition email_keys :: "mail_store \<Rightarrow> (string \<times> string) set" where
  "email_keys ms = email_key ` set (ms_emails ms)"

definition refs_ok :: "mail_store \<Rightarrow> bool" where
  "refs_ok ms \<longleftrightarrow>
     (\<forall>e \<in> set (ms_events ms). (le_account e, le_message_id e) \<in> email_keys ms)
     \<and> (\<forall>c \<in> set (ms_otp_codes ms). (ot_account c, ot_message_id c) \<in> email_keys ms)
     \<and> (\<forall>r \<in> set (bt_rows (ms_body ms)). (bq_account r, bq_message_id r) \<in> email_keys ms)"

definition folders_ok :: "folder list \<Rightarrow> bool" where
  "folders_ok fs \<longleftrightarrow> uniq folder_key fs
     \<and> (\<forall>f \<in> set fs. case fo_priority f of None \<Rightarrow> True | Some p \<Rightarrow> 1 \<le> p \<and> p \<le> 10)"

definition mail_ok :: "mail_store \<Rightarrow> bool" where
  "mail_ok ms \<longleftrightarrow>
     uniq email_key (ms_emails ms) \<and> (\<forall>m \<in> set (ms_emails ms). email_checks m) \<and> refs_ok ms \<and> folders_ok (ms_folders ms)"

text \<open>The rows of other accounts.\<close>

definition others :: "string \<Rightarrow> mail_store \<Rightarrow> email list \<times> folder list" where
  "others a ms = (filter (\<lambda>m. em_account m \<noteq> a) (ms_emails ms), filter (\<lambda>f. fo_account f \<noteq> a) (ms_folders ms))"

section \<open>Updates of emails\<close>

locale row_update =
  fixes acct :: string
    and p :: "email \<Rightarrow> bool"
    and f :: "email \<Rightarrow> email"
  assumes own: "p m \<Longrightarrow> em_account m = acct"
    and key: "email_key (f m) = email_key m"
begin

lemma keys_kept: "map email_key (sql_update p f t) = map email_key t"
  using key by (simp add: sql_update_def comp_def)

lemma store_keys_kept: "email_keys (ms\<lparr>ms_emails := sql_update p f (ms_emails ms)\<rparr>) = email_keys ms"
  using keys_kept [of "ms_emails ms"] by (simp add: email_keys_def flip: set_map)

lemma others_kept: "others acct (snd (update_emails p f ms)) = others acct ms"
proof -
  have "filter (\<lambda>m. em_account m \<noteq> acct) (sql_update p f t) = filter (\<lambda>m. em_account m \<noteq> acct) t" for t
    using own key by (induction t) (auto simp: sql_update_def)
  then show ?thesis by (simp add: others_def update_emails_def)
qed

lemma ok_if_checked:
  assumes ms: "mail_ok ms" and ch: "\<And>m. m \<in> set (ms_emails ms) \<Longrightarrow> p m \<Longrightarrow> email_checks (f m)"
  shows "mail_ok (snd (update_emails p f ms))"
proof -
  let ?ms = "ms\<lparr>ms_emails := sql_update p f (ms_emails ms)\<rparr>"
  have "refs_ok ?ms" using ms store_keys_kept [of ms] by (simp add: mail_ok_def refs_ok_def)
  moreover have "uniq email_key (ms_emails ?ms)" using ms keys_kept by (simp add: mail_ok_def uniq_def)
  ultimately show ?thesis using ms ch by (auto simp: mail_ok_def update_emails_def set_sql_update)
qed

lemma checked_ok:
  "mail_ok ms \<Longrightarrow> update_emails_checked w p f ms = (r, ms') \<Longrightarrow> mail_ok ms'"
  by (auto simp: update_emails_checked_def list_all_iff Let_def case_prod_beta intro!: ok_if_checked split: if_splits)

lemma checked_others: "update_emails_checked w p f ms = (r, ms') \<Longrightarrow> others acct ms' = others acct ms"
  by (auto simp: update_emails_checked_def Let_def case_prod_beta others_kept split: if_splits)

end

locale safe_update = row_update +
  assumes checks: "email_checks m \<Longrightarrow> email_checks (f m)"
begin

lemma ok_kept: "mail_ok ms \<Longrightarrow> mail_ok (snd (update_emails p f ms))"
  by (rule ok_if_checked) (auto simp: mail_ok_def intro: checks)

end

lemmas row_defs = email_at_def in_folder_def email_checks_def

interpretation body_synced_mids: safe_update a "\<lambda>m. em_account m = a \<and> em_message_id m \<in> set mids"
  "\<lambda>m. m\<lparr>em_body_synced_at := Some now\<rparr>" for a mids now
  by unfold_locales (simp_all add: row_defs)

interpretation body_synced_uids: safe_update a "\<lambda>m. in_folder a loc m \<and> uid_in uids m"
  "\<lambda>m. m\<lparr>em_body_synced_at := Some now\<rparr>" for a loc uids now
  by unfold_locales (simp_all add: row_defs)

interpretation token_backfill: safe_update a
  "\<lambda>m. em_account m = a \<and> em_message_tokens m = None \<and> (\<not> blank_text (em_body_text m)
     \<or> (case em_raw_email_content m of None \<Rightarrow> False | Some r \<Rightarrow> r \<noteq> []))"
  "\<lambda>m. m\<lparr>em_message_tokens := Some (g m)\<rparr>" for a g
  by unfold_locales (simp_all add: row_defs)

interpretation folder_clear: safe_update a "in_folder a loc" clear_location for a loc
  by unfold_locales (simp_all add: row_defs clear_location_def)

interpretation expunge: safe_update a "\<lambda>m. in_folder a loc m \<and> uid_in uids m" clear_location for a loc uids
  by unfold_locales (simp_all add: row_defs clear_location_def)

interpretation flag_update: safe_update a "\<lambda>m. in_folder a loc m \<and> uid_in uids m"
  "\<lambda>m. case Option.bind (em_uid m) g of None \<Rightarrow> m | Some r \<Rightarrow> m\<lparr>em_is_read := r\<rparr>" for a loc uids g
  by unfold_locales (auto simp: row_defs split: option.splits)

interpretation server_deleted: safe_update a "email_at a mid" "\<lambda>m. m\<lparr>em_deleted_at := Some now\<rparr>" for a mid now
  by unfold_locales (simp_all add: row_defs)

interpretation relocation: safe_update a "email_at a mid" "set_location loc uid v" for a mid loc uid v
  by unfold_locales (simp_all add: row_defs set_location_def)

interpretation system_filing: safe_update "fv_account v" "email_at (fv_account v) (fv_message_id v)" "filed_row now v" for v now
  by unfold_locales (simp_all add: row_defs filed_row_def set_location_def)

interpretation analyzed: row_update a "email_at a (ai_message_id i)" "analyzed_row now i" for a i now
  by unfold_locales (simp_all add: row_defs analyzed_row_def)

interpretation analyzed_by: safe_update a "email_at a mid" "\<lambda>m. m\<lparr>em_analyzed_by := w\<rparr>" for a mid w
  by unfold_locales (simp_all add: row_defs)

interpretation attempt_failed: safe_update a "email_at a mid"
  "\<lambda>m. m\<lparr>em_analysis_attempts := em_analysis_attempts m + 1, em_analysis_failed_at := Some now,
        em_last_analysis_error := Some (take 2000 e)\<rparr>" for a mid now e
  by unfold_locales (simp_all add: row_defs)

interpretation permanent_failure: safe_update a "email_at a mid" "\<lambda>m. m\<lparr>em_analysis_permanent_failure := True\<rparr>" for a mid
  by unfold_locales (simp_all add: row_defs)

interpretation action_status: row_update a "email_at a mid"
  "\<lambda>m. m\<lparr>em_action_status := status, em_action_applied_at := t\<rparr>" for a mid status t
  by unfold_locales (simp_all add: row_defs)

interpretation recommendation: safe_update a "email_at a mid"
  "\<lambda>m. m\<lparr>em_location_recommendation := Some loc, em_create_if_missing := Some create\<rparr>" for a mid loc create
  by unfold_locales (simp_all add: row_defs)

interpretation envelope_merge: safe_update a "email_at a mid" "merge_envelope now e" for a mid now e
  by unfold_locales (simp_all add: row_defs merge_envelope_def Let_def)

section \<open>Updates of folders\<close>

lemma update_folders_store [simp]:
  "ms_emails (update_folders p f ms) = ms_emails ms" "ms_events (update_folders p f ms) = ms_events ms"
  "ms_otp_codes (update_folders p f ms) = ms_otp_codes ms" "ms_body (update_folders p f ms) = ms_body ms"
  "ms_rules (update_folders p f ms) = ms_rules ms" "ms_missing_ids (update_folders p f ms) = ms_missing_ids ms"
  "ms_folders (update_folders p f ms) = sql_update p f (ms_folders ms)"
  by (simp_all add: update_folders_def)

text \<open>\<open>folder_op a\<close>: an operation that changes nothing but folders of account \<open>a\<close>, and keeps them well formed.\<close>

definition folder_op :: "string \<Rightarrow> (mail_store \<Rightarrow> mail_store) \<Rightarrow> bool" where
  "folder_op a g \<longleftrightarrow>
     (\<forall>ms. ms_emails (g ms) = ms_emails ms \<and> ms_events (g ms) = ms_events ms \<and> ms_otp_codes (g ms) = ms_otp_codes ms
        \<and> ms_body (g ms) = ms_body ms
        \<and> (folders_ok (ms_folders ms) \<longrightarrow> folders_ok (ms_folders (g ms)))
        \<and> filter (\<lambda>f. fo_account f \<noteq> a) (ms_folders (g ms)) = filter (\<lambda>f. fo_account f \<noteq> a) (ms_folders ms))"

lemma folder_op_ok: "folder_op a g \<Longrightarrow> mail_ok ms \<Longrightarrow> mail_ok (g ms)"
  by (simp add: folder_op_def mail_ok_def refs_ok_def email_keys_def)

lemma folder_op_others: "folder_op a g \<Longrightarrow> others a (g ms) = others a ms"
  by (simp add: folder_op_def others_def)

lemma folder_op_comp: "folder_op a g \<Longrightarrow> folder_op a h \<Longrightarrow> folder_op a (\<lambda>ms. h (g ms))"
  by (simp add: folder_op_def)

lemma folder_op_fold: "(\<And>x. folder_op a (h x)) \<Longrightarrow> folder_op a (fold h xs)"
  by (induction xs) (simp_all add: folder_op_def)

lemma folder_op_id: "folder_op a (\<lambda>ms. ms)"
  by (simp add: folder_op_def)

lemma folder_op_update_dep:
  assumes "\<And>ms f. p ms f \<Longrightarrow> fo_account f = a" and "\<And>ms f. folder_key (h ms f) = folder_key f"
    and "\<And>ms f. p ms f \<Longrightarrow> fo_priority (h ms f) = fo_priority f \<or> (\<exists>q. fo_priority (h ms f) = Some q \<and> 1 \<le> q \<and> q \<le> 10)"
  shows "folder_op a (\<lambda>ms. update_folders (p ms) (h ms) ms)"
proof -
  have "map folder_key (sql_update (p ms) (h ms) t) = map folder_key t" for ms t
    using assms(2) by (simp add: sql_update_def comp_def)
  moreover have "filter (\<lambda>f. fo_account f \<noteq> a) (sql_update (p ms) (h ms) t) = filter (\<lambda>f. fo_account f \<noteq> a) t" for ms t
    using assms(1,2) by (induction t) (auto simp: sql_update_def)
  moreover have "case fo_priority (h ms f) of None \<Rightarrow> True | Some q \<Rightarrow> 1 \<le> q \<and> q \<le> 10"
    if "p ms f" "case fo_priority f of None \<Rightarrow> True | Some q \<Rightarrow> 1 \<le> q \<and> q \<le> 10" for ms f
    using assms(3) [OF that(1)] that(2) by auto
  ultimately show ?thesis by (auto simp: folder_op_def folders_ok_def uniq_def set_sql_update)
qed

lemmas folder_op_update = folder_op_update_dep [where p = "\<lambda>_. p" and h = "\<lambda>_. h" for p h]

lemma rank_priority_bounds: "2 \<le> rank_priority cnt rn \<and> rank_priority cnt rn \<le> 9"
  by (simp add: rank_priority_def)

lemma recompute_priority_op: "folder_op a (recompute_imap_folder_priority_for_account a)"
proof -
  define inbox where "inbox = update_folders (\<lambda>f. fo_account f = a \<and> to_lower (sql_trim (fo_name f)) = ''inbox'')
    (\<lambda>f. f\<lparr>fo_priority := Some 10\<rparr>)"
  define low where "low = update_folders (\<lambda>f. fo_account f = a \<and> fo_priority f \<noteq> Some 10 \<and> low_priority_name (fo_name f))
    (\<lambda>f. f\<lparr>fo_priority := Some 1\<rparr>)"
  define other where "other = (\<lambda>ms :: mail_store. sort_key (\<lambda>f. (- folder_count f, fo_name f))
    (filter (\<lambda>f. fo_account f = a \<and> fo_priority f \<noteq> Some 10 \<and> fo_priority f \<noteq> Some 1) (ms_folders ms)))"
  define rank where "rank = (\<lambda>ms. update_folders (\<lambda>f. fo_account f = a \<and> map_of (number_rows 1 (other ms)) (fo_name f) \<noteq> None)
    (\<lambda>f. f\<lparr>fo_priority := map_option (rank_priority (int (length (other ms)))) (map_of (number_rows 1 (other ms)) (fo_name f))\<rparr>) ms)"
  have "folder_op a inbox" "folder_op a low"
    unfolding inbox_def low_def by (rule folder_op_update; simp)+
  moreover have "folder_op a rank"
    unfolding rank_def
    by (rule folder_op_update_dep)
      (auto simp: rank_priority_def)
  moreover have "recompute_imap_folder_priority_for_account a = (\<lambda>ms. rank (low (inbox ms)))"
    by (rule ext) (simp add: recompute_imap_folder_priority_for_account_def inbox_def low_def rank_def other_def Let_def)
  ultimately show ?thesis using folder_op_comp [OF folder_op_comp] by simp
qed

lemma upsert_folder_op: "folder_op a (upsert_folder a b)"
proof -
  obtain name noselect delim where b: "b = (name, noselect, delim)" by (cases b)
  have upd: "folder_op a (update_folders (folder_at a name)
      (\<lambda>f. f\<lparr>fo_delimiter := nullif_blank delim, fo_noselect := noselect\<rparr>))"
    by (rule folder_op_update) (simp_all add: folder_at_def)
  have new: "folders_ok (ms_folders ms @ [new_folder a name (nullif_blank delim) noselect])"
    if "folders_ok (ms_folders ms)" "\<not> sql_exists (folder_at a name) (ms_folders ms)" for ms
    using that by (auto simp: folders_ok_def uniq_def sql_exists_iff folder_at_def new_folder_def)
  from upd show ?thesis
    by (auto simp: folder_op_def upsert_folder_def b new) (simp add: new_folder_def)
qed

lemma set_message_count_op: "folder_op a (set_message_count a u)"
  unfolding set_message_count_def [abs_def]
  by (cases "nullif_blank (Some (fst u))") (auto intro!: folder_op_id folder_op_update simp: folder_at_def)

lemma simple_folder_ops:
  "folder_op a (update_folder_last_synced_uid_for_account a n uid)"
  "folder_op a (update_folder_last_full_sync_uid_for_account a n uid)"
  "folder_op a (update_folder_highest_modseq_for_account a n modseq)"
  "folder_op a (reset_folder_sync_state_for_account a n v)"
  "folder_op a (\<lambda>ms. snd (reset_folder_sync_cursors_for_account a ms))"
  "folder_op a (\<lambda>ms. snd (delete_imap_folder_for_account a n ms))"
  "folder_op a (record_sync_window_run_for_account now a days)"
  "folder_op a (record_missing_message_id_for_account now a n uid v)"
  unfolding update_folder_last_synced_uid_for_account_def [abs_def] update_folder_last_full_sync_uid_for_account_def [abs_def]
    update_folder_highest_modseq_for_account_def [abs_def] reset_folder_sync_state_for_account_def [abs_def]
    reset_folder_sync_cursors_for_account_def Let_def snd_conv
  by (rule folder_op_update; simp add: folder_at_def)+
    (auto simp: folder_op_def delete_imap_folder_for_account_def record_sync_window_run_for_account_def
      record_missing_message_id_for_account_def Let_def folders_ok_def uniq_def folder_at_def filter_filter
      intro: distinct_map_filter intro!: filter_cong)

lemma uid_validity_op: "folder_op a (\<lambda>ms. snd (update_folder_uid_validity_for_account a n v ms))"
proof -
  have "folder_op a (update_folders (folder_at a n) (\<lambda>f. f\<lparr>fo_uid_validity := Some v\<rparr>))"
    by (rule folder_op_update) (simp_all add: folder_at_def)
  then show ?thesis by (simp add: folder_op_def update_folder_uid_validity_for_account_def Let_def)
qed

lemma sync_folders_op: "folder_op a (\<lambda>ms. snd (sync_folders_from_imap_for_account a bs ms))"
  unfolding sync_folders_from_imap_for_account_def snd_conv upsert_imap_folders_from_list_def
  by (intro folder_op_comp [OF folder_op_fold recompute_priority_op] upsert_folder_op)

lemma message_counts_op: "folder_op a (update_imap_folder_message_counts_for_account a us)"
proof (cases "us = []")
  case False
  then show ?thesis
    using folder_op_comp [OF folder_op_fold recompute_priority_op, of a "set_message_count a" us] set_message_count_op
    by (simp add: update_imap_folder_message_counts_for_account_def [abs_def])
qed (simp add: update_imap_folder_message_counts_for_account_def [abs_def] folder_op_id)

section \<open>Deletion and envelopes\<close>

lemma delete_emails_ok: "mail_ok ms \<Longrightarrow> mail_ok (snd (delete_emails p ms))"
proof -
  assume ms: "mail_ok ms"
  let ?gone = "email_key ` set (filter p (ms_emails ms))"
  have "email_keys ms - ?gone \<subseteq> email_key ` set (filter (\<lambda>m. \<not> p m) (ms_emails ms))"
    by (auto simp: email_keys_def)
  then have "k \<in> email_key ` set (filter (\<lambda>m. \<not> p m) (ms_emails ms))" if "k \<in> email_keys ms" "k \<notin> ?gone" for k
    using that by blast
  then have "refs_ok (snd (delete_emails p ms))"
    using ms by (simp add: mail_ok_def refs_ok_def delete_emails_def email_keys_def Let_def)
  moreover have "uniq email_key (filter (\<lambda>m. \<not> p m) (ms_emails ms))"
    using ms by (simp add: mail_ok_def uniq_def distinct_map_filter)
  ultimately show ?thesis using ms by (simp add: mail_ok_def delete_emails_def Let_def)
qed

lemma delete_emails_others:
  "(\<And>m. p m \<Longrightarrow> em_account m = a) \<Longrightarrow> others a (snd (delete_emails p ms)) = others a ms"
  by (auto simp: others_def delete_emails_def Let_def filter_filter intro!: filter_cong)

lemma record_user_move_store [simp]:
  "ms_emails (record_user_move a e ms) = ms_emails ms" "ms_folders (record_user_move a e ms) = ms_folders ms"
  "ms_otp_codes (record_user_move a e ms) = ms_otp_codes ms" "ms_body (record_user_move a e ms) = ms_body ms"
  "email_keys (record_user_move a e ms) = email_keys ms"
  by (auto simp: record_user_move_def email_keys_def Let_def split: option.splits)

lemma record_user_move_ok: "mail_ok ms \<Longrightarrow> mail_ok (record_user_move a e ms)"
proof -
  assume ms: "mail_ok ms"
  have "(le_account v, le_message_id v) \<in> email_keys ms" if v: "v \<in> set (ms_events (record_user_move a e ms))" for v
  proof (cases "v \<in> set (ms_events ms)")
    case True
    then show ?thesis using ms by (simp add: mail_ok_def refs_ok_def)
  next
    case False
    then obtain m where "m \<in> set (ms_emails ms)" "email_at a (ev_message_id e) m"
      "le_account v = a" "le_message_id v = ev_message_id e"
      using v by (auto simp: record_user_move_def Let_def dest!: find_opt_Some split: option.splits)
    then show ?thesis by (force simp: email_keys_def email_at_def)
  qed
  then show ?thesis using ms by (simp add: mail_ok_def refs_ok_def)
qed

lemma envelope_email_ok [simp]: "email_checks (envelope_email a e)" "em_account (envelope_email a e) = a"
  "em_message_id (envelope_email a e) = ev_message_id e"
  by (simp_all add: envelope_email_def new_email_def email_checks_def null_or_in_def action_status_check_def)

lemma upsert_envelope_ok: "mail_ok ms \<Longrightarrow> mail_ok (upsert_envelope now a e ms)"
proof -
  assume ms0: "mail_ok ms"
  let ?ms = "record_user_move a e ms"
  have ms: "mail_ok ?ms" by (rule record_user_move_ok [OF ms0])
  show ?thesis
  proof (cases "sql_exists (email_at a (ev_message_id e)) (ms_emails ms)")
    case True
    then show ?thesis
      using envelope_merge.ok_kept [OF ms, of a "ev_message_id e" now e]
      by (simp add: upsert_envelope_def Let_def update_emails_def)
  next
    case False
    then have "uniq email_key (ms_emails ms @ [envelope_email a e])"
      using ms0 by (auto simp: mail_ok_def uniq_snoc sql_exists_iff email_at_def)
    moreover have "refs_ok (?ms\<lparr>ms_emails := ms_emails ms @ [envelope_email a e]\<rparr>)"
      using ms by (auto simp: mail_ok_def refs_ok_def email_keys_def)
    ultimately show ?thesis using ms False by (auto simp: upsert_envelope_def Let_def mail_ok_def)
  qed
qed

lemma upsert_envelope_others: "others a (upsert_envelope now a e ms) = others a ms"
proof (cases "sql_exists (email_at a (ev_message_id e)) (ms_emails ms)")
  case True
  then show ?thesis
    using envelope_merge.others_kept [of a "ev_message_id e" now e "record_user_move a e ms"]
    by (simp add: upsert_envelope_def Let_def update_emails_def others_def)
qed (simp add: upsert_envelope_def Let_def others_def)

lemma upsert_emails_ok:
  assumes "upsert_emails_from_envelope ts now a payload ms = Some ms'"
  shows "mail_ok ms \<Longrightarrow> mail_ok ms'" and "others a ms' = others a ms"
proof -
  obtain es where ms': "ms' = fold (upsert_envelope now a) es ms"
    using assms by (auto simp: upsert_emails_from_envelope_def split: option.splits if_splits)
  have "mail_ok ms \<Longrightarrow> mail_ok (fold (upsert_envelope now a) es ms)" for ms
    by (induction es arbitrary: ms) (simp_all add: upsert_envelope_ok)
  with ms' show "mail_ok ms \<Longrightarrow> mail_ok ms'" by simp
  have "others a (fold (upsert_envelope now a) es ms) = others a ms" for ms
    by (induction es arbitrary: ms) (simp_all add: upsert_envelope_others)
  with ms' show "others a ms' = others a ms" by simp
qed

section \<open>The statements as steps\<close>

text \<open>\<open>mail_step a ms ms'\<close>: one method of the two files or of \<^verbatim>\<open>email_ingest.rs\<close>, called for account
  \<open>a\<close> with any arguments; a failing statement is a step that changes nothing.\<close>

inductive mail_step :: "string \<Rightarrow> mail_store \<Rightarrow> mail_store \<Rightarrow> bool" for a where
  synced: "mail_step a ms (update_folder_last_synced_uid_for_account a n uid ms)"
| full_synced: "mail_step a ms (update_folder_last_full_sync_uid_for_account a n uid ms)"
| modseq: "mail_step a ms (update_folder_highest_modseq_for_account a n modseq ms)"
| validity: "mail_step a ms (snd (update_folder_uid_validity_for_account a n v ms))"
| reset: "mail_step a ms (reset_folder_sync_state_for_account a n v ms)"
| cursors: "mail_step a ms (snd (reset_folder_sync_cursors_for_account a ms))"
| no_folder: "mail_step a ms (snd (delete_imap_folder_for_account a n ms))"
| listing: "mail_step a ms (snd (sync_folders_from_imap_for_account a bs ms))"
| counts: "mail_step a ms (update_imap_folder_message_counts_for_account a us ms)"
| priority: "mail_step a ms (recompute_imap_folder_priority_for_account a ms)"
| window: "mail_step a ms (record_sync_window_run_for_account now a days ms)"
| missing: "mail_step a ms (record_missing_message_id_for_account now a n uid v ms)"
| body_by_mid: "mail_step a ms (snd (mark_emails_body_synced_by_message_id_for_account now a mids ms))"
| body_by_uid: "mail_step a ms (snd (mark_emails_body_synced_by_uid_for_account now a loc uids ms))"
| tokens: "mail_step a ms (snd (backfill_message_tokens_for_account a ms))"
| clear: "mail_step a ms (snd (clear_folder_uids_for_account a loc ms))"
| flags: "mail_step a ms (snd (update_email_flags_for_account a loc fs ms))"
| gone: "mail_step a ms (snd (mark_email_deleted_from_server_for_account now a mid ms))"
| moved: "mail_step a ms (snd (update_email_location_for_account a mid loc uid v ms))"
| filed: "fv_account mv = a \<Longrightarrow> mail_step a ms (snd (record_system_filing_move_for_account now mv ms))"
| expunged: "mail_step a ms (snd (mark_emails_expunged_for_account a loc uids ms))"
| analysis: "mail_step a ms (snd (update_ai_fields_for_account now a i ms))"
| by_whom: "mail_step a ms (snd (set_analyzed_by_for_account a mid w ms))"
| attempt: "mail_step a ms (record_analysis_attempt_failed_for_account now a mid e ms)"
| permanent: "mail_step a ms (mark_analysis_permanent_failure_for_account a mid ms)"
| action: "mail_step a ms (snd (set_action_status_for_account a mid status ms))"
| applied: "mail_step a ms (snd (mark_email_action_applied_for_account now a mid act ms))"
| otp: "mail_step a ms (snd (store_otp_code_for_account a mid code expires ms))"
| recommend: "mail_step a ms (snd (update_location_recommendation_for_account a mid loc create ms))"
| delete: "mail_step a ms (snd (delete_email_for_account a mid ms))"
| prune: "mail_step a ms (snd (prune_emails_for_account a cat sub ms))"
| envelopes: "mail_step a ms (snd (upsert_emails_from_envelope_for_account ts now a payload ms))"
| envelope_bodies: "mail_step a ms (snd (envelope_tx ts now a payload items ms))"
| bodies: "mail_step a ms (snd (queue_bodies now a items ms))"

inductive mail_reachable :: "mail_store \<Rightarrow> bool" where
  empty: "mail_reachable empty_mail_store"
| step: "mail_reachable ms \<Longrightarrow> mail_step a ms ms' \<Longrightarrow> mail_reachable ms'"

lemmas mail_ops = mark_emails_body_synced_by_message_id_for_account_def mark_emails_body_synced_by_uid_for_account_def
  backfill_message_tokens_for_account_def clear_folder_uids_for_account_def update_email_flags_for_account_def
  mark_email_deleted_from_server_for_account_def update_email_location_for_account_def
  mark_emails_expunged_for_account_def set_analyzed_by_for_account_def record_analysis_attempt_failed_for_account_def
  mark_analysis_permanent_failure_for_account_def update_location_recommendation_for_account_def

lemma record_filing_ok:
  assumes ms: "mail_ok ms"
  shows "mail_ok (snd (record_system_filing_move_for_account now v ms))"
proof -
  let ?p = "email_at (fv_account v) (fv_message_id v)"
  let ?ms = "snd (update_emails ?p (filed_row now v) ms)"
  have ok: "mail_ok ?ms" by (rule system_filing.ok_kept [OF ms])
  have keys: "email_keys ?ms = email_keys ms"
    using system_filing.store_keys_kept [of v now ms] by (simp add: update_emails_def)
  show ?thesis
  proof (cases "0 < fst (update_emails ?p (filed_row now v) ms)")
    case True
    then obtain m where "m \<in> set (ms_emails ms)" "?p m"
      by (auto simp: update_emails_def sql_count_def filter_empty_conv)
    then have "(fv_account v, fv_message_id v) \<in> email_keys ms" by (force simp: email_keys_def email_at_def)
    then show ?thesis
      using ok keys by (auto simp: record_system_filing_move_for_account_def Let_def case_prod_beta mail_ok_def
          refs_ok_def email_keys_def)
  qed (use ok in \<open>simp add: record_system_filing_move_for_account_def Let_def case_prod_beta\<close>)
qed

lemma record_filing_others: "others (fv_account v) (snd (record_system_filing_move_for_account now v ms)) = others (fv_account v) ms"
  using system_filing.others_kept [of v now ms]
  by (auto simp: record_system_filing_move_for_account_def Let_def case_prod_beta others_def)

lemmas all_folder_ops = simple_folder_ops uid_validity_op sync_folders_op message_counts_op recompute_priority_op

lemma token_backfill_eq: "backfill_message_tokens_for_account a = update_emails
    (\<lambda>m. em_account m = a \<and> em_message_tokens m = None \<and> (\<not> blank_text (em_body_text m)
       \<or> (case em_raw_email_content m of None \<Rightarrow> False | Some r \<Rightarrow> r \<noteq> [])))
    (\<lambda>m. m\<lparr>em_message_tokens := Some (int ((length (case em_body_text m of Some b \<Rightarrow> b
        | None \<Rightarrow> (case em_raw_email_content m of Some r \<Rightarrow> r | None \<Rightarrow> [])) + 3) div 4))\<rparr>)"
  by (rule ext) (simp add: backfill_message_tokens_for_account_def Let_def)

text \<open>New rows of the body queue refer to emails that exist.\<close>

lemma others_body [simp]: "others a (ms\<lparr>ms_body := t\<rparr>) = others a ms"
  by (simp add: others_def)

lemma upsert_body_row_refs:
  "set (bt_rows (upsert_body_row now a i t)) \<subseteq> {r. \<exists>r' \<in> set (bt_rows t). body_key_of r = body_key_of r'}
     \<union> (if sql_exists (\<lambda>r. body_key_of r = item_key a i) (bt_rows t) then {} else {new_body_row now (bt_next_id t) a i})"
  by (auto simp: upsert_body_row_def Let_def set_sql_update requeue_body_row_def body_key_of_def)

lemma insert_body_items_refs:
  assumes "insert_body_items now E a items t = Some t'" and "\<forall>r \<in> set (bt_rows t). E (bq_account r) (bq_message_id r)"
  shows "\<forall>r \<in> set (bt_rows t'). E (bq_account r) (bq_message_id r)"
proof -
  let ?ok = "\<lambda>t. \<forall>r \<in> set (bt_rows t). E (bq_account r) (bq_message_id r)"
  from assms(1) have all: "\<forall>i \<in> set items. sql_exists (\<lambda>r. body_key_of r = item_key a i) (bt_rows t) \<or> E a (bi_message_id i)"
    and t': "t' = fold (upsert_body_row now a) items t"
    by (auto simp: insert_body_items_def list_ex_iff split: if_splits)
  have "\<forall>i \<in> set items. E a (bi_message_id i)"
    using all assms(2) by (fastforce simp: sql_exists_iff body_key_of_def item_key_def)
  then have "?ok u \<Longrightarrow> ?ok (fold (upsert_body_row now a) items u)" for u
  proof (induction items arbitrary: u)
    case (Cons i items)
    have "?ok (upsert_body_row now a i u)"
    proof
      fix r assume "r \<in> set (bt_rows (upsert_body_row now a i u))"
      then consider r' where "r' \<in> set (bt_rows u)" "body_key_of r = body_key_of r'" | "r = new_body_row now (bt_next_id u) a i"
        using upsert_body_row_refs [of now a i u] by (auto split: if_splits)
      then show "E (bq_account r) (bq_message_id r)"
        using Cons.prems by cases (auto simp: body_key_of_def new_body_row_def)
    qed
    with Cons show ?case by simp
  qed simp
  with assms(2) t' show ?thesis by simp
qed

lemma emails_in_keys: "emails_in ms a mid \<longleftrightarrow> (a, mid) \<in> email_keys ms"
  by (force simp: emails_in_def sql_exists_iff email_at_def email_keys_def)

lemma mail_ok_body:
  "mail_ok (ms\<lparr>ms_body := t\<rparr>) \<longleftrightarrow> mail_ok (ms\<lparr>ms_body := \<lparr>bt_rows = [], bt_next_id = 0\<rparr>\<rparr>)
     \<and> (\<forall>r \<in> set (bt_rows t). emails_in ms (bq_account r) (bq_message_id r))"
  by (auto simp: mail_ok_def refs_ok_def emails_in_keys) (simp_all add: email_keys_def)

lemma mail_ok_refs: "mail_ok ms \<Longrightarrow> \<forall>r \<in> set (bt_rows (ms_body ms)). emails_in ms (bq_account r) (bq_message_id r)"
  by (simp add: mail_ok_def refs_ok_def emails_in_keys)

lemma same_body: "ms_body ms = t \<Longrightarrow> ms\<lparr>ms_body := t\<rparr> = ms"
  by (cases ms) simp

lemma mail_ok_insert_bodies:
  assumes "mail_ok ms" "insert_body_items now (emails_in ms) a items (ms_body ms) = Some t"
  shows "mail_ok (ms\<lparr>ms_body := t\<rparr>)"
proof -
  have "mail_ok (ms\<lparr>ms_body := \<lparr>bt_rows = [], bt_next_id = 0\<rparr>\<rparr>)"
    using mail_ok_body [where ms = ms and t = "ms_body ms"] assms(1) same_body [of ms "ms_body ms"] by simp
  then show ?thesis using mail_ok_refs [OF assms(1)] insert_body_items_refs [OF assms(2)]
    by (simp add: mail_ok_body [where t = t])
qed

lemma queue_bodies_ok: "mail_ok ms \<Longrightarrow> mail_ok (snd (queue_bodies now a items ms))"
  by (auto simp: queue_bodies_def enqueue_body_sync_items_for_account_def mail_ok_insert_bodies split: option.splits)

lemma upsert_envelope_body: "upsert_emails_from_envelope ts now a payload ms = Some ms' \<Longrightarrow> ms_body ms' = ms_body ms"
proof -
  have one: "ms_body (upsert_envelope now a e m) = ms_body m" for e m
    by (simp add: upsert_envelope_def record_user_move_def Let_def split: option.splits)
  have "ms_body (fold (upsert_envelope now a) es m) = ms_body m" for es m
    by (induction es arbitrary: m) (simp_all add: one)
  then show "upsert_emails_from_envelope ts now a payload ms = Some ms' \<Longrightarrow> ms_body ms' = ms_body ms"
    by (auto simp: upsert_emails_from_envelope_def split: option.splits if_splits)
qed

lemma envelope_tx_ok:
  assumes "mail_ok ms"
  shows "mail_ok (snd (envelope_tx ts now a payload items ms))"
proof (cases "upsert_emails_from_envelope ts now a payload ms")
  case (Some ms')
  note ok = upsert_emails_ok(1) [OF Some assms] and body = upsert_envelope_body [OF Some]
  have "mail_ok (ms'\<lparr>ms_body := t\<rparr>)" if "insert_body_items now (emails_in ms') a items (ms_body ms) = Some t" for t
    using mail_ok_insert_bodies [OF ok] that body by simp
  then show ?thesis using assms ok Some same_body [OF body]
    by (auto simp: envelope_tx_def upsert_envelopes_and_enqueue_body_sync_for_account_def same_body split: option.splits)
qed (use assms in \<open>simp add: envelope_tx_def upsert_envelopes_and_enqueue_body_sync_for_account_def\<close>)

lemma mail_step_ok: "mail_step a ms ms' \<Longrightarrow> mail_ok ms \<Longrightarrow> mail_ok ms'"
proof (induction rule: mail_step.induct)
  case (body_by_mid now mids)
  then show ?case by (simp add: mark_emails_body_synced_by_message_id_for_account_def body_synced_mids.ok_kept)
next
  case (body_by_uid now loc uids)
  then show ?case by (simp add: mark_emails_body_synced_by_uid_for_account_def body_synced_uids.ok_kept)
next
  case tokens
  then show ?case unfolding token_backfill_eq by (rule token_backfill.ok_kept)
next
  case (clear loc)
  then show ?case by (simp add: clear_folder_uids_for_account_def folder_clear.ok_kept)
next
  case (flags loc fs)
  then show ?case by (simp add: update_email_flags_for_account_def flag_update.ok_kept)
next
  case (gone now mid)
  then show ?case by (simp add: mark_email_deleted_from_server_for_account_def server_deleted.ok_kept)
next
  case (moved mid loc uid v)
  then show ?case by (simp add: update_email_location_for_account_def relocation.ok_kept)
next
  case (filed mv now)
  then show ?case by (intro record_filing_ok)
next
  case (expunged loc uids)
  then show ?case by (simp add: mark_emails_expunged_for_account_def expunge.ok_kept)
next
  case (analysis now i)
  then show ?case by (metis analyzed.checked_ok prod.collapse update_ai_fields_for_account_def)
next
  case (by_whom mid w)
  then show ?case by (simp add: set_analyzed_by_for_account_def analyzed_by.ok_kept)
next
  case (attempt now mid e)
  then show ?case unfolding record_analysis_attempt_failed_for_account_def by (rule attempt_failed.ok_kept)
next
  case (permanent mid)
  then show ?case by (simp add: mark_analysis_permanent_failure_for_account_def permanent_failure.ok_kept)
next
  case (action mid status)
  then show ?case by (metis action_status.checked_ok prod.collapse set_action_status_for_account_def)
next
  case (applied now mid act)
  then show ?case by (metis action_status.checked_ok prod.collapse mark_email_action_applied_for_account_def)
next
  case (otp mid code expires)
  then show ?case
    by (auto simp: store_otp_code_for_account_def mail_ok_def refs_ok_def email_keys_def sql_exists_iff email_at_def)
next
  case (recommend mid loc create)
  then show ?case by (simp add: update_location_recommendation_for_account_def recommendation.ok_kept)
next
  case (delete mid)
  then show ?case by (simp add: delete_email_for_account_def delete_emails_ok)
next
  case (prune cat sub)
  then show ?case by (simp add: prune_emails_for_account_def delete_emails_ok)
next
  case (envelopes ts now payload)
  then show ?case
    by (auto simp: upsert_emails_from_envelope_for_account_def upsert_emails_ok(1) split: option.splits)
next
  case (envelope_bodies ts now payload items)
  then show ?case by (intro envelope_tx_ok)
next
  case (bodies now items)
  then show ?case by (intro queue_bodies_ok)
qed (rule folder_op_ok, rule all_folder_ops, assumption)+

lemma mail_step_others: "mail_step a ms ms' \<Longrightarrow> others a ms' = others a ms"
proof (induction rule: mail_step.induct)
  case (body_by_mid now mids)
  then show ?case by (simp add: mark_emails_body_synced_by_message_id_for_account_def body_synced_mids.others_kept)
next
  case (body_by_uid now loc uids)
  then show ?case by (simp add: mark_emails_body_synced_by_uid_for_account_def body_synced_uids.others_kept)
next
  case tokens
  then show ?case unfolding token_backfill_eq by (rule token_backfill.others_kept)
next
  case (clear loc)
  then show ?case by (simp add: clear_folder_uids_for_account_def folder_clear.others_kept)
next
  case (flags loc fs)
  then show ?case by (simp add: update_email_flags_for_account_def flag_update.others_kept)
next
  case (gone now mid)
  then show ?case by (simp add: mark_email_deleted_from_server_for_account_def server_deleted.others_kept)
next
  case (moved mid loc uid v)
  then show ?case by (simp add: update_email_location_for_account_def relocation.others_kept)
next
  case (filed mv now)
  then show ?case using record_filing_others by blast
next
  case (expunged loc uids)
  then show ?case by (simp add: mark_emails_expunged_for_account_def expunge.others_kept)
next
  case (analysis now i)
  then show ?case by (metis analyzed.checked_others prod.collapse update_ai_fields_for_account_def)
next
  case (by_whom mid w)
  then show ?case by (simp add: set_analyzed_by_for_account_def analyzed_by.others_kept)
next
  case (attempt now mid e)
  then show ?case unfolding record_analysis_attempt_failed_for_account_def by (rule attempt_failed.others_kept)
next
  case (permanent mid)
  then show ?case by (simp add: mark_analysis_permanent_failure_for_account_def permanent_failure.others_kept)
next
  case (action mid status)
  then show ?case by (metis action_status.checked_others prod.collapse set_action_status_for_account_def)
next
  case (applied now mid act)
  then show ?case by (metis action_status.checked_others prod.collapse mark_email_action_applied_for_account_def)
next
  case (otp mid code expires)
  then show ?case by (simp add: store_otp_code_for_account_def others_def)
next
  case (recommend mid loc create)
  then show ?case by (simp add: update_location_recommendation_for_account_def recommendation.others_kept)
next
  case (delete mid)
  then show ?case by (auto simp: delete_email_for_account_def email_at_def intro: delete_emails_others)
next
  case (prune cat sub)
  then show ?case by (auto simp: prune_emails_for_account_def intro: delete_emails_others)
next
  case (envelopes ts now payload)
  then show ?case
    by (auto simp: upsert_emails_from_envelope_for_account_def upsert_emails_ok(2) split: option.splits)
next
  case (envelope_bodies ts now payload items)
  then show ?case
    by (auto simp: envelope_tx_def upsert_envelopes_and_enqueue_body_sync_for_account_def upsert_emails_ok(2)
        split: option.splits if_splits)
next
  case (bodies now items)
  then show ?case by (simp add: queue_bodies_def case_prod_beta)
qed (rule folder_op_others, rule all_folder_ops)+

lemma empty_mail_ok: "mail_ok empty_mail_store"
  by (simp add: mail_ok_def refs_ok_def folders_ok_def uniq_def empty_mail_store_def)

lemma mail_reachable_ok: "mail_reachable ms \<Longrightarrow> mail_ok ms"
  by (induction rule: mail_reachable.induct) (simp_all add: empty_mail_ok mail_step_ok)

end
