(* ===== verification/Filing.thy ===== *)
theory Filing
  imports MailFacts
begin

text \<open>
  Locating, filing and cleaning up: \<^verbatim>\<open>src/cli_commands/folder_location_cli.rs\<close>,
  \<^verbatim>\<open>src/cli_commands/message_lifecycle_cli.rs\<close>, \<^verbatim>\<open>src/cli_commands/folder_consolidation_cli.rs\<close>
  and the result of \<^verbatim>\<open>src/folder_location_agent.rs\<close>.

  A \<open>mail_host\<close> is what this code does not decide: the IMAP server, of a state \<open>'i\<close>, behind the
  calls of the client; the clock of the \<open>n\<close>-th statement and whether that statement fails; the
  answer of the location agent; the environment. A \<open>mail_world\<close> is the mail tables, the server and the
  number of statements so far. \<open>dbs\<close> runs a statement, \<open>net\<close> a call of the client. Printing, logs
  and metrics are left out; emails are worked on one after the other, as with concurrency 1.
\<close>

record 'i mail_host =
  mh_env :: env
  mh_clock :: "nat \<Rightarrow> timestamp"
  mh_fails :: "nat \<Rightarrow> err option"
  mh_setup :: "err option"
  mh_account :: "err option"
  mh_list :: "'i \<Rightarrow> mailbox list result \<times> 'i"
  mh_create :: "string \<Rightarrow> 'i \<Rightarrow> unit result \<times> 'i"
  mh_remove :: "string \<Rightarrow> 'i \<Rightarrow> unit result \<times> 'i"
  mh_uid_move :: "string \<Rightarrow> int \<Rightarrow> string \<Rightarrow> 'i \<Rightarrow> (int \<times> int) option result \<times> 'i"
  mh_move_message :: "string \<Rightarrow> int \<Rightarrow> string \<Rightarrow> 'i \<Rightarrow> unit result \<times> 'i"
  mh_ensure :: "string \<Rightarrow> 'i \<Rightarrow> unit result \<times> 'i"
  mh_search_mid :: "string \<Rightarrow> string \<Rightarrow> 'i \<Rightarrow> int list result \<times> 'i"
  mh_agent :: "email \<Rightarrow> 'i \<Rightarrow> json result \<times> 'i"

record 'i mail_world =
  mw_mail :: mail_store
  mw_imap :: 'i
  mw_tick :: nat

definition dbs :: "'i mail_host \<Rightarrow> string \<Rightarrow> (timestamp \<Rightarrow> mail_store \<Rightarrow> 'a \<times> mail_store) \<Rightarrow> 'i mail_world
    \<Rightarrow> 'a result \<times> 'i mail_world" where
  "dbs h what f w =
     (let n = mw_tick w; w1 = w\<lparr>mw_tick := n + 1\<rparr> in
      case mh_fails h n of
        Some e \<Rightarrow> (Inl (what # e), w1)
      | None \<Rightarrow> (let (r, ms) = f (mh_clock h n) (mw_mail w) in (Inr r, w1\<lparr>mw_mail := ms\<rparr>)))"

definition net :: "('i \<Rightarrow> 'a \<times> 'i) \<Rightarrow> 'i mail_world \<Rightarrow> 'a \<times> 'i mail_world" where
  "net op w = (let (r, i) = op (mw_imap w) in (r, w\<lparr>mw_imap := i\<rparr>))"

text \<open>A query: the tables stay as they are.\<close>

abbreviation query :: "(mail_store \<Rightarrow> 'a) \<Rightarrow> timestamp \<Rightarrow> mail_store \<Rightarrow> 'a \<times> mail_store" where
  "query q \<equiv> \<lambda>_ ms. (q ms, ms)"

text \<open>A statement that can itself fail.\<close>

definition join_result :: "'a result result \<times> 'w \<Rightarrow> 'a result \<times> 'w" where
  "join_result r = (case r of (Inl e, w) \<Rightarrow> (Inl e, w) | (Inr x, w) \<Rightarrow> (x, w))"

section \<open>Configuration\<close>

definition policy_from_env :: "env \<Rightarrow> string" where
  "policy_from_env e = (case e ''FOLDER_CASING_POLICY'' of None \<Rightarrow> ''title-case'' | Some p \<Rightarrow> p)"

definition effective_provider_name :: "string \<Rightarrow> string option \<Rightarrow> string" where
  "effective_provider_name provider frontier_provider =
     (if to_lower provider = ''hybrid''
      then to_lower (case frontier_provider of None \<Rightarrow> ''gemini'' | Some p \<Rightarrow> p)
      else to_lower provider)"

definition locate_concurrency_from_env :: "env \<Rightarrow> string \<Rightarrow> bool \<Rightarrow> int" where
  "locate_concurrency_from_env e provider provider_is_local =
     (case Option.bind (e ''LOCATE_CONCURRENCY'') parse_u64 of
        Some v \<Rightarrow> max v 1
      | None \<Rightarrow>
          (case Option.bind (e ''LOCAL_LLM_CONCURRENCY'') parse_u64 of
             Some v \<Rightarrow> max v 1
           | None \<Rightarrow>
               (if to_lower provider \<in> {''lmstudio'', ''local'', ''ollama'', ''omlx''} \<or> provider_is_local then 2 else 1)))"

definition locate_limit :: "env \<Rightarrow> int option \<Rightarrow> int" where
  "locate_limit e limit_override =
     (case limit_override of Some v \<Rightarrow> min v 4294967295 | None \<Rightarrow> env_parse e parse_u32 ''LOCATE_LIMIT'' 50)"

definition filing_move_cooldown_hours_from_env :: "env \<Rightarrow> int" where
  "filing_move_cooldown_hours_from_env e = max (env_parse e parse_i64 ''MAIL_ASSISTANT_MOVE_COOLDOWN_HOURS'' 720) 1"

section \<open>Locate\<close>

text \<open>The folder and the creation flag in the output of the location agent.\<close>

definition recommendation_of :: "json \<Rightarrow> string \<times> bool" where
  "recommendation_of out =
     (case get_str ''folder_path'' out of None \<Rightarrow> ''INBOX'' | Some p \<Rightarrow> p,
      case Option.bind (jget ''create_if_missing'' out) as_bool of None \<Rightarrow> False | Some b \<Rightarrow> b)"

definition locate_one_email_for_account ::
  "'i mail_host \<Rightarrow> string \<Rightarrow> email \<Rightarrow> 'i mail_world \<Rightarrow> (string \<times> err option) \<times> 'i mail_world" where
  "locate_one_email_for_account h a m w =
     (let mid = em_message_id m in
      case net (mh_agent h m) w of
        (Inl e, w1) \<Rightarrow> ((mid, Some e), w1)
      | (Inr out, w1) \<Rightarrow>
          (let (path, create) = recommendation_of out;
               normalized = canonicalize_location_folder_path (policy_from_env (mh_env h)) path ''/''
           in case dbs h ''update_location_recommendation''
                     (\<lambda>_. update_location_recommendation_for_account a mid normalized create) w1 of
                (Inl e, w2) \<Rightarrow> ((mid, Some e), w2)
              | (Inr _, w2) \<Rightarrow> ((mid, None), w2)))"

fun locate_all :: "'i mail_host \<Rightarrow> string \<Rightarrow> email list \<Rightarrow> 'i mail_world \<Rightarrow> (string \<times> err option) list \<times> 'i mail_world" where
  "locate_all h a [] w = ([], w)"
| "locate_all h a (m # rest) w =
     (let (o1, w1) = locate_one_email_for_account h a m w;
          (os, w2) = locate_all h a rest w1
      in (o1 # os, w2))"

text \<open>The number of emails located and of those that failed.\<close>

definition run_locate_with_limit_for_account ::
  "'i mail_host \<Rightarrow> string option \<Rightarrow> bool \<Rightarrow> int option \<Rightarrow> string \<Rightarrow> 'i mail_world \<Rightarrow> (nat \<times> nat) result \<times> 'i mail_world" where
  "run_locate_with_limit_for_account h message_id force limit_override a w =
     (case mh_setup h of
        Some e \<Rightarrow> (Inl e, w)
      | None \<Rightarrow>
          and_then
            (case message_id of
               Some mid \<Rightarrow>
                 and_then (dbs h ''Fetch email by message_id'' (query (\<lambda>ms. find_opt (email_at a mid) (ms_emails ms))) w)
                   (\<lambda>r w1. case r of
                       None \<Rightarrow> (Inl [''No email found with message_id: '' @ mid], w1)
                     | Some m \<Rightarrow> (Inr [m], w1))
             | None \<Rightarrow>
                 dbs h ''Get emails needing location''
                   (query (get_emails_needing_location_for_account a
                             (nat (locate_limit (mh_env h) limit_override)) force)) w)
            (\<lambda>emails w1.
               let (outcomes, w2) = locate_all h a emails w1;
                   ok = length (filter (\<lambda>r. snd r = None) outcomes)
               in (Inr (ok, length outcomes - ok), w2)))"

section \<open>Orphans\<close>

text \<open>A failed search of a folder is passed over; the email counts as not found there.\<close>

fun find_orphan :: "'i mail_host \<Rightarrow> string \<Rightarrow> string \<Rightarrow> string list \<Rightarrow> 'i mail_world \<Rightarrow> bool \<times> 'i mail_world" where
  "find_orphan h a mid [] w = (False, w)"
| "find_orphan h a mid (folder # rest) w =
     (case net (mh_search_mid h folder mid) w of
        (Inr (uid # _), w1) \<Rightarrow>
          (let (v, w2) = dbs h [] (query (get_folder_uid_validity_for_account a folder)) w1;
               validity = (case v of Inr (Some x) \<Rightarrow> x | _ \<Rightarrow> 0)
           in case dbs h ''update_email_location''
                     (\<lambda>_. update_email_location_for_account a mid folder (as_i32 uid) validity) w2 of
                (Inr _, w3) \<Rightarrow> (True, w3)
              | (Inl _, w3) \<Rightarrow> find_orphan h a mid rest w3)
      | (_, w1) \<Rightarrow> find_orphan h a mid rest w1)"

fun find_orphans :: "'i mail_host \<Rightarrow> string \<Rightarrow> string list \<Rightarrow> string list \<Rightarrow> 'i mail_world \<Rightarrow> string list \<times> 'i mail_world" where
  "find_orphans h a [] folders w = ([], w)"
| "find_orphans h a (mid # rest) folders w =
     (let (found, w1) = find_orphan h a mid folders w;
          (lost, w2) = find_orphans h a rest folders w1
      in (if found then lost else mid # lost, w2))"

fun mark_lost :: "'i mail_host \<Rightarrow> string \<Rightarrow> string list \<Rightarrow> 'i mail_world \<Rightarrow> 'i mail_world" where
  "mark_lost h a [] w = w"
| "mark_lost h a (mid # rest) w =
     mark_lost h a rest
       (snd (dbs h ''mark_email_deleted_from_server'' (\<lambda>now. mark_email_deleted_from_server_for_account now a mid) w))"

text \<open>The number of orphans resolved and of those marked deleted.\<close>

definition run_resolve_orphans :: "'i mail_host \<Rightarrow> 'i mail_world \<Rightarrow> (nat \<times> nat) result \<times> 'i mail_world" where
  "run_resolve_orphans h w =
     (let a = default_account_id in
      case mh_setup h of
        Some e \<Rightarrow> (Inl e, w)
      | None \<Rightarrow>
          and_then (dbs h ''Get orphan message_ids'' (query (get_orphan_message_ids_for_account a)) w) (\<lambda>orphans w1.
            if orphans = [] then (Inr (0, 0), w1)
            else case mh_account h of
              Some e \<Rightarrow> (Inl (''Load IMAP config'' # e), w1)
            | None \<Rightarrow>
                and_then (dbs h ''List folders'' (query (list_imap_folders_for_account a)) w1) (\<lambda>folders w2.
                  let names = map fo_name (filter (\<lambda>f. \<not> fo_noselect f) folders) in
                  if names = [] then (Inr (0, 0), w2)
                  else (let (lost, w3) = find_orphans h a orphans names w2
                        in (Inr (length orphans - length lost, length lost), mark_lost h a lost w3)))))"

section \<open>Filing\<close>

definition find_folder_case_insensitive :: "folder list \<Rightarrow> string \<Rightarrow> folder option" where
  "find_folder_case_insensitive folders path = find_opt (\<lambda>f. eq_ignore_ascii_case (fo_name f) path) folders"

text \<open>A folder that is not known counts as selectable: it will be created.\<close>

definition is_path_selectable_in_folders :: "string \<Rightarrow> folder list \<Rightarrow> bool" where
  "is_path_selectable_in_folders path folders =
     (case find_folder_case_insensitive folders path of Some f \<Rightarrow> \<not> fo_noselect f | None \<Rightarrow> True)"

definition refresh_folders_from_imap_for_account ::
  "'i mail_host \<Rightarrow> string \<Rightarrow> 'i mail_world \<Rightarrow> folder list result \<times> 'i mail_world" where
  "refresh_folders_from_imap_for_account h a w =
     and_then (net (mh_list h) w) (\<lambda>boxes w1.
     and_then (dbs h ''sync refreshed IMAP folder list'' (\<lambda>_. sync_folders_from_imap_for_account a boxes) w1) (\<lambda>_ w2.
       dbs h ''reload refreshed IMAP folder list'' (query (list_imap_folders_for_account a)) w2))"

definition noselect_error :: "folder \<Rightarrow> err" where
  "noselect_error f = [''folder '' @ fo_name f @ '' exists but is NOSELECT'']"

definition selectable_folder_name_after_create :: "folder list \<Rightarrow> string \<Rightarrow> string option result" where
  "selectable_folder_name_after_create folders requested =
     (case find_folder_case_insensitive folders requested of
        None \<Rightarrow> Inr None
      | Some f \<Rightarrow> if fo_noselect f then Inl (noselect_error f) else Inr (Some (fo_name f)))"

text \<open>
  The path is created segment by segment; \<open>prefix\<close> is the part that exists, under the name the
  server lists it by. \<open>direct\<close> is the error of the attempt to create the whole path.
\<close>

fun ensure_segments ::
  "'i mail_host \<Rightarrow> string \<Rightarrow> string \<Rightarrow> string \<Rightarrow> string option \<Rightarrow> string list \<Rightarrow> string \<Rightarrow> folder list \<Rightarrow> 'i mail_world
     \<Rightarrow> (string \<times> folder list) result \<times> 'i mail_world" where
  "ensure_segments h a target delim direct [] pref folders w = (Inr (pref, folders), w)"
| "ensure_segments h a target delim direct (segment # rest) pref folders w =
     (let requested = (if pref = [] then segment else pref @ delim @ segment);
          step_in = (\<lambda>f fs w1. if rest = [] \<and> fo_noselect f then (Inl (noselect_error f), w1)
                               else ensure_segments h a target delim direct rest (fo_name f) fs w1)
      in case find_folder_case_insensitive folders requested of
           Some f \<Rightarrow> step_in f folders w
         | None \<Rightarrow>
             (case net (mh_create h requested) w of
                (Inl e, w1) \<Rightarrow>
                  and_then (refresh_folders_from_imap_for_account h a w1) (\<lambda>fs w2.
                    case find_folder_case_insensitive fs requested of
                      Some f \<Rightarrow> step_in f fs w2
                    | None \<Rightarrow>
                        (Inl [''CREATE '' @ requested @ '' failed: '' @ err_full e
                              @ (case direct of None \<Rightarrow> []
                                 | Some d \<Rightarrow> ''; direct CREATE '' @ target @ '' also failed: '' @ d)], w2))
              | (Inr _, w1) \<Rightarrow>
                  and_then (refresh_folders_from_imap_for_account h a w1) (\<lambda>fs w2.
                    case find_folder_case_insensitive fs requested of
                      None \<Rightarrow> (Inl [''CREATE '' @ requested @ '' succeeded but folder was not visible after refresh''], w2)
                    | Some f \<Rightarrow> step_in f fs w2)))"

definition ensure_folder_path_for_filing ::
  "'i mail_host \<Rightarrow> string \<Rightarrow> string \<Rightarrow> string \<Rightarrow> folder list \<Rightarrow> 'i mail_world
     \<Rightarrow> (string \<times> folder list) result \<times> 'i mail_world" where
  "ensure_folder_path_for_filing h a target delim folders w =
     (case selectable_folder_name_after_create folders target of
        Inl e \<Rightarrow> (Inl e, w)
      | Inr (Some n) \<Rightarrow> (Inr (n, folders), w)
      | Inr None \<Rightarrow>
          (let (created, w1) = net (mh_create h target) w;
               direct = (case created of Inl e \<Rightarrow> Some (err_full e) | Inr _ \<Rightarrow> None)
           in and_then (refresh_folders_from_imap_for_account h a w1) (\<lambda>fs w2.
                case selectable_folder_name_after_create fs target of
                  Inl e \<Rightarrow> (Inl e, w2)
                | Inr (Some n) \<Rightarrow> (Inr (n, fs), w2)
                | Inr None \<Rightarrow> ensure_segments h a target delim direct (path_segments delim target) [] fs w2)))"

datatype file_outcome = Filed | Skipped | InPlace

text \<open>The \<^verbatim>\<open>MOVE\<close> and what it is recorded as; without \<^verbatim>\<open>COPYUID\<close> the new UID is searched for.\<close>

definition record_move :: "'i mail_host \<Rightarrow> string \<Rightarrow> string \<Rightarrow> string \<Rightarrow> int \<Rightarrow> int \<Rightarrow> int \<Rightarrow> 'i mail_world
    \<Rightarrow> file_outcome \<times> 'i mail_world" where
  "record_move h a mid target uid v cooldown w =
     (case dbs h ''record_system_filing_move''
             (\<lambda>now. record_system_filing_move_for_account now
                \<lparr>fv_account = a, fv_message_id = mid, fv_location = target, fv_uid = uid, fv_uid_validity = v,
                 fv_actor = ''core'', fv_cooldown_hours = cooldown\<rparr>) w of
        (Inr _, w1) \<Rightarrow> (Filed, w1)
      | (Inl _, w1) \<Rightarrow> (Skipped, w1))"

definition move_email :: "'i mail_host \<Rightarrow> string \<Rightarrow> string \<Rightarrow> string \<Rightarrow> int \<Rightarrow> string \<Rightarrow> int \<Rightarrow> 'i mail_world
    \<Rightarrow> file_outcome \<times> 'i mail_world" where
  "move_email h a mid from_mailbox uid target cooldown w =
     (case net (mh_uid_move h from_mailbox uid target) w of
        (Inl _, w1) \<Rightarrow> (Skipped, w1)
      | (Inr (Some (new_uid, new_v)), w1) \<Rightarrow> record_move h a mid target (as_i32 new_uid) (as_i32 new_v) cooldown w1
      | (Inr None, w1) \<Rightarrow>
          (case net (mh_search_mid h target mid) w1 of
             (Inr (new_uid # _), w2) \<Rightarrow>
               (let (v, w3) = dbs h [] (query (get_folder_uid_validity_for_account a target)) w2;
                    new_v = (case v of Inr (Some x) \<Rightarrow> x | _ \<Rightarrow> 0)
                in record_move h a mid target (as_i32 new_uid) new_v cooldown w3)
           | (_, w2) \<Rightarrow> (Skipped, w2)))"

text \<open>One pending email. \<open>resolve_target\<close>: the folder as the server lists it, and the folders.\<close>

definition resolve_target :: "'i mail_host \<Rightarrow> string \<Rightarrow> string \<Rightarrow> 'i mail_world \<Rightarrow> (string \<times> folder list) result \<times> 'i mail_world" where
  "resolve_target h a target w =
     and_then (dbs h [] (query (list_imap_folders_for_account a)) w) (\<lambda>folders w1.
       case find_folder_case_insensitive folders target of
         Some f \<Rightarrow> (Inr (fo_name f, folders), w1)
       | None \<Rightarrow>
           and_then (refresh_folders_from_imap_for_account h a w1) (\<lambda>fs w2.
             (Inr (case find_folder_case_insensitive fs target of Some f \<Rightarrow> fo_name f | None \<Rightarrow> target, fs), w2)))"

definition file_to :: "'i mail_host \<Rightarrow> string \<Rightarrow> int \<Rightarrow> pending_location \<Rightarrow> string \<Rightarrow> folder list \<Rightarrow> 'i mail_world
    \<Rightarrow> file_outcome \<times> 'i mail_world" where
  "file_to h a cooldown p target folders w =
     (if \<not> is_path_selectable_in_folders target folders then (Skipped, w)
      else case pl_location p of
        None \<Rightarrow> (Skipped, w)
      | Some from_mailbox \<Rightarrow>
          (if from_mailbox = [] then (Skipped, w)
           else case pl_uid p of
             None \<Rightarrow> (Skipped, w)
           | Some uid \<Rightarrow> move_email h a (pl_message_id p) from_mailbox (as_u32 uid) target cooldown w))"

definition file_resolved :: "'i mail_host \<Rightarrow> string \<Rightarrow> string \<Rightarrow> int \<Rightarrow> pending_location \<Rightarrow> string \<Rightarrow> folder list \<Rightarrow> 'i mail_world
    \<Rightarrow> file_outcome \<times> 'i mail_world" where
  "file_resolved h a delim cooldown p target folders w =
     (let create_if_missing = (pl_create_if_missing p = Some True);
          target_exists = list_ex (\<lambda>f. eq_ignore_ascii_case (fo_name f) target) folders
      in if \<not> is_path_selectable_in_folders target folders then (Skipped, w)
         else if target_exists then file_to h a cooldown p target folders w
         else if \<not> should_create_missing_folder_for_filing target delim create_if_missing then (Skipped, w)
         else case ensure_folder_path_for_filing h a target delim folders w of
           (Inl _, w1) \<Rightarrow> (Skipped, w1)
         | (Inr (actual, fs), w1) \<Rightarrow> file_to h a cooldown p actual fs w1)"

definition file_target :: "'i mail_host \<Rightarrow> string \<Rightarrow> pending_location \<Rightarrow> string" where
  "file_target h delim p =
     canonicalize_location_folder_path (policy_from_env (mh_env h)) (trim (pl_location_recommendation p)) delim"

definition pl_current :: "pending_location \<Rightarrow> string" where
  "pl_current p = (case pl_location p of None \<Rightarrow> [] | Some l \<Rightarrow> l)"

definition file_one :: "'i mail_host \<Rightarrow> string \<Rightarrow> string \<Rightarrow> int \<Rightarrow> pending_location \<Rightarrow> 'i mail_world
    \<Rightarrow> file_outcome result \<times> 'i mail_world" where
  "file_one h a delim cooldown p w =
     (let target = file_target h delim p in
      and_then
        (if target \<noteq> pl_location_recommendation p
         then dbs h (''normalize stored location recommendation for '' @ pl_message_id p)
                (\<lambda>_. update_location_recommendation_for_account a (pl_message_id p) target
                        (pl_create_if_missing p = Some True)) w
         else (Inr 0, w))
        (\<lambda>_ w1.
          if eq_ignore_ascii_case (pl_current p) target then (Inr InPlace, w1)
          else and_then (resolve_target h a target w1) (\<lambda>(actual, folders) w2.
                 let (o1, w3) = file_resolved h a delim cooldown p actual folders w2 in (Inr o1, w3))))"

fun file_all :: "'i mail_host \<Rightarrow> string \<Rightarrow> string \<Rightarrow> int \<Rightarrow> pending_location list \<Rightarrow> 'i mail_world
    \<Rightarrow> file_outcome list result \<times> 'i mail_world" where
  "file_all h a delim cooldown [] w = (Inr [], w)"
| "file_all h a delim cooldown (p # rest) w =
     and_then (file_one h a delim cooldown p w) (\<lambda>o1 w1.
     and_then (file_all h a delim cooldown rest w1) (\<lambda>os w2. (Inr (o1 # os), w2)))"

datatype file_report = Planned "(string \<times> string) list" nat | Applied "file_outcome list"

text \<open>A dry run lists the moves; \<open>Planned\<close> also has the number of emails already in place.\<close>

definition run_file_for_account :: "'i mail_host \<Rightarrow> bool \<Rightarrow> string \<Rightarrow> 'i mail_world \<Rightarrow> file_report result \<times> 'i mail_world" where
  "run_file_for_account h dry_run a w =
     (case mh_setup h of
        Some e \<Rightarrow> (Inl e, w)
      | None \<Rightarrow>
          and_then (dbs h ''Get pending location''
                      (\<lambda>now ms. (get_emails_with_pending_location_for_account now a ms, ms)) w) (\<lambda>pending w1.
            if pending = [] then (Inr (Applied []), w1)
            else and_then (dbs h [] (query (list_imap_folders_for_account a)) w1) (\<lambda>folders w2.
              let delim = account_delimiter folders in
              if dry_run
              then (let in_place = (\<lambda>p. case pl_location p of None \<Rightarrow> False
                                        | Some l \<Rightarrow> eq_ignore_ascii_case l (file_target h delim p));
                        moves = filter (\<lambda>p. \<not> in_place p) pending
                    in (Inr (Planned (map (\<lambda>p. (pl_message_id p, file_target h delim p)) moves)
                              (length pending - length moves)), w2))
              else case mh_account h of
                Some e \<Rightarrow> (Inl (''Load account config'' # e), w2)
              | None \<Rightarrow>
                  and_then (file_all h a delim (filing_move_cooldown_hours_from_env (mh_env h)) pending w2)
                    (\<lambda>os w3. (Inr (Applied os), w3)))))"

end
