(* ===== verification/MailSync.thy ===== *)
theory MailSync
  imports Filing BodySyncService
begin

text \<open>
  Synchronisation of the mailboxes: \<^verbatim>\<open>src/mailbox_sync_runtime.rs\<close>. The full synchronisation
  walks each folder by batches of UIDs from the stored cursor, the incremental ones ask for what is new
  (and, for the default account, for changed flags and expunged messages), the window one searches by
  date. Envelopes go into the mail tables and the body queue in one transaction.

  A \<open>sync_host\<close> extends the \<open>mail_host\<close> with the calls of the IMAP client these runs make;
  \<open>sy_drain\<close> is the drain of the body queue that ends them and \<open>sy_since\<close> the date of a window
  as IMAP writes it. Disconnecting, whose outcome the code ignores, is left out. The loop over a folder may
  run for ever on a hostile server, so it has fuel; \<open>None\<close> is running out of it.
\<close>

section \<open>What the client returns\<close>

record mailbox_state =
  mb_exists :: int
  mb_uid_validity :: "int option"
  mb_uid_next :: "int option"

record fetched_envelope =
  fe_message_id :: "string option"
  fe_subject :: "string option"
  fe_from :: "string option"
  fe_date :: "timestamp option"
  fe_to :: "string list"
  fe_cc :: "string list"
  fe_bcc :: "string list"

definition no_envelope :: fetched_envelope where
  "no_envelope = \<lparr>fe_message_id = None, fe_subject = None, fe_from = None, fe_date = None,
                  fe_to = [], fe_cc = [], fe_bcc = []\<rparr>"

type_synonym fetched = "mailbox_state \<times> (int \<times> fetched_envelope) list"

record 'i sync_host =
  sy_mail :: "'i mail_host"
  sy_ts :: "string \<Rightarrow> timestamp option"
  sy_rfc3339 :: "timestamp \<Rightarrow> string"
  sy_since :: "timestamp \<Rightarrow> int \<Rightarrow> string"
  sy_fetch :: "string \<Rightarrow> int \<Rightarrow> int \<Rightarrow> 'i \<Rightarrow> fetched result \<times> 'i"
  sy_fetch_uids :: "string \<Rightarrow> int list \<Rightarrow> 'i \<Rightarrow> fetched result \<times> 'i"
  sy_new_uids :: "string \<Rightarrow> int \<Rightarrow> 'i \<Rightarrow> int list result \<times> 'i"
  sy_highest_modseq :: "string \<Rightarrow> 'i \<Rightarrow> int option result \<times> 'i"
  sy_search_modseq :: "string \<Rightarrow> int \<Rightarrow> 'i \<Rightarrow> int list result \<times> 'i"
  sy_search :: "string \<Rightarrow> string \<Rightarrow> 'i \<Rightarrow> int list result \<times> 'i"
  sy_qresync :: "string \<Rightarrow> int \<Rightarrow> int list \<Rightarrow> 'i \<Rightarrow> int list result \<times> 'i"
  sy_compare :: "string \<Rightarrow> int list \<Rightarrow> 'i \<Rightarrow> int list result \<times> 'i"
  sy_flags :: "string \<Rightarrow> int list \<Rightarrow> 'i \<Rightarrow> (int \<times> bool \<times> int option) list result \<times> 'i"
  sy_drain :: "string \<Rightarrow> 'i mail_world \<Rightarrow> int result \<times> 'i mail_world"

text \<open>A statement, and a call of the client with the context the code gives its error.\<close>

abbreviation sdb :: "'i sync_host \<Rightarrow> string \<Rightarrow> (timestamp \<Rightarrow> mail_store \<Rightarrow> 'a \<times> mail_store) \<Rightarrow> 'i mail_world
    \<Rightarrow> 'a result \<times> 'i mail_world" where
  "sdb h \<equiv> dbs (sy_mail h)"

abbreviation exec :: "(mail_store \<Rightarrow> mail_store) \<Rightarrow> timestamp \<Rightarrow> mail_store \<Rightarrow> unit \<times> mail_store" where
  "exec f \<equiv> \<lambda>_ ms. ((), f ms)"

definition imap :: "string \<Rightarrow> ('i \<Rightarrow> 'a result \<times> 'i) \<Rightarrow> 'i mail_world \<Rightarrow> 'a result \<times> 'i mail_world" where
  "imap what op w = (let (r, w1) = net op w in (ctx what r, w1))"

section \<open>Ranges of UIDs\<close>

abbreviation u32_max :: int where "u32_max \<equiv> 4294967295"

definition sat_add_u32 :: "int \<Rightarrow> int \<Rightarrow> int" where
  "sat_add_u32 x y = min (x + y) u32_max"

definition sat_sub_u32 :: "int \<Rightarrow> int \<Rightarrow> int" where
  "sat_sub_u32 x y = max (x - y) 0"

definition empty_uid_range_end :: "int \<Rightarrow> int \<Rightarrow> int \<Rightarrow> int" where
  "empty_uid_range_end start_uid max_uids uid_end =
     min (sat_sub_u32 (sat_add_u32 start_uid (as_u32 max_uids)) 1) uid_end"

text \<open>The highest UID, 0 without any.\<close>

definition max_uid :: "int list \<Rightarrow> int" where
  "max_uid uids = (case max_list uids of None \<Rightarrow> 0 | Some u \<Rightarrow> u)"

function chunks :: "nat \<Rightarrow> 'a list \<Rightarrow> 'a list list" where
  "chunks n xs = (if n = 0 \<or> xs = [] then [] else take n xs # chunks n (drop n xs))"
  by pat_completeness auto
termination by (relation "measure (\<lambda>(n, xs). length xs)") auto

declare chunks.simps [simp del]

section \<open>Envelopes\<close>

definition has_message_id :: "fetched_envelope \<Rightarrow> bool" where
  "has_message_id e \<longleftrightarrow> (case fe_message_id e of None \<Rightarrow> False | Some s \<Rightarrow> trim s \<noteq> [])"

abbreviation with_id :: "int \<times> fetched_envelope \<Rightarrow> bool" where
  "with_id ue \<equiv> has_message_id (snd ue)"

definition envelope_json :: "(timestamp \<Rightarrow> string) \<Rightarrow> string \<Rightarrow> int \<Rightarrow> int \<times> fetched_envelope \<Rightarrow> json" where
  "envelope_json rfc folder v ue =
     (let (uid, e) = ue in
      JObject [(''message_id'', opt_json JString (fe_message_id e)), (''location'', JString folder),
        (''uid'', JInt (as_i32 uid)), (''uid_validity'', JInt (as_i32 v)),
        (''subject'', opt_json JString (fe_subject e)), (''sender'', opt_json JString (fe_from e)),
        (''recipients_to'', JArray (map JString (fe_to e))), (''recipients_cc'', JArray (map JString (fe_cc e))),
        (''recipients_bcc'', JArray (map JString (fe_bcc e))),
        (''received_date'', opt_json (\<lambda>d. JString (rfc d)) (fe_date e))])"

definition envelope_item :: "string \<Rightarrow> int \<Rightarrow> int \<times> fetched_envelope \<Rightarrow> body_item" where
  "envelope_item folder v ue =
     \<lparr>bi_folder = folder, bi_uid = as_i32 (fst ue), bi_uid_validity = as_i32 v,
      bi_message_id = (case fe_message_id (snd ue) of None \<Rightarrow> [] | Some s \<Rightarrow> s)\<rparr>"

text \<open>What can be imported goes in with the queue of its bodies.\<close>

definition store_envelopes ::
  "'i sync_host \<Rightarrow> string \<Rightarrow> string \<Rightarrow> string \<Rightarrow> int \<Rightarrow> (int \<times> fetched_envelope) list \<Rightarrow> 'i mail_world
     \<Rightarrow> unit result \<times> 'i mail_world" where
  "store_envelopes h what a folder v envs w =
     (let importable = filter with_id envs in
      join_result (sdb h what
        (\<lambda>now ms. let (r, ms') = envelope_tx (sy_ts h) now a (JArray (map (envelope_json (sy_rfc3339 h) folder v) importable))
                                   (map (envelope_item folder v) importable) ms
                  in (ctx what r, ms')) w))"

section \<open>Messages without a Message-ID\<close>

text \<open>Such a message is fetched again by itself, twice, and then recorded for review.\<close>

fun refetch :: "'i sync_host \<Rightarrow> string \<Rightarrow> (int \<times> fetched_envelope) list \<Rightarrow> 'i mail_world
    \<Rightarrow> (int \<times> fetched_envelope) list result \<times> 'i mail_world" where
  "refetch h folder [] w = (Inr [], w)"
| "refetch h folder ((uid, _) # rest) w =
     and_then (imap ''Failed to retry fetch for missing Message-ID'' (sy_fetch_uids h folder [uid]) w) (\<lambda>(_, again) w1.
     and_then (refetch h folder rest w1) (\<lambda>envs w2.
       (Inr ((uid, case find_opt (\<lambda>ue. fst ue = uid) again of None \<Rightarrow> no_envelope | Some ue \<Rightarrow> snd ue) # envs), w2)))"

fun record_missing :: "'i sync_host \<Rightarrow> string \<Rightarrow> string \<Rightarrow> int \<Rightarrow> (int \<times> fetched_envelope) list \<Rightarrow> 'i mail_world
    \<Rightarrow> unit result \<times> 'i mail_world" where
  "record_missing h a folder v [] w = (Inr (), w)"
| "record_missing h a folder v ((uid, _) # rest) w =
     and_then (sdb h ''Failed to record missing message_id''
         (\<lambda>now ms. ((), record_missing_message_id_for_account now a folder (as_i32 uid) (as_i32 v) ms)) w)
       (\<lambda>_ w1. record_missing h a folder v rest w1)"

text \<open>\<open>retries\<close> are the attempts left; the result has a Message-ID everywhere.\<close>

fun settle_ids :: "nat \<Rightarrow> 'i sync_host \<Rightarrow> string \<Rightarrow> string \<Rightarrow> int \<Rightarrow> (int \<times> fetched_envelope) list \<Rightarrow> 'i mail_world
    \<Rightarrow> (int \<times> fetched_envelope) list result \<times> 'i mail_world" where
  "settle_ids retries h a folder v envs w =
     (let withs = filter with_id envs; withouts = filter (\<lambda>ue. \<not> with_id ue) envs in
      if withouts = [] then (Inr withs, w)
      else case retries of
        0 \<Rightarrow> and_then (record_missing h a folder v withouts w) (\<lambda>_ w1. (Inr withs, w1))
      | Suc n \<Rightarrow>
          and_then (refetch h folder withouts w) (\<lambda>again w1.
            settle_ids n h a folder v
              (withs @ filter with_id again @ filter (\<lambda>ue. \<not> with_id ue) again) w1))"

declare settle_ids.simps [simp del]

section \<open>UIDVALIDITY\<close>

text \<open>Stores the folder's validity. When it differs from a known one, the cursors of the folder and
  the UIDs of its emails are void; the result tells.\<close>

definition note_uid_validity :: "'i sync_host \<Rightarrow> string \<Rightarrow> string \<Rightarrow> int \<Rightarrow> 'i mail_world \<Rightarrow> bool result \<times> 'i mail_world" where
  "note_uid_validity h a folder v w =
     and_then (sdb h ''Failed to update folder uid_validity''
                 (\<lambda>_. update_folder_uid_validity_for_account a folder (as_i32 v)) w) (\<lambda>previous w1.
       case previous of
         Some p \<Rightarrow>
           (if p \<noteq> 0 \<and> p \<noteq> as_i32 v
            then and_then (sdb h ''Failed to reset folder sync state''
                             (exec (reset_folder_sync_state_for_account a folder (as_i32 v))) w1) (\<lambda>_ w2.
                 and_then (sdb h ''Failed to clear folder UIDs'' (\<lambda>_. clear_folder_uids_for_account a folder) w2) (\<lambda>_ w3.
                   (Inr True, w3)))
            else (Inr False, w1))
       | None \<Rightarrow> (Inr False, w1))"

definition note_positive_validity :: "'i sync_host \<Rightarrow> string \<Rightarrow> string \<Rightarrow> int \<Rightarrow> 'i mail_world \<Rightarrow> bool result \<times> 'i mail_world" where
  "note_positive_validity h a folder v w = (if v > 0 then note_uid_validity h a folder v w else (Inr False, w))"

abbreviation state_validity :: "mailbox_state \<Rightarrow> int" where
  "state_validity mb \<equiv> (case mb_uid_validity mb of None \<Rightarrow> 0 | Some v \<Rightarrow> v)"

abbreviation state_uid_end :: "mailbox_state \<Rightarrow> int" where
  "state_uid_end mb \<equiv> (case mb_uid_next mb of None \<Rightarrow> 0 | Some n \<Rightarrow> sat_sub_u32 n 1)"

section \<open>Full synchronisation\<close>

definition sync_batch_size :: int where
  "sync_batch_size = 250"

definition set_cursor :: "'i sync_host \<Rightarrow> string \<Rightarrow> string \<Rightarrow> string \<Rightarrow> int \<Rightarrow> 'i mail_world \<Rightarrow> unit result \<times> 'i mail_world" where
  "set_cursor h what a folder uid w = sdb h what (exec (update_folder_last_synced_uid_for_account a folder (as_i32 uid))) w"

text \<open>A range without messages: nothing to do, or the cursor passes over it.\<close>

definition skip_empty_range :: "'i sync_host \<Rightarrow> string \<Rightarrow> string \<Rightarrow> int \<Rightarrow> int \<Rightarrow> 'i mail_world
    \<Rightarrow> (int \<times> int option) result \<times> 'i mail_world" where
  "skip_empty_range h a folder start_uid uid_end w =
     (if uid_end = 0
      then and_then (set_cursor h ''Failed to update last_synced_uid (empty mailbox)'' a folder 0 w) (\<lambda>_ w1. (Inr (0, None), w1))
      else if start_uid > uid_end then (Inr (0, None), w)
      else (let range_end = empty_uid_range_end start_uid sync_batch_size uid_end; next_uid = sat_add_u32 range_end 1 in
            and_then (set_cursor h ''Failed to update last_synced_uid (empty range)'' a folder range_end w)
              (\<lambda>_ w1. (Inr (0, if next_uid > uid_end then None else Some next_uid), w1))))"

text \<open>The envelopes of one batch; \<open>highest_fetched\<close> is the highest UID before those without a
  Message-ID were taken out.\<close>

definition import_batch :: "'i sync_host \<Rightarrow> string \<Rightarrow> string \<Rightarrow> int \<Rightarrow> int \<Rightarrow> int \<Rightarrow> (int \<times> fetched_envelope) list \<Rightarrow> 'i mail_world
    \<Rightarrow> (int \<times> int option) result \<times> 'i mail_world" where
  "import_batch h a folder v uid_end highest_fetched envs w =
     (if filter with_id envs = []
      then (if highest_fetched > 0
            then and_then (set_cursor h ''Failed to update last_synced_uid for unimportable range'' a folder highest_fetched w)
                   (\<lambda>_ w1. (Inr (0, if highest_fetched \<ge> uid_end then None else Some (sat_add_u32 highest_fetched 1)), w1))
            else (Inr (0, None), w))
      else and_then (store_envelopes h ''Failed to upsert envelopes + enqueue body sync'' a folder v envs w) (\<lambda>_ w1.
           (let highest = max_uid (map fst envs) in
            and_then (set_cursor h ''Failed to update last_synced_uid'' a folder highest w1)
              (\<lambda>_ w2. (Inr (int (length envs), if highest \<ge> uid_end then None else Some (sat_add_u32 highest 1)), w2)))))"

text \<open>One round of the loop: the number of envelopes, and where to go on, if at all.\<close>

definition sync_batch :: "'i sync_host \<Rightarrow> string \<Rightarrow> string \<Rightarrow> int \<Rightarrow> 'i mail_world
    \<Rightarrow> (int \<times> int option) result \<times> 'i mail_world" where
  "sync_batch h a folder start_uid w =
     and_then (imap ''Failed to raw fetch envelopes'' (sy_fetch h folder start_uid sync_batch_size) w) (\<lambda>(mb, envs) w1.
     and_then (sdb h ''Failed to update folder message count''
                 (exec (update_imap_folder_message_counts_for_account a [(folder, as_i32 (mb_exists mb))])) w1) (\<lambda>_ w2.
     and_then (note_positive_validity h a folder (state_validity mb) w2) (\<lambda>changed w3.
       if changed then (Inr (0, Some 1), w3)
       else if envs = [] then skip_empty_range h a folder start_uid (state_uid_end mb) w3
       else and_then (settle_ids 2 h a folder (state_validity mb) envs w3) (\<lambda>envs' w4.
              import_batch h a folder (state_validity mb) (state_uid_end mb) (max_uid (map fst envs)) envs' w4))))"

fun sync_folder :: "nat \<Rightarrow> 'i sync_host \<Rightarrow> string \<Rightarrow> string \<Rightarrow> int \<Rightarrow> int \<Rightarrow> 'i mail_world \<Rightarrow> (int result \<times> 'i mail_world) option" where
  "sync_folder 0 h a folder start_uid synced w = None"
| "sync_folder (Suc fuel) h a folder start_uid synced w =
     (case sync_batch h a folder start_uid w of
        (Inl e, w1) \<Rightarrow> Some (Inl e, w1)
      | (Inr (n, None), w1) \<Rightarrow> Some (Inr (synced + n), w1)
      | (Inr (n, Some next_uid), w1) \<Rightarrow> sync_folder fuel h a folder next_uid (synced + n) w1)"

definition first_uid :: "folder \<Rightarrow> int" where
  "first_uid f = (case fo_last_synced_uid f of None \<Rightarrow> 1 | Some u \<Rightarrow> sat_add_u32 (as_u32 u) 1)"

fun sync_folders :: "nat \<Rightarrow> 'i sync_host \<Rightarrow> string \<Rightarrow> folder list \<Rightarrow> int \<Rightarrow> 'i mail_world \<Rightarrow> (int result \<times> 'i mail_world) option" where
  "sync_folders fuel h a [] synced w = Some (Inr synced, w)"
| "sync_folders fuel h a (f # rest) synced w =
     (case sync_folder fuel h a (fo_name f) (first_uid f) 0 w of
        None \<Rightarrow> None
      | Some (Inl e, w1) \<Rightarrow> Some (Inl e, w1)
      | Some (Inr n, w1) \<Rightarrow> sync_folders fuel h a rest (synced + n) w1)"

definition sync_order :: "folder \<Rightarrow> nat \<times> int \<times> string" where
  "sync_order f = (if fo_name f = ''INBOX'' then 0 else 1,
     - (case fo_priority f of None \<Rightarrow> 0 | Some p \<Rightarrow> p), fo_name f)"

text \<open>What follows the folders: bodies, priorities and the count that is printed.\<close>

definition finish_sync :: "'i sync_host \<Rightarrow> string \<Rightarrow> int \<Rightarrow> 'i mail_world \<Rightarrow> int result \<times> 'i mail_world" where
  "finish_sync h a synced w =
     and_then (let (r, w1) = sy_drain h a w in (ctx ''Failed to process durable body sync queue'' r, w1)) (\<lambda>_ w1.
     and_then (sdb h ''Failed to recompute folder priority'' (exec (recompute_imap_folder_priority_for_account a)) w1) (\<lambda>_ w2.
       if synced > 0
       then and_then (sdb h ''Failed to verify email count''
                        (query (\<lambda>ms. sql_count (\<lambda>m. em_account m = a) (ms_emails ms))) w2) (\<lambda>_ w3. (Inr synced, w3))
       else (Inr synced, w2)))"

definition run_sync_for_account :: "nat \<Rightarrow> 'i sync_host \<Rightarrow> string \<Rightarrow> 'i mail_world \<Rightarrow> (int result \<times> 'i mail_world) option" where
  "run_sync_for_account fuel h a w =
     (case mh_setup (sy_mail h) of
        Some e \<Rightarrow> Some (Inl e, w)
      | None \<Rightarrow>
          (case and_then (imap ''Failed to list mailboxes from IMAP'' (mh_list (sy_mail h)) w) (\<lambda>boxes w1.
                and_then (sdb h ''Failed to sync folders to database'' (\<lambda>_. sync_folders_from_imap_for_account a boxes) w1) (\<lambda>_ w2.
                  sdb h ''Failed to list imap folders'' (query (list_imap_folders_for_account a)) w2)) of
             (Inl e, w1) \<Rightarrow> Some (Inl e, w1)
           | (Inr folders, w1) \<Rightarrow>
               (case sync_folders fuel h a (sort_key sync_order (filter (\<lambda>f. \<not> fo_noselect f) folders)) 0 w1 of
                  None \<Rightarrow> None
                | Some (Inl e, w2) \<Rightarrow> Some (Inl e, w2)
                | Some (Inr synced, w2) \<Rightarrow> Some (finish_sync h a synced w2))))"

end
