(* ===== verification/ImapText.thy ===== *)
theory ImapText
  imports MailSync
begin

text \<open>
  The text handling of \<^verbatim>\<open>src/imap_client.rs\<close>: what the regular expressions pick out of a response
  line, the quoting of command arguments, the headers and the body text of a message.

  The MIME parser is the crate \<^verbatim>\<open>mailparse\<close>: \<open>ml_parse\<close> gives the parsed message (first value of a
  header by name, type, decoded body, parts), \<open>ml_date\<close> the seconds of a \<^verbatim>\<open>Date\<close>, \<open>ml_internaldate\<close>
  is \<^verbatim>\<open>chrono\<close>'s parser for \<^verbatim>\<open>INTERNALDATE\<close> and \<open>ml_now\<close> the clock. Slicing a string outside its bounds
  panics: \<open>Panic\<close> is a value of \<open>run\<close>, apart from the errors the code can handle.
\<close>

section \<open>Outcomes\<close>

datatype 'a run = Value 'a | Error err | Panic

definition run_then :: "'a run \<Rightarrow> ('a \<Rightarrow> 'b run) \<Rightarrow> 'b run" where
  "run_then r f = (case r of Value x \<Rightarrow> f x | Error e \<Rightarrow> Error e | Panic \<Rightarrow> Panic)"

text \<open>\<^verbatim>\<open>&s[i..j]\<close>.\<close>

definition slice :: "string \<Rightarrow> nat \<Rightarrow> nat \<Rightarrow> string run" where
  "slice s i j = (if i \<le> j \<and> j \<le> length s then Value (take (j - i) (drop i s)) else Panic)"

text \<open>\<^verbatim>\<open>str::find\<close> of a character.\<close>

fun index_of :: "char \<Rightarrow> string \<Rightarrow> nat option" where
  "index_of c [] = None"
| "index_of c (x # xs) = (if x = c then Some 0 else map_option Suc (index_of c xs))"

section \<open>Patterns\<close>

definition expect :: "string \<Rightarrow> string \<Rightarrow> string option" where
  "expect p s = (if starts_with s p then Some (drop (length p) s) else None)"

text \<open>\<^verbatim>\<open>\d+\<close>, greedy, and what follows.\<close>

definition digits :: "string \<Rightarrow> (string \<times> string) option" where
  "digits s = (let d = takeWhile is_ascii_digit s in if d = [] then None else Some (d, drop (length d) s))"

text \<open>\<^verbatim>\<open>pre (\d+) post\<close> where it starts.\<close>

definition number_between :: "string \<Rightarrow> string \<Rightarrow> string \<Rightarrow> (string \<times> string) option" where
  "number_between pre post s =
     Option.bind (expect pre s) (\<lambda>s1. Option.bind (digits s1) (\<lambda>(d, s2). map_option (Pair d) (expect post s2)))"

text \<open>The leftmost match.\<close>

fun search :: "(string \<Rightarrow> 'a option) \<Rightarrow> string \<Rightarrow> 'a option" where
  "search m [] = m []"
| "search m (c # cs) = (case m (c # cs) of Some x \<Rightarrow> Some x | None \<Rightarrow> search m cs)"

definition find_number :: "string \<Rightarrow> string \<Rightarrow> string \<Rightarrow> string option" where
  "find_number pre post s = search (\<lambda>t. map_option fst (number_between pre post t)) s"

text \<open>\<^verbatim>\<open>pre([^stop]*)post\<close>, and with at least one character.\<close>

definition find_until :: "char \<Rightarrow> string \<Rightarrow> string \<Rightarrow> string \<Rightarrow> string option" where
  "find_until stop pre post s =
     search (\<lambda>t. Option.bind (expect pre t) (\<lambda>u.
       (let x = takeWhile (\<lambda>c. c \<noteq> stop) u in map_option (\<lambda>_. x) (expect post (drop (length x) u))))) s"

definition find_until1 :: "char \<Rightarrow> string \<Rightarrow> string \<Rightarrow> string \<Rightarrow> string option" where
  "find_until1 stop pre post s =
     search (\<lambda>t. Option.bind (expect pre t) (\<lambda>u.
       (let x = takeWhile (\<lambda>c. c \<noteq> stop) u in
        if x = [] then None else map_option (\<lambda>_. x) (expect post (drop (length x) u))))) s"

abbreviation or_zero_num :: "int option \<Rightarrow> int" where
  "or_zero_num x \<equiv> (case x of None \<Rightarrow> 0 | Some n \<Rightarrow> n)"

section \<open>Response lines\<close>

abbreviation LF :: char where "LF \<equiv> CHR 0x0A"
abbreviation crlf :: string where "crlf \<equiv> [CHR 0x0D, CHR 0x0A]"

definition exists_count :: "string \<Rightarrow> string option" where
  "exists_count line = map_option fst (number_between ''* '' '' EXISTS'' line)"

text \<open>A number that does not fit is no number.\<close>

definition note_uid_next :: "string \<Rightarrow> mailbox_state \<Rightarrow> mailbox_state" where
  "note_uid_next line mb =
     (case find_number ''[UIDNEXT '' '']'' line of None \<Rightarrow> mb | Some d \<Rightarrow> mb\<lparr>mb_uid_next := parse_u32 d\<rparr>)"

definition note_validity_line :: "string \<Rightarrow> mailbox_state \<Rightarrow> mailbox_state" where
  "note_validity_line line mb =
     (case find_number ''[UIDVALIDITY '' '']'' line of None \<Rightarrow> mb | Some d \<Rightarrow> mb\<lparr>mb_uid_validity := parse_u32 d\<rparr>)"

definition note_exists :: "string \<Rightarrow> mailbox_state \<Rightarrow> mailbox_state" where
  "note_exists line mb =
     (case exists_count line of None \<Rightarrow> mb | Some d \<Rightarrow> mb\<lparr>mb_exists := or_zero_num (parse_u32 d)\<rparr>)"

definition select_line :: "mailbox_state \<Rightarrow> string \<Rightarrow> mailbox_state" where
  "select_line mb line = note_validity_line line (note_uid_next line (note_exists line mb))"

definition no_mailbox_state :: mailbox_state where
  "no_mailbox_state = \<lparr>mb_exists = 0, mb_uid_validity = None, mb_uid_next = None\<rparr>"

text \<open>\<^verbatim>\<open>^\* \d+ FETCH \(UID (\d+) BODY\[HEADER\] \{(\d+)\}\<close> and the same with \<^verbatim>\<open>NIL\<close>.\<close>

definition fetch_uid :: "string \<Rightarrow> (string \<times> string) option" where
  "fetch_uid line = Option.bind (number_between ''* '' '' FETCH (UID '' line) (\<lambda>(_, s). digits s)"

definition header_literal :: "string \<Rightarrow> (int \<times> nat) option" where
  "header_literal line =
     Option.bind (fetch_uid line) (\<lambda>(u, s). Option.bind (number_between '' BODY[HEADER] {'' ''}'' s)
       (\<lambda>(n, _). Some (or_zero_num (parse_u32 u), nat (or_zero_num (parse_u64 n)))))"

definition header_nil :: "string \<Rightarrow> int option" where
  "header_nil line =
     Option.bind (fetch_uid line) (\<lambda>(u, s). map_option (\<lambda>_. or_zero_num (parse_u32 u)) (expect '' BODY[HEADER] NIL'' s))"

text \<open>\<^verbatim>\<open>NO\<close> and \<^verbatim>\<open>BAD\<close> are errors, anything else is not.\<close>

definition check_imap_tag_response :: "string \<Rightarrow> string \<Rightarrow> unit run" where
  "check_imap_tag_response buf tag =
     (if \<not> starts_with buf tag then Value ()
      else (let after_tag = trim_start (drop (length tag) buf) in
            if starts_with after_tag ''OK'' then Value ()
            else if starts_with after_tag ''NO'' \<or> starts_with after_tag ''BAD''
            then Error [''IMAP '' @ trim tag @ '': '' @ after_tag]
            else Value ()))"

definition is_mailbox_already_exists_response :: "string \<Rightarrow> bool" where
  "is_mailbox_already_exists_response buf \<longleftrightarrow> (let lower = to_lower buf in
     contains lower ''[alreadyexists]'' \<or> contains lower ''already exists'')"

text \<open>\<^verbatim>\<open>\[COPYUID\s+(\d+)\s+[^\s]+\s+([0-9:,]+)\]\<close>: the validity and the destination UIDs. The
  middle, without blanks, ends where blanks begin.\<close>

definition spaces :: "string \<Rightarrow> string option" where
  "spaces s = (case s of [] \<Rightarrow> None | c # _ \<Rightarrow> if is_ws c then Some (dropWhile is_ws s) else None)"

definition copyuid_at :: "string \<Rightarrow> (string \<times> string) option" where
  "copyuid_at t =
     Option.bind (Option.bind (expect ''[COPYUID'' t) spaces) (\<lambda>s1.
     Option.bind (digits s1) (\<lambda>(v, s2).
     Option.bind (spaces s2) (\<lambda>s3.
     (let from = takeWhile (\<lambda>c. \<not> is_ws c) s3 in
      if from = [] then None
      else Option.bind (spaces (drop (length from) s3)) (\<lambda>s4.
        (let uids = takeWhile (\<lambda>c. is_ascii_digit c \<or> c = CHR '':'' \<or> c = CHR '','') s4 in
         if uids = [] then None
         else map_option (\<lambda>_. (v, uids)) (expect '']'' (drop (length uids) s4))))))))"

text \<open>The new UID and its validity: the last number of the destination set.\<close>

definition copyuid :: "string \<Rightarrow> (int \<times> int) option" where
  "copyuid line =
     (case search copyuid_at line of
        None \<Rightarrow> None
      | Some (v, uids) \<Rightarrow>
          (let numbers = filter (\<lambda>s. s \<noteq> []) (split_by (\<lambda>c. \<not> is_ascii_digit c) uids);
               new_uid = (if numbers = [] then 0 else or_zero_num (parse_u32 (last numbers)))
           in if new_uid > 0 then Some (new_uid, or_zero_num (parse_u32 v)) else None))"

text \<open>\<^verbatim>\<open>VANISHED(?: \(EARLIER\))? \(([^)]+)\)\<close>, and the UIDs of the set it captures.\<close>

definition vanished_at :: "string \<Rightarrow> string option" where
  "vanished_at t =
     (let set_of = (\<lambda>s. Option.bind (expect '' ('' s) (\<lambda>u.
            (let x = takeWhile (\<lambda>c. c \<noteq> CHR '')'') u in
             if x = [] then None else map_option (\<lambda>_. x) (expect '')'' (drop (length x) u)))))
      in Option.bind (expect ''VANISHED'' t) (\<lambda>s.
           case Option.bind (expect '' (EARLIER)'' s) set_of of Some x \<Rightarrow> Some x | None \<Rightarrow> set_of s))"

definition uid_part :: "string \<Rightarrow> int list" where
  "uid_part part =
     (case index_of (CHR '':'') part of
        Some k \<Rightarrow>
          (let start_uid = or_zero_num (parse_u32 (take k part));
               end_uid = (case parse_u32 (drop (Suc k) part) of None \<Rightarrow> start_uid | Some e \<Rightarrow> e)
           in [start_uid .. end_uid])
      | None \<Rightarrow> (case parse_u32 part of None \<Rightarrow> [] | Some u \<Rightarrow> [u]))"

definition vanished_uids :: "string \<Rightarrow> int list" where
  "vanished_uids line =
     (if contains line ''VANISHED''
      then (case search vanished_at line of
              None \<Rightarrow> [] | Some uid_set \<Rightarrow> concat (map uid_part (split_by (\<lambda>c. c = CHR '','') uid_set)))
      else [])"

section \<open>Command arguments\<close>

definition replace_with :: "char \<Rightarrow> string \<Rightarrow> string \<Rightarrow> string" where
  "replace_with c r s = concat (map (\<lambda>x. if x = c then r else [x]) s)"

definition quote :: "string \<Rightarrow> string" where
  "quote s = replace_with (CHR 0x22) [CHR 0x5C, CHR 0x22] (replace_with (CHR 0x5C) [CHR 0x5C, CHR 0x5C] s)"

definition escape_mailbox :: "string \<Rightarrow> string" where
  "escape_mailbox s = replace_with (CHR ''&'') ''&-'' (quote s)"

definition quoted :: "string \<Rightarrow> string" where
  "quoted s = CHR 0x22 # s @ [CHR 0x22]"

definition login_command :: "(string \<Rightarrow> string) \<Rightarrow> string \<Rightarrow> string \<Rightarrow> string" where
  "login_command esc username password = ''a001 LOGIN '' @ quoted (esc username) @ '' '' @ quoted (esc password) @ crlf"

definition uid_list :: "int list \<Rightarrow> string" where
  "uid_list uids = join '','' (map show_int uids)"

definition new_uid_search_query :: "int \<Rightarrow> int option \<Rightarrow> string option" where
  "new_uid_search_query last_synced_uid uid_next =
     (let start_uid = sat_add_u32 last_synced_uid 1 in
      case uid_next of
        Some n \<Rightarrow> (if start_uid \<ge> n then None
                   else Some (''UID '' @ show_int start_uid @ '':'' @ show_int (sat_sub_u32 n 1)))
      | None \<Rightarrow> Some (''UID '' @ show_int start_uid @ '':*''))"

definition message_id_query :: "string \<Rightarrow> string" where
  "message_id_query message_id =
     (let v = trim message_id;
          w = (if starts_with v ''<'' \<and> ends_with v ''>'' then v else ''<'' @ v @ ''>'')
      in ''HEADER '' @ quoted ''Message-ID'' @ '' '' @ quoted (quote w))"

section \<open>Headers\<close>

datatype parsed_mail =
  Parsed (pm_header: "string \<Rightarrow> string option") (pm_mimetype: string) (pm_body: "string option") (pm_parts: "parsed_mail list")

record mail_lib =
  ml_parse :: "string \<Rightarrow> parsed_mail option"
  ml_date :: "string \<Rightarrow> int option"
  ml_internaldate :: "string \<Rightarrow> timestamp option"
  ml_now :: timestamp

record email_headers =
  eh_message_id :: "string option"
  eh_subject :: "string option"
  eh_sender :: "string option"
  eh_date :: "timestamp option"
  eh_in_reply_to :: "string option"
  eh_references :: "string list"
  eh_recipients_to :: "string list"
  eh_recipients_cc :: "string list"
  eh_recipients_bcc :: "string list"
  eh_list_unsubscribe :: "string option"
  eh_list_id :: "string option"
  eh_precedence :: "string option"
  eh_x_priority :: "string option"
  eh_return_path :: "string option"
  eh_reply_to :: "string option"
  eh_custom_headers :: json

definition no_headers :: email_headers where
  "no_headers = \<lparr>eh_message_id = None, eh_subject = None, eh_sender = None, eh_date = None, eh_in_reply_to = None,
     eh_references = [], eh_recipients_to = [], eh_recipients_cc = [], eh_recipients_bcc = [],
     eh_list_unsubscribe = None, eh_list_id = None, eh_precedence = None, eh_x_priority = None,
     eh_return_path = None, eh_reply_to = None, eh_custom_headers = JNull\<rparr>"

definition first_header :: "parsed_mail \<Rightarrow> string list \<Rightarrow> string option" where
  "first_header p names = find_map (pm_header p) names"

text \<open>\<^verbatim>\<open>trim().trim_matches('<').trim_matches('>')\<close>\<close>

definition strip_angles :: "string \<Rightarrow> string" where
  "strip_angles s = trim_matches (\<lambda>c. c = CHR ''>'') (trim_matches (\<lambda>c. c = CHR ''<'') (trim s))"

text \<open>What stands between the first \<^verbatim>\<open><\<close> and the first \<^verbatim>\<open>></\<close>.\<close>

definition angle_addr :: "string \<Rightarrow> string run" where
  "angle_addr s =
     (case (index_of (CHR ''<'') s, index_of (CHR ''>'') s) of
        (Some i, Some j) \<Rightarrow> run_then (slice s (i + 1) j) (\<lambda>a. Value (trim a))
      | _ \<Rightarrow> Value (trim s))"

definition address_part :: "string \<Rightarrow> string list run" where
  "address_part p =
     (let part = trim p in
      case index_of (CHR ''<'') part of
        Some i \<Rightarrow> (case index_of (CHR ''>'') part of
                     Some j \<Rightarrow> run_then (slice part (i + 1) j) (\<lambda>a. Value [trim a])
                   | None \<Rightarrow> Value [part])
      | None \<Rightarrow> Value (if contains part ''@'' then [part] else []))"

fun run_all :: "'a run list \<Rightarrow> 'a list run" where
  "run_all [] = Value []"
| "run_all (r # rs) = run_then r (\<lambda>x. run_then (run_all rs) (\<lambda>xs. Value (x # xs)))"

definition extract_email_addresses :: "string option \<Rightarrow> string list run" where
  "extract_email_addresses header_value =
     (case header_value of
        None \<Rightarrow> Value []
      | Some s \<Rightarrow> run_then (run_all (map address_part (split_by (\<lambda>c. c = CHR '','') s)))
                   (\<lambda>xs. Value (filter (\<lambda>e. e \<noteq> []) (concat xs))))"

definition opt_run :: "('a \<Rightarrow> 'b run) \<Rightarrow> 'a option \<Rightarrow> 'b option run" where
  "opt_run f x = (case x of None \<Rightarrow> Value None | Some v \<Rightarrow> run_then (f v) (\<lambda>y. Value (Some y)))"

text \<open>\<^verbatim>\<open>DateTime::from_timestamp\<close>: out of its range the current time is taken.\<close>

definition header_date :: "mail_lib \<Rightarrow> string \<Rightarrow> timestamp option" where
  "header_date lib s = map_option (\<lambda>n. if - 8334601228800 \<le> n \<and> n \<le> 8210266876799 then secs n else ml_now lib) (ml_date lib s)"

definition custom_header_names :: "string list" where
  "custom_header_names = [''X-Mailer'', ''X-Original-Sender'', ''X-Sender'', ''X-Spam-Status'', ''X-Spam-Level'']"

definition custom_headers_of :: "parsed_mail \<Rightarrow> json" where
  "custom_headers_of p =
     JObject (List.map_filter (\<lambda>name. map_option (\<lambda>v. (to_lower name, JString (trim v)))
       (first_header p [name, to_lower name])) custom_header_names)"

definition with_separator :: "string \<Rightarrow> string" where
  "with_separator content =
     (if contains content (crlf @ crlf) \<or> contains content [LF, LF] then content else content @ crlf @ crlf)"

definition parse_email_headers :: "mail_lib \<Rightarrow> string \<Rightarrow> email_headers run" where
  "parse_email_headers lib content =
     (case ml_parse lib (with_separator content) of
        None \<Rightarrow> Error [''Failed to parse email'']
      | Some p \<Rightarrow>
          run_then (opt_run angle_addr (first_header p [''From'', ''from'', ''Sender''])) (\<lambda>sender.
          run_then (extract_email_addresses (first_header p [''To'', ''to''])) (\<lambda>to.
          run_then (extract_email_addresses (first_header p [''Cc'', ''cc''])) (\<lambda>cc.
          run_then (extract_email_addresses (first_header p [''Bcc'', ''bcc''])) (\<lambda>bcc.
          run_then (opt_run angle_addr (first_header p [''Reply-To'', ''reply-to''])) (\<lambda>reply_to.
            Value \<lparr>eh_message_id = map_option strip_angles (first_header p [''Message-ID'', ''message-id'']),
                   eh_subject = map_option trim (first_header p [''Subject'', ''subject'']),
                   eh_sender = sender,
                   eh_date = Option.bind (first_header p [''Date'', ''date'']) (header_date lib),
                   eh_in_reply_to = map_option strip_angles (first_header p [''In-Reply-To'', ''in-reply-to'']),
                   eh_references = (case first_header p [''References'', ''references''] of
                        None \<Rightarrow> []
                      | Some s \<Rightarrow> filter (\<lambda>m. m \<noteq> []) (map strip_angles (split_whitespace s))),
                   eh_recipients_to = to, eh_recipients_cc = cc, eh_recipients_bcc = bcc,
                   eh_list_unsubscribe = map_option trim (first_header p [''List-Unsubscribe'', ''list-unsubscribe'']),
                   eh_list_id = map_option trim (first_header p [''List-Id'', ''list-id'']),
                   eh_precedence = map_option trim (first_header p [''Precedence'', ''precedence'']),
                   eh_x_priority = map_option trim (first_header p [''X-Priority'', ''x-priority'']),
                   eh_return_path = map_option strip_angles (first_header p [''Return-Path'', ''return-path'']),
                   eh_reply_to = reply_to, eh_custom_headers = custom_headers_of p\<rparr>))))))"

text \<open>\<^verbatim>\<open>unwrap_or_default\<close>, and the fields an envelope takes.\<close>

definition or_no_headers :: "email_headers run \<Rightarrow> email_headers run" where
  "or_no_headers r = (case r of Error _ \<Rightarrow> Value no_headers | _ \<Rightarrow> r)"

definition envelope_of :: "email_headers \<Rightarrow> fetched_envelope" where
  "envelope_of h = \<lparr>fe_message_id = eh_message_id h, fe_subject = eh_subject h, fe_from = eh_sender h, fe_date = eh_date h,
     fe_to = eh_recipients_to h, fe_cc = eh_recipients_cc h, fe_bcc = eh_recipients_bcc h\<rparr>"

section \<open>Body text\<close>

text \<open>Of the parts with a text, the last that is not HTML, or else the last that is.\<close>

definition pick_text :: "(string \<times> string option) list \<Rightarrow> string option" where
  "pick_text parts =
     (let (plain, html) = fold (\<lambda>(mt, text) (plain, html).
            case text of
              None \<Rightarrow> (plain, html)
            | Some t \<Rightarrow> if starts_with (to_lower mt) ''text/html'' then (plain, Some t) else (Some t, html)) parts (None, None)
      in case plain of Some t \<Rightarrow> Some t | None \<Rightarrow> html)"

fun extract_body_text_from_parsed :: "parsed_mail \<Rightarrow> string option" where
  "extract_body_text_from_parsed (Parsed h mt body parts) =
     (let mimetype = to_lower mt in
      if starts_with mimetype ''text/plain'' then body
      else if starts_with mimetype ''text/html'' then body
      else if starts_with mimetype ''multipart/''
      then pick_text (map (\<lambda>p. (pm_mimetype p, extract_body_text_from_parsed p)) parts)
      else None)"

end
