(* ===== verification/ImapClient.thy ===== *)
theory ImapClient
  imports ImapText
begin

text \<open>
  The conversations of \<^verbatim>\<open>src/imap_client.rs\<close> that run on a connection of their own, command by
  command. A \<open>wire\<close> is that connection: \<open>wr_server\<close> gives what the server sends after the commands so
  far (after none, its greeting), \<open>wr_in\<close> is what has arrived and is not read yet, and \<open>wr_silent\<close> tells
  what follows the last character: a silent server or a closed connection. A computation on a wire yields
  \<open>None\<close> when it never ends: it waits for a silent server without a time limit, or it keeps reading
  nothing from a closed connection. Writing a command succeeds.

  Connecting is the parameter \<open>tcp\<close> of host and port; its errors are those of TCP and TLS.
\<close>

section \<open>The connection\<close>

record wire =
  wr_server :: "string list \<Rightarrow> string"
  wr_silent :: bool
  wr_in :: string
  wr_sent :: "string list"

type_synonym 'a io = "wire \<Rightarrow> ('a run \<times> wire) option"

definition done_io :: "'a \<Rightarrow> 'a io" where
  "done_io x w = Some (Value x, w)"

definition io_then :: "'a io \<Rightarrow> ('a \<Rightarrow> 'b io) \<Rightarrow> 'b io" where
  "io_then m f w =
     (case m w of
        None \<Rightarrow> None
      | Some (Value x, w1) \<Rightarrow> f x w1
      | Some (Error e, w1) \<Rightarrow> Some (Error e, w1)
      | Some (Panic, w1) \<Rightarrow> Some (Panic, w1))"

definition run_io :: "'a run \<Rightarrow> 'a io" where
  "run_io r w = Some (r, w)"

definition ctx_run :: "string \<Rightarrow> 'a run \<Rightarrow> 'a run" where
  "ctx_run what r = (case r of Error e \<Rightarrow> Error (what # e) | _ \<Rightarrow> r)"

definition send :: "string \<Rightarrow> unit io" where
  "send cmd w = Some (Value (), w\<lparr>wr_in := wr_in w @ wr_server w (wr_sent w @ [cmd]), wr_sent := wr_sent w @ [cmd]\<rparr>)"

text \<open>A line with its end, or what is left.\<close>

definition line_of :: "string \<Rightarrow> string" where
  "line_of s = takeWhile (\<lambda>c. c \<noteq> LF) s @ (if LF \<in> set s then [LF] else [])"

abbreviation complete :: "wire \<Rightarrow> bool" where
  "complete w \<equiv> LF \<in> set (wr_in w) \<or> \<not> wr_silent w"

text \<open>\<^verbatim>\<open>read_line\<close>; at the end of a closed connection it reads nothing.\<close>

definition read_line :: "string io" where
  "read_line w =
     (if complete w then Some (Value (line_of (wr_in w)), w\<lparr>wr_in := drop (length (line_of (wr_in w))) (wr_in w)\<rparr>) else None)"

definition read_exact :: "nat \<Rightarrow> string io" where
  "read_exact n w =
     (if n \<le> length (wr_in w) then Some (Value (take n (wr_in w)), w\<lparr>wr_in := drop n (wr_in w)\<rparr>)
      else if wr_silent w then None else Some (Error [''early eof''], w\<lparr>wr_in := []\<rparr>))"

definition read_raw_imap_line :: "string \<Rightarrow> string io" where
  "read_raw_imap_line action w =
     (if \<not> complete w then Some (Error [''IMAP raw command timed out during '' @ action], w)
      else if wr_in w = [] then Some (Error [''IMAP raw command connection closed during '' @ action], w)
      else read_line w)"

text \<open>The loop of every command: lines up to the tagged one, each given to \<open>f\<close>.\<close>

partial_function (option) until_tag ::
  "string io \<Rightarrow> string \<Rightarrow> ('a \<Rightarrow> string \<Rightarrow> 'a io) \<Rightarrow> 'a \<Rightarrow> wire \<Rightarrow> (('a \<times> string) run \<times> wire) option" where
  "until_tag rd tag f acc w =
     Option.bind (rd w) (\<lambda>(r, w1).
       case r of
         Error e \<Rightarrow> Some (Error e, w1)
       | Panic \<Rightarrow> Some (Panic, w1)
       | Value line \<Rightarrow>
           (if starts_with line tag then Some (Value (acc, line), w1)
            else Option.bind (f acc line w1) (\<lambda>(r2, w2).
              case r2 of
                Error e \<Rightarrow> Some (Error e, w2)
              | Panic \<Rightarrow> Some (Panic, w2)
              | Value acc2 \<Rightarrow> until_tag rd tag f acc2 w2)))"

text \<open>The tagged answer of a command whose other lines do not matter.\<close>

definition answer :: "string io \<Rightarrow> string \<Rightarrow> string io" where
  "answer rd tag = io_then (until_tag rd tag (\<lambda>_ _. done_io ()) ()) (\<lambda>(_, line). done_io line)"

definition checked :: "string \<Rightarrow> string \<Rightarrow> string \<Rightarrow> unit io" where
  "checked what tag line = run_io (ctx_run what (check_imap_tag_response line tag))"

section \<open>Connecting and logging in\<close>

record client =
  cl_server :: string
  cl_username :: string
  cl_password :: string

type_synonym network = "string \<Rightarrow> int \<Rightarrow> ((string list \<Rightarrow> string) \<times> bool) result"

definition host_port :: "string \<Rightarrow> (string \<times> int) run" where
  "host_port server =
     (case index_of (CHR '':'') server of
        None \<Rightarrow> Value (server, 993)
      | Some k \<Rightarrow>
          (case parse_int 0 65535 (drop (Suc k) server) of
             None \<Rightarrow> Error [''Invalid port''] | Some p \<Rightarrow> Value (take k server, p)))"

text \<open>A conversation from the connection to its result.\<close>

definition converse :: "network \<Rightarrow> client \<Rightarrow> 'a io \<Rightarrow> 'a run option" where
  "converse tcp c m =
     (case host_port (cl_server c) of
        Error e \<Rightarrow> Some (Error e)
      | Panic \<Rightarrow> Some Panic
      | Value (host, port) \<Rightarrow>
          (case tcp host port of
             Inl e \<Rightarrow> Some (Error e)
           | Inr (server, silent) \<Rightarrow>
               map_option fst (m \<lparr>wr_server = server, wr_silent = silent, wr_in = server [], wr_sent = []\<rparr>)))"

text \<open>Greeting and login, with the answer unchecked as the fetch of a range has it, or checked.\<close>

definition log_in_unchecked :: "client \<Rightarrow> unit io" where
  "log_in_unchecked c =
     io_then read_line (\<lambda>_. io_then (send (login_command quote (cl_username c) (cl_password c))) (\<lambda>_.
     io_then (answer read_line ''a001 '') (\<lambda>_. done_io ())))"

definition log_in :: "client \<Rightarrow> unit io" where
  "log_in c =
     io_then read_line (\<lambda>_. io_then (send (login_command quote (cl_username c) (cl_password c))) (\<lambda>_.
     io_then (answer read_line ''a001 '') (checked ''IMAP LOGIN failed'' ''a001 '')))"

definition log_in_timed :: "string \<Rightarrow> client \<Rightarrow> unit io" where
  "log_in_timed action c =
     io_then (read_raw_imap_line (action @ '' greeting'')) (\<lambda>_.
     io_then (send (login_command escape_mailbox (cl_username c) (cl_password c))) (\<lambda>_.
     io_then (answer (read_raw_imap_line (action @ '' login response'')) ''a001 '') (checked ''IMAP LOGIN failed'' ''a001 '')))"

section \<open>Envelopes\<close>

definition select_command :: "(string \<Rightarrow> string) \<Rightarrow> string \<Rightarrow> string \<Rightarrow> string" where
  "select_command esc mailbox_name options = ''a002 SELECT '' @ quoted (esc mailbox_name) @ options @ crlf"

text \<open>The answer of \<^verbatim>\<open>SELECT\<close> is not checked.\<close>

definition select_state :: "string \<Rightarrow> mailbox_state io" where
  "select_state mailbox_name =
     io_then (send (select_command quote mailbox_name [])) (\<lambda>_.
     io_then (until_tag read_line ''a002 '' (\<lambda>mb line. done_io (select_line mb line)) no_mailbox_state) (\<lambda>(mb, line).
       done_io (note_validity_line line (note_uid_next line mb))))"

definition is_fetch_line :: "string \<Rightarrow> bool" where
  "is_fetch_line line \<longleftrightarrow> starts_with line ''* '' \<and> contains line '' FETCH ''"

definition envelope_line :: "mail_lib \<Rightarrow> (int \<times> fetched_envelope) list \<Rightarrow> string \<Rightarrow> (int \<times> fetched_envelope) list io" where
  "envelope_line lib results line =
     (if \<not> is_fetch_line line then done_io results
      else case header_literal line of
        Some (uid, lit_len) \<Rightarrow>
          io_then (read_exact lit_len) (\<lambda>lit.
          io_then (run_io (or_no_headers (parse_email_headers lib lit))) (\<lambda>h.
          io_then read_line (\<lambda>_. done_io (results @ [(uid, envelope_of h)]))))
      | None \<Rightarrow>
          (case header_nil line of
             Some uid \<Rightarrow> done_io (results @ [(uid, no_envelope)])
           | None \<Rightarrow> done_io results))"

definition fetch_headers :: "mail_lib \<Rightarrow> string \<Rightarrow> (int \<times> fetched_envelope) list io" where
  "fetch_headers lib uids =
     io_then (send (''a003 UID FETCH '' @ uids @ '' (UID BODY.PEEK[HEADER])'' @ crlf)) (\<lambda>_.
     io_then (until_tag read_line ''a003 '' (envelope_line lib) []) (\<lambda>(results, _). done_io results))"

definition raw_uid_fetch_envelopes :: "network \<Rightarrow> mail_lib \<Rightarrow> client \<Rightarrow> string \<Rightarrow> int \<Rightarrow> int \<Rightarrow> fetched run option" where
  "raw_uid_fetch_envelopes tcp lib c mailbox_name start_uid max_uids =
     converse tcp c
       (io_then (log_in_unchecked c) (\<lambda>_.
        io_then (select_state mailbox_name) (\<lambda>mb.
          (let uid_end = state_uid_end mb;
               start = (if start_uid = 0 then 1 else start_uid);
               end_uid = empty_uid_range_end start max_uids uid_end
           in if mb_exists mb = 0 \<or> uid_end = 0 \<or> start > end_uid then done_io (mb, [])
              else io_then (fetch_headers lib (show_int start @ '':'' @ show_int end_uid))
                     (\<lambda>results. done_io (mb, results))))))"

definition raw_uid_fetch_envelopes_by_uids :: "network \<Rightarrow> mail_lib \<Rightarrow> client \<Rightarrow> string \<Rightarrow> int list \<Rightarrow> fetched run option" where
  "raw_uid_fetch_envelopes_by_uids tcp lib c mailbox_name uids =
     (if uids = [] then Some (Value (no_mailbox_state, []))
      else converse tcp c
        (io_then (log_in c) (\<lambda>_.
         io_then (select_state mailbox_name) (\<lambda>mb.
         io_then (fetch_headers lib (uid_list uids)) (\<lambda>results. done_io (mb, results))))))"

section \<open>Full messages\<close>

definition fetch_flag_seen :: "string \<Rightarrow> bool" where
  "fetch_flag_seen line = (case find_until (CHR '')'') ''FLAGS ('' '')'' line of None \<Rightarrow> False | Some fs \<Rightarrow> contains fs (CHR 0x5C # ''Seen''))"

definition fetch_internal_date :: "mail_lib \<Rightarrow> string \<Rightarrow> timestamp option" where
  "fetch_internal_date lib line =
     Option.bind (find_until1 (CHR 0x22) (''INTERNALDATE '' @ [CHR 0x22]) [] line)
       (\<lambda>s. ml_internaldate lib (trim_matches (\<lambda>c. c = CHR 0x22) (trim s)))"

definition fetch_modseq :: "string \<Rightarrow> int option" where
  "fetch_modseq line =
     Option.bind (find_until1 (CHR '')'') ''MODSEQ ('' '')'' line)
       (\<lambda>s. case split_whitespace s of [] \<Rightarrow> None | x # _ \<Rightarrow> parse_u64 x)"

text \<open>\<open>FullMessageResult\<close> without its Message-ID and precedence, which no caller reads.\<close>

definition no_full_message :: full_message where
  "no_full_message =
     \<lparr>fm_subject = None, fm_sender = None, fm_received_date = None, fm_recipients_to = [], fm_recipients_cc = [],
      fm_recipients_bcc = [], fm_raw_email_content = [], fm_body_text = None, fm_is_read = False,
      fm_message_size = None, fm_modseq = None, fm_list_unsubscribe = None, fm_list_id = None, fm_x_priority = None,
      fm_return_path = None, fm_reply_to = None, fm_custom_headers = JNull, fm_in_reply_to = None, fm_references = []\<rparr>"

definition with_headers :: "email_headers \<Rightarrow> timestamp option \<Rightarrow> full_message \<Rightarrow> full_message" where
  "with_headers h internal_date m =
     m\<lparr>fm_subject := eh_subject h, fm_sender := eh_sender h,
       fm_received_date := (case eh_date h of None \<Rightarrow> internal_date | Some d \<Rightarrow> Some d),
       fm_recipients_to := eh_recipients_to h, fm_recipients_cc := eh_recipients_cc h,
       fm_recipients_bcc := eh_recipients_bcc h, fm_list_unsubscribe := eh_list_unsubscribe h,
       fm_list_id := eh_list_id h, fm_x_priority := eh_x_priority h, fm_return_path := eh_return_path h,
       fm_reply_to := eh_reply_to h, fm_custom_headers := eh_custom_headers h,
       fm_in_reply_to := eh_in_reply_to h, fm_references := eh_references h\<rparr>"

definition full_message_of :: "mail_lib \<Rightarrow> timestamp option \<Rightarrow> full_message \<Rightarrow> string \<Rightarrow> full_message run" where
  "full_message_of lib internal_date m raw =
     (case ml_parse lib raw of
        None \<Rightarrow> Value (m\<lparr>fm_received_date := internal_date\<rparr>)
      | Some parsed \<Rightarrow>
          (case parse_email_headers lib raw of
             Panic \<Rightarrow> Panic
           | Error _ \<Rightarrow> Value (m\<lparr>fm_body_text := extract_body_text_from_parsed parsed\<rparr>)
           | Value h \<Rightarrow> Value ((with_headers h internal_date m)\<lparr>fm_body_text := extract_body_text_from_parsed parsed\<rparr>)))"

definition full_message_line :: "mail_lib \<Rightarrow> (int \<times> full_message) list \<Rightarrow> string \<Rightarrow> (int \<times> full_message) list io" where
  "full_message_line lib results line =
     (if \<not> is_fetch_line line then done_io results
      else (let uid = or_zero_num (Option.bind (find_number ''UID '' [] line) parse_u32);
                internal_date = fetch_internal_date lib line;
                m = no_full_message\<lparr>fm_is_read := fetch_flag_seen line,
                      fm_message_size := Option.bind (find_number ''RFC822.SIZE '' [] line) parse_u32,
                      fm_modseq := fetch_modseq line\<rparr>
            in case find_number ''BODY[] {'' ''}'' line of
                 Some d \<Rightarrow>
                   io_then (read_exact (nat (or_zero_num (parse_u64 d)))) (\<lambda>raw.
                   io_then (run_io (full_message_of lib internal_date (m\<lparr>fm_raw_email_content := raw\<rparr>) raw)) (\<lambda>msg.
                   io_then read_line (\<lambda>_. done_io (results @ [(uid, msg)]))))
               | None \<Rightarrow>
                   (if contains line ''BODY[] NIL'' then done_io (results @ [(uid, m\<lparr>fm_received_date := internal_date\<rparr>)])
                    else done_io results)))"

definition validity_line :: "int option \<Rightarrow> string \<Rightarrow> int option" where
  "validity_line v line = (case find_number ''[UIDVALIDITY '' '']'' line of None \<Rightarrow> v | Some d \<Rightarrow> parse_u32 d)"

text \<open>A validity of 0 stands for an unknown one; so does a \<^verbatim>\<open>SELECT\<close> that tells none.\<close>

definition expect_validity :: "string \<Rightarrow> int \<Rightarrow> int option \<Rightarrow> unit io" where
  "expect_validity mailbox_name uid_validity v =
     (case v of
        Some select_uv \<Rightarrow>
          (if uid_validity \<noteq> 0 \<and> select_uv \<noteq> uid_validity
           then run_io (Error [''UIDVALIDITY mismatch for '' @ mailbox_name @ '': expected '' @ show_int uid_validity
                               @ '', got '' @ show_int select_uv])
           else done_io ())
      | None \<Rightarrow> done_io ())"

definition raw_uid_fetch_full_messages :: "network \<Rightarrow> mail_lib \<Rightarrow> client \<Rightarrow> string \<Rightarrow> int list \<Rightarrow> int
    \<Rightarrow> (int \<times> full_message) list run option" where
  "raw_uid_fetch_full_messages tcp lib c mailbox_name uids uid_validity =
     (if uids = [] then Some (Value [])
      else converse tcp c
        (io_then (log_in c) (\<lambda>_.
         io_then (send (select_command quote mailbox_name [])) (\<lambda>_.
         io_then (until_tag read_line ''a002 '' (\<lambda>v line. done_io (validity_line v line)) None) (\<lambda>(v, line).
         io_then (checked ''IMAP SELECT failed'' ''a002 '' line) (\<lambda>_.
         io_then (expect_validity mailbox_name uid_validity (validity_line v line)) (\<lambda>_.
         io_then (send (''a003 UID FETCH '' @ uid_list uids
                    @ '' (UID FLAGS INTERNALDATE RFC822.SIZE MODSEQ BODY.PEEK[])'' @ crlf)) (\<lambda>_.
         io_then (until_tag read_line ''a003 '' (full_message_line lib) []) (\<lambda>(results, line2).
         io_then (checked ''IMAP UID FETCH failed'' ''a003 '' line2) (\<lambda>_. done_io results))))))))))"

section \<open>Folders and moves\<close>

text \<open>These commands have a time limit for each line; a connection that closes is an error.\<close>

definition raw_create_folder :: "network \<Rightarrow> client \<Rightarrow> string \<Rightarrow> unit run option" where
  "raw_create_folder tcp c folder_path =
     converse tcp c
       (io_then (log_in_timed ''CREATE'' c) (\<lambda>_.
        io_then (send (''a002 CREATE '' @ quoted (escape_mailbox folder_path) @ crlf)) (\<lambda>_.
        io_then (answer (read_raw_imap_line ''CREATE response'') ''a002 '') (\<lambda>line.
          if is_mailbox_already_exists_response line then done_io ()
          else checked ''IMAP CREATE failed'' ''a002 '' line))))"

definition raw_delete_folder :: "network \<Rightarrow> client \<Rightarrow> string \<Rightarrow> unit run option" where
  "raw_delete_folder tcp c folder_path =
     converse tcp c
       (io_then (log_in_timed ''DELETE'' c) (\<lambda>_.
        io_then (send (''a002 DELETE '' @ quoted (escape_mailbox folder_path) @ crlf)) (\<lambda>_.
        io_then (answer (read_raw_imap_line ''DELETE response'') ''a002 '') (checked ''IMAP DELETE failed'' ''a002 ''))))"

text \<open>The first \<^verbatim>\<open>COPYUID\<close> counts, on whichever line it comes.\<close>

definition copyuid_line :: "(int \<times> int) option \<Rightarrow> string \<Rightarrow> (int \<times> int) option" where
  "copyuid_line moved line = (case moved of None \<Rightarrow> copyuid line | Some _ \<Rightarrow> moved)"

definition raw_uid_move :: "network \<Rightarrow> client \<Rightarrow> string \<Rightarrow> int \<Rightarrow> string \<Rightarrow> (int \<times> int) option run option" where
  "raw_uid_move tcp c from_mailbox uid to_mailbox =
     converse tcp c
       (io_then (log_in_timed ''UID MOVE'' c) (\<lambda>_.
        io_then (send (select_command escape_mailbox from_mailbox [])) (\<lambda>_.
        io_then (answer (read_raw_imap_line ''UID MOVE select response'') ''a002 '') (\<lambda>line.
        io_then (checked ''IMAP SELECT failed'' ''a002 '' line) (\<lambda>_.
        io_then (send (''a003 UID MOVE '' @ show_int uid @ '' '' @ quoted (escape_mailbox to_mailbox) @ crlf)) (\<lambda>_.
        io_then (until_tag (read_raw_imap_line ''UID MOVE response'') ''a003 '' (\<lambda>moved line2. done_io (copyuid_line moved line2)) None)
          (\<lambda>(moved, line2). io_then (checked ''IMAP UID MOVE failed'' ''a003 '' line2)
             (\<lambda>_. done_io (copyuid_line moved line2)))))))))"

section \<open>Modification sequences and expunged messages\<close>

definition modseq_line :: "int option \<Rightarrow> string \<Rightarrow> int option" where
  "modseq_line highest line =
     (case Option.bind (find_number ''HIGHESTMODSEQ '' [] line) parse_u64 of None \<Rightarrow> highest | Some n \<Rightarrow> Some n)"

definition get_highest_modseq :: "network \<Rightarrow> client \<Rightarrow> string \<Rightarrow> int option run option" where
  "get_highest_modseq tcp c mailbox_name =
     converse tcp c
       (io_then (log_in c) (\<lambda>_.
        io_then (send (select_command quote mailbox_name '' (CONDSTORE)'')) (\<lambda>_.
        io_then (until_tag read_line ''a002 '' (\<lambda>highest line. done_io (modseq_line highest line)) None) (\<lambda>(highest, line).
        io_then (checked ''IMAP SELECT failed'' ''a002 '' line) (\<lambda>_. done_io highest)))))"

definition get_expunged_uids_qresync :: "network \<Rightarrow> client \<Rightarrow> string \<Rightarrow> int \<Rightarrow> int list \<Rightarrow> int list run option" where
  "get_expunged_uids_qresync tcp c mailbox_name uid_validity known_uids =
     converse tcp c
       (io_then (log_in c) (\<lambda>_.
        (let known = (if known_uids = [] then ''1:*'' else uid_list known_uids) in
        io_then (send (select_command quote mailbox_name ('' (QRESYNC ('' @ show_int uid_validity @ '' '' @ known @ '' 1))''))) (\<lambda>_.
        io_then (until_tag read_line ''a002 '' (\<lambda>expunged line. done_io (expunged @ vanished_uids line)) []) (\<lambda>(expunged, line).
        io_then (checked ''IMAP SELECT failed'' ''a002 '' line) (\<lambda>_. done_io expunged))))))"

end
