(* ===== verification/ImapFacts.thy ===== *)
theory ImapFacts
  imports ImapClient
begin

text \<open>
  Reading back what is written on a wire: numbers, quoted strings, lines up to a tag; which loops end.
\<close>

section \<open>Numbers\<close>

lemma digit_char_facts:
  assumes "d < 10"
  shows "is_ascii_digit (digit_char d)" "digit_val (digit_char d) = d"
  using assms by (simp_all add: is_ascii_digit_def digit_char_def digit_val_def)

lemma show_nat_digits: "show_nat n \<noteq> [] \<and> list_all is_ascii_digit (show_nat n)"
proof (induction n rule: show_nat.induct)
  case (1 n)
  show ?case
  proof (cases "n < 10")
    case False
    with 1 show ?thesis by (subst (1 2) show_nat.simps) (simp add: digit_char_facts)
  qed (simp add: show_nat.simps digit_char_facts)
qed

lemma parse_digits_show: "parse_digits (show_nat n) = Some (int n)"
proof -
  have "foldl (\<lambda>acc c. 10 * acc + int (digit_val c)) 0 (show_nat n) = int n"
  proof (induction n rule: show_nat.induct)
    case (1 n)
    have "10 * int (n div 10) + int (n mod 10) = int n" by presburger
    with 1 show ?case by (cases "n < 10"; subst show_nat.simps) (auto simp: digit_char_facts)
  qed
  with show_nat_digits [of n] show ?thesis by (simp add: parse_digits_def)
qed

lemma show_int_digits: "0 \<le> n \<Longrightarrow> show_int n \<noteq> [] \<and> list_all is_ascii_digit (show_int n)"
  using show_nat_digits [of "nat n"] by (simp add: show_int_def)

lemma parse_int_show:
  assumes "0 \<le> n" "lo \<le> 0" "n \<le> hi"
  shows "parse_int lo hi (show_int n) = Some n"
proof -
  obtain c cs where s: "show_int n = c # cs" "is_ascii_digit c"
    using show_int_digits [OF assms(1)] by (cases "show_int n") auto
  then have "c \<noteq> CHR ''+''" "c \<noteq> CHR ''-''" by (auto simp: is_ascii_digit_def)
  moreover have "parse_digits (c # cs) = Some n" using parse_digits_show [of "nat n"] assms(1) s by (simp add: show_int_def)
  ultimately show ?thesis using assms s by (simp add: parse_int_def)
qed

lemma parse_u32_show: "0 \<le> n \<Longrightarrow> n \<le> u32_max \<Longrightarrow> parse_u32 (show_int n) = Some n"
  by (simp add: parse_u32_def parse_int_show)

lemma parse_u64_show: "0 \<le> n \<Longrightarrow> n \<le> 18446744073709551615 \<Longrightarrow> parse_u64 (show_int n) = Some n"
  by (simp add: parse_u64_def parse_int_show)

section \<open>Patterns\<close>

lemma expect_append [simp]: "expect p (p @ s) = Some s"
  by (simp add: expect_def starts_with_def)

lemma digits_append:
  assumes "list_all is_ascii_digit d" "d \<noteq> []" "s = [] \<or> \<not> is_ascii_digit (hd s)"
  shows "digits (d @ s) = Some (d, s)"
proof -
  have "takeWhile is_ascii_digit s = []" using assms(3) by (cases s) auto
  with assms(1,2) show ?thesis by (simp add: digits_def takeWhile_append2 list_all_iff)
qed

lemma number_between_other:
  assumes "digits s = Some (d, t)" "\<not> prefix post t"
  shows "number_between pre post (pre @ s) = None"
  using assms by (simp add: number_between_def expect_def [of post] starts_with_def)

lemma number_between_show:
  assumes "0 \<le> n" "s \<noteq> [] \<and> \<not> is_ascii_digit (hd s)"
  shows "number_between pre s (pre @ show_int n @ s @ rest) = Some (show_int n, rest)"
proof -
  have "digits (show_int n @ s @ rest) = Some (show_int n, s @ rest)"
    using digits_append show_int_digits assms by (metis hd_append)
  then show ?thesis by (simp add: number_between_def)
qed

section \<open>Quoted strings\<close>

text \<open>How a server reads a quoted string, from behind its opening quote: up to the next quote that no
  backslash escapes, on one line.\<close>

fun quoted_arg :: "string \<Rightarrow> (string \<times> string) option" where
  "quoted_arg [] = None"
| "quoted_arg (c # cs) =
     (if c = CHR 0x22 then Some ([], cs)
      else if c = CHR 0x0D \<or> c = LF then None
      else if c = CHR 0x5C then (case cs of [] \<Rightarrow> None | d # ds \<Rightarrow> map_option (\<lambda>(s, t). (d # s, t)) (quoted_arg ds))
      else map_option (\<lambda>(s, t). (c # s, t)) (quoted_arg cs))"

definition one_line :: "string \<Rightarrow> bool" where
  "one_line s \<longleftrightarrow> CHR 0x0D \<notin> set s \<and> LF \<notin> set s"

definition read_login :: "string \<Rightarrow> (string \<times> string) option" where
  "read_login cmd =
     Option.bind (expect (''a001 LOGIN '' @ [CHR 0x22]) cmd) (\<lambda>s. Option.bind (quoted_arg s) (\<lambda>(u, s1).
     Option.bind (expect ('' '' @ [CHR 0x22]) s1) (\<lambda>s2. Option.bind (quoted_arg s2) (\<lambda>(p, s3).
       if s3 = crlf then Some (u, p) else None))))"

abbreviation amp_encode :: "string \<Rightarrow> string" where
  "amp_encode \<equiv> replace_with (CHR ''&'') ''&-''"

lemma replace_with_simps [simp]:
  "replace_with c r [] = []" "replace_with c r (x # xs) = (if x = c then r else [x]) @ replace_with c r xs"
  "replace_with c r (xs @ ys) = replace_with c r xs @ replace_with c r ys"
  by (simp_all add: replace_with_def)

lemma quote_Cons: "quote (c # s) = (if c = CHR 0x5C then [CHR 0x5C, CHR 0x5C] else if c = CHR 0x22 then [CHR 0x5C, CHR 0x22] else [c]) @ quote s"
  by (simp add: quote_def)

lemma quote_Nil [simp]: "quote [] = []"
  by (simp add: quote_def)

lemma quoted_arg_quote: "quoted_arg (quote s @ CHR 0x22 # rest) = (if one_line s then Some (s, rest) else None)"
proof (induction s)
  case (Cons c s)
  then show ?case
    by (cases "c = CHR 0x0D \<or> c = LF"; cases "c = CHR 0x5C"; cases "c = CHR 0x22") (auto simp: quote_Cons one_line_def)
qed (simp add: one_line_def)

lemma escape_is_quote: "escape_mailbox s = quote (amp_encode s)"
  by (induction s) (auto simp: escape_mailbox_def quote_Cons)

lemma one_line_amp: "one_line (amp_encode s) = one_line s"
  by (induction s) (auto simp: one_line_def)

lemma read_login_quote:
  "read_login (login_command quote u p) = (if one_line u \<and> one_line p then Some (u, p) else None)"
proof -
  have cmd: "login_command quote u p = (''a001 LOGIN '' @ [CHR 0x22]) @ quote u @ CHR 0x22 # ('' '' @ [CHR 0x22]) @ quote p @ CHR 0x22 # crlf"
    by (simp add: login_command_def quoted_def)
  show ?thesis
    unfolding cmd read_login_def expect_append by (simp add: quoted_arg_quote del: append.simps) (simp add: expect_def starts_with_def quoted_arg_quote)
qed

lemma replace_with_id: "replace_with c [c, d] s = s \<longleftrightarrow> c \<notin> set s"
proof
  have len: "length (replace_with c [c, d] s) = length s + count_list s c" for s by (induction s) auto
  assume "replace_with c [c, d] s = s"
  then have "length (replace_with c [c, d] s) = length s" by simp
  then show "c \<notin> set s" using len by (simp add: count_list_0_iff)
next
  assume "c \<notin> set s"
  then show "replace_with c [c, d] s = s" by (induction s) auto
qed

section \<open>Lines\<close>

definition full_line :: "string \<Rightarrow> bool" where
  "full_line l \<longleftrightarrow> (\<exists>b. l = b @ [LF] \<and> LF \<notin> set b)"

lemma line_of_full: "full_line l \<Longrightarrow> line_of (l @ rest) = l"
proof -
  have "LF \<notin> set b \<Longrightarrow> takeWhile (\<lambda>c. c \<noteq> LF) (b @ LF # rest) = b" for b rest
    by (subst takeWhile_append2) auto
  then show "full_line l \<Longrightarrow> line_of (l @ rest) = l" by (auto simp: full_line_def line_of_def)
qed

text \<open>Writing the input of a wire as \<open>feed\<close>.\<close>

abbreviation feed :: "string \<Rightarrow> wire \<Rightarrow> wire" where
  "feed s w \<equiv> w\<lparr>wr_in := s\<rparr>"

lemma read_line_full: "full_line l \<Longrightarrow> read_line (feed (l @ rest) w) = Some (Value l, feed rest w)"
  using line_of_full [of l rest] by (auto simp: read_line_def full_line_def)

lemma read_exact_append: "read_exact (length s) (feed (s @ rest) w) = Some (Value s, feed rest w)"
  by (simp add: read_exact_def)

lemma io_then_Value: "m w = Some (Value x, w1) \<Longrightarrow> io_then m f w = f x w1"
  by (simp add: io_then_def)

lemma io_then_Panic: "m w = Some (Panic, w1) \<Longrightarrow> io_then m f w = Some (Panic, w1)"
  by (simp add: io_then_def)

lemma io_then_Error: "m w = Some (Error e, w1) \<Longrightarrow> io_then m f w = Some (Error e, w1)"
  by (simp add: io_then_def)

lemma until_tag_Error: "rd w = Some (Error e, w1) \<Longrightarrow> until_tag rd tag f acc w = Some (Error e, w1)"
  by (subst until_tag.simps) simp

lemma answer_Error: "rd w = Some (Error e, w1) \<Longrightarrow> answer rd tag w = Some (Error e, w1)"
  unfolding answer_def by (rule io_then_Error) (rule until_tag_Error)

lemma until_tag_step:
  assumes "rd w = Some (Value line, w1)"
  shows "until_tag rd tag f acc w = (if starts_with line tag then Some (Value (acc, line), w1)
    else io_then (f acc line) (\<lambda>acc2. until_tag rd tag f acc2) w1)"
  using assms by (subst until_tag.simps) (auto simp: io_then_def split: option.splits run.splits)

lemma until_tag_read:
  assumes "full_line l"
  shows "until_tag read_line tag f acc (feed (l @ rest) w) = (if starts_with l tag then Some (Value (acc, l), feed rest w)
    else io_then (f acc l) (\<lambda>acc2. until_tag read_line tag f acc2) (feed rest w))"
  by (rule until_tag_step) (rule read_line_full [OF assms])

lemma until_tag_lines:
  assumes g: "\<And>acc l. f acc l = done_io (g acc l)" and t: "full_line t" "starts_with t tag"
  shows "\<forall>l \<in> set ls. full_line l \<and> \<not> starts_with l tag \<Longrightarrow>
    until_tag read_line tag f acc (feed (concat ls @ t @ rest) w) = Some (Value (foldl g acc ls, t), feed rest w)"
proof (induction ls arbitrary: acc)
  case Nil
  show ?case using t read_line_full [OF t(1), of rest w] by (simp add: until_tag_step)
next
  case (Cons l ls)
  then have "read_line (feed (l @ concat ls @ t @ rest) w) = Some (Value l, feed (concat ls @ t @ rest) w)"
    by (intro read_line_full) simp
  with Cons show ?case by (simp add: until_tag_step g io_then_def done_io_def)
qed

lemma answer_line:
  assumes "full_line t" "starts_with t tag"
  shows "answer read_line tag (feed (t @ rest) w) = Some (Value t, feed rest w)"
  using until_tag_lines [where f = "\<lambda>_ _. done_io ()" and g = "\<lambda>_ _. ()" and ls = "[]", OF _ assms]
  by (simp add: answer_def io_then_def done_io_def)

section \<open>Reading nothing from a closed connection\<close>

text \<open>A loop without a time limit that only looks at lines never ends there.\<close>

lemma until_tag_closed:
  assumes f: "\<And>acc. \<exists>acc'. f acc [] = done_io acc'" and tag: "tag \<noteq> []" and w: "\<not> wr_silent w" "wr_in w = []"
  shows "until_tag read_line tag f acc w = None"
proof -
  have eof: "read_line v = Some (Value [], v)" if "\<not> wr_silent v" "wr_in v = []" for v
    using that by (simp add: read_line_def line_of_def)
  let ?P = "\<lambda>rd tg f' acc w (y :: ('a \<times> string) run \<times> wire). rd = read_line \<and> tg = tag \<and> f' = f \<longrightarrow> \<not> wr_silent w \<longrightarrow> wr_in w \<noteq> []"
  have "?P rd tg f' acc w y" if "until_tag rd tg f' acc w = Some y" for rd tg f' acc w y
  proof (rule until_tag.raw_induct [OF _ that, where P = ?P], intro impI notI)
    fix ut :: "string io \<Rightarrow> string \<Rightarrow> ('a \<Rightarrow> string \<Rightarrow> 'a io) \<Rightarrow> 'a \<Rightarrow> wire \<Rightarrow> (('a \<times> string) run \<times> wire) option"
    fix rd tg f' acc w y
    assume IH: "\<And>rd tg f' acc w y. ut rd tg f' acc w = Some y \<Longrightarrow> ?P rd tg f' acc w y"
      and body: "Option.bind (rd w) (\<lambda>(r, w1).
       case r of
         Error e \<Rightarrow> Some (Error e, w1)
       | Panic \<Rightarrow> Some (Panic, w1)
       | Value line \<Rightarrow>
           (if starts_with line tg then Some (Value (acc, line), w1)
            else Option.bind (f' acc line w1) (\<lambda>(r2, w2).
              case r2 of
                Error e \<Rightarrow> Some (Error e, w2)
              | Panic \<Rightarrow> Some (Panic, w2)
              | Value acc2 \<Rightarrow> ut rd tg f' acc2 w2))) = Some y"
      and here: "rd = read_line \<and> tg = tag \<and> f' = f" "\<not> wr_silent w" "wr_in w = []"
    obtain acc' where "f acc [] = done_io acc'" using f by blast
    with body here eof tag have "ut rd tg f' acc' w = Some y" by (auto simp: done_io_def starts_with_def)
    from IH [OF this] here show False by blast
  qed
  with w show ?thesis by (metis not_None_eq)
qed

text \<open>With a time limit every loop ends, as each line takes something away.\<close>

lemma until_tag_timed:
  assumes g: "\<And>acc l. f acc l = done_io (g acc l)"
  shows "until_tag (read_raw_imap_line what) tag f acc w \<noteq> None"
proof (induction "length (wr_in w)" arbitrary: acc w rule: less_induct)
  case less
  show ?case
  proof (cases "complete w \<and> wr_in w \<noteq> []")
    case True
    then have pos: "0 < length (line_of (wr_in w))"
      by (cases "wr_in w") (auto simp: line_of_def)
    have rd: "read_raw_imap_line what w
        = Some (Value (line_of (wr_in w)), feed (drop (length (line_of (wr_in w))) (wr_in w)) w)"
      using True by (simp add: read_raw_imap_line_def read_line_def)
    show ?thesis
      using less [of "feed (drop (length (line_of (wr_in w))) (wr_in w)) w"] pos True
      by (simp add: until_tag_step [where rd = "read_raw_imap_line what" and w = w, OF rd] g io_then_def done_io_def)
  next
    case False
    then have "\<exists>e. read_raw_imap_line what w = Some (Error e, w)" by (auto simp: read_raw_imap_line_def)
    then obtain e where "read_raw_imap_line what w = Some (Error e, w)" by blast
    then show ?thesis by (subst until_tag.simps) simp
  qed
qed

lemma io_then_ends: "m w \<noteq> None \<Longrightarrow> (\<And>x v. f x v \<noteq> None) \<Longrightarrow> io_then m f w \<noteq> None"
  by (auto simp: io_then_def split: option.split prod.split run.split)

lemma if_ends: "m w \<noteq> None \<Longrightarrow> m' w \<noteq> None \<Longrightarrow> (if b then m else m') w \<noteq> None"
  by simp

lemma pair_ends: "(\<And>a b. m a b w \<noteq> None) \<Longrightarrow> (case x of (a, b) \<Rightarrow> m a b) w \<noteq> None"
  by (cases x) simp

lemma answer_timed: "answer (read_raw_imap_line what) tag w \<noteq> None"
  unfolding answer_def by (rule io_then_ends, rule until_tag_timed) (auto simp: done_io_def)

lemma timed_parts:
  "read_raw_imap_line what w \<noteq> None" "send cmd w \<noteq> None" "checked what2 tag line w \<noteq> None" "done_io x w \<noteq> None"
  by (auto simp: read_raw_imap_line_def read_line_def send_def checked_def run_io_def done_io_def)

lemma log_in_timed_ends: "log_in_timed what c w \<noteq> None"
  unfolding log_in_timed_def by (intro io_then_ends timed_parts answer_timed)

lemma converse_ends: "(\<And>w. m w \<noteq> None) \<Longrightarrow> converse tcp c m \<noteq> None"
  by (auto simp: converse_def split: run.split sum.split)

end
