(* ===== verification/IncrementalSync.thy ===== *)
theory IncrementalSync
  imports MailSync
begin

text \<open>
  The other runs of \<^verbatim>\<open>src/mailbox_sync_runtime.rs\<close>: incremental synchronisation of an account and
  of the default one, the synchronisation of a window of days, and the slow one, which seeds the body
  queue (\<^verbatim>\<open>src/body_sync_service.rs\<close>) and drains it.
\<close>

section \<open>Fetching a list of UIDs\<close>

text \<open>By chunks of 250; the state is the one of the last chunk.\<close>

fun fetch_chunks :: "'i sync_host \<Rightarrow> string \<Rightarrow> string \<Rightarrow> int list list \<Rightarrow> mailbox_state option \<Rightarrow> 'i mail_world
    \<Rightarrow> (mailbox_state option \<times> (int \<times> fetched_envelope) list) result \<times> 'i mail_world" where
  "fetch_chunks h what folder [] mb w = (Inr (mb, []), w)"
| "fetch_chunks h what folder (chunk # rest) mb w =
     and_then (imap what (sy_fetch_uids h folder chunk) w) (\<lambda>(mb1, envs) w1.
     and_then (fetch_chunks h what folder rest (Some mb1) w1) (\<lambda>(mb2, more) w2. (Inr (mb2, envs @ more), w2)))"

definition chunk_size :: nat where
  "chunk_size = 250"

definition last_validity :: "mailbox_state option \<Rightarrow> int option" where
  "last_validity mb = Option.bind mb mb_uid_validity"

text \<open>The incremental runs note any validity, the other ones a positive one.\<close>

definition note_any_validity :: "'i sync_host \<Rightarrow> string \<Rightarrow> string \<Rightarrow> int option \<Rightarrow> 'i mail_world \<Rightarrow> bool result \<times> 'i mail_world" where
  "note_any_validity h a folder v w = (case v of None \<Rightarrow> (Inr False, w) | Some x \<Rightarrow> note_uid_validity h a folder x w)"

abbreviation or_zero :: "int option \<Rightarrow> int" where
  "or_zero x \<equiv> (case x of None \<Rightarrow> 0 | Some n \<Rightarrow> n)"

text \<open>New messages of a folder: \<open>None\<close> when the validity changed, otherwise how many were imported. The
  cursor moves to the highest UID asked for.\<close>

definition import_new :: "'i sync_host \<Rightarrow> string \<Rightarrow> string \<Rightarrow> string \<Rightarrow> int list \<Rightarrow> 'i mail_world \<Rightarrow> nat option result \<times> 'i mail_world" where
  "import_new h what a folder new_uids w =
     and_then (fetch_chunks h what folder (chunks chunk_size new_uids) None w) (\<lambda>(mb, envs) w1.
     and_then (note_any_validity h a folder (last_validity mb) w1) (\<lambda>changed w2.
       if changed then (Inr None, w2)
       else if filter with_id envs = [] then (Inr (Some 0), w2)
       else and_then (store_envelopes h ''Failed to upsert+enqueue new envelopes'' a folder (or_zero (last_validity mb)) envs w2) (\<lambda>_ w3.
            and_then (set_cursor h ''Failed to update last_synced_uid'' a folder (max_uid new_uids) w3) (\<lambda>_ w4.
              (Inr (Some (length new_uids)), w4)))))"

definition synced_before :: "folder list \<Rightarrow> folder list" where
  "synced_before folders = filter (\<lambda>f. \<not> fo_noselect f \<and> fo_last_synced_uid f \<noteq> None) folders"

definition folder_cursor :: "folder \<Rightarrow> int" where
  "folder_cursor f = as_u32 (or_zero (fo_last_synced_uid f))"

section \<open>Incremental, for an account\<close>

definition incremental_folder_for_account :: "'i sync_host \<Rightarrow> string \<Rightarrow> folder \<Rightarrow> 'i mail_world \<Rightarrow> nat result \<times> 'i mail_world" where
  "incremental_folder_for_account h a f w =
     (case net (sy_new_uids h (fo_name f) (folder_cursor f)) w of
        (Inl _, w1) \<Rightarrow> (Inr 0, w1)
      | (Inr new_uids, w1) \<Rightarrow>
          (if new_uids = [] then (Inr 0, w1)
           else and_then (import_new h (''fetch envelopes for '' @ fo_name f) a (fo_name f) new_uids w1)
                  (\<lambda>n w2. (Inr (case n of None \<Rightarrow> 0 | Some k \<Rightarrow> k), w2))))"

fun incremental_folders_for_account :: "'i sync_host \<Rightarrow> string \<Rightarrow> folder list \<Rightarrow> nat \<Rightarrow> 'i mail_world \<Rightarrow> nat result \<times> 'i mail_world" where
  "incremental_folders_for_account h a [] total_new w = (Inr total_new, w)"
| "incremental_folders_for_account h a (f # rest) total_new w =
     and_then (incremental_folder_for_account h a f w)
       (\<lambda>n w1. incremental_folders_for_account h a rest (total_new + n) w1)"

definition drain_after :: "'i sync_host \<Rightarrow> string \<Rightarrow> string \<Rightarrow> 'i mail_world \<Rightarrow> int result \<times> 'i mail_world" where
  "drain_after h what a w = (let (r, w1) = sy_drain h a w in (ctx what r, w1))"

definition run_sync_incremental_once_for_account :: "'i sync_host \<Rightarrow> string \<Rightarrow> 'i mail_world \<Rightarrow> nat result \<times> 'i mail_world" where
  "run_sync_incremental_once_for_account h a w =
     (case mh_setup (sy_mail h) of
        Some e \<Rightarrow> (Inl e, w)
      | None \<Rightarrow>
          and_then (sdb h ''Failed to list imap folders'' (query (list_imap_folders_for_account a)) w) (\<lambda>all_folders w1.
            (let folders = synced_before all_folders in
             if folders = [] then (Inr 0, w1)
             else and_then (incremental_folders_for_account h a folders 0 w1) (\<lambda>total_new w2.
                    if total_new > 0
                    then and_then (drain_after h ''Failed to process durable body sync queue after incremental sync'' a w2)
                           (\<lambda>_ w3. (Inr total_new, w3))
                    else (Inr total_new, w2)))))"

section \<open>Incremental, for the default account\<close>

text \<open>The server's modification sequence: \<open>None\<close> when the folder needs no further look.\<close>

definition server_modseq :: "'i sync_host \<Rightarrow> string \<Rightarrow> int list \<Rightarrow> 'i mail_world \<Rightarrow> int option \<times> 'i mail_world" where
  "server_modseq h folder from_range w =
     (case net (sy_highest_modseq h folder) w of
        (Inr (Some s), w1) \<Rightarrow> (Some s, w1)
      | (Inr None, w1) \<Rightarrow> ((if from_range = [] then None else Some 0), w1)
      | (Inl _, w1) \<Rightarrow> (Some 0, w1))"

text \<open>A search that fails finds nothing.\<close>

definition or_none :: "int list result \<Rightarrow> int list" where
  "or_none r = (case r of Inl _ \<Rightarrow> [] | Inr xs \<Rightarrow> xs)"

definition changed_uids :: "'i sync_host \<Rightarrow> string \<Rightarrow> int \<Rightarrow> int \<Rightarrow> 'i mail_world \<Rightarrow> int list \<times> 'i mail_world" where
  "changed_uids h folder tracked server w =
     (if server > tracked
      then (let (r, w1) = net (sy_search_modseq h folder (tracked + 1)) w in (or_none r, w1))
      else ([], w))"

definition all_new_uids :: "int \<Rightarrow> int list \<Rightarrow> int list \<Rightarrow> int list" where
  "all_new_uids cursor from_range changed = sort (remdups (from_range @ filter (\<lambda>u. u > cursor) changed))"

definition expunged_uids :: "'i sync_host \<Rightarrow> string \<Rightarrow> int list \<Rightarrow> 'i mail_world \<Rightarrow> int list result \<times> 'i mail_world" where
  "expunged_uids h folder known w =
     (if known = [] then (Inr [], w)
      else and_then (sdb h ''Failed to get uid_validity''
                       (query (get_folder_uid_validity_for_account default_account_id folder)) w) (\<lambda>v w1.
             case net (sy_qresync h folder (as_u32 (or_zero v)) known) w1 of
               (Inr (u # us), w2) \<Rightarrow> (Inr (u # us), w2)
             | (_, w2) \<Rightarrow> (let (r, w3) = net (sy_compare h folder known) w2 in (Inr (or_none r), w3))))"

text \<open>An expunged message that another folder has was moved there; failed searches and updates count
  as not found.\<close>

fun found_elsewhere :: "'i sync_host \<Rightarrow> string \<Rightarrow> string list \<Rightarrow> 'i mail_world \<Rightarrow> bool \<times> 'i mail_world" where
  "found_elsewhere h mid [] w = (False, w)"
| "found_elsewhere h mid (other # rest) w =
     (case net (mh_search_mid (sy_mail h) other mid) w of
        (Inr (uid # _), w1) \<Rightarrow>
          (let (v, w2) = sdb h [] (query (get_folder_uid_validity_for_account default_account_id other)) w1;
               uid_validity = (case v of Inr (Some x) \<Rightarrow> x | _ \<Rightarrow> 0)
           in case sdb h [] (\<lambda>_. update_email_location_for_account default_account_id mid other (as_i32 uid) uid_validity) w2 of
                (Inr _, w3) \<Rightarrow> (True, w3)
              | (Inl _, w3) \<Rightarrow> found_elsewhere h mid rest w3)
      | (_, w1) \<Rightarrow> found_elsewhere h mid rest w1)"

fun resolve_moved :: "'i sync_host \<Rightarrow> string list \<Rightarrow> (string \<times> int) list \<Rightarrow> 'i mail_world \<Rightarrow> int list \<times> 'i mail_world" where
  "resolve_moved h other_folders [] w = ([], w)"
| "resolve_moved h other_folders ((mid, uid) # rest) w =
     (let (found, w1) = found_elsewhere h mid other_folders w;
          (resolved, w2) = resolve_moved h other_folders rest w1
      in (if found then uid # resolved else resolved, w2))"

definition max_cross_folder_search :: nat where
  "max_cross_folder_search = 200"

definition process_expunged :: "'i sync_host \<Rightarrow> string \<Rightarrow> int list \<Rightarrow> 'i mail_world \<Rightarrow> int result \<times> 'i mail_world" where
  "process_expunged h folder expunged w =
     (if expunged = [] then (Inr 0, w)
      else (let gone = map as_i32 expunged in
        and_then (sdb h ''Failed to get expunged rows''
            (query (\<lambda>ms. map (\<lambda>m. (em_message_id m, or_zero (em_uid m)))
                           (filter (\<lambda>m. in_folder default_account_id folder m \<and> uid_in gone m) (ms_emails ms)))) w) (\<lambda>rows w1.
        and_then (sdb h ''Failed to list folders'' (query (list_imap_folders_for_account default_account_id)) w1) (\<lambda>folders w2.
          (let other_folders = filter (\<lambda>n. n \<noteq> folder) (map fo_name folders);
               (resolved, w3) = resolve_moved h other_folders (take max_cross_folder_search rows) w2;
               to_expunge = filter (\<lambda>u. u \<notin> set resolved) gone
           in if to_expunge = [] then (Inr 0, w3)
              else sdb h ''Failed to mark emails as expunged''
                     (\<lambda>_. mark_emails_expunged_for_account default_account_id folder to_expunge) w3)))))"

definition process_flags :: "'i sync_host \<Rightarrow> string \<Rightarrow> int list \<Rightarrow> 'i mail_world \<Rightarrow> int result \<times> 'i mail_world" where
  "process_flags h folder uids w =
     (if uids = [] then (Inr 0, w)
      else and_then (imap ''Failed to fetch flags for changed messages'' (sy_flags h folder uids) w) (\<lambda>flags w1.
             sdb h ''Failed to update email flags''
               (\<lambda>_. update_email_flags_for_account default_account_id folder (map (\<lambda>(u, r, _). (as_i32 u, r)) flags)) w1))"

text \<open>New, changed and expunged messages.\<close>

type_synonym change_count = "nat \<times> int \<times> int"

definition incremental_changes :: "'i sync_host \<Rightarrow> folder \<Rightarrow> int \<Rightarrow> int list \<Rightarrow> int \<Rightarrow> 'i mail_world
    \<Rightarrow> change_count result \<times> 'i mail_world" where
  "incremental_changes h f tracked from_range server w =
     (let folder = fo_name f; cursor = folder_cursor f;
          (changed, w1) = changed_uids h folder tracked server w;
          new_uids = all_new_uids cursor from_range changed;
          changed_existing = filter (\<lambda>u. u \<le> cursor) changed
      in and_then (sdb h ''Failed to get known UIDs'' (query (get_folder_uids_for_account default_account_id folder)) w1) (\<lambda>known w2.
         and_then (expunged_uids h folder (map as_u32 known) w2) (\<lambda>expunged w3.
         and_then (process_expunged h folder expunged w3) (\<lambda>gone w4.
         and_then (if new_uids = [] then (Inr (Some 0), w4)
                   else import_new h ''Failed to fetch envelopes for new messages'' default_account_id folder new_uids w4) (\<lambda>imported w5.
           case imported of
             None \<Rightarrow> (Inr (0, 0, gone), w5)
           | Some n \<Rightarrow>
               and_then (process_flags h folder changed_existing w5) (\<lambda>updated w6.
               and_then (if server > 0 \<and> server > tracked
                         then sdb h ''Failed to update highest_modseq''
                                (exec (update_folder_highest_modseq_for_account default_account_id folder (as_i64_cast server))) w6
                         else (Inr (), w6)) (\<lambda>_ w7. (Inr (n, updated, gone), w7))))))))"

definition incremental_folder :: "'i sync_host \<Rightarrow> folder \<Rightarrow> 'i mail_world \<Rightarrow> change_count result \<times> 'i mail_world" where
  "incremental_folder h f w =
     and_then (sdb h ''Failed to get highest_modseq''
                 (query (get_folder_highest_modseq_for_account default_account_id (fo_name f))) w) (\<lambda>m w1.
       (let tracked = or_zero m mod 18446744073709551616 in
        if tracked = 0 then (Inr (0, 0, 0), w1)
        else (let (r, w2) = net (sy_new_uids h (fo_name f) (folder_cursor f)) w1;
                  from_range = or_none r;
                  (server, w3) = server_modseq h (fo_name f) from_range w2
              in case server of
                   None \<Rightarrow> (Inr (0, 0, 0), w3)
                 | Some s \<Rightarrow> incremental_changes h f tracked from_range s w3)))"

fun incremental_folders :: "'i sync_host \<Rightarrow> folder list \<Rightarrow> change_count \<Rightarrow> 'i mail_world \<Rightarrow> change_count result \<times> 'i mail_world" where
  "incremental_folders h [] tot w = (Inr tot, w)"
| "incremental_folders h (f # rest) tot w =
     and_then (incremental_folder h f w) (\<lambda>(n, c, e) w1.
       incremental_folders h rest (fst tot + n, fst (snd tot) + c, snd (snd tot) + e) w1)"

definition run_sync_incremental_once :: "'i sync_host \<Rightarrow> 'i mail_world \<Rightarrow> change_count result \<times> 'i mail_world" where
  "run_sync_incremental_once h w =
     (case mh_setup (sy_mail h) of
        Some e \<Rightarrow> (Inl e, w)
      | None \<Rightarrow>
          (case mh_account (sy_mail h) of
             Some e \<Rightarrow> (Inl (''Failed to load IMAP config'' # e), w)
           | None \<Rightarrow>
               and_then (sdb h ''Failed to list imap folders'' (query (list_imap_folders_for_account default_account_id)) w) (\<lambda>all_folders w1.
                 (let folders = synced_before all_folders in
                  if folders = [] then (Inr (0, 0, 0), w1)
                  else and_then (incremental_folders h folders (0, 0, 0) w1) (\<lambda>tot w2.
                         if fst tot > 0
                         then and_then (drain_after h ''Failed to process durable body sync queue after incremental sync'' default_account_id w2)
                                (\<lambda>_ w3. (Inr tot, w3))
                         else (Inr tot, w2))))))"

section \<open>A window of days\<close>

definition window_folder :: "'i sync_host \<Rightarrow> string \<Rightarrow> folder \<Rightarrow> 'i mail_world \<Rightarrow> nat result \<times> 'i mail_world" where
  "window_folder h search_query f w =
     (let folder = fo_name f; a = default_account_id in
      case net (sy_search h folder search_query) w of
        (Inl _, w1) \<Rightarrow> (Inr 0, w1)
      | (Inr uids, w1) \<Rightarrow>
          (if uids = [] then (Inr 0, w1)
           else and_then (fetch_chunks h ''Failed to fetch envelopes for window'' folder (chunks chunk_size uids) None w1) (\<lambda>(mb, envs) w2.
             and_then (case mb of
                 None \<Rightarrow> (Inr False, w2)
               | Some b \<Rightarrow>
                   and_then (sdb h ''Failed to update folder message count''
                       (exec (update_imap_folder_message_counts_for_account a [(folder, as_i32 (mb_exists b))])) w2)
                     (\<lambda>_ w3. note_positive_validity h a folder (state_validity b) w3)) (\<lambda>changed w3.
               if changed then (Inr 0, w3)
               else (let v = or_zero (last_validity mb) in
                 and_then (settle_ids 2 h a folder v envs w3) (\<lambda>envs' w4.
                   if filter with_id envs' = [] then (Inr 0, w4)
                   else and_then (store_envelopes h ''Failed to upsert+enqueue window envelopes'' a folder v envs' w4)
                          (\<lambda>_ w5. (Inr (length envs'), w5))))))))"

fun window_folders :: "'i sync_host \<Rightarrow> string \<Rightarrow> folder list \<Rightarrow> nat \<Rightarrow> 'i mail_world \<Rightarrow> nat result \<times> 'i mail_world" where
  "window_folders h search_query [] synced w = (Inr synced, w)"
| "window_folders h search_query (f # rest) synced w =
     and_then (window_folder h search_query f w) (\<lambda>n w1. window_folders h search_query rest (synced + n) w1)"

text \<open>\<open>today\<close> is \<^verbatim>\<open>Utc::now()\<close> when the run starts.\<close>

definition run_sync_window :: "'i sync_host \<Rightarrow> timestamp \<Rightarrow> int option \<Rightarrow> bool \<Rightarrow> 'i mail_world \<Rightarrow> nat result \<times> 'i mail_world" where
  "run_sync_window h today days full w =
     (case mh_setup (sy_mail h) of
        Some e \<Rightarrow> (Inl e, w)
      | None \<Rightarrow>
          (case mh_account (sy_mail h) of
             Some e \<Rightarrow> (Inl (''Failed to load IMAP config'' # e), w)
           | None \<Rightarrow>
               (let window_days = (if full then None else Some (case days of None \<Rightarrow> 30 | Some d \<Rightarrow> d));
                    search_query = (case window_days of None \<Rightarrow> ''ALL'' | Some d \<Rightarrow> ''SINCE '' @ sy_since h today d)
                in and_then (sdb h ''Failed to list imap folders'' (query (list_imap_folders_for_account default_account_id)) w) (\<lambda>all_folders w1.
                     (let folders = filter (\<lambda>f. \<not> fo_noselect f) all_folders in
                      if folders = [] then (Inr 0, w1)
                      else and_then (window_folders h search_query folders 0 w1) (\<lambda>synced w2.
                           and_then (drain_after h ''Failed to process durable body sync queue after window sync'' default_account_id w2) (\<lambda>_ w3.
                           and_then (sdb h ''Failed to record window run''
                               (\<lambda>now ms. ((), record_sync_window_run_for_account now default_account_id
                                                (case window_days of None \<Rightarrow> 0 | Some d \<Rightarrow> as_i32 d) ms)) w3) (\<lambda>_ w4.
                             (Inr synced, w4)))))))))"

section \<open>Seeding the body queue\<close>

definition seed_folder :: "'i sync_host \<Rightarrow> string \<Rightarrow> nat \<Rightarrow> folder \<Rightarrow> 'i mail_world \<Rightarrow> int result \<times> 'i mail_world" where
  "seed_folder h a per_folder f w =
     and_then (sdb h (''get emails needing body sync for '' @ fo_name f)
                 (query (get_emails_needing_body_sync_for_account a (fo_name f) per_folder)) w) (\<lambda>needing w1.
       if needing = [] then (Inr 0, w1)
       else join_result (sdb h (''enqueue body sync items for '' @ fo_name f)
              (\<lambda>now ms. let (r, ms') = queue_bodies now a
                  (map (\<lambda>(u, mid, v). \<lparr>bi_folder = fo_name f, bi_uid = u, bi_uid_validity = v, bi_message_id = mid\<rparr>) needing) ms
                in (ctx (''enqueue body sync items for '' @ fo_name f) r, ms')) w1))"

fun seed_folders :: "'i sync_host \<Rightarrow> string \<Rightarrow> nat \<Rightarrow> folder list \<Rightarrow> int \<Rightarrow> 'i mail_world \<Rightarrow> int result \<times> 'i mail_world" where
  "seed_folders h a per_folder [] tot w = (Inr tot, w)"
| "seed_folders h a per_folder (f # rest) tot w =
     and_then (seed_folder h a per_folder f w) (\<lambda>n w1. seed_folders h a per_folder rest (tot + n) w1)"

definition enqueue_existing_missing_body_rows_for_account ::
  "'i sync_host \<Rightarrow> string \<Rightarrow> int \<Rightarrow> 'i mail_world \<Rightarrow> int result \<times> 'i mail_world" where
  "enqueue_existing_missing_body_rows_for_account h a per_folder w =
     and_then (sdb h ''list folders for body queue seeding'' (query (list_imap_folders_for_account a)) w) (\<lambda>folders w1.
       seed_folders h a (nat per_folder) (filter (\<lambda>f. \<not> fo_noselect f) folders) 0 w1)"

definition run_sync_slow :: "'i sync_host \<Rightarrow> 'i mail_world \<Rightarrow> int result \<times> 'i mail_world" where
  "run_sync_slow h w =
     (case mh_setup (sy_mail h) of
        Some e \<Rightarrow> (Inl e, w)
      | None \<Rightarrow>
          (case mh_account (sy_mail h) of
             Some e \<Rightarrow> (Inl (''Failed to load IMAP config'' # e), w)
           | None \<Rightarrow>
               and_then (let (r, w1) = enqueue_existing_missing_body_rows_for_account h default_account_id slow_sync_batch_size w
                         in (ctx ''Failed to enqueue missing body rows into durable queue'' r, w1)) (\<lambda>_ w1.
                 drain_after h ''Failed to drain durable body sync queue'' default_account_id w1)))"

end
