(* ===== verification/MailCleanup.thy ===== *)
theory MailCleanup
  imports Filing
begin

text \<open>
  \<^verbatim>\<open>src/cli_commands/message_lifecycle_cli.rs\<close> (expired one-time codes and stale newsletters
  go to the trash) and \<^verbatim>\<open>src/cli_commands/folder_consolidation_cli.rs\<close> (folders are merged as
  an agent proposes), over the worlds of \<open>Filing\<close>.
\<close>

section \<open>Lifecycle\<close>

record lifecycle_config =
  lc_otp_max_age_secs :: int
  lc_newsletter_max_age_days :: int
  lc_limit :: int
  lc_trash_folder :: string

definition lifecycle_config_from_env :: "env \<Rightarrow> lifecycle_config" where
  "lifecycle_config_from_env e =
     \<lparr>lc_otp_max_age_secs = env_parse e parse_i64 ''LIFECYCLE_OTP_MAX_AGE_SECS'' 3600,
      lc_newsletter_max_age_days = env_parse e parse_i32 ''LIFECYCLE_NEWSLETTER_MAX_AGE_DAYS'' 30,
      lc_limit = env_parse e parse_u64 ''LIFECYCLE_LIMIT'' 50,
      lc_trash_folder = (case e ''TRASH_FOLDER'' of None \<Rightarrow> ''Trash'' | Some t \<Rightarrow> t)\<rparr>"

definition mark_lifecycle_trashed :: "'i mail_host \<Rightarrow> string \<Rightarrow> string \<Rightarrow> 'i mail_world \<Rightarrow> bool result \<times> 'i mail_world" where
  "mark_lifecycle_trashed h a mid w =
     and_then (join_result (dbs h ''mark_email_action_applied''
                 (\<lambda>now. mark_email_action_applied_for_account now a mid ''lifecycle_trashed'') w))
       (\<lambda>_ w1. (Inr True, w1))"

text \<open>Whether the email counts as trashed; an error ends the run.\<close>

definition lifecycle_one :: "'i mail_host \<Rightarrow> string \<Rightarrow> lifecycle_config \<Rightarrow> email \<Rightarrow> 'i mail_world
    \<Rightarrow> bool result \<times> 'i mail_world" where
  "lifecycle_one h a cfg m w =
     (let source = (case em_location m of None \<Rightarrow> [] | Some l \<Rightarrow> l); mid = em_message_id m in
      if source = [] then (Inr False, w)
      else if eq_ignore_ascii_case source (lc_trash_folder cfg) then mark_lifecycle_trashed h a mid w
      else case em_uid m of
        None \<Rightarrow> (Inr False, w)
      | Some uid \<Rightarrow>
          (case net (mh_ensure h (lc_trash_folder cfg)) w of
             (Inl _, w1) \<Rightarrow> (Inr False, w1)
           | (Inr _, w1) \<Rightarrow>
               (case net (mh_move_message h source (as_u32 uid) (lc_trash_folder cfg)) w1 of
                  (Inr _, w2) \<Rightarrow> mark_lifecycle_trashed h a mid w2
                | (Inl _, w2) \<Rightarrow> (Inr False, w2))))"

fun lifecycle_all :: "'i mail_host \<Rightarrow> string \<Rightarrow> lifecycle_config \<Rightarrow> email list \<Rightarrow> nat \<Rightarrow> 'i mail_world
    \<Rightarrow> nat result \<times> 'i mail_world" where
  "lifecycle_all h a cfg [] n w = (Inr n, w)"
| "lifecycle_all h a cfg (m # rest) n w =
     and_then (lifecycle_one h a cfg m w)
       (\<lambda>trashed w1. lifecycle_all h a cfg rest (if trashed then n + 1 else n) w1)"

text \<open>Emails trashed, and candidates.\<close>

definition run_lifecycle_cleanup_for_account ::
  "'i mail_host \<Rightarrow> bool \<Rightarrow> string \<Rightarrow> lifecycle_config \<Rightarrow> 'i mail_world \<Rightarrow> (nat \<times> nat) result \<times> 'i mail_world" where
  "run_lifecycle_cleanup_for_account h dry_run a cfg w =
     (case mh_setup h of
        Some e \<Rightarrow> (Inl e, w)
      | None \<Rightarrow>
          and_then
            (dbs h ''fetch lifecycle candidates''
               (\<lambda>now ms. (get_lifecycle_cleanup_candidates_for_account now a (lc_otp_max_age_secs cfg)
                            (lc_newsletter_max_age_days cfg) (nat (lc_limit cfg)) ms, ms)) w)
            (\<lambda>candidates w1.
               if candidates = [] then (Inr (0, 0), w1)
               else if dry_run then (Inr (length candidates, length candidates), w1)
               else case mh_account h of
                 Some e \<Rightarrow> (Inl (''Load IMAP config'' # e), w1)
               | None \<Rightarrow>
                   and_then (lifecycle_all h a cfg candidates 0 w1)
                     (\<lambda>n w2. (Inr (n, length candidates), w2))))"

section \<open>Consolidation\<close>

record proposal =
  pr_source :: string
  pr_target :: string
  pr_action :: string

definition system_folders :: "string list" where
  "system_folders = [''INBOX'', ''Sent'', ''Trash'', ''Junk'', ''Drafts'', ''[Gmail]'', ''Spam'', ''Archive'']"

definition is_system_folder :: "string \<Rightarrow> bool" where
  "is_system_folder folder \<longleftrightarrow> list_ex (\<lambda>s. eq_ignore_ascii_case s folder) system_folders"

definition is_actionable_merge :: "proposal \<Rightarrow> bool" where
  "is_actionable_merge p \<longleftrightarrow>
     eq_ignore_ascii_case (pr_action p) ''merge'' \<and> trim (pr_source p) \<noteq> [] \<and> trim (pr_target p) \<noteq> []
     \<and> \<not> eq_ignore_ascii_case (pr_source p) (pr_target p)"

definition proposal_key :: "proposal \<Rightarrow> string \<times> string" where
  "proposal_key p = (to_lower (pr_source p), to_lower (pr_target p))"

fun filter_actionable_from :: "(string \<times> string) list \<Rightarrow> proposal list \<Rightarrow> proposal list" where
  "filter_actionable_from seen [] = []"
| "filter_actionable_from seen (p # rest) =
     (if \<not> is_actionable_merge p then filter_actionable_from seen rest
      else if is_system_folder (pr_source p) \<or> is_system_folder (pr_target p) then filter_actionable_from seen rest
      else if proposal_key p \<in> set seen then filter_actionable_from seen rest
      else p # filter_actionable_from (proposal_key p # seen) rest)"

definition filter_actionable_proposals :: "proposal list \<Rightarrow> proposal list" where
  "filter_actionable_proposals ps = filter_actionable_from [] ps"

definition get_message_ids_by_location_for_account :: "string \<Rightarrow> string \<Rightarrow> mail_store \<Rightarrow> string list" where
  "get_message_ids_by_location_for_account a loc ms = map em_message_id (filter (in_folder a loc) (ms_emails ms))"

definition merge_one :: "'i mail_host \<Rightarrow> string \<Rightarrow> proposal \<Rightarrow> string \<Rightarrow> 'i mail_world \<Rightarrow> bool result \<times> 'i mail_world" where
  "merge_one h a p mid w =
     and_then (dbs h (''load email record for '' @ mid) (query (\<lambda>ms. find_opt (email_at a mid) (ms_emails ms))) w)
       (\<lambda>found w1. case Option.bind found em_uid of
          None \<Rightarrow> (Inr False, w1)
        | Some uid \<Rightarrow>
            (case net (mh_uid_move h (pr_source p) (as_u32 uid) (pr_target p)) w1 of
               (Inr (Some (new_uid, new_v)), w2) \<Rightarrow>
                 and_then (dbs h (''update moved email location for '' @ pr_source p @ '' -> '' @ pr_target p)
                     (\<lambda>_. update_email_location_for_account a mid (pr_target p) (as_i32 new_uid) (as_i32 new_v)) w2)
                   (\<lambda>_ w3. (Inr True, w3))
             | (_, w2) \<Rightarrow> (Inr False, w2)))"

fun merge_all :: "'i mail_host \<Rightarrow> string \<Rightarrow> proposal \<Rightarrow> string list \<Rightarrow> nat \<Rightarrow> 'i mail_world \<Rightarrow> nat result \<times> 'i mail_world" where
  "merge_all h a p [] n w = (Inr n, w)"
| "merge_all h a p (mid # rest) n w =
     and_then (merge_one h a p mid w) (\<lambda>moved w1. merge_all h a p rest (if moved then n + 1 else n) w1)"

text \<open>The source folder is deleted once its known messages have been gone through.\<close>

definition apply_proposal :: "'i mail_host \<Rightarrow> string \<Rightarrow> proposal \<Rightarrow> 'i mail_world \<Rightarrow> (bool \<times> nat) result \<times> 'i mail_world" where
  "apply_proposal h a p w =
     and_then (dbs h (''load source message ids for merge '' @ pr_source p @ '' -> '' @ pr_target p)
                 (query (get_message_ids_by_location_for_account a (pr_source p))) w) (\<lambda>mids w1.
     and_then (merge_all h a p mids 0 w1) (\<lambda>moved w2.
       case net (mh_remove h (pr_source p)) w2 of
         (Inr _, w3) \<Rightarrow>
           (Inr (True, moved), snd (dbs h ''delete_imap_folder'' (\<lambda>_. delete_imap_folder_for_account a (pr_source p)) w3))
       | (Inl _, w3) \<Rightarrow> (Inr (False, moved), w3)))"

fun apply_all :: "'i mail_host \<Rightarrow> string \<Rightarrow> proposal list \<Rightarrow> nat \<Rightarrow> nat \<Rightarrow> 'i mail_world \<Rightarrow> (nat \<times> nat) result \<times> 'i mail_world" where
  "apply_all h a [] merged moved w = (Inr (merged, moved), w)"
| "apply_all h a (p # rest) merged moved w =
     and_then (apply_proposal h a p w)
       (\<lambda>(ok, n) w1. apply_all h a rest (if ok then merged + 1 else merged) (moved + n) w1)"

definition apply_proposals :: "'i mail_host \<Rightarrow> string \<Rightarrow> proposal list \<Rightarrow> 'i mail_world \<Rightarrow> (nat \<times> nat) result \<times> 'i mail_world" where
  "apply_proposals h a ps w =
     (if ps = [] then (Inr (0, 0), w)
      else case mh_account h of
        Some e \<Rightarrow> (Inl (''Load account config'' # e), w)
      | None \<Rightarrow> apply_all h a ps 0 0 w)"

text \<open>What follows the agent's answer: \<open>proposals\<close> are the ones in its output.\<close>

definition run_consolidate :: "'i mail_host \<Rightarrow> bool \<Rightarrow> string option \<Rightarrow> proposal list \<Rightarrow> 'i mail_world
    \<Rightarrow> (nat \<times> nat) result \<times> 'i mail_world" where
  "run_consolidate h dry_run account proposals w =
     (if dry_run then (Inr (0, 0), w)
      else apply_proposals h (case account of None \<Rightarrow> default_account_id | Some a \<Rightarrow> a)
             (filter_actionable_proposals proposals) w)"

end
