(* ===== verification/RunSteps.thy ===== *)
theory RunSteps
  imports IncrementalSync MailCleanup
begin

text \<open>
  Every run on the mail tables is a sequence of single statements: \<open>steps a w w'\<close> says that the tables of
  \<open>w'\<close> come from those of \<open>w\<close> by statements for account \<open>a\<close> only (\<open>mail_step\<close>), whatever the server
  answers and whichever statement fails. \<open>step_intros\<close> collects the fact for each part of a run.
\<close>

section \<open>Relations between the tables before and after a run\<close>

text \<open>A reflexive and transitive relation that each part of a computation keeps is kept by the whole.\<close>

locale run_relation =
  fixes R :: "mail_store \<Rightarrow> mail_store \<Rightarrow> bool"
  assumes refl: "R ms ms"
    and trans: "R ms1 ms2 \<Longrightarrow> R ms2 ms3 \<Longrightarrow> R ms1 ms3"
begin

lemma net: "R (mw_mail w) (mw_mail (snd (net op w)))"
  by (simp add: net_def case_prod_beta refl)

lemma imap: "R (mw_mail w) (mw_mail (snd (imap what op w)))"
  using net [of w op] by (simp add: imap_def case_prod_beta)

lemma dbs:
  assumes "\<And>now ms. R ms (snd (f now ms))"
  shows "R (mw_mail w) (mw_mail (snd (dbs h what f w)))"
  using assms refl by (auto simp: dbs_def Let_def case_prod_beta split: option.splits)

lemma join:
  fixes w :: "'i mail_world"
  shows "R (mw_mail w) (mw_mail (snd r)) \<Longrightarrow> R (mw_mail w) (mw_mail (snd (join_result (r :: 'b result result \<times> 'i mail_world))))"
  by (auto simp: join_result_def split: prod.splits sum.splits)

lemma and_then:
  fixes w :: "'i mail_world"
  assumes "R (mw_mail w) (mw_mail (snd (m :: 'b result \<times> 'i mail_world)))" and "\<And>v w1. m = (Inr v, w1) \<Longrightarrow> R (mw_mail w1) (mw_mail (snd (f v w1 :: 'c result \<times> 'i mail_world)))"
  shows "R (mw_mail w) (mw_mail (snd (and_then m f)))"
proof (cases m)
  case (Pair r w1)
  with assms show ?thesis by (cases r) (auto intro: trans)
qed

lemma case_pair:
  fixes w :: "'i mail_world"
  assumes "R (mw_mail w) (mw_mail (snd (m :: 'b \<times> 'i mail_world)))" and "\<And>x w1. m = (x, w1) \<Longrightarrow> R (mw_mail w1) (mw_mail (snd (f x w1 :: 'c \<times> 'i mail_world)))"
  shows "R (mw_mail w) (mw_mail (snd (case m of (x, w1) \<Rightarrow> f x w1)))"
  using assms by (cases m) (auto intro: trans)

end

text \<open>A relation that the statements of one round of a synchronisation keep, of folder \<open>n\<close> of account \<open>a\<close>.\<close>

locale batch_relation = run_relation +
  fixes a n :: string
  assumes counts: "R ms (update_imap_folder_message_counts_for_account a us ms)"
    and cursor: "R ms (update_folder_last_synced_uid_for_account a n uid ms)"
    and missing: "R ms (record_missing_message_id_for_account now a n uid v ms)"
    and transaction: "R ms (snd (envelope_tx ts now a (JArray (map (envelope_json rfc n v) envs)) (map (envelope_item n v) envs) ms))"
begin

lemma set_cursor: "R (mw_mail w) (mw_mail (snd (set_cursor h what a n uid w)))"
  unfolding set_cursor_def by (rule dbs) (simp add: cursor)

lemma store: "R (mw_mail w) (mw_mail (snd (store_envelopes h what a n v envs w)))"
  unfolding store_envelopes_def Let_def by (intro join dbs) (simp add: case_prod_beta transaction)

lemma refetch: "R (mw_mail w) (mw_mail (snd (refetch h m envs w)))"
  by (induction h m envs w rule: refetch.induct) (auto intro!: and_then imap simp: refl)

lemma record_missing: "R (mw_mail w) (mw_mail (snd (record_missing h a n v envs w)))"
proof (induction envs arbitrary: w)
  case (Cons ue rest)
  then show ?case by (cases ue) (auto intro!: and_then dbs missing)
qed (simp add: refl)

lemma settle_ids: "R (mw_mail w) (mw_mail (snd (settle_ids k h a n v envs w)))"
proof (induction k arbitrary: envs w)
  case 0
  show ?case by (subst settle_ids.simps) (auto simp: Let_def refl intro!: and_then record_missing)
next
  case (Suc k)
  show ?case by (subst settle_ids.simps) (auto simp: Let_def refl intro!: and_then refetch Suc)
qed

lemma skip: "R (mw_mail w) (mw_mail (snd (skip_empty_range h a n s uid_end w)))"
  unfolding skip_empty_range_def Let_def by (auto simp: refl intro!: and_then set_cursor)

lemma import: "R (mw_mail w) (mw_mail (snd (import_batch h a n v uid_end highest envs w)))"
  unfolding import_batch_def Let_def by (auto simp: refl intro!: and_then set_cursor store)

end

section \<open>Sequences of statements\<close>

definition steps :: "string \<Rightarrow> 'i mail_world \<Rightarrow> 'i mail_world \<Rightarrow> bool" where
  "steps a w w' \<longleftrightarrow> (mail_step a)\<^sup>*\<^sup>* (mw_mail w) (mw_mail w')"

named_theorems step_intros \<open>computations that are sequences of statements\<close>

interpretation statements: batch_relation "(mail_step a)\<^sup>*\<^sup>*" a n for a n
  by unfold_locales (auto intro: mail_step.intros)

lemma steps_refl [simp]: "steps a w w"
  by (simp add: steps_def)

lemma steps_trans: "steps a w w1 \<Longrightarrow> steps a w1 w2 \<Longrightarrow> steps a w w2"
  unfolding steps_def by (rule rtranclp_trans)

lemmas steps_net [step_intros] = statements.net [folded steps_def]
lemmas steps_imap [step_intros] = statements.imap [folded steps_def]
lemmas steps_join [step_intros] = statements.join [folded steps_def]
lemmas steps_and_then [step_intros] = statements.and_then [folded steps_def]
lemmas steps_case_pair = statements.case_pair [folded steps_def]
lemmas steps_round [step_intros] = statements.set_cursor [folded steps_def] statements.store [folded steps_def]
  statements.record_missing [folded steps_def] statements.settle_ids [folded steps_def]
  statements.skip [folded steps_def] statements.import [folded steps_def]

lemma steps_net_eq: "net op w = (r, w') \<Longrightarrow> steps a w w'"
  using steps_net [of a w op] by simp

lemma steps_dbs:
  assumes "\<And>now ms. mail_step a ms (snd (f now ms)) \<or> snd (f now ms) = ms"
  shows "steps a w (snd (dbs h what f w))"
  unfolding steps_def by (rule statements.dbs) (metis assms r_into_rtranclp rtranclp.rtrancl_refl)

lemma steps_dbs_eq:
  "dbs h what f w = (r, w') \<Longrightarrow> (\<And>now ms. mail_step a ms (snd (f now ms)) \<or> snd (f now ms) = ms) \<Longrightarrow> steps a w w'"
  using steps_dbs [of a f w h what] by simp

lemma steps_query [step_intros]: "steps a w (snd (dbs h what (query q) w))"
  by (rule steps_dbs) simp

text \<open>The statements of the runs.\<close>

lemma step_statements [step_intros]:
  "steps a w (snd (dbs h what (\<lambda>now ms. ((), record_missing_message_id_for_account now a n uid v ms)) w))"
  "steps a w (snd (dbs h what (\<lambda>_. update_folder_uid_validity_for_account a n v) w))"
  "steps a w (snd (dbs h what (exec (reset_folder_sync_state_for_account a n v)) w))"
  "steps a w (snd (dbs h what (\<lambda>_. clear_folder_uids_for_account a n) w))"
  "steps a w (snd (dbs h what (exec (update_folder_last_synced_uid_for_account a n uid)) w))"
  "steps a w (snd (dbs h what (exec (update_imap_folder_message_counts_for_account a us)) w))"
  "steps a w (snd (dbs h what (\<lambda>_. sync_folders_from_imap_for_account a bs) w))"
  "steps a w (snd (dbs h what (exec (recompute_imap_folder_priority_for_account a)) w))"
  "steps a w (snd (dbs h what (\<lambda>_. update_email_location_for_account a mid n uid v) w))"
  "steps a w (snd (dbs h what (\<lambda>_. mark_emails_expunged_for_account a n uids) w))"
  "steps a w (snd (dbs h what (\<lambda>_. update_email_flags_for_account a n fs) w))"
  "steps a w (snd (dbs h what (exec (update_folder_highest_modseq_for_account a n m)) w))"
  "steps a w (snd (dbs h what (\<lambda>now ms. ((), record_sync_window_run_for_account now a days ms)) w))"
  "steps a w (snd (dbs h what (\<lambda>_. update_location_recommendation_for_account a mid n create) w))"
  "steps a w (snd (dbs h what (\<lambda>now. mark_email_deleted_from_server_for_account now a mid) w))"
  "steps a w (snd (dbs h what (\<lambda>now. mark_email_action_applied_for_account now a mid act) w))"
  "steps a w (snd (dbs h what (\<lambda>_. delete_imap_folder_for_account a n) w))"
  by (rule steps_dbs, rule disjI1, (simp only: snd_conv)?, rule mail_step.intros)+

section \<open>Synchronisation\<close>

lemma steps_note_validity [step_intros]: "steps a w (snd (note_uid_validity h a n v w))"
  unfolding note_uid_validity_def by (auto intro!: step_intros split: option.splits)

lemma steps_note_positive [step_intros]: "steps a w (snd (note_positive_validity h a n v w))"
  by (simp add: note_positive_validity_def step_intros)

lemma steps_note_any [step_intros]: "steps a w (snd (note_any_validity h a n v w))"
  by (simp add: note_any_validity_def step_intros split: option.splits)

lemma steps_sync_batch [step_intros]: "steps a w (snd (sync_batch h a n start_uid w))"
  unfolding sync_batch_def by (auto intro!: step_intros)

lemma steps_sync_folder: "sync_folder k h a n start_uid synced w = Some r \<Longrightarrow> steps a w (snd r)"
proof (induction k h a n start_uid synced w rule: sync_folder.induct)
  case (2 k h a n start_uid synced w)
  obtain r1 w1 where b: "sync_batch h a n start_uid w = (r1, w1)" by fastforce
  have "steps a w w1" using steps_sync_batch [of a w h n start_uid] b by simp
  with 2 b show ?case by (auto split: sum.splits prod.splits option.splits intro: steps_trans)
qed simp

lemma steps_sync_folders: "sync_folders k h a fs synced w = Some r \<Longrightarrow> steps a w (snd r)"
proof (induction k h a fs synced w rule: sync_folders.induct)
  case (2 k h a f rest synced w)
  then obtain x w1 where f: "sync_folder k h a (fo_name f) (first_uid f) 0 w = Some (x, w1)"
    by (auto split: option.splits)
  have "steps a w w1" using steps_sync_folder [OF f] by simp
  with 2 f show ?case by (auto split: sum.splits intro: steps_trans)
qed auto

text \<open>\<open>drains a h\<close>: the drain of the body queue, too, is statements for the account.\<close>

definition drains :: "string \<Rightarrow> 'i sync_host \<Rightarrow> bool" where
  "drains a h \<longleftrightarrow> (\<forall>w. steps a w (snd (sy_drain h a w)))"

lemma drains_steps: "drains a h \<Longrightarrow> sy_drain h a w = (r, w') \<Longrightarrow> steps a w w'"
  by (metis drains_def snd_conv)

lemma steps_drain_after: "drains a h \<Longrightarrow> steps a w (snd (drain_after h what a w))"
  by (simp add: drain_after_def case_prod_beta drains_def)

lemma steps_finish: "drains a h \<Longrightarrow> steps a w (snd (finish_sync h a synced w))"
  unfolding finish_sync_def by (auto intro!: step_intros simp: case_prod_beta drains_def)

lemma steps_run_sync:
  assumes d: "drains a h" and r: "run_sync_for_account k h a w = Some r"
  shows "steps a w (snd r)"
proof (cases "mh_setup (sy_mail h)")
  case None
  define listing where "listing = and_then (imap ''Failed to list mailboxes from IMAP'' (mh_list (sy_mail h)) w) (\<lambda>boxes w1.
     and_then (sdb h ''Failed to sync folders to database'' (\<lambda>_. sync_folders_from_imap_for_account a boxes) w1) (\<lambda>_ w2.
       sdb h ''Failed to list imap folders'' (query (list_imap_folders_for_account a)) w2))"
  have l: "steps a w (snd listing)" unfolding listing_def by (intro step_intros)
  obtain x w1 where lx: "listing = (x, w1)" by (cases listing)
  show ?thesis
  proof (cases x)
    case (Inl e)
    then show ?thesis using r None lx l by (auto simp: run_sync_for_account_def simp flip: listing_def)
  next
    case (Inr folders)
    with r None lx obtain y w2 where f: "sync_folders k h a (sort_key sync_order (filter (\<lambda>f. \<not> fo_noselect f) folders)) 0 w1
        = Some (y, w2)"
      by (auto simp: run_sync_for_account_def simp flip: listing_def split: option.splits)
    have "steps a w w2" using steps_sync_folders [OF f] l lx by (auto intro: steps_trans)
    then show ?thesis using r None lx Inr f steps_finish [OF d]
      by (auto simp: run_sync_for_account_def simp flip: listing_def split: sum.splits intro: steps_trans)
  qed
qed (use r in \<open>auto simp: run_sync_for_account_def\<close>)

text \<open>The incremental runs.\<close>

lemma steps_fetch_chunks [step_intros]: "steps a w (snd (fetch_chunks h what n cs mb w))"
  by (induction h what n cs mb w rule: fetch_chunks.induct) (auto intro!: step_intros)

lemma steps_import_new [step_intros]: "steps a w (snd (import_new h what a n uids w))"
  unfolding import_new_def by (auto intro!: step_intros)

lemma steps_incremental_folder_for_account [step_intros]: "steps a w (snd (incremental_folder_for_account h a f w))"
proof -
  obtain r w1 where r: "net (sy_new_uids h (fo_name f) (folder_cursor f)) w = (r, w1)" by fastforce
  have "steps a w1 (snd (and_then (import_new h what a n uids w1) (\<lambda>n w2. (Inr (case n of None \<Rightarrow> 0 | Some k \<Rightarrow> k), w2))))"
    for what n uids by (auto intro!: step_intros)
  then show ?thesis using steps_net_eq [OF r, of a]
    by (auto simp: incremental_folder_for_account_def r split: sum.splits intro: steps_trans)
qed

lemma steps_incremental_folders_for_account [step_intros]: "steps a w (snd (incremental_folders_for_account h a fs n w))"
  by (induction h a fs n w rule: incremental_folders_for_account.induct) (auto intro!: step_intros)

lemma steps_run_incremental_for_account:
  "drains a h \<Longrightarrow> steps a w (snd (run_sync_incremental_once_for_account h a w))"
  unfolding run_sync_incremental_once_for_account_def Let_def
  by (auto split: option.splits intro!: step_intros steps_drain_after)

lemma steps_server_modseq [step_intros]: "steps a w (snd (server_modseq h n us w))"
  unfolding server_modseq_def
  by (rule steps_case_pair, rule steps_net) (auto split: sum.splits option.splits)

lemma steps_changed_uids [step_intros]: "steps a w (snd (changed_uids h n tracked server w))"
  by (auto simp: changed_uids_def intro!: steps_case_pair step_intros)

lemma steps_expunged_uids [step_intros]: "steps a w (snd (expunged_uids h n known w))"
  unfolding expunged_uids_def
  by (auto intro!: step_intros steps_case_pair split: sum.splits list.splits)

lemma steps_found_elsewhere [step_intros]: "steps default_account_id w (snd (found_elsewhere h mid names w))"
proof (induction names arbitrary: w)
  case (Cons other rest)
  show ?case
    unfolding found_elsewhere.simps Let_def
    by (rule steps_case_pair, rule steps_net)
      (auto split: sum.splits list.splits intro!: steps_case_pair step_intros Cons.IH)
qed simp

lemma steps_resolve_moved [step_intros]: "steps default_account_id w (snd (resolve_moved h names rows w))"
proof (induction rows arbitrary: w)
  case (Cons row rest)
  show ?case
    by (cases row) (auto simp: Let_def intro!: steps_case_pair step_intros Cons.IH)
qed simp

lemma steps_process_expunged [step_intros]: "steps default_account_id w (snd (process_expunged h n us w))"
  unfolding process_expunged_def Let_def by (auto intro!: step_intros steps_case_pair)

lemma steps_process_flags [step_intros]: "steps default_account_id w (snd (process_flags h n us w))"
  unfolding process_flags_def by (auto intro!: step_intros)

lemma steps_incremental_changes [step_intros]:
  "steps default_account_id w (snd (incremental_changes h f tracked us server w))"
  unfolding incremental_changes_def Let_def
  by (auto intro!: step_intros steps_case_pair split: option.splits)

lemma steps_incremental_folder [step_intros]: "steps default_account_id w (snd (incremental_folder h f w))"
  unfolding incremental_folder_def Let_def
  by (auto intro!: step_intros steps_case_pair split: option.splits)

lemma steps_incremental_folders [step_intros]: "steps default_account_id w (snd (incremental_folders h fs tot w))"
  by (induction h fs tot w rule: incremental_folders.induct) (auto intro!: step_intros)

lemma steps_run_incremental: "drains default_account_id h \<Longrightarrow> steps default_account_id w (snd (run_sync_incremental_once h w))"
  unfolding run_sync_incremental_once_def Let_def
  by (auto split: option.splits intro!: step_intros steps_drain_after)

text \<open>The window and the slow run.\<close>

lemma steps_window_folder [step_intros]: "steps default_account_id w (snd (window_folder h q f w))"
  unfolding window_folder_def Let_def
  by (rule steps_case_pair, rule steps_net) (auto intro!: step_intros split: sum.splits option.splits)

lemma steps_window_folders [step_intros]: "steps default_account_id w (snd (window_folders h q fs n w))"
  by (induction h q fs n w rule: window_folders.induct) (auto intro!: step_intros)

lemma steps_run_window: "drains default_account_id h \<Longrightarrow> steps default_account_id w (snd (run_sync_window h today days full w))"
  unfolding run_sync_window_def Let_def
  by (auto split: option.splits intro!: step_intros steps_drain_after)

lemma steps_seed_folder [step_intros]: "steps a w (snd (seed_folder h a n f w))"
  unfolding seed_folder_def Let_def
  by (auto intro!: step_intros steps_dbs simp: case_prod_beta mail_step.bodies)

lemma steps_seed_folders [step_intros]: "steps a w (snd (seed_folders h a n fs k w))"
  by (induction h a n fs k w rule: seed_folders.induct) (auto intro!: step_intros)

lemma steps_run_slow: "drains default_account_id h \<Longrightarrow> steps default_account_id w (snd (run_sync_slow h w))"
  unfolding run_sync_slow_def enqueue_existing_missing_body_rows_for_account_def
  by (auto split: option.splits intro!: step_intros steps_drain_after simp: case_prod_beta)

section \<open>Locating, filing and cleaning up\<close>

lemma steps_locate_one [step_intros]: "steps a w (snd (locate_one_email_for_account h a m w))"
  unfolding locate_one_email_for_account_def Let_def
  apply (rule steps_case_pair, rule steps_net)
  subgoal for r w1
    by (cases r; cases "recommendation_of (projr r)") (auto intro!: steps_case_pair step_intros split: sum.splits)
  done

lemma steps_locate_all [step_intros]: "steps a w (snd (locate_all h a ms w))"
  by (induction h a ms w rule: locate_all.induct) (auto simp: Let_def intro!: steps_case_pair step_intros)

lemma steps_run_locate: "steps a w (snd (run_locate_with_limit_for_account h mid force n a w))"
  unfolding run_locate_with_limit_for_account_def Let_def
  by (auto intro!: step_intros steps_case_pair split: option.splits)

lemma steps_find_orphan [step_intros]: "steps a w (snd (find_orphan h a mid ns w))"
  by (induction ns arbitrary: w) (auto simp: Let_def intro!: steps_case_pair step_intros split: sum.splits list.splits)

lemma steps_find_orphans [step_intros]: "steps a w (snd (find_orphans h a mids ns w))"
  by (induction mids arbitrary: w) (auto simp: Let_def intro!: steps_case_pair step_intros)

lemma steps_mark_lost: "steps a w (mark_lost h a mids w)"
proof (induction mids arbitrary: w)
  case (Cons mid rest)
  show ?case unfolding mark_lost.simps by (rule steps_trans [OF _ Cons.IH]) (rule step_intros)
qed simp

lemma steps_run_orphans: "steps default_account_id w (snd (run_resolve_orphans h w))"
  unfolding run_resolve_orphans_def Let_def
  by (auto intro!: step_intros steps_case_pair steps_mark_lost split: option.splits)

lemma steps_refresh [step_intros]: "steps a w (snd (refresh_folders_from_imap_for_account h a w))"
  unfolding refresh_folders_from_imap_for_account_def by (intro step_intros)

lemma steps_ensure_segments [step_intros]: "steps a w (snd (ensure_segments h a t d x segs pre fs w))"
proof (induction segs arbitrary: x pre fs w)
  case (Cons seg rest)
  show ?case
    by (auto simp: Let_def intro!: steps_case_pair step_intros Cons.IH split: option.splits sum.splits)
qed simp

lemma steps_ensure_path [step_intros]: "steps a w (snd (ensure_folder_path_for_filing h a t d fs w))"
  unfolding ensure_folder_path_for_filing_def Let_def
  by (auto intro!: steps_case_pair step_intros split: option.splits sum.splits)

lemma steps_record_move [step_intros]: "steps a w (snd (record_move h a mid t u v cd w))"
  unfolding record_move_def
  by (rule steps_case_pair, rule steps_dbs) (auto intro!: mail_step.filed split: sum.splits)

lemma steps_move_email [step_intros]: "steps a w (snd (move_email h a mid src u t cd w))"
  unfolding move_email_def Let_def
  by (rule steps_case_pair, rule steps_net)
    (auto intro!: steps_case_pair step_intros split: sum.splits option.splits list.splits)

lemma steps_file_resolved [step_intros]: "steps a w (snd (file_resolved h a d cd p t fs w))"
  unfolding file_resolved_def file_to_def Let_def
  by (auto intro!: steps_case_pair step_intros split: sum.splits option.splits)

lemma steps_file_one [step_intros]: "steps a w (snd (file_one h a d cd p w))"
  unfolding file_one_def resolve_target_def Let_def
  by (auto intro!: steps_case_pair step_intros split: option.splits)

lemma steps_file_all [step_intros]: "steps a w (snd (file_all h a d cd ps w))"
  by (induction h a d cd ps w rule: file_all.induct) (auto intro!: step_intros)

lemma steps_pending [step_intros]: "steps a w (snd (dbs h what (\<lambda>now ms. (q now ms, ms)) w))"
  by (rule steps_dbs) simp

lemma steps_run_file: "steps a w (snd (run_file_for_account h dry a w))"
  unfolding run_file_for_account_def Let_def
  by (auto intro!: step_intros split: option.splits)

lemma steps_mark_trashed [step_intros]: "steps a w (snd (mark_lifecycle_trashed h a mid w))"
  unfolding mark_lifecycle_trashed_def by (intro step_intros) simp

lemma steps_lifecycle_one [step_intros]: "steps a w (snd (lifecycle_one h a cfg m w))"
  unfolding lifecycle_one_def Let_def
  by (auto intro!: steps_case_pair step_intros split: sum.splits option.splits)

lemma steps_lifecycle_all [step_intros]: "steps a w (snd (lifecycle_all h a cfg ms n w))"
  by (induction h a cfg ms n w rule: lifecycle_all.induct) (auto intro!: step_intros)

lemma steps_run_lifecycle: "steps a w (snd (run_lifecycle_cleanup_for_account h dry a cfg w))"
  unfolding run_lifecycle_cleanup_for_account_def
  by (auto intro!: step_intros split: option.splits)

lemma steps_merge_one [step_intros]: "steps a w (snd (merge_one h a p mid w))"
  unfolding merge_one_def
  by (auto intro!: steps_case_pair step_intros split: sum.splits option.splits)

lemma steps_merge_all [step_intros]: "steps a w (snd (merge_all h a p mids n w))"
  by (induction h a p mids n w rule: merge_all.induct) (auto intro!: step_intros)

lemma steps_apply_proposal [step_intros]: "steps a w (snd (apply_proposal h a p w))"
  unfolding apply_proposal_def
  by (auto intro!: steps_case_pair step_intros split: sum.splits)

lemma steps_apply_all [step_intros]: "steps a w (snd (apply_all h a ps m n w))"
  by (induction h a ps m n w rule: apply_all.induct) (auto intro!: step_intros)

lemma steps_apply_proposals: "steps a w (snd (apply_proposals h a ps w))"
  unfolding apply_proposals_def by (auto intro!: step_intros split: option.splits)

end
