(* ===== verification/SyncFacts.thy ===== *)
theory SyncFacts
  imports RunSteps
begin

text \<open>
  The full synchronisation of a folder: what its statements leave alone, how a round moves on, and why
  the loop ends when the server keeps to its ranges (\<open>lawful\<close>).
\<close>

section \<open>The stored validity\<close>

definition stored_validity :: "string \<Rightarrow> string \<Rightarrow> mail_store \<Rightarrow> int option" where
  "stored_validity a n ms = Option.bind (find_opt (folder_at a n) (ms_folders ms)) fo_uid_validity"

lemma folder_field_update:
  assumes "\<And>f. folder_key (g f) = folder_key f" and "\<And>f. fld (g f) = fld f"
  shows "Option.bind (find_opt (folder_at a n) (ms_folders (update_folders p g ms))) fld
    = Option.bind (find_opt (folder_at a n) (ms_folders ms)) fld"
proof -
  have at: "folder_at a n (g f) = folder_at a n f" for f
    using assms(1) [of f] by (simp add: folder_at_def)
  have "Option.bind (List.find (folder_at a n) (map (\<lambda>f. if p f then g f else f) fs)) fld
      = Option.bind (List.find (folder_at a n) fs) fld" for fs
    by (induction fs) (auto simp: at assms(2))
  then show ?thesis by (simp add: update_folders_def sql_update_def find_opt_def)
qed

lemma stored_validity_update:
  "(\<And>f. folder_key (g f) = folder_key f) \<Longrightarrow> (\<And>f. fo_uid_validity (g f) = fo_uid_validity f)
    \<Longrightarrow> stored_validity a n (update_folders p g ms) = stored_validity a n ms"
  unfolding stored_validity_def by (rule folder_field_update)

lemma stored_validity_priority [simp]:
  "stored_validity a n (recompute_imap_folder_priority_for_account a' ms) = stored_validity a n ms"
  by (simp add: recompute_imap_folder_priority_for_account_def Let_def stored_validity_update)

lemma stored_validity_counts [simp]:
  "stored_validity a n (update_imap_folder_message_counts_for_account a' us ms) = stored_validity a n ms"
proof -
  have one: "stored_validity a n (set_message_count a' u ms) = stored_validity a n ms" for u ms
    by (cases "nullif_blank (Some (fst u))") (simp_all add: set_message_count_def stored_validity_update)
  have "stored_validity a n (fold (set_message_count a') us ms) = stored_validity a n ms"
    by (induction us arbitrary: ms) (simp_all add: one)
  then show ?thesis by (simp add: update_imap_folder_message_counts_for_account_def)
qed

lemma stored_validity_cursor [simp]:
  "stored_validity a n (update_folder_last_synced_uid_for_account a' n' uid ms) = stored_validity a n ms"
  by (simp add: update_folder_last_synced_uid_for_account_def stored_validity_update)

lemma ms_folders_tx [simp]: "ms_folders (snd (envelope_tx ts now a payload items ms)) = ms_folders ms"
proof -
  have one: "ms_folders (upsert_envelope now a e m) = ms_folders m" for e m
    by (simp add: upsert_envelope_def record_user_move_def Let_def split: option.splits)
  have "ms_folders (fold (upsert_envelope now a) es m) = ms_folders m" for es m
    by (induction es arbitrary: m) (simp_all add: one)
  then show ?thesis
    by (auto simp: envelope_tx_def upsert_envelopes_and_enqueue_body_sync_for_account_def
        upsert_emails_from_envelope_def split: option.splits)
qed

lemma stored_validity_folders: "ms_folders ms' = ms_folders ms \<Longrightarrow> stored_validity a n ms' = stored_validity a n ms"
  by (simp add: stored_validity_def)

text \<open>\<open>same_validity a n w w'\<close>: the run from \<open>w\<close> to \<open>w'\<close> left the validity of the folder alone, as a round does
  outside the step that notes it.\<close>

definition same_validity :: "string \<Rightarrow> string \<Rightarrow> 'i mail_world \<Rightarrow> 'i mail_world \<Rightarrow> bool" where
  "same_validity a n w w' \<longleftrightarrow> stored_validity a n (mw_mail w') = stored_validity a n (mw_mail w)"

interpretation validity: batch_relation "\<lambda>ms ms'. stored_validity a n ms' = stored_validity a n ms" a' n' for a n a' n'
proof
  show "stored_validity a n (record_missing_message_id_for_account now a' n' uid v ms) = stored_validity a n ms"
    for now uid v ms by (rule stored_validity_folders) (simp add: record_missing_message_id_for_account_def Let_def)
  show "stored_validity a n (snd (envelope_tx ts now a' payload items ms)) = stored_validity a n ms"
    for ts now payload items ms by (rule stored_validity_folders) simp
qed simp_all

lemma same_trans: "same_validity a n w w1 \<Longrightarrow> same_validity a n w1 w2 \<Longrightarrow> same_validity a n w w2"
  by (simp add: same_validity_def)

lemmas same_imap = validity.imap [folded same_validity_def]
lemmas same_dbs = validity.dbs [folded same_validity_def]
lemmas same_settle_ids = validity.settle_ids [folded same_validity_def]
lemmas same_skip = validity.skip [folded same_validity_def]
lemmas same_import_batch = validity.import [folded same_validity_def]

section \<open>Envelopes keep their UIDs\<close>

lemma refetch_uids: "refetch h n envs w = (Inr envs', w') \<Longrightarrow> map fst envs' = map fst envs"
  by (induction h n envs w arbitrary: envs' w' rule: refetch.induct) (auto simp: and_then_Inr)

lemma settle_ids_uids:
  "settle_ids k h a n v envs w = (Inr envs', w') \<Longrightarrow> fst ` set envs' \<subseteq> fst ` set envs \<and> list_all with_id envs'"
proof (induction k h a n v envs w arbitrary: envs' w' rule: settle_ids.induct)
  case (1 k h a n v envs w)
  let ?without = "filter (\<lambda>ue. \<not> with_id ue) envs"
  show ?case
  proof (cases "?without = []")
    case True
    with 1(2) have "envs' = filter with_id envs" by (subst (asm) settle_ids.simps) auto
    then show ?thesis by (auto simp: list_all_iff)
  next
    case ne: False
    show ?thesis
    proof (cases k)
      case 0
      with 1(2) ne have "envs' = filter with_id envs"
        by (subst (asm) settle_ids.simps) (auto simp: and_then_Inr Let_def)
      then show ?thesis by (auto simp: list_all_iff)
    next
      case (Suc m)
      with ne have "settle_ids k h a n v envs w = and_then (refetch h n ?without w) (\<lambda>again w1. settle_ids m h a n v
          (filter with_id envs @ filter with_id again @ filter (\<lambda>ue. \<not> with_id ue) again) w1)"
        by (subst settle_ids.simps) (simp add: Let_def)
      from this 1(2) have "and_then (refetch h n ?without w) (\<lambda>again w1. settle_ids m h a n v
          (filter with_id envs @ filter with_id again @ filter (\<lambda>ue. \<not> with_id ue) again) w1) = (Inr envs', w')"
        by (rule trans [OF sym])
      then obtain again w1 where r: "refetch h n ?without w = (Inr again, w1)"
        and s: "settle_ids m h a n v (filter with_id envs @ filter with_id again @ filter (\<lambda>ue. \<not> with_id ue) again) w1 = (Inr envs', w')"
        unfolding and_then_Inr by blast
      have "fst ` set again = fst ` set ?without" using refetch_uids [OF r] by (metis set_map)
      then have "fst ` set again \<subseteq> fst ` set envs" by auto
      then have "fst ` set (filter with_id envs @ filter with_id again @ filter (\<lambda>ue. \<not> with_id ue) again) \<subseteq> fst ` set envs"
        by auto
      with 1(1) [OF refl refl ne Suc s] show ?thesis by (blast intro: order.trans)
    qed
  qed
qed

lemma max_uid_in: "us \<noteq> [] \<Longrightarrow> max_uid us \<in> set us"
proof -
  have fold_in: "foldl max u us \<in> set (u # us)" for u :: int and us
  proof (induction us arbitrary: u)
    case (Cons x us)
    show ?case using Cons [of "max u x"] by (auto simp: max_def split: if_splits)
  qed simp
  show "us \<noteq> [] \<Longrightarrow> max_uid us \<in> set us"
    using fold_in by (cases us) (auto simp: max_uid_def max_list_def)
qed

lemma max_uid_ge: "u \<in> set us \<Longrightarrow> u \<le> max_uid us"
proof -
  have fold_ge: "(u :: int) \<le> foldl max u us \<and> (\<forall>x \<in> set us. x \<le> foldl max u us)" for u us
  proof (induction us arbitrary: u)
    case (Cons x us)
    show ?case using Cons [of "max u x"] unfolding max.bounded_iff by auto
  qed simp
  show "u \<in> set us \<Longrightarrow> u \<le> max_uid us"
    using fold_ge by (cases us) (auto simp: max_uid_def max_list_def)
qed

section \<open>A round moves on\<close>

text \<open>The server answers with messages of the range asked for, up to \<open>bound\<close>, under one validity.\<close>

definition lawful :: "'i sync_host \<Rightarrow> string \<Rightarrow> int option \<Rightarrow> int \<Rightarrow> bool" where
  "lawful h n v bound \<longleftrightarrow> (\<forall>s i mb envs i'. 1 \<le> s \<longrightarrow> sy_fetch h n s sync_batch_size i = (Inr (mb, envs), i') \<longrightarrow>
     mb_uid_validity mb = v \<and> state_uid_end mb \<le> bound \<and> (\<forall>ue \<in> set envs. s \<le> fst ue \<and> fst ue \<le> bound))"

definition settled_validity :: "string \<Rightarrow> string \<Rightarrow> int option \<Rightarrow> mail_store \<Rightarrow> bool" where
  "settled_validity a n v ms \<longleftrightarrow>
     (case (stored_validity a n ms, v) of (Some p, Some x) \<Rightarrow> p = 0 \<or> p = as_i32 x \<or> x \<le> 0 | _ \<Rightarrow> True)"

lemma stored_validity_set:
  assumes "\<And>f. folder_key (g f) = folder_key f" and "\<And>f. fo_uid_validity (g f) = Some y"
  shows "stored_validity a n (update_folders (folder_at a n) g ms) \<in> {None, Some y}"
proof -
  have "folder_at a n (g f) = folder_at a n f" for f using assms(1) [of f] by (simp add: folder_at_def)
  then have "Option.bind (List.find (folder_at a n) (map (\<lambda>f. if folder_at a n f then g f else f) fs)) fo_uid_validity
      \<in> {None, Some y}" for fs
    by (induction fs) (auto simp: assms(2))
  then show ?thesis by (simp add: stored_validity_def update_folders_def sql_update_def find_opt_def)
qed

lemma note_validity_stored:
  "stored_validity a n (snd (update_folder_uid_validity_for_account a n y ms)) \<in> {None, Some y}"
  "fst (update_folder_uid_validity_for_account a n y ms) = stored_validity a n ms"
  "stored_validity a n (reset_folder_sync_state_for_account a n y ms) \<in> {None, Some y}"
  "stored_validity a n (snd (clear_folder_uids_for_account a n' ms)) = stored_validity a n ms"
  using stored_validity_set [of "\<lambda>f. f\<lparr>fo_uid_validity := Some y\<rparr>" y a n ms]
    stored_validity_set [of "\<lambda>f. f\<lparr>fo_last_synced_uid := None, fo_last_full_sync_uid := None, fo_highest_modseq := None,
             fo_uid_validity := Some y\<rparr>" y a n ms]
  by (auto simp: update_folder_uid_validity_for_account_def reset_folder_sync_state_for_account_def Let_def
      clear_folder_uids_for_account_def update_emails_def stored_validity_def)

lemma dbs_Inr: "dbs h what f w = (Inr x, w') \<Longrightarrow>
   x = fst (f (mh_clock h (mw_tick w)) (mw_mail w)) \<and> mw_mail w' = snd (f (mh_clock h (mw_tick w)) (mw_mail w))"
  by (auto simp: dbs_def Let_def case_prod_beta split: option.splits)

lemma note_validity_effect:
  assumes "note_positive_validity h a n (or_zero v) w = (Inr changed, w')"
  shows "(changed \<longrightarrow> \<not> settled_validity a n v (mw_mail w)) \<and> settled_validity a n v (mw_mail w')"
proof (cases "0 < or_zero v")
  case True
  then obtain x where x: "v = Some x" "0 < x" by (cases v) auto
  with assms have n: "note_uid_validity h a n x w = (Inr changed, w')" by (simp add: note_positive_validity_def)
  then obtain prev w1 where u: "sdb h ''Failed to update folder uid_validity''
        (\<lambda>_. update_folder_uid_validity_for_account a n (as_i32 x)) w = (Inr prev, w1)"
    by (auto simp: note_uid_validity_def and_then_Inr)
  have prev: "prev = stored_validity a n (mw_mail w)" and w1: "stored_validity a n (mw_mail w1) \<in> {None, Some (as_i32 x)}"
    using dbs_Inr [OF u] note_validity_stored(1) [of a n "as_i32 x" "mw_mail w"]
    by (simp_all add: note_validity_stored(2))
  show ?thesis
  proof (cases changed)
    case True
    then obtain p where p: "prev = Some p" "p \<noteq> 0" "p \<noteq> as_i32 x" and
      rest: "and_then (sdb h ''Failed to reset folder sync state''
                (exec (reset_folder_sync_state_for_account a n (as_i32 x))) w1) (\<lambda>_ w2.
                 and_then (sdb h ''Failed to clear folder UIDs'' (\<lambda>_. clear_folder_uids_for_account a n) w2) (\<lambda>_ w3.
                   (Inr True, w3))) = (Inr True, w')"
      using n u by (auto simp: note_uid_validity_def split: option.splits if_splits)
    then have "stored_validity a n (mw_mail w') \<in> {None, Some (as_i32 x)}"
      using note_validity_stored(3) [of a n "as_i32 x" "mw_mail w1"]
      by (auto simp: and_then_Inr note_validity_stored(4) dest!: dbs_Inr)
    with p prev x show ?thesis by (auto simp: settled_validity_def split: option.splits)
  next
    case False
    then have "w' = w1" using n u by (auto simp: note_uid_validity_def and_then_Inr split: option.splits if_splits)
    with False w1 x show ?thesis by (auto simp: settled_validity_def split: option.splits)
  qed
qed (use assms in \<open>auto simp: note_positive_validity_def settled_validity_def split: option.splits\<close>)

lemma settled_same: "same_validity a n w w' \<Longrightarrow> settled_validity a n v (mw_mail w') = settled_validity a n v (mw_mail w)"
  by (simp add: settled_validity_def same_validity_def)

lemma same_validity_eq: "same_validity a n w (snd m) \<Longrightarrow> m = (r, w') \<Longrightarrow> same_validity a n w w'"
  by simp

lemma skip_next:
  assumes "skip_empty_range h a n s uid_end w = (Inr (k, Some t), w')" and "uid_end < u32_max" and "1 \<le> s"
  shows "s < t \<and> t \<le> uid_end"
  using assms
  by (auto simp: skip_empty_range_def and_then_Inr Let_def empty_uid_range_end_def sat_add_u32_def sat_sub_u32_def
      sync_batch_size_def as_u32_def split: if_splits)

lemma import_next:
  assumes "import_batch h a n v uid_end highest envs w = (Inr (k, Some t), w')" and "uid_end < u32_max"
    and "list_all with_id envs" and "\<forall>ue \<in> set envs. s \<le> fst ue \<and> fst ue \<le> bound" and "s \<le> highest \<and> highest \<le> bound"
    and "bound < u32_max"
  shows "s < t \<and> t \<le> bound + 1"
proof (cases "envs = []")
  case True
  with assms show ?thesis
    by (auto simp: import_batch_def and_then_Inr sat_add_u32_def split: if_splits)
next
  case False
  then have "max_uid (map fst envs) \<in> fst ` set envs" using max_uid_in [of "map fst envs"] by simp
  then have "s \<le> max_uid (map fst envs) \<and> max_uid (map fst envs) \<le> bound" using assms(4) by auto
  moreover have "filter with_id envs = envs" using assms(3) by (simp add: list_all_iff)
  ultimately show ?thesis using assms(1,6) False
    by (auto simp: import_batch_def and_then_Inr sat_add_u32_def Let_def split: if_splits)
qed

lemma sync_batch_next:
  assumes law: "lawful h n v bound" and s: "1 \<le> s" and bound: "bound < u32_max"
    and b: "sync_batch h a n s w = (Inr (k, Some t), w')"
  shows "settled_validity a n v (mw_mail w') \<and> (s < t \<and> t \<le> bound + 1 \<or> t = 1 \<and> \<not> settled_validity a n v (mw_mail w))"
proof -
  obtain mb envs w1 where f: "imap ''Failed to raw fetch envelopes'' (sy_fetch h n s sync_batch_size) w = (Inr (mb, envs), w1)"
    using b unfolding sync_batch_def and_then_Inr by fastforce
  define counted where "counted = sdb h ''Failed to update folder message count''
    (exec (update_imap_folder_message_counts_for_account a [(n, as_i32 (mb_exists mb))])) w1"
  obtain w2 where c: "counted = (Inr (), w2)"
    using b f unfolding counted_def by (auto simp: sync_batch_def and_then_Inr)
  obtain changed w3 where nv: "note_positive_validity h a n (state_validity mb) w2 = (Inr changed, w3)"
    and rest: "(if changed then (Inr (0, Some 1), w3)
       else if envs = [] then skip_empty_range h a n s (state_uid_end mb) w3
       else and_then (settle_ids 2 h a n (state_validity mb) envs w3) (\<lambda>envs' w4.
              import_batch h a n (state_validity mb) (state_uid_end mb) (max_uid (map fst envs)) envs' w4)) = (Inr (k, Some t), w')"
    using b f c unfolding sync_batch_def counted_def by (auto simp: and_then_Inr)
  from f obtain i where "sy_fetch h n s sync_batch_size (mw_imap w) = (Inr (mb, envs), i)"
    by (auto simp: imap_def net_def ctx_def case_prod_beta split: sum.splits) (metis prod.collapse)
  with law s have mb: "mb_uid_validity mb = v" "state_uid_end mb \<le> bound" and
    envs: "\<forall>ue \<in> set envs. s \<le> fst ue \<and> fst ue \<le> bound"
    unfolding lawful_def by blast+
  have same: "same_validity a n w w2"
    by (rule same_trans [OF same_validity_eq [OF same_imap f] same_validity_eq [OF _ c]])
      (unfold counted_def, rule same_dbs, simp)
  have eff: "(changed \<longrightarrow> \<not> settled_validity a n v (mw_mail w)) \<and> settled_validity a n v (mw_mail w3)"
    using note_validity_effect [of h a n v w2 changed w3] nv mb(1) settled_same [OF same, of v] by simp
  consider "changed" | "\<not> changed" "envs = []" | "\<not> changed" "envs \<noteq> []" by blast
  then show ?thesis
  proof cases
    case 1
    with rest eff show ?thesis by auto
  next
    case 2
    with rest have sk: "skip_empty_range h a n s (state_uid_end mb) w3 = (Inr (k, Some t), w')" by simp
    have "same_validity a n w3 w'" by (rule same_validity_eq [OF same_skip sk])
    with eff skip_next [OF sk] mb(2) bound s show ?thesis by (auto simp: settled_same)
  next
    case 3
    then obtain envs' w4 where st: "settle_ids 2 h a n (state_validity mb) envs w3 = (Inr envs', w4)"
      and im: "import_batch h a n (state_validity mb) (state_uid_end mb) (max_uid (map fst envs)) envs' w4 = (Inr (k, Some t), w')"
      using rest by (auto simp: and_then_Inr)
    have same: "same_validity a n w3 w'"
      by (rule same_trans [OF same_validity_eq [OF same_settle_ids st] same_validity_eq [OF same_import_batch im]])
    have "max_uid (map fst envs) \<in> fst ` set envs" using max_uid_in [of "map fst envs"] 3 by simp
    then have "s \<le> max_uid (map fst envs) \<and> max_uid (map fst envs) \<le> bound" using envs by auto
    moreover have "\<forall>ue \<in> set envs'. s \<le> fst ue \<and> fst ue \<le> bound"
      using settle_ids_uids [OF st] envs by (metis image_eqI imageE subsetD)
    moreover have "state_uid_end mb < u32_max" using mb(2) bound by simp
    ultimately have "s < t \<and> t \<le> bound + 1"
      using import_next [OF im _ conjunct2 [OF settle_ids_uids [OF st]] _ _ bound] by blast
    moreover note same
    ultimately show ?thesis using eff by (simp add: settled_same)
  qed
qed

text \<open>At most one change of validity, and after it each round moves up.\<close>

lemma sync_folder_settled_ends:
  assumes "lawful h n v bound" "bound < u32_max"
  shows "1 \<le> s \<Longrightarrow> settled_validity a n v (mw_mail w) \<Longrightarrow> bound + 2 - s < int k \<Longrightarrow> 0 < k
    \<Longrightarrow> sync_folder k h a n s synced w \<noteq> None"
proof (induction k arbitrary: s synced w)
  case (Suc k)
  obtain r w' where b: "sync_batch h a n s w = (r, w')" by fastforce
  show ?case
  proof (cases "\<exists>m t. r = Inr (m, Some t)")
    case True
    then obtain m t where r: "r = Inr (m, Some t)" by blast
    note nx = sync_batch_next [OF assms(1) Suc.prems(1) assms(2) b [unfolded r]]
    with Suc.prems have t: "s < t" "t \<le> bound + 1" "settled_validity a n v (mw_mail w')" by auto
    with Suc.prems have "bound + 2 - t < int k" "0 < k" "1 \<le> t" by auto
    with Suc.IH t(3) b r show ?thesis by simp
  next
    case False
    then show ?thesis using b by (cases r) (auto split: option.splits)
  qed
qed simp

lemma sync_folder_ends:
  assumes "lawful h n v bound" "bound < u32_max" and "0 \<le> bound"
  shows "1 \<le> s \<Longrightarrow> (bound + 2 - min s (bound + 2)) + (bound + 3) < int k \<Longrightarrow> 0 < k \<Longrightarrow> sync_folder k h a n s synced w \<noteq> None"
proof (induction k arbitrary: s synced w)
  case (Suc k)
  obtain r w' where b: "sync_batch h a n s w = (r, w')" by fastforce
  show ?case
  proof (cases "\<exists>m t. r = Inr (m, Some t)")
    case True
    then obtain m t where r: "r = Inr (m, Some t)" by blast
    note nx = sync_batch_next [OF assms(1) Suc.prems(1) assms(2) b [unfolded r]]
    then consider "s < t" "t \<le> bound + 1" | "t = 1" "settled_validity a n v (mw_mail w')" by blast
    then show ?thesis
    proof cases
      case 1
      with Suc.prems have "(bound + 2 - min t (bound + 2)) + (bound + 3) < int k" "0 < k" "1 \<le> t" by auto
      with Suc.IH b r show ?thesis by simp
    next
      case 2
      have "bound + 2 - t < int k" "0 < k" using Suc.prems 2 assms(3) by auto
      then show ?thesis using sync_folder_settled_ends [OF assms(1,2), of t a w' k] 2 b r by simp
    qed
  next
    case False
    then show ?thesis using b by (cases r) (auto split: option.splits)
  qed
qed simp

end
