(* ===== verification/SyncImport.thy ===== *)
theory SyncImport
  imports SyncFacts
begin

text \<open>
  What a full synchronisation brings in. \<open>imported a n v ue ms\<close>: the message \<open>ue\<close> of folder \<open>n\<close> has
  its email in that folder and its row in the body queue or, without a Message-ID, its entry for review.
  Against an \<open>honest\<close> server and a database that does not fail a round imports all it passes over.
\<close>

section \<open>What stays imported\<close>

abbreviation mid_of :: "int \<times> fetched_envelope \<Rightarrow> string" where
  "mid_of ue \<equiv> (case fe_message_id (snd ue) of None \<Rightarrow> [] | Some s \<Rightarrow> s)"

definition imported :: "string \<Rightarrow> string \<Rightarrow> int \<Rightarrow> int \<times> fetched_envelope \<Rightarrow> mail_store \<Rightarrow> bool" where
  "imported a n v ue ms \<longleftrightarrow>
     (if with_id ue
      then (\<exists>m \<in> set (ms_emails ms). email_at a (mid_of ue) m \<and> em_location m = Some n)
         \<and> (\<exists>r \<in> set (bt_rows (ms_body ms)). body_key_of r = item_key a (envelope_item n v ue))
      else \<exists>r \<in> set (ms_missing_ids ms). mi_account r = a \<and> mi_folder r = n \<and> mi_uid r = as_i32 (fst ue)
             \<and> mi_uid_validity r = as_i32 v)"

definition grows :: "string \<Rightarrow> string \<Rightarrow> mail_store \<Rightarrow> mail_store \<Rightarrow> bool" where
  "grows a n ms ms' \<longleftrightarrow> (nullif_blank (Some n) = Some n \<longrightarrow> (\<forall>v ue. imported a n v ue ms \<longrightarrow> imported a n v ue ms'))"

lemma grows_same:
  assumes "ms_emails ms' = ms_emails ms" "ms_body ms' = ms_body ms" "ms_missing_ids ms' = ms_missing_ids ms"
  shows "grows a n ms ms'"
  using assms by (simp add: grows_def imported_def)

lemma counts_store [simp]:
  "ms_emails (update_imap_folder_message_counts_for_account a us ms) = ms_emails ms"
  "ms_body (update_imap_folder_message_counts_for_account a us ms) = ms_body ms"
  "ms_missing_ids (update_imap_folder_message_counts_for_account a us ms) = ms_missing_ids ms"
proof -
  have one: "ms_emails (set_message_count a u ms) = ms_emails ms" "ms_body (set_message_count a u ms) = ms_body ms"
    "ms_missing_ids (set_message_count a u ms) = ms_missing_ids ms" for u ms
    by (simp_all add: set_message_count_def split: option.splits)
  have all: "ms_emails (fold (set_message_count a) us ms) = ms_emails ms" "ms_body (fold (set_message_count a) us ms) = ms_body ms"
    "ms_missing_ids (fold (set_message_count a) us ms) = ms_missing_ids ms" for us ms
    by (induction us arbitrary: ms) (simp_all add: one)
  show "ms_emails (update_imap_folder_message_counts_for_account a us ms) = ms_emails ms"
    "ms_body (update_imap_folder_message_counts_for_account a us ms) = ms_body ms"
    "ms_missing_ids (update_imap_folder_message_counts_for_account a us ms) = ms_missing_ids ms"
    by (simp_all add: update_imap_folder_message_counts_for_account_def recompute_imap_folder_priority_for_account_def
        Let_def all)
qed

section \<open>Reading back what was written\<close>

lemma as_i32_range: "- 2147483648 \<le> as_i32 n \<and> as_i32 n \<le> 2147483647"
proof -
  have "0 \<le> n mod 4294967296" "n mod 4294967296 < 4294967296" by simp_all
  then show ?thesis by (auto simp: as_i32_def Let_def)
qed

lemma as_i32_inj: "as_i32 x = as_i32 y \<Longrightarrow> 0 \<le> x \<Longrightarrow> x \<le> u32_max \<Longrightarrow> 0 \<le> y \<Longrightarrow> y \<le> u32_max \<Longrightarrow> x = y"
  by (auto simp: as_i32_def Let_def split: if_splits)

lemma read_envelope_json:
  assumes "read_envelope ts (envelope_json rfc n v ue) = Some e"
  shows "ev_location e = nullif_blank (Some n) \<and> nullif_blank (fe_message_id (snd ue)) = Some (ev_message_id e)"
  using assms
  by (cases ue; cases "fe_message_id (snd ue)")
    (auto simp: envelope_json_def read_envelope_def get_str_def jget_def as_str_def opt_json_def nullif_blank_def
      split: option.splits)

lemma read_envelope_ok:
  assumes "nullif_blank (fe_message_id (snd ue)) \<noteq> None" and "\<And>d. ts (rfc d) = Some d"
  shows "read_envelope ts (envelope_json rfc n v ue) \<noteq> None"
  using assms as_i32_range
  by (cases ue; cases "fe_message_id (snd ue)"; cases "fe_date (snd ue)")
    (auto simp: envelope_json_def read_envelope_def get_str_def jget_def as_str_def opt_json_def nullif_blank_def
      json_int4_def json_timestamp_def split: option.splits)

lemma bex_update:
  "(\<exists>r \<in> set (sql_update p f rs). q r) \<longleftrightarrow> (\<exists>r \<in> set rs. if p r then q (f r) else q r)"
  by (auto simp: sql_update_def)

text \<open>Upserting an envelope of the folder puts its email there and leaves the other emails of the folder there.\<close>

abbreviation placed :: "string \<Rightarrow> string \<Rightarrow> string \<Rightarrow> mail_store \<Rightarrow> bool" where
  "placed a n mid ms \<equiv> (\<exists>m \<in> set (ms_emails ms). email_at a mid m \<and> em_location m = Some n)"

lemma ms_emails_user_move [simp]: "ms_emails (record_user_move a e ms) = ms_emails ms"
  by (simp add: record_user_move_def Let_def split: option.splits)

lemma upsert_envelope_placed:
  assumes "ev_location e = Some n"
  shows "placed a n (ev_message_id e) (upsert_envelope now a e ms)"
    and "placed a n mid ms \<Longrightarrow> placed a n mid (upsert_envelope now a e ms)"
proof -
  have loc: "em_location (merge_envelope now e m) = Some n" "email_at a' mid' (merge_envelope now e m) = email_at a' mid' m"
    for m a' mid' using assms by (simp_all add: merge_envelope_def Let_def coalesce_def email_at_def)
  show "placed a n (ev_message_id e) (upsert_envelope now a e ms)"
  proof (cases "sql_exists (email_at a (ev_message_id e)) (ms_emails ms)")
    case True
    then have "\<exists>m \<in> set (ms_emails ms). email_at a (ev_message_id e) m" by (simp add: sql_exists_iff)
    then show ?thesis using True by (auto simp: upsert_envelope_def Let_def bex_update loc)
  qed (use assms in \<open>auto simp: upsert_envelope_def Let_def envelope_email_def new_email_def email_at_def\<close>)
  show "placed a n mid (upsert_envelope now a e ms)" if "placed a n mid ms"
  proof (cases "sql_exists (email_at a (ev_message_id e)) (ms_emails ms)")
    case True
    then show ?thesis using that by (auto simp: upsert_envelope_def Let_def bex_update loc)
  qed (use that in \<open>auto simp: upsert_envelope_def Let_def\<close>)
qed

lemma upsert_all_placed:
  assumes "\<forall>e \<in> set es. ev_location e = Some n"
  shows "(\<forall>e \<in> set es. placed a n (ev_message_id e) (fold (upsert_envelope now a) es ms))
    \<and> (placed a n mid ms \<longrightarrow> placed a n mid (fold (upsert_envelope now a) es ms))"
  using assms
proof (induction es arbitrary: ms mid)
  case (Cons e es)
  then have "ev_location e = Some n" by simp
  note here = upsert_envelope_placed [OF this]
  from Cons.prems have "\<forall>e \<in> set es. ev_location e = Some n" by simp
  then have IH: "(\<forall>e \<in> set es. placed a n (ev_message_id e) (fold (upsert_envelope now a) es ms'))
    \<and> (placed a n mid' ms' \<longrightarrow> placed a n mid' (fold (upsert_envelope now a) es ms'))" for mid' ms'
    by (rule Cons.IH)
  show ?case
  proof (intro conjI ballI impI)
    fix e' assume "e' \<in> set (e # es)"
    then show "placed a n (ev_message_id e') (fold (upsert_envelope now a) (e # es) ms)"
      using IH [of "upsert_envelope now a e ms" "ev_message_id e"] here(1) [where ms = ms] by auto
  next
    assume "placed a n mid ms"
    then show "placed a n mid (fold (upsert_envelope now a) (e # es) ms)"
      using IH [of "upsert_envelope now a e ms" mid] here(2) [where mid = mid and ms = ms] by simp
  qed
qed simp

lemma queued_upsert:
  "(\<exists>r \<in> set (bt_rows (upsert_body_row now a i t)). body_key_of r = key)
   \<longleftrightarrow> key = item_key a i \<or> (\<exists>r \<in> set (bt_rows t). body_key_of r = key)"
proof -
  have k: "body_key_of (requeue_body_row now r) = body_key_of r" for r
    by (simp add: body_key_of_def requeue_body_row_def)
  have k': "body_key_of (new_body_row now m a i) = item_key a i" for m
    by (simp add: body_key_of_def new_body_row_def item_key_def)
  show ?thesis
  proof (cases "sql_exists (\<lambda>r. body_key_of r = item_key a i) (bt_rows t)")
    case True
    then have "\<exists>r \<in> set (bt_rows t). body_key_of r = item_key a i" by (simp add: sql_exists_iff)
    moreover have "(\<exists>r \<in> set (bt_rows (upsert_body_row now a i t)). body_key_of r = key)
        \<longleftrightarrow> (\<exists>r \<in> set (bt_rows t). body_key_of r = key)"
      by (simp only: upsert_body_row_def Let_def True if_True body_table.simps bex_update k if_cancel)
    ultimately show ?thesis by auto
  qed (auto simp: upsert_body_row_def Let_def k')
qed

lemma queued_upsert_all:
  "(\<exists>r \<in> set (bt_rows (fold (upsert_body_row now a) items t)). body_key_of r = key)
   \<longleftrightarrow> key \<in> item_key a ` set items \<or> (\<exists>r \<in> set (bt_rows t). body_key_of r = key)"
  by (induction items arbitrary: t) (auto simp: queued_upsert)

section \<open>A transaction brings its messages in\<close>

lemma fold_upsert_others [simp]:
  "ms_body (fold (upsert_envelope now a) es ms) = ms_body ms"
  "ms_missing_ids (fold (upsert_envelope now a) es ms) = ms_missing_ids ms"
proof -
  have one: "ms_body (upsert_envelope now a e m) = ms_body m" "ms_missing_ids (upsert_envelope now a e m) = ms_missing_ids m"
    for e m by (simp_all add: upsert_envelope_def record_user_move_def Let_def split: option.splits)
  show "ms_body (fold (upsert_envelope now a) es ms) = ms_body ms"
    "ms_missing_ids (fold (upsert_envelope now a) es ms) = ms_missing_ids ms"
    by (induction es arbitrary: ms) (simp_all add: one)
qed

text \<open>What the transaction does: nothing, or the rows of all envelopes and items.\<close>

lemma envelope_tx_cases:
  assumes "snd (envelope_tx ts now a (JArray elems) items ms) \<noteq> ms"
  shows "snd (envelope_tx ts now a (JArray elems) items ms) =
    (fold (upsert_envelope now a) (List.map_filter (read_envelope ts) elems) ms)
      \<lparr>ms_body := fold (upsert_body_row now a) items (ms_body ms)\<rparr>"
  using assms
  by (auto simp: envelope_tx_def upsert_envelopes_and_enqueue_body_sync_for_account_def upsert_emails_from_envelope_def
      insert_body_items_def as_array_def split: if_splits)

lemma envelopes_at:
  assumes "nullif_blank (Some n) = Some n" "e \<in> set (List.map_filter (read_envelope ts) (map (envelope_json rfc n v) envs))"
  shows "ev_location e = Some n"
proof -
  obtain ue where "read_envelope ts (envelope_json rfc n v ue) = Some e" using assms(2) by (auto simp: map_filter_def)
  from read_envelope_json [OF this] assms(1) show ?thesis by simp
qed

lemma grows_transaction:
  "grows a n ms (snd (envelope_tx ts now a (JArray (map (envelope_json rfc n v) envs)) (map (envelope_item n v) envs) ms))"
proof (cases "snd (envelope_tx ts now a (JArray (map (envelope_json rfc n v) envs)) (map (envelope_item n v) envs) ms) = ms")
  case False
  let ?es = "List.map_filter (read_envelope ts) (map (envelope_json rfc n v) envs)"
  show ?thesis
    unfolding grows_def envelope_tx_cases [OF False]
  proof (intro impI allI)
    fix v' ue assume n: "nullif_blank (Some n) = Some n" and im: "imported a n v' ue ms"
    have "\<forall>e \<in> set ?es. ev_location e = Some n" using envelopes_at [OF n] by blast
    then have "placed a n mid (fold (upsert_envelope now a) ?es ms)" if "placed a n mid ms" for mid
      using upsert_all_placed that by blast
    with im show "imported a n v' ue ((fold (upsert_envelope now a) ?es ms)
        \<lparr>ms_body := fold (upsert_body_row now a) (map (envelope_item n v) envs) (ms_body ms)\<rparr>)"
      by (auto simp: imported_def queued_upsert_all split: if_splits)
  qed
qed (simp add: grows_def)

interpretation growth: batch_relation "grows a n" a n for a n
proof
  show "grows a n ms (record_missing_message_id_for_account now a n uid v ms)" for now uid v ms
  proof (unfold grows_def, intro impI allI)
    fix v' ue assume "imported a n v' ue ms"
    then show "imported a n v' ue (record_missing_message_id_for_account now a n uid v ms)"
      by (cases "with_id ue"; cases "sql_exists (\<lambda>r. mi_account r = a \<and> mi_folder r = n \<and> mi_uid r = uid
            \<and> mi_uid_validity r = v) (ms_missing_ids ms)")
        (auto simp: imported_def record_missing_message_id_for_account_def Let_def bex_update cong: if_cong)
  qed
  show "grows a n ms ms" for ms by (simp add: grows_def)
  show "grows a n ms1 ms3" if "grows a n ms1 ms2" "grows a n ms2 ms3" for ms1 ms2 ms3
    using that unfolding grows_def by blast
  show "grows a n ms (update_folder_last_synced_uid_for_account a n uid ms)" for uid ms
    by (rule grows_same) (simp_all add: update_folder_last_synced_uid_for_account_def update_folders_def)
qed (simp_all add: grows_same grows_transaction)

end
