(* ===== verification/SyncComplete.thy ===== *)
theory SyncComplete
  imports SyncImport
begin

text \<open>
  A full synchronisation against a server that answers with what a mailbox holds (\<open>honest\<close>), on tables
  whose statements do not fail: each round succeeds and imports all it passes over, so the whole loop does.
\<close>

section \<open>The server and the tables\<close>

text \<open>\<open>box\<close> is the content of the folder, \<open>v\<close> its UIDVALIDITY and \<open>nx\<close> its UIDNEXT.\<close>

definition honest :: "'i sync_host \<Rightarrow> string \<Rightarrow> int \<Rightarrow> int \<Rightarrow> (int \<times> fetched_envelope) list \<Rightarrow> bool" where
  "honest h n v nx box \<longleftrightarrow>
     0 < v \<and> 1 \<le> nx \<and> nx \<le> u32_max \<and> distinct (map fst box) \<and> (\<forall>ue \<in> set box. 1 \<le> fst ue \<and> fst ue < nx)
     \<and> (\<forall>s i. 1 \<le> s \<longrightarrow> (\<exists>mb i'. sy_fetch h n s sync_batch_size i
          = (Inr (mb, filter (\<lambda>ue. s \<le> fst ue \<and> fst ue < s + sync_batch_size) box), i')
          \<and> mb_uid_validity mb = Some v \<and> mb_uid_next mb = Some nx))
     \<and> (\<forall>us i. (\<forall>u \<in> set us. 1 \<le> u \<and> u < nx) \<longrightarrow>
          (\<exists>mb i'. sy_fetch_uids h n us i = (Inr (mb, filter (\<lambda>ue. fst ue \<in> set us) box), i')))"

text \<open>Statements do not fail, dates are read back, the folder's name has no white space around it, and
  with \<open>clean\<close> neither have the Message-IDs.\<close>

definition reliable :: "'i sync_host \<Rightarrow> string \<Rightarrow> bool" where
  "reliable h n \<longleftrightarrow>
     (\<forall>k. mh_fails (sy_mail h) k = None) \<and> (\<forall>d. sy_ts h (sy_rfc3339 h d) = Some d) \<and> nullif_blank (Some n) = Some n"

definition clean :: "'i sync_host \<Rightarrow> string \<Rightarrow> (int \<times> fetched_envelope) list \<Rightarrow> bool" where
  "clean h n box \<longleftrightarrow>
     reliable h n
     \<and> (\<forall>ue \<in> set box. with_id ue \<longrightarrow> nullif_blank (Some (mid_of ue)) = Some (mid_of ue))"

lemma sdb_ok:
  assumes "reliable h n"
  obtains w' where "sdb h what f w = (Inr (fst (f (mh_clock (sy_mail h) (mw_tick w)) (mw_mail w))), w')"
    "mw_mail w' = snd (f (mh_clock (sy_mail h) (mw_tick w)) (mw_mail w))"
  using assms that by (simp add: reliable_def dbs_def Let_def case_prod_beta)

lemma clean_reliable: "clean h n box \<Longrightarrow> reliable h n"
  by (simp add: clean_def)

lemma mid_of_with_id: "with_id ue \<Longrightarrow> fe_message_id (snd ue) = Some (mid_of ue)"
  by (auto simp: has_message_id_def split: option.splits)

section \<open>Storing a batch\<close>

lemma envelope_tx_clean:
  assumes c: "clean h n box" and sub: "set envs \<subseteq> set box" and ids: "list_all with_id envs"
    and d: "distinct (map fst envs)" and range: "\<forall>ue \<in> set box. 1 \<le> fst ue \<and> fst ue \<le> u32_max"
    and r: "envelope_tx (sy_ts h) now a (JArray (map (envelope_json (sy_rfc3339 h) n v) envs))
        (map (envelope_item n v) envs) ms = (res, ms')"
  shows "res = Inr () \<and> (\<forall>ue \<in> set envs. imported a n v ue ms')"
proof -
  let ?ts = "sy_ts h" and ?js = "map (envelope_json (sy_rfc3339 h) n v) envs" and ?is = "map (envelope_item n v) envs"
  let ?es = "List.map_filter (read_envelope ?ts) ?js"
  let ?ms = "fold (upsert_envelope now a) ?es ms"
  have ts: "\<And>d. ?ts (sy_rfc3339 h d) = Some d" and n: "nullif_blank (Some n) = Some n" using c by (auto simp: clean_def reliable_def)
  have mid: "fe_message_id (snd ue) = Some (mid_of ue)" "nullif_blank (fe_message_id (snd ue)) = Some (mid_of ue)"
    if "ue \<in> set envs" for ue
  proof -
    have id: "with_id ue" using that ids by (simp add: list_all_iff)
    then show "fe_message_id (snd ue) = Some (mid_of ue)" by (rule mid_of_with_id)
    with c sub that id show "nullif_blank (fe_message_id (snd ue)) = Some (mid_of ue)" by (auto simp: clean_def)
  qed
  have read: "read_envelope ?ts (envelope_json (sy_rfc3339 h) n v ue) \<noteq> None" if "ue \<in> set envs" for ue
    by (rule read_envelope_ok [OF _ ts]) (simp add: mid(2) [OF that])
  have es: "\<exists>e \<in> set ?es. ev_message_id e = mid_of ue" if ue: "ue \<in> set envs" for ue
  proof -
    obtain e where e: "read_envelope ?ts (envelope_json (sy_rfc3339 h) n v ue) = Some e" using read [OF ue] by blast
    then have "ev_message_id e = mid_of ue" using read_envelope_json [OF e] mid(2) [OF ue] by simp
    then show ?thesis using e ue by (force simp: map_filter_def)
  qed
  have at: "placed a n (mid_of ue) ?ms" if "ue \<in> set envs" for ue
  proof -
    have "\<forall>e \<in> set ?es. ev_location e = Some n" using envelopes_at [OF n] by blast
    from upsert_all_placed [OF this] es [OF that] show ?thesis by metis
  qed
  have "inj_on (\<lambda>ue. item_key a (envelope_item n v ue)) (set envs)"
  proof (rule inj_onI)
    fix x y assume xy: "x \<in> set envs" "y \<in> set envs"
      "item_key a (envelope_item n v x) = item_key a (envelope_item n v y)"
    then have "as_i32 (fst x) = as_i32 (fst y)" by (simp add: item_key_def envelope_item_def)
    moreover have "0 \<le> fst x" "fst x \<le> u32_max" "0 \<le> fst y" "fst y \<le> u32_max" using xy sub range by fastforce+
    ultimately have "fst x = fst y" by (rule as_i32_inj)
    with d xy(1,2) show "x = y" by (auto simp: distinct_map dest: inj_onD)
  qed
  then have "distinct (map (item_key a) ?is)" using d by (simp add: distinct_map o_def)
  moreover have "emails_in ?ms a (bi_message_id i)" if i: "i \<in> set ?is" for i
  proof -
    obtain ue where ue: "ue \<in> set envs" "i = envelope_item n v ue" using i by auto
    then have "bi_message_id i = mid_of ue" by (simp add: envelope_item_def)
    with at [OF ue(1)] show ?thesis unfolding emails_in_def sql_exists_iff by metis
  qed
  ultimately have "insert_body_items now (emails_in ?ms) a ?is (ms_body ms) = Some (fold (upsert_body_row now a) ?is (ms_body ms))"
    by (auto simp: insert_body_items_def list_ex_iff)
  moreover have "upsert_emails_from_envelope ?ts now a (JArray ?js) ms = Some ?ms"
    using read by (auto simp: upsert_emails_from_envelope_def as_array_def list_all_iff)
  ultimately have "res = Inr () \<and> ms' = ?ms\<lparr>ms_body := fold (upsert_body_row now a) ?is (ms_body ms)\<rparr>"
    using r by (auto simp: envelope_tx_def upsert_envelopes_and_enqueue_body_sync_for_account_def split: if_splits)
  moreover have "imported a n v ue (?ms\<lparr>ms_body := fold (upsert_body_row now a) ?is (ms_body ms)\<rparr>)" if "ue \<in> set envs" for ue
    using at [OF that] that ids by (simp add: imported_def queued_upsert_all list_all_iff image_image)
  ultimately show ?thesis by blast
qed

lemma store_clean:
  assumes c: "clean h n box" and sub: "set envs \<subseteq> set box" and ids: "list_all with_id envs"
    and d: "distinct (map fst envs)" and range: "\<forall>ue \<in> set box. 1 \<le> fst ue \<and> fst ue \<le> u32_max"
  obtains w' where "store_envelopes h what a n v envs w = (Inr (), w')" "\<forall>ue \<in> set envs. imported a n v ue (mw_mail w')"
proof -
  let ?f = "\<lambda>now ms. let (r, ms') = envelope_tx (sy_ts h) now a (JArray (map (envelope_json (sy_rfc3339 h) n v) envs))
      (map (envelope_item n v) envs) ms in (ctx what r, ms')"
  obtain w' where w': "sdb h what ?f w = (Inr (fst (?f (mh_clock (sy_mail h) (mw_tick w)) (mw_mail w))), w')"
    "mw_mail w' = snd (?f (mh_clock (sy_mail h) (mw_tick w)) (mw_mail w))"
    by (rule sdb_ok [OF clean_reliable [OF c]])
  obtain res ms' where t: "envelope_tx (sy_ts h) (mh_clock (sy_mail h) (mw_tick w)) a
      (JArray (map (envelope_json (sy_rfc3339 h) n v) envs)) (map (envelope_item n v) envs) (mw_mail w) = (res, ms')"
    by fastforce
  have "filter with_id envs = envs" using ids by (simp add: list_all_iff)
  then show ?thesis
    using that w' t envelope_tx_clean [OF c sub ids d range t]
    by (simp add: store_envelopes_def join_result_def ctx_def)
qed

section \<open>Messages without a Message-ID\<close>

lemma filter_key: "distinct (map fst xs) \<Longrightarrow> x \<in> set xs \<Longrightarrow> filter (\<lambda>y. fst y = fst x) xs = [x]"
proof (induction xs)
  case (Cons y ys)
  show ?case
  proof (cases "fst y = fst x")
    case True
    with Cons.prems have "y = x" by (auto simp: rev_image_eqI)
    moreover have "filter (\<lambda>z. fst z = fst y) ys = []" using Cons.prems(1) by (fastforce simp: filter_empty_conv rev_image_eqI)
    ultimately show ?thesis by simp
  qed (use Cons in auto)
qed simp

lemma refetch_honest:
  assumes h: "honest h n v nx box"
  shows "set envs \<subseteq> set box \<Longrightarrow> \<exists>w'. refetch h n envs w = (Inr envs, w')"
proof (induction envs arbitrary: w)
  case (Cons ue rest)
  obtain uid e where ue: "ue = (uid, e)" by fastforce
  have "ue \<in> set box" "distinct (map fst box)" using Cons.prems h by (auto simp: honest_def)
  then have "filter (\<lambda>x. fst x \<in> set [uid]) box = [ue]" using filter_key [of box ue] by (simp add: ue)
  moreover have "\<forall>u \<in> set [uid]. 1 \<le> u \<and> u < nx" using \<open>ue \<in> set box\<close> h by (auto simp: honest_def ue)
  then have "\<exists>mb i. sy_fetch_uids h n [uid] (mw_imap w) = (Inr (mb, filter (\<lambda>x. fst x \<in> set [uid]) box), i)"
    using h unfolding honest_def by blast
  ultimately obtain mb i where "sy_fetch_uids h n [uid] (mw_imap w) = (Inr (mb, [ue]), i)" by auto
  then have f: "imap ''Failed to retry fetch for missing Message-ID'' (sy_fetch_uids h n [uid]) w = (Inr (mb, [ue]), w\<lparr>mw_imap := i\<rparr>)"
    by (simp add: imap_def net_def ctx_def)
  obtain w' where "refetch h n rest (w\<lparr>mw_imap := i\<rparr>) = (Inr rest, w')" using Cons by fastforce
  then have "refetch h n (ue # rest) w = (Inr (ue # rest), w')"
    unfolding ue refetch.simps f by (simp add: ue find_opt_def)
  then show ?case by blast
qed simp

lemma record_missing_clean:
  assumes c: "reliable h n"
  shows "\<exists>w'. record_missing h a n v envs w = (Inr (), w') \<and> (\<forall>ue \<in> set envs. \<not> with_id ue \<longrightarrow> imported a n v ue (mw_mail w'))"
proof (induction envs arbitrary: w)
  case (Cons ue rest)
  obtain uid e where ue: "ue = (uid, e)" by fastforce
  let ?f = "\<lambda>now ms. ((), record_missing_message_id_for_account now a n (as_i32 uid) (as_i32 v) ms)"
  obtain w1 where w1: "sdb h ''Failed to record missing message_id'' ?f w = (Inr (), w1)"
    and m1: "mw_mail w1 = record_missing_message_id_for_account (mh_clock (sy_mail h) (mw_tick w)) a n (as_i32 uid) (as_i32 v) (mw_mail w)"
    by (rule sdb_ok [OF c, where f = ?f and w = w and what = "''Failed to record missing message_id''"]) simp
  obtain w' where w': "record_missing h a n v rest w1 = (Inr (), w')"
    "\<forall>ue \<in> set rest. \<not> with_id ue \<longrightarrow> imported a n v ue (mw_mail w')"
    using Cons by blast
  have "imported a n v ue (mw_mail w1)" if "\<not> with_id ue"
    using that unfolding m1
    by (cases "sql_exists (\<lambda>r. mi_account r = a \<and> mi_folder r = n \<and> mi_uid r = as_i32 uid \<and> mi_uid_validity r = as_i32 v)
          (ms_missing_ids (mw_mail w))")
      (auto simp: ue imported_def record_missing_message_id_for_account_def Let_def bex_update sql_exists_iff)
  moreover have "grows a n (mw_mail w1) (mw_mail w')" using growth.record_missing [of a n w1 h v rest] w' by simp
  moreover have "nullif_blank (Some n) = Some n" using c by (simp add: reliable_def)
  ultimately have "\<not> with_id ue \<longrightarrow> imported a n v ue (mw_mail w')" unfolding grows_def by blast
  with w1 w' ue show ?case by auto
qed simp

lemma settle_ids_honest:
  assumes h: "honest h n v nx box" and c: "reliable h n"
  shows "set envs \<subseteq> set box \<Longrightarrow> \<exists>envs' w'. settle_ids k h a n v envs w = (Inr envs', w')
    \<and> envs' = filter with_id envs \<and> (\<forall>ue \<in> set envs. \<not> with_id ue \<longrightarrow> imported a n v ue (mw_mail w'))"
proof (induction k arbitrary: envs w)
  case 0
  obtain w' where "record_missing h a n v (filter (\<lambda>ue. \<not> with_id ue) envs) w = (Inr (), w')"
    "\<forall>ue \<in> set (filter (\<lambda>ue. \<not> with_id ue) envs). \<not> with_id ue \<longrightarrow> imported a n v ue (mw_mail w')"
    using record_missing_clean [OF c] by blast
  then show ?case by (subst settle_ids.simps) (auto simp: Let_def)
next
  case (Suc k)
  let ?withs = "filter with_id envs" and ?withouts = "filter (\<lambda>ue. \<not> with_id ue) envs"
  have "set ?withouts \<subseteq> set box" using Suc.prems by auto
  then obtain w1 where r: "refetch h n ?withouts w = (Inr ?withouts, w1)" using refetch_honest [OF h] by blast
  have "set (?withs @ ?withouts) \<subseteq> set box" using Suc.prems by auto
  from Suc.IH [OF this, of w1] obtain w' where "settle_ids k h a n v (?withs @ ?withouts) w1 = (Inr ?withs, w')"
    "\<forall>ue \<in> set envs. \<not> with_id ue \<longrightarrow> imported a n v ue (mw_mail w')" by auto
  then show ?case using r
    by (cases "?withouts = []"; subst settle_ids.simps) (auto simp: Let_def filter_empty_conv)
qed

section \<open>A round\<close>

lemma set_cursor_clean: "reliable h n \<Longrightarrow> \<exists>w'. set_cursor h what a n u w = (Inr (), w')"
  by (metis sdb_ok set_cursor_def fst_conv)

text \<open>A change of validity clears the folder; the walk then starts anew.\<close>

lemma note_validity_clean:
  assumes c: "reliable h n"
  shows "\<exists>changed w'. note_positive_validity h a n v w = (Inr changed, w') \<and> (\<not> changed \<longrightarrow> grows a n (mw_mail w) (mw_mail w'))"
proof -
  obtain prev w1 where u: "sdb h ''Failed to update folder uid_validity''
      (\<lambda>_. update_folder_uid_validity_for_account a n (as_i32 v)) w = (Inr prev, w1)"
    and m1: "mw_mail w1 = snd (update_folder_uid_validity_for_account a n (as_i32 v) (mw_mail w))"
    by (rule sdb_ok [OF c, where f = "\<lambda>_. update_folder_uid_validity_for_account a n (as_i32 v)"])
  obtain w2 where r: "sdb h ''Failed to reset folder sync state''
      (exec (reset_folder_sync_state_for_account a n (as_i32 v))) w1 = (Inr (), w2)"
    by (rule sdb_ok [OF c, where f = "exec (reset_folder_sync_state_for_account a n (as_i32 v))"]) simp
  obtain k w3 where cl: "sdb h ''Failed to clear folder UIDs'' (\<lambda>_. clear_folder_uids_for_account a n) w2 = (Inr k, w3)"
    by (rule sdb_ok [OF c, where f = "\<lambda>_. clear_folder_uids_for_account a n"])
  have g1: "grows a n (mw_mail w) (mw_mail w1)" unfolding m1
    by (rule grows_same) (simp_all add: update_folder_uid_validity_for_account_def update_folders_def Let_def)
  show ?thesis
    using u r cl g1
    by (cases "v > 0"; cases prev) (auto simp: note_positive_validity_def note_uid_validity_def growth.refl)
qed

text \<open>\<open>through a n v box s next\<close>: all of the folder from \<open>s\<close> up to \<open>next\<close>, or to its end, is imported.\<close>

definition through :: "string \<Rightarrow> string \<Rightarrow> int \<Rightarrow> (int \<times> fetched_envelope) list \<Rightarrow> int \<Rightarrow> int option \<Rightarrow> mail_store \<Rightarrow> bool" where
  "through a n v box s nxt ms \<longleftrightarrow>
     (\<forall>ue \<in> set box. s \<le> fst ue \<and> (case nxt of None \<Rightarrow> True | Some t \<Rightarrow> fst ue < t) \<longrightarrow> imported a n v ue ms)"

lemma skip_clean:
  assumes h: "honest h n v nx box" and c: "reliable h n" and s: "1 \<le> s"
    and none: "\<forall>ue \<in> set box. \<not> (s \<le> fst ue \<and> fst ue < s + sync_batch_size)"
  shows "\<exists>nxt w'. skip_empty_range h a n s (nx - 1) w = (Inr (0, nxt), w') \<and> grows a n (mw_mail w) (mw_mail w')
    \<and> (\<forall>t. nxt = Some t \<longrightarrow> 1 \<le> t) \<and> through a n v box s nxt (mw_mail w')"
proof -
  have in_box: "\<forall>ue \<in> set box. 1 \<le> fst ue \<and> fst ue < nx" using h by (simp add: honest_def)
  have nx: "1 \<le> nx" "nx \<le> u32_max" using h by (simp_all add: honest_def)
  obtain w1 where w1: "set_cursor h ''Failed to update last_synced_uid (empty mailbox)'' a n 0 w = (Inr (), w1)"
    using set_cursor_clean [OF c] by blast
  define e where "e = empty_uid_range_end s sync_batch_size (nx - 1)"
  obtain w2 where w2: "set_cursor h ''Failed to update last_synced_uid (empty range)'' a n e w = (Inr (), w2)"
    using set_cursor_clean [OF c] by blast
  have g: "grows a n (mw_mail w) (mw_mail w1)" "grows a n (mw_mail w) (mw_mail w2)"
    using growth.set_cursor [of a n w h _ 0] growth.set_cursor [of a n w h _ e] w1 w2 by (metis snd_conv)+
  consider "nx = 1" | "nx \<noteq> 1" "s > nx - 1" | "nx \<noteq> 1" "s \<le> nx - 1" by linarith
  then show ?thesis
  proof cases
    case 1
    with in_box w1 g show ?thesis by (auto simp: skip_empty_range_def through_def)
  next
    case 2
    with in_box show ?thesis by (auto simp: skip_empty_range_def through_def growth.refl)
  next
    case 3
    have sz: "sync_batch_size = 250" by (simp add: sync_batch_size_def)
    have e: "e = min (s + 249) (nx - 1)" using s 3 nx
      by (auto simp: e_def empty_uid_range_end_def sat_sub_u32_def sat_add_u32_def as_u32_def sz min_def)
    then have t: "sat_add_u32 e 1 = e + 1" "1 \<le> e + 1" using nx s 3 by (auto simp: sat_add_u32_def)
    have "\<not> (s \<le> fst ue \<and> fst ue < e + 1)" if "ue \<in> set box" for ue using none that e sz by auto
    moreover have "\<not> s \<le> fst ue" if "ue \<in> set box" "nx - 1 < e + 1" for ue using none in_box that e sz by fastforce
    ultimately have "through a n v box s (if e + 1 > nx - 1 then None else Some (e + 1)) (mw_mail w2)"
      unfolding through_def by (auto split: if_splits)
    with 3 w2 g(2) t(2) show ?thesis
      by (cases "nx - 1 \<le> e") (simp_all add: skip_empty_range_def Let_def t(1) flip: e_def)
  qed
qed

lemma import_clean:
  assumes h: "honest h n v nx box" and c: "clean h n box" and s: "1 \<le> s"
    and got: "got = filter (\<lambda>ue. s \<le> fst ue \<and> fst ue < s + sync_batch_size) box" "got \<noteq> []"
    and missing: "\<forall>ue \<in> set got. \<not> with_id ue \<longrightarrow> imported a n v ue (mw_mail w)"
  shows "\<exists>k nxt w'. import_batch h a n v (nx - 1) (max_uid (map fst got)) (filter with_id got) w = (Inr (k, nxt), w')
    \<and> (\<forall>t. nxt = Some t \<longrightarrow> 1 \<le> t) \<and> through a n v box s nxt (mw_mail w')"
proof -
  let ?high = "max_uid (map fst got)" and ?ids = "filter with_id got"
  have in_box: "1 \<le> fst ue" "fst ue < nx" if "ue \<in> set box" for ue using h that by (auto simp: honest_def)
  have nx: "nx \<le> u32_max" and n: "nullif_blank (Some n) = Some n" using h c by (simp_all add: honest_def clean_def reliable_def)
  have keep: "\<forall>ue \<in> set got. \<not> with_id ue \<longrightarrow> imported a n v ue (mw_mail w')" if "grows a n (mw_mail w) (mw_mail w')" for w'
    using that missing n unfolding grows_def by blast
  have high: "?high \<in> fst ` set got" "\<And>ue. ue \<in> set got \<Longrightarrow> fst ue \<le> ?high"
    using max_uid_in [of "map fst got"] max_uid_ge [of _ "map fst got"] got(2) by auto
  have reached: "ue \<in> set got" if "ue \<in> set box" "s \<le> fst ue" "fst ue \<le> top" "top \<in> fst ` set got" for ue top
    using that got(1) by auto
  show ?thesis
  proof (cases "?ids = []")
    case True
    obtain w1 where w1: "set_cursor h ''Failed to update last_synced_uid for unimportable range'' a n ?high w = (Inr (), w1)"
      using set_cursor_clean [OF clean_reliable [OF c]] by blast
    have "grows a n (mw_mail w) (mw_mail w1)" using growth.set_cursor [of a n w h _ ?high] w1 by (metis snd_conv)
    note all = keep [OF this]
    have h1: "1 \<le> ?high" "?high < nx" using high(1) in_box got(1) by auto
    then have next_uid: "sat_add_u32 ?high 1 = ?high + 1" using nx by (simp add: sat_add_u32_def)
    have "imported a n v ue (mw_mail w1)" if "ue \<in> set box" "s \<le> fst ue" "fst ue \<le> ?high" for ue
      using reached [OF that high(1)] all True by (auto simp: filter_empty_conv)
    moreover have "fst ue \<le> ?high" if "ue \<in> set box" "nx - 1 \<le> ?high" for ue using in_box(2) [OF that(1)] that(2) by simp
    ultimately have "through a n v box s (if nx - 1 \<le> ?high then None else Some (?high + 1)) (mw_mail w1)"
      by (auto simp: through_def split: if_splits)
    moreover have "import_batch h a n v (nx - 1) ?high ?ids w = (Inr (0, if nx - 1 \<le> ?high then None else Some (?high + 1)), w1)"
      using w1 h1 True by (simp add: import_batch_def next_uid)
    ultimately show ?thesis using h1(1) by force
  next
    case False
    let ?top = "max_uid (map fst ?ids)"
    have sub: "set ?ids \<subseteq> set box" and ids: "list_all with_id ?ids" using got(1) by (auto simp: list_all_iff)
    have d: "distinct (map fst ?ids)" using h got(1) by (simp add: honest_def distinct_map_filter)
    have "\<forall>ue \<in> set box. 1 \<le> fst ue \<and> fst ue \<le> u32_max" using in_box nx by fastforce
    from store_clean [OF c sub ids d this] obtain w1 where
      w1: "store_envelopes h ''Failed to upsert envelopes + enqueue body sync'' a n v ?ids w = (Inr (), w1)"
      and im: "\<forall>ue \<in> set ?ids. imported a n v ue (mw_mail w1)" by blast
    obtain w2 where w2: "set_cursor h ''Failed to update last_synced_uid'' a n ?top w1 = (Inr (), w2)"
      using set_cursor_clean [OF clean_reliable [OF c]] by blast
    have g1: "grows a n (mw_mail w) (mw_mail w1)" using growth.store [of a n w h _ v ?ids] w1 by (metis snd_conv)
    have g2: "grows a n (mw_mail w1) (mw_mail w2)" using growth.set_cursor [of a n w1 h _ ?top] w2 by (metis snd_conv)
    note all = keep [OF growth.trans [OF g1 g2]]
    have im2: "\<forall>ue \<in> set got. imported a n v ue (mw_mail w2)"
      using all im g2 n unfolding grows_def by auto
    have top: "?top \<in> fst ` set ?ids" using max_uid_in [of "map fst ?ids"] False by simp
    then have top_got: "?top \<in> fst ` set got" by auto
    then have h1: "1 \<le> ?top" "?top < nx" using in_box got(1) by auto
    then have next_uid: "sat_add_u32 ?top 1 = ?top + 1" using nx by (simp add: sat_add_u32_def)
    have "imported a n v ue (mw_mail w2)" if "ue \<in> set box" "s \<le> fst ue" "fst ue \<le> ?top" for ue
      using reached [OF that top_got] im2 by blast
    moreover have "fst ue \<le> ?top" if "ue \<in> set box" "nx - 1 \<le> ?top" for ue using in_box(2) [OF that(1)] that(2) by simp
    ultimately have "through a n v box s (if nx - 1 \<le> ?top then None else Some (?top + 1)) (mw_mail w2)"
      by (auto simp: through_def split: if_splits)
    moreover have "import_batch h a n v (nx - 1) ?high ?ids w
        = (Inr (int (length ?ids), if nx - 1 \<le> ?top then None else Some (?top + 1)), w2)"
      using w1 w2 False by (simp add: import_batch_def Let_def next_uid)
    ultimately show ?thesis using h1(1) by force
  qed
qed

lemma sync_batch_clean:
  assumes h: "honest h n v nx box" and c: "clean h n box" and s: "1 \<le> s"
  obtains k nxt w' where "sync_batch h a n s w = (Inr (k, nxt), w')" and "\<forall>t. nxt = Some t \<longrightarrow> 1 \<le> t"
    and "nxt = Some 1 \<or> grows a n (mw_mail w) (mw_mail w') \<and> through a n v box s nxt (mw_mail w')"
proof -
  define got where "got = filter (\<lambda>ue. s \<le> fst ue \<and> fst ue < s + sync_batch_size) box"
  obtain mb i where fetch: "sy_fetch h n s sync_batch_size (mw_imap w) = (Inr (mb, got), i)"
    and mb: "mb_uid_validity mb = Some v" "mb_uid_next mb = Some nx"
    using h s unfolding honest_def got_def by blast
  define w1 where "w1 = w\<lparr>mw_imap := i\<rparr>"
  have f: "imap ''Failed to raw fetch envelopes'' (sy_fetch h n s sync_batch_size) w = (Inr (mb, got), w1)"
    using fetch by (simp add: imap_def net_def ctx_def w1_def)
  obtain w2 where counted: "sdb h ''Failed to update folder message count''
      (exec (update_imap_folder_message_counts_for_account a [(n, as_i32 (mb_exists mb))])) w1 = (Inr (), w2)"
    and m2: "mw_mail w2 = update_imap_folder_message_counts_for_account a [(n, as_i32 (mb_exists mb))] (mw_mail w1)"
    by (rule sdb_ok [OF clean_reliable [OF c], where f = "exec (update_imap_folder_message_counts_for_account a [(n, as_i32 (mb_exists mb))])"]) simp
  have g2: "grows a n (mw_mail w) (mw_mail w2)" unfolding m2 by (rule grows_same) (simp_all add: w1_def)
  obtain changed w3 where nv: "note_positive_validity h a n v w2 = (Inr changed, w3)"
    and g23: "\<not> changed \<longrightarrow> grows a n (mw_mail w2) (mw_mail w3)" using note_validity_clean [OF clean_reliable [OF c]] by blast
  have nx: "1 \<le> nx" using h by (simp add: honest_def)
  have batch: "sync_batch h a n s w =
     (if changed then (Inr (0, Some 1), w3)
      else if got = [] then skip_empty_range h a n s (nx - 1) w3
      else and_then (settle_ids 2 h a n v got w3) (\<lambda>envs' w4. import_batch h a n v (nx - 1) (max_uid (map fst got)) envs' w4))"
    using f counted nv nx by (simp add: sync_batch_def mb sat_sub_u32_def)
  consider "changed" | "\<not> changed" "got = []" | "\<not> changed" "got \<noteq> []" by blast
  then show thesis
  proof cases
    case 1
    with batch that show ?thesis by simp
  next
    case 2
    then have "\<forall>ue \<in> set box. \<not> (s \<le> fst ue \<and> fst ue < s + sync_batch_size)" by (auto simp: got_def filter_empty_conv)
    from skip_clean [OF h clean_reliable [OF c] s this] obtain nxt w' where "skip_empty_range h a n s (nx - 1) w3 = (Inr (0, nxt), w')"
      "grows a n (mw_mail w3) (mw_mail w')" "\<forall>t. nxt = Some t \<longrightarrow> 1 \<le> t" "through a n v box s nxt (mw_mail w')" by blast
    moreover have "grows a n (mw_mail w) (mw_mail w')" by (rule growth.trans [OF growth.trans [OF g2]]) (use calculation 2 g23 in blast)+
    ultimately show ?thesis using that [of 0 nxt w'] 2 batch by simp
  next
    case 3
    have "set got \<subseteq> set box" by (auto simp: got_def)
    from settle_ids_honest [OF h clean_reliable [OF c] this] obtain w4 where st: "settle_ids 2 h a n v got w3 = (Inr (filter with_id got), w4)"
      and ms: "\<forall>ue \<in> set got. \<not> with_id ue \<longrightarrow> imported a n v ue (mw_mail w4)" by blast
    from import_clean [OF h c s got_def 3(2) ms] obtain k nxt w' where
      im: "import_batch h a n v (nx - 1) (max_uid (map fst got)) (filter with_id got) w4 = (Inr (k, nxt), w')"
      and t: "\<forall>t. nxt = Some t \<longrightarrow> 1 \<le> t" "through a n v box s nxt (mw_mail w')" by blast
    have "grows a n (mw_mail w3) (mw_mail w4)" using growth.settle_ids [of a n w3 2 h v got] st by (metis snd_conv)
    moreover have "grows a n (mw_mail w4) (mw_mail w')"
      using growth.import [of a n w4 h v _ _ "filter with_id got"] im by (metis snd_conv)
    ultimately have "grows a n (mw_mail w) (mw_mail w')" using growth.trans [OF g2] g23 3(1) growth.trans by blast
    then show ?thesis using that [of k nxt w'] t 3 batch st im by simp
  qed
qed

section \<open>The loop\<close>

lemma sync_folder_imports:
  assumes h: "honest h n v nx box" and c: "clean h n box"
  shows "sync_folder k h a n s synced w = Some (r, w') \<Longrightarrow> 1 \<le> s \<Longrightarrow>
    (\<exists>m. r = Inr m) \<and> through a n v box s None (mw_mail w')
    \<and> (grows a n (mw_mail w) (mw_mail w') \<or> through a n v box 1 None (mw_mail w'))"
proof (induction k arbitrary: s synced w)
  case (Suc k)
  obtain m nxt w1 where b: "sync_batch h a n s w = (Inr (m, nxt), w1)" and t: "\<forall>t. nxt = Some t \<longrightarrow> 1 \<le> t"
    and part: "nxt = Some 1 \<or> grows a n (mw_mail w) (mw_mail w1) \<and> through a n v box s nxt (mw_mail w1)"
    by (rule sync_batch_clean [OF h c Suc.prems(2)])
  have up: "through a n v box s None ms" if "through a n v box 1 None ms" for ms
    using that Suc.prems(2) by (auto simp: through_def)
  show ?case
  proof (cases nxt)
    case None
    with Suc.prems(1) b part show ?thesis by auto
  next
    case (Some t')
    have run: "sync_folder k h a n t' (synced + m) w1 = Some (r, w')" using Suc.prems(1) b Some by simp
    have "1 \<le> t'" using t Some by simp
    note IH = Suc.IH [OF run this]
    from part consider "t' = 1" | "grows a n (mw_mail w) (mw_mail w1)" "through a n v box s (Some t') (mw_mail w1)"
      using Some by auto
    then show ?thesis
    proof cases
      case 1
      with IH up show ?thesis by blast
    next
      case 2
      show ?thesis
      proof (cases "through a n v box 1 None (mw_mail w')")
        case True
        with IH up show ?thesis by blast
      next
        case False
        with IH have g: "grows a n (mw_mail w1) (mw_mail w')" by blast
        have "nullif_blank (Some n) = Some n" using c by (simp add: clean_def reliable_def)
        then have "imported a n v ue (mw_mail w')" if "ue \<in> set box" "s \<le> fst ue" for ue
        proof (cases "fst ue < t'")
          case True
          with that 2(2) have "imported a n v ue (mw_mail w1)" by (simp add: through_def)
          with g \<open>nullif_blank (Some n) = Some n\<close> show ?thesis unfolding grows_def by blast
        qed (use that IH in \<open>auto simp: through_def\<close>)
        then have "through a n v box s None (mw_mail w')" by (simp add: through_def)
        with IH growth.trans [OF 2(1) g] show ?thesis by blast
      qed
    qed
  qed
qed simp

lemma honest_lawful: "honest h n v nx box \<Longrightarrow> lawful h n (Some v) (nx - 1)"
  unfolding lawful_def
proof (intro allI impI)
  fix s i mb envs i'
  assume "honest h n v nx box" and s: "1 \<le> s" and f: "sy_fetch h n s sync_batch_size i = (Inr (mb, envs), i')"
  then have "\<exists>mb' i''. sy_fetch h n s sync_batch_size i
        = (Inr (mb', filter (\<lambda>ue. s \<le> fst ue \<and> fst ue < s + sync_batch_size) box), i'')
        \<and> mb_uid_validity mb' = Some v \<and> mb_uid_next mb' = Some nx"
    and box: "1 \<le> nx" "\<forall>ue \<in> set box. fst ue < nx" unfolding honest_def by blast+
  with f have "mb_uid_validity mb = Some v" "mb_uid_next mb = Some nx"
    "envs = filter (\<lambda>ue. s \<le> fst ue \<and> fst ue < s + sync_batch_size) box" by auto
  with box show "mb_uid_validity mb = Some v \<and> state_uid_end mb \<le> nx - 1 \<and> (\<forall>ue \<in> set envs. s \<le> fst ue \<and> fst ue \<le> nx - 1)"
    by (auto simp: sat_sub_u32_def)
qed

lemma sync_folder_complete:
  assumes h: "honest h n v nx box" and c: "clean h n box" and s: "1 \<le> s" and fuel: "2 * nx + 2 < int fuel"
  shows "\<exists>m w'. sync_folder fuel h a n s 0 w = Some (Inr m, w') \<and> through a n v box s None (mw_mail w')"
proof -
  have nx: "1 \<le> nx" "nx \<le> u32_max" using h by (simp_all add: honest_def)
  have "sync_folder fuel h a n s 0 w \<noteq> None"
    using sync_folder_ends [OF honest_lawful [OF h], of s fuel a 0 w] nx s fuel by fastforce
  then obtain r w' where run: "sync_folder fuel h a n s 0 w = Some (r, w')" by auto
  from sync_folder_imports [OF h c run s] run show ?thesis by auto
qed

end
