(* ===== verification/ImapServer.thy ===== *)
theory ImapServer
  imports ImapFacts SyncComplete
begin

text \<open>
  A reference server for the envelope fetches of \<open>ImapClient\<close>: it holds one mailbox of raw headers, lets
  everybody in, and answers \<^verbatim>\<open>UID FETCH\<close> by ranges and by lists. Against it the client reads back what
  the mailbox holds, so a synchronisation over it meets an \<open>honest\<close> server.
\<close>

section \<open>The server\<close>

type_synonym raw_mail = "int \<times> string"

definition fetch_end :: string where
  "fetch_end = '')'' @ crlf"

definition render_fetch :: "nat \<times> raw_mail \<Rightarrow> string" where
  "render_fetch m = (let (k, uid, hdr) = m in
     ''* '' @ show_int (int k) @ '' FETCH (UID '' @ show_int uid @ '' BODY[HEADER] {'' @ show_int (int (length hdr)) @ ''}''
     @ crlf @ hdr @ fetch_end)"

definition fetch_command :: "string \<Rightarrow> string" where
  "fetch_command uids = ''a003 UID FETCH '' @ uids @ '' (UID BODY.PEEK[HEADER])'' @ crlf"

definition wanted :: "string \<Rightarrow> int \<Rightarrow> bool" where
  "wanted cmd u \<longleftrightarrow>
     (case number_between ''a003 UID FETCH '' '':'' cmd of
        Some (lo, rest) \<Rightarrow>
          (case digits rest of
             Some (hi, _) \<Rightarrow> or_zero_num (parse_u32 lo) \<le> u \<and> u \<le> or_zero_num (parse_u32 hi)
           | None \<Rightarrow> False)
      | None \<Rightarrow>
          (case expect ''a003 UID FETCH '' cmd of
             Some rest \<Rightarrow> show_int u \<in> set (split_by (\<lambda>c. c = CHR '','') (takeWhile (\<lambda>c. c \<noteq> CHR '' '') rest))
           | None \<Rightarrow> False))"

definition select_lines :: "int \<Rightarrow> int \<Rightarrow> nat \<Rightarrow> string list" where
  "select_lines v nx n =
     [''* '' @ show_int (int n) @ '' EXISTS'' @ crlf,
      ''* OK [UIDVALIDITY '' @ show_int v @ ''] valid'' @ crlf,
      ''* OK [UIDNEXT '' @ show_int nx @ ''] next'' @ crlf]"

definition server_greeting :: string where
  "server_greeting = ''* OK ready'' @ crlf"

definition imap_server :: "int \<Rightarrow> int \<Rightarrow> raw_mail list \<Rightarrow> string list \<Rightarrow> string" where
  "imap_server v nx raws cmds =
     (case cmds of
        [] \<Rightarrow> server_greeting
      | [_] \<Rightarrow> ''a001 OK'' @ crlf
      | [_, _] \<Rightarrow> concat (select_lines v nx (length raws)) @ ''a002 OK'' @ crlf
      | _ \<Rightarrow> concat (map render_fetch (filter (\<lambda>(_, uid, _). wanted (last cmds) uid) (enumerate 1 raws))) @ ''a003 OK'' @ crlf)"

section \<open>What the commands ask for\<close>

lemma show_int_inj: "show_int a = show_int b \<Longrightarrow> 0 \<le> a \<Longrightarrow> 0 \<le> b \<Longrightarrow> a = b"
  using parse_digits_show by (metis int_nat_eq option.inject show_int_def not_less)

lemma show_int_chars: "0 \<le> n \<Longrightarrow> c \<in> set (show_int n) \<Longrightarrow> is_ascii_digit c"
  using show_int_digits by (auto simp: list_all_iff)

lemma split_by_plain: "list_all (\<lambda>c. \<not> p c) s \<Longrightarrow> split_by p s = [s]"
  by (induction s) auto

lemma split_by_sep: "list_all (\<lambda>c. \<not> p c) s \<Longrightarrow> p c \<Longrightarrow> split_by p (s @ c # t) = s # split_by p t"
  by (induction s) auto

lemma split_join: "xs \<noteq> [] \<Longrightarrow> list_all (list_all (\<lambda>c. \<not> p c)) xs \<Longrightarrow> p c \<Longrightarrow> split_by p (join [c] xs) = xs"
  by (induction "[c]" xs rule: join.induct) (auto simp: split_by_plain split_by_sep)

lemma wanted_range:
  assumes "0 \<le> lo" "lo \<le> u32_max" "0 \<le> hi" "hi \<le> u32_max"
  shows "wanted (fetch_command (show_int lo @ '':'' @ show_int hi)) u \<longleftrightarrow> lo \<le> u \<and> u \<le> hi"
proof -
  let ?rest = "show_int hi @ '' (UID BODY.PEEK[HEADER])'' @ crlf"
  have "number_between ''a003 UID FETCH '' '':'' (fetch_command (show_int lo @ '':'' @ show_int hi)) = Some (show_int lo, ?rest)"
    using number_between_show [OF assms(1), of "'':''" "''a003 UID FETCH ''" ?rest]
    by (simp add: fetch_command_def is_ascii_digit_def)
  moreover have "digits ?rest = Some (show_int hi, '' (UID BODY.PEEK[HEADER])'' @ crlf)"
    by (rule digits_append) (use show_int_digits [OF assms(3)] in \<open>auto simp: is_ascii_digit_def\<close>)
  ultimately show ?thesis using assms by (simp add: wanted_def parse_u32_show)
qed

lemma uid_list_Cons: "uid_list (u # us) = show_int u @ (if us = [] then [] else CHR '','' # uid_list us)"
  by (cases us) (simp_all add: uid_list_def)

lemma wanted_list:
  assumes us: "us \<noteq> []" "\<forall>x \<in> set us. 0 \<le> x" and u: "0 \<le> u"
  shows "wanted (fetch_command (uid_list us)) u \<longleftrightarrow> u \<in> set us"
proof -
  let ?tail = "'' (UID BODY.PEEK[HEADER])'' @ crlf"
  obtain x xs where xs: "us = x # xs" using us(1) by (cases us) auto
  then have x: "0 \<le> x" using us(2) by simp
  let ?t = "(if xs = [] then [] else CHR '','' # uid_list xs) @ ?tail"
  have "?t \<noteq> [] \<and> \<not> is_ascii_digit (hd ?t)" and colon: "\<not> prefix '':'' ?t" by (simp_all add: is_ascii_digit_def)
  then have dg: "digits (show_int x @ ?t) = Some (show_int x, ?t)"
    using digits_append show_int_digits [OF x] by blast
  have cmd: "fetch_command (uid_list us) = ''a003 UID FETCH '' @ uid_list us @ ?tail" by (simp only: fetch_command_def)
  have split: "uid_list us @ ?tail = show_int x @ ?t" by (simp only: xs uid_list_Cons append_assoc)
  have "number_between ''a003 UID FETCH '' '':'' (fetch_command (uid_list us)) = None"
    unfolding cmd split by (rule number_between_other [OF dg colon])
  moreover have "list_all (list_all is_ascii_digit) (map show_int us)"
    using us(2) show_int_digits by (auto simp: list_all_iff)
  then have plain: "list_all (list_all (\<lambda>c. \<not> c = CHR '','')) (map show_int us)" "CHR '' '' \<notin> set (join '','' (map show_int us))"
  proof -
    assume d: "list_all (list_all is_ascii_digit) (map show_int us)"
    have nd: "\<not> is_ascii_digit (CHR '','')" "\<not> is_ascii_digit (CHR '' '')" by (simp_all add: is_ascii_digit_def)
    show "list_all (list_all (\<lambda>c. \<not> c = CHR '','')) (map show_int us)" using d nd(1) by (fastforce simp: list_all_iff)
    have "list_all (list_all is_ascii_digit) ys \<Longrightarrow> CHR '' '' \<notin> set (join '','' ys)" for ys
      using nd(2) by (induction "'',''" ys rule: join.induct) (auto simp: list_all_iff)
    then show "CHR '' '' \<notin> set (join '','' (map show_int us))" using d .
  qed
  have "takeWhile (\<lambda>c. c \<noteq> CHR '' '') (uid_list us @ ?tail) = uid_list us"
    using plain(2) by (subst takeWhile_append2) (auto simp: uid_list_def)
  moreover have "split_by (\<lambda>c. c = CHR '','') (uid_list us) = map show_int us"
    unfolding uid_list_def by (rule split_join) (use us(1) plain(1) in auto)
  moreover have "expect ''a003 UID FETCH '' (fetch_command (uid_list us)) = Some (uid_list us @ ?tail)"
    unfolding cmd by (rule expect_append)
  ultimately have "wanted (fetch_command (uid_list us)) u \<longleftrightarrow> show_int u \<in> show_int ` set us"
    by (simp only: wanted_def option.case set_map)
  then show ?thesis using show_int_inj us(2) u by (auto simp: image_iff)
qed

section \<open>What the client reads\<close>

lemma full_line_crlf: "LF \<notin> set b \<Longrightarrow> full_line (b @ crlf)"
  by (auto simp: full_line_def intro!: exI [of _ "b @ [CHR 0x0D]"])

lemma LF_plain: "0 \<le> n \<Longrightarrow> LF \<notin> set (show_int n)"
  using show_int_chars [of n LF] by (auto simp: is_ascii_digit_def)

lemma bracket_plain: "0 \<le> n \<Longrightarrow> CHR ''['' \<notin> set (show_int n)"
  using show_int_chars [of n "CHR ''[''"] by (auto simp: is_ascii_digit_def)

lemma search_none: "c \<notin> set s \<Longrightarrow> find_number (c # p) post s = None"
  by (induction s) (auto simp: find_number_def number_between_def expect_def starts_with_def)

lemma search_skip: "c \<notin> set a \<Longrightarrow> find_number (c # p) post (a @ s) = find_number (c # p) post s"
  by (induction a) (auto simp: find_number_def number_between_def expect_def starts_with_def)

lemma find_here: "number_between (c # p) post (c # s) = Some (d, t) \<Longrightarrow> find_number (c # p) post (c # s) = Some d"
  by (simp add: find_number_def)

lemma find_not_here: "number_between (c # p) post (c # s) = None \<Longrightarrow> c \<notin> set s \<Longrightarrow> find_number (c # p) post (c # s) = None"
  using search_none [of c s p post] by (simp add: find_number_def)

text \<open>The three lines of \<^verbatim>\<open>SELECT\<close> tell the state.\<close>

lemma select_line_exists:
  assumes "0 \<le> n" "n \<le> u32_max"
  shows "select_line mb (''* '' @ show_int n @ '' EXISTS'' @ crlf) = mb\<lparr>mb_exists := n\<rparr>"
proof -
  let ?l = "''* '' @ show_int n @ '' EXISTS'' @ crlf"
  have "exists_count ?l = Some (show_int n)"
    using number_between_show [OF assms(1), of "'' EXISTS''" "''* ''" crlf]
    by (simp add: exists_count_def is_ascii_digit_def)
  moreover have "CHR ''['' \<notin> set ?l" using bracket_plain [OF assms(1)] by simp
  ultimately show ?thesis
    using assms search_none [of "CHR ''[''" ?l "''UIDNEXT ''"] search_none [of "CHR ''[''" ?l "''UIDVALIDITY ''"]
    by (simp add: select_line_def note_exists_def note_uid_next_def note_validity_line_def parse_u32_show)
qed

lemma find_bracket:
  assumes "0 \<le> n" "CHR ''['' \<notin> set a" "post \<noteq> [] \<and> \<not> is_ascii_digit (hd post)"
  shows "find_number (CHR ''['' # p) post (a @ (CHR ''['' # p) @ show_int n @ post @ rest) = Some (show_int n)"
proof -
  have "number_between (CHR ''['' # p) post ((CHR ''['' # p) @ show_int n @ post @ rest) = Some (show_int n, rest)"
    by (rule number_between_show [OF assms(1,3)])
  then have "find_number (CHR ''['' # p) post ((CHR ''['' # p) @ show_int n @ post @ rest) = Some (show_int n)"
    unfolding append_Cons by (rule find_here)
  then show ?thesis by (simp only: search_skip [OF assms(2)])
qed

lemma find_other_bracket:
  assumes "CHR ''['' \<notin> set a" "CHR ''['' \<notin> set s" "\<not> prefix p s"
  shows "find_number (CHR ''['' # p) post (a @ CHR ''['' # s) = None"
proof -
  have "number_between (CHR ''['' # p) post (CHR ''['' # s) = None"
    using assms(3) by (simp add: number_between_def expect_def starts_with_def)
  then show ?thesis using find_not_here assms(2) by (simp add: search_skip [OF assms(1)])
qed

lemma exists_ok_line: "exists_count (''* OK '' @ s) = None"
  by (simp add: exists_count_def number_between_def expect_def starts_with_def digits_def is_ascii_digit_def)

lemma select_line_validity:
  assumes "0 \<le> n" "n \<le> u32_max"
  shows "select_line mb (''* OK [UIDVALIDITY '' @ show_int n @ ''] valid'' @ crlf) = mb\<lparr>mb_uid_validity := Some n\<rparr>"
proof -
  let ?l = "''* OK [UIDVALIDITY '' @ show_int n @ ''] valid'' @ crlf"
  have l: "?l = ''* OK '' @ (CHR ''['' # ''UIDVALIDITY '') @ show_int n @ '']'' @ '' valid'' @ crlf" by simp
  have b: "CHR ''['' \<notin> set ''* OK ''" by simp
  have v: "find_number ''[UIDVALIDITY '' '']'' ?l = Some (show_int n)"
    unfolding l by (rule find_bracket [OF assms(1) b]) (simp add: is_ascii_digit_def)
  have "find_number ''[UIDNEXT '' '']'' (''* OK '' @ CHR ''['' # (''UIDVALIDITY '' @ show_int n @ '']'' @ '' valid'' @ crlf)) = None"
    by (rule find_other_bracket [OF b]) (use bracket_plain [OF assms(1)] in auto)
  then have "find_number ''[UIDNEXT '' '']'' ?l = None" by simp
  moreover have "exists_count ?l = None" using exists_ok_line [of "''[UIDVALIDITY '' @ show_int n @ ''] valid'' @ crlf"] by simp
  ultimately show ?thesis
    using v assms by (simp only: select_line_def note_exists_def note_uid_next_def note_validity_line_def parse_u32_show option.case)
qed

lemma select_line_next:
  assumes "0 \<le> n" "n \<le> u32_max"
  shows "select_line mb (''* OK [UIDNEXT '' @ show_int n @ ''] next'' @ crlf) = mb\<lparr>mb_uid_next := Some n\<rparr>"
proof -
  let ?l = "''* OK [UIDNEXT '' @ show_int n @ ''] next'' @ crlf"
  have l: "?l = ''* OK '' @ (CHR ''['' # ''UIDNEXT '') @ show_int n @ '']'' @ '' next'' @ crlf" by simp
  have b: "CHR ''['' \<notin> set ''* OK ''" by simp
  have v: "find_number ''[UIDNEXT '' '']'' ?l = Some (show_int n)"
    unfolding l by (rule find_bracket [OF assms(1) b]) (simp add: is_ascii_digit_def)
  have "find_number ''[UIDVALIDITY '' '']'' (''* OK '' @ CHR ''['' # (''UIDNEXT '' @ show_int n @ '']'' @ '' next'' @ crlf)) = None"
    by (rule find_other_bracket [OF b]) (use bracket_plain [OF assms(1)] in auto)
  then have "find_number ''[UIDVALIDITY '' '']'' ?l = None" by simp
  moreover have "exists_count ?l = None" using exists_ok_line [of "''[UIDNEXT '' @ show_int n @ ''] next'' @ crlf"] by simp
  ultimately show ?thesis
    using v assms by (simp only: select_line_def note_exists_def note_uid_next_def note_validity_line_def parse_u32_show option.case)
qed

text \<open>Headers that parse without a panic.\<close>

definition read_header :: "mail_lib \<Rightarrow> string \<Rightarrow> fetched_envelope" where
  "read_header lib hdr = (case parse_email_headers lib hdr of Value h \<Rightarrow> envelope_of h | _ \<Rightarrow> no_envelope)"

lemma or_no_headers_cases:
  "or_no_headers (parse_email_headers lib hdr) =
     (if parse_email_headers lib hdr = Panic then Panic
      else Value (case parse_email_headers lib hdr of Value h \<Rightarrow> h | _ \<Rightarrow> no_headers))"
  by (simp add: or_no_headers_def split: run.split)

lemma envelope_no_headers: "envelope_of no_headers = no_envelope"
  by (simp add: envelope_of_def no_headers_def no_envelope_def)

text \<open>One response: its first line, the literal, and the rest of the line.\<close>

abbreviation fits :: "nat \<times> raw_mail \<Rightarrow> bool" where
  "fits m \<equiv> (let (_, uid, hdr) = m in 0 \<le> uid \<and> uid \<le> u32_max \<and> int (length hdr) \<le> 18446744073709551615)"

definition fetch_start :: "nat \<times> raw_mail \<Rightarrow> string" where
  "fetch_start m = (let (k, uid, hdr) = m in
     ''* '' @ show_int (int k) @ '' FETCH (UID '' @ show_int uid @ '' BODY[HEADER] {'' @ show_int (int (length hdr)) @ ''}'' @ crlf)"

lemma render_start: "render_fetch (k, uid, hdr) = fetch_start (k, uid, hdr) @ hdr @ fetch_end"
  by (simp only: render_fetch_def fetch_start_def Let_def prod.case append_assoc)

lemma header_literal_start:
  assumes "fits (k, uid, hdr)"
  shows "header_literal (fetch_start (k, uid, hdr)) = Some (uid, length hdr)"
proof -
  let ?t = "'' BODY[HEADER] {'' @ show_int (int (length hdr)) @ ''}'' @ crlf"
  have nd: "'' FETCH (UID '' \<noteq> [] \<and> \<not> is_ascii_digit (hd '' FETCH (UID '')" "''}'' \<noteq> [] \<and> \<not> is_ascii_digit (hd ''}'')"
    by (simp_all add: is_ascii_digit_def)
  have "number_between ''* '' '' FETCH (UID '' (fetch_start (k, uid, hdr)) = Some (show_int (int k), show_int uid @ ?t)"
    unfolding fetch_start_def Let_def prod.case by (rule number_between_show [OF _ nd(1)]) simp
  moreover have "digits (show_int uid @ ?t) = Some (show_int uid, ?t)"
    by (rule digits_append) (use show_int_digits [of uid] assms in \<open>auto simp: is_ascii_digit_def\<close>)
  moreover have "number_between '' BODY[HEADER] {'' ''}'' ?t = Some (show_int (int (length hdr)), crlf)"
    by (rule number_between_show [OF _ nd(2)]) simp
  ultimately show ?thesis
    using assms by (simp only: header_literal_def fetch_uid_def bind.simps prod.case) (simp add: parse_u32_show parse_u64_show)
qed

lemma fetch_start_line:
  assumes "fits (k, uid, hdr)"
  shows "full_line (fetch_start (k, uid, hdr))" "is_fetch_line (fetch_start (k, uid, hdr))"
    "\<not> starts_with (fetch_start (k, uid, hdr)) ''a003 ''"
proof -
  let ?b = "''* '' @ show_int (int k) @ '' FETCH (UID '' @ show_int uid @ '' BODY[HEADER] {'' @ show_int (int (length hdr)) @ ''}''"
  have b: "fetch_start (k, uid, hdr) = ?b @ crlf" by (simp add: fetch_start_def)
  have "LF \<notin> set ?b" using assms LF_plain [of uid] LF_plain [of "int k"] LF_plain [of "int (length hdr)"] by simp
  then show "full_line (fetch_start (k, uid, hdr))" unfolding b by (rule full_line_crlf)
  have "sublist '' FETCH '' ((''* '' @ show_int (int k)) @ '' FETCH '' @ ''(UID '' @ show_int uid @ '' BODY[HEADER] {''
      @ show_int (int (length hdr)) @ ''}'' @ crlf)"
    by (rule sublist_appendI)
  then show "is_fetch_line (fetch_start (k, uid, hdr))"
    by (simp add: is_fetch_line_def fetch_start_def starts_with_def contains_def)
  show "\<not> starts_with (fetch_start (k, uid, hdr)) ''a003 ''" by (simp add: fetch_start_def starts_with_def)
qed

lemma fetch_end_line: "full_line fetch_end"
  unfolding fetch_end_def by (rule full_line_crlf) simp

lemma envelope_line_start:
  assumes "fits (k, uid, hdr)"
  shows "envelope_line lib acc (fetch_start (k, uid, hdr)) (feed (hdr @ fetch_end @ rest) w) =
    (if parse_email_headers lib hdr = Panic then Some (Panic, feed (fetch_end @ rest) w)
     else Some (Value (acc @ [(uid, read_header lib hdr)]), feed rest w))"
proof -
  have close: "read_line (feed (fetch_end @ rest) w) = Some (Value fetch_end, feed rest w)"
    by (rule read_line_full [OF fetch_end_line])
  have lit: "read_exact (length hdr) (feed (hdr @ fetch_end @ rest) w) = Some (Value hdr, feed (fetch_end @ rest) w)"
    by (rule read_exact_append)
  have "envelope_line lib acc (fetch_start (k, uid, hdr)) (feed (hdr @ fetch_end @ rest) w)
      = io_then (run_io (or_no_headers (parse_email_headers lib hdr)))
          (\<lambda>h. io_then read_line (\<lambda>_. done_io (acc @ [(uid, envelope_of h)]))) (feed (fetch_end @ rest) w)"
    using fetch_start_line(2) [OF assms] by (simp add: envelope_line_def header_literal_start [OF assms] io_then_Value [where m = "read_exact (length hdr)", OF lit])
  then show ?thesis
    by (cases "parse_email_headers lib hdr")
      (simp_all add: or_no_headers_def run_io_def io_then_def close done_io_def read_header_def envelope_no_headers)
qed

text \<open>The whole answer: everything is read, or the first header that panics ends it.\<close>

lemma fetch_loop:
  assumes t: "full_line t" "starts_with t ''a003 ''"
  shows "list_all fits ms \<Longrightarrow>
    (if \<exists>(k, uid, hdr) \<in> set ms. parse_email_headers lib hdr = Panic
     then \<exists>w'. until_tag read_line ''a003 '' (envelope_line lib) acc (feed (concat (map render_fetch ms) @ t @ rest) w) = Some (Panic, w')
     else until_tag read_line ''a003 '' (envelope_line lib) acc (feed (concat (map render_fetch ms) @ t @ rest) w)
       = Some (Value (acc @ map (\<lambda>(k, uid, hdr). (uid, read_header lib hdr)) ms, t), feed rest w))"
proof (induction ms arbitrary: acc)
  case Nil
  show ?case using t by (simp add: until_tag_read [OF t(1)])
next
  case (Cons m ms)
  obtain k uid hdr where m: "m = (k, uid, hdr)" by (cases m)
  then have f: "fits (k, uid, hdr)" using Cons.prems by simp
  let ?rest = "concat (map render_fetch ms) @ t @ rest"
  have "concat (map render_fetch (m # ms)) @ t @ rest = fetch_start (k, uid, hdr) @ hdr @ fetch_end @ ?rest"
    by (simp only: m render_start list.map concat.simps append_assoc)
  then have "until_tag read_line ''a003 '' (envelope_line lib) acc (feed (concat (map render_fetch (m # ms)) @ t @ rest) w)
      = io_then (envelope_line lib acc (fetch_start (k, uid, hdr))) (\<lambda>acc2. until_tag read_line ''a003 '' (envelope_line lib) acc2)
          (feed (hdr @ fetch_end @ ?rest) w)"
    by (simp add: until_tag_read [OF fetch_start_line(1) [OF f]] fetch_start_line(3) [OF f])
  also have "\<dots> = (if parse_email_headers lib hdr = Panic then Some (Panic, feed (fetch_end @ ?rest) w)
      else until_tag read_line ''a003 '' (envelope_line lib) (acc @ [(uid, read_header lib hdr)]) (feed ?rest w))"
    unfolding io_then_def envelope_line_start [OF f] by simp
  finally have step: "until_tag read_line ''a003 '' (envelope_line lib) acc (feed (concat (map render_fetch (m # ms)) @ t @ rest) w)
      = (if parse_email_headers lib hdr = Panic then Some (Panic, feed (fetch_end @ ?rest) w)
      else until_tag read_line ''a003 '' (envelope_line lib) (acc @ [(uid, read_header lib hdr)]) (feed ?rest w))" .
  show ?case
  proof (cases "parse_email_headers lib hdr = Panic")
    case True
    then show ?thesis unfolding step by (auto simp: m)
  next
    case False
    have "list_all fits ms" using Cons.prems by simp
    from Cons.IH [OF this, of "acc @ [(uid, read_header lib hdr)]"] False show ?thesis
      unfolding step by (simp add: m)
  qed
qed

section \<open>The conversation\<close>

abbreviation open_server :: "int \<Rightarrow> int \<Rightarrow> raw_mail list \<Rightarrow> network" where
  "open_server v nx raws \<equiv> \<lambda>_ _. Inr (imap_server v nx raws, False)"

definition at_server :: "int \<Rightarrow> int \<Rightarrow> raw_mail list \<Rightarrow> string list \<Rightarrow> wire" where
  "at_server v nx raws cmds = \<lparr>wr_server = imap_server v nx raws, wr_silent = False, wr_in = [], wr_sent = cmds\<rparr>"

lemma send_at: "send cmd (at_server v nx raws cmds) = Some (Value (), feed (imap_server v nx raws (cmds @ [cmd])) (at_server v nx raws (cmds @ [cmd])))"
  by (simp add: send_def at_server_def)

lemma feed_at [simp]: "feed [] (at_server v nx raws cmds) = at_server v nx raws cmds"
  by (simp add: at_server_def)

lemma greeting_at:
  "\<lparr>wr_server = imap_server v nx raws, wr_silent = False, wr_in = imap_server v nx raws [], wr_sent = []\<rparr>
   = feed server_greeting (at_server v nx raws [])"
  by (simp add: at_server_def imap_server_def)

lemma log_in_at:
  "log_in_unchecked c (feed server_greeting (at_server v nx raws []))
     = Some (Value (), at_server v nx raws [login_command quote (cl_username c) (cl_password c)])"
  "log_in c (feed server_greeting (at_server v nx raws []))
     = Some (Value (), at_server v nx raws [login_command quote (cl_username c) (cl_password c)])"
proof -
  have "full_line server_greeting" unfolding server_greeting_def by (rule full_line_crlf) simp
  then have greet: "read_line (feed server_greeting w) = Some (Value server_greeting, feed [] w)" for w
    using read_line_full [of server_greeting "[]" w] by simp
  have "answer read_line ''a001 '' (feed ((''a001 OK'' @ crlf) @ []) w) = Some (Value (''a001 OK'' @ crlf), feed [] w)" for w
    by (rule answer_line, rule full_line_crlf) (simp_all add: starts_with_def)
  then have ans: "answer read_line ''a001 '' (feed (imap_server v nx raws [cmd]) w) = Some (Value (''a001 OK'' @ crlf), feed [] w)" for cmd w
    by (simp add: imap_server_def)
  have ok: "check_imap_tag_response (''a001 OK'' @ crlf) ''a001 '' = Value ()" by code_simp
  show "log_in_unchecked c (feed server_greeting (at_server v nx raws []))
     = Some (Value (), at_server v nx raws [login_command quote (cl_username c) (cl_password c)])"
    unfolding log_in_unchecked_def io_then_def greet option.case run.case prod.case feed_at send_at append_Nil ans
    by (simp add: done_io_def)
  show "log_in c (feed server_greeting (at_server v nx raws []))
     = Some (Value (), at_server v nx raws [login_command quote (cl_username c) (cl_password c)])"
    unfolding log_in_def io_then_def greet option.case run.case prod.case feed_at send_at append_Nil ans checked_def ok
    by (simp add: ctx_run_def run_io_def)
qed

lemma select_at:
  assumes "0 \<le> v" "v \<le> u32_max" "0 \<le> nx" "nx \<le> u32_max" "int (length raws) \<le> u32_max"
  shows "select_state n (at_server v nx raws [l])
    = Some (Value \<lparr>mb_exists = int (length raws), mb_uid_validity = Some v, mb_uid_next = Some nx\<rparr>,
        at_server v nx raws [l, select_command quote n []])"
proof -
  let ?cmds = "[l, select_command quote n []]" and ?ls = "select_lines v nx (length raws)" and ?t = "''a002 OK'' @ crlf"
  have t: "full_line ?t" "starts_with ?t ''a002 ''" by (rule full_line_crlf) (simp_all add: starts_with_def)
  have "full_line (''* '' @ show_int (int (length raws)) @ '' EXISTS'' @ crlf)"
    using full_line_crlf [of "''* '' @ show_int (int (length raws)) @ '' EXISTS''"] LF_plain [of "int (length raws)"] by simp
  moreover have "full_line (''* OK [UIDVALIDITY '' @ show_int v @ ''] valid'' @ crlf)"
    using full_line_crlf [of "''* OK [UIDVALIDITY '' @ show_int v @ ''] valid''"] LF_plain [OF assms(1)] by simp
  moreover have "full_line (''* OK [UIDNEXT '' @ show_int nx @ ''] next'' @ crlf)"
    using full_line_crlf [of "''* OK [UIDNEXT '' @ show_int nx @ ''] next''"] LF_plain [OF assms(3)] by simp
  ultimately have ls: "\<forall>l \<in> set ?ls. full_line l \<and> \<not> starts_with l ''a002 ''"
    by (simp add: select_lines_def starts_with_def)
  have g: "(\<lambda>mb line. done_io (select_line mb line)) acc l = done_io (select_line acc l)" for acc l by simp
  have "until_tag read_line ''a002 '' (\<lambda>mb line. done_io (select_line mb line)) no_mailbox_state
      (feed (concat ?ls @ ?t @ []) (at_server v nx raws ?cmds))
    = Some (Value (foldl select_line no_mailbox_state ?ls, ?t), feed [] (at_server v nx raws ?cmds))"
    by (rule until_tag_lines [OF g t ls])
  moreover have "foldl select_line no_mailbox_state ?ls
      = \<lparr>mb_exists = int (length raws), mb_uid_validity = Some v, mb_uid_next = Some nx\<rparr>"
    unfolding select_lines_def foldl.simps select_line_validity [OF assms(1,2)] select_line_next [OF assms(3,4)]
    using assms(5) by (simp only: select_line_exists of_nat_0_le_iff) (simp add: no_mailbox_state_def)
  moreover have "imap_server v nx raws ?cmds = concat ?ls @ ?t" by (simp only: imap_server_def list.case)
  moreover have "note_validity_line ?t (note_uid_next ?t mb) = mb" for mb
    using search_none [of "CHR ''[''" ?t] by (simp add: note_validity_line_def note_uid_next_def)
  ultimately show ?thesis
    unfolding select_state_def by (simp add: io_then_def send_at done_io_def)
qed

abbreviation state_of :: "int \<Rightarrow> int \<Rightarrow> raw_mail list \<Rightarrow> mailbox_state" where
  "state_of v nx raws \<equiv> \<lparr>mb_exists = int (length raws), mb_uid_validity = Some v, mb_uid_next = Some nx\<rparr>"

lemma after_log_in:
  "io_then (log_in_unchecked c) f (feed server_greeting (at_server v nx raws []))
     = f () (at_server v nx raws [login_command quote (cl_username c) (cl_password c)])"
  "io_then (log_in c) f (feed server_greeting (at_server v nx raws []))
     = f () (at_server v nx raws [login_command quote (cl_username c) (cl_password c)])"
  by (simp_all add: io_then_def log_in_at)

lemma after_select:
  assumes "0 \<le> v" "v \<le> u32_max" "0 \<le> nx" "nx \<le> u32_max" "int (length raws) \<le> u32_max"
  shows "io_then (select_state n) f (at_server v nx raws [l]) = f (state_of v nx raws) (at_server v nx raws [l, select_command quote n []])"
  by (simp add: io_then_def select_at [OF assms])

lemma after_send:
  "io_then (send cmd) f (at_server v nx raws cmds)
     = f () (feed (imap_server v nx raws (cmds @ [cmd])) (at_server v nx raws (cmds @ [cmd])))"
  by (simp add: io_then_def send_at)

definition panics :: "mail_lib \<Rightarrow> raw_mail list \<Rightarrow> bool" where
  "panics lib ms \<longleftrightarrow> (\<exists>m \<in> set ms. parse_email_headers lib (snd m) = Panic)"

definition box_of :: "mail_lib \<Rightarrow> raw_mail list \<Rightarrow> (int \<times> fetched_envelope) list" where
  "box_of lib ms = map (\<lambda>(uid, hdr). (uid, read_header lib hdr)) ms"

definition mailbox_ok :: "int \<Rightarrow> int \<Rightarrow> raw_mail list \<Rightarrow> bool" where
  "mailbox_ok v nx raws \<longleftrightarrow>
     0 < v \<and> v \<le> u32_max \<and> 1 \<le> nx \<and> nx \<le> u32_max \<and> int (length raws) \<le> u32_max \<and> distinct (map fst raws)
     \<and> (\<forall>m \<in> set raws. 1 \<le> fst m \<and> fst m < nx \<and> int (length (snd m)) \<le> 18446744073709551615)"

lemma map_snd_filter_enumerate: "map snd (filter (\<lambda>(k, x). p x) (enumerate k xs)) = filter p xs"
  by (induction xs arbitrary: k) simp_all

lemma fetch_at:
  assumes ok: "mailbox_ok v nx raws" and w: "\<And>uid. uid \<in> fst ` set raws \<Longrightarrow> wanted (fetch_command uids) uid \<longleftrightarrow> q uid"
  shows "if panics lib (filter (\<lambda>m. q (fst m)) raws)
    then \<exists>w'. fetch_headers lib uids (at_server v nx raws [l, s]) = Some (Panic, w')
    else fetch_headers lib uids (at_server v nx raws [l, s])
      = Some (Value (box_of lib (filter (\<lambda>m. q (fst m)) raws)), at_server v nx raws [l, s, fetch_command uids])"
proof -
  let ?t = "''a003 OK'' @ crlf" and ?cmds = "[l, s, fetch_command uids]"
  define ms where "ms = filter (\<lambda>(_, uid, _). wanted (fetch_command uids) uid) (enumerate 1 raws)"
  have t: "full_line ?t" "starts_with ?t ''a003 ''" by (rule full_line_crlf) (simp_all add: starts_with_def)
  have "filter (\<lambda>m. wanted (fetch_command uids) (fst m)) raws = filter (\<lambda>m. q (fst m)) raws"
    by (rule filter_cong) (use w in auto)
  moreover have "map snd ms = filter (\<lambda>m. wanted (fetch_command uids) (fst m)) raws"
    using map_snd_filter_enumerate [of "\<lambda>m. wanted (fetch_command uids) (fst m)" 1 raws] by (simp add: ms_def case_prod_beta')
  ultimately have sel: "map snd ms = filter (\<lambda>m. q (fst m)) raws" by simp
  have "m \<in> set raws" if "(k, m) \<in> set ms" for k m
  proof -
    have "m \<in> set (map snd ms)" using that by force
    then show ?thesis unfolding sel by simp
  qed
  then have "list_all fits ms" using ok by (fastforce simp: list_all_iff mailbox_ok_def)
  note loop = fetch_loop [OF t this, of lib "[]" "[]" "at_server v nx raws ?cmds"]
  have in_buf: "imap_server v nx raws ?cmds = concat (map render_fetch ms) @ ?t"
    by (simp only: imap_server_def list.case ms_def last.simps if_False if_True list.distinct refl)
  have fh: "fetch_headers lib uids (at_server v nx raws [l, s])
      = io_then (until_tag read_line ''a003 '' (envelope_line lib) []) (\<lambda>(results, _). done_io results)
          (feed (concat (map render_fetch ms) @ ?t @ []) (at_server v nx raws ?cmds))"
    unfolding fetch_headers_def fetch_command_def [symmetric]
    by (simp only: after_send append_Cons append_Nil append_Nil2 in_buf)
  have p: "(\<exists>(k, uid, hdr) \<in> set ms. parse_email_headers lib hdr = Panic) \<longleftrightarrow> panics lib (map snd ms)"
    by (force simp: panics_def)
  have b: "map (\<lambda>(k, uid, hdr). (uid, read_header lib hdr)) ms = box_of lib (map snd ms)"
    by (simp add: box_of_def case_prod_beta')
  show ?thesis
  proof (cases "panics lib (map snd ms)")
    case True
    with loop p obtain w' where "until_tag read_line ''a003 '' (envelope_line lib) []
        (feed (concat (map render_fetch ms) @ ?t @ []) (at_server v nx raws ?cmds)) = Some (Panic, w')" by auto
    with True show ?thesis unfolding fh sel [symmetric] by (auto simp: io_then_def)
  next
    case False
    with loop p have "until_tag read_line ''a003 '' (envelope_line lib) []
        (feed (concat (map render_fetch ms) @ ?t @ []) (at_server v nx raws ?cmds))
        = Some (Value (box_of lib (map snd ms), ?t), at_server v nx raws ?cmds)" by (simp add: b)
    with False show ?thesis unfolding fh sel [symmetric] by (simp add: io_then_def done_io_def)
  qed
qed

section \<open>The fetches\<close>

lemma converse_at:
  assumes "host_port (cl_server c) = Value hp"
  shows "converse (open_server v nx raws) c m = map_option fst (m (feed server_greeting (at_server v nx raws [])))"
  using assms by (cases hp) (simp add: converse_def greeting_at)

lemma fetch_range_at:
  assumes ok: "mailbox_ok v nx raws" and c: "host_port (cl_server c) = Value hp" and s: "1 \<le> s"
  shows "raw_uid_fetch_envelopes (open_server v nx raws) lib c n s sync_batch_size =
    (let ms = filter (\<lambda>m. s \<le> fst m \<and> fst m < s + sync_batch_size) raws in
     if panics lib ms then Some Panic else Some (Value (state_of v nx raws, box_of lib ms)))"
proof -
  let ?ms = "filter (\<lambda>m. s \<le> fst m \<and> fst m < s + sync_batch_size) raws" and ?l = "login_command quote (cl_username c) (cl_password c)"
  define e where "e = empty_uid_range_end s sync_batch_size (nx - 1)"
  have facts: "0 \<le> v" "v \<le> u32_max" "0 \<le> nx" "nx \<le> u32_max" "int (length raws) \<le> u32_max" "1 \<le> nx"
    "\<And>m. m \<in> set raws \<Longrightarrow> 1 \<le> fst m \<and> fst m < nx"
    using ok by (auto simp: mailbox_ok_def)
  have end_uid: "sat_sub_u32 nx 1 = nx - 1" using facts(6) by (simp add: sat_sub_u32_def)
  have in_range: "s \<le> u \<and> u \<le> e \<longleftrightarrow> s \<le> u \<and> u < s + sync_batch_size" if "u \<in> fst ` set raws" for u
    using that facts s unfolding e_def
    by (force simp: empty_uid_range_end_def sat_add_u32_def sat_sub_u32_def sync_batch_size_def as_u32_def min_def)
  define fetched where "fetched = (if length raws = 0 \<or> nx - 1 = 0 \<or> s > e then done_io (state_of v nx raws, [])
      else io_then (fetch_headers lib (show_int s @ '':'' @ show_int e)) (\<lambda>results. done_io (state_of v nx raws, results)))"
  have whole: "raw_uid_fetch_envelopes (open_server v nx raws) lib c n s sync_batch_size
      = map_option fst (fetched (at_server v nx raws [?l, select_command quote n []]))"
    unfolding raw_uid_fetch_envelopes_def converse_at [OF c] fetched_def
    using s by (simp add: after_log_in after_select [OF facts(1-5)] end_uid e_def)
  have empty: "?ms = []" if "length raws = 0 \<or> nx - 1 = 0 \<or> s > e"
  proof -
    have "\<not> (s \<le> fst m \<and> fst m < s + sync_batch_size)" if "m \<in> set raws" for m
      using in_range [of "fst m"] facts(7) [OF that] \<open>length raws = 0 \<or> nx - 1 = 0 \<or> s > e\<close> that by auto
    then show ?thesis by (simp add: filter_empty_conv)
  qed
  have full: "if panics lib ?ms then map_option fst (fetched (at_server v nx raws [?l, select_command quote n []])) = Some Panic
      else map_option fst (fetched (at_server v nx raws [?l, select_command quote n []])) = Some (Value (state_of v nx raws, box_of lib ?ms))"
    if go: "\<not> (length raws = 0 \<or> nx - 1 = 0 \<or> s > e)"
  proof -
    have e: "s \<le> e" "e \<le> u32_max" using go facts(4) by (auto simp: e_def empty_uid_range_end_def)
    have "wanted (fetch_command (show_int s @ '':'' @ show_int e)) u \<longleftrightarrow> s \<le> u \<and> u < s + sync_batch_size"
      if "u \<in> fst ` set raws" for u
      using in_range [OF that] wanted_range [of s e u] s e by simp
    from fetch_at [OF ok this, of lib ?l "select_command quote n []"] show ?thesis
      using go by (auto simp: fetched_def io_then_def done_io_def split: if_splits)
  qed
  show ?thesis
  proof (cases "length raws = 0 \<or> nx - 1 = 0 \<or> s > e")
    case True
    then show ?thesis unfolding whole empty [OF True] by (simp add: Let_def fetched_def done_io_def panics_def box_of_def)
  next
    case False
    from full [OF this] show ?thesis unfolding whole by (simp add: Let_def split: if_splits)
  qed
qed

lemma fetch_uids_at:
  assumes ok: "mailbox_ok v nx raws" and c: "host_port (cl_server c) = Value hp" and us: "us \<noteq> []" "\<forall>u \<in> set us. 0 \<le> u"
  shows "raw_uid_fetch_envelopes_by_uids (open_server v nx raws) lib c n us =
    (let ms = filter (\<lambda>m. fst m \<in> set us) raws in
     if panics lib ms then Some Panic else Some (Value (state_of v nx raws, box_of lib ms)))"
proof -
  let ?ms = "filter (\<lambda>m. fst m \<in> set us) raws" and ?l = "login_command quote (cl_username c) (cl_password c)"
  have facts: "0 \<le> v" "v \<le> u32_max" "0 \<le> nx" "nx \<le> u32_max" "int (length raws) \<le> u32_max"
    "\<And>m. m \<in> set raws \<Longrightarrow> 1 \<le> fst m"
    using ok by (auto simp: mailbox_ok_def)
  have "raw_uid_fetch_envelopes_by_uids (open_server v nx raws) lib c n us
      = map_option fst (io_then (fetch_headers lib (uid_list us)) (\<lambda>results. done_io (state_of v nx raws, results))
          (at_server v nx raws [?l, select_command quote n []]))"
    unfolding raw_uid_fetch_envelopes_by_uids_def converse_at [OF c]
    using us(1) by (simp add: after_log_in after_select [OF facts(1-5)])
  moreover have "wanted (fetch_command (uid_list us)) u \<longleftrightarrow> u \<in> set us" if "u \<in> fst ` set raws" for u
    using wanted_list [OF us] facts(6) that by force
  from fetch_at [OF ok this, of lib ?l "select_command quote n []"] have
    "if panics lib ?ms then \<exists>w'. fetch_headers lib (uid_list us) (at_server v nx raws [?l, select_command quote n []]) = Some (Panic, w')
     else fetch_headers lib (uid_list us) (at_server v nx raws [?l, select_command quote n []])
       = Some (Value (box_of lib ?ms), at_server v nx raws [?l, select_command quote n [], fetch_command (uid_list us)])" by simp
  ultimately show ?thesis by (auto simp: Let_def io_then_def done_io_def split: if_splits)
qed

text \<open>A host whose fetches go over the wire to this server.\<close>

definition wired :: "'i sync_host \<Rightarrow> network \<Rightarrow> mail_lib \<Rightarrow> client \<Rightarrow> string \<Rightarrow> bool" where
  "wired h tcp lib c n \<longleftrightarrow>
     (\<forall>s i x. raw_uid_fetch_envelopes tcp lib c n s sync_batch_size = Some (Value x)
        \<longrightarrow> (\<exists>i'. sy_fetch h n s sync_batch_size i = (Inr x, i')))
     \<and> (\<forall>us i x. raw_uid_fetch_envelopes_by_uids tcp lib c n us = Some (Value x) \<longrightarrow> (\<exists>i'. sy_fetch_uids h n us i = (Inr x, i')))"

lemma wired_honest:
  assumes w: "wired h (open_server v nx raws) lib c n" and ok: "mailbox_ok v nx raws" and c: "host_port (cl_server c) = Value hp"
    and fine: "\<not> panics lib raws"
  shows "honest h n v nx (box_of lib raws)"
proof -
  have no: "\<not> panics lib (filter p raws)" for p using fine by (auto simp: panics_def)
  have sel: "box_of lib (filter (\<lambda>m. p (fst m)) raws) = filter (\<lambda>ue. p (fst ue)) (box_of lib raws)" for p
    by (simp add: box_of_def filter_map o_def case_prod_beta')
  have "\<exists>mb i'. sy_fetch h n s sync_batch_size i
          = (Inr (mb, filter (\<lambda>ue. s \<le> fst ue \<and> fst ue < s + sync_batch_size) (box_of lib raws)), i')
          \<and> mb_uid_validity mb = Some v \<and> mb_uid_next mb = Some nx" if s: "1 \<le> s" for s i
  proof -
    have "raw_uid_fetch_envelopes (open_server v nx raws) lib c n s sync_batch_size
        = Some (Value (state_of v nx raws, filter (\<lambda>ue. s \<le> fst ue \<and> fst ue < s + sync_batch_size) (box_of lib raws)))"
      using fetch_range_at [OF ok c s] no sel [of "\<lambda>u. s \<le> u \<and> u < s + sync_batch_size"] by simp
    with w obtain i' where "sy_fetch h n s sync_batch_size i
        = (Inr (state_of v nx raws, filter (\<lambda>ue. s \<le> fst ue \<and> fst ue < s + sync_batch_size) (box_of lib raws)), i')"
      unfolding wired_def by blast
    then show ?thesis by (intro exI conjI) (assumption, simp_all)
  qed
  moreover have "\<exists>mb i'. sy_fetch_uids h n us i = (Inr (mb, filter (\<lambda>ue. fst ue \<in> set us) (box_of lib raws)), i')"
    if us: "\<forall>u \<in> set us. 1 \<le> u \<and> u < nx" for us i
  proof (cases "us = []")
    case True
    then have "raw_uid_fetch_envelopes_by_uids (open_server v nx raws) lib c n us = Some (Value (no_mailbox_state, []))"
      by (simp add: raw_uid_fetch_envelopes_by_uids_def)
    with w True show ?thesis unfolding wired_def by fastforce
  next
    case False
    have "\<forall>u \<in> set us. 0 \<le> u" using us by fastforce
    from fetch_uids_at [OF ok c False this, of lib n] no sel [of "\<lambda>u. u \<in> set us"]
    have "raw_uid_fetch_envelopes_by_uids (open_server v nx raws) lib c n us
        = Some (Value (state_of v nx raws, filter (\<lambda>ue. fst ue \<in> set us) (box_of lib raws)))" by simp
    with w show ?thesis unfolding wired_def by blast
  qed
  moreover have "map fst (box_of lib raws) = map fst raws" "\<forall>ue \<in> set (box_of lib raws). fst ue \<in> fst ` set raws"
    by (auto simp: box_of_def case_prod_beta' o_def)
  ultimately show ?thesis using ok unfolding honest_def mailbox_ok_def by fastforce
qed

end
