(* ===== verification/SyncStuck.thy ===== *)
theory SyncStuck
  imports SyncComplete
begin

text \<open>
  When a folder cannot move on: the transaction of a batch that holds a Message-ID with blanks at
  its ends, and what a run that fails leaves of the tables.
\<close>

section \<open>A Message-ID the tables do not hold\<close>

lemma sql_trim_idem: "sql_trim (sql_trim s) = sql_trim s"
  unfolding sql_trim_def by (rule trim_matches_id) (rule trim_matches_ends)

lemma upsert_all_keys:
  "emails_in (fold (upsert_envelope now a) es ms) a mid \<Longrightarrow> emails_in ms a mid \<or> mid \<in> ev_message_id ` set es"
proof (induction es arbitrary: ms)
  case (Cons e es)
  have merge: "em_account (merge_envelope now e m) = em_account m" "em_message_id (merge_envelope now e m) = em_message_id m" for m
    by (simp_all add: merge_envelope_def Let_def)
  have "emails_in (upsert_envelope now a e ms) a mid \<Longrightarrow> emails_in ms a mid \<or> mid = ev_message_id e"
    by (cases "sql_exists (email_at a (ev_message_id e)) (ms_emails ms)")
      (auto simp: emails_in_def upsert_envelope_def Let_def sql_exists_iff bex_update merge email_at_def envelope_email_def
        new_email_def split: if_splits)
  with Cons show ?case by auto
qed simp

text \<open>The queue refers to the identifier as it was read, the table holds it without its outer blanks: the
  transaction with such a message fails, unless an email with that very identifier is there.\<close>

lemma padded_tx_fails:
  assumes ue: "ue \<in> set envs" and padded: "sql_trim (mid_of ue) \<noteq> mid_of ue"
    and absent: "\<not> emails_in ms a (mid_of ue)" "\<forall>r \<in> set (bt_rows (ms_body ms)). bq_message_id r \<noteq> mid_of ue"
  shows "\<exists>e. envelope_tx ts now a (JArray (map (envelope_json rfc n v) envs)) (map (envelope_item n v) envs) ms = (Inl e, ms)"
proof -
  let ?es = "List.map_filter (read_envelope ts) (map (envelope_json rfc n v) envs)"
  have "ev_message_id e \<noteq> mid_of ue" if e: "e \<in> set ?es" for e
  proof -
    obtain x where "read_envelope ts (envelope_json rfc n v x) = Some e" using e by (force simp: map_filter_def)
    then have "nullif_blank (fe_message_id (snd x)) = Some (ev_message_id e)" using read_envelope_json by blast
    then have "\<exists>y. ev_message_id e = sql_trim y"
      by (cases "fe_message_id (snd x)") (auto simp: nullif_blank_def split: if_splits intro: sym)
    then obtain y where "ev_message_id e = sql_trim y" ..
    then show ?thesis using padded sql_trim_idem by metis
  qed
  then have "\<not> emails_in (fold (upsert_envelope now a) ?es ms) a (mid_of ue)"
    using upsert_all_keys [where now = now and a = a and es = ?es and ms = ms and mid = "mid_of ue"] absent(1) by (metis imageE)
  moreover have "\<not> sql_exists (\<lambda>r. body_key_of r = item_key a (envelope_item n v ue)) (bt_rows (ms_body ms))"
    using absent(2) by (auto simp: sql_exists_iff body_key_of_def item_key_def envelope_item_def)
  moreover have "bi_message_id (envelope_item n v ue) = mid_of ue" by (simp add: envelope_item_def)
  ultimately have "insert_body_items now (emails_in (fold (upsert_envelope now a) ?es ms)) a (map (envelope_item n v) envs) (ms_body ms) = None"
    using ue by (auto simp: insert_body_items_def list_ex_iff)
  moreover have "envs \<noteq> []" using ue by auto
  ultimately show ?thesis
    by (auto simp: envelope_tx_def upsert_envelopes_and_enqueue_body_sync_for_account_def upsert_emails_from_envelope_def
        as_array_def split: option.splits)
qed

text \<open>\<open>parked a n\<close>: a run leaves the emails and the cursor of the folder as they were.\<close>

definition cursor_of :: "string \<Rightarrow> string \<Rightarrow> mail_store \<Rightarrow> int option" where
  "cursor_of a n ms = Option.bind (find_opt (folder_at a n) (ms_folders ms)) fo_last_synced_uid"

definition parked :: "string \<Rightarrow> string \<Rightarrow> mail_store \<Rightarrow> mail_store \<Rightarrow> bool" where
  "parked a n ms ms' \<longleftrightarrow> ms_emails ms' = ms_emails ms \<and> ms_body ms' = ms_body ms \<and> cursor_of a n ms' = cursor_of a n ms"

interpretation parking: run_relation "parked a n" for a n
  by unfold_locales (simp_all add: parked_def)

lemma cursor_update:
  "(\<And>f. folder_key (g f) = folder_key f) \<Longrightarrow> (\<And>f. fo_last_synced_uid (g f) = fo_last_synced_uid f)
    \<Longrightarrow> cursor_of a n (update_folders p g ms) = cursor_of a n ms"
  unfolding cursor_of_def by (rule folder_field_update)

lemma parked_counts: "parked a n ms (update_imap_folder_message_counts_for_account a' us ms)"
proof -
  have one: "cursor_of a n (set_message_count a' u ms) = cursor_of a n ms" for u ms
    by (cases "nullif_blank (Some (fst u))") (simp_all add: set_message_count_def cursor_update)
  have "cursor_of a n (fold (set_message_count a') us ms) = cursor_of a n ms" for ms
    by (induction us arbitrary: ms) (simp_all add: one)
  then have "cursor_of a n (update_imap_folder_message_counts_for_account a' us ms) = cursor_of a n ms"
    by (simp add: update_imap_folder_message_counts_for_account_def recompute_imap_folder_priority_for_account_def Let_def
        cursor_update)
  then show ?thesis by (simp add: parked_def)
qed

lemma parked_refetch: "parked a n (mw_mail w) (mw_mail (snd (refetch h m envs w)))"
  by (induction h m envs w rule: refetch.induct) (auto intro!: parking.and_then parking.imap simp: parking.refl)

lemma parked_missing: "parked a n ms (record_missing_message_id_for_account now a' n' uid v ms)"
  by (simp add: parked_def record_missing_message_id_for_account_def Let_def cursor_of_def)

lemma parked_settle: "parked a n (mw_mail w) (mw_mail (snd (settle_ids k h a' n' v envs w)))"
proof (induction k arbitrary: envs w)
  case 0
  have "parked a n (mw_mail w) (mw_mail (snd (record_missing h a' n' v xs w)))" for xs
  proof (induction xs arbitrary: w)
    case (Cons x xs)
    then show ?case by (cases x) (auto intro!: parking.and_then parking.dbs parked_missing)
  qed (simp add: parking.refl)
  then show ?case by (subst settle_ids.simps) (auto simp: Let_def parking.refl intro!: parking.and_then)
next
  case (Suc k)
  then show ?case by (subst settle_ids.simps) (auto simp: Let_def parking.refl intro!: parking.and_then parked_refetch)
qed

lemma parked_note: "parked a n ms (snd (update_folder_uid_validity_for_account a' n' v ms))"
proof -
  have "ms_emails (update_folders p g m) = ms_emails m" "ms_body (update_folders p g m) = ms_body m" for p g m
    by (simp_all add: update_folders_def)
  then show ?thesis by (simp add: parked_def update_folder_uid_validity_for_account_def Let_def cursor_update)
qed

text \<open>A batch with such a message: the validity of the folder is known, the messages without a Message-ID are
  dealt with, and then the transaction fails.\<close>

lemma padded_batch_fails:
  assumes h: "honest h n v nx box" and c: "reliable h n"
    and ue: "ue \<in> set box" "with_id ue" "sql_trim (mid_of ue) \<noteq> mid_of ue" and s: "1 \<le> s" "s \<le> fst ue" "fst ue < s + sync_batch_size"
    and absent: "\<not> emails_in (mw_mail w) a (mid_of ue)" "\<forall>r \<in> set (bt_rows (ms_body (mw_mail w))). bq_message_id r \<noteq> mid_of ue"
    and known: "stored_validity a n (mw_mail w) \<in> {None, Some (as_i32 v)}"
  obtains e w' where "sync_batch h a n s w = (Inl e, w')" and "parked a n (mw_mail w) (mw_mail w')"
proof -
  define got where "got = filter (\<lambda>ue. s \<le> fst ue \<and> fst ue < s + sync_batch_size) box"
  obtain mb i where fetch: "sy_fetch h n s sync_batch_size (mw_imap w) = (Inr (mb, got), i)"
    and mb: "mb_uid_validity mb = Some v" "mb_uid_next mb = Some nx"
    using h s unfolding honest_def got_def by blast
  define w1 where "w1 = w\<lparr>mw_imap := i\<rparr>"
  have f: "imap ''Failed to raw fetch envelopes'' (sy_fetch h n s sync_batch_size) w = (Inr (mb, got), w1)"
    using fetch by (simp add: imap_def net_def ctx_def w1_def)
  obtain w2 where counted: "sdb h ''Failed to update folder message count''
      (exec (update_imap_folder_message_counts_for_account a [(n, as_i32 (mb_exists mb))])) w1 = (Inr (), w2)"
    and m2: "mw_mail w2 = update_imap_folder_message_counts_for_account a [(n, as_i32 (mb_exists mb))] (mw_mail w1)"
    by (rule sdb_ok [OF c, where f = "exec (update_imap_folder_message_counts_for_account a [(n, as_i32 (mb_exists mb))])"]) simp
  have g2: "parked a n (mw_mail w) (mw_mail w2)" unfolding m2 by (simp add: w1_def parked_counts)
  obtain prev w3 where noted: "sdb h ''Failed to update folder uid_validity''
      (\<lambda>_. update_folder_uid_validity_for_account a n (as_i32 v)) w2 = (Inr prev, w3)"
    and prev: "prev = fst (update_folder_uid_validity_for_account a n (as_i32 v) (mw_mail w2))"
    and m3: "mw_mail w3 = snd (update_folder_uid_validity_for_account a n (as_i32 v) (mw_mail w2))"
    by (rule sdb_ok [OF c, where f = "\<lambda>_. update_folder_uid_validity_for_account a n (as_i32 v)"]) blast
  have g3: "parked a n (mw_mail w) (mw_mail w3)" unfolding m3 by (rule parking.trans [OF g2 parked_note])
  have "prev = stored_validity a n (mw_mail w2)" by (simp add: prev update_folder_uid_validity_for_account_def stored_validity_def Let_def)
  then have "prev \<in> {None, Some (as_i32 v)}" using known by (simp add: m2 w1_def)
  then have nv: "note_positive_validity h a n v w2 = (Inr False, w3)"
    using h noted by (auto simp: honest_def note_positive_validity_def note_uid_validity_def)
  have sub: "set got \<subseteq> set box" by (auto simp: got_def)
  obtain w4 where st: "settle_ids 2 h a n v got w3 = (Inr (filter with_id got), w4)" using settle_ids_honest [OF h c sub] by blast
  have g4: "parked a n (mw_mail w) (mw_mail w4)" using parking.trans [OF g3 parked_settle [of a n w3 2 h a n v got]] st by simp
  have mem: "ue \<in> set (filter with_id got)" using ue s by (simp add: got_def)
  let ?envs = "filter with_id got"
  have "\<exists>e. envelope_tx (sy_ts h) now a (JArray (map (envelope_json (sy_rfc3339 h) n v) ?envs)) (map (envelope_item n v) ?envs) (mw_mail w4)
      = (Inl e, mw_mail w4)" for now
    by (rule padded_tx_fails [OF mem ue(3)]) (use g4 absent in \<open>auto simp: parked_def emails_in_def\<close>)
  then obtain e where tx: "envelope_tx (sy_ts h) (mh_clock (sy_mail h) (mw_tick w4)) a
      (JArray (map (envelope_json (sy_rfc3339 h) n v) ?envs)) (map (envelope_item n v) ?envs) (mw_mail w4) = (Inl e, mw_mail w4)" by blast
  obtain e' w5 where "store_envelopes h ''Failed to upsert envelopes + enqueue body sync'' a n v ?envs w4 = (Inl e', w5)" "mw_mail w5 = mw_mail w4"
    using c tx by (simp add: store_envelopes_def Let_def reliable_def dbs_def join_result_def ctx_def case_prod_beta filter_id_conv)
  moreover have "?envs \<noteq> []" using mem by (metis list.set(1) empty_iff)
  moreover have "got \<noteq> []" using mem by auto
  ultimately show thesis
    using that f counted nv st g4 by (simp add: sync_batch_def mb import_batch_def)
qed

end
