(* ===== verification/FilingFacts.thy ===== *)
theory FilingFacts
  imports MailCleanup
begin

text \<open>
  What the filing code leaves alone and where it puts an email. \<open>untouched K\<close>: no email whose key is
  outside \<open>K\<close> has changed, whatever the server answered and whichever statement failed.
  \<open>listed h a fs w\<close>: \<open>fs\<close> are the folders of account \<open>a\<close> as the tables hold them.
\<close>

section \<open>Frames\<close>

definition untouched :: "(string \<times> string) set \<Rightarrow> 'i mail_world \<Rightarrow> 'i mail_world \<Rightarrow> bool" where
  "untouched K w w' \<longleftrightarrow>
     filter (\<lambda>m. email_key m \<notin> K) (ms_emails (mw_mail w')) = filter (\<lambda>m. email_key m \<notin> K) (ms_emails (mw_mail w))"

lemma untouched_refl [simp, intro]: "untouched K w w"
  by (simp add: untouched_def)

lemma untouched_trans: "untouched K w w1 \<Longrightarrow> untouched K w1 w2 \<Longrightarrow> untouched K w w2"
  by (simp add: untouched_def)

lemma untouched_mono:
  assumes "untouched K w w'" "K \<subseteq> L"
  shows "untouched L w w'"
proof -
  let ?l = "\<lambda>m. email_key m \<notin> L" and ?k = "\<lambda>m. email_key m \<notin> K"
  have eq: "filter ?l t = filter ?l (filter ?k t)" for t
    unfolding filter_filter by (rule filter_cong) (use assms(2) in auto)
  have "filter ?l (ms_emails (mw_mail w')) = filter ?l (filter ?k (ms_emails (mw_mail w')))" by (rule eq)
  also have "\<dots> = filter ?l (filter ?k (ms_emails (mw_mail w)))" using assms(1) by (simp only: untouched_def)
  also have "\<dots> = filter ?l (ms_emails (mw_mail w))" by (rule eq [symmetric])
  finally show ?thesis by (simp only: untouched_def)
qed

lemma untouched_member:
  assumes "untouched K w w'" "m \<in> set (ms_emails (mw_mail w))" "email_key m \<notin> K"
  shows "m \<in> set (ms_emails (mw_mail w'))"
proof -
  have "m \<in> set (filter (\<lambda>m. email_key m \<notin> K) (ms_emails (mw_mail w)))" using assms(2,3) by simp
  then have "m \<in> set (filter (\<lambda>m. email_key m \<notin> K) (ms_emails (mw_mail w')))"
    using assms(1) by (simp only: untouched_def)
  then show ?thesis by simp
qed

lemma untouched_and_then:
  assumes "untouched K w (snd m)" and "\<And>v w1. untouched K w1 (snd (g v w1))"
  shows "untouched K w (snd (and_then m g))"
  using assms by (auto simp: and_then_def split: prod.splits sum.splits intro: untouched_trans)

lemma untouched_dbs:
  assumes "\<And>now ms. filter (\<lambda>m. email_key m \<notin> K) (ms_emails (snd (f now ms))) = filter (\<lambda>m. email_key m \<notin> K) (ms_emails ms)"
  shows "untouched K w (snd (dbs h what f w))"
  using assms by (auto simp: untouched_def dbs_def Let_def case_prod_beta split: option.splits)

lemma untouched_query [simp]: "untouched K w (snd (dbs h what (\<lambda>now ms. (q now ms, ms)) w))"
  by (rule untouched_dbs) simp

lemma untouched_net [simp]: "untouched K w (snd (net op w))"
  by (simp add: untouched_def net_def case_prod_beta)

lemma untouched_update:
  assumes "\<And>m. p m \<Longrightarrow> email_key m \<in> K" and "\<And>m. email_key (f m) = email_key m"
  shows "filter (\<lambda>m. email_key m \<notin> K) (sql_update p f t) = filter (\<lambda>m. email_key m \<notin> K) t"
  using assms by (induction t) (auto simp: sql_update_def)

lemma untouched_update_emails:
  assumes "\<And>m. p m \<Longrightarrow> email_key m \<in> K" and "\<And>m. email_key (f m) = email_key m"
  shows "untouched K w (snd (dbs h what (\<lambda>_. update_emails p f) w))"
  by (rule untouched_dbs) (simp add: update_emails_def untouched_update [OF assms])

lemma untouched_recommend:
  "untouched {(a, mid)} w (snd (dbs h what (\<lambda>_. update_location_recommendation_for_account a mid loc c) w))"
  unfolding update_location_recommendation_for_account_def
  by (rule untouched_update_emails) (simp_all add: email_at_def)

lemma untouched_refresh: "untouched K w (snd (refresh_folders_from_imap_for_account h a w))"
  unfolding refresh_folders_from_imap_for_account_def
proof (intro untouched_and_then untouched_net untouched_query)
  show "untouched K w1 (snd (dbs h ''sync refreshed IMAP folder list'' (\<lambda>_. sync_folders_from_imap_for_account a v) w1))" for v w1
    by (rule untouched_dbs) (use sync_folders_op [of a v] in \<open>simp add: folder_op_def\<close>)
qed

lemma untouched_ensure_segments: "untouched K w (snd (ensure_segments h a target delim direct segs pref folders w))"
proof (induction h a target delim direct segs pref folders w rule: ensure_segments.induct)
  case (2 h a target delim direct segment rest pref folders w)
  let ?req = "if pref = [] then segment else pref @ delim @ segment"
  let ?step = "\<lambda>f fs w1. if rest = [] \<and> fo_noselect f then (Inl (noselect_error f), w1)
                        else ensure_segments h a target delim direct rest (fo_name f) fs w1"
  have step: "untouched K w1 (snd (?step f fs w1))" for f fs w1
    using "2.IH" by (auto simp: Let_def)
  have cont: "untouched K w1 (snd (and_then (refresh_folders_from_imap_for_account h a w1) (\<lambda>fs w2.
       case find_folder_case_insensitive fs ?req of Some f \<Rightarrow> ?step f fs w2 | None \<Rightarrow> (Inl (er w2), w2))))" for w1 er
    by (rule untouched_and_then [OF untouched_refresh]) (auto simp: step simp del: if_split_asm split: option.split)
  obtain r w1 where r: "net (mh_create h ?req) w = (r, w1)" by fastforce
  then have net: "untouched K w w1" by (metis snd_conv untouched_net)
  show ?case
  proof (cases "find_folder_case_insensitive folders ?req")
    case (Some f)
    then show ?thesis using step by (simp only: ensure_segments.simps Let_def option.case)
  next
    case None
    then show ?thesis
      using untouched_trans [OF net cont] r
      by (cases r) (simp_all only: ensure_segments.simps Let_def option.case prod.case sum.case)
  qed
qed simp

lemma untouched_ensure_folder: "untouched K w (snd (ensure_folder_path_for_filing h a target delim folders w))"
proof -
  have cont: "untouched K w1 (snd (and_then (refresh_folders_from_imap_for_account h a w1) (\<lambda>fs w2.
      case selectable_folder_name_after_create fs target of
        Inl e \<Rightarrow> (Inl e, w2)
      | Inr None \<Rightarrow> ensure_segments h a target delim direct (path_segments delim target) [] fs w2
      | Inr (Some n) \<Rightarrow> (Inr (n, fs), w2))))" for w1 direct
    by (rule untouched_and_then [OF untouched_refresh]) (auto simp: untouched_ensure_segments split: sum.split option.split)
  obtain r w1 where r: "net (mh_create h target) w = (r, w1)" by fastforce
  then have "untouched K w w1" by (metis snd_conv untouched_net)
  from untouched_trans [OF this cont] show ?thesis
    by (simp add: ensure_folder_path_for_filing_def r Let_def split: sum.split option.split)
qed

lemma untouched_record_filing:
  "filter (\<lambda>m. email_key m \<notin> {(fv_account v, fv_message_id v)}) (ms_emails (snd (record_system_filing_move_for_account now v ms)))
   = filter (\<lambda>m. email_key m \<notin> {(fv_account v, fv_message_id v)}) (ms_emails ms)"
proof -
  have "ms_emails (snd (record_system_filing_move_for_account now v ms))
      = sql_update (email_at (fv_account v) (fv_message_id v)) (filed_row now v) (ms_emails ms)"
    by (simp add: record_system_filing_move_for_account_def Let_def case_prod_beta update_emails_def)
  then show ?thesis
    by (simp only:) (rule untouched_update, simp_all add: email_at_def filed_row_def set_location_def)
qed

lemma untouched_record_move: "untouched {(a, mid)} w (snd (record_move h a mid target uid v cooldown w))"
proof -
  let ?mv = "\<lparr>fv_account = a, fv_message_id = mid, fv_location = target, fv_uid = uid, fv_uid_validity = v,
    fv_actor = ''core'', fv_cooldown_hours = cooldown\<rparr>"
  have "untouched {(a, mid)} w (snd (dbs h ''record_system_filing_move'' (\<lambda>now. record_system_filing_move_for_account now ?mv) w))"
    by (rule untouched_dbs) (use untouched_record_filing [of ?mv] in simp)
  then show ?thesis by (auto simp: record_move_def split: prod.splits sum.splits)
qed

lemma untouched_move_email: "untouched {(a, mid)} w (snd (move_email h a mid from_mailbox uid target cooldown w))"
proof -
  let ?K = "{(a, mid)}"
  obtain r w1 where r: "net (mh_uid_move h from_mailbox uid target) w = (r, w1)" by fastforce
  then have w1: "untouched ?K w w1" by (metis snd_conv untouched_net)
  obtain q w2 where q: "net (mh_search_mid h target mid) w1 = (q, w2)" by fastforce
  then have w2: "untouched ?K w w2" using w1 by (metis snd_conv untouched_net untouched_trans)
  define vv where "vv = dbs h [] (query (get_folder_uid_validity_for_account a target)) w2"
  obtain v w3 where v: "vv = (v, w3)" by (cases vv)
  have "untouched ?K w2 (snd vv)" unfolding vv_def by (rule untouched_query)
  then have w3: "untouched ?K w w3" using w2 by (simp add: v untouched_trans)
  have found: "untouched ?K w (snd (record_move h a mid target u x cooldown w3))" for u x
    by (rule untouched_trans [OF w3 untouched_record_move])
  have direct: "untouched ?K w (snd (record_move h a mid target u x cooldown w1))" for u x
    by (rule untouched_trans [OF w1 untouched_record_move])
  have search: "untouched ?K w (snd (case net (mh_search_mid h target mid) w1 of
      (Inr (new_uid # _), w2) \<Rightarrow>
        (let (v, w3) = dbs h [] (query (get_folder_uid_validity_for_account a target)) w2;
             new_v = (case v of Inr (Some x) \<Rightarrow> x | _ \<Rightarrow> 0)
         in record_move h a mid target (as_i32 new_uid) new_v cooldown w3)
    | (_, w2) \<Rightarrow> (Skipped, w2)))"
    unfolding q using w2 found by (simp add: v Let_def flip: vv_def split: sum.split list.split)
  show ?thesis
  proof (cases r)
    case (Inl e)
    then show ?thesis using w1 by (simp add: move_email_def r)
  next
    case (Inr x)
    then show ?thesis
    proof (cases x)
      case None
      then show ?thesis using search Inr by (simp only: move_email_def r prod.case sum.case option.case)
    next
      case (Some y)
      then show ?thesis using direct Inr by (cases y) (simp add: move_email_def r)
    qed
  qed
qed

lemma untouched_file_to: "untouched {(a, pl_message_id p)} w (snd (file_to h a cooldown p target folders w))"
  by (simp add: file_to_def untouched_move_email split: option.split)

lemma untouched_file_resolved:
  "untouched {(a, pl_message_id p)} w (snd (file_resolved h a delim cooldown p target folders w))"
proof -
  obtain r w1 where r: "ensure_folder_path_for_filing h a target delim folders w = (r, w1)" by fastforce
  then have w1: "untouched {(a, pl_message_id p)} w w1" by (metis snd_conv untouched_ensure_folder)
  from w1 untouched_trans [OF w1 untouched_file_to] untouched_file_to show ?thesis
    by (auto simp: file_resolved_def r Let_def split: sum.split)
qed

lemma untouched_resolve_target: "untouched K w (snd (resolve_target h a target w))"
  unfolding resolve_target_def
  by (rule untouched_and_then [OF untouched_query])
    (auto intro!: untouched_and_then untouched_refresh split: option.split)

lemma untouched_file_one: "untouched {(a, pl_message_id p)} w (snd (file_one h a delim cooldown p w))"
  unfolding file_one_def Let_def
  by (rule untouched_and_then)
    (auto intro!: untouched_and_then untouched_resolve_target untouched_recommend
      simp: case_prod_beta untouched_file_resolved)

lemma untouched_file_all:
  "untouched ((\<lambda>p. (a, pl_message_id p)) ` set ps) w (snd (file_all h a delim cooldown ps w))"
proof (induction ps arbitrary: w)
  case (Cons p ps)
  let ?K = "(\<lambda>p. (a, pl_message_id p)) ` set (p # ps)"
  have one: "untouched ?K w (snd (file_one h a delim cooldown p w))" for w
    by (rule untouched_mono [OF untouched_file_one]) auto
  have rest: "untouched ?K w (snd (file_all h a delim cooldown ps w))" for w
    by (rule untouched_mono [OF Cons.IH]) auto
  have "untouched ?K w1 (snd (and_then (file_all h a delim cooldown ps w1) (\<lambda>os w2. (Inr (x # os), w2))))" for w1 x
    by (rule untouched_and_then [OF rest]) simp
  then show ?case by (simp only: file_all.simps) (rule untouched_and_then [OF one])
qed simp

section \<open>The run of the file command\<close>

text \<open>The condition of the file command's query and that of the snapshot.\<close>

lemma filing_is_pending_alt:
  "filing_is_pending now a m \<longleftrightarrow> em_account m = a \<and> em_location m \<noteq> None \<and> em_deleted_at m = None
     \<and> em_location_recommendation m \<noteq> None
     \<and> em_action_status m \<noteq> Some ''trashed'' \<and> em_action_status m \<noteq> Some ''junked''
     \<and> em_spam_status m \<noteq> Some ''spam'' \<and> em_phishing_status m \<noteq> Some ''phishing''
     \<and> em_threat_level m \<noteq> Some ''high'' \<and> em_threat_level m \<noteq> Some ''critical''
     \<and> em_user_pinned_folder m = None
     \<and> (case em_filing_lock_until m of None \<Rightarrow> True | Some t \<Rightarrow> t \<le> now)
     \<and> map_option (\<lambda>r. to_lower (sql_trim r)) (em_location_recommendation m)
         \<noteq> map_option (\<lambda>l. to_lower (sql_trim l)) (em_location m)"
  by (cases "em_location m"; cases "em_location_recommendation m")
    (simp_all add: filing_is_pending_def mail_safe_def)

lemma set_pending:
  "p \<in> set (get_emails_with_pending_location_for_account now a ms) \<longleftrightarrow>
     (\<exists>m \<in> set (ms_emails ms). p = pending_of m \<and> filing_is_pending now a m)"
  by (auto simp: get_emails_with_pending_location_for_account_def filing_is_pending_alt)

definition file_start :: "'i mail_host \<Rightarrow> 'i mail_world \<Rightarrow> timestamp" where
  "file_start h w = mh_clock h (mw_tick w)"

lemma run_file_untouched:
  "untouched ((\<lambda>p. (a, pl_message_id p)) ` set (get_emails_with_pending_location_for_account (file_start h w) a (mw_mail w)))
     w (snd (run_file_for_account h dry a w))"
proof -
  let ?pend = "get_emails_with_pending_location_for_account (file_start h w) a (mw_mail w)"
  let ?K = "(\<lambda>p. (a, pl_message_id p)) ` set ?pend"
  define rest where "rest = (\<lambda>pending w1. and_then (dbs h [] (query (list_imap_folders_for_account a)) w1) (\<lambda>folders w2.
      let delim = account_delimiter folders in
      if dry
      then (let in_place = (\<lambda>p. case pl_location p of None \<Rightarrow> False
                                | Some l \<Rightarrow> eq_ignore_ascii_case l (file_target h delim p));
                moves = filter (\<lambda>p. \<not> in_place p) pending
            in (Inr (Planned (map (\<lambda>p. (pl_message_id p, file_target h delim p)) moves)
                      (length pending - length moves)), w2))
      else case mh_account h of
        Some e \<Rightarrow> (Inl (''Load account config'' # e), w2)
      | None \<Rightarrow> and_then (file_all h a delim (filing_move_cooldown_hours_from_env (mh_env h)) pending w2)
                  (\<lambda>os w3. (Inr (Applied os), w3))))"
  have rest: "untouched ((\<lambda>p. (a, pl_message_id p)) ` set ps) w1 (snd (rest ps w1))" for ps w1
    unfolding rest_def
    by (rule untouched_and_then [OF untouched_query])
      (auto simp: Let_def untouched_file_all intro!: untouched_and_then split: option.split)
  define first where
    "first = dbs h ''Get pending location'' (\<lambda>now ms. (get_emails_with_pending_location_for_account now a ms, ms)) w"
  obtain r w1 where d: "first = (r, w1)" by (cases first)
  have "untouched ?K w (snd first)" unfolding first_def by (rule untouched_query)
  then have w1: "untouched ?K w w1" by (simp add: d)
  show ?thesis
  proof (cases "mh_setup h")
    case None
    note hs = this
    show ?thesis
    proof (cases r)
      case (Inl e)
      then show ?thesis using w1 hs by (simp add: run_file_for_account_def d flip: first_def)
    next
      case (Inr pend)
      then have pend: "pend = ?pend"
        using d by (auto simp: first_def dbs_def Let_def file_start_def split: option.splits)
      have eq: "run_file_for_account h dry a w = (if ?pend = [] then (Inr (Applied []), w1) else rest ?pend w1)"
        unfolding run_file_for_account_def hs first_def [symmetric] d Inr pend rest_def
        by (simp only: option.case and_then_simps)
      show ?thesis
        unfolding eq using w1 untouched_trans [OF w1 rest [of ?pend w1]]
        by (cases "?pend = []") (simp_all only: if_True if_False snd_conv refl)
    qed
  qed (simp add: run_file_for_account_def)
qed

section \<open>Where an email goes\<close>

definition listed :: "string \<Rightarrow> folder list \<Rightarrow> 'i mail_world \<Rightarrow> bool" where
  "listed a fs w \<longleftrightarrow> fs = list_imap_folders_for_account a (mw_mail w)"

definition good_target :: "string \<Rightarrow> string \<Rightarrow> 'i mail_world \<Rightarrow> bool" where
  "good_target a t w \<longleftrightarrow>
     (\<exists>f \<in> set (ms_folders (mw_mail w)). fo_account f = a \<and> fo_name f = t \<and> \<not> fo_noselect f)"

lemma find_folder_Some:
  "find_folder_case_insensitive fs x = Some f \<Longrightarrow> f \<in> set fs \<and> eq_ignore_ascii_case (fo_name f) x"
  by (auto simp: find_folder_case_insensitive_def dest: find_opt_Some)

lemma listed_good:
  "listed a fs w \<Longrightarrow> f \<in> set fs \<Longrightarrow> \<not> fo_noselect f \<Longrightarrow> good_target a (fo_name f) w"
  by (auto simp: listed_def good_target_def list_imap_folders_for_account_def)

lemma find_folder_cong:
  "eq_ignore_ascii_case x y \<Longrightarrow> find_folder_case_insensitive fs x = find_folder_case_insensitive fs y"
  by (simp add: find_folder_case_insensitive_def eq_ignore_ascii_case_def)

lemma query_listed:
  "dbs h what (query (list_imap_folders_for_account a)) w = (Inr fs, w') \<Longrightarrow> listed a fs w' \<and> mw_mail w' = mw_mail w"
  by (auto simp: dbs_def Let_def listed_def split: option.splits)

lemma refresh_listed: "refresh_folders_from_imap_for_account h a w = (Inr fs, w') \<Longrightarrow> listed a fs w'"
  by (auto simp: refresh_folders_from_imap_for_account_def and_then_Inr dest: query_listed)

lemma ensure_segments_listed:
  "ensure_segments h a target delim direct segs pref folders w = (Inr (t, fs), w') \<Longrightarrow> listed a folders w
   \<Longrightarrow> listed a fs w' \<and> (if segs = [] then t = pref else good_target a t w')"
proof (induction h a target delim direct segs pref folders w arbitrary: rule: ensure_segments.induct)
  case (2 h a target delim direct segment rest pref folders w)
  let ?req = "if pref = [] then segment else pref @ delim @ segment"
  let ?step = "\<lambda>f fs w1. if rest = [] \<and> fo_noselect f then (Inl (noselect_error f), w1)
                        else ensure_segments h a target delim direct rest (fo_name f) fs w1"
  have step: "listed a fs w' \<and> good_target a t w'"
    if "?step f fs0 w1 = (Inr (t, fs), w')" "listed a fs0 w1" "f \<in> set fs0" for f fs0 w1
  proof (cases "rest = []")
    case True
    with that have "\<not> fo_noselect f" "t = fo_name f" "fs = fs0" "w' = w1" by (auto split: if_splits)
    with that show ?thesis by (simp add: listed_good)
  next
    case False
    with that(1) have "ensure_segments h a target delim direct rest (fo_name f) fs0 w1 = (Inr (t, fs), w')" by simp
    with that False "2.IH" show ?thesis by (auto split: if_splits)
  qed
  show ?case
  proof (cases "find_folder_case_insensitive folders ?req")
    case (Some f)
    then have "?step f folders w = (Inr (t, fs), w')" using "2.prems"(1) by (simp only: ensure_segments.simps Let_def option.case)
    from step [OF this "2.prems"(2)] find_folder_Some [OF Some] show ?thesis by simp
  next
    case None
    obtain r w1 where r: "net (mh_create h ?req) w = (r, w1)" by fastforce
    obtain fs1 w2 f where fs1: "refresh_folders_from_imap_for_account h a w1 = (Inr fs1, w2)"
      and f: "find_folder_case_insensitive fs1 ?req = Some f" and st: "?step f fs1 w2 = (Inr (t, fs), w')"
    proof (cases r)
      case (Inl e)
      with None r "2.prems"(1) show ?thesis
        by (simp only: ensure_segments.simps Let_def option.case prod.case sum.case and_then_Inr)
          (fastforce split: option.splits intro: that)
    next
      case (Inr u)
      with None r "2.prems"(1) show ?thesis
        by (simp only: ensure_segments.simps Let_def option.case prod.case sum.case and_then_Inr)
          (fastforce split: option.splits intro: that)
    qed
    from step [OF st refresh_listed [OF fs1]] find_folder_Some [OF f] show ?thesis by simp
  qed
qed simp

lemma selectable_listed:
  "selectable_folder_name_after_create fs x = Inr (Some n) \<Longrightarrow> listed a fs w \<Longrightarrow> good_target a n w"
  by (auto simp: selectable_folder_name_after_create_def listed_good dest: find_folder_Some split: option.splits if_splits)

lemma ensure_folder_listed:
  assumes "ensure_folder_path_for_filing h a target delim folders w = (Inr (t, fs), w')" "listed a folders w"
  shows "listed a fs w' \<and> (path_segments delim target \<noteq> [] \<longrightarrow> good_target a t w')"
proof (cases "selectable_folder_name_after_create folders target")
  case (Inl e)
  then show ?thesis using assms by (simp add: ensure_folder_path_for_filing_def)
next
  case (Inr x)
  show ?thesis
  proof (cases x)
    case (Some n)
    then show ?thesis using assms Inr by (auto simp: ensure_folder_path_for_filing_def selectable_listed)
  next
    case None
    obtain r w1 where r: "net (mh_create h target) w = (r, w1)" by fastforce
    from assms(1) Inr None obtain fs1 w2 where fs1: "refresh_folders_from_imap_for_account h a w1 = (Inr fs1, w2)"
      and sel: "(case selectable_folder_name_after_create fs1 target of
           Inl e \<Rightarrow> (Inl e, w2)
         | Inr None \<Rightarrow> ensure_segments h a target delim (case r of Inl e \<Rightarrow> Some (err_full e) | Inr _ \<Rightarrow> None)
                        (path_segments delim target) [] fs1 w2
         | Inr (Some n) \<Rightarrow> (Inr (n, fs1), w2)) = (Inr (t, fs), w')"
      by (auto simp: ensure_folder_path_for_filing_def r Let_def and_then_Inr)
    note l = refresh_listed [OF fs1]
    show ?thesis
      using sel l ensure_segments_listed [OF _ l]
      by (auto simp: selectable_listed split: sum.splits option.splits if_splits)
  qed
qed

text \<open>The recording is the last statement, so its clock is the one before the current count.\<close>

definition settled :: "'i mail_host \<Rightarrow> string \<Rightarrow> string \<Rightarrow> string \<Rightarrow> int \<Rightarrow> 'i mail_world \<Rightarrow> bool" where
  "settled h a mid target cooldown w \<longleftrightarrow>
     (\<forall>m \<in> set (ms_emails (mw_mail w)). email_at a mid m \<longrightarrow>
        em_location m = Some target \<and> em_last_filed_by m = Some ''core''
        \<and> em_filing_lock_until m = Some (mh_clock h (mw_tick w - 1) + secs (3600 * max cooldown 1)))"

lemma record_filing_tables:
  "ms_emails (snd (record_system_filing_move_for_account now v ms))
     = sql_update (email_at (fv_account v) (fv_message_id v)) (filed_row now v) (ms_emails ms)"
  "ms_folders (snd (record_system_filing_move_for_account now v ms)) = ms_folders ms"
  by (simp_all add: record_system_filing_move_for_account_def Let_def case_prod_beta update_emails_def)

lemma filed_row_fields [simp]:
  "em_location (filed_row now v m) = Some (fv_location v)" "em_last_filed_by (filed_row now v m) = Some (fv_actor v)"
  "em_filing_lock_until (filed_row now v m) = Some (now + secs (3600 * max (fv_cooldown_hours v) 1))"
  "email_at a mid (filed_row now v m) = email_at a mid m"
  by (simp_all add: filed_row_def set_location_def email_at_def)

lemma record_move_settled:
  assumes "record_move h a mid target uid v cooldown w = (Filed, w')"
  shows "settled h a mid target cooldown w' \<and> ms_folders (mw_mail w') = ms_folders (mw_mail w)"
proof -
  let ?mv = "\<lparr>fv_account = a, fv_message_id = mid, fv_location = target, fv_uid = uid, fv_uid_validity = v,
    fv_actor = ''core'', fv_cooldown_hours = cooldown\<rparr>"
  from assms have w': "w' = w\<lparr>mw_tick := mw_tick w + 1,
      mw_mail := snd (record_system_filing_move_for_account (mh_clock h (mw_tick w)) ?mv (mw_mail w))\<rparr>"
    by (auto simp: record_move_def dbs_def Let_def case_prod_beta split: option.splits)
  have "em_location m = Some target \<and> em_last_filed_by m = Some ''core''
      \<and> em_filing_lock_until m = Some (mh_clock h (mw_tick w) + secs (3600 * max cooldown 1))"
    if m: "m \<in> set (ms_emails (mw_mail w'))" "email_at a mid m" for m
  proof -
    from m(1) have "m \<in> set (sql_update (email_at a mid) (filed_row (mh_clock h (mw_tick w)) ?mv) (ms_emails (mw_mail w)))"
      by (simp add: w' record_filing_tables)
    with m(2) obtain m0 where "m = filed_row (mh_clock h (mw_tick w)) ?mv m0" by (auto simp: set_sql_update)
    then show ?thesis by simp
  qed
  then show ?thesis by (auto simp: settled_def w' record_filing_tables)
qed

lemma mw_mail_net: "net op w = (r, w') \<Longrightarrow> mw_mail w' = mw_mail w"
  by (auto simp: net_def case_prod_beta)

lemma mw_mail_query: "dbs h what (query q) w = (r, w') \<Longrightarrow> mw_mail w' = mw_mail w"
  by (auto simp: dbs_def Let_def split: option.splits)

lemma move_email_settled:
  assumes "move_email h a mid from_mailbox uid target cooldown w = (Filed, w')"
  shows "settled h a mid target cooldown w' \<and> ms_folders (mw_mail w') = ms_folders (mw_mail w)"
proof -
  obtain r w1 where r: "net (mh_uid_move h from_mailbox uid target) w = (r, w1)" by fastforce
  note w1 = mw_mail_net [OF r]
  from assms consider (uid) u x where "r = Inr (Some (u, x))"
      "record_move h a mid target (as_i32 u) (as_i32 x) cooldown w1 = (Filed, w')"
    | (search) "r = Inr None"
    by (auto simp: move_email_def r split: sum.splits option.splits)
  then show ?thesis
  proof cases
    case uid
    then show ?thesis using record_move_settled [OF uid(2)] w1 by simp
  next
    case search
    obtain q w2 where q: "net (mh_search_mid h target mid) w1 = (q, w2)" by fastforce
    define vv where "vv = dbs h [] (query (get_folder_uid_validity_for_account a target)) w2"
    obtain v w3 where v: "vv = (v, w3)" by (cases vv)
    have w3: "mw_mail w3 = mw_mail w"
      using mw_mail_query [OF v [unfolded vv_def]] mw_mail_net [OF q] w1 by simp
    obtain u x where "record_move h a mid target (as_i32 u) x cooldown w3 = (Filed, w')"
      using assms search
      by (simp add: move_email_def r q Let_def v flip: vv_def split: sum.splits list.splits)
    from record_move_settled [OF this] w3 show ?thesis by simp
  qed
qed

lemma good_target_folders:
  "ms_folders (mw_mail w') = ms_folders (mw_mail w) \<Longrightarrow> good_target a t w' = good_target a t w"
  by (simp add: good_target_def)

lemma file_to_settled:
  assumes "file_to h a cooldown p target folders w = (Filed, w')"
  shows "settled h a (pl_message_id p) target cooldown w' \<and> ms_folders (mw_mail w') = ms_folders (mw_mail w)
    \<and> is_path_selectable_in_folders target folders"
  using assms by (auto simp: file_to_def dest: move_email_settled split: if_splits option.splits)

lemma file_resolved_settled:
  assumes f: "file_resolved h a delim cooldown p target folders w = (Filed, w')" and l: "listed a folders w"
    and exact: "\<And>f. find_folder_case_insensitive folders target = Some f \<Longrightarrow> fo_name f = target"
  shows "\<exists>t. settled h a (pl_message_id p) t cooldown w'
    \<and> (find_folder_case_insensitive folders target \<noteq> None \<or> path_segments delim target \<noteq> [] \<longrightarrow> good_target a t w')"
proof (cases "list_ex (\<lambda>f. eq_ignore_ascii_case (fo_name f) target) folders")
  case True
  then obtain f where f': "find_folder_case_insensitive folders target = Some f"
    by (cases "find_folder_case_insensitive folders target")
      (auto simp: find_folder_case_insensitive_def find_opt_None list_ex_iff)
  from True f have to: "file_to h a cooldown p target folders w = (Filed, w')"
    by (auto simp: file_resolved_def Let_def split: if_splits)
  note st = file_to_settled [OF this]
  with f' have "\<not> fo_noselect f" by (simp add: is_path_selectable_in_folders_def)
  with listed_good [OF l] find_folder_Some [OF f'] exact [OF f'] have "good_target a target w" by force
  with st show ?thesis using good_target_folders by blast
next
  case False
  obtain r w1 where r: "ensure_folder_path_for_filing h a target delim folders w = (r, w1)" by fastforce
  from f False r obtain t fs where t: "r = Inr (t, fs)" "file_to h a cooldown p t fs w1 = (Filed, w')"
    by (auto simp: file_resolved_def Let_def split: if_splits sum.splits)
  from r t ensure_folder_listed [of h a target delim folders w t fs w1] l
  have "path_segments delim target \<noteq> [] \<longrightarrow> good_target a t w1" by simp
  moreover have "find_folder_case_insensitive folders target = None"
    using False by (auto simp: find_folder_case_insensitive_def find_opt_None list_ex_iff)
  ultimately show ?thesis using file_to_settled [OF t(2)] good_target_folders by blast
qed

lemma resolve_target_listed:
  assumes "resolve_target h a target w = (Inr (t, fs), w')"
  shows "listed a fs w' \<and> (t = target \<or> (\<exists>f \<in> set fs. fo_name f = t \<and> eq_ignore_ascii_case t target))
    \<and> (\<forall>f. find_folder_case_insensitive fs t = Some f \<longrightarrow> fo_name f = t)"
proof -
  have exact: "fo_name f' = fo_name f"
    if "find_folder_case_insensitive gs target = Some f" "find_folder_case_insensitive gs (fo_name f) = Some f'" for gs f f'
    using that find_folder_Some [OF that(1)] find_folder_cong [of "fo_name f" target gs] by simp
  from assms obtain fs0 w1 where q: "dbs h [] (query (list_imap_folders_for_account a)) w = (Inr fs0, w1)"
    and rest: "(case find_folder_case_insensitive fs0 target of
         Some f \<Rightarrow> (Inr (fo_name f, fs0), w1)
       | None \<Rightarrow> and_then (refresh_folders_from_imap_for_account h a w1) (\<lambda>fs w2.
             (Inr (case find_folder_case_insensitive fs target of Some f \<Rightarrow> fo_name f | None \<Rightarrow> target, fs), w2)))
       = (Inr (t, fs), w')"
    by (auto simp: resolve_target_def and_then_Inr)
  show ?thesis
  proof (cases "find_folder_case_insensitive fs0 target")
    case (Some f)
    with rest q query_listed [OF q] find_folder_Some [OF Some] exact [OF Some] show ?thesis by auto
  next
    case None
    with rest obtain w2 where fs: "refresh_folders_from_imap_for_account h a w1 = (Inr fs, w2)" and w': "w' = w2"
      and t: "t = (case find_folder_case_insensitive fs target of Some f \<Rightarrow> fo_name f | None \<Rightarrow> target)"
      by (auto simp: and_then_Inr)
    show ?thesis
      using refresh_listed [OF fs] t exact w'
      by (cases "find_folder_case_insensitive fs target") (auto dest: find_folder_Some)
  qed
qed

end
