(* ===== verification/FilingProps.thy ===== *)
theory FilingProps
  imports FilingFacts
begin

text \<open>
  The properties of the mail tables and of locating, filing and cleaning up, with a concrete account
  for their witnesses: a server that lists a few folders and grants every \<^verbatim>\<open>MOVE\<close>.
\<close>

section \<open>An example account\<close>

definition box_list :: "mailbox list" where
  "box_list = [(''INBOX'', False, Some ''/''), (''Trash'', False, Some ''/''), (''Work'', True, Some ''/''),
               (''Work/Dev'', False, Some ''/'')]"

definition easy_host :: "unit mail_host" where
  "easy_host =
     \<lparr>mh_env = (\<lambda>_. None), mh_clock = (\<lambda>n. 1000 + int n), mh_fails = (\<lambda>_. None), mh_setup = None, mh_account = None,
      mh_list = (\<lambda>i. (Inr box_list, i)), mh_create = (\<lambda>_ i. (Inr (), i)), mh_remove = (\<lambda>_ i. (Inr (), i)),
      mh_uid_move = (\<lambda>_ _ _ i. (Inr (Some (70, 1)), i)), mh_move_message = (\<lambda>_ _ _ i. (Inr (), i)),
      mh_ensure = (\<lambda>_ i. (Inr (), i)), mh_search_mid = (\<lambda>_ _ i. (Inr [70], i)), mh_agent = (\<lambda>_ i. (Inr JNull, i))\<rparr>"

definition dev_mail :: email where
  "dev_mail = (new_email ''a'' ''m1'')\<lparr>em_location := Some ''INBOX'', em_uid := Some 7, em_uid_validity := Some 1,
     em_location_recommendation := Some ''work/dev'', em_analyzed_at := Some 10\<rparr>"

definition pinned_mail :: email where
  "pinned_mail = dev_mail\<lparr>em_message_id := ''m2'', em_user_pinned_folder := Some ''INBOX''\<rparr>"

definition example_store :: mail_store where
  "example_store = snd (sync_folders_from_imap_for_account ''a'' box_list
     (empty_mail_store\<lparr>ms_emails := [dev_mail, pinned_mail]\<rparr>))"

definition example_mail_world :: "unit mail_world" where
  "example_mail_world = \<lparr>mw_mail = example_store, mw_imap = (), mw_tick = 0\<rparr>"

section \<open>Folder paths\<close>

text \<open>The canonical form of a folder path is stable: canonicalizing it again changes nothing, no
  rewriting applies to it any more, and each of its segments is clean and not empty. So a stored
  recommendation is normalized once and for all.\<close>

theorem canonical_path_stable:
  assumes "plain_delim d"
  shows "canonicalize_location_folder_path policy (canonicalize_location_folder_path policy path [d]) [d]
       = canonicalize_location_folder_path policy path [d]
    \<and> canonical_segments (path_segments [d] (canonicalize_location_folder_path policy path [d])) = None
    \<and> list_all (\<lambda>s. s \<noteq> [] \<and> clean_segment policy s = s)
        (path_segments [d] (canonicalize_location_folder_path policy path [d]))"
proof -
  obtain segs where segs: "list_all (good_segment policy d) segs" "canonical_segments segs = None"
      "canonicalize_location_folder_path policy path [d] = join [d] segs"
    using canonicalize_form [OF assms] by blast
  then show ?thesis
    using canonicalize_join [OF segs(1,2)] good_segments_path [OF segs(1)]
    by (auto simp: list_all_iff good_segment_def)
qed

lemma slash_plain: "plain_delim (CHR ''/'')" and dot_plain: "plain_delim (CHR ''.'')"
  by code_simp+

lemma canonical_path_stable_witness:
  "canonicalize_location_folder_path ''title-case''
     (canonicalize_location_folder_path ''title-case'' '' work // R&D:notes '' ''/'') ''/''
   = canonicalize_location_folder_path ''title-case'' '' work // R&D:notes '' ''/''"
  using canonical_path_stable [OF slash_plain, of "''title-case''" "'' work // R&D:notes ''"] by blast

text \<open>A recommendation is stored with the delimiter \<^verbatim>\<open>/\<close> but filed with the server's. Where that
  is a dot, the slash is no delimiter: the two folders become one with a slash in its name.\<close>

lemma locate_and_filing_disagree:
  "canonicalize_location_folder_path ''title-case'' ''Work/Dev'' ''/'' = ''Work/Dev''"
  "canonicalize_location_folder_path ''title-case'' ''Work/Dev'' ''.'' = ''Work/dev''"
  "should_create_missing_folder_for_filing ''Work/dev'' ''.'' False = False"
  by code_simp+

section \<open>The mail tables\<close>



text \<open>C33: a statement issued for one account changes no email and no folder of another.\<close>

theorem mail_account_isolation:
  assumes "mail_step a ms ms'"
  shows "filter (\<lambda>m. em_account m \<noteq> a) (ms_emails ms') = filter (\<lambda>m. em_account m \<noteq> a) (ms_emails ms)
    \<and> filter (\<lambda>f. fo_account f \<noteq> a) (ms_folders ms') = filter (\<lambda>f. fo_account f \<noteq> a) (ms_folders ms)"
  using mail_step_others [OF assms] by (simp add: others_def)

lemma mail_account_isolation_witness:
  "filter (\<lambda>m. em_account m \<noteq> ''b'') (ms_emails (snd (clear_folder_uids_for_account ''b'' ''INBOX'' example_store)))
   = filter (\<lambda>m. em_account m \<noteq> ''b'') (ms_emails example_store)"
  by (rule mail_account_isolation [OF mail_step.clear, THEN conjunct1])

text \<open>C37: the number the completeness snapshot reports as waiting to be filed is the number of emails the
  file command selects at that moment, though the two conditions are written differently.\<close>

theorem filing_pending_count_exact:
  "sn_filing_pending (db_completeness_snapshot_for_account now a ms)
   = int (length (get_emails_with_pending_location_for_account now a ms))"
  by (simp add: db_completeness_snapshot_for_account_def Let_def sql_count_def
      get_emails_with_pending_location_for_account_def filing_is_pending_alt [abs_def])

section \<open>Filing\<close>

text \<open>C7: the file command changes no email that was not waiting to be filed when it started: mail that
  is spam, phishing or a high threat, pinned by the user, locked by an earlier move, trashed or already in
  place keeps every column, whatever the server answers and whichever statement fails.\<close>

theorem filing_spares_other_mail:
  assumes ok: "distinct (map (\<lambda>m. (em_account m, em_message_id m)) (ms_emails (mw_mail w)))"
    and m: "m \<in> set (ms_emails (mw_mail w))" and np: "\<not> filing_is_pending (file_start h w) a m"
  shows "m \<in> set (ms_emails (mw_mail (snd (run_file_for_account h dry_run a w))))"
proof (rule untouched_member [OF run_file_untouched m])
  show "email_key m \<notin> (\<lambda>p. (a, pl_message_id p)) `
      set (get_emails_with_pending_location_for_account (file_start h w) a (mw_mail w))"
  proof
    assume "email_key m \<in> (\<lambda>p. (a, pl_message_id p)) `
      set (get_emails_with_pending_location_for_account (file_start h w) a (mw_mail w))"
    then obtain m' where m': "m' \<in> set (ms_emails (mw_mail w))" "filing_is_pending (file_start h w) a m'"
      "email_key m = email_key m'"
      by (auto simp: set_pending pending_of_def filing_is_pending_def)
    with ok m have "m = m'" by (metis (mono_tags, lifting) distinct_map inj_onD)
    with m'(2) np show False by simp
  qed
qed

lemma filing_spares_other_mail_witness:
  "pinned_mail \<in> set (ms_emails (mw_mail (snd (run_file_for_account easy_host False ''a'' example_mail_world))))"
proof (rule filing_spares_other_mail)
  have em: "ms_emails (mw_mail example_mail_world) = [dev_mail, pinned_mail]"
    by (simp add: example_mail_world_def example_store_def sync_folders_from_imap_for_account_def
        recompute_imap_folder_priority_for_account_def upsert_imap_folders_from_list_def box_list_def Let_def
        upsert_folder_def)
  show "distinct (map (\<lambda>m. (em_account m, em_message_id m)) (ms_emails (mw_mail example_mail_world)))"
    by (simp add: em dev_mail_def pinned_mail_def new_email_def)
  show "pinned_mail \<in> set (ms_emails (mw_mail example_mail_world))" by (simp add: em)
  show "\<not> filing_is_pending (file_start easy_host example_mail_world) ''a'' pinned_mail"
    by (simp add: filing_is_pending_def pinned_mail_def)
qed


lemma filed_example: "case file_one easy_host ''a'' ''/'' 720 (pending_of dev_mail) example_mail_world of (r, w') \<Rightarrow> r = Inr Filed"
  by code_simp


text \<open>A dry run changes neither the mail tables nor the server.\<close>

theorem dry_run_changes_nothing:
  "mw_mail (snd (run_file_for_account h True a w)) = mw_mail w \<and> mw_imap (snd (run_file_for_account h True a w)) = mw_imap w"
  by (auto simp: run_file_for_account_def and_then_def dbs_def Let_def split: option.splits)

text \<open>The recorded UIDVALIDITY plays no part: a UID from before the folder was renumbered is moved as is.\<close>

lemma filing_ignores_uid_validity: "file_one h a delim cooldown (p\<lparr>pl_uid_validity := v\<rparr>) w = file_one h a delim cooldown p w"
proof -
  have "file_to h a cooldown (p\<lparr>pl_uid_validity := v\<rparr>) = file_to h a cooldown p"
    by (intro ext) (simp add: file_to_def cong: option.case_cong if_cong)
  then have "file_resolved h a delim cooldown (p\<lparr>pl_uid_validity := v\<rparr>) = file_resolved h a delim cooldown p"
    by (intro ext) (simp add: file_resolved_def cong: if_cong sum.case_cong prod.case_cong)
  then show ?thesis by (simp add: file_one_def file_target_def pl_current_def Let_def cong: if_cong)
qed

text \<open>A recommendation without any usable character becomes the empty path, and with permission to
  create folders the empty path is not refused.\<close>

lemma empty_target_not_refused:
  "canonicalize_location_folder_path ''title-case'' ''...'' ''/'' = []"
  "should_create_missing_folder_for_filing [] ''/'' True"
  by code_simp+

section \<open>User moves\<close>

text \<open>When an envelope shows a known email in another folder than the one recorded, the email is
  pinned there, locked for 720 hours and marked as moved by the user, and it is not waiting to be filed
  at any later time, so no run of the file command touches it again; the move is recorded as an event.\<close>

theorem user_move_pins:
  assumes m: "find_opt (email_at a (ev_message_id e)) (ms_emails ms) = Some m"
    and u: "distinct (map (\<lambda>m. (em_account m, em_message_id m)) (ms_emails ms))"
    and loc: "em_location m = Some old" "ev_location e = Some new" "to_lower new \<noteq> to_lower old"
  shows "(\<forall>m' \<in> set (ms_emails (upsert_envelope now a e ms)). email_at a (ev_message_id e) m' \<longrightarrow>
      em_location m' = Some new \<and> em_user_pinned_folder m' = Some new \<and> em_last_filed_by m' = Some ''user''
      \<and> em_filing_lock_until m' = Some (now + secs (720 * 3600)) \<and> em_move_count m' = em_move_count m + 1
      \<and> (\<forall>t. \<not> filing_is_pending t a m'))
    \<and> (\<exists>ev. ms_events (upsert_envelope now a e ms) = ms_events ms @ [ev] \<and> le_event_type ev = ''user_moved''
        \<and> le_from ev = Some old \<and> le_to ev = new)"
proof
  let ?p = "email_at a (ev_message_id e)"
  have mp: "?p m" "m \<in> set (ms_emails ms)" using find_opt_Some [OF m] by auto
  have moved: "moved_by_user e m" using loc by (simp add: moved_by_user_def)
  have only: "x = m" if "?p x" "x \<in> set (ms_emails ms)" for x
    using that mp u by (auto simp: email_at_def distinct_map inj_on_def)
  have ex: "sql_exists ?p (ms_emails ms)" using mp by (auto simp: sql_exists_iff)
  have emails: "ms_emails (upsert_envelope now a e ms) = sql_update ?p (merge_envelope now e) (ms_emails ms)"
    using ex by (simp add: upsert_envelope_def Let_def)
  show "\<forall>m' \<in> set (ms_emails (upsert_envelope now a e ms)). ?p m' \<longrightarrow>
      em_location m' = Some new \<and> em_user_pinned_folder m' = Some new \<and> em_last_filed_by m' = Some ''user''
      \<and> em_filing_lock_until m' = Some (now + secs (720 * 3600)) \<and> em_move_count m' = em_move_count m + 1
      \<and> (\<forall>t. \<not> filing_is_pending t a m')"
  proof (intro ballI impI)
    fix m' assume m': "m' \<in> set (ms_emails (upsert_envelope now a e ms))" "?p m'"
    then obtain x where "x \<in> set (ms_emails ms)" "?p x" "m' = merge_envelope now e x"
      unfolding emails by (auto simp: set_sql_update)
    with only have "m' = merge_envelope now e m" by blast
    then show "em_location m' = Some new \<and> em_user_pinned_folder m' = Some new \<and> em_last_filed_by m' = Some ''user''
      \<and> em_filing_lock_until m' = Some (now + secs (720 * 3600)) \<and> em_move_count m' = em_move_count m + 1
      \<and> (\<forall>t. \<not> filing_is_pending t a m')"
      using moved loc by (simp add: merge_envelope_def Let_def coalesce_def filing_is_pending_def)
  qed
  have "find_opt (\<lambda>m. ?p m \<and> moved_by_user e m) (ms_emails ms) = Some m"
  proof (cases "find_opt (\<lambda>m. ?p m \<and> moved_by_user e m) (ms_emails ms)")
    case None
    then show ?thesis using mp moved by (simp add: find_opt_None)
  next
    case (Some x)
    then show ?thesis using find_opt_Some [OF Some] only by auto
  qed
  then show "\<exists>ev. ms_events (upsert_envelope now a e ms) = ms_events ms @ [ev] \<and> le_event_type ev = ''user_moved''
      \<and> le_from ev = Some old \<and> le_to ev = new"
    using loc by (auto simp: upsert_envelope_def record_user_move_def Let_def split: option.splits)
qed

definition moved_envelope :: envelope_row where
  "moved_envelope = \<lparr>ev_message_id = ''m1'', ev_location = Some ''Work/Dev'', ev_uid = Some 9, ev_uid_validity = Some 1,
     ev_subject = None, ev_sender = Some ''x@y.org'', ev_to = [], ev_cc = [], ev_bcc = [], ev_received_date = None\<rparr>"

lemma user_move_pins_witness:
  "\<exists>ev. ms_events (upsert_envelope 50 ''a'' moved_envelope (empty_mail_store\<lparr>ms_emails := [dev_mail]\<rparr>)) = [ev]
     \<and> le_event_type ev = ''user_moved'' \<and> le_to ev = ''Work/Dev''"
proof -
  let ?ms = "empty_mail_store\<lparr>ms_emails := [dev_mail]\<rparr>"
  have "find_opt (email_at ''a'' (ev_message_id moved_envelope)) (ms_emails ?ms) = Some dev_mail"
    and "distinct (map (\<lambda>m. (em_account m, em_message_id m)) (ms_emails ?ms))"
    and "em_location dev_mail = Some ''INBOX''" and "ev_location moved_envelope = Some ''Work/Dev''"
    and "to_lower ''Work/Dev'' \<noteq> to_lower ''INBOX''"
    by code_simp+
  from user_move_pins [OF this, of 50] show ?thesis by (auto simp: empty_mail_store_def)
qed

section \<open>Lifecycle\<close>

lemma lifecycle_mark_fails:
  assumes "m \<in> set (ms_emails (mw_mail w))" "em_account m = a"
  shows "\<exists>e w'. mark_lifecycle_trashed h a (em_message_id m) w = (Inl e, w')"
proof -
  have "\<not> email_checks (x\<lparr>em_action_status := Some ''lifecycle_trashed'', em_action_applied_at := t\<rparr>)" for x t
    by (simp add: email_checks_def action_status_check_def null_or_in_def)
  then obtain e where e: "mark_email_action_applied_for_account (mh_clock h (mw_tick w)) a (em_message_id m)
      ''lifecycle_trashed'' (mw_mail w) = (Inl e, mw_mail w)"
    using assms by (fastforce simp: mark_email_action_applied_for_account_def update_emails_checked_def list_all_iff email_at_def)
  show ?thesis
    by (cases "mh_fails h (mw_tick w)")
      (simp_all add: mark_lifecycle_trashed_def dbs_def Let_def join_result_def e)
qed

lemma lifecycle_one_false:
  assumes "m \<in> set (ms_emails (mw_mail w))" "em_account m = a" "lifecycle_one h a cfg m w = (Inr b, w')"
  shows "\<not> b \<and> mw_mail w' = mw_mail w"
proof -
  have no: "mark_lifecycle_trashed h a (em_message_id m) w1 \<noteq> (Inr b, w')" if "mw_mail w1 = mw_mail w" for w1
    using lifecycle_mark_fails [of m w1 a h] assms(1,2) that by auto
  show ?thesis
    using assms(3) no
    by (auto simp: lifecycle_one_def Let_def dest!: mw_mail_net split: if_splits option.splits prod.splits sum.splits)
qed

lemma lifecycle_all_none:
  "list_all (\<lambda>m. m \<in> set (ms_emails (mw_mail w)) \<and> em_account m = a) ms \<Longrightarrow> lifecycle_all h a cfg ms n w = (Inr k, w')
   \<Longrightarrow> k = n \<and> mw_mail w' = mw_mail w"
proof (induction ms arbitrary: n w)
  case (Cons m ms)
  then obtain b w1 where one: "lifecycle_one h a cfg m w = (Inr b, w1)"
    and rest: "lifecycle_all h a cfg ms (if b then n + 1 else n) w1 = (Inr k, w')"
    by (auto simp: and_then_Inr)
  from lifecycle_one_false [OF _ _ one] Cons.prems(1) have b: "\<not> b" "mw_mail w1 = mw_mail w" by auto
  with Cons.IH [OF _ rest] Cons.prems(1) show ?case by simp
qed simp


definition stuck_host :: "unit mail_host" where
  "stuck_host = easy_host\<lparr>mh_move_message := (\<lambda>_ _ _ i. (Inl [''no''], i)), mh_search_mid := (\<lambda>_ _ i. (Inl [''timeout''], i)),
     mh_uid_move := (\<lambda>_ _ _ i. (Inl [''no''], i))\<rparr>"

definition old_code :: email where
  "old_code = dev_mail\<lparr>em_otp_status := Some ''otp'', em_otp_expires := Some 20, em_action_status := Some ''none''\<rparr>"

definition old_code_world :: "unit mail_world" where
  "old_code_world = \<lparr>mw_mail = empty_mail_store\<lparr>ms_emails := [old_code]\<rparr>, mw_imap = (), mw_tick = 0\<rparr>"

definition lifecycle_example :: lifecycle_config where
  "lifecycle_example = lifecycle_config_from_env (\<lambda>_. None)"


section \<open>Orphans\<close>

lemma find_orphan_fails:
  assumes "\<And>f m i. mh_search_mid h f m i = (Inl (e f m), i)"
  shows "find_orphan h a mid names w = (False, w)"
proof (induction names)
  case (Cons f names)
  have "net (mh_search_mid h f mid) w = (Inl (e f mid), w)" by (simp add: net_def assms)
  with Cons show ?case by simp
qed simp

lemma find_orphans_fail:
  assumes "\<And>f m i. mh_search_mid h f m i = (Inl (e f m), i)"
  shows "find_orphans h a mids names w = (mids, w)"
  by (induction mids) (simp_all add: find_orphan_fails [OF assms])

lemma mark_lost_marks:
  assumes nf: "\<And>n. mh_fails h n = None"
  shows "m \<in> set (ms_emails (mw_mail (mark_lost h a mids w))) \<Longrightarrow> em_account m = a
    \<Longrightarrow> em_message_id m \<in> set mids \<or> (\<forall>m0 \<in> set (ms_emails (mw_mail w)). email_key m0 = email_key m \<longrightarrow> em_deleted_at m0 \<noteq> None)
    \<Longrightarrow> em_deleted_at m \<noteq> None"
proof (induction mids arbitrary: w)
  case (Cons mid mids)
  let ?w1 = "snd (dbs h ''mark_email_deleted_from_server'' (\<lambda>now. mark_email_deleted_from_server_for_account now a mid) w)"
  have e: "ms_emails (mw_mail ?w1)
      = sql_update (email_at a mid) (\<lambda>m. m\<lparr>em_deleted_at := Some (mh_clock h (mw_tick w))\<rparr>) (ms_emails (mw_mail w))"
    by (simp add: dbs_def nf Let_def mark_email_deleted_from_server_for_account_def update_emails_def)
  show ?case
  proof (rule Cons.IH [of ?w1])
    show "m \<in> set (ms_emails (mw_mail (mark_lost h a mids ?w1)))" using Cons.prems(1) by simp
    show "em_message_id m \<in> set mids \<or> (\<forall>m0 \<in> set (ms_emails (mw_mail ?w1)). email_key m0 = email_key m \<longrightarrow> em_deleted_at m0 \<noteq> None)"
      using Cons.prems(2,3) by (auto simp: e set_sql_update email_at_def)
  qed (rule Cons.prems(2))
qed auto

text \<open>C35: a failed search counts as "not found": when the server answers no search at all, resolving the
  orphans of the default account marks every one of them as deleted from the server.\<close>

theorem failed_searches_delete_orphans:
  assumes up: "mh_setup h = None" "mh_account h = None" "\<And>n. mh_fails h n = None"
    and down: "\<And>f m i. mh_search_mid h f m i = (Inl (e f m), i)"
    and orphans: "get_orphan_message_ids_for_account default_account_id (mw_mail w) \<noteq> []"
    and folders: "\<exists>f \<in> set (ms_folders (mw_mail w)). fo_account f = default_account_id \<and> \<not> fo_noselect f"
  shows "fst (run_resolve_orphans h w) = Inr (0, length (get_orphan_message_ids_for_account default_account_id (mw_mail w)))
    \<and> (\<forall>m \<in> set (ms_emails (mw_mail (snd (run_resolve_orphans h w)))).
         em_account m = default_account_id
         \<and> em_message_id m \<in> set (get_orphan_message_ids_for_account default_account_id (mw_mail w)) \<longrightarrow> em_deleted_at m \<noteq> None)"
proof -
  define orph where "orph = get_orphan_message_ids_for_account default_account_id (mw_mail w)"
  define names where "names = map fo_name (filter (\<lambda>f. \<not> fo_noselect f) (list_imap_folders_for_account default_account_id (mw_mail w)))"
  have n: "names \<noteq> []" using folders by (auto simp: names_def list_imap_folders_for_account_def filter_empty_conv)
  let ?w2 = "w\<lparr>mw_tick := Suc (Suc (mw_tick w))\<rparr>"
  have "run_resolve_orphans h w = (Inr (0, length orph), mark_lost h default_account_id orph ?w2)"
    using n n [unfolded names_def map_is_Nil_conv] orphans
    by (simp add: run_resolve_orphans_def up dbs_def Let_def find_orphans_fail [OF down] flip: orph_def names_def)
  then show ?thesis using mark_lost_marks [OF up(3)] by (auto simp flip: orph_def)
qed

definition orphan_world :: "unit mail_world" where
  "orphan_world = \<lparr>mw_mail = empty_mail_store\<lparr>ms_emails := [new_email ''default'' ''m9''],
     ms_folders := [new_folder ''default'' ''INBOX'' (Some ''/'') False]\<rparr>, mw_imap = (), mw_tick = 0\<rparr>"

lemma failed_searches_delete_orphans_witness: "fst (run_resolve_orphans stuck_host orphan_world) = Inr (0, 1)"
proof -
  have o: "get_orphan_message_ids_for_account default_account_id (mw_mail orphan_world) = [''m9'']" by code_simp
  show ?thesis
    using failed_searches_delete_orphans [of stuck_host "\<lambda>_ _. [''timeout'']" orphan_world]
    by (simp add: o) (simp add: stuck_host_def easy_host_def orphan_world_def new_folder_def default_account_id_def)
qed

section \<open>Consolidation\<close>

lemma merge_all_fails:
  assumes nf: "\<And>n. mh_fails h n = None" and mv: "\<And>s u t i. mh_uid_move h s u t i = (Inl (e s u t), i)"
  shows "\<exists>k. merge_all h a p mids n w = (Inr n, w\<lparr>mw_tick := k\<rparr>)"
proof (induction mids arbitrary: w)
  case Nil
  show ?case by (intro exI [of _ "mw_tick w"]) simp
next
  case (Cons mid mids)
  have "\<exists>k. merge_one h a p mid w = (Inr False, w\<lparr>mw_tick := k\<rparr>)"
    by (auto simp: merge_one_def dbs_def nf Let_def net_def mv split: option.split)
  then obtain k where k: "merge_one h a p mid w = (Inr False, w\<lparr>mw_tick := k\<rparr>)" by blast
  obtain j where "merge_all h a p mids n (w\<lparr>mw_tick := k\<rparr>) = (Inr n, w\<lparr>mw_tick := k, mw_tick := j\<rparr>)" using Cons by blast
  with k show ?case by (intro exI [of _ j]) simp
qed


definition note_host :: "string list mail_host" where
  "note_host = \<lparr>mh_env = (\<lambda>_. None), mh_clock = (\<lambda>n. 1000 + int n), mh_fails = (\<lambda>_. None), mh_setup = None, mh_account = None,
      mh_list = (\<lambda>i. (Inr [], i)), mh_create = (\<lambda>_ i. (Inr (), i)), mh_remove = (\<lambda>f i. (Inr (), f # i)),
      mh_uid_move = (\<lambda>_ _ _ i. (Inl [''no''], i)), mh_move_message = (\<lambda>_ _ _ i. (Inr (), i)),
      mh_ensure = (\<lambda>_ i. (Inr (), i)), mh_search_mid = (\<lambda>_ _ i. (Inr [70], i)), mh_agent = (\<lambda>_ i. (Inr JNull, i))\<rparr>"


end
