(* ===== verification/ResultNormalization.thy ===== *)
theory ResultNormalization
  imports RunSteps
begin

text \<open>
  \<^verbatim>\<open>src/email_analysis/result_normalization.rs\<close>: from what a model answers about an email to the columns
  of the mail tables. A status is taken only when it is one the tables allow; a category or a type can be
  found in another field; a verdict of spam or marketing is revised by what the result and the email itself
  say, unless there is a threat.

  \<open>shown\<close> is \<^verbatim>\<open>serde_json\<close>'s text of a value. Token usage is not kept.
\<close>

section \<open>The values the tables allow\<close>

definition spam_status_allowed :: "string list" where
  "spam_status_allowed = [''spam'', ''not-spam'']"

definition phishing_status_allowed :: "string list" where
  "phishing_status_allowed = [''phishing'', ''not-phishing'']"

definition marketing_status_allowed :: "string list" where
  "marketing_status_allowed = [''marketing'', ''not-marketing'']"

definition otp_status_allowed :: "string list" where
  "otp_status_allowed = [''otp'', ''magic_link'', ''password_reset'', ''not_otp'']"

definition threat_level_allowed :: "string list" where
  "threat_level_allowed = [''none'', ''low'', ''medium'', ''high'', ''critical'']"

definition category_allowed :: "string list" where
  "category_allowed =
     [''personal'', ''work'', ''volunteering'', ''financial'', ''shopping'', ''social'', ''travel'', ''health'', ''education'']"

definition email_type_allowed :: "string list" where
  "email_type_allowed =
     [''newsletter'', ''announcement'', ''notification'', ''actionable'', ''conversation'', ''transactional'',
      ''receipt'', ''reference'']"

record analysis =
  ar_spam_status :: "string option"
  ar_phishing_status :: "string option"
  ar_marketing_status :: "string option"
  ar_otp_status :: "string option"
  ar_otp_code :: "string option"
  ar_otp_expires :: "timestamp option"
  ar_threat_level :: "string option"
  ar_threat_indicators :: "string list option"
  ar_ai_summary :: "json option"
  ar_human_summary :: "string option"
  ar_category :: "string option"
  ar_subcategory :: "string option"
  ar_organization :: "string option"
  ar_topic :: "string option"
  ar_email_type :: "string option"
  ar_location_recommendation :: "string option"
  ar_offer_expires :: "timestamp option"
  ar_confidence :: "rat option"
  ar_analyzed_by :: "string option"
  ar_queued_for_frontier :: bool

section \<open>Single values\<close>

definition pick_allowed :: "string list \<Rightarrow> string \<Rightarrow> string option" where
  "pick_allowed allowed s = find_opt (\<lambda>v. v = s) allowed"

definition normalize_spam_status :: "string option \<Rightarrow> string option" where
  "normalize_spam_status x =
     Option.bind x (\<lambda>v. let s = to_lower (trim v) in
       if s = [] then None else pick_allowed spam_status_allowed (if s = ''not_spam'' then ''not-spam'' else s))"

definition normalize_phishing_status :: "string option \<Rightarrow> string option" where
  "normalize_phishing_status x =
     Option.bind x (\<lambda>v. let s = to_lower (trim v) in
       if s = [] then None else pick_allowed phishing_status_allowed (if s = ''not_phishing'' then ''not-phishing'' else s))"

definition normalize_marketing_status :: "string option \<Rightarrow> string option" where
  "normalize_marketing_status x =
     Option.bind x (\<lambda>v. let s = to_lower (trim v) in
       if s = [] then None else pick_allowed marketing_status_allowed (if s = ''not_marketing'' then ''not-marketing'' else s))"

definition no_otp_words :: "string list" where
  "no_otp_words =
     [''none'', ''null'', ''na'', ''n/a'', ''not_applicable'', ''not applicable'', ''no otp'', ''not otp'', ''non_otp'']"

definition normalize_otp_status :: "string option \<Rightarrow> string option" where
  "normalize_otp_status x =
     Option.bind x (\<lambda>v. let s = trim v in
       if s = [] then None
       else (let n = replace_char (CHR ''-'') (CHR ''_'') (to_lower s) in
             if contains_any n no_otp_words then Some ''not_otp'' else pick_allowed otp_status_allowed n))"

definition normalize_threat_level :: "string option \<Rightarrow> string option" where
  "normalize_threat_level x =
     Option.bind x (\<lambda>v. let s = to_lower (trim v) in if s = [] then None else pick_allowed threat_level_allowed s)"

text \<open>Letters and digits, and one underscore for what is between them.\<close>

fun label_chars :: "bool \<Rightarrow> string \<Rightarrow> string" where
  "label_chars after_separator [] = []"
| "label_chars after_separator (c # cs) =
     (if is_ascii_alnum c then c # label_chars False cs
      else if after_separator then label_chars True cs
      else CHR ''_'' # label_chars True cs)"

definition normalize_taxonomy_label :: "string \<Rightarrow> string option" where
  "normalize_taxonomy_label value0 =
     (let normalized = trim_matches (\<lambda>c. c = CHR ''_'') (label_chars False (to_lower (trim value0))) in
      if normalized = [] then None else Some normalized)"

definition normalize_category :: "string option \<Rightarrow> string option" where
  "normalize_category x =
     Option.bind x (\<lambda>v. let s = trim v in
       if s = [] then None else Option.bind (normalize_taxonomy_label s) (pick_allowed category_allowed))"

definition normalize_email_type :: "string option \<Rightarrow> string option" where
  "normalize_email_type x =
     Option.bind x (\<lambda>v. let s = trim v in
       if s = [] then None else Option.bind (normalize_taxonomy_label s) (pick_allowed email_type_allowed))"

section \<open>Schema alignment\<close>

definition infer_category_from_result :: "analysis \<Rightarrow> string option" where
  "infer_category_from_result r =
     find_map (\<lambda>c. normalize_category (Some c)) (flatten_opts [ar_category r, ar_subcategory r, ar_topic r])"

definition needs_taxonomy_alignment_review :: "analysis \<Rightarrow> bool" where
  "needs_taxonomy_alignment_review r \<longleftrightarrow>
     (let category = normalize_category (ar_category r) in
      category = None \<or> category = Some ''personal''
      \<or> (case normalize_category (ar_subcategory r) of None \<Rightarrow> False | Some s \<Rightarrow> Some s \<noteq> category))"

definition needs_email_type_alignment_review :: "analysis \<Rightarrow> bool" where
  "needs_email_type_alignment_review r \<longleftrightarrow>
     (case normalize_email_type (ar_email_type r) of
        None \<Rightarrow> True
      | Some t \<Rightarrow> t \<in> {''newsletter'', ''notification'', ''transactional''})"

definition needs_schema_alignment_review :: "analysis \<Rightarrow> bool" where
  "needs_schema_alignment_review r \<longleftrightarrow> needs_taxonomy_alignment_review r \<or> needs_email_type_alignment_review r"

definition blank_or_category :: "string option \<Rightarrow> bool" where
  "blank_or_category x \<longleftrightarrow> (case x of None \<Rightarrow> True | Some s \<Rightarrow> trim s = []) \<or> normalize_category x \<noteq> None"

definition apply_schema_alignment_result :: "analysis \<Rightarrow> analysis \<Rightarrow> bool \<times> analysis" where
  "apply_schema_alignment_result r alignment =
     (let unaligned = (case ar_category r of
            None \<Rightarrow> None
          | Some c \<Rightarrow> if normalize_category (Some c) = None then normalize_taxonomy_label c else None);
          r1 = (case normalize_category (ar_category alignment) of None \<Rightarrow> r | Some c \<Rightarrow> r\<lparr>ar_category := Some c\<rparr>);
          aligned = (case Option.bind (ar_subcategory alignment) normalize_taxonomy_label of
              None \<Rightarrow> None
            | Some s \<Rightarrow> if s \<in> set category_allowed then None else Some s);
          r2 = (case aligned of
              Some s \<Rightarrow> r1\<lparr>ar_subcategory := Some s\<rparr>
            | None \<Rightarrow> (case unaligned of
                  Some l \<Rightarrow> if blank_or_category (ar_subcategory r1) then r1\<lparr>ar_subcategory := Some l\<rparr> else r1
                | None \<Rightarrow> r1));
          r3 = (case normalize_email_type (ar_email_type alignment) of None \<Rightarrow> r2 | Some t \<Rightarrow> r2\<lparr>ar_email_type := Some t\<rparr>)
      in (ar_category r3 \<noteq> ar_category r \<or> ar_subcategory r3 \<noteq> ar_subcategory r \<or> ar_email_type r3 \<noteq> ar_email_type r, r3))"

text \<open>\<^verbatim>\<open>repair_schema_alignment\<close> of \<^verbatim>\<open>src/email_analysis/mod.rs\<close>: \<open>ask\<close> is the answer of the provider, parsed,
  if it gives one.\<close>

definition repair_schema_alignment :: "(analysis \<Rightarrow> analysis option) \<Rightarrow> analysis \<Rightarrow> analysis" where
  "repair_schema_alignment ask r =
     (if \<not> needs_schema_alignment_review r then r
      else case ask r of None \<Rightarrow> r | Some alignment \<Rightarrow> snd (apply_schema_alignment_result r alignment))"

definition preserve_unaligned_category_as_subcategory :: "analysis \<Rightarrow> analysis" where
  "preserve_unaligned_category_as_subcategory r =
     (case ar_category r of
        None \<Rightarrow> r
      | Some raw \<Rightarrow>
          (if normalize_category (Some raw) \<noteq> None then r
           else case normalize_taxonomy_label raw of
                  None \<Rightarrow> r
                | Some label \<Rightarrow>
                    (if label \<in> set category_allowed then r
                     else if blank_or_category (ar_subcategory r) then r\<lparr>ar_subcategory := Some label\<rparr>
                     else r)))"

definition infer_email_type_from_result :: "analysis \<Rightarrow> string option" where
  "infer_email_type_from_result r =
     find_map (\<lambda>c. normalize_email_type (Some c))
       (flatten_opts [ar_email_type r, ar_subcategory r, ar_topic r, ar_organization r, ar_human_summary r])"

section \<open>What the result says\<close>

definition reset_words :: "string list" where
  "reset_words = [''password reset'', ''reset your password'', ''reset password'', ''reset code'', ''recover password'']"

definition link_words :: "string list" where
  "link_words = [''magic link'', ''sign-in link'', ''signin link'', ''login link'', ''secure link'']"

definition code_words :: "string list" where
  "code_words = [''otp'', ''one-time'', ''one time'', ''verification code'', ''passcode'', ''auth code'',
     ''authentication code'', ''2fa code'', ''mfa code'']"

definition otp_of_text :: "string \<Rightarrow> string option" where
  "otp_of_text candidate =
     (let lower = to_lower candidate in
      if contains_any lower reset_words then Some ''password_reset''
      else if contains_any lower link_words then Some ''magic_link''
      else if contains_any lower code_words then Some ''otp''
      else None)"

definition infer_otp_status_from_result :: "analysis \<Rightarrow> string" where
  "infer_otp_status_from_result r =
     (case find_map otp_of_text
             (flatten_opts [ar_human_summary r, ar_topic r, ar_subcategory r, ar_email_type r, ar_organization r]) of
        Some s \<Rightarrow> s
      | None \<Rightarrow> (case normalize_otp_status (ar_otp_status r) of Some s \<Rightarrow> s | None \<Rightarrow> ''not_otp''))"

definition or_empty :: "string option \<Rightarrow> string" where
  "or_empty x = (case x of None \<Rightarrow> [] | Some s \<Rightarrow> s)"

definition indicates_scam_or_fraud :: "analysis \<Rightarrow> bool" where
  "indicates_scam_or_fraud r \<longleftrightarrow>
     (\<exists>f \<in> set [ar_category r, ar_email_type r, ar_topic r, ar_subcategory r].
        contains (to_lower (or_empty f)) ''scam'' \<or> contains (to_lower (or_empty f)) ''fraud'')"

text \<open>The given fields, with blanks between.\<close>

definition words_of :: "string option list \<Rightarrow> string" where
  "words_of xs = join '' '' (flatten_opts xs)"

definition admin_words :: "string list" where
  "admin_words = [''account'', ''admin'', ''administration'', ''property'', ''landlord'', ''tenant'', ''housing'', ''legal'',
     ''government'', ''tax'', ''financial'', ''health'', ''utility'', ''safety'', ''compliance'', ''regulatory'', ''policy'']"

definition guidance_words :: "string list" where
  "guidance_words = [''guidance'', ''guide'', ''explainer'', ''update'', ''deadline'', ''renewal'', ''renew'', ''certificate'',
     ''check'', ''rights'', ''law'', ''rules'', ''obligation'', ''required'', ''mandatory'', ''statement'', ''notice'', ''status'']"

definition guidance_type :: "analysis \<Rightarrow> bool" where
  "guidance_type r \<longleftrightarrow>
     normalize_email_type (ar_email_type r)
       \<in> Some ` {''newsletter'', ''notification'', ''transactional'', ''reference'', ''actionable''}"

definition result_evidence :: "analysis \<Rightarrow> string" where
  "result_evidence r = to_lower (words_of [ar_subcategory r, ar_topic r, ar_human_summary r, ar_organization r])"

definition indicates_recipient_useful_admin_guidance :: "analysis \<Rightarrow> bool" where
  "indicates_recipient_useful_admin_guidance r \<longleftrightarrow>
     normalize_category (ar_category r) \<in> Some ` {''personal'', ''financial'', ''health'', ''education''}
     \<and> guidance_type r
     \<and> contains_any (result_evidence r) admin_words \<and> contains_any (result_evidence r) guidance_words"

definition result_alert_words :: "string list" where
  "result_alert_words = [''saved search'', ''saved searches'', ''watch list'', ''watch-list'', ''watchlist'', ''job alert'',
     ''price alert'', ''calendar alert'', ''account alert'', ''credit alert'', ''matches your preferences'',
     ''match your preferences'', ''matches your saved'', ''matching your saved'', ''user-configured alert'',
     ''user configured alert'']"

definition indicates_user_configured_alert :: "analysis \<Rightarrow> bool" where
  "indicates_user_configured_alert r \<longleftrightarrow> guidance_type r \<and> contains_any (result_evidence r) result_alert_words"

definition analysis_result_summary_text :: "(json \<Rightarrow> string) \<Rightarrow> analysis \<Rightarrow> string" where
  "analysis_result_summary_text shown r =
     (case ar_ai_summary r of
        Some (JString t) \<Rightarrow> t
      | Some v \<Rightarrow> shown v
      | None \<Rightarrow> [])"

section \<open>What the email says\<close>

definition email_words :: "email \<Rightarrow> string" where
  "email_words m = words_of [em_subject m, em_body_text m, em_raw_email_content m]"

definition email_alert_words :: "string list" where
  "email_alert_words = [''saved search'', ''saved searches'', ''savedsearch'', ''manage search alerts'', ''change email alert'',
     ''unsave a search'', ''watch list alert'', ''watch-list alert'', ''watchlist alert'', ''watchlist notification'',
     ''matches your saved'', ''match your saved'', ''matching your saved'', ''your job alert'', ''calendar alerts for'',
     ''credit alert to review'']"

definition email_evidence_indicates_user_configured_alert :: "email \<Rightarrow> bool" where
  "email_evidence_indicates_user_configured_alert m \<longleftrightarrow> contains_any (to_lower (email_words m)) email_alert_words"

definition commercial_words :: "string list" where
  "commercial_words = [''free session'', ''guest pass'', ''discount'', ''sale'', ''coupon'', ''promo code'', ''loyalty reward'',
     ''limited time'', ''hours only'', ''book now'', ''book today'', ''offer redemption'', ''paid service'',
     ''book a consultation'', ''schedule a demo'', ''upgrade now'', ''upgrade today'', ''upgrade to '',
     ''partner introduction'', ''partner offer'', ''introducing our new'', ''new partners'', ''preferred partner'',
     ''sponsored by'', ''sponsored post'', ''lead generation'', ''lead-generation'', ''sales campaign'']"

definition contains_commercial_payload_signal :: "string \<Rightarrow> bool" where
  "contains_commercial_payload_signal s \<longleftrightarrow> contains_any (to_lower s) commercial_words"

definition transactional_words :: "string list" where
  "transactional_words = [''order delivery'', ''order_delivery'', ''delivery notification'', ''scheduled for delivery'',
     ''delivery of your order'', ''your order'', ''has arrived'', ''have arrived'', ''appointment confirmation'', ''receipt'',
     ''invoice'', ''booking confirmation'', ''tracking'', ''shipped'', ''delivered'']"

definition contains_transactional_payload_signal :: "string \<Rightarrow> bool" where
  "contains_transactional_payload_signal s \<longleftrightarrow> contains_any (to_lower s) transactional_words"

definition request_words :: "string list" where
  "request_words = [''can you '', ''could you '', ''would you '', ''please print'', ''please send'', ''please check'',
     ''please review'', ''please look'', ''thanks'', ''thank you'']"

definition task_words :: "string list" where
  "task_words = ['' print'', '' pdf'', '' attachment'', '' document'', '' call'', '' send'', '' check'', '' review'', '' look'']"

definition contains_direct_personal_request_signal :: "string \<Rightarrow> bool" where
  "contains_direct_personal_request_signal s \<longleftrightarrow> contains_any s request_words \<and> contains_any s task_words"

definition bulk_sender_words :: "string list" where
  "bulk_sender_words = [''noreply'', ''no-reply'', ''newsletter'', ''marketing'', ''promo'', ''offers'', ''support'', ''info@'', ''sales@'']"

definition private_domains :: "string list" where
  "private_domains = [''icloud.com'', ''me.com'', ''gmail.com'', ''googlemail.com'', ''outlook.com'', ''hotmail.com'', ''live.com'',
     ''yahoo.com'', ''proton.me'', ''protonmail.com'', ''fastmail.com'']"

definition sender_looks_individual :: "string option \<Rightarrow> bool" where
  "sender_looks_individual sender =
     (case sender of
        None \<Rightarrow> False
      | Some s0 \<Rightarrow>
          (let s = to_lower (trim s0) in
           if contains_any s bulk_sender_words then False
           else contains_any (last (split_by (\<lambda>c. c = CHR ''@'') s)) private_domains))"

text \<open>\<^verbatim>\<open>split_once\<close> at a string, and \<^verbatim>\<open>lines\<close>.\<close>

fun before_text :: "string \<Rightarrow> string \<Rightarrow> string option" where
  "before_text sep [] = (if sep = [] then Some [] else None)"
| "before_text sep (c # cs) =
     (if starts_with (c # cs) sep then Some [] else map_option (Cons c) (before_text sep cs))"

definition strip_cr :: "string \<Rightarrow> string" where
  "strip_cr l = (if l \<noteq> [] \<and> last l = CHR 0x0D then butlast l else l)"

definition str_lines :: "string \<Rightarrow> string list" where
  "str_lines s = (let ls = split_by (\<lambda>c. c = CHR 0x0A) s in map strip_cr (if last ls = [] then butlast ls else ls))"

definition top_level_headers_contain_list_header :: "string option \<Rightarrow> bool" where
  "top_level_headers_contain_list_header raw =
     (case raw of
        None \<Rightarrow> False
      | Some s \<Rightarrow>
          (let headers = (case before_text [CHR 0x0D, CHR 0x0A, CHR 0x0D, CHR 0x0A] s of
                            Some h \<Rightarrow> h
                          | None \<Rightarrow> (case before_text [CHR 0x0A, CHR 0x0A] s of Some h \<Rightarrow> h | None \<Rightarrow> s))
           in \<exists>line \<in> set (str_lines headers).
                starts_with (to_lower (trim_start line)) ''list-id:''
                \<or> starts_with (to_lower (trim_start line)) ''list-unsubscribe:''))"

definition structured_fields :: "analysis \<Rightarrow> string option list" where
  "structured_fields r =
     [ar_category r, ar_subcategory r, ar_topic r, ar_organization r, ar_email_type r, ar_human_summary r]"

definition email_evidence_indicates_signature_only_nonmarketing :: "(json \<Rightarrow> string) \<Rightarrow> email \<Rightarrow> analysis \<Rightarrow> bool" where
  "email_evidence_indicates_signature_only_nonmarketing shown m r =
     (if top_level_headers_contain_list_header (em_raw_email_content m) then False
      else
        (let source_lower = to_lower (email_words m);
             payload = to_lower (words_of (structured_fields r)) @ '' '' @ to_lower (analysis_result_summary_text shown r);
             subject = or_empty (em_subject m)
         in if contains_commercial_payload_signal payload \<or> contains_commercial_payload_signal subject then False
            else
              (let transactional =
                     normalize_email_type (ar_email_type r) \<in> Some ` {''transactional'', ''receipt'', ''reference''}
                     \<or> contains_transactional_payload_signal payload \<or> contains_transactional_payload_signal subject
                     \<or> contains_transactional_payload_signal source_lower;
                   forwarded =
                     starts_with (to_lower (trim_start subject)) ''fwd:'' \<or> contains source_lower ''begin forwarded message:''
               in if forwarded \<and> transactional then True
                  else sender_looks_individual (em_sender m) \<and> contains_direct_personal_request_signal source_lower)))"

definition email_evidence_indicates_payload_marketing :: "(json \<Rightarrow> string) \<Rightarrow> email \<Rightarrow> analysis \<Rightarrow> bool" where
  "email_evidence_indicates_payload_marketing shown m r \<longleftrightarrow>
     contains_commercial_payload_signal (or_empty (em_subject m))
     \<or> contains_commercial_payload_signal (words_of (structured_fields r @ [Some (analysis_result_summary_text shown r)]))"

section \<open>Notes in the summaries\<close>

definition mentions_user_configured_alert_basis :: "string \<Rightarrow> bool" where
  "mentions_user_configured_alert_basis s \<longleftrightarrow>
     contains_any (to_lower s)
       [''saved search'', ''saved searches'', ''watch list'', ''watch-list'', ''watchlist'', ''job alert'', ''calendar alert'',
        ''account alert'', ''credit alert'', ''user-configured alert'', ''user configured alert'',
        ''matching your preferences'', ''matches your preferences'']"

definition append_sentence :: "string \<Rightarrow> string \<Rightarrow> string" where
  "append_sentence existing sentence =
     (let trimmed = trim_end existing;
          separator = (if trimmed \<noteq> [] \<and> last trimmed \<in> set ''.!?'' then '' '' else ''. '')
      in trimmed @ separator @ sentence)"

definition append_summary_sentence :: "string option \<Rightarrow> string \<Rightarrow> string option" where
  "append_summary_sentence summary sentence =
     (case summary of
        Some existing \<Rightarrow> if trim existing \<noteq> [] then Some (append_sentence existing sentence) else Some sentence
      | None \<Rightarrow> Some sentence)"

definition json_summary_mentions :: "(json \<Rightarrow> string) \<Rightarrow> json \<Rightarrow> (string \<Rightarrow> bool) \<Rightarrow> bool" where
  "json_summary_mentions shown v p = (case v of JString t \<Rightarrow> p t | _ \<Rightarrow> p (shown v))"

text \<open>A blank string is taken by its JSON text, quotes included.\<close>

definition append_json_summary_sentence :: "(json \<Rightarrow> string) \<Rightarrow> json option \<Rightarrow> string \<Rightarrow> json option" where
  "append_json_summary_sentence shown summary sentence =
     (case summary of
        None \<Rightarrow> Some (JString sentence)
      | Some v \<Rightarrow>
          (case v of
             JString existing \<Rightarrow>
               (if trim existing \<noteq> [] then Some (JString (append_sentence existing sentence))
                else Some (JString (append_sentence (shown v) sentence)))
           | _ \<Rightarrow> Some (JString (append_sentence (shown v) sentence))))"

definition human_note :: string where
  "human_note = ''This appears tied to a saved search or user-configured alert, not a generic promotion.''"

definition ai_note :: string where
  "ai_note = ''Source evidence indicates this is tied to a saved search or user-configured alert, which supports not-spam while preserving marketing for commercial listings.''"

definition ensure_user_configured_alert_summary_detail :: "(json \<Rightarrow> string) \<Rightarrow> analysis \<Rightarrow> analysis" where
  "ensure_user_configured_alert_summary_detail shown r =
     (let r1 = (if (case ar_human_summary r of None \<Rightarrow> False | Some s \<Rightarrow> mentions_user_configured_alert_basis s) then r
                else r\<lparr>ar_human_summary := append_summary_sentence (ar_human_summary r) human_note\<rparr>)
      in if (case ar_ai_summary r1 of None \<Rightarrow> False
             | Some v \<Rightarrow> json_summary_mentions shown v mentions_user_configured_alert_basis) then r1
         else r1\<lparr>ar_ai_summary := append_json_summary_sentence shown (ar_ai_summary r1) ai_note\<rparr>)"

section \<open>Applying a result\<close>

text \<open>The labels: category, email type and kind of one-time code.\<close>

definition apply_labels :: "analysis \<Rightarrow> (string option \<times> string option \<times> string) \<times> analysis" where
  "apply_labels r =
     (let category = infer_category_from_result r;
          r1 = preserve_unaligned_category_as_subcategory r;
          email_type = infer_email_type_from_result r1;
          otp_status = infer_otp_status_from_result r1
      in ((category, email_type, otp_status),
          r1\<lparr>ar_category := category,
             ar_email_type := (case email_type of Some t \<Rightarrow> Some t | None \<Rightarrow> ar_email_type r1),
             ar_otp_status := Some otp_status,
             ar_otp_expires := (if otp_status = ''not_otp'' then None else ar_otp_expires r1)\<rparr>))"

record verdict =
  vd_spam :: "string option"
  vd_phishing :: "string option"
  vd_marketing :: "string option"
  vd_threat :: "string option"

definition first_verdict :: "analysis \<Rightarrow> verdict \<times> analysis" where
  "first_verdict r =
     (let spam = normalize_spam_status (ar_spam_status r);
          phishing = normalize_phishing_status (ar_phishing_status r);
          fraud = (spam = Some ''spam'' \<and> phishing = Some ''not-phishing'' \<and> indicates_scam_or_fraud r);
          r1 = (if fraud then r\<lparr>ar_phishing_status := Some ''phishing''\<rparr> else r)
      in (\<lparr>vd_spam = spam, vd_phishing = (if fraud then Some ''phishing'' else phishing),
           vd_marketing = normalize_marketing_status (ar_marketing_status r1),
           vd_threat = normalize_threat_level (ar_threat_level r1)\<rparr>, r1))"

definition threat_blocks_non_destructive_repair :: "verdict \<Rightarrow> bool" where
  "threat_blocks_non_destructive_repair v \<longleftrightarrow>
     vd_phishing v = Some ''phishing'' \<or> vd_threat v \<in> {Some ''high'', Some ''critical''}"

definition needs_source :: "verdict \<Rightarrow> bool" where
  "needs_source v \<longleftrightarrow>
     \<not> threat_blocks_non_destructive_repair v \<and> (vd_spam v = Some ''spam'' \<or> vd_marketing v \<noteq> None)"

definition source_alert :: "verdict \<Rightarrow> email option \<Rightarrow> bool" where
  "source_alert v source \<longleftrightarrow>
     vd_spam v = Some ''spam'' \<and> \<not> threat_blocks_non_destructive_repair v
     \<and> (case source of None \<Rightarrow> False | Some m \<Rightarrow> email_evidence_indicates_user_configured_alert m)"

definition source_signature_only :: "(json \<Rightarrow> string) \<Rightarrow> verdict \<Rightarrow> email option \<Rightarrow> analysis \<Rightarrow> bool" where
  "source_signature_only shown v source r \<longleftrightarrow>
     vd_marketing v = Some ''marketing'' \<and> \<not> threat_blocks_non_destructive_repair v
     \<and> (case source of None \<Rightarrow> False | Some m \<Rightarrow> email_evidence_indicates_signature_only_nonmarketing shown m r)"

definition spam_repaired :: "(json \<Rightarrow> string) \<Rightarrow> verdict \<Rightarrow> email option \<Rightarrow> analysis \<Rightarrow> bool" where
  "spam_repaired shown v source r \<longleftrightarrow>
     vd_spam v = Some ''spam'' \<and> \<not> threat_blocks_non_destructive_repair v
     \<and> (indicates_recipient_useful_admin_guidance r \<or> indicates_user_configured_alert r \<or> source_alert v source
        \<or> source_signature_only shown v source r)"

text \<open>The verdicts in the light of the email: spam, then marketing away, then marketing back.\<close>

definition repair_verdict :: "(json \<Rightarrow> string) \<Rightarrow> verdict \<Rightarrow> email option \<Rightarrow> analysis \<Rightarrow> verdict \<times> analysis" where
  "repair_verdict shown v source r =
     (let signature_only = source_signature_only shown v source r;
          (v1, r1) = (if spam_repaired shown v source r
                      then (v\<lparr>vd_spam := Some ''not-spam''\<rparr>, r\<lparr>ar_spam_status := Some ''not-spam''\<rparr>) else (v, r));
          (v2, r2) = (if signature_only
                      then (v1\<lparr>vd_marketing := Some ''not-marketing''\<rparr>, r1\<lparr>ar_marketing_status := Some ''not-marketing''\<rparr>)
                      else (v1, r1))
      in if vd_marketing v2 = Some ''not-marketing'' \<and> \<not> signature_only \<and> \<not> threat_blocks_non_destructive_repair v
           \<and> (case source of None \<Rightarrow> False | Some m \<Rightarrow> email_evidence_indicates_payload_marketing shown m r2)
         then (v2\<lparr>vd_marketing := Some ''marketing''\<rparr>, r2\<lparr>ar_marketing_status := Some ''marketing''\<rparr>)
         else (v2, r2))"

text \<open>An alert the user asked for is no newsletter, and the summaries say what it is.\<close>

definition note_alert :: "(json \<Rightarrow> string) \<Rightarrow> bool \<Rightarrow> string option \<Rightarrow> analysis \<Rightarrow> string option \<times> analysis" where
  "note_alert shown alert email_type r =
     (let (t, r1) = (if alert \<and> email_type = Some ''newsletter''
                     then (Some ''notification'', r\<lparr>ar_email_type := Some ''notification''\<rparr>) else (email_type, r))
      in (t, if alert then ensure_user_configured_alert_summary_detail shown r1 else r1))"

definition update_fields :: "string \<Rightarrow> string option \<times> string option \<times> string \<Rightarrow> verdict \<Rightarrow> analysis \<Rightarrow> ai_fields" where
  "update_fields mid labels v r =
     (let (category, email_type, otp_status) = labels in
      \<lparr>ai_message_id = mid, ai_spam_status = vd_spam v, ai_phishing_status = vd_phishing v,
       ai_marketing_status = vd_marketing v, ai_otp_status = Some otp_status, ai_otp_code = ar_otp_code r,
       ai_otp_expires = ar_otp_expires r, ai_threat_level = vd_threat v,
       ai_threat_indicators = map_option (\<lambda>xs. JArray (map JString xs)) (ar_threat_indicators r),
       ai_summary = ar_ai_summary r, ai_human_summary = ar_human_summary r, ai_category = category,
       ai_subcategory = ar_subcategory r, ai_organization = ar_organization r, ai_topic = ar_topic r,
       ai_email_type = email_type, ai_location_recommendation = None, ai_create_if_missing = None,
       ai_offer_expires = ar_offer_expires r\<rparr>)"

text \<open>What follows the query for the email: the columns to write and the result as it is handed back.\<close>

definition settle_result :: "(json \<Rightarrow> string) \<Rightarrow> string \<Rightarrow> string option \<times> string option \<times> string \<Rightarrow> verdict \<Rightarrow> email option \<Rightarrow> analysis
    \<Rightarrow> ai_fields \<times> analysis" where
  "settle_result shown mid labels v source r =
     (let (category, email_type, otp_status) = labels;
          alert = (indicates_user_configured_alert r \<or> source_alert v source);
          (v1, r1) = repair_verdict shown v source r;
          (t, r2) = note_alert shown alert email_type r1;
          r3 = (case vd_threat v1 of Some l \<Rightarrow> r2\<lparr>ar_threat_level := Some l\<rparr> | None \<Rightarrow> r2)
      in (update_fields mid (category, t, otp_status) v1 r3, r3))"

definition apply_analysis_result_for_account :: "(json \<Rightarrow> string) \<Rightarrow> 'i mail_host \<Rightarrow> string \<Rightarrow> string \<Rightarrow> analysis \<Rightarrow> 'i mail_world
    \<Rightarrow> (int \<times> analysis) result \<times> 'i mail_world" where
  "apply_analysis_result_for_account shown h a mid r w =
     (let (labels, r1) = apply_labels r;
          (v, r2) = first_verdict r1
      in and_then (if needs_source v
                   then dbs h ''Failed to query email'' (query (\<lambda>ms. find_opt (email_at a mid) (ms_emails ms))) w
                   else (Inr None, w)) (\<lambda>source w1.
           (let (fields, r3) = settle_result shown mid labels v source r2
            in and_then (join_result (dbs h ''update_ai_fields'' (\<lambda>now. update_ai_fields_for_account now a fields) w1)) (\<lambda>updated w2.
                 (Inr (updated, r3),
                  snd (dbs h ''set_analyzed_by'' (\<lambda>_. set_analyzed_by_for_account a mid (ar_analyzed_by r3)) w2))))))"

end
