(* ===== verification/NormalizationFacts.thy ===== *)
theory NormalizationFacts
  imports ResultNormalization
begin

text \<open>
  What the normalisation of a result yields: labels in a canonical form, statuses the tables allow, and
  rows that keep their \<^verbatim>\<open>CHECK\<close>s.
\<close>

section \<open>Labels\<close>

text \<open>Lower-case letters and digits with single underscores between.\<close>

abbreviation under :: char where
  "under \<equiv> CHR ''_''"

definition canonical_label :: "string \<Rightarrow> bool" where
  "canonical_label l \<longleftrightarrow>
     l \<noteq> [] \<and> list_all (\<lambda>c. is_ascii_alnum c \<or> c = under) l \<and> to_lower l = l
     \<and> successively (\<lambda>a b. \<not> (a = under \<and> b = under)) l \<and> hd l \<noteq> under \<and> last l \<noteq> under"

lemma under_facts [simp]: "\<not> is_ascii_alnum under" "to_lower_char under = under" "\<not> is_ws under"
  by (simp_all add: is_ascii_alnum_def to_lower_char_def is_ws_def Let_def)

lemma alnum_not_ws: "is_ascii_alnum c \<Longrightarrow> \<not> is_ws c"
  by (auto simp: is_ascii_alnum_def is_ws_def Let_def)

lemma label_chars_shape:
  "list_all (\<lambda>c. is_ascii_alnum c \<or> c = under) (label_chars p s)
   \<and> successively (\<lambda>a b. \<not> (a = under \<and> b = under)) (label_chars p s)
   \<and> (p \<longrightarrow> label_chars p s = [] \<or> hd (label_chars p s) \<noteq> under)
   \<and> (to_lower s = s \<longrightarrow> to_lower (label_chars p s) = label_chars p s)"
proof (induction p s rule: label_chars.induct)
  case (2 p c cs)
  then show ?case by (auto simp: successively_Cons to_lower_def)
qed (simp add: to_lower_def)

lemma successively_trim: "successively R s \<Longrightarrow> successively R (trim_matches p s)"
proof -
  assume s: "successively R s"
  have "trim_matches p s = rev (dropWhile p (rev (dropWhile p s)))" by (simp add: trim_matches_def)
  moreover have "sublist (rev (dropWhile p (rev (dropWhile p s)))) s"
  proof -
    have "suffix (dropWhile p s) s" by (rule suffix_dropWhile)
    moreover have "prefix (rev (dropWhile p (rev (dropWhile p s)))) (dropWhile p s)"
      using suffix_dropWhile [of p "rev (dropWhile p s)"] by (simp add: suffix_to_prefix)
    ultimately show ?thesis by (meson prefix_imp_sublist suffix_imp_sublist sublist_order.order_trans)
  qed
  then obtain xs ys where "s = xs @ trim_matches p s @ ys" unfolding sublist_def by (auto simp: trim_matches_def)
  with s show ?thesis by (metis successively_append_iff)
qed

lemma set_trim_matches: "set (trim_matches p s) \<subseteq> set s"
  by (auto simp: trim_matches_def dest!: set_dropWhileD)

lemma to_lower_id_iff: "to_lower s = s \<longleftrightarrow> (\<forall>c \<in> set s. to_lower_char c = c)"
  by (induction s) (auto simp: to_lower_def)

lemma label_canonical:
  assumes "normalize_taxonomy_label s = Some l"
  shows "canonical_label l"
proof -
  let ?t = "label_chars False (to_lower (trim s))"
  have l: "l = trim_matches (\<lambda>c. c = under) ?t" "l \<noteq> []"
    using assms by (auto simp: normalize_taxonomy_label_def Let_def split: if_splits)
  have t: "list_all (\<lambda>c. is_ascii_alnum c \<or> c = under) ?t" "successively (\<lambda>a b. \<not> (a = under \<and> b = under)) ?t"
    "to_lower ?t = ?t"
    using label_chars_shape [of False "to_lower (trim s)"] by simp_all
  have "list_all (\<lambda>c. is_ascii_alnum c \<or> c = under) l" "to_lower l = l"
    using t(1,3) set_trim_matches [of "\<lambda>c. c = under" ?t] unfolding l(1) by (auto simp: list_all_iff to_lower_id_iff)
  moreover have "successively (\<lambda>a b. \<not> (a = under \<and> b = under)) l" unfolding l(1) by (rule successively_trim [OF t(2)])
  moreover have "hd l \<noteq> under" "last l \<noteq> under" using trim_matches_ends [of "\<lambda>c. c = under" ?t] l by auto
  ultimately show ?thesis using l(2) by (simp add: canonical_label_def)
qed

lemma label_chars_id:
  "list_all (\<lambda>c. is_ascii_alnum c \<or> c = under) s \<Longrightarrow> successively (\<lambda>a b. \<not> (a = under \<and> b = under)) s
   \<Longrightarrow> \<not> p \<or> s = [] \<or> hd s \<noteq> under \<Longrightarrow> label_chars p s = s"
proof (induction p s rule: label_chars.induct)
  case (2 p c cs)
  then show ?case by (auto simp: successively_Cons)
qed simp

lemma trim_no_ws: "list_all (\<lambda>c. \<not> is_ws c) s \<Longrightarrow> trim s = s"
proof -
  have id: "dropWhile is_ws t = t" if "list_all (\<lambda>c. \<not> is_ws c) t" for t using that by (cases t) auto
  assume s: "list_all (\<lambda>c. \<not> is_ws c) s"
  then have "list_all (\<lambda>c. \<not> is_ws c) (rev s)" by (simp add: list_all_iff)
  with s show ?thesis by (simp add: trim_def trim_start_def trim_end_def id)
qed

lemma canonical_fixed:
  assumes "canonical_label l"
  shows "normalize_taxonomy_label l = Some l" and "trim l = l" and "l \<noteq> []"
proof -
  have l: "list_all (\<lambda>c. is_ascii_alnum c \<or> c = under) l" "successively (\<lambda>a b. \<not> (a = under \<and> b = under)) l" "l \<noteq> []"
    "to_lower l = l" "hd l \<noteq> under" "last l \<noteq> under"
    using assms by (simp_all add: canonical_label_def)
  have "list_all (\<lambda>c. \<not> is_ws c) l" using l(1) alnum_not_ws by (auto simp: list_all_iff)
  then show t: "trim l = l" by (rule trim_no_ws)
  have "label_chars False l = l" by (rule label_chars_id [OF l(1,2)]) simp
  moreover have "trim_matches (\<lambda>c. c = under) l = l" by (rule trim_matches_id) (simp add: l)
  ultimately show "normalize_taxonomy_label l = Some l" by (simp add: normalize_taxonomy_label_def t l Let_def)
  show "l \<noteq> []" by (rule l(3))
qed

section \<open>Values the tables allow\<close>

lemma pick_allowed_Some: "pick_allowed al s = Some v \<longleftrightarrow> v = s \<and> s \<in> set al"
  by (induction al) (auto simp: pick_allowed_def find_opt_def)

lemma pick_allowed_None: "pick_allowed al s = None \<longleftrightarrow> s \<notin> set al"
  using pick_allowed_Some [of al s s] pick_allowed_Some [of al s] by (cases "pick_allowed al s") auto

lemma picked: "null_or_in al (pick_allowed al s)"
proof (cases "pick_allowed al s")
  case (Some v)
  then show ?thesis using pick_allowed_Some [of al s v] by (simp add: null_or_in_def)
qed (simp add: null_or_in_def)

lemma null_or_in_None [simp]: "null_or_in al None"
  by (simp add: null_or_in_def)

lemma null_or_in_Some [simp]: "null_or_in al (Some v) \<longleftrightarrow> v \<in> set al"
  by (simp add: null_or_in_def)

lemma null_or_in_bind: "(\<And>v. null_or_in al (f v)) \<Longrightarrow> null_or_in al (Option.bind x f)"
  by (cases x) simp_all

lemma normalized_allowed:
  "null_or_in spam_status_allowed (normalize_spam_status x)"
  "null_or_in phishing_status_allowed (normalize_phishing_status x)"
  "null_or_in marketing_status_allowed (normalize_marketing_status x)"
  "null_or_in otp_status_allowed (normalize_otp_status x)"
  "null_or_in threat_level_allowed (normalize_threat_level x)"
  "null_or_in category_allowed (normalize_category x)"
  "null_or_in email_type_allowed (normalize_email_type x)"
  unfolding normalize_spam_status_def normalize_phishing_status_def normalize_marketing_status_def normalize_otp_status_def
    normalize_threat_level_def normalize_category_def normalize_email_type_def Let_def
  by (auto intro!: null_or_in_bind simp: picked) (simp add: otp_status_allowed_def)

lemma find_map_allowed: "(\<And>v. null_or_in al (f v)) \<Longrightarrow> null_or_in al (find_map f xs)"
proof (induction xs)
  case (Cons x xs)
  then show ?case using Cons.prems [of x] by (cases "f x") simp_all
qed simp

lemma labels_allowed:
  "null_or_in category_allowed (infer_category_from_result r)" "null_or_in email_type_allowed (infer_email_type_from_result r)"
  "infer_otp_status_from_result r \<in> set otp_status_allowed"
proof -
  show "null_or_in category_allowed (infer_category_from_result r)" "null_or_in email_type_allowed (infer_email_type_from_result r)"
    unfolding infer_category_from_result_def infer_email_type_from_result_def
    by (rule find_map_allowed, rule normalized_allowed)+
  have "null_or_in otp_status_allowed (otp_of_text s)" for s
    by (simp add: otp_of_text_def otp_status_allowed_def Let_def)
  then have "null_or_in otp_status_allowed (find_map otp_of_text (flatten_opts [ar_human_summary r, ar_topic r, ar_subcategory r, ar_email_type r, ar_organization r]))"
    by (rule find_map_allowed)
  moreover have "''not_otp'' \<in> set otp_status_allowed" by (simp add: otp_status_allowed_def)
  ultimately show "infer_otp_status_from_result r \<in> set otp_status_allowed"
    using normalized_allowed(4) [of "ar_otp_status r"]
    by (auto simp: infer_otp_status_from_result_def null_or_in_def split: option.splits)
qed

section \<open>The columns that are written\<close>

definition fields_allowed :: "ai_fields \<Rightarrow> bool" where
  "fields_allowed i \<longleftrightarrow>
     null_or_in spam_status_allowed (ai_spam_status i) \<and> null_or_in phishing_status_allowed (ai_phishing_status i)
     \<and> null_or_in marketing_status_allowed (ai_marketing_status i) \<and> null_or_in otp_status_allowed (ai_otp_status i)
     \<and> null_or_in category_allowed (ai_category i) \<and> null_or_in email_type_allowed (ai_email_type i)
     \<and> null_or_in threat_level_allowed (ai_threat_level i)"

lemma coalesce_allowed: "null_or_in al x \<Longrightarrow> null_or_in al y \<Longrightarrow> null_or_in al (coalesce x y)"
  by (cases x) (simp_all add: coalesce_def)

lemma analyzed_row_checks: "fields_allowed i \<Longrightarrow> email_checks m \<Longrightarrow> email_checks (analyzed_row now i m)"
  by (simp add: fields_allowed_def email_checks_def analyzed_row_def coalesce_allowed action_status_check_def
      flip: spam_status_allowed_def phishing_status_allowed_def marketing_status_allowed_def otp_status_allowed_def
        category_allowed_def email_type_allowed_def threat_level_allowed_def)

lemma first_verdict_allowed:
  assumes "first_verdict r = (v, r1)"
  shows "null_or_in spam_status_allowed (vd_spam v)" "null_or_in phishing_status_allowed (vd_phishing v)"
    "null_or_in marketing_status_allowed (vd_marketing v)" "null_or_in threat_level_allowed (vd_threat v)"
  using assms normalized_allowed by (auto simp: first_verdict_def Let_def phishing_status_allowed_def)

lemma repair_verdict_cases:
  assumes "repair_verdict shown v source r = (v', r')"
  shows "vd_spam v' = (if spam_repaired shown v source r then Some ''not-spam'' else vd_spam v)"
    and "vd_phishing v' = vd_phishing v" and "vd_threat v' = vd_threat v"
    and "vd_marketing v' \<in> {vd_marketing v, Some ''marketing'', Some ''not-marketing''}"
    and "threat_blocks_non_destructive_repair v \<Longrightarrow> vd_marketing v' = vd_marketing v"
  using assms by (auto simp: repair_verdict_def Let_def source_signature_only_def split: if_splits)

section \<open>The run\<close>

lemma steps_apply_analysis: "steps a w (snd (apply_analysis_result_for_account shown h a mid r w))"
proof -
  have stored: "steps a w1 (snd (join_result (dbs h what (\<lambda>now. update_ai_fields_for_account now a i) w1)))" for what i w1
    by (rule steps_join, rule steps_dbs, rule disjI1, rule mail_step.analysis)
  have by_whom: "steps a w2 (snd (dbs h what (\<lambda>_. set_analyzed_by_for_account a mid x) w2))" for what x w2
    by (rule steps_dbs, rule disjI1, rule mail_step.by_whom)
  show ?thesis
    unfolding apply_analysis_result_for_account_def Let_def case_prod_beta
    by (rule steps_and_then) (auto intro!: steps_and_then stored by_whom steps_query)
qed

end
