(* ===== verification/SyncProps.thy ===== *)
theory SyncProps
  imports SyncStuck FilingProps NormalizationFacts
begin

text \<open>
  The properties of the synchronisation, with a concrete server for their witnesses: a mailbox of
  three messages, one of them without a Message-ID.
\<close>

section \<open>An example server\<close>

definition plain_mail :: "string \<Rightarrow> fetched_envelope" where
  "plain_mail mid = no_envelope\<lparr>fe_message_id := Some mid, fe_subject := Some ''s''\<rparr>"

definition example_box :: "(int \<times> fetched_envelope) list" where
  "example_box = [(2, plain_mail ''m1''), (3, no_envelope), (400, plain_mail ''m9'')]"

definition box_state :: mailbox_state where
  "box_state = \<lparr>mb_exists = 3, mb_uid_validity = Some 1, mb_uid_next = Some 401\<rparr>"

text \<open>Dates are written in unary.\<close>

definition unary :: "timestamp \<Rightarrow> string" where
  "unary d = (if d < 0 then CHR ''-'' # replicate (nat (- d)) CHR ''s'' else CHR ''+'' # replicate (nat d) CHR ''s'')"

definition of_unary :: "string \<Rightarrow> timestamp option" where
  "of_unary s = (case s of [] \<Rightarrow> None | c # cs \<Rightarrow> Some (if c = CHR ''-'' then - int (length cs) else int (length cs)))"

definition box_host :: "(int \<times> fetched_envelope) list \<Rightarrow> mailbox_state \<Rightarrow> unit sync_host" where
  "box_host box mb =
     \<lparr>sy_mail = easy_host, sy_ts = of_unary, sy_rfc3339 = unary, sy_since = (\<lambda>_ _. []),
      sy_fetch = (\<lambda>_ s k i. (Inr (mb, filter (\<lambda>ue. s \<le> fst ue \<and> fst ue < s + k) box), i)),
      sy_fetch_uids = (\<lambda>_ us i. (Inr (mb, filter (\<lambda>ue. fst ue \<in> set us) box), i)),
      sy_new_uids = (\<lambda>_ u i. (Inr (filter (\<lambda>x. u < x) (map fst box)), i)),
      sy_highest_modseq = (\<lambda>_ i. (Inr None, i)), sy_search_modseq = (\<lambda>_ _ i. (Inr [], i)),
      sy_search = (\<lambda>_ _ i. (Inr (map fst box), i)), sy_qresync = (\<lambda>_ _ _ i. (Inr [], i)),
      sy_compare = (\<lambda>_ _ i. (Inr [], i)), sy_flags = (\<lambda>_ _ i. (Inr [], i)), sy_drain = (\<lambda>_ w. (Inr 0, w))\<rparr>"

abbreviation example_sync :: "unit sync_host" where
  "example_sync \<equiv> box_host example_box box_state"

lemma unary_inverse: "of_unary (unary d) = Some d"
  by (simp add: unary_def of_unary_def)

lemma example_honest: "honest example_sync ''INBOX'' 1 401 example_box"
  by (simp add: honest_def box_host_def box_state_def example_box_def)

lemma example_clean: "clean example_sync ''INBOX'' example_box"
proof -
  have "nullif_blank (Some ''INBOX'') = Some ''INBOX''" "nullif_blank (Some ''m1'') = Some ''m1''"
    "nullif_blank (Some ''m9'') = Some ''m9''" "\<not> has_message_id no_envelope" by code_simp+
  then show ?thesis
    by (simp add: clean_def reliable_def box_host_def easy_host_def unary_inverse example_box_def plain_mail_def no_envelope_def)
qed

section \<open>A full synchronisation\<close>


lemma example_lawful: "lawful example_sync n (Some 1) 400"
  by (auto simp: lawful_def box_host_def box_state_def example_box_def sat_sub_u32_def)




text \<open>C15: a Message-ID with blanks at its ends holds its folder up. The upsert stores the identifier trimmed,
  the row for the body queue of the same batch carries it untrimmed and refers to no email: the transaction
  fails and the run with it. Nothing of the batch is imported and the cursor stays, so the next run asks for
  the same batch and fails again, until the message is gone. The client's parser yields such an identifier
  from a header like \<^verbatim>\<open>Message-ID: < abc >\<close>, as it trims before it takes the angle brackets off.\<close>

theorem padded_message_id_blocks_sync:
  assumes h: "honest h n v nx box" and c: "reliable h n"
    and ue: "ue \<in> set box" "with_id ue" "sql_trim (mid_of ue) \<noteq> mid_of ue"
    and s: "1 \<le> s" "s \<le> fst ue" "fst ue < s + sync_batch_size"
    and absent: "\<not> emails_in (mw_mail w) a (mid_of ue)" "\<forall>r \<in> set (bt_rows (ms_body (mw_mail w))). bq_message_id r \<noteq> mid_of ue"
    and known: "stored_validity a n (mw_mail w) \<in> {None, Some (as_i32 v)}"
  shows "\<exists>e w'. sync_folder (Suc k) h a n s 0 w = Some (Inl e, w')
    \<and> ms_emails (mw_mail w') = ms_emails (mw_mail w) \<and> ms_body (mw_mail w') = ms_body (mw_mail w)
    \<and> cursor_of a n (mw_mail w') = cursor_of a n (mw_mail w)"
proof -
  obtain e w' where "sync_batch h a n s w = (Inl e, w')" "parked a n (mw_mail w) (mw_mail w')"
    by (rule padded_batch_fails [OF h c ue s absent known])
  then show ?thesis by (simp add: parked_def)
qed

lemma padded_message_id_blocks_sync_witness:
  "\<exists>e w'. sync_folder (Suc 3) (box_host [(2, plain_mail '' m1 '')] box_state) ''a'' ''INBOX'' 1 0 example_mail_world = Some (Inl e, w')
    \<and> ms_emails (mw_mail w') = ms_emails (mw_mail example_mail_world) \<and> ms_body (mw_mail w') = ms_body (mw_mail example_mail_world)
    \<and> cursor_of ''a'' ''INBOX'' (mw_mail w') = cursor_of ''a'' ''INBOX'' (mw_mail example_mail_world)"
proof (rule padded_message_id_blocks_sync [where ue = "(2, plain_mail '' m1 '')" and v = 1 and nx = 401])
  show "honest (box_host [(2, plain_mail '' m1 '')] box_state) ''INBOX'' 1 401 [(2, plain_mail '' m1 '')]"
    by (simp add: honest_def box_host_def box_state_def)
  have "nullif_blank (Some ''INBOX'') = Some ''INBOX''" by code_simp
  then show "reliable (box_host [(2, plain_mail '' m1 '')] box_state) ''INBOX''"
    by (simp add: reliable_def box_host_def easy_host_def unary_inverse)
  show "with_id (2, plain_mail '' m1 '')" by code_simp
  show "sql_trim (mid_of (2, plain_mail '' m1 '')) \<noteq> mid_of (2, plain_mail '' m1 '')" by code_simp
  show "\<not> emails_in (mw_mail example_mail_world) ''a'' (mid_of (2, plain_mail '' m1 ''))" by code_simp
  show "\<forall>r \<in> set (bt_rows (ms_body (mw_mail example_mail_world))). bq_message_id r \<noteq> mid_of (2, plain_mail '' m1 '')" by code_simp
  show "stored_validity ''a'' ''INBOX'' (mw_mail example_mail_world) \<in> {None, Some (as_i32 1)}" by code_simp
qed (simp_all add: sync_batch_size_def)

section \<open>All runs on the mail tables\<close>



end
