(* ===== verification/ImapProps.thy ===== *)
theory ImapProps
  imports ImapServer SyncProps
begin

text \<open>
  The properties of the IMAP client and of the synchronisation over it.
\<close>

section \<open>Synchronisation over the wire\<close>


text \<open>An example: the header is its Message-ID.\<close>

definition id_lib :: mail_lib where
  "id_lib = \<lparr>ml_parse = (\<lambda>s. Some (Parsed (\<lambda>k. if k = ''Message-ID'' then Some (takeWhile (\<lambda>c. c \<noteq> CHR 0x0D) s) else None) [] None [])),
     ml_date = (\<lambda>_. None), ml_internaldate = (\<lambda>_. None), ml_now = 0\<rparr>"

definition example_client :: client where
  "example_client = \<lparr>cl_server = ''mail.example:993'', cl_username = ''me'', cl_password = ''a&b''\<rparr>"

definition example_raws :: "raw_mail list" where
  "example_raws = [(2, ''<m1>'' @ crlf @ ''a003 OK''), (300, ''<m2>'')]"

definition wire_host :: "network \<Rightarrow> mail_lib \<Rightarrow> unit sync_host" where
  "wire_host tcp lib = example_sync
     \<lparr>sy_fetch := (\<lambda>n s k i. (case raw_uid_fetch_envelopes tcp lib example_client n s k of Some (Value x) \<Rightarrow> Inr x | _ \<Rightarrow> Inl [], i)),
      sy_fetch_uids := (\<lambda>n us i. (case raw_uid_fetch_envelopes_by_uids tcp lib example_client n us of Some (Value x) \<Rightarrow> Inr x | _ \<Rightarrow> Inl [], i))\<rparr>"

lemma wire_host_wired: "wired (wire_host tcp lib) tcp lib example_client n"
  by (simp add: wired_def wire_host_def)

lemma example_port: "host_port (cl_server example_client) = Value (''mail.example'', 993)"
  by code_simp

lemma example_mailbox: "mailbox_ok 1 401 example_raws"
  by (simp add: mailbox_ok_def example_raws_def)

lemma example_headers:
  "parse_email_headers id_lib (''<m1>'' @ crlf @ ''a003 OK'') \<noteq> Panic" "parse_email_headers id_lib ''<m2>'' \<noteq> Panic"
  "read_header id_lib (''<m1>'' @ crlf @ ''a003 OK'') = no_envelope\<lparr>fe_message_id := Some ''m1''\<rparr>"
  "read_header id_lib ''<m2>'' = no_envelope\<lparr>fe_message_id := Some ''m2''\<rparr>"
  by code_simp+


section \<open>A header that panics\<close>

text \<open>C17: one message whose \<^verbatim>\<open>From\<close> has its first closing angle bracket before its first opening one makes
  every fetch of a range it is in panic: the slice between the two brackets has its end before its start.
  Such a header is text a sender chooses, as in \<^verbatim>\<open>a > b <x@y>\<close>, and a synchronisation asks for the
  same range again at its next run.\<close>

theorem crossed_from_panics_fetch:
  assumes ok: "mailbox_ok v nx raws" and c: "host_port (cl_server c) = Value hp" and s: "1 \<le> s"
    and m: "(uid, hdr) \<in> set raws" "s \<le> uid" "uid < s + sync_batch_size"
    and p: "ml_parse lib (with_separator hdr) = Some p" "pm_header p ''From'' = Some from"
    and crossed: "index_of (CHR ''<'') from = Some i" "index_of (CHR ''>'') from = Some j" "j < i"
  shows "raw_uid_fetch_envelopes (open_server v nx raws) lib c n s sync_batch_size = Some Panic"
proof -
  have "angle_addr from = Panic" using crossed by (simp add: angle_addr_def slice_def run_then_def)
  then have "parse_email_headers lib hdr = Panic"
    using p by (simp add: parse_email_headers_def first_header_def opt_run_def run_then_def)
  then have "panics lib (filter (\<lambda>m. s \<le> fst m \<and> fst m < s + sync_batch_size) raws)" using m by (force simp: panics_def)
  then show ?thesis by (simp add: fetch_range_at [OF ok c s])
qed

definition from_lib :: mail_lib where
  "from_lib = \<lparr>ml_parse = (\<lambda>s. Some (Parsed (\<lambda>k. if k = ''From'' then Some (takeWhile (\<lambda>c. c \<noteq> CHR 0x0D) s) else None) [] None [])),
     ml_date = (\<lambda>_. None), ml_internaldate = (\<lambda>_. None), ml_now = 0\<rparr>"

lemma crossed_from_panics_fetch_witness:
  "raw_uid_fetch_envelopes (open_server 1 401 [(7, ''a > b <x@y>'')]) from_lib example_client ''INBOX'' 1 sync_batch_size = Some Panic"
proof (rule crossed_from_panics_fetch [OF _ example_port, where uid = 7 and hdr = "''a > b <x@y>''" and i = 6 and j = 2])
  show "mailbox_ok 1 401 [(7, ''a > b <x@y>'')]" by (simp add: mailbox_ok_def)
  show "ml_parse from_lib (with_separator ''a > b <x@y>'')
      = Some (Parsed (\<lambda>k. if k = ''From'' then Some (takeWhile (\<lambda>c. c \<noteq> CHR 0x0D) (with_separator ''a > b <x@y>'')) else None) [] None [])"
    by (simp add: from_lib_def)
  have "takeWhile (\<lambda>c. c \<noteq> CHR 0x0D) (with_separator ''a > b <x@y>'') = ''a > b <x@y>''" by code_simp
  then show "pm_header (Parsed (\<lambda>k. if k = ''From'' then Some (takeWhile (\<lambda>c. c \<noteq> CHR 0x0D) (with_separator ''a > b <x@y>'')) else None) [] None []) ''From''
      = Some ''a > b <x@y>''" by simp
qed (simp_all add: sync_batch_size_def)

section \<open>Commands with and without a time limit\<close>


text \<open>A server that greets and then closes the connection.\<close>

definition dropping :: "string \<Rightarrow> network" where
  "dropping greeting = (\<lambda>_ _. Inr (\<lambda>cmds. if cmds = [] then greeting else [], False))"

text \<open>C18: when the connection closes before the answer to the login, the fetches never end. Their loops wait
  for the tagged line without looking at how much was read, and reading at the end of a closed connection
  succeeds with nothing, so they spin. Moving a message over the same connection is an error, as it should
  be.\<close>

theorem dropped_connection_spins:
  assumes c: "host_port (cl_server c) = Value hp" and g: "full_line greeting" and us: "us \<noteq> []"
  shows "raw_uid_fetch_envelopes (dropping greeting) lib c n s k = None
    \<and> raw_uid_fetch_envelopes_by_uids (dropping greeting) lib c n us = None
    \<and> raw_uid_fetch_full_messages (dropping greeting) lib c n us v = None
    \<and> get_highest_modseq (dropping greeting) c n = None
    \<and> get_expunged_uids_qresync (dropping greeting) c n v us = None
    \<and> (\<exists>e. raw_uid_move (dropping greeting) c n u dest = Some (Error e))"
proof -
  define drop where "drop cmds = \<lparr>wr_server = \<lambda>cmds. if cmds = [] then greeting else [], wr_silent = False, wr_in = [], wr_sent = cmds\<rparr>"
    for cmds :: "string list"
  have conv: "converse (dropping greeting) c m = map_option fst (m (feed greeting (drop [])))" for m :: "'x io"
    using c by (cases hp) (simp add: converse_def dropping_def drop_def)
  have nil: "feed [] (drop cmds) = drop cmds" "wr_in (drop cmds) = []" "\<not> wr_silent (drop cmds)" for cmds
    by (simp_all add: drop_def)
  have greet: "read_line (feed greeting (drop [])) = Some (Value greeting, drop [])"
    using read_line_full [OF g, of "[]" "drop []"] by (simp add: nil)
  have send: "send cmd (drop []) = Some (Value (), drop [cmd])" for cmd by (simp add: send_def drop_def)
  have "answer read_line ''a001 '' (drop cmds) = None" for cmds
    unfolding answer_def by (simp add: io_then_def until_tag_closed done_io_def nil)
  then have logs: "log_in_unchecked c (feed greeting (drop [])) = None" "log_in c (feed greeting (drop [])) = None"
    by (simp_all add: log_in_unchecked_def log_in_def io_then_def greet send)
  have "greeting \<noteq> []" "LF \<in> set greeting" using g by (auto simp: full_line_def)
  then have "read_raw_imap_line what (feed greeting (drop [])) = Some (Value greeting, drop [])" for what
    using greet by (simp add: read_raw_imap_line_def)
  moreover have "read_raw_imap_line what (drop cmds) = Some (Error [''IMAP raw command connection closed during '' @ what], drop cmds)"
    for what cmds by (simp add: read_raw_imap_line_def nil)
  note answer_Error [where rd = "read_raw_imap_line what" for what, OF this]
  ultimately have "log_in_timed ''UID MOVE'' c (feed greeting (drop []))
      = Some (Error [''IMAP raw command connection closed during '' @ ''UID MOVE'' @ '' login response''],
          drop [login_command escape_mailbox (cl_username c) (cl_password c)])"
    unfolding log_in_timed_def by (simp add: io_then_def send)
  then have "\<exists>e. raw_uid_move (dropping greeting) c n u dest = Some (Error e)"
    unfolding raw_uid_move_def conv by (auto simp: io_then_def)
  with logs us show ?thesis
    by (simp add: raw_uid_fetch_envelopes_def raw_uid_fetch_envelopes_by_uids_def raw_uid_fetch_full_messages_def
        get_highest_modseq_def get_expunged_uids_qresync_def conv io_then_def)
qed

lemma dropped_connection_spins_witness:
  "raw_uid_fetch_envelopes (dropping (''* OK'' @ crlf)) id_lib example_client ''INBOX'' 1 250 = None"
  using dropped_connection_spins [OF example_port, of "''* OK'' @ crlf" "[1]"] full_line_crlf [of "''* OK''"] by simp

section \<open>A refused login\<close>

text \<open>A server that refuses the login and everything after it.\<close>

definition refusals :: "string list \<Rightarrow> string" where
  "refusals cmds = (case cmds of [] \<Rightarrow> ''* OK'' @ crlf | [_] \<Rightarrow> ''a001 NO'' @ crlf | _ \<Rightarrow> ''a002 BAD'' @ crlf)"

definition refusing :: network where
  "refusing = (\<lambda>_ _. Inr (refusals, False))"

lemma bad_tells_nothing: "note_validity_line (''a002 BAD'' @ crlf) (note_uid_next (''a002 BAD'' @ crlf) st) = st"
  using search_none [of "CHR ''[''" "''a002 BAD'' @ crlf"] by (simp add: note_validity_line_def note_uid_next_def)

lemma refused_fetch:
  assumes c: "host_port (cl_server c) = Value hp"
  shows "raw_uid_fetch_envelopes refusing lib c n s k = Some (Value (no_mailbox_state, []))"
proof -
  define w where "w cmds = \<lparr>wr_server = refusals, wr_silent = False, wr_in = [], wr_sent = cmds\<rparr>" for cmds
  let ?ok = "''* OK'' @ crlf" and ?no = "''a001 NO'' @ crlf" and ?bad = "''a002 BAD'' @ crlf"
  have lines: "full_line ?ok" "full_line ?no" "full_line ?bad" by (rule full_line_crlf, simp)+
  have nil: "feed [] (w cmds) = w cmds" for cmds by (simp add: w_def)
  have conv: "converse refusing c m = map_option fst (m (feed ?ok (w [])))" for m :: "'x io"
    using c by (cases hp) (simp add: converse_def refusing_def w_def refusals_def)
  have send: "send cmd (w cmds) = Some (Value (), feed (refusals (cmds @ [cmd])) (w (cmds @ [cmd])))" for cmd cmds
    by (simp add: send_def w_def)
  have answers: "refusals [x] = ?no" "refusals [x, y] = ?bad" for x y by (simp_all only: refusals_def list.case)
  have two: "[x] @ [y] = [x, y]" for x y :: string by simp
  have greet: "read_line (feed ?ok (w [])) = Some (Value ?ok, w [])"
    using read_line_full [OF lines(1), of "[]" "w []"] by (simp only: append_Nil2 nil)
  have no: "answer read_line ''a001 '' (feed ?no (w cmds)) = Some (Value ?no, w cmds)" for cmds
    using answer_line [OF lines(2), of "''a001 ''" "[]" "w cmds"] by (simp only: append_Nil2 nil) (simp add: starts_with_def)
  have bad: "until_tag read_line ''a002 '' f acc (feed ?bad (w cmds)) = Some (Value (acc, ?bad), w cmds)"
    for f :: "mailbox_state \<Rightarrow> string \<Rightarrow> mailbox_state io" and acc cmds
    using until_tag_read [OF lines(3), of "''a002 ''" f acc "[]" "w cmds"] by (simp only: append_Nil2 nil) (simp add: starts_with_def)
  have z: "mb_exists no_mailbox_state = 0" by (simp add: no_mailbox_state_def)
  have login: "log_in_unchecked c (feed ?ok (w [])) = Some (Value (), w [login_command quote (cl_username c) (cl_password c)])"
    unfolding log_in_unchecked_def io_then_def greet by (simp only: option.case prod.case run.case send append_Nil answers no) (simp add: done_io_def)
  have select: "select_state n (w [x]) = Some (Value no_mailbox_state, w [x, select_command quote n []])" for x
    unfolding select_state_def io_then_def
    by (simp only: option.case prod.case run.case send two answers bad done_io_def) (subst bad_tells_nothing, rule refl)
  show ?thesis
    unfolding raw_uid_fetch_envelopes_def conv
    by (simp only: io_then_def login option.case prod.case run.case select z Let_def simp_thms if_True done_io_def
        option.map fst_conv)
qed

text \<open>C19: the fetch of a range takes a refused login, or a refused \<^verbatim>\<open>SELECT\<close>, for an empty mailbox: it
  does not look at the tagged answers. The synchronisation of the folder then succeeds without a message,
  and sets the cursor of the folder to 0 and its message count to 0, so that the next run begins at the
  first message of the folder.\<close>

theorem rejected_select_rewinds:
  assumes w: "wired h refusing lib c n" and p: "host_port (cl_server c) = Value hp" and r: "reliable h n"
  shows "\<exists>w'. sync_folder (Suc k) h a n s 0 w0 = Some (Inr 0, w')
    \<and> (\<forall>f \<in> set (ms_folders (mw_mail w')). folder_at a n f \<longrightarrow> fo_last_synced_uid f = Some 0)"
proof -
  obtain i where fetch: "sy_fetch h n s sync_batch_size (mw_imap w0) = (Inr (no_mailbox_state, []), i)"
    using w refused_fetch [OF p] unfolding wired_def by blast
  define w1 where "w1 = w0\<lparr>mw_imap := i\<rparr>"
  have f: "imap ''Failed to raw fetch envelopes'' (sy_fetch h n s sync_batch_size) w0 = (Inr (no_mailbox_state, []), w1)"
    using fetch by (simp add: imap_def net_def ctx_def w1_def)
  obtain w2 where counted: "sdb h ''Failed to update folder message count''
      (exec (update_imap_folder_message_counts_for_account a [(n, as_i32 (mb_exists no_mailbox_state))])) w1 = (Inr (), w2)"
    by (rule sdb_ok [OF r, where f = "exec (update_imap_folder_message_counts_for_account a [(n, as_i32 (mb_exists no_mailbox_state))])"]) simp
  obtain w3 where cur: "set_cursor h ''Failed to update last_synced_uid (empty mailbox)'' a n 0 w2 = (Inr (), w3)"
    and m3: "mw_mail w3 = update_folder_last_synced_uid_for_account a n (as_i32 0) (mw_mail w2)"
    unfolding set_cursor_def by (rule sdb_ok [OF r, where f = "exec (update_folder_last_synced_uid_for_account a n (as_i32 0))"]) simp
  have z: "mb_uid_validity no_mailbox_state = None" "mb_uid_next no_mailbox_state = None" by (simp_all add: no_mailbox_state_def)
  have "sync_batch h a n s w0 = (Inr (0, None), w3)"
    using f counted cur by (simp add: sync_batch_def skip_empty_range_def note_positive_validity_def z)
  moreover have "fo_last_synced_uid f = Some 0" if "f \<in> set (ms_folders (mw_mail w3))" "folder_at a n f" for f
  proof -
    have "f \<in> set (map (\<lambda>g. if folder_at a n g then g\<lparr>fo_last_synced_uid := Some 0\<rparr> else g) (ms_folders (mw_mail w2)))"
      using that(1) by (simp add: m3 update_folder_last_synced_uid_for_account_def update_folders_def sql_update_def as_i32_def)
    then obtain g where g: "f = (if folder_at a n g then g\<lparr>fo_last_synced_uid := Some 0\<rparr> else g)" unfolding set_map by (rule imageE)
    with that(2) show ?thesis by (cases "folder_at a n g") simp_all
  qed
  ultimately show ?thesis by auto
qed

lemma rejected_select_rewinds_witness:
  "\<exists>w'. sync_folder (Suc 1) (wire_host refusing id_lib) ''a'' ''INBOX'' 301 0 example_mail_world = Some (Inr 0, w')
    \<and> (\<forall>f \<in> set (ms_folders (mw_mail w')). folder_at ''a'' ''INBOX'' f \<longrightarrow> fo_last_synced_uid f = Some 0)"
proof (rule rejected_select_rewinds [OF wire_host_wired example_port])
  have "nullif_blank (Some ''INBOX'') = Some ''INBOX''" by code_simp
  then show "reliable (wire_host refusing id_lib) ''INBOX''"
    by (simp add: reliable_def wire_host_def box_host_def easy_host_def unary_inverse)
qed

section \<open>Vanished messages\<close>

text \<open>The lines of RFC 7162 by which a server tells, in its answer to \<^verbatim>\<open>SELECT\<close>, what has been expunged, and
  a server that answers with them.\<close>

definition uid_set_text :: "string \<Rightarrow> bool" where
  "uid_set_text s \<longleftrightarrow> list_all (\<lambda>c. is_ascii_digit c \<or> c = CHR '':'' \<or> c = CHR '','') s"

definition vanished_line :: "string \<Rightarrow> string" where
  "vanished_line s = ''* VANISHED (EARLIER) '' @ s @ crlf"

definition vanishings :: "string list \<Rightarrow> string list \<Rightarrow> string" where
  "vanishings ss cmds =
     (case cmds of [] \<Rightarrow> ''* OK'' @ crlf | [_] \<Rightarrow> ''a001 OK'' @ crlf | _ \<Rightarrow> concat (map vanished_line ss) @ ''a002 OK'' @ crlf)"

definition vanishing :: "string list \<Rightarrow> network" where
  "vanishing ss = (\<lambda>_ _. Inr (vanishings ss, False))"

lemma earlier_unread:
  assumes "uid_set_text s"
  shows "vanished_uids (vanished_line s) = []"
proof -
  have "\<not> starts_with (s @ crlf) ''(''" using assms by (cases s) (auto simp: starts_with_def uid_set_text_def is_ascii_digit_def)
  then have "search vanished_at (vanished_line s) = Some ''EARLIER''"
    by (simp add: vanished_line_def vanished_at_def expect_def starts_with_def)
  moreover have "concat (map uid_part (split_by (\<lambda>c. c = CHR '','') ''EARLIER'')) = []" by code_simp
  ultimately show ?thesis by (simp only: vanished_uids_def option.case) simp
qed

lemma vanished_line_facts:
  assumes "uid_set_text s"
  shows "full_line (vanished_line s)" and "\<not> starts_with (vanished_line s) ''a002 ''"
proof -
  have "LF \<notin> set (''* VANISHED (EARLIER) '' @ s)" using assms by (auto simp: uid_set_text_def list_all_iff is_ascii_digit_def)
  from full_line_crlf [OF this] show "full_line (vanished_line s)" by (simp add: vanished_line_def)
  show "\<not> starts_with (vanished_line s) ''a002 ''" by (simp add: vanished_line_def starts_with_def)
qed

text \<open>The messages a server reports as expunged are never read. The pattern expects the UIDs in parentheses,
  where the protocol has them bare, so that of a line \<^verbatim>\<open>* VANISHED (EARLIER) 41,43:116\<close> it takes the word
  \<^verbatim>\<open>EARLIER\<close>, in which there is no number. The resynchronisation succeeds with an empty list, whatever
  has gone, and the rows of these messages stay.\<close>

theorem vanished_is_never_read:
  assumes c: "host_port (cl_server c) = Value hp" and ss: "list_all uid_set_text ss"
  shows "get_expunged_uids_qresync (vanishing ss) c n v us = Some (Value [])"
proof -
  define w where "w cmds = \<lparr>wr_server = vanishings ss, wr_silent = False, wr_in = [], wr_sent = cmds\<rparr>" for cmds
  let ?ok = "''* OK'' @ crlf" and ?yes = "''a001 OK'' @ crlf" and ?done = "''a002 OK'' @ crlf"
  have lines: "full_line ?ok" "full_line ?yes" "full_line ?done" by (rule full_line_crlf, simp)+
  have nil: "feed [] (w cmds) = w cmds" for cmds by (simp add: w_def)
  have conv: "converse (vanishing ss) c m = map_option fst (m (feed ?ok (w [])))" for m :: "'x io"
    using c by (cases hp) (simp add: converse_def vanishing_def w_def vanishings_def)
  have send: "send cmd (w cmds) = Some (Value (), feed (vanishings ss (cmds @ [cmd])) (w (cmds @ [cmd])))" for cmd cmds
    by (simp add: send_def w_def)
  have answers: "vanishings ss [x] = ?yes" "vanishings ss [x, y] = concat (map vanished_line ss) @ ?done" for x y
    by (simp_all only: vanishings_def list.case)
  have two: "[x] @ [y] = [x, y]" for x y :: string by simp
  have greet: "read_line (feed ?ok (w [])) = Some (Value ?ok, w [])"
    using read_line_full [OF lines(1), of "[]" "w []"] by (simp only: append_Nil2 nil)
  have yes: "answer read_line ''a001 '' (feed ?yes (w cmds)) = Some (Value ?yes, w cmds)" for cmds
    using answer_line [OF lines(2), of "''a001 ''" "[]" "w cmds"] by (simp only: append_Nil2 nil) (simp add: starts_with_def)
  have fine: "checked what ''a001 '' ?yes w1 = Some (Value (), w1)" "checked what ''a002 '' ?done w1 = Some (Value (), w1)" for what w1
    by (simp_all add: checked_def run_io_def ctx_run_def check_imap_tag_response_def starts_with_def trim_start_def)
  have none: "foldl (\<lambda>acc l. acc @ vanished_uids l) acc (map vanished_line ss) = acc" for acc
    using ss by (induction ss) (simp_all add: earlier_unread)
  have t: "starts_with ?done ''a002 ''" by (simp add: starts_with_def)
  have plain: "\<forall>l \<in> set (map vanished_line ss). full_line l \<and> \<not> starts_with l ''a002 ''"
    using ss vanished_line_facts by (auto simp: list_all_iff)
  have loop: "until_tag read_line ''a002 '' (\<lambda>expunged line. done_io (expunged @ vanished_uids line)) []
      (feed (concat (map vanished_line ss) @ ?done) (w cmds)) = Some (Value ([], ?done), w cmds)" for cmds
    using until_tag_lines [OF refl lines(3) t plain, where g = "\<lambda>acc l. acc @ vanished_uids l" and acc = "[]" and rest = "[]" and w = "w cmds"]
    by (simp only: append_Nil2 nil none)
  have login: "log_in c (feed ?ok (w [])) = Some (Value (), w [login_command quote (cl_username c) (cl_password c)])"
    unfolding log_in_def io_then_def greet by (simp only: option.case prod.case run.case send append_Nil answers yes fine)
  show ?thesis
    unfolding get_expunged_uids_qresync_def conv
    by (simp only: io_then_def login option.case prod.case run.case send two answers loop fine Let_def done_io_def
        option.map fst_conv)
qed

lemma vanished_is_never_read_witness:
  "get_expunged_uids_qresync (vanishing [''41,43:116'', ''405'']) example_client ''INBOX'' 1 [41, 43, 405] = Some (Value [])"
proof (rule vanished_is_never_read [OF example_port])
  show "list_all uid_set_text [''41,43:116'', ''405'']" by code_simp
qed

section \<open>Names and passwords\<close>

text \<open>C20: what a server reads of the login that the fetches send is the user name and the password, whatever
  quotes and backslashes are in them, as long as they are one line. The commands with a time limit quote
  them as if they were folder names, and the server reads every ampersand as \<^verbatim>\<open>&-\<close>: with one in the
  password, the fetches get in, and creating, deleting and moving do not.\<close>

theorem login_roundtrip:
  "read_login (login_command quote u p) = (if one_line u \<and> one_line p then Some (u, p) else None)
   \<and> read_login (login_command escape_mailbox u p)
     = (if one_line u \<and> one_line p then Some (replace_with (CHR ''&'') ''&-'' u, replace_with (CHR ''&'') ''&-'' p) else None)
   \<and> (read_login (login_command escape_mailbox u p) = Some (u, p)
      \<longleftrightarrow> one_line u \<and> one_line p \<and> CHR ''&'' \<notin> set u \<and> CHR ''&'' \<notin> set p)"
proof -
  have esc: "login_command escape_mailbox u p = login_command quote (amp_encode u) (amp_encode p)"
    by (simp only: login_command_def escape_is_quote)
  show ?thesis unfolding esc read_login_quote by (auto simp: one_line_amp replace_with_id)
qed

end
