(* ===== verification/NormalizationProps.thy ===== *)
theory NormalizationProps
  imports NormalizationFacts SyncProps
begin

text \<open>
  The properties of the normalisation of results, with a result in free text for their witnesses.
\<close>

section \<open>What is stored\<close>

lemma settle_result_allowed:
  assumes v: "first_verdict r = (v, r2)" and l: "null_or_in category_allowed c" "null_or_in email_type_allowed t" "otp \<in> set otp_status_allowed"
  shows "fields_allowed (fst (settle_result shown mid (c, t, otp) v source r'))"
proof -
  obtain v1 r1 where rv: "repair_verdict shown v source r' = (v1, r1)" by fastforce
  note a = first_verdict_allowed [OF v] and b = repair_verdict_cases [OF rv]
  have "null_or_in spam_status_allowed (vd_spam v1)" using a(1) b(1) by (simp add: spam_status_allowed_def)
  moreover have "null_or_in marketing_status_allowed (vd_marketing v1)" using a(3) b(4) by (auto simp: marketing_status_allowed_def)
  moreover have "null_or_in email_type_allowed (fst (note_alert shown alert t x))" for alert x
    using l(2) by (auto simp: note_alert_def email_type_allowed_def)
  ultimately show ?thesis
    using l a b by (simp add: settle_result_def Let_def case_prod_beta rv fields_allowed_def update_fields_def)
qed


text \<open>A model that answers in words of its own.\<close>

definition free_text :: analysis where
  "free_text =
     \<lparr>ar_spam_status = Some ''SPAM '', ar_phishing_status = Some ''maybe'', ar_marketing_status = Some ''Not_Marketing'',
      ar_otp_status = Some ''N/A'', ar_otp_code = None, ar_otp_expires = Some 5, ar_threat_level = Some ''severe'',
      ar_threat_indicators = None, ar_ai_summary = Some (JString ''A digest''), ar_human_summary = Some ''Council tax notice'',
      ar_category = Some ''Personal Finance'', ar_subcategory = Some ''Financial'', ar_organization = None, ar_topic = None,
      ar_email_type = Some ''a newsletter'', ar_location_recommendation = None, ar_offer_expires = None,
      ar_confidence = None, ar_analyzed_by = None, ar_queued_for_frontier = False\<rparr>"


section \<open>Labels\<close>

lemma allowed_fixed:
  "c \<in> set category_allowed \<Longrightarrow> normalize_category (Some c) = Some c"
  "t \<in> set email_type_allowed \<Longrightarrow> normalize_email_type (Some t) = Some t"
proof -
  have "\<forall>c \<in> set category_allowed. normalize_category (Some c) = Some c"
    "\<forall>t \<in> set email_type_allowed. normalize_email_type (Some t) = Some t" by code_simp+
  then show "c \<in> set category_allowed \<Longrightarrow> normalize_category (Some c) = Some c"
    "t \<in> set email_type_allowed \<Longrightarrow> normalize_email_type (Some t) = Some t" by blast+
qed

lemma label_not_category:
  assumes "normalize_taxonomy_label raw = Some l" and "l \<notin> set category_allowed"
  shows "normalize_category (Some l) = None"
  using canonical_fixed [OF label_canonical [OF assms(1)]] assms(2)
  by (simp add: normalize_category_def Let_def pick_allowed_None)

lemma in_flatten_opts: "x \<in> set (flatten_opts xs) \<longleftrightarrow> Some x \<in> set xs"
  by (induction xs) (auto simp: flatten_opts_def map_filter_simps split: option.split)

text \<open>Labels settle at once. Applying a result leaves it with the category and the email type that another
  application would find again, wherever they were found; a category outside the list becomes the subcategory
  in a canonical spelling, which no later reading takes for a category.\<close>

theorem labels_settle:
  "let ((category, email_type, _), r') = apply_labels r
   in infer_category_from_result r' = category \<and> infer_email_type_from_result r' = email_type
      \<and> preserve_unaligned_category_as_subcategory r' = r'"
proof -
  define r1 where "r1 = preserve_unaligned_category_as_subcategory r"
  define c where "c = infer_category_from_result r"
  define t where "t = infer_email_type_from_result r1"
  define r' where "r' = snd (apply_labels r)"
  have r': "ar_category r' = c" "ar_subcategory r' = ar_subcategory r1" "ar_topic r' = ar_topic r1"
    "ar_email_type r' = (case t of Some x \<Rightarrow> Some x | None \<Rightarrow> ar_email_type r1)"
    "ar_organization r' = ar_organization r1" "ar_human_summary r' = ar_human_summary r1"
    by (simp_all add: r'_def apply_labels_def Let_def c_def t_def flip: r1_def)
  have r1: "ar_topic r1 = ar_topic r" "ar_category r1 = ar_category r"
    by (auto simp: r1_def preserve_unaligned_category_as_subcategory_def split: option.split)
  have category: "infer_category_from_result r' = c"
  proof (cases c)
    case (Some x)
    then have "normalize_category (Some x) = Some x" using labels_allowed(1) [of r] allowed_fixed(1) by (simp add: c_def)
    then show ?thesis using Some r'(1) by (simp add: infer_category_from_result_def flatten_opts_def map_filter_simps)
  next
    case None
    then have no: "\<forall>x \<in> set (flatten_opts [ar_category r, ar_subcategory r, ar_topic r]). normalize_category (Some x) = None"
      by (simp add: c_def infer_category_from_result_def find_map_None)
    then have each: "\<And>x. ar_subcategory r = Some x \<Longrightarrow> normalize_category (Some x) = None"
      "\<And>x. ar_topic r = Some x \<Longrightarrow> normalize_category (Some x) = None"
      by (auto simp: in_flatten_opts)
    have "normalize_category (Some x) = None" if "ar_subcategory r1 = Some x" for x
      using that each(1) label_not_category
      by (auto simp: r1_def preserve_unaligned_category_as_subcategory_def split: option.splits if_splits)
    then show ?thesis using None r' r1 each(2)
      by (simp add: infer_category_from_result_def find_map_None flatten_opts_def map_filter_simps split: option.split)
  qed
  have type: "infer_email_type_from_result r' = t"
  proof (cases t)
    case (Some x)
    then have "normalize_email_type (Some x) = Some x" using labels_allowed(2) [of r1] allowed_fixed(2) by (simp add: t_def)
    then show ?thesis using Some r'(4) by (simp add: infer_email_type_from_result_def flatten_opts_def map_filter_simps)
  next
    case None
    then show ?thesis using r' by (simp add: t_def infer_email_type_from_result_def)
  qed
  have "preserve_unaligned_category_as_subcategory r' = r'"
  proof (cases c)
    case (Some x)
    then have "normalize_category (Some x) = Some x" using labels_allowed(1) [of r] allowed_fixed(1) by (simp add: c_def)
    then show ?thesis using Some r'(1) by (simp add: preserve_unaligned_category_as_subcategory_def)
  qed (simp add: preserve_unaligned_category_as_subcategory_def r'(1))
  moreover have "apply_labels r = ((c, t, infer_otp_status_from_result r1), r')"
    by (simp add: apply_labels_def Let_def c_def t_def r1_def r'_def)
  ultimately show ?thesis using category type by simp
qed

section \<open>Repairs\<close>

text \<open>C22: a verdict is only ever softened, and never under a threat. What is stored says spam only if the model
  did, and calls an email not spam against the model exactly when there is no threat and the result or the
  email shows guidance, an alert the user asked for, or a private message with an advertising signature. The
  verdict on phishing and the threat level are stored as they were, and under a threat, that is phishing or
  a level of high or critical, so are spam and marketing.\<close>

theorem threats_are_never_softened:
  "let v = fst (first_verdict r0); fields = fst (settle_result shown mid labels v source r)
   in ai_phishing_status fields = vd_phishing v \<and> ai_threat_level fields = vd_threat v
    \<and> ai_spam_status fields = (if spam_repaired shown v source r then Some ''not-spam'' else vd_spam v)
    \<and> (if vd_phishing v = Some ''phishing'' \<or> vd_threat v \<in> {Some ''high'', Some ''critical''}
       then ai_spam_status fields = vd_spam v \<and> ai_marketing_status fields = vd_marketing v else True)"
proof -
  define v where "v = fst (first_verdict r0)"
  obtain c t otp where l: "labels = (c, t, otp)" by (metis prod.exhaust)
  obtain v1 r1 where rv: "repair_verdict shown v source r = (v1, r1)" by fastforce
  have "ai_phishing_status (fst (settle_result shown mid labels v source r)) = vd_phishing v1"
    "ai_threat_level (fst (settle_result shown mid labels v source r)) = vd_threat v1"
    "ai_spam_status (fst (settle_result shown mid labels v source r)) = vd_spam v1"
    "ai_marketing_status (fst (settle_result shown mid labels v source r)) = vd_marketing v1"
    by (simp_all add: settle_result_def update_fields_def Let_def case_prod_beta rv l)
  then show ?thesis using repair_verdict_cases [OF rv]
    by (simp add: Let_def threat_blocks_non_destructive_repair_def spam_repaired_def flip: v_def)
qed

section \<open>Words within words\<close>

lemma to_lower_append: "to_lower (a @ b) = to_lower a @ to_lower b"
  by (simp add: to_lower_def)

text \<open>C38: an email about a footprint is one about a one-time code. The words that tell such a code are looked for
  anywhere in the text, and \<^verbatim>\<open>otp\<close> stands in the middle of \<^verbatim>\<open>footprint\<close>: whatever else the result
  says, it is stored with a status other than \<^verbatim>\<open>not_otp\<close>.\<close>

theorem footprint_is_a_code:
  "ai_otp_status (fst (settle_result shown mid
       (fst (apply_labels (r\<lparr>ar_human_summary := Some (before @ ''footprint'' @ after)\<rparr>))) v source r2)) \<noteq> Some ''not_otp''"
proof -
  let ?s = "before @ ''footprint'' @ after" and ?r = "r\<lparr>ar_human_summary := Some (before @ ''footprint'' @ after)\<rparr>"
  have "to_lower ?s = (to_lower before @ ''fo'') @ ''otp'' @ (''rint'' @ to_lower after)"
    by (simp add: to_lower_append) (simp add: to_lower_def to_lower_char_def)
  then have "contains (to_lower ?s) ''otp''" unfolding contains_def by (metis sublist_appendI)
  then have "contains_any (to_lower ?s) code_words" by (simp add: contains_any_def code_words_def del: append.simps)
  then obtain k where k: "otp_of_text ?s = Some k" "k \<noteq> ''not_otp''"
    by (cases "contains_any (to_lower ?s) reset_words"; cases "contains_any (to_lower ?s) link_words")
      (simp_all add: otp_of_text_def Let_def)
  have "ar_human_summary (preserve_unaligned_category_as_subcategory ?r) = Some ?s"
    by (auto simp: preserve_unaligned_category_as_subcategory_def split: option.split)
  then have "infer_otp_status_from_result (preserve_unaligned_category_as_subcategory ?r) = k"
    using k(1) by (simp add: infer_otp_status_from_result_def flatten_opts_def map_filter_simps del: append.simps)
  then have "snd (snd (fst (apply_labels ?r))) = k" by (simp add: apply_labels_def Let_def del: append.simps)
  moreover have "ai_otp_status (fst (settle_result shown mid labels v source r2)) = Some (snd (snd labels))" for labels
    by (cases labels) (simp add: settle_result_def update_fields_def Let_def case_prod_beta)
  ultimately show ?thesis using k(2) by simp
qed

end
