(* ===== verification/AgentGate.thy ===== *)
theory AgentGate
  imports Completeness CoreWork
begin

text \<open>
  The part of \<^verbatim>\<open>src/agent_harness/run_executor.rs\<close> that decides before a run of the mail assistant:
  how long to wait for a complete database and what work to ask for (\<open>poll_config\<close>,
  \<open>classify_db_prerequisite_work\<close>), what a run answers when the wait is over
  (\<open>db_prerequisites_pending_output\<close>), and which tools a question requires, with their arguments. Text is
  ASCII.
\<close>

section \<open>Waiting for a complete database\<close>

record poll_config =
  po_enabled :: bool
  po_request_work :: bool
  po_max_wait :: int
  po_interactive_max_wait :: int
  po_initial_backoff_ms :: int
  po_max_backoff_ms :: int
  po_stable_polls_required :: int

definition poll_config_from_env :: "env \<Rightarrow> poll_config" where
  "poll_config_from_env e =
     (let mode = (case e ''AGENT_DB_COMPLETENESS_MODE'' of None \<Rightarrow> [] | Some m \<Rightarrow> m);
          max_wait = max 1 (env_parse e parse_u64 ''AGENT_DB_COMPLETENESS_MAX_WAIT_SECS'' 120);
          initial = max 50 (env_parse e parse_u64 ''AGENT_DB_COMPLETENESS_INITIAL_BACKOFF_MS'' 500)
      in \<lparr>po_enabled = env_flag e ''AGENT_DB_COMPLETENESS_ENABLED'' True,
          po_request_work = env_flag e ''AGENT_DB_COMPLETENESS_REQUEST_WORK'' (\<not> eq_ignore_ascii_case mode ''passive''),
          po_max_wait = max_wait,
          po_interactive_max_wait =
            min max_wait (max 1 (env_parse e parse_u64 ''AGENT_DB_COMPLETENESS_INTERACTIVE_MAX_WAIT_SECS'' 15)),
          po_initial_backoff_ms = initial,
          po_max_backoff_ms = max initial (env_parse e parse_u64 ''AGENT_DB_COMPLETENESS_MAX_BACKOFF_MS'' 5000),
          po_stable_polls_required = max 1 (env_parse e parse_u32 ''AGENT_DB_COMPLETENESS_STABLE_POLLS'' 2)\<rparr>)"

definition should_complete_db_pending_for_task :: "string \<Rightarrow> bool" where
  "should_complete_db_pending_for_task task_id = starts_with task_id ''api-chat-''"

definition max_wait_for_task :: "poll_config \<Rightarrow> string \<Rightarrow> int" where
  "max_wait_for_task c task_id =
     (if should_complete_db_pending_for_task task_id then po_interactive_max_wait c else po_max_wait c)"

definition should_gate_db_completeness :: "string \<Rightarrow> bool" where
  "should_gate_db_completeness agent \<longleftrightarrow> to_lower agent = ''mail-assistant''"

definition should_use_partial_db :: "string \<Rightarrow> string \<Rightarrow> bool" where
  "should_use_partial_db agent task_id \<longleftrightarrow>
     eq_ignore_ascii_case agent ''mail-assistant'' \<and> should_complete_db_pending_for_task task_id"

definition body_work_left :: "completeness_snapshot \<Rightarrow> bool" where
  "body_work_left s \<longleftrightarrow> sn_body_missing s > 0 \<or> qd_pending (sn_body_sync s) > 0
     \<or> qd_failed (sn_body_sync s) > 0 \<or> qd_processing (sn_body_sync s) > 0"

definition classify_db_prerequisite_work :: "completeness_snapshot \<Rightarrow> core_work_type list" where
  "classify_db_prerequisite_work s =
     (if sn_folder_count s = 0 \<or> needs_full_sync_backfill s then [SyncFull] else [])
     @ (if body_work_left s then [SyncBody] else [])
     @ (if sn_analysis_missing s > 0 then [Analyze] else [])
     @ (if sn_location_missing s > 0 then [Locate] else [])"

definition core_work_type_names :: "core_work_type list \<Rightarrow> string list" where
  "core_work_type_names work = map as_work_str work"

definition pending_retry_after_seconds :: "completeness_snapshot \<Rightarrow> int" where
  "pending_retry_after_seconds s =
     (let backlog = sn_body_missing s + sn_analysis_missing s + sn_location_missing s
                    + qd_pending (sn_body_sync s) + qd_failed (sn_body_sync s) + qd_processing (sn_body_sync s)
      in if backlog > 100 then 30 else if backlog > 0 then 15 else 10)"

record db_pending =
  dp_snapshot :: completeness_snapshot
  dp_requested_work :: "core_work_type list"
  dp_stable_polls :: int
  dp_elapsed_ms :: int
  dp_max_wait :: int

definition is_snapshot_ready :: "poll_config \<Rightarrow> completeness_snapshot \<Rightarrow> int \<Rightarrow> bool" where
  "is_snapshot_ready c s stable_polls \<longleftrightarrow> \<not> has_active_backlog s \<and> po_stable_polls_required c \<le> stable_polls"

definition pending_details :: "completeness_snapshot \<Rightarrow> string list" where
  "pending_details s =
     (if sn_folder_count s = 0 \<or> sn_email_count s = 0
      then [''- Sync: mailbox folders or messages are still loading.'']
      else if needs_full_sync_backfill s
      then [''- Sync: only '' @ show_int (sn_email_count s) @ '' emails are indexed, but the largest known folder reports ''
            @ show_int (sn_largest_folder_message_count s) @ '' messages.'']
      else [])
     @ (if sn_missing_message_id s > 0
        then [''- Sync note: '' @ show_int (sn_missing_message_id s)
              @ '' messages could not be imported because the server did not provide stable message IDs.'']
        else [])
     @ (if body_work_left s
        then [''- Bodies: '' @ show_int (sn_body_missing s)
              @ '' emails need body content; body queue pending/failed/processing/dead is ''
              @ show_int (qd_pending (sn_body_sync s)) @ ''/'' @ show_int (qd_failed (sn_body_sync s)) @ ''/''
              @ show_int (qd_processing (sn_body_sync s)) @ ''/'' @ show_int (qd_dead (sn_body_sync s)) @ ''.'']
        else [])
     @ (if sn_analysis_missing s > 0
        then [''- Analysis: '' @ show_int (sn_analysis_missing s) @ '' emails still need classification and safety analysis.'']
        else [])
     @ (if sn_location_missing s > 0
        then [''- Filing: '' @ show_int (sn_location_missing s) @ '' emails still need folder recommendations.'']
        else [])"

definition db_prerequisites_pending_markdown :: "bool \<Rightarrow> int \<Rightarrow> completeness_snapshot \<Rightarrow> string list \<Rightarrow> string" where
  "db_prerequisites_pending_markdown request_work retry_after s requested_work =
     (let details = pending_details s in
      join [CHR 0x0A]
        ([''## Mail Assistant'', [],
          ''I'' @ [CHR 0x27] @ ''m still preparing this mailbox, so I can'' @ [CHR 0x27]
          @ ''t answer from the database reliably yet.'', [],
          (if request_work then ''Core has requested the missing prerequisite work and is still catching up:''
           else ''Core still needs prerequisite work before this answer can run:'')]
         @ (if details = [] then [''- Readiness: core still has active work that must settle first.''] else details)
         @ [[],
            (if requested_work = [] then ''- Requested work: no new core work was needed on this poll.''
             else ''- Requested work: `'' @ join ''`, `'' requested_work @ ''`.''),
            ''- Next step: keep core running and try again in about '' @ show_int retry_after @ '' seconds.'']))"

definition body_sync_json :: "queue_depth \<Rightarrow> json" where
  "body_sync_json d =
     JObject [(''pending'', JInt (qd_pending d)), (''failed'', JInt (qd_failed d)),
              (''processing'', JInt (qd_processing d)), (''dead'', JInt (qd_dead d))]"

definition names_json :: "core_work_type list \<Rightarrow> json" where
  "names_json work = JArray (map JString (core_work_type_names work))"

definition db_prerequisites_pending_output :: "string \<Rightarrow> string \<Rightarrow> bool \<Rightarrow> int \<Rightarrow> db_pending \<Rightarrow> json" where
  "db_prerequisites_pending_output account agent request_work retry_after p =
     (let s = dp_snapshot p in
      JObject
        [(''status'', JString ''prerequisites_pending''),
         (''response_markdown'', JString (db_prerequisites_pending_markdown request_work retry_after s
                                            (core_work_type_names (dp_requested_work p)))),
         (''summary'', JString (''Mailbox prerequisites are still pending: '' @ show_int (sn_analysis_missing s)
                                @ '' emails need analysis and '' @ show_int (sn_location_missing s)
                                @ '' need filing recommendations.'')),
         (''confidence'', JFloat 1), (''needs_specialist'', JBool False),
         (''agent_name'', JString agent), (''account_id'', JString account),
         (''request_work_enabled'', JBool request_work),
         (''requested_work'', names_json (dp_requested_work p)),
         (''retry_after_seconds'', JInt retry_after),
         (''db_completeness'', JObject
            [(''ready'', JBool False), (''folder_count'', JInt (sn_folder_count s)),
             (''email_count'', JInt (sn_email_count s)),
             (''largest_folder_message_count'', JInt (sn_largest_folder_message_count s)),
             (''missing_message_id'', JInt (sn_missing_message_id s)), (''body_missing'', JInt (sn_body_missing s)),
             (''analysis_missing'', JInt (sn_analysis_missing s)), (''location_missing'', JInt (sn_location_missing s)),
             (''body_sync'', body_sync_json (sn_body_sync s)), (''stable_polls'', JInt (dp_stable_polls p)),
             (''elapsed_ms'', JInt (dp_elapsed_ms p)), (''max_wait_seconds'', JInt (dp_max_wait p))])])"

text \<open>The fields of a snapshot that requests and log entries carry, and the context of an interactive chat.\<close>

definition snapshot_fields :: "completeness_snapshot \<Rightarrow> (string \<times> json) list" where
  "snapshot_fields s =
     [(''folder_count'', JInt (sn_folder_count s)), (''email_count'', JInt (sn_email_count s)),
      (''largest_folder_message_count'', JInt (sn_largest_folder_message_count s)),
      (''missing_message_id'', JInt (sn_missing_message_id s)), (''body_missing'', JInt (sn_body_missing s)),
      (''analysis_missing'', JInt (sn_analysis_missing s)), (''location_missing'', JInt (sn_location_missing s)),
      (''body_sync_pending'', JInt (qd_pending (sn_body_sync s))),
      (''body_sync_failed'', JInt (qd_failed (sn_body_sync s))),
      (''body_sync_processing'', JInt (qd_processing (sn_body_sync s))),
      (''body_sync_dead'', JInt (qd_dead (sn_body_sync s)))]"

definition completeness_event_args ::
  "poll_config \<Rightarrow> string \<Rightarrow> string \<Rightarrow> completeness_snapshot \<Rightarrow> core_work_type list \<Rightarrow> int \<Rightarrow> int \<Rightarrow> json" where
  "completeness_event_args c account event s requested_work stable_polls elapsed_ms =
     JObject ([(''event'', JString event), (''account_id'', JString account),
               (''requested_work'', names_json requested_work),
               (''request_work_enabled'', JBool (po_request_work c))]
              @ snapshot_fields s
              @ [(''stable_polls'', JInt stable_polls), (''stable_required'', JInt (po_stable_polls_required c)),
                 (''elapsed_ms'', JInt elapsed_ms)])"

definition prerequisite_payload :: "string \<Rightarrow> string \<Rightarrow> string \<Rightarrow> completeness_snapshot \<Rightarrow> json" where
  "prerequisite_payload agent run_id task_id s =
     JObject [(''reason'', JString ''agent_db_completeness_prerequisite''), (''requested_by'', JString ''agent_harness''),
              (''agent_name'', JString agent), (''run_id'', JString run_id), (''task_id'', JString task_id),
              (''snapshot'', JObject (snapshot_fields s))]"

definition answer_policy :: string where
  "answer_policy = ''Use the normal Mail Assistant tools and answer from prepared Postgres evidence. Do not refuse the entire turn just because preparation is incomplete. If a requested field is null, pending, or absent, say that specific detail has not been prepared yet.''"

definition count_scope :: string where
  "count_scope = ''Counts and lists from tools are active synced emails currently stored in Postgres unless the tool says otherwise.''"

definition mailbox_preparation :: "completeness_snapshot \<Rightarrow> core_work_type list \<Rightarrow> json" where
  "mailbox_preparation s requested_work =
     JObject
       [(''ready'', JBool (\<not> has_active_backlog s)), (''answer_policy'', JString answer_policy),
        (''count_scope'', JString count_scope), (''folder_count'', JInt (sn_folder_count s)),
        (''synced_email_count'', JInt (sn_email_count s)),
        (''largest_folder_message_count'', JInt (sn_largest_folder_message_count s)),
        (''missing_message_id'', JInt (sn_missing_message_id s)), (''body_missing'', JInt (sn_body_missing s)),
        (''analysis_missing'', JInt (sn_analysis_missing s)), (''location_missing'', JInt (sn_location_missing s)),
        (''filing_pending'', JInt (sn_filing_pending s)), (''body_sync'', body_sync_json (sn_body_sync s)),
        (''requested_work'', names_json requested_work)]"

section \<open>What a question asks for\<close>

definition input_message :: "json \<Rightarrow> string" where
  "input_message input =
     (case Option.bind (case jget ''message'' input of Some v \<Rightarrow> Some v | None \<Rightarrow> jget ''user_message'' input) as_str of
        Some s \<Rightarrow> s | None \<Rightarrow> [])"

definition mail_assistant_input_text :: "json \<Rightarrow> string" where
  "mail_assistant_input_text input = to_lower (trim (input_message input))"

definition conversation_history :: "json \<Rightarrow> json list option" where
  "conversation_history input = Option.bind (jget ''conversation_history'' input) as_array"

definition mail_assistant_recent_history_text :: "json \<Rightarrow> nat \<Rightarrow> string" where
  "mail_assistant_recent_history_text input max_messages =
     (case conversation_history input of
        None \<Rightarrow> []
      | Some history \<Rightarrow>
          join [CHR 0x0A] (rev (map to_lower (take max_messages
            (filter (\<lambda>s. s \<noteq> []) (map trim (flatten_opts (map (get_str ''content'') (rev history)))))))))"

definition is_count_question_text :: "string \<Rightarrow> bool" where
  "is_count_question_text text = contains_any text [''count'', ''how many'', ''number of'']"

definition has_followup_reference :: "string \<Rightarrow> bool" where
  "has_followup_reference text =
     contains_any text [''those'', ''them'', ''that'', ''these'', ''the current list'', ''identified'']"

definition is_mailbox_preparation_count_text :: "string \<Rightarrow> bool" where
  "is_mailbox_preparation_count_text text \<longleftrightarrow>
     contains_any text [''synced'', ''indexed'', ''imported'', ''loaded'', ''in the database'', ''in database'',
       ''database'', ''prepared'', ''preparing'', ''progress'', ''status'', ''ready'']
     \<and> contains_any text [''how many'', ''count'', ''number of'', ''message'', ''email'', ''mailbox'']"

definition should_require_synced_email_list_tool :: "string \<Rightarrow> json \<Rightarrow> bool" where
  "should_require_synced_email_list_tool agent input =
     (let text = mail_assistant_input_text input in
      eq_ignore_ascii_case agent ''mail-assistant'' \<and> text \<noteq> []
      \<and> ((contains_any text [''first'', ''top'', ''show'', ''list'', ''tell me about'']
           \<and> contains_any text [''database'', ''synced'', ''indexed'', ''emails'', ''messages''])
         \<or> contains_any text [''what can you tell me'', ''what can you answer'', ''what do you know'',
              ''tell me what you can'', ''what is available'']))"

definition word_limits :: "(string \<times> nat) list" where
  "word_limits = [(''one'', 1), (''two'', 2), (''three'', 3), (''four'', 4), (''five'', 5), (''six'', 6),
     (''seven'', 7), (''eight'', 8), (''nine'', 9), (''ten'', 10)]"

definition word_limit :: "string \<Rightarrow> int option" where
  "word_limit w =
     (let t = trim_matches (\<lambda>c. \<not> is_ascii_alnum c) w in
      case parse_u64 t of
        Some n \<Rightarrow> Some (clamp 1 10 n)
      | None \<Rightarrow> map_option int (map_of word_limits (to_lower t)))"

definition extract_requested_list_limit :: "string \<Rightarrow> int option" where
  "extract_requested_list_limit message = find_map word_limit (split_whitespace message)"

definition extract_spam_status_filter_from_text :: "string \<Rightarrow> string option" where
  "extract_spam_status_filter_from_text message =
     (let text = to_lower message in
      if \<not> contains text ''spam'' then None
      else if contains_any text [''not spam'', ''not-spam'', ''non-spam'', ''clean''] then Some ''not-spam''
      else Some ''spam'')"

definition synced_email_list_tool_args_for_input :: "json \<Rightarrow> json" where
  "synced_email_list_tool_args_for_input input =
     (let message = input_message input in
      JObject ((''limit'', JInt (case extract_requested_list_limit message of Some n \<Rightarrow> n | None \<Rightarrow> 5))
        # (case extract_spam_status_filter_from_text message of
             Some s \<Rightarrow> [(''spam_status'', JString s)] | None \<Rightarrow> [])))"

text \<open>\<^verbatim>\<open>str::find\<close>.\<close>

fun find_str :: "string \<Rightarrow> string \<Rightarrow> nat option" where
  "find_str p [] = (if p = [] then Some 0 else None)"
| "find_str p (c # cs) = (if prefix p (c # cs) then Some 0 else map_option Suc (find_str p cs))"

definition sender_stop_words :: "string list" where
  "sender_stop_words = [''to'', ''for'', ''since'', ''in'', ''this'', ''last'', ''past'', ''between'', ''with'',
     ''please'', ''overall'', ''total'', ''today'', ''yesterday'']"

fun sender_words :: "string list \<Rightarrow> string list" where
  "sender_words [] = []"
| "sender_words (raw # rest) =
     (let word = trim_matches (\<lambda>c. is_ascii_punct c \<and> c \<notin> {CHR ''@'', CHR ''.'', CHR ''-'', CHR ''_''}) raw in
      if word = [] then sender_words rest
      else if to_lower word \<in> set sender_stop_words then []
      else word # sender_words rest)"

definition extract_sender_filter_from_count_text :: "string \<Rightarrow> string option" where
  "extract_sender_filter_from_count_text message =
     (let lower = to_lower message in
      case (case find_str '' from '' lower of
              Some i \<Rightarrow> Some (i + 6)
            | None \<Rightarrow> (if starts_with lower ''from '' then Some 5 else None)) of
        None \<Rightarrow> None
      | Some start \<Rightarrow>
          (let sender = join '' '' (sender_words (split_whitespace (trim (drop start message)))) in
           if sender = [] then None else Some sender))"

definition history_spam_status :: "json \<Rightarrow> string option" where
  "history_spam_status message =
     (let content = to_lower (case get_str ''content'' message of Some s \<Rightarrow> s | None \<Rightarrow> []) in
      if contains_any content [''not-spam'', ''non-spam'', ''not spam''] then Some ''not-spam''
      else if contains content ''spam'' then Some ''spam''
      else None)"

definition extract_contextual_spam_status_filter_from_input :: "json \<Rightarrow> string option" where
  "extract_contextual_spam_status_filter_from_input input =
     (if \<not> has_followup_reference (mail_assistant_input_text input) then None
      else case conversation_history input of
        None \<Rightarrow> None
      | Some history \<Rightarrow> find_map history_spam_status (take 6 (rev history)))"

definition should_require_count_emails_tool :: "string \<Rightarrow> json \<Rightarrow> bool" where
  "should_require_count_emails_tool agent input =
     (let text = mail_assistant_input_text input;
          asks_for_count = is_count_question_text text;
          has_mail_context = contains_any (mail_assistant_recent_history_text input 4)
                               [''email'', ''message'', ''mailbox'', ''spam'']
      in eq_ignore_ascii_case agent ''mail-assistant''
         \<and> \<not> is_mailbox_preparation_count_text text
         \<and> \<not> should_require_synced_email_list_tool agent input
         \<and> (contains_any text [''emails from'', ''email from'', ''messages from'', ''message from'', ''mail from'']
            \<or> (asks_for_count \<and> extract_sender_filter_from_count_text text \<noteq> None \<and> has_followup_reference text)
            \<or> (asks_for_count \<and> has_followup_reference text \<and> has_mail_context)
            \<or> (asks_for_count \<and> extract_spam_status_filter_from_text text \<noteq> None)
            \<or> (asks_for_count \<and> contains_any text [''email'', ''message'', ''mail'', ''sender'', ''inbox''])))"

definition is_unfiltered_count_text :: "string \<Rightarrow> bool" where
  "is_unfiltered_count_text text \<longleftrightarrow>
     contains_any text [''count'', ''how many'', ''number of'']
     \<and> contains_any text [''email'', ''message'', ''mailbox'']
     \<and> \<not> contains_any text ['' from '', '' about '', '' sender '', '' category '', '' folder '', '' in '', '' since '',
            '' today'', '' yesterday'', '' this week'', '' last week'']"

definition count_emails_tool_args_for_input :: "json \<Rightarrow> json" where
  "count_emails_tool_args_for_input input =
     (let message = input_message input;
          sender = (case extract_sender_filter_from_count_text message of Some s \<Rightarrow> [(''sender'', JString s)] | None \<Rightarrow> []);
          spam = (case extract_spam_status_filter_from_text message of
                    Some s \<Rightarrow> [(''spam_status'', JString s)]
                  | None \<Rightarrow> (case extract_contextual_spam_status_filter_from_input input of
                               Some s \<Rightarrow> [(''spam_status'', JString s)] | None \<Rightarrow> []));
          structured = sender @ spam
      in JObject ((''sample_limit'', JInt 5) # structured
           @ (if structured = [] \<and> \<not> is_unfiltered_count_text (to_lower message)
              then [(''query'', JString message)] else [])))"

definition deferred_phrases :: "string list" where
  "deferred_phrases =
     [''i will run'', ''i'' @ [CHR 0x27] @ ''ll run'', ''i will start'', ''i'' @ [CHR 0x27] @ ''ll start'', ''please wait'',
      ''while i retrieve'', ''while i get'', ''run that count'', ''retrieve the exact'']"

definition output_promises_deferred_tool_work :: "json \<Rightarrow> bool" where
  "output_promises_deferred_tool_work output =
     (let part = (\<lambda>k. case get_str k output of Some s \<Rightarrow> s | None \<Rightarrow> []) in
      contains_any (to_lower (join [CHR 0x0A] [part ''response_markdown'', part ''summary''])) deferred_phrases)"

definition required_mailbox_tool_names :: "bool \<Rightarrow> bool \<Rightarrow> string list" where
  "required_mailbox_tool_names requires_count requires_list =
     (if requires_count then [''count_emails''] else []) @ (if requires_list then [''list_synced_emails''] else [])"

end
