(* ===== verification/AgentSpec.thy ===== *)
theory AgentSpec
  imports Json
begin

text \<open>
  \<^verbatim>\<open>src/agent_harness/agent_spec.rs\<close>: what a file says of an agent, and the check of an agent's output.
  \<open>spec_files\<close> is the file system and the TOML parser: \<open>sf_toml\<close> gives the entries a front matter
  has, \<open>None\<close> for one that is absent; the defaults are the code's. Paths are lists of their components.
  The map of field validations is the list of its entries in the order of iteration. Floats are rationals;
  \<open>show_f64\<close> prints one.
\<close>

section \<open>Specifications\<close>

datatype provider_tier = WorkerTier | OrchestratorTier

record execution_config =
  ex_max_iterations :: nat
  ex_temperature :: rat
  ex_max_output_tokens :: nat
  ex_checkpoint_every :: nat
  ex_timeout_secs :: nat

record budget_config =
  bu_max_llm_calls :: nat
  bu_max_tool_calls :: nat

record state_config =
  sc_schema :: "string list"
  sc_ttl_hours :: nat

record field_validation =
  fv_enum_values :: "string list option"
  fv_field_type :: "string option"
  fv_min :: "rat option"
  fv_max :: "rat option"

record output_config =
  oc_required_fields :: "string list"
  oc_validation :: "(string \<times> field_validation) list"

record provider_config =
  pc_tier :: provider_tier
  pc_prefer :: string
  pc_fallback :: string

record escalation_config =
  es_confidence_threshold :: rat
  es_always_escalate_on_phishing :: bool
  es_always_escalate_on_threat :: "string list"

record agent_spec =
  as_name :: string
  as_version :: string
  as_description :: string
  as_skills :: "string list"
  as_execution :: execution_config
  as_budget :: budget_config
  as_state :: state_config
  as_output :: output_config
  as_provider :: provider_config
  as_escalation :: escalation_config
  as_system_prompt :: string

section \<open>The check of an output\<close>

definition check_required :: "(string \<times> json) list \<Rightarrow> string \<Rightarrow> err option" where
  "check_required object field =
     (case map_of object field of
        Some JNull \<Rightarrow> Some [''required field '' @ [CHR 0x27] @ field @ [CHR 0x27] @ '' must not be null'']
      | Some _ \<Rightarrow> None
      | None \<Rightarrow> Some [''missing required field '' @ [CHR 0x27] @ field @ [CHR 0x27]])"

definition field_error :: "string \<Rightarrow> string \<Rightarrow> err option" where
  "field_error field what = Some [''field '' @ [CHR 0x27] @ field @ [CHR 0x27] @ what]"

definition check_enum :: "string \<Rightarrow> json \<Rightarrow> string list \<Rightarrow> err option" where
  "check_enum field v enum_values =
     (case as_str v of
        None \<Rightarrow> field_error field '' must be a string matching enum values''
      | Some s \<Rightarrow> (if s \<in> set enum_values then None
                   else field_error field ('' has invalid enum value '' @ [CHR 0x27] @ s @ [CHR 0x27]
                          @ ''; expected one of '' @ join '', '' enum_values)))"

definition check_max :: "(rat \<Rightarrow> string) \<Rightarrow> string \<Rightarrow> field_validation \<Rightarrow> rat \<Rightarrow> err option" where
  "check_max show_f64 field fv x =
     (case fv_max fv of
        Some hi \<Rightarrow> if x > hi then field_error field ('' must be <= '' @ show_f64 hi) else None
      | None \<Rightarrow> None)"

definition check_number :: "(rat \<Rightarrow> string) \<Rightarrow> string \<Rightarrow> field_validation \<Rightarrow> json \<Rightarrow> err option" where
  "check_number show_f64 field fv v =
     (case as_f64 v of
        None \<Rightarrow> field_error field '' must be a number''
      | Some x \<Rightarrow>
          (case fv_min fv of
             Some lo \<Rightarrow> if x < lo then field_error field ('' must be >= '' @ show_f64 lo)
                        else check_max show_f64 field fv x
           | None \<Rightarrow> check_max show_f64 field fv x))"

definition check_type :: "(rat \<Rightarrow> string) \<Rightarrow> string \<Rightarrow> field_validation \<Rightarrow> json \<Rightarrow> err option" where
  "check_type show_f64 field fv v =
     (case fv_field_type fv of
        None \<Rightarrow> None
      | Some ty \<Rightarrow>
          (if ty = ''number'' then check_number show_f64 field fv v
           else if ty = ''string'' then
             (case v of JString _ \<Rightarrow> None | _ \<Rightarrow> field_error field '' must be a string'')
           else if ty = ''boolean'' then
             (case v of JBool _ \<Rightarrow> None | _ \<Rightarrow> field_error field '' must be a boolean'')
           else field_error field ('' has unsupported validation type '' @ [CHR 0x27] @ ty @ [CHR 0x27])))"

definition check_field :: "(rat \<Rightarrow> string) \<Rightarrow> (string \<times> json) list \<Rightarrow> string \<times> field_validation \<Rightarrow> err option" where
  "check_field show_f64 object entry =
     (let field = fst entry; fv = snd entry in
      case map_of object field of
        None \<Rightarrow> None
      | Some v \<Rightarrow>
          (case Option.bind (fv_enum_values fv) (check_enum field v) of
             Some e \<Rightarrow> Some e
           | None \<Rightarrow> check_type show_f64 field fv v))"

definition output_validate :: "(rat \<Rightarrow> string) \<Rightarrow> output_config \<Rightarrow> json \<Rightarrow> unit result" where
  "output_validate show_f64 config output =
     (case output of
        JObject object \<Rightarrow>
          (case find_map (check_required object) (oc_required_fields config) of
             Some e \<Rightarrow> Inl e
           | None \<Rightarrow> (case find_map (check_field show_f64 object) (oc_validation config) of
                        Some e \<Rightarrow> Inl e | None \<Rightarrow> Inr ()))
      | _ \<Rightarrow> Inl [''output must be a JSON object''])"

section \<open>The front matter\<close>

definition default_version :: string where "default_version = ''1.0''"
definition default_max_iterations :: nat where "default_max_iterations = 8"
definition default_temperature :: rat where "default_temperature = 1 / 5"
definition default_max_output_tokens :: nat where "default_max_output_tokens = 4096"
definition default_checkpoint_every :: nat where "default_checkpoint_every = 1"
definition default_timeout_secs :: nat where "default_timeout_secs = 120"
definition default_max_llm_calls :: nat where "default_max_llm_calls = 10"
definition default_max_tool_calls :: nat where "default_max_tool_calls = 15"
definition default_ttl_hours :: nat where "default_ttl_hours = 168"
definition default_provider_tier :: string where "default_provider_tier = ''worker''"
definition default_provider_prefer :: string where "default_provider_prefer = ''local''"
definition default_provider_fallback :: string where "default_provider_fallback = ''frontier''"
definition default_confidence_threshold :: rat where "default_confidence_threshold = 3 / 4"

definition or_default :: "'a option \<Rightarrow> 'a \<Rightarrow> 'a" where
  "or_default o1 d = (case o1 of Some v \<Rightarrow> v | None \<Rightarrow> d)"

text \<open>The entries of a front matter; a table that is absent has none.\<close>

record raw_execution =
  rx_max_iterations :: "nat option"
  rx_temperature :: "rat option"
  rx_max_output_tokens :: "nat option"
  rx_checkpoint_every :: "nat option"
  rx_timeout_secs :: "nat option"

record raw_provider =
  rp_tier :: "string option"
  rp_prefer :: "string option"
  rp_fallback :: "string option"

record raw_escalation =
  re_confidence_threshold :: "rat option"
  re_always_escalate_on_phishing :: "bool option"
  re_always_escalate_on_threat :: "string list option"

record raw_agent_spec =
  ra_name :: string
  ra_version :: "string option"
  ra_description :: "string option"
  ra_skills :: "string list option"
  ra_execution :: raw_execution
  ra_max_llm_calls :: "nat option"
  ra_max_tool_calls :: "nat option"
  ra_schema :: "string list option"
  ra_ttl_hours :: "nat option"
  ra_required_fields :: "string list option"
  ra_validation :: "(string \<times> field_validation) list option"
  ra_provider :: raw_provider
  ra_escalation :: raw_escalation

definition provider_tier_of :: "string \<Rightarrow> provider_tier result" where
  "provider_tier_of s =
     (if to_lower s = ''worker'' then Inr WorkerTier
      else if to_lower s = ''orchestrator'' then Inr OrchestratorTier
      else Inl [''unknown provider tier: '' @ to_lower s])"

definition execution_of :: "raw_execution \<Rightarrow> execution_config" where
  "execution_of r =
     \<lparr>ex_max_iterations = max 1 (or_default (rx_max_iterations r) default_max_iterations),
      ex_temperature = or_default (rx_temperature r) default_temperature,
      ex_max_output_tokens = max 1 (or_default (rx_max_output_tokens r) default_max_output_tokens),
      ex_checkpoint_every = max 1 (or_default (rx_checkpoint_every r) default_checkpoint_every),
      ex_timeout_secs = max 1 (or_default (rx_timeout_secs r) default_timeout_secs)\<rparr>"

definition budget_of :: "raw_agent_spec \<Rightarrow> budget_config" where
  "budget_of r =
     \<lparr>bu_max_llm_calls = max 1 (or_default (ra_max_llm_calls r) default_max_llm_calls),
      bu_max_tool_calls = max 1 (or_default (ra_max_tool_calls r) default_max_tool_calls)\<rparr>"

definition escalation_of :: "raw_escalation \<Rightarrow> escalation_config" where
  "escalation_of r =
     \<lparr>es_confidence_threshold = or_default (re_confidence_threshold r) default_confidence_threshold,
      es_always_escalate_on_phishing = or_default (re_always_escalate_on_phishing r) False,
      es_always_escalate_on_threat = or_default (re_always_escalate_on_threat r) []\<rparr>"

definition into_agent_spec :: "raw_agent_spec \<Rightarrow> string \<Rightarrow> agent_spec result" where
  "into_agent_spec r system_prompt =
     (if trim (ra_name r) = [] then Inl [''agent spec name must not be empty'']
      else case provider_tier_of (or_default (rp_tier (ra_provider r)) default_provider_tier) of
        Inl e \<Rightarrow> Inl e
      | Inr tier \<Rightarrow> Inr
          \<lparr>as_name = ra_name r,
           as_version = or_default (ra_version r) default_version,
           as_description = or_default (ra_description r) [],
           as_skills = or_default (ra_skills r) [],
           as_execution = execution_of (ra_execution r),
           as_budget = budget_of r,
           as_state = \<lparr>sc_schema = or_default (ra_schema r) [],
                       sc_ttl_hours = or_default (ra_ttl_hours r) default_ttl_hours\<rparr>,
           as_output = \<lparr>oc_required_fields = or_default (ra_required_fields r) [],
                        oc_validation = or_default (ra_validation r) []\<rparr>,
           as_provider = \<lparr>pc_tier = tier,
                          pc_prefer = or_default (rp_prefer (ra_provider r)) default_provider_prefer,
                          pc_fallback = or_default (rp_fallback (ra_provider r)) default_provider_fallback\<rparr>,
           as_escalation = escalation_of (ra_escalation r),
           as_system_prompt = system_prompt\<rparr>)"

section \<open>Splitting a file\<close>

definition trim_line :: "string \<Rightarrow> string" where
  "trim_line l = rev (dropWhile (\<lambda>c. c = CHR 0x0D) (rev l))"

text \<open>
  The scan for the closing line: \<open>fm\<close> holds the lines after the first so far, \<open>acc\<close> the current
  line in reverse, \<open>seen\<close> whether the first line is behind.
\<close>

fun split_scan :: "string \<Rightarrow> string \<Rightarrow> bool \<Rightarrow> string \<Rightarrow> (string \<times> string) result" where
  "split_scan fm acc seen [] =
     (let l = trim_line (rev acc) in
      if \<not> seen \<and> l \<noteq> ''+++'' then Inl [''agent spec must start with +++ frontmatter'']
      else if seen \<and> l = ''+++'' then Inr (fm, [])
      else Inl [''agent spec frontmatter is missing closing +++''])"
| "split_scan fm acc seen (c # cs) =
     (if c \<noteq> CHR 0x0A then split_scan fm (c # acc) seen cs
      else (let l = trim_line (rev acc) in
            if \<not> seen then (if l \<noteq> ''+++'' then Inl [''agent spec must start with +++ frontmatter'']
                            else split_scan [] [] True cs)
            else if l = ''+++'' then Inr (fm, trim cs)
            else split_scan (fm @ rev acc @ [CHR 0x0A]) [] True cs))"

definition split_frontmatter :: "string \<Rightarrow> (string \<times> string) result" where
  "split_frontmatter content =
     (if content = [] then Inl [''agent spec is empty''] else split_scan [] [] False content)"

section \<open>Files\<close>

type_synonym path = "string list"

record spec_files =
  sf_read :: "path \<Rightarrow> string result"
  sf_exists :: "path \<Rightarrow> bool"
  sf_is_dir :: "path \<Rightarrow> bool"
  sf_shown :: "path \<Rightarrow> string"
  sf_toml :: "string \<Rightarrow> raw_agent_spec result"

definition parent_of :: "path \<Rightarrow> path option" where
  "parent_of p = (if p = [] then None else Some (butlast p))"

definition skill_docs_dir :: "spec_files \<Rightarrow> path \<Rightarrow> path option" where
  "skill_docs_dir fs spec_path =
     (case parent_of spec_path of
        None \<Rightarrow> None
      | Some spec_dir \<Rightarrow>
          (case parent_of spec_dir of
             None \<Rightarrow> None
           | Some up \<Rightarrow>
               (if sf_is_dir fs (up @ [''skills'']) then Some (up @ [''skills''])
                else if sf_is_dir fs (spec_dir @ [''skills'']) then Some (spec_dir @ [''skills''])
                else None)))"

definition validate_skill_name :: "string \<Rightarrow> unit result" where
  "validate_skill_name skill =
     (if skill \<noteq> [] \<and> list_all (\<lambda>c. is_ascii_alnum c \<or> c = CHR ''-'' \<or> c = CHR ''_'') skill then Inr ()
      else Inl [''skill names may only contain letters, numbers, '' @ [CHR 0x27] @ ''-'' @ [CHR 0x27] @ '' or ''
                @ [CHR 0x27] @ ''_'' @ [CHR 0x27]])"

definition read_skill_doc :: "spec_files \<Rightarrow> path \<Rightarrow> string result" where
  "read_skill_doc fs p = ctx (''failed to read skill doc '' @ sf_shown fs p) (sf_read fs p)"

fun skill_sections :: "spec_files \<Rightarrow> path \<Rightarrow> string list \<Rightarrow> string list result" where
  "skill_sections fs dir [] = Inr []"
| "skill_sections fs dir (skill # rest) =
     (case validate_skill_name skill of
        Inl e \<Rightarrow> Inl e
      | Inr _ \<Rightarrow>
          (case read_skill_doc fs (dir @ [skill @ ''.md'']) of
             Inl e \<Rightarrow> Inl e
           | Inr content \<Rightarrow>
               (case skill_sections fs dir rest of
                  Inl e \<Rightarrow> Inl e
                | Inr docs \<Rightarrow> Inr ((''## Skill: '' @ skill @ [CHR 0x0A, CHR 0x0A] @ trim content) # docs))))"

definition section_break :: string where
  "section_break = [CHR 0x0A, CHR 0x0A] @ ''---'' @ [CHR 0x0A, CHR 0x0A]"

definition compose_system_prompt :: "spec_files \<Rightarrow> path \<Rightarrow> string \<Rightarrow> string list \<Rightarrow> string result" where
  "compose_system_prompt fs p system_prompt skills =
     (case skill_docs_dir fs p of
        None \<Rightarrow> (if skills = [] then Inr system_prompt
                 else Inl [''agent spec '' @ sf_shown fs p @ '' declares skills but no specs/skills directory was found''])
      | Some dir \<Rightarrow>
          (let base_path = dir @ [''base-conventions.md''] in
           case (if sf_exists fs base_path then map_sum id (\<lambda>s. [trim s]) (read_skill_doc fs base_path) else Inr []) of
             Inl e \<Rightarrow> Inl e
           | Inr base \<Rightarrow>
               (case skill_sections fs dir skills of
                  Inl e \<Rightarrow> Inl e
                | Inr docs \<Rightarrow> Inr (join section_break (base @ docs @ [system_prompt])))))"

definition parse_str :: "spec_files \<Rightarrow> string \<Rightarrow> agent_spec result" where
  "parse_str fs content =
     (case split_frontmatter content of
        Inl e \<Rightarrow> Inl e
      | Inr (frontmatter, system_prompt) \<Rightarrow>
          (case ctx ''failed to parse TOML frontmatter'' (sf_toml fs frontmatter) of
             Inl e \<Rightarrow> Inl e
           | Inr raw \<Rightarrow> into_agent_spec raw system_prompt))"

definition parse_file :: "spec_files \<Rightarrow> path \<Rightarrow> agent_spec result" where
  "parse_file fs p =
     (case ctx (''failed to read agent spec '' @ sf_shown fs p) (sf_read fs p) of
        Inl e \<Rightarrow> Inl e
      | Inr content \<Rightarrow>
          (case split_frontmatter content of
             Inl e \<Rightarrow> Inl e
           | Inr (frontmatter, system_prompt) \<Rightarrow>
               (case ctx ''failed to parse TOML frontmatter'' (sf_toml fs frontmatter) of
                  Inl e \<Rightarrow> Inl e
                | Inr raw \<Rightarrow>
                    (case compose_system_prompt fs p system_prompt (or_default (ra_skills raw) []) of
                       Inl e \<Rightarrow> Inl e
                     | Inr composed \<Rightarrow> into_agent_spec raw composed))))"

end
