(* ===== verification/AgentTables.thy ===== *)
theory AgentTables
  imports LeaseQueue AgentSpec "HOL-Library.List_Lexorder" "HOL-Library.Char_ord"
begin

text \<open>
  The tables of the agent harness: \<^verbatim>\<open>src/agent_harness/scratchpad_state.rs\<close> keeps the record of a
  run, its checkpoints, its tool log and the agent's scratchpad; \<^verbatim>\<open>src/database/agent_runs.rs\<close> and
  \<^verbatim>\<open>src/database/scratchpad.rs\<close> read them. \<open>now\<close> is \<^verbatim>\<open>NOW()\<close>, \<open>run_id\<close> of a new run is
  the \<^verbatim>\<open>uuid\<close> it draws, \<open>ms\<close> the time elapsed since the start of the run. Counters are unbounded.
\<close>

section \<open>Rows\<close>

datatype agent_run_status = RunRunning | RunCompleted | RunFailed | RunTimedOut

record chat_message =
  cm_role :: string
  cm_content :: string

record agent_run_row =
  rr_run_id :: string
  rr_account :: string
  rr_agent :: string
  rr_version :: "string option"
  rr_task :: string
  rr_status :: agent_run_status
  rr_steps :: int
  rr_llm_calls :: int
  rr_tool_calls :: int
  rr_input_tokens :: "int option"
  rr_output_tokens :: "int option"
  rr_result :: "json option"
  rr_error :: "string option"
  rr_started :: timestamp
  rr_finished :: "timestamp option"
  rr_duration_ms :: "int option"
  rr_escalated :: bool
  rr_confidence :: "rat option"

record checkpoint_row =
  ck_run_id :: string
  ck_step :: nat
  ck_messages :: "chat_message list"
  ck_created :: timestamp

record tool_log_row =
  tl_id :: int
  tl_run_id :: string
  tl_step :: nat
  tl_tool :: string
  tl_arguments :: json
  tl_result :: string
  tl_latency_ms :: int
  tl_created :: timestamp

record scratch_row =
  sp_account :: string
  sp_agent :: string
  sp_key :: string
  sp_value :: json
  sp_updated :: timestamp
  sp_expires :: "timestamp option"

record agent_tables =
  at_runs :: "agent_run_row list"
  at_checkpoints :: "checkpoint_row list"
  at_tool_log :: "tool_log_row list"
  at_scratch :: "scratch_row list"
  at_next_log :: int

fun run_status_str :: "agent_run_status \<Rightarrow> string" where
  "run_status_str RunRunning = ''running''"
| "run_status_str RunCompleted = ''completed''"
| "run_status_str RunFailed = ''failed''"
| "run_status_str RunTimedOut = ''timed_out''"

definition run_status_from_str :: "string \<Rightarrow> agent_run_status result" where
  "run_status_from_str s =
     (if s = ''running'' then Inr RunRunning
      else if s = ''completed'' then Inr RunCompleted
      else if s = ''failed'' then Inr RunFailed
      else if s = ''timed_out'' then Inr RunTimedOut
      else Inl [''invalid agent run status '' @ [CHR 0x27] @ s @ [CHR 0x27]
                @ ''; expected one of: running, completed, failed, timed_out''])"

section \<open>The record of a run\<close>

definition running_runs :: "string \<Rightarrow> string \<Rightarrow> string \<Rightarrow> agent_tables \<Rightarrow> agent_run_row list" where
  "running_runs account agent task t =
     filter (\<lambda>r. rr_account r = account \<and> rr_task r = task \<and> rr_agent r = agent \<and> rr_status r = RunRunning) (at_runs t)"

definition new_run :: "timestamp \<Rightarrow> string \<Rightarrow> string \<Rightarrow> string \<Rightarrow> string option \<Rightarrow> string \<Rightarrow> agent_run_row" where
  "new_run now run_id account agent version task =
     \<lparr>rr_run_id = run_id, rr_account = account, rr_agent = agent, rr_version = version, rr_task = task,
      rr_status = RunRunning, rr_steps = 0, rr_llm_calls = 0, rr_tool_calls = 0, rr_input_tokens = None,
      rr_output_tokens = None, rr_result = None, rr_error = None, rr_started = now, rr_finished = None,
      rr_duration_ms = None, rr_escalated = False, rr_confidence = None\<rparr>"

text \<open>
  \<open>begin_run\<close> is two statements: \<open>find_running\<close> looks for a run of the task that still runs,
  \<open>insert_run\<close> adds a new one.
\<close>

definition find_running :: "string \<Rightarrow> string \<Rightarrow> string \<Rightarrow> agent_tables \<Rightarrow> string option" where
  "find_running account agent task t =
     (case sql_top (\<lambda>r. - rr_started r) 1 (running_runs account agent task t) of
        r # _ \<Rightarrow> Some (rr_run_id r) | [] \<Rightarrow> None)"

definition insert_run :: "timestamp \<Rightarrow> string \<Rightarrow> string \<Rightarrow> string \<Rightarrow> string \<Rightarrow> string \<Rightarrow> agent_tables \<Rightarrow> agent_tables" where
  "insert_run now run_id account agent version task t =
     t\<lparr>at_runs := at_runs t @ [new_run now run_id account agent
                                (if trim version = [] then None else Some version) task]\<rparr>"

definition update_run :: "string \<Rightarrow> (agent_run_row \<Rightarrow> agent_run_row) \<Rightarrow> agent_tables \<Rightarrow> agent_tables" where
  "update_run run_id f t = t\<lparr>at_runs := sql_update (\<lambda>r. rr_run_id r = run_id) f (at_runs t)\<rparr>"

definition record_step :: "string \<Rightarrow> agent_tables \<Rightarrow> agent_tables" where
  "record_step run_id = update_run run_id (\<lambda>r. r\<lparr>rr_steps := rr_steps r + 1\<rparr>)"

definition add_tokens :: "nat option \<Rightarrow> int option \<Rightarrow> int option" where
  "add_tokens used old = (case used of None \<Rightarrow> old | Some n \<Rightarrow> Some ((case old of None \<Rightarrow> 0 | Some m \<Rightarrow> m) + int n))"

definition record_llm_call :: "string \<Rightarrow> nat option \<Rightarrow> nat option \<Rightarrow> agent_tables \<Rightarrow> agent_tables" where
  "record_llm_call run_id input_tokens output_tokens =
     update_run run_id (\<lambda>r. r\<lparr>rr_llm_calls := rr_llm_calls r + 1,
                              rr_input_tokens := add_tokens input_tokens (rr_input_tokens r),
                              rr_output_tokens := add_tokens output_tokens (rr_output_tokens r)\<rparr>)"

definition record_tool_calls :: "string \<Rightarrow> nat \<Rightarrow> agent_tables \<Rightarrow> agent_tables" where
  "record_tool_calls run_id n = update_run run_id (\<lambda>r. r\<lparr>rr_tool_calls := rr_tool_calls r + int n\<rparr>)"

definition save_checkpoint :: "timestamp \<Rightarrow> string \<Rightarrow> nat \<Rightarrow> chat_message list \<Rightarrow> agent_tables \<Rightarrow> agent_tables" where
  "save_checkpoint now run_id step messages t =
     (let same = (\<lambda>c. ck_run_id c = run_id \<and> ck_step c = step) in
      t\<lparr>at_checkpoints :=
          (if sql_exists same (at_checkpoints t)
           then sql_update same (\<lambda>c. c\<lparr>ck_messages := messages, ck_created := now\<rparr>) (at_checkpoints t)
           else at_checkpoints t @ [\<lparr>ck_run_id = run_id, ck_step = step, ck_messages = messages, ck_created = now\<rparr>])\<rparr>)"

definition latest_checkpoint :: "string \<Rightarrow> agent_tables \<Rightarrow> checkpoint_row option" where
  "latest_checkpoint run_id t =
     (case sql_top (\<lambda>c. - int (ck_step c)) 1 (filter (\<lambda>c. ck_run_id c = run_id) (at_checkpoints t)) of
        c # _ \<Rightarrow> Some c | [] \<Rightarrow> None)"

definition log_tool_call ::
  "timestamp \<Rightarrow> string \<Rightarrow> nat \<Rightarrow> string \<Rightarrow> json \<Rightarrow> string \<Rightarrow> int \<Rightarrow> agent_tables \<Rightarrow> agent_tables" where
  "log_tool_call now run_id step tool_name arguments result latency t =
     t\<lparr>at_tool_log := at_tool_log t @
          [\<lparr>tl_id = at_next_log t, tl_run_id = run_id, tl_step = step, tl_tool = tool_name,
            tl_arguments = arguments, tl_result = take 4000 result, tl_latency_ms = latency, tl_created = now\<rparr>],
        at_next_log := at_next_log t + 1\<rparr>"

definition duration_of :: "int \<Rightarrow> int" where
  "duration_of ms = min ms 2147483647"

definition finish_agent_run ::
  "timestamp \<Rightarrow> string \<Rightarrow> int \<Rightarrow> json \<Rightarrow> bool \<Rightarrow> rat option \<Rightarrow> agent_tables \<Rightarrow> agent_tables" where
  "finish_agent_run now run_id ms result escalated confidence =
     update_run run_id (\<lambda>r. r\<lparr>rr_status := RunCompleted, rr_result := Some result, rr_error := None,
        rr_finished := Some now, rr_duration_ms := Some (duration_of ms), rr_escalated := escalated,
        rr_confidence := confidence\<rparr>)"

definition fail_agent_run :: "timestamp \<Rightarrow> string \<Rightarrow> int \<Rightarrow> string \<Rightarrow> agent_tables \<Rightarrow> agent_tables" where
  "fail_agent_run now run_id ms error =
     update_run run_id (\<lambda>r. r\<lparr>rr_status := RunFailed, rr_error := Some error, rr_finished := Some now,
        rr_duration_ms := Some (duration_of ms)\<rparr>)"

definition timeout_run :: "timestamp \<Rightarrow> string \<Rightarrow> int \<Rightarrow> agent_tables \<Rightarrow> agent_tables" where
  "timeout_run now run_id ms =
     update_run run_id (\<lambda>r. r\<lparr>rr_status := RunTimedOut, rr_error := Some ''timed_out'', rr_finished := Some now,
        rr_duration_ms := Some (duration_of ms)\<rparr>)"

section \<open>The scratchpad\<close>

definition scratch_live :: "timestamp \<Rightarrow> scratch_row \<Rightarrow> bool" where
  "scratch_live now r = (case sp_expires r of None \<Rightarrow> True | Some e \<Rightarrow> now < e)"

definition scratch_at :: "string \<Rightarrow> string \<Rightarrow> string \<Rightarrow> scratch_row \<Rightarrow> bool" where
  "scratch_at account agent key r \<longleftrightarrow> sp_account r = account \<and> sp_agent r = agent \<and> sp_key r = key"

definition read_scratchpad :: "timestamp \<Rightarrow> string \<Rightarrow> string \<Rightarrow> string \<Rightarrow> agent_tables \<Rightarrow> json option" where
  "read_scratchpad now account agent key t =
     map_option sp_value (find_opt (\<lambda>r. scratch_at account agent key r \<and> scratch_live now r) (at_scratch t))"

text \<open>
  \<open>add_hours t h\<close> is \<^verbatim>\<open>chrono\<close>'s \<^verbatim>\<open>t + Duration::hours(h)\<close>, \<open>None\<close> where it panics; so is the outer
  option of \<open>ttl_to_expiry\<close>.
\<close>

definition ttl_to_expiry ::
  "(timestamp \<Rightarrow> int \<Rightarrow> timestamp option) \<Rightarrow> timestamp \<Rightarrow> nat option \<Rightarrow> timestamp option option" where
  "ttl_to_expiry add_hours now ttl_hours =
     (case ttl_hours of
        None \<Rightarrow> Some None
      | Some hours \<Rightarrow> map_option Some (add_hours now (min (int hours) (i64_max div 3600))))"

definition write_scratchpad ::
  "timestamp \<Rightarrow> string \<Rightarrow> string \<Rightarrow> string \<Rightarrow> json \<Rightarrow> timestamp option \<Rightarrow> agent_tables \<Rightarrow> agent_tables" where
  "write_scratchpad now account agent key v expires_at t =
     t\<lparr>at_scratch :=
         (if sql_exists (scratch_at account agent key) (at_scratch t)
          then sql_update (scratch_at account agent key)
                 (\<lambda>r. r\<lparr>sp_value := v, sp_updated := now, sp_expires := expires_at\<rparr>) (at_scratch t)
          else at_scratch t @ [\<lparr>sp_account = account, sp_agent = agent, sp_key = key, sp_value = v,
                                sp_updated = now, sp_expires = expires_at\<rparr>])\<rparr>"

definition scratch_expired :: "timestamp \<Rightarrow> string \<Rightarrow> string \<Rightarrow> scratch_row \<Rightarrow> bool" where
  "scratch_expired now account agent r \<longleftrightarrow> sp_account r = account \<and> sp_agent r = agent
     \<and> (case sp_expires r of None \<Rightarrow> False | Some e \<Rightarrow> e < now)"

definition prune_expired_scratchpad :: "timestamp \<Rightarrow> string \<Rightarrow> string \<Rightarrow> agent_tables \<Rightarrow> int \<times> agent_tables" where
  "prune_expired_scratchpad now account agent t =
     (sql_count (scratch_expired now account agent) (at_scratch t),
      t\<lparr>at_scratch := filter (\<lambda>r. \<not> scratch_expired now account agent r) (at_scratch t)\<rparr>)"

section \<open>Rows an update leaves alone\<close>

lemma filter_sql_update_off:
  assumes "\<And>r. p r \<Longrightarrow> \<not> q r" "\<And>r. p r \<Longrightarrow> \<not> q (f r)"
  shows "filter q (sql_update p f t) = filter q t"
  using assms by (induction t) auto

end
