(* ===== verification/AgentText.thy ===== *)
theory AgentText
  imports AgentTables
begin

text \<open>
  What a model answers, and what it is offered: messages, tool calls and the registry of tools
  (\<^verbatim>\<open>src/ai_provider.rs\<close>, \<^verbatim>\<open>src/agent_harness/tool_registry.rs\<close>), and the part of
  \<^verbatim>\<open>src/agent_harness/run_executor.rs\<close> that reads an answer: a tool call or a scratchpad action written
  as JSON, the check of a final output and its escalation. \<open>json_lib\<close> is \<^verbatim>\<open>serde_json\<close> with the
  printing and rounding of floats.
\<close>

record json_lib =
  jl_parse :: "string \<Rightarrow> json option"
  jl_text :: "json \<Rightarrow> string"
  jl_pretty :: "json \<Rightarrow> string"
  jl_show_f64 :: "rat \<Rightarrow> string"
  jl_f32 :: "rat \<Rightarrow> rat"

section \<open>Messages, requests and tools\<close>

definition system_message :: "string \<Rightarrow> chat_message" where
  "system_message s = \<lparr>cm_role = ''system'', cm_content = s\<rparr>"

definition user_message :: "string \<Rightarrow> chat_message" where
  "user_message s = \<lparr>cm_role = ''user'', cm_content = s\<rparr>"

definition assistant_message :: "string \<Rightarrow> chat_message" where
  "assistant_message s = \<lparr>cm_role = ''assistant'', cm_content = s\<rparr>"

datatype tool_choice = ToolAuto | ToolNone | ToolRequired

record completion_tool =
  ct_name :: string
  ct_description :: string
  ct_parameters :: json

record completion_request =
  cq_messages :: "chat_message list"
  cq_tools :: "completion_tool list"
  cq_tool_choice :: tool_choice
  cq_temperature :: rat
  cq_max_tokens :: "nat option"

record tool_call =
  tc_id :: string
  tc_name :: string
  tc_arguments :: json

record token_usage =
  tu_input_tokens :: "nat option"
  tu_output_tokens :: "nat option"

record ai_response =
  ai_content :: string
  ai_tool_calls :: "tool_call list option"
  ai_usage :: "token_usage option"

text \<open>A tool answers its arguments; the number of the call stands for what it sees of the world.\<close>

record agent_tool =
  to_name :: string
  to_description :: string
  to_schema :: json
  to_execute :: "nat \<Rightarrow> json \<Rightarrow> string result"

type_synonym tool_registry = "agent_tool list"

definition register_tool :: "agent_tool \<Rightarrow> tool_registry \<Rightarrow> tool_registry" where
  "register_tool tool reg = tool # filter (\<lambda>t. to_name t \<noteq> to_name tool) reg"

definition as_completion_tools :: "tool_registry \<Rightarrow> completion_tool list" where
  "as_completion_tools reg =
     sort_key ct_name (map (\<lambda>t. \<lparr>ct_name = to_name t, ct_description = to_description t, ct_parameters = to_schema t\<rparr>) reg)"

definition tools_execute :: "tool_registry \<Rightarrow> string \<Rightarrow> json \<Rightarrow> nat \<Rightarrow> string result" where
  "tools_execute reg name arguments n =
     (case find_opt (\<lambda>t. to_name t = name) reg of
        Some tool \<Rightarrow> to_execute tool n arguments
      | None \<Rightarrow> Inr (''Error: unknown tool '' @ [CHR 0x27] @ name @ [CHR 0x27]))"

definition echo_tool :: agent_tool where
  "echo_tool =
     \<lparr>to_name = ''echo'',
      to_description = ''Returns the '' @ [CHR 0x27] @ ''text'' @ [CHR 0x27] @ '' argument unchanged. Used for harness testing.'',
      to_schema = JObject [(''type'', JString ''object''),
                           (''properties'', JObject [(''text'', JObject [(''type'', JString ''string'')])]),
                           (''required'', JArray [JString ''text''])],
      to_execute = (\<lambda>_ arguments. Inr (case get_str ''text'' arguments of Some s \<Rightarrow> s | None \<Rightarrow> []))\<rparr>"

text \<open>The choice of a provider by the tier of a specification.\<close>

definition resolve_provider :: "provider_tier \<Rightarrow> 'p option \<Rightarrow> 'p option \<Rightarrow> string + 'p" where
  "resolve_provider tier local frontier =
     (case (tier, local, frontier) of
        (WorkerTier, Some p, _) \<Rightarrow> Inr p
      | (WorkerTier, None, Some p) \<Rightarrow> Inr p
      | (WorkerTier, None, None) \<Rightarrow> Inl ''no provider available for worker agent''
      | (OrchestratorTier, _, Some p) \<Rightarrow> Inr p
      | (OrchestratorTier, Some p, None) \<Rightarrow> Inr p
      | (OrchestratorTier, None, None) \<Rightarrow> Inl ''no provider available for orchestrator agent'')"

section \<open>JSON in an answer\<close>

definition fence :: string where "fence = ''```''"

definition strip_prefix :: "string \<Rightarrow> string \<Rightarrow> string option" where
  "strip_prefix p s = (if prefix p s then Some (drop (length p) s) else None)"

definition strip_suffix :: "string \<Rightarrow> string \<Rightarrow> string option" where
  "strip_suffix p s = (if suffix p s then Some (take (length s - length p) s) else None)"

definition strip_markdown_fences :: "string \<Rightarrow> string" where
  "strip_markdown_fences content =
     (let t = trim content;
          u = trim (case strip_prefix (fence @ ''json'') t of
                      Some s \<Rightarrow> s | None \<Rightarrow> or_default (strip_prefix fence t) t)
      in trim (or_default (strip_suffix fence u) u))"

text \<open>From the first opening brace to the last closing one.\<close>

definition extract_json_object :: "string \<Rightarrow> string option" where
  "extract_json_object content =
     (let opened = dropWhile (\<lambda>c. c \<noteq> CHR 0x7B) content;
          closed = rev (dropWhile (\<lambda>c. c \<noteq> CHR 0x7D) (rev opened))
      in if opened = [] \<or> closed = [] then None else Some closed)"

definition parse_or_extract :: "json_lib \<Rightarrow> string \<Rightarrow> json option" where
  "parse_or_extract jl s =
     (case jl_parse jl s of Some v \<Rightarrow> Some v
      | None \<Rightarrow> jl_parse jl (or_default (extract_json_object s) []))"

definition parse_embedded_json :: "json_lib \<Rightarrow> string \<Rightarrow> json option" where
  "parse_embedded_json jl content = parse_or_extract jl (strip_markdown_fences content)"

definition parse_json_tool_call :: "json_lib \<Rightarrow> string \<Rightarrow> tool_call option" where
  "parse_json_tool_call jl content =
     (case parse_embedded_json jl content of
        None \<Rightarrow> None
      | Some v \<Rightarrow>
          (if get_str ''action'' v = Some ''use_tool'' then
             map_option (\<lambda>name. \<lparr>tc_id = ''fallback-'' @ name, tc_name = name,
                                 tc_arguments = or_default (jget ''args'' v) (JObject [])\<rparr>) (get_str ''tool'' v)
           else None))"

definition tool_calls_of :: "json_lib \<Rightarrow> ai_response \<Rightarrow> tool_call list" where
  "tool_calls_of jl response =
     (case ai_tool_calls response of
        Some (c # cs) \<Rightarrow> c # cs
      | _ \<Rightarrow> (case parse_json_tool_call jl (ai_content response) of Some c \<Rightarrow> [c] | None \<Rightarrow> []))"

datatype scratchpad_action = ReadScratchpad string | WriteScratchpad string json

definition parse_scratchpad_action :: "json_lib \<Rightarrow> string \<Rightarrow> scratchpad_action option" where
  "parse_scratchpad_action jl content =
     (case parse_embedded_json jl content of
        None \<Rightarrow> None
      | Some v \<Rightarrow>
          (case get_str ''action'' v of
             None \<Rightarrow> None
           | Some action \<Rightarrow>
               (if action = ''read_scratchpad'' then map_option ReadScratchpad (get_str ''key'' v)
                else if action = ''write_scratchpad''
                then map_option (\<lambda>k. WriteScratchpad k (or_default (jget ''value'' v) JNull)) (get_str ''key'' v)
                else None)))"

section \<open>The final output\<close>

definition canonicalize_enum_value :: "string \<Rightarrow> string" where
  "canonicalize_enum_value v = map (\<lambda>c. if c = CHR ''_'' \<or> c = CHR ''-'' then CHR '' '' else c) (to_lower (trim v))"

definition normalize_known_enum_value :: "string \<Rightarrow> string list \<Rightarrow> string option" where
  "normalize_known_enum_value raw allowed =
     find_opt (\<lambda>a. canonicalize_enum_value a = canonicalize_enum_value raw) allowed"

definition set_field :: "string \<Rightarrow> json \<Rightarrow> (string \<times> json) list \<Rightarrow> (string \<times> json) list" where
  "set_field k v kvs = map (\<lambda>(k', w). if k' = k then (k', v) else (k', w)) kvs"

definition normalize_field :: "string \<times> field_validation \<Rightarrow> (string \<times> json) list \<Rightarrow> (string \<times> json) list" where
  "normalize_field entry kvs =
     (case (fv_enum_values (snd entry), Option.bind (map_of kvs (fst entry)) as_str) of
        (Some allowed, Some raw) \<Rightarrow>
          (if raw \<in> set allowed then kvs
           else (case normalize_known_enum_value raw allowed of
                   Some n \<Rightarrow> set_field (fst entry) (JString n) kvs | None \<Rightarrow> kvs))
      | _ \<Rightarrow> kvs)"

definition normalize_common_output_enums :: "output_config \<Rightarrow> json \<Rightarrow> json" where
  "normalize_common_output_enums config v =
     (case v of JObject kvs \<Rightarrow> JObject (fold normalize_field (oc_validation config) kvs) | _ \<Rightarrow> v)"

definition validate_output :: "json_lib \<Rightarrow> string \<Rightarrow> output_config \<Rightarrow> json result" where
  "validate_output jl content config =
     (case parse_or_extract jl (trim (strip_markdown_fences content)) of
        None \<Rightarrow> Inl [''response was not valid JSON'']
      | Some parsed \<Rightarrow>
          (let v = normalize_common_output_enums config parsed in
           case output_validate (jl_show_f64 jl) config v of Inl e \<Rightarrow> Inl e | Inr _ \<Rightarrow> Inr v))"

definition category_hint :: string where
  "category_hint = '' For category, choose one allowed top-level enum value exactly. If your intended category is novel or more specific than the enum, keep the nearest allowed top-level value in category and move the novel/specific label into subcategory.''"

definition email_type_hint :: string where
  "email_type_hint = '' For email_type, choose one allowed enum value by meaning; do not invent values such as marketing, promotional, personal, or security.''"

definition has_enum :: "output_config \<Rightarrow> string \<Rightarrow> bool" where
  "has_enum config field =
     (case map_of (oc_validation config) field of None \<Rightarrow> False | Some fv \<Rightarrow> fv_enum_values fv \<noteq> None)"

definition output_validation_repair_hint :: "output_config \<Rightarrow> string" where
  "output_validation_repair_hint config =
     (if has_enum config ''category'' \<and> ''subcategory'' \<in> set (oc_required_fields config) then category_hint else [])
     @ (if has_enum config ''email_type'' then email_type_hint else [])"

section \<open>Escalation\<close>

text \<open>\<^verbatim>\<open>{:.3}\<close>: three decimals, rounded half to even.\<close>

definition round_half_even :: "rat \<Rightarrow> int" where
  "round_half_even q =
     (let n = \<lfloor>q\<rfloor>; r = q - of_int n in
      if r < 1 / 2 then n else if r > 1 / 2 then n + 1 else if even n then n else n + 1)"

definition show_fixed3 :: "rat \<Rightarrow> string" where
  "show_fixed3 q =
     (let n = nat (round_half_even (\<bar>q\<bar> * 1000)) in
      (if q < 0 then ''-'' else []) @ show_nat (n div 1000) @ ''.''
      @ [digit_char (n div 100 mod 10), digit_char (n div 10 mod 10), digit_char (n mod 10)])"

definition escalate_on_content :: "escalation_config \<Rightarrow> json \<Rightarrow> bool \<times> string option" where
  "escalate_on_content config output =
     (if es_always_escalate_on_phishing config \<and> get_str ''phishing_status'' output = Some ''phishing''
      then (True, Some ''phishing result requires escalation'')
      else case get_str ''threat_level'' output of
        None \<Rightarrow> (False, None)
      | Some t \<Rightarrow>
          (if t \<in> set (es_always_escalate_on_threat config)
           then (True, Some (''threat_level '' @ [CHR 0x27] @ t @ [CHR 0x27] @ '' requires escalation''))
           else (False, None)))"

definition evaluate_escalation_with_threshold ::
  "escalation_config \<Rightarrow> json \<Rightarrow> rat option \<Rightarrow> bool \<times> string option" where
  "evaluate_escalation_with_threshold config output calibrated =
     (let threshold = or_default calibrated (es_confidence_threshold config);
          source = (if calibrated = None then ''spec default'' else ''calibrated'');
          low = (case get_f64 ''confidence'' output of None \<Rightarrow> None | Some c \<Rightarrow> if c < threshold then Some c else None)
      in case low of
           Some c \<Rightarrow> (True, Some (''confidence '' @ show_fixed3 c @ '' below threshold '' @ show_fixed3 threshold
                                  @ '' ('' @ source @ '')''))
         | None \<Rightarrow> escalate_on_content config output)"

end
