(* ===== verification/AgentQueries.thy ===== *)
theory AgentQueries
  imports AgentTables
begin

text \<open>
  What is read from the tables of the harness and changed outside a run:
  \<^verbatim>\<open>src/database/agent_runs.rs\<close>, \<^verbatim>\<open>src/database/scratchpad.rs\<close>, the calibration of escalation
  thresholds (\<^verbatim>\<open>src/agent_harness/confidence_calibration.rs\<close>) and the cleaning of scratchpads
  (\<^verbatim>\<open>src/cli_commands/scratchpad_hygiene_cli.rs\<close>). Floats are rationals without rounding;
  \<open>json_bytes\<close> is PostgreSQL's length of a value as text.
\<close>

section \<open>Runs\<close>

record agent_run_detail =
  rd_run :: agent_run_row
  rd_tool_log :: "tool_log_row list"

record agent_run_stats =
  rs_agent :: string
  rs_completed :: int
  rs_failed :: int
  rs_timed_out :: int
  rs_avg_steps :: rat
  rs_avg_tokens :: rat
  rs_avg_duration_ms :: rat
  rs_escalation_rate :: rat

record confidence_stats =
  cf_agent :: string
  cf_sample_count :: int
  cf_p50 :: rat
  cf_p75 :: rat
  cf_p95 :: rat
  cf_escalation_rate :: rat

definition list_agent_runs_for_account ::
  "string \<Rightarrow> nat \<Rightarrow> agent_run_status option \<Rightarrow> string option \<Rightarrow> agent_tables \<Rightarrow> agent_run_row list" where
  "list_agent_runs_for_account account limit status agent t =
     (if limit = 0 then []
      else sql_top (\<lambda>r. - rr_started r) limit
             (filter (\<lambda>r. rr_account r = account
                        \<and> (case status of None \<Rightarrow> True | Some s \<Rightarrow> rr_status r = s)
                        \<and> (case agent of None \<Rightarrow> True | Some n \<Rightarrow> rr_agent r = n)) (at_runs t)))"

definition get_agent_run :: "string \<Rightarrow> agent_tables \<Rightarrow> agent_run_detail option" where
  "get_agent_run run_id t =
     map_option (\<lambda>r. \<lparr>rd_run = r,
        rd_tool_log = sort_key (\<lambda>l. (int (tl_step l), tl_id l)) (filter (\<lambda>l. tl_run_id l = run_id) (at_tool_log t))\<rparr>)
       (find_opt (\<lambda>r. rr_run_id r = run_id) (at_runs t))"

definition get_agent_run_for_account :: "string \<Rightarrow> string \<Rightarrow> agent_tables \<Rightarrow> agent_run_detail option" where
  "get_agent_run_for_account account run_id t =
     (case get_agent_run run_id t of
        None \<Rightarrow> None
      | Some d \<Rightarrow> (if rr_account (rd_run d) = account then Some d else None))"

definition get_latest_agent_run_for_task :: "string \<Rightarrow> string \<Rightarrow> agent_tables \<Rightarrow> agent_run_detail option" where
  "get_latest_agent_run_for_task account task t =
     (case sql_top (\<lambda>r. - rr_started r) 1 (filter (\<lambda>r. rr_account r = account \<and> rr_task r = task) (at_runs t)) of
        [] \<Rightarrow> None | r # _ \<Rightarrow> get_agent_run (rr_run_id r) t)"

text \<open>\<^verbatim>\<open>PERCENTILE_CONT\<close> over a non-empty group: linear between the two nearest values.\<close>

definition percentile_cont :: "rat \<Rightarrow> rat list \<Rightarrow> rat" where
  "percentile_cont p xs =
     (let ys = sort xs; rn = p * of_nat (length xs - 1);
          lo = nat \<lfloor>rn\<rfloor>; hi = nat \<lceil>rn\<rceil>
      in ys ! lo + (rn - of_nat lo) * (ys ! hi - ys ! lo))"

definition recent_confident :: "string \<Rightarrow> string \<Rightarrow> nat \<Rightarrow> agent_tables \<Rightarrow> (rat \<times> bool) list" where
  "recent_confident account agent limit t =
     flatten_opts (map (\<lambda>r. map_option (\<lambda>c. (c, rr_escalated r)) (rr_confidence r))
       (sql_top (\<lambda>r. - rr_started r) limit
          (filter (\<lambda>r. rr_account r = account \<and> rr_agent r = agent \<and> rr_status r = RunCompleted
                     \<and> rr_confidence r \<noteq> None) (at_runs t))))"

definition get_confidence_stats_for_account ::
  "string \<Rightarrow> string \<Rightarrow> nat \<Rightarrow> agent_tables \<Rightarrow> confidence_stats option" where
  "get_confidence_stats_for_account account agent limit t =
     (let recent = recent_confident account agent limit t; cs = map fst recent in
      if recent = [] then None
      else Some \<lparr>cf_agent = agent, cf_sample_count = int (length recent),
                 cf_p50 = percentile_cont (1 / 2) cs, cf_p75 = percentile_cont (3 / 4) cs,
                 cf_p95 = percentile_cont (19 / 20) cs,
                 cf_escalation_rate = of_nat (length (filter snd recent)) / of_nat (length recent)\<rparr>)"

definition average :: "rat list \<Rightarrow> rat" where
  "average xs = (if xs = [] then 0 else sum_list xs / of_nat (length xs))"

definition stats_of_agent :: "string \<Rightarrow> agent_run_row list \<Rightarrow> agent_run_stats" where
  "stats_of_agent agent rows =
     (let done = filter (\<lambda>r. rr_status r = RunCompleted) rows;
          zero = (\<lambda>v. case v of None \<Rightarrow> 0 | Some n \<Rightarrow> n) in
      \<lparr>rs_agent = agent,
       rs_completed = int (length done),
       rs_failed = sql_count (\<lambda>r. rr_status r = RunFailed) rows,
       rs_timed_out = sql_count (\<lambda>r. rr_status r = RunTimedOut) rows,
       rs_avg_steps = average (map (\<lambda>r. of_int (rr_steps r)) done),
       rs_avg_tokens = average (map (\<lambda>r. of_int (zero (rr_input_tokens r) + zero (rr_output_tokens r))) done),
       rs_avg_duration_ms = average (map of_int (flatten_opts (map rr_duration_ms done))),
       rs_escalation_rate = (if done = [] then 0
                             else of_int (sql_count rr_escalated rows) / of_nat (length done))\<rparr>)"

definition get_agent_run_stats_for_account :: "string \<Rightarrow> timestamp \<Rightarrow> agent_tables \<Rightarrow> agent_run_stats list" where
  "get_agent_run_stats_for_account account since t =
     (let rows = filter (\<lambda>r. rr_account r = account \<and> since \<le> rr_started r) (at_runs t) in
      map (\<lambda>n. stats_of_agent n (filter (\<lambda>r. rr_agent r = n) rows)) (sort (remdups (map rr_agent rows))))"

section \<open>Scratchpads\<close>

record scratchpad_stats =
  ss_agent :: string
  ss_key_count :: int
  ss_total_size_bytes :: int
  ss_oldest :: timestamp
  ss_newest :: timestamp

definition list_scratchpad_entries ::
  "timestamp \<Rightarrow> string \<Rightarrow> string option \<Rightarrow> string option \<Rightarrow> agent_tables \<Rightarrow> scratch_row list" where
  "list_scratchpad_entries now account agent key t =
     sort_key (\<lambda>r. (sp_agent r, sp_key r))
       (filter (\<lambda>r. sp_account r = account \<and> scratch_live now r
                  \<and> (case agent of None \<Rightarrow> True | Some n \<Rightarrow> sp_agent r = n)
                  \<and> (case key of None \<Rightarrow> True | Some k \<Rightarrow> sp_key r = k)) (at_scratch t))"

definition get_scratchpad_entry_for_account ::
  "timestamp \<Rightarrow> string \<Rightarrow> string \<Rightarrow> string \<Rightarrow> agent_tables \<Rightarrow> json option" where
  "get_scratchpad_entry_for_account now account agent key t =
     map_option sp_value (find_opt (\<lambda>r. scratch_at account agent key r \<and> scratch_live now r) (at_scratch t))"

definition scratch_stats_of :: "(json \<Rightarrow> int) \<Rightarrow> string \<Rightarrow> scratch_row list \<Rightarrow> scratchpad_stats" where
  "scratch_stats_of json_bytes agent rows =
     \<lparr>ss_agent = agent, ss_key_count = int (length rows),
      ss_total_size_bytes = sum_list (map (\<lambda>r. json_bytes (sp_value r)) rows),
      ss_oldest = foldl min (sp_updated (hd rows)) (map sp_updated rows),
      ss_newest = foldl max (sp_updated (hd rows)) (map sp_updated rows)\<rparr>"

definition get_scratchpad_stats_for_account ::
  "(json \<Rightarrow> int) \<Rightarrow> timestamp \<Rightarrow> string \<Rightarrow> agent_tables \<Rightarrow> scratchpad_stats list" where
  "get_scratchpad_stats_for_account json_bytes now account t =
     (let rows = filter (\<lambda>r. sp_account r = account \<and> scratch_live now r) (at_scratch t) in
      map (\<lambda>n. scratch_stats_of json_bytes n (filter (\<lambda>r. sp_agent r = n) rows)) (sort (remdups (map sp_agent rows))))"

definition update_scratchpad_entry_for_account ::
  "timestamp \<Rightarrow> string \<Rightarrow> string \<Rightarrow> string \<Rightarrow> json \<Rightarrow> agent_tables \<Rightarrow> int \<times> agent_tables" where
  "update_scratchpad_entry_for_account now account agent key v t =
     (sql_count (scratch_at account agent key) (at_scratch t),
      t\<lparr>at_scratch := sql_update (scratch_at account agent key) (\<lambda>r. r\<lparr>sp_value := v, sp_updated := now\<rparr>) (at_scratch t)\<rparr>)"

definition delete_scratchpad_entry :: "string \<Rightarrow> string \<Rightarrow> string \<Rightarrow> agent_tables \<Rightarrow> bool \<times> agent_tables" where
  "delete_scratchpad_entry account agent key t =
     (sql_exists (scratch_at account agent key) (at_scratch t),
      t\<lparr>at_scratch := filter (\<lambda>r. \<not> scratch_at account agent key r) (at_scratch t)\<rparr>)"

section \<open>Calibration\<close>

definition min_threshold :: rat where "min_threshold = 1 / 2"
definition max_threshold :: rat where "max_threshold = 19 / 20"
definition min_samples :: int where "min_samples = 20"
definition default_sample_limit :: nat where "default_sample_limit = 200"
definition target_escalation_rate_high :: rat where "target_escalation_rate_high = 1 / 5"
definition target_escalation_rate_low :: rat where "target_escalation_rate_low = 1 / 20"
definition smoothing_factor :: rat where "smoothing_factor = 7 / 10"

record calibration_result =
  cl_agent :: string
  cl_account :: string
  cl_sample_count :: int
  cl_previous :: "rat option"
  cl_new :: rat
  cl_p50 :: rat
  cl_p75 :: rat
  cl_p95 :: rat
  cl_escalation_rate :: rat
  cl_skip_reason :: "string option"

definition compute_calibrated_threshold :: "rat \<Rightarrow> rat \<Rightarrow> rat \<Rightarrow> rat \<Rightarrow> rat" where
  "compute_calibrated_threshold current p50 p75 escalation_rate =
     (let computed = (if escalation_rate > target_escalation_rate_high then p50
                      else if escalation_rate < target_escalation_rate_low then p75
                      else current);
          smoothed = smoothing_factor * computed + (1 - smoothing_factor) * current
      in max min_threshold (min max_threshold smoothed))"

definition calibration_key :: "string \<Rightarrow> string" where
  "calibration_key agent = ''calibration_'' @ agent"

definition threshold_in :: "json option \<Rightarrow> rat option" where
  "threshold_in v = Option.bind v (get_f64 ''threshold'')"

definition calibration_value :: "string \<Rightarrow> confidence_stats \<Rightarrow> rat \<Rightarrow> rat \<Rightarrow> json" where
  "calibration_value computed_at st new spec_threshold =
     JObject [(''threshold'', JFloat new), (''computed_at'', JString computed_at),
              (''sample_count'', JInt (cf_sample_count st)), (''p50'', JFloat (cf_p50 st)),
              (''p75'', JFloat (cf_p75 st)), (''p95'', JFloat (cf_p95 st)),
              (''escalation_rate'', JFloat (cf_escalation_rate st)), (''spec_default'', JFloat spec_threshold)]"

text \<open>
  \<open>calibrate_agent\<close> with statements that do not fail; \<open>rfc3339\<close> prints a time. A skipped calibration
  has a reason.
\<close>

definition calibrate_agent ::
  "(timestamp \<Rightarrow> string) \<Rightarrow> timestamp \<Rightarrow> string \<Rightarrow> string \<Rightarrow> rat \<Rightarrow> nat option \<Rightarrow> agent_tables
     \<Rightarrow> calibration_result \<times> agent_tables" where
  "calibrate_agent rfc3339 now account agent spec_threshold sample_limit t =
     (case get_confidence_stats_for_account account agent (or_default sample_limit default_sample_limit) t of
        None \<Rightarrow>
          (\<lparr>cl_agent = agent, cl_account = account, cl_sample_count = 0, cl_previous = None, cl_new = spec_threshold,
            cl_p50 = 0, cl_p75 = 0, cl_p95 = 0, cl_escalation_rate = 0,
            cl_skip_reason = Some ''no completed runs with confidence data''\<rparr>, t)
      | Some st \<Rightarrow>
          (let result = \<lparr>cl_agent = agent, cl_account = account, cl_sample_count = cf_sample_count st,
                         cl_previous = None, cl_new = spec_threshold, cl_p50 = cf_p50 st, cl_p75 = cf_p75 st,
                         cl_p95 = cf_p95 st, cl_escalation_rate = cf_escalation_rate st, cl_skip_reason = None\<rparr> in
           if cf_sample_count st < min_samples then
             (result\<lparr>cl_skip_reason := Some (''insufficient samples ('' @ show_int (cf_sample_count st) @ '', need ''
                        @ show_int min_samples @ '')'')\<rparr>, t)
           else
             (let previous = threshold_in (read_scratchpad now account agent (calibration_key agent) t);
                  new = compute_calibrated_threshold (or_default previous spec_threshold)
                          (cf_p50 st) (cf_p75 st) (cf_escalation_rate st)
              in (result\<lparr>cl_previous := previous, cl_new := new\<rparr>,
                  write_scratchpad now account agent (calibration_key agent)
                    (calibration_value (rfc3339 now) st new spec_threshold) None t))))"

section \<open>Hygiene\<close>

text \<open>\<^verbatim>\<open>split_once\<close> at a colon, then both sides trimmed.\<close>

definition parse_entry_target :: "string \<Rightarrow> (string \<times> string) option" where
  "parse_entry_target target =
     (let s = trim target; agent = trim (takeWhile (\<lambda>c. c \<noteq> CHR '':'') s);
          key = trim (tl (dropWhile (\<lambda>c. c \<noteq> CHR '':'') s)) in
      if s = [] \<or> CHR '':'' \<notin> set s \<or> agent = [] \<or> key = [] then None else Some (agent, key))"

definition filter_entries_for_target :: "scratch_row list \<Rightarrow> string \<Rightarrow> scratch_row list" where
  "filter_entries_for_target entries target =
     (case parse_entry_target target of
        Some (agent, key) \<Rightarrow> filter (\<lambda>r. sp_agent r = agent \<and> sp_key r = key) entries
      | None \<Rightarrow> filter (\<lambda>r. sp_key r = trim target) entries)"

definition extract_hygiene_result :: "json \<Rightarrow> json option" where
  "extract_hygiene_result output =
     (if get_str ''task_type'' output = Some ''scratchpad_hygiene''
      then (case jget ''result'' output of Some (JObject kvs) \<Rightarrow> Some (JObject kvs) | _ \<Rightarrow> None)
      else None)"

definition parse_delete_keys :: "json \<Rightarrow> string list" where
  "parse_delete_keys result =
     (case Option.bind (jget ''delete_keys'' result) as_array of
        None \<Rightarrow> []
      | Some items \<Rightarrow> filter (\<lambda>s. s \<noteq> []) (map trim (flatten_opts (map as_str items))))"

definition parse_summaries :: "json \<Rightarrow> (string \<times> string) list" where
  "parse_summaries result =
     (case jget ''summarize'' result of
        Some (JObject kvs) \<Rightarrow>
          flatten_opts (map (\<lambda>(target, v). case as_str v of
             None \<Rightarrow> None
           | Some s \<Rightarrow> (if trim target = [] \<or> trim s = [] then None else Some (trim target, trim s))) kvs)
      | _ \<Rightarrow> [])"

fun delete_entries :: "string \<Rightarrow> scratch_row list \<Rightarrow> int \<times> agent_tables \<Rightarrow> int \<times> agent_tables" where
  "delete_entries account [] acc = acc"
| "delete_entries account (e # es) (deleted, t) =
     (case delete_scratchpad_entry account (sp_agent e) (sp_key e) t of
        (removed, t') \<Rightarrow> delete_entries account es (if removed then deleted + 1 else deleted, t'))"

fun update_entries :: "timestamp \<Rightarrow> string \<Rightarrow> string \<Rightarrow> scratch_row list \<Rightarrow> int \<times> agent_tables \<Rightarrow> int \<times> agent_tables" where
  "update_entries now account summary [] acc = acc"
| "update_entries now account summary (e # es) (n, t) =
     (case update_scratchpad_entry_for_account now account (sp_agent e) (sp_key e) (JString summary) t of
        (updated, t') \<Rightarrow> update_entries now account summary es (n + updated, t'))"

definition build_hygiene_input ::
  "(timestamp \<Rightarrow> string) \<Rightarrow> string \<Rightarrow> scratch_row list \<Rightarrow> scratchpad_stats list \<Rightarrow> json" where
  "build_hygiene_input rfc3339 account entries stats =
     JObject
       [(''task_type'', JString ''scratchpad_hygiene''), (''account_id'', JString account),
        (''scratchpad_entries'', JArray (map (\<lambda>e. JObject
           [(''agent_name'', JString (sp_agent e)), (''key'', JString (sp_key e)), (''value'', sp_value e),
            (''updated_at'', JString (rfc3339 (sp_updated e))),
            (''expires_at'', case sp_expires e of None \<Rightarrow> JNull | Some x \<Rightarrow> JString (rfc3339 x))]) entries)),
        (''scratchpad_stats'', JArray (map (\<lambda>s. JObject
           [(''agent_name'', JString (ss_agent s)), (''key_count'', JInt (ss_key_count s)),
            (''total_size_bytes'', JInt (ss_total_size_bytes s)),
            (''oldest_entry'', JString (rfc3339 (ss_oldest s))),
            (''newest_entry'', JString (rfc3339 (ss_newest s)))]) stats))]"

text \<open>
  \<open>run_scratchpad_hygiene\<close> once a provider and the specification are there; \<open>agent\<close> is the agent run
  on the input, which works on the tables, too. The result counts what was deleted and summarised.
\<close>

definition apply_hygiene :: "timestamp \<Rightarrow> string \<Rightarrow> scratch_row list \<Rightarrow> json \<Rightarrow> agent_tables \<Rightarrow> (int \<times> int) \<times> agent_tables" where
  "apply_hygiene now account entries result t =
     (case fold (\<lambda>target. delete_entries account (filter_entries_for_target entries target)) (parse_delete_keys result) (0, t) of
        (deleted, t1) \<Rightarrow>
          (let after = list_scratchpad_entries now account None None t1 in
           case fold (\<lambda>(target, summary). update_entries now account summary (filter_entries_for_target after target))
                  (parse_summaries result) (0, t1) of
             (summarized, t2) \<Rightarrow> ((deleted, summarized), t2)))"

definition run_scratchpad_hygiene ::
  "(timestamp \<Rightarrow> string) \<Rightarrow> (json \<Rightarrow> int) \<Rightarrow> (json \<Rightarrow> agent_tables \<Rightarrow> json result \<times> agent_tables)
     \<Rightarrow> timestamp \<Rightarrow> string \<Rightarrow> agent_tables \<Rightarrow> (int \<times> int) result \<times> agent_tables" where
  "run_scratchpad_hygiene rfc3339 json_bytes agent now account t =
     (let entries = list_scratchpad_entries now account None None t;
          stats = get_scratchpad_stats_for_account json_bytes now account t in
      if entries = [] then (Inr (0, 0), t)
      else case agent (build_hygiene_input rfc3339 account entries stats) t of
        (Inl e, t1) \<Rightarrow> (Inl (''run scratchpad hygiene orchestrator task'' # e), t1)
      | (Inr output, t1) \<Rightarrow>
          (case extract_hygiene_result output of
             None \<Rightarrow> (Inr (0, 0), t1)
           | Some result \<Rightarrow> (case apply_hygiene now account entries result t1 of (n, t2) \<Rightarrow> (Inr n, t2))))"

end
