(* ===== verification/AgentRun.thy ===== *)
theory AgentRun
  imports AgentGate AgentText AgentQueries
begin

text \<open>
  The runs of \<^verbatim>\<open>src/agent_harness/run_executor.rs\<close>. A \<open>harness\<close> is the tables of agents, the core queue,
  the time since the process started in milliseconds, the number of operations that were waited for, the
  deadline of \<^verbatim>\<open>tokio::time::timeout\<close> and the events sent to the callback, latest first.
  An \<open>agent_host\<close> answers what is outside: how long an operation takes, whether a statement fails
  (\<open>ah_fault\<close>), whether one that failed or was cut off took effect (\<open>ah_landed\<close>), the mail tables as
  the \<open>n\<close>-th operation finds them, the model and the tools. An operation that ends at or after the deadline
  is cut off.

  A \<open>Failure\<close> is an error, \<open>Elapsed\<close> the timeout, \<open>Panicked\<close> a panic. Metrics and log lines are left
  out, token counts are unbounded.
\<close>

section \<open>States and operations\<close>

datatype harness_event =
    RunStarted string string string
  | StepStarted nat
  | ToolCallEvent nat string json
  | ToolResultEvent nat string string int
  | FinalOutput json
  | ErrorEvent string

datatype stop = Failure err | Elapsed | Panicked

record harness =
  hs_tables :: agent_tables
  hs_core :: core_table
  hs_ms :: int
  hs_tick :: nat
  hs_deadline :: "int option"
  hs_events :: "harness_event list"

record agent_host =
  ah_took :: "nat \<Rightarrow> nat"
  ah_wall :: "int \<Rightarrow> timestamp"
  ah_run_id :: string
  ah_fault :: "nat \<Rightarrow> err option"
  ah_landed :: "nat \<Rightarrow> bool"
  ah_mail :: "nat \<Rightarrow> mail_store"
  ah_supports_tools :: bool
  ah_complete :: "nat \<Rightarrow> completion_request \<Rightarrow> ai_response result"
  ah_json :: json_lib
  ah_add_hours :: "timestamp \<Rightarrow> int \<Rightarrow> timestamp option"

record agent =
  ag_spec :: agent_spec
  ag_account :: string
  ag_tools :: tool_registry
  ag_poll :: poll_config
  ag_calibrated :: "rat option"

definition timed_out :: "harness \<Rightarrow> bool" where
  "timed_out s = (case hs_deadline s of None \<Rightarrow> False | Some d \<Rightarrow> d \<le> hs_ms s)"

definition wait_one :: "agent_host \<Rightarrow> harness \<Rightarrow> harness" where
  "wait_one h s = s\<lparr>hs_tick := hs_tick s + 1, hs_ms := hs_ms s + int (ah_took h (hs_tick s))\<rparr>"

text \<open>A statement with its context, and an operation outside the tables.\<close>

definition stmt :: "agent_host \<Rightarrow> string \<Rightarrow> (harness \<Rightarrow> 'a \<times> harness) \<Rightarrow> harness \<Rightarrow> (stop + 'a) \<times> harness" where
  "stmt h what f s =
     (let s1 = wait_one h s; lost = (if ah_landed h (hs_tick s) then snd (f s1) else s1) in
      if timed_out s1 then (Inl Elapsed, lost)
      else case ah_fault h (hs_tick s) of
        Some e \<Rightarrow> (Inl (Failure (what # e)), lost)
      | None \<Rightarrow> (case f s1 of (v, s2) \<Rightarrow> (Inr v, s2)))"

definition await_host :: "agent_host \<Rightarrow> (nat \<Rightarrow> 'a result) \<Rightarrow> harness \<Rightarrow> (stop + 'a) \<times> harness" where
  "await_host h f s =
     (let s1 = wait_one h s in
      if timed_out s1 then (Inl Elapsed, s1)
      else case f (hs_tick s) of Inl e \<Rightarrow> (Inl (Failure e), s1) | Inr v \<Rightarrow> (Inr v, s1))"

definition sleep_ms :: "agent_host \<Rightarrow> int \<Rightarrow> harness \<Rightarrow> harness" where
  "sleep_ms h d s = (let s1 = wait_one h s in s1\<lparr>hs_ms := hs_ms s1 + d\<rparr>)"

definition emit :: "harness_event \<Rightarrow> harness \<Rightarrow> harness" where
  "emit e s = s\<lparr>hs_events := e # hs_events s\<rparr>"

definition db_now :: "agent_host \<Rightarrow> harness \<Rightarrow> timestamp" where
  "db_now h s = ah_wall h (hs_ms s)"

definition on_tables :: "(agent_tables \<Rightarrow> agent_tables) \<Rightarrow> harness \<Rightarrow> unit \<times> harness" where
  "on_tables f s = ((), s\<lparr>hs_tables := f (hs_tables s)\<rparr>)"

definition ask_tables :: "(harness \<Rightarrow> 'a) \<Rightarrow> harness \<Rightarrow> 'a \<times> harness" where
  "ask_tables f s = (f s, s)"

text \<open>An error that is only logged.\<close>

definition ignore_failure :: "(stop + 'a) \<times> harness \<Rightarrow> (stop + unit) \<times> harness" where
  "ignore_failure m =
     (case m of (Inl (Failure _), s) \<Rightarrow> (Inr (), s) | (Inl Elapsed, s) \<Rightarrow> (Inl Elapsed, s)
              | (Inl Panicked, s) \<Rightarrow> (Inl Panicked, s) | (Inr _, s) \<Rightarrow> (Inr (), s))"

definition with_context :: "string \<Rightarrow> (stop + 'a) \<times> harness \<Rightarrow> (stop + 'a) \<times> harness" where
  "with_context what m = (case m of (Inl (Failure e), s) \<Rightarrow> (Inl (Failure (what # e)), s) | _ \<Rightarrow> m)"

definition agent_name :: "agent \<Rightarrow> string" where
  "agent_name ag = as_name (ag_spec ag)"

section \<open>Statements of a run\<close>

definition do_begin_run :: "agent_host \<Rightarrow> agent \<Rightarrow> string \<Rightarrow> harness \<Rightarrow> (stop + string) \<times> harness" where
  "do_begin_run h ag task_id s =
     and_then (stmt h ''query existing running agent run''
                 (ask_tables (\<lambda>s. find_running (ag_account ag) (agent_name ag) task_id (hs_tables s))) s)
       (\<lambda>existing s. case existing of
          Some run_id \<Rightarrow> (Inr run_id, s)
        | None \<Rightarrow>
            and_then (stmt h ''insert agent run''
                (\<lambda>s. on_tables (insert_run (db_now h s) (ah_run_id h) (ag_account ag) (agent_name ag)
                                  (as_version (ag_spec ag)) task_id) s) s)
              (\<lambda>_ s. (Inr (ah_run_id h), s)))"

definition do_log_tool_call ::
  "agent_host \<Rightarrow> string \<Rightarrow> nat \<Rightarrow> string \<Rightarrow> json \<Rightarrow> string \<Rightarrow> int \<Rightarrow> harness \<Rightarrow> (stop + unit) \<times> harness" where
  "do_log_tool_call h run_id step tool arguments result latency =
     stmt h ''insert agent tool log'' (\<lambda>s. on_tables (log_tool_call (db_now h s) run_id step tool arguments result latency) s)"

definition do_record_step :: "agent_host \<Rightarrow> string \<Rightarrow> harness \<Rightarrow> (stop + unit) \<times> harness" where
  "do_record_step h run_id = stmt h ''record agent step'' (on_tables (record_step run_id))"

definition do_record_llm_call :: "agent_host \<Rightarrow> string \<Rightarrow> nat option \<Rightarrow> nat option \<Rightarrow> harness \<Rightarrow> (stop + unit) \<times> harness" where
  "do_record_llm_call h run_id i out = stmt h ''record agent llm call'' (on_tables (record_llm_call run_id i out))"

definition do_record_tool_calls :: "agent_host \<Rightarrow> string \<Rightarrow> nat \<Rightarrow> harness \<Rightarrow> (stop + unit) \<times> harness" where
  "do_record_tool_calls h run_id n = stmt h ''record agent tool calls'' (on_tables (record_tool_calls run_id n))"

definition do_save_checkpoint ::
  "agent_host \<Rightarrow> string \<Rightarrow> nat \<Rightarrow> chat_message list \<Rightarrow> harness \<Rightarrow> (stop + unit) \<times> harness" where
  "do_save_checkpoint h run_id step messages =
     stmt h ''save agent checkpoint'' (\<lambda>s. on_tables (save_checkpoint (db_now h s) run_id step messages) s)"

definition do_finish_run ::
  "agent_host \<Rightarrow> string \<Rightarrow> int \<Rightarrow> json \<Rightarrow> bool \<Rightarrow> rat option \<Rightarrow> harness \<Rightarrow> (stop + unit) \<times> harness" where
  "do_finish_run h run_id started output escalated confidence =
     stmt h ''finish agent run''
       (\<lambda>s. on_tables (finish_agent_run (db_now h s) run_id (hs_ms s - started) output escalated confidence) s)"

definition do_fail_run :: "agent_host \<Rightarrow> string \<Rightarrow> int \<Rightarrow> string \<Rightarrow> harness \<Rightarrow> (stop + unit) \<times> harness" where
  "do_fail_run h run_id started error =
     stmt h ''mark agent run failed'' (\<lambda>s. on_tables (fail_agent_run (db_now h s) run_id (hs_ms s - started) error) s)"

definition do_timeout_run :: "agent_host \<Rightarrow> string \<Rightarrow> int \<Rightarrow> harness \<Rightarrow> (stop + unit) \<times> harness" where
  "do_timeout_run h run_id started =
     stmt h ''mark agent run timed out'' (\<lambda>s. on_tables (timeout_run (db_now h s) run_id (hs_ms s - started)) s)"

definition do_read_scratchpad :: "agent_host \<Rightarrow> agent \<Rightarrow> string \<Rightarrow> harness \<Rightarrow> (stop + json option) \<times> harness" where
  "do_read_scratchpad h ag key =
     stmt h ''read scratchpad value''
       (ask_tables (\<lambda>s. read_scratchpad (db_now h s) (ag_account ag) (agent_name ag) key (hs_tables s)))"

definition do_write_scratchpad :: "agent_host \<Rightarrow> agent \<Rightarrow> string \<Rightarrow> json \<Rightarrow> nat option \<Rightarrow> harness \<Rightarrow> (stop + unit) \<times> harness" where
  "do_write_scratchpad h ag key v ttl_hours s =
     (case ttl_to_expiry (ah_add_hours h) (db_now h s) ttl_hours of
        None \<Rightarrow> (Inl Panicked, s)
      | Some expires_at \<Rightarrow>
          stmt h ''write scratchpad value''
            (\<lambda>s. on_tables (write_scratchpad (db_now h s) (ag_account ag) (agent_name ag) key v expires_at) s) s)"

definition load_snapshot :: "agent_host \<Rightarrow> agent \<Rightarrow> string \<Rightarrow> harness \<Rightarrow> (stop + completeness_snapshot) \<times> harness" where
  "load_snapshot h ag what s =
     stmt h what (\<lambda>s1. (db_completeness_snapshot_for_account (db_now h s1) (ag_account ag) (ah_mail h (hs_tick s)), s1)) s"

section \<open>The database gate\<close>

definition log_db_completeness_event ::
  "agent_host \<Rightarrow> agent \<Rightarrow> string \<Rightarrow> string \<Rightarrow> completeness_snapshot \<Rightarrow> core_work_type list \<Rightarrow> int \<Rightarrow> int
     \<Rightarrow> harness \<Rightarrow> harness" where
  "log_db_completeness_event h ag run_id event sn requested_work stable_polls elapsed s =
     snd (do_log_tool_call h run_id 0 event
            (completeness_event_args (ag_poll ag) (ag_account ag) event sn requested_work stable_polls elapsed)
            event elapsed s)"

text \<open>A request that fails is logged and counts as requested.\<close>

fun request_work_types ::
  "agent_host \<Rightarrow> agent \<Rightarrow> json \<Rightarrow> core_work_type list \<Rightarrow> harness \<Rightarrow> harness" where
  "request_work_types h ag payload [] s = s"
| "request_work_types h ag payload (w # ws) s =
     request_work_types h ag payload ws
       (snd (stmt h ''enqueue core work''
               (\<lambda>s. ((), s\<lparr>hs_core := snd (enqueue_core_work_for_account (db_now h s) (ag_account ag) w
                            (''agent-db-completeness:'' @ as_work_str w) payload (hs_core s))\<rparr>)) s))"

definition request_db_prerequisite_work ::
  "agent_host \<Rightarrow> agent \<Rightarrow> string \<Rightarrow> string \<Rightarrow> completeness_snapshot \<Rightarrow> core_work_type list \<Rightarrow> harness
     \<Rightarrow> core_work_type list \<times> harness" where
  "request_db_prerequisite_work h ag run_id task_id sn missing s =
     (if \<not> po_request_work (ag_poll ag) \<or> missing = [] then ([], s)
      else (missing, request_work_types h ag (prerequisite_payload (agent_name ag) run_id task_id sn) missing s))"

definition attach_mailbox_preparation_context ::
  "agent_host \<Rightarrow> agent \<Rightarrow> string \<Rightarrow> string \<Rightarrow> json \<Rightarrow> harness \<Rightarrow> (stop + json) \<times> harness" where
  "attach_mailbox_preparation_context h ag run_id task_id input s =
     (if \<not> should_use_partial_db (agent_name ag) task_id then (Inr input, s)
      else and_then (load_snapshot h ag ''load mailbox preparation snapshot'' s) (\<lambda>sn s.
        let (requested, s1) = request_db_prerequisite_work h ag run_id task_id sn (classify_db_prerequisite_work sn) s;
            s2 = log_db_completeness_event h ag run_id ''db_completeness_partial_context'' sn requested 1 0 s1
        in case input of
             JObject kvs \<Rightarrow>
               (Inr (JObject (AList.update ''mailbox_preparation'' (mailbox_preparation sn requested) kvs)), s2)
           | _ \<Rightarrow> (Inl (Failure [''mail assistant chat input must be an object'']), s2)))"

datatype wait_outcome = DbReady | DbPending db_pending

definition wait_timeout_error :: "string \<Rightarrow> db_pending \<Rightarrow> err" where
  "wait_timeout_error task_id p =
     (let s = dp_snapshot p; d = sn_body_sync s in
      [''db completeness wait timed out after '' @ show_int (dp_max_wait p) @ ''s for task='' @ task_id
       @ '' (requested_work=['' @ join '', '' (map (\<lambda>w. [CHR 0x22] @ w @ [CHR 0x22]) (core_work_type_names (dp_requested_work p)))
       @ ''], folder_count='' @ show_int (sn_folder_count s) @ '', email_count='' @ show_int (sn_email_count s)
       @ '', largest_folder_message_count='' @ show_int (sn_largest_folder_message_count s)
       @ '', missing_message_id='' @ show_int (sn_missing_message_id s) @ '', body_missing='' @ show_int (sn_body_missing s)
       @ '', analysis_missing='' @ show_int (sn_analysis_missing s) @ '', location_missing='' @ show_int (sn_location_missing s)
       @ '', body_sync pending/failed/processing/dead='' @ show_int (qd_pending d) @ ''/'' @ show_int (qd_failed d)
       @ ''/'' @ show_int (qd_processing d) @ ''/'' @ show_int (qd_dead d) @ '')''])"

record wait_vars =
  wv_delay :: int
  wv_prev :: "int option"
  wv_stable :: int
  wv_requested :: "core_work_type list"

text \<open>
  One round of the wait: its outcome, or the variables of the next one after the sleep.
\<close>

definition wait_round ::
  "agent_host \<Rightarrow> agent \<Rightarrow> string \<Rightarrow> string \<Rightarrow> int \<Rightarrow> wait_vars \<Rightarrow> harness \<Rightarrow> (stop + wait_outcome + wait_vars) \<times> harness" where
  "wait_round h ag run_id task_id started v s0 =
     and_then (load_snapshot h ag ''load db completeness snapshot'' s0) (\<lambda>sn s.
       let cfg = ag_poll ag;
           stable = (if wv_prev v = Some (sn_email_count sn) then wv_stable v + 1 else 1) in
       if is_snapshot_ready cfg sn stable then
         (Inr (Inl DbReady), log_db_completeness_event h ag run_id ''db_completeness_ready'' sn (wv_requested v) stable
                               (hs_ms s - started) s)
       else
         (let (newly, s1) = request_db_prerequisite_work h ag run_id task_id sn
                              (filter (\<lambda>w. w \<notin> set (wv_requested v)) (classify_db_prerequisite_work sn)) s;
              requested = wv_requested v @ newly;
              elapsed = hs_ms s1 - started;
              p = \<lparr>dp_snapshot = sn, dp_requested_work = requested, dp_stable_polls = stable,
                   dp_elapsed_ms = elapsed, dp_max_wait = max_wait_for_task cfg task_id\<rparr> in
          if 1000 * max_wait_for_task cfg task_id \<le> elapsed then
            (if should_complete_db_pending_for_task task_id then
               (Inr (Inl (DbPending p)),
                log_db_completeness_event h ag run_id ''db_completeness_pending'' sn requested stable elapsed s1)
             else
               (Inl (Failure (wait_timeout_error task_id p)),
                log_db_completeness_event h ag run_id ''db_completeness_timeout'' sn requested stable elapsed s1))
          else
            (Inr (Inr \<lparr>wv_delay = min (2 * wv_delay v) (po_max_backoff_ms cfg), wv_prev = Some (sn_email_count sn),
                       wv_stable = stable, wv_requested = requested\<rparr>),
             sleep_ms h (wv_delay v)
               (log_db_completeness_event h ag run_id ''db_completeness_wait'' sn requested stable elapsed s1))))"

partial_function (option) wait_loop ::
  "agent_host \<Rightarrow> agent \<Rightarrow> string \<Rightarrow> string \<Rightarrow> int \<Rightarrow> wait_vars \<Rightarrow> harness \<Rightarrow> ((stop + wait_outcome) \<times> harness) option" where
  "wait_loop h ag run_id task_id started v s =
     (case wait_round h ag run_id task_id started v s of
        (Inl e, s') \<Rightarrow> Some (Inl e, s')
      | (Inr (Inl w), s') \<Rightarrow> Some (Inr w, s')
      | (Inr (Inr v'), s') \<Rightarrow> wait_loop h ag run_id task_id started v' s')"

definition wait_for_db_completeness ::
  "agent_host \<Rightarrow> agent \<Rightarrow> string \<Rightarrow> string \<Rightarrow> harness \<Rightarrow> ((stop + wait_outcome) \<times> harness) option" where
  "wait_for_db_completeness h ag run_id task_id s =
     (if \<not> (po_enabled (ag_poll ag) \<and> should_gate_db_completeness (agent_name ag)) then Some (Inr DbReady, s)
      else if should_use_partial_db (agent_name ag) task_id then Some (Inr DbReady, s)
      else wait_loop h ag run_id task_id (hs_ms s)
             \<lparr>wv_delay = po_initial_backoff_ms (ag_poll ag), wv_prev = None, wv_stable = 0, wv_requested = []\<rparr> s)"

end
