(* ===== verification/AgentLoop.thy ===== *)
theory AgentLoop
  imports AgentRun
begin

text \<open>
  \<^verbatim>\<open>run_with_callback\<close> of \<^verbatim>\<open>src/agent_harness/run_executor.rs\<close>: the loop between a model and its
  tools, step by step. \<open>run_vars\<close> is the loop's variables; a \<open>run_ctx\<close> what it captures.
\<close>

record run_vars =
  rv_messages :: "chat_message list"
  rv_used :: "string list"
  rv_llm_calls :: nat
  rv_tool_calls :: nat
  rv_input_tokens :: nat
  rv_output_tokens :: nat

record run_ctx =
  rc_run_id :: string
  rc_started :: int
  rc_count :: bool
  rc_list :: bool

record run_result =
  rn_run_id :: string
  rn_output :: json
  rn_should_escalate :: bool
  rn_escalate_reason :: "string option"
  rn_llm_calls :: nat
  rn_tool_calls :: nat
  rn_input_tokens :: "nat option"
  rn_output_tokens :: "nat option"

section \<open>Tool calls\<close>

text \<open>A tool of the registry is waited for; the answer for an unknown one is there at once.\<close>

definition call_tool :: "agent_host \<Rightarrow> agent \<Rightarrow> string \<Rightarrow> json \<Rightarrow> harness \<Rightarrow> (stop + string) \<times> harness" where
  "call_tool h ag name arguments s =
     (if find_opt (\<lambda>t. to_name t = name) (ag_tools ag) = None
      then (case tools_execute (ag_tools ag) name arguments (hs_tick s) of Inl e \<Rightarrow> (Inl (Failure e), s) | Inr r \<Rightarrow> (Inr r, s))
      else await_host h (tools_execute (ag_tools ag) name arguments) s)"

text \<open>One call with its events and its entry in the log.\<close>

definition logged_call ::
  "agent_host \<Rightarrow> agent \<Rightarrow> string \<Rightarrow> nat \<Rightarrow> string \<Rightarrow> json \<Rightarrow> harness \<Rightarrow> (stop + string) \<times> harness" where
  "logged_call h ag run_id step name arguments s0 =
     (let s = emit (ToolCallEvent step name arguments) s0 in
      and_then (call_tool h ag name arguments s) (\<lambda>result s1.
        let latency = hs_ms s1 - hs_ms s in
        and_then (do_log_tool_call h run_id step name arguments result latency s1) (\<lambda>_ s2.
          (Inr result, emit (ToolResultEvent step name result latency) s2))))"

fun run_calls ::
  "agent_host \<Rightarrow> agent \<Rightarrow> string \<Rightarrow> nat \<Rightarrow> tool_call list \<Rightarrow> harness \<Rightarrow> (stop + string list) \<times> harness" where
  "run_calls h ag run_id step [] s = (Inr [], s)"
| "run_calls h ag run_id step (c # cs) s =
     and_then (logged_call h ag run_id step (tc_name c) (tc_arguments c) s) (\<lambda>result s.
       and_then (run_calls h ag run_id step cs s) (\<lambda>parts s.
         (Inr ((''['' @ tc_name c @ '']: '' @ result) # parts), s)))"

definition push_exchange :: "string \<Rightarrow> string \<Rightarrow> run_vars \<Rightarrow> run_vars" where
  "push_exchange answer reply v = v\<lparr>rv_messages := rv_messages v @ [assistant_message answer, user_message reply]\<rparr>"

text \<open>The modulo of a checkpoint interval of zero panics.\<close>

definition checkpoint_after :: "agent_host \<Rightarrow> agent \<Rightarrow> string \<Rightarrow> nat \<Rightarrow> run_vars \<Rightarrow> harness \<Rightarrow> (stop + unit) \<times> harness" where
  "checkpoint_after h ag run_id step v s =
     (let every = ex_checkpoint_every (as_execution (ag_spec ag)) in
      if every = 0 then (Inl Panicked, s)
      else if (step + 1) mod every = 0 then ignore_failure (do_save_checkpoint h run_id step (rv_messages v) s)
      else (Inr (), s))"

definition tool_round ::
  "agent_host \<Rightarrow> agent \<Rightarrow> run_ctx \<Rightarrow> nat \<Rightarrow> string \<Rightarrow> tool_call list \<Rightarrow> run_vars \<Rightarrow> harness \<Rightarrow> (stop + run_vars) \<times> harness" where
  "tool_round h ag rc step answer calls v s =
     (let budget = bu_max_tool_calls (as_budget (ag_spec ag)) in
      if int (rv_tool_calls v + length calls) > as_u32 (int budget)
      then (Inl (Failure [''budget exceeded: max_tool_calls ('' @ show_nat budget @ '') reached'']), s)
      else and_then (run_calls h ag (rc_run_id rc) step calls s) (\<lambda>parts s.
        and_then (do_record_tool_calls h (rc_run_id rc) (length calls) s) (\<lambda>_ s.
          let v' = push_exchange answer (join [CHR 0x0A, CHR 0x0A] parts)
                     (v\<lparr>rv_used := rv_used v @ map tc_name calls, rv_tool_calls := rv_tool_calls v + length calls\<rparr>) in
          and_then (checkpoint_after h ag (rc_run_id rc) step v' s) (\<lambda>_ s. (Inr v', s)))))"

section \<open>Scratchpad actions\<close>

definition ensure_allowed_scratchpad_key :: "agent \<Rightarrow> string \<Rightarrow> unit result" where
  "ensure_allowed_scratchpad_key ag key =
     (if key \<in> set (sc_schema (as_state (ag_spec ag))) then Inr ()
      else Inl [''scratchpad key '' @ [CHR 0x27] @ key @ [CHR 0x27] @ '' is not declared in state.schema''])"

definition handle_scratchpad_action ::
  "agent_host \<Rightarrow> agent \<Rightarrow> scratchpad_action \<Rightarrow> harness \<Rightarrow> (stop + string) \<times> harness" where
  "handle_scratchpad_action h ag action s =
     (case action of
        ReadScratchpad key \<Rightarrow>
          (case ensure_allowed_scratchpad_key ag key of
             Inl e \<Rightarrow> (Inl (Failure e), s)
           | Inr _ \<Rightarrow> and_then (do_read_scratchpad h ag key s) (\<lambda>v s.
               (Inr (jl_text (ah_json h)
                  (JObject [(''action'', JString ''read_scratchpad_result''), (''key'', JString key),
                            (''account_id'', JString (ag_account ag)), (''value'', or_default v JNull)])), s)))
      | WriteScratchpad key v \<Rightarrow>
          (case ensure_allowed_scratchpad_key ag key of
             Inl e \<Rightarrow> (Inl (Failure e), s)
           | Inr _ \<Rightarrow> and_then (do_write_scratchpad h ag key v (Some (sc_ttl_hours (as_state (ag_spec ag)))) s) (\<lambda>_ s.
               (Inr (jl_text (ah_json h)
                  (JObject [(''action'', JString ''write_scratchpad_result''), (''key'', JString key),
                            (''account_id'', JString (ag_account ag)), (''status'', JString ''ok'')])), s))))"

definition scratch_round ::
  "agent_host \<Rightarrow> agent \<Rightarrow> run_ctx \<Rightarrow> nat \<Rightarrow> string \<Rightarrow> scratchpad_action \<Rightarrow> run_vars \<Rightarrow> harness \<Rightarrow> (stop + run_vars) \<times> harness" where
  "scratch_round h ag rc step answer action v s =
     and_then (handle_scratchpad_action h ag action s) (\<lambda>reply s.
       let v' = push_exchange answer reply v in
       and_then (checkpoint_after h ag (rc_run_id rc) step v' s) (\<lambda>_ s. (Inr v', s)))"

section \<open>A final answer\<close>

definition call_count_first :: string where
  "call_count_first = ''This user request asks for a mailbox email count. You must call the `count_emails` tool before the final JSON answer. For '' @ [CHR 0x27] @ ''emails from X'' @ [CHR 0x27] @ '', call `count_emails` with the `sender` filter set to X. Then answer with the returned total_count.''"

definition call_list_first :: string where
  "call_list_first = ''This user request asks about currently synced database rows. You must call the `list_synced_emails` tool before the final JSON answer, then answer from the returned emails and note any pending preparation limits.''"

definition do_not_promise :: "string list \<Rightarrow> string" where
  "do_not_promise names = ''Do not promise to run mailbox tools later. You already have the required tool result(s): ''
     @ join '', '' names @ ''. Return the final JSON answer now using those results, including the exact count or rows available.''"

definition invalid_output :: "output_config \<Rightarrow> err \<Rightarrow> string" where
  "invalid_output config e = ''Your output was invalid: '' @ err_top e @ ''. Return a JSON object with these required fields: ''
     @ join '', '' (oc_required_fields config) @ ''. No markdown, no prose.'' @ output_validation_repair_hint config"

text \<open>What the answer is met with: a reply for the next step, or its output accepted.\<close>

definition judge_answer :: "agent_host \<Rightarrow> agent \<Rightarrow> run_ctx \<Rightarrow> string \<Rightarrow> run_vars \<Rightarrow> string + json" where
  "judge_answer h ag rc answer v =
     (let config = as_output (ag_spec ag) in
      case validate_output (ah_json h) answer config of
        Inl e \<Rightarrow> Inl (invalid_output config e)
      | Inr output \<Rightarrow>
          (if rc_count rc \<and> ''count_emails'' \<notin> set (rv_used v) then Inl call_count_first
           else if rc_list rc \<and> ''list_synced_emails'' \<notin> set (rv_used v) then Inl call_list_first
           else if (rc_count rc \<or> rc_list rc) \<and> output_promises_deferred_tool_work output
           then Inl (do_not_promise (required_mailbox_tool_names (rc_count rc) (rc_list rc)))
           else Inr output))"

definition some_if_pos :: "nat \<Rightarrow> nat option" where
  "some_if_pos n = (if n > 0 then Some n else None)"

definition accept_output ::
  "agent_host \<Rightarrow> agent \<Rightarrow> run_ctx \<Rightarrow> json \<Rightarrow> run_vars \<Rightarrow> harness \<Rightarrow> (stop + run_result) \<times> harness" where
  "accept_output h ag rc output v s0 =
     (let s = emit (FinalOutput output) s0;
          (escalate, reason) = evaluate_escalation_with_threshold (as_escalation (ag_spec ag)) output (ag_calibrated ag)
      in and_then (do_finish_run h (rc_run_id rc) (rc_started rc) output escalate
                     (map_option (jl_f32 (ah_json h)) (get_f64 ''confidence'' output)) s) (\<lambda>_ s.
           (Inr \<lparr>rn_run_id = rc_run_id rc, rn_output = output, rn_should_escalate = escalate, rn_escalate_reason = reason,
                 rn_llm_calls = rv_llm_calls v, rn_tool_calls = rv_tool_calls v,
                 rn_input_tokens = some_if_pos (rv_input_tokens v), rn_output_tokens = some_if_pos (rv_output_tokens v)\<rparr>, s)))"

definition final_round ::
  "agent_host \<Rightarrow> agent \<Rightarrow> run_ctx \<Rightarrow> string \<Rightarrow> run_vars \<Rightarrow> harness \<Rightarrow> (stop + run_result + run_vars) \<times> harness" where
  "final_round h ag rc answer v s =
     (case judge_answer h ag rc answer v of
        Inl reply \<Rightarrow> (Inr (Inr (push_exchange answer reply v)), s)
      | Inr output \<Rightarrow> and_then (accept_output h ag rc output v s) (\<lambda>r s. (Inr (Inl r), s)))"

section \<open>The loop\<close>

definition request_of :: "agent_host \<Rightarrow> agent \<Rightarrow> run_vars \<Rightarrow> completion_request" where
  "request_of h ag v =
     \<lparr>cq_messages = rv_messages v,
      cq_tools = (if ah_supports_tools h then as_completion_tools (ag_tools ag) else []),
      cq_tool_choice = ToolAuto, cq_temperature = ex_temperature (as_execution (ag_spec ag)),
      cq_max_tokens = Some (ex_max_output_tokens (as_execution (ag_spec ag)))\<rparr>"

definition usage_of :: "(token_usage \<Rightarrow> nat option) \<Rightarrow> ai_response \<Rightarrow> nat option" where
  "usage_of f response = Option.bind (ai_usage response) f"

definition count_usage :: "ai_response \<Rightarrow> run_vars \<Rightarrow> run_vars" where
  "count_usage response v =
     v\<lparr>rv_llm_calls := rv_llm_calls v + 1,
       rv_input_tokens := rv_input_tokens v + or_default (usage_of tu_input_tokens response) 0,
       rv_output_tokens := rv_output_tokens v + or_default (usage_of tu_output_tokens response) 0\<rparr>"

definition run_step ::
  "agent_host \<Rightarrow> agent \<Rightarrow> run_ctx \<Rightarrow> nat \<Rightarrow> run_vars \<Rightarrow> harness \<Rightarrow> (stop + run_result + run_vars) \<times> harness" where
  "run_step h ag rc step v0 s0 =
     (let s = emit (StepStarted step) s0; budget = bu_max_llm_calls (as_budget (ag_spec ag)) in
      if as_u32 (int budget) \<le> int (rv_llm_calls v0)
      then (Inl (Failure [''budget exceeded: max_llm_calls ('' @ show_nat budget @ '') reached'']), s)
      else and_then (do_record_step h (rc_run_id rc) s) (\<lambda>_ s.
        and_then (with_context (''LLM call failed at step '' @ show_nat step)
                    (await_host h (\<lambda>n. ah_complete h n (request_of h ag v0)) s)) (\<lambda>response s.
          let v = count_usage response v0; answer = ai_content response; calls = tool_calls_of (ah_json h) response in
          and_then (do_record_llm_call h (rc_run_id rc) (usage_of tu_input_tokens response)
                      (usage_of tu_output_tokens response) s) (\<lambda>_ s.
            if calls \<noteq> [] then
              and_then (tool_round h ag rc step answer calls v s) (\<lambda>v s. (Inr (Inr v), s))
            else (case parse_scratchpad_action (ah_json h) answer of
                    Some action \<Rightarrow> and_then (scratch_round h ag rc step answer action v s) (\<lambda>v s. (Inr (Inr v), s))
                  | None \<Rightarrow> final_round h ag rc answer v s)))))"

fun run_steps ::
  "agent_host \<Rightarrow> agent \<Rightarrow> run_ctx \<Rightarrow> nat \<Rightarrow> nat \<Rightarrow> run_vars \<Rightarrow> harness \<Rightarrow> (stop + run_result) \<times> harness" where
  "run_steps h ag rc 0 step v s =
     (Inl (Failure [''max_iterations ('' @ show_nat (ex_max_iterations (as_execution (ag_spec ag)))
                    @ '') reached without a valid final answer'']), s)"
| "run_steps h ag rc (Suc n) step v s =
     and_then (run_step h ag rc step v s) (\<lambda>r s.
       case r of Inl result \<Rightarrow> (Inr result, s) | Inr v' \<Rightarrow> run_steps h ag rc n (step + 1) v' s)"

section \<open>The first messages\<close>

definition scratchpad_line :: "agent_host \<Rightarrow> string \<Rightarrow> json \<Rightarrow> string option" where
  "scratchpad_line h key v =
     (case v of JNull \<Rightarrow> None | JObject [] \<Rightarrow> None | _ \<Rightarrow> Some (key @ '': '' @ jl_text (ah_json h) v))"

fun scratchpad_lines :: "agent_host \<Rightarrow> agent \<Rightarrow> string list \<Rightarrow> harness \<Rightarrow> (stop + string list) \<times> harness" where
  "scratchpad_lines h ag [] s = (Inr [], s)"
| "scratchpad_lines h ag (key # keys) s =
     and_then (do_read_scratchpad h ag key s) (\<lambda>v s.
       and_then (scratchpad_lines h ag keys s) (\<lambda>rest s.
         (Inr ((case Option.bind v (scratchpad_line h key) of Some l \<Rightarrow> [l] | None \<Rightarrow> []) @ rest), s)))"

definition with_scratchpad :: "string \<Rightarrow> string list \<Rightarrow> string" where
  "with_scratchpad prompt lines =
     (if lines = [] then prompt
      else prompt @ [CHR 0x0A, CHR 0x0A] @ ''--- Scratchpad (your persistent memory for this account) ---'' @ [CHR 0x0A]
           @ join [CHR 0x0A] lines @ [CHR 0x0A] @ ''--- End Scratchpad ---'')"

definition build_initial_messages ::
  "agent_host \<Rightarrow> agent \<Rightarrow> json \<Rightarrow> harness \<Rightarrow> (stop + chat_message list) \<times> harness" where
  "build_initial_messages h ag input s =
     and_then (stmt h ''prune expired scratchpad''
         (\<lambda>s. on_tables (\<lambda>t. snd (prune_expired_scratchpad (db_now h s) (ag_account ag) (agent_name ag) t)) s) s) (\<lambda>_ s.
       and_then (scratchpad_lines h ag (sc_schema (as_state (ag_spec ag))) s) (\<lambda>lines s.
         (Inr [system_message (with_scratchpad (as_system_prompt (ag_spec ag)) lines),
               user_message (jl_pretty (ah_json h) input)], s)))"

section \<open>Tools called before the loop\<close>

definition prefetched_count :: "string \<Rightarrow> string" where
  "prefetched_count result = ''Required mailbox count result, already fetched with `count_emails`. Use this result for the final answer and do not invent a different count.'' @ [CHR 0x0A, CHR 0x0A] @ ''[count_emails]: '' @ result"

definition prefetched_list :: "string \<Rightarrow> string" where
  "prefetched_list result = ''Required synced email list, already fetched with `list_synced_emails`. Use only this current Postgres data for the final answer. Clearly say that the mailbox is still being prepared if rows have pending analysis, summaries, or filing data.'' @ [CHR 0x0A, CHR 0x0A] @ ''[list_synced_emails]: '' @ result"

definition prefetch ::
  "agent_host \<Rightarrow> agent \<Rightarrow> string \<Rightarrow> string \<Rightarrow> json \<Rightarrow> (string \<Rightarrow> string) \<Rightarrow> run_vars \<Rightarrow> harness \<Rightarrow> (stop + run_vars) \<times> harness" where
  "prefetch h ag run_id tool arguments told v s0 =
     (let s = emit (ToolCallEvent 0 tool arguments) s0 in
      and_then (with_context (''auto '' @ tool @ '' prerequisite'') (call_tool h ag tool arguments s)) (\<lambda>result s1.
        let latency = hs_ms s1 - hs_ms s in
        and_then (do_log_tool_call h run_id 0 tool arguments result latency s1) (\<lambda>_ s2.
          and_then (do_record_tool_calls h run_id 1 s2) (\<lambda>_ s3.
            (Inr (v\<lparr>rv_used := rv_used v @ [tool], rv_tool_calls := rv_tool_calls v + 1,
                    rv_messages := rv_messages v @ [user_message (told result)]\<rparr>),
             emit (ToolResultEvent 0 tool result latency) s3)))))"

section \<open>A run\<close>

definition err_text :: "err \<Rightarrow> string" where
  "err_text e = err_top e"

text \<open>The part from the messages to the loop; its errors are handed on as they are.\<close>

definition before_loop ::
  "agent_host \<Rightarrow> agent \<Rightarrow> run_ctx \<Rightarrow> json \<Rightarrow> harness \<Rightarrow> (stop + run_vars) \<times> harness" where
  "before_loop h ag rc input s =
     and_then (build_initial_messages h ag input s) (\<lambda>first s.
       and_then (stmt h ''load latest checkpoint''
                   (ask_tables (\<lambda>s. latest_checkpoint (rc_run_id rc) (hs_tables s))) s) (\<lambda>checkpoint s.
         let messages = (case checkpoint of Some c \<Rightarrow> ck_messages c | None \<Rightarrow> first);
             v = \<lparr>rv_messages = messages, rv_used = [], rv_llm_calls = 0, rv_tool_calls = 0, rv_input_tokens = 0,
                  rv_output_tokens = 0\<rparr> in
         and_then (if rc_count rc
                   then prefetch h ag (rc_run_id rc) ''count_emails'' (count_emails_tool_args_for_input input) prefetched_count v s
                   else (Inr v, s)) (\<lambda>v s.
           if rc_list rc
           then prefetch h ag (rc_run_id rc) ''list_synced_emails'' (synced_email_list_tool_args_for_input input) prefetched_list v s
           else (Inr v, s))))"

text \<open>An error of the loop or before it is reported and the run settled; the closing statement can fail, too.\<close>

definition settle_failure ::
  "agent_host \<Rightarrow> run_ctx \<Rightarrow> err \<Rightarrow> harness \<Rightarrow> (stop + 'a) \<times> harness" where
  "settle_failure h rc e s =
     and_then (do_fail_run h (rc_run_id rc) (rc_started rc) (err_text e) (emit (ErrorEvent (err_text e)) s))
       (\<lambda>_ s. (Inl (Failure e), s))"

definition run_timed ::
  "agent_host \<Rightarrow> agent \<Rightarrow> run_ctx \<Rightarrow> string \<Rightarrow> run_vars \<Rightarrow> harness \<Rightarrow> (stop + run_result) \<times> harness" where
  "run_timed h ag rc task_id v s =
     (let ex = as_execution (ag_spec ag);
          deadline = hs_ms s + 1000 * int (ex_timeout_secs ex) in
      case run_steps h ag rc (ex_max_iterations ex) 0 v (s\<lparr>hs_deadline := Some deadline\<rparr>) of
        (Inr r, s1) \<Rightarrow> (Inr r, s1\<lparr>hs_deadline := None\<rparr>)
      | (Inl Panicked, s1) \<Rightarrow> (Inl Panicked, s1\<lparr>hs_deadline := None\<rparr>)
      | (Inl (Failure e), s1) \<Rightarrow> settle_failure h rc e (s1\<lparr>hs_deadline := None\<rparr>)
      | (Inl Elapsed, s1) \<Rightarrow>
          (let message = ''agent '' @ agent_name ag @ '' timed out after '' @ show_nat (ex_timeout_secs ex) @ ''s on task '' @ task_id in
           and_then (do_timeout_run h (rc_run_id rc) (rc_started rc) (emit (ErrorEvent message) (s1\<lparr>hs_deadline := None\<rparr>)))
             (\<lambda>_ s. (Inl (Failure [message]), s))))"

definition calibrate :: "agent_host \<Rightarrow> agent \<Rightarrow> (stop + json option) \<times> harness \<Rightarrow> agent \<times> harness" where
  "calibrate h ag m =
     (ag\<lparr>ag_calibrated := (case fst m of Inl _ \<Rightarrow> None | Inr v \<Rightarrow> map_option (jl_f32 (ah_json h)) (threshold_in v))\<rparr>, snd m)"

definition run_ready ::
  "agent_host \<Rightarrow> agent \<Rightarrow> string \<Rightarrow> string \<Rightarrow> int \<Rightarrow> json \<Rightarrow> harness \<Rightarrow> (stop + run_result) \<times> harness" where
  "run_ready h ag0 task_id run_id started input s0 =
     (let (ag, s) = calibrate h ag0 (do_read_scratchpad h ag0 (calibration_key (agent_name ag0)) s0);
          rc = \<lparr>rc_run_id = run_id, rc_started = started,
                rc_count = should_require_count_emails_tool (agent_name ag) input,
                rc_list = should_require_synced_email_list_tool (agent_name ag) input\<rparr> in
      and_then (before_loop h ag rc input s) (\<lambda>v s. run_timed h ag rc task_id v s))"

definition answer_pending ::
  "agent_host \<Rightarrow> agent \<Rightarrow> string \<Rightarrow> int \<Rightarrow> db_pending \<Rightarrow> harness \<Rightarrow> (stop + run_result) \<times> harness" where
  "answer_pending h ag run_id started p s0 =
     (let output = db_prerequisites_pending_output (ag_account ag) (agent_name ag) (po_request_work (ag_poll ag))
                     (pending_retry_after_seconds (dp_snapshot p)) p in
      and_then (do_finish_run h run_id started output False (Some 1) (emit (FinalOutput output) s0)) (\<lambda>_ s.
        (Inr \<lparr>rn_run_id = run_id, rn_output = output, rn_should_escalate = False, rn_escalate_reason = None,
              rn_llm_calls = 0, rn_tool_calls = 0, rn_input_tokens = None, rn_output_tokens = None\<rparr>, s)))"

text \<open>\<open>None\<close>: the wait for the database does not end.\<close>

definition run_with_callback ::
  "agent_host \<Rightarrow> agent \<Rightarrow> string \<Rightarrow> json \<Rightarrow> harness \<Rightarrow> ((stop + run_result) \<times> harness) option" where
  "run_with_callback h ag task_id input0 s0 =
     (let started = hs_ms s0 in
      case do_begin_run h ag task_id s0 of
        (Inl e, s1) \<Rightarrow> Some (Inl e, s1)
      | (Inr run_id, s1) \<Rightarrow>
          (let s2 = emit (RunStarted run_id task_id (agent_name ag)) s1;
               rc = \<lparr>rc_run_id = run_id, rc_started = started, rc_count = False, rc_list = False\<rparr> in
           case attach_mailbox_preparation_context h ag run_id task_id input0 s2 of
             (Inl (Failure e), s3) \<Rightarrow> Some (settle_failure h rc e s3)
           | (Inl e, s3) \<Rightarrow> Some (Inl e, s3)
           | (Inr input, s3) \<Rightarrow>
               (case wait_for_db_completeness h ag run_id task_id s3 of
                  None \<Rightarrow> None
                | Some (Inr DbReady, s4) \<Rightarrow> Some (run_ready h ag task_id run_id started input s4)
                | Some (Inr (DbPending p), s4) \<Rightarrow> Some (answer_pending h ag run_id started p s4)
                | Some (Inl (Failure e), s4) \<Rightarrow> Some (settle_failure h rc e s4)
                | Some (Inl e, s4) \<Rightarrow> Some (Inl e, s4))))"

end
