(* ===== verification/AgentFacts.thy ===== *)
theory AgentFacts
  imports AgentLoop
begin

text \<open>
  What a run of an agent can change. The locale \<open>run_relation\<close> is the contract of a relation between
  the states before and after: it is a preorder that every statement of a run respects; then a whole run
  respects it. It is interpreted on \<open>own_rows\<close> (a run touches only rows of its own) and on
  \<open>status_kept\<close> for the part before the loop.
\<close>

section \<open>Operations and relations\<close>

lemma fst_and_then_Inr:
  "fst (and_then m f) = Inr y \<Longrightarrow> \<exists>v s. m = (Inr v, s) \<and> fst (f v s) = Inr y"
  by (auto simp: and_then_def split: prod.splits sum.splits)

lemma wait_one_same [simp]:
  "hs_tables (wait_one h s) = hs_tables s" "hs_core (wait_one h s) = hs_core s"
  "hs_events (wait_one h s) = hs_events s" "hs_deadline (wait_one h s) = hs_deadline s"
  by (simp_all add: wait_one_def)

lemma emit_same [simp]:
  "hs_tables (emit e s) = hs_tables s" "hs_core (emit e s) = hs_core s" "hs_ms (emit e s) = hs_ms s"
  "hs_tick (emit e s) = hs_tick s" "hs_deadline (emit e s) = hs_deadline s"
  by (simp_all add: emit_def)

lemma stmt_Inr:
  "stmt h what f s = (Inr v, s') \<Longrightarrow> f (wait_one h s) = (v, s')"
  by (auto simp: stmt_def Let_def split: if_splits option.splits prod.splits)

lemma stmt_state:
  "snd (stmt h what f s) = wait_one h s \<or> snd (stmt h what f s) = snd (f (wait_one h s))"
  by (auto simp: stmt_def Let_def split: option.splits prod.splits)

lemma await_host_state [simp]: "snd (await_host h f s) = wait_one h s"
  by (simp add: await_host_def Let_def split: sum.splits)

lemma with_context_state [simp]: "snd (with_context w m) = snd m"
  by (auto simp: with_context_def split: prod.splits sum.splits stop.splits)

lemma with_context_Inr [simp]: "with_context w m = (Inr v, s) \<longleftrightarrow> m = (Inr v, s)"
  by (auto simp: with_context_def split: prod.splits sum.splits stop.splits)

lemma ignore_failure_state [simp]: "snd (ignore_failure m) = snd m"
  by (auto simp: ignore_failure_def split: prod.splits sum.splits stop.splits)

lemma call_tool_state:
  "hs_tables (snd (call_tool h ag name args s)) = hs_tables s"
  "hs_core (snd (call_tool h ag name args s)) = hs_core s"
  by (simp_all add: call_tool_def split: sum.splits)

locale run_relation =
  fixes R :: "harness \<Rightarrow> harness \<Rightarrow> bool" and h :: agent_host and ag :: agent and run_id :: string
  assumes again: "R s s1 \<Longrightarrow> R s1 s2 \<Longrightarrow> R s s2"
    and quiet: "hs_tables s1 = hs_tables s \<Longrightarrow> hs_core s1 = hs_core s \<Longrightarrow> R s s1"
    and counts: "R s (s\<lparr>hs_tables := record_step run_id (hs_tables s)\<rparr>)"
      "R s (s\<lparr>hs_tables := record_llm_call run_id i out (hs_tables s)\<rparr>)"
      "R s (s\<lparr>hs_tables := record_tool_calls run_id n (hs_tables s)\<rparr>)"
    and logs: "R s (s\<lparr>hs_tables := log_tool_call now run_id step tool args result latency (hs_tables s)\<rparr>)"
    and checkpoints: "R s (s\<lparr>hs_tables := save_checkpoint now run_id step messages (hs_tables s)\<rparr>)"
    and prunes: "R s (s\<lparr>hs_tables := snd (prune_expired_scratchpad now (ag_account ag) (agent_name ag) (hs_tables s))\<rparr>)"
begin

lemma same: "R s s"
  by (rule quiet) simp_all

lemma then_R:
  assumes "R s (snd m)" and "\<And>v s1. m = (Inr v, s1) \<Longrightarrow> R s1 (snd (f v s1))"
  shows "R s (snd (and_then m f))"
  using assms by (cases m; cases "fst m") (auto simp: and_then_def intro: again)

lemma stmt_R:
  assumes "\<And>s1. R s1 (snd (f s1))"
  shows "R s (snd (stmt h what f s))"
proof -
  have "R s (wait_one h s)" by (rule quiet) simp_all
  then show ?thesis
    using stmt_state [of h what f s] assms [of "wait_one h s"] again by metis
qed

lemma on_tables_R:
  assumes "\<And>s1. R s1 (s1\<lparr>hs_tables := g s1 (hs_tables s1)\<rparr>)"
  shows "R s (snd (stmt h what (\<lambda>s. on_tables (g s) s) s))"
  by (rule stmt_R) (simp add: on_tables_def assms)

lemma ask_R: "R s (snd (stmt h what (ask_tables f) s))"
  by (rule stmt_R) (simp add: ask_tables_def same)

lemma statements_R:
  "R s (snd (do_log_tool_call h run_id step tool args result latency s))"
  "R s (snd (do_record_step h run_id s))"
  "R s (snd (do_record_llm_call h run_id i out s))"
  "R s (snd (do_record_tool_calls h run_id n s))"
  "R s (snd (do_save_checkpoint h run_id step messages s))"
  "R s (snd (do_read_scratchpad h ag key s))"
  by (simp_all add: do_log_tool_call_def do_record_step_def do_record_llm_call_def do_record_tool_calls_def
        do_save_checkpoint_def do_read_scratchpad_def on_tables_R ask_R counts logs checkpoints)

lemma call_tool_R: "R s (snd (call_tool h ag name args s))"
  by (rule quiet) (simp_all add: call_tool_state)

lemma emit_R: "R s s1 \<Longrightarrow> R s (emit e s1)" "R (emit e s) s1 \<Longrightarrow> R s s1"
  by (erule again, rule quiet; simp) (rule again [OF quiet]; simp)

lemma logged_call_R: "R s (snd (logged_call h ag run_id step name args s))"
  unfolding logged_call_def Let_def
  by (rule emit_R(2), rule then_R [OF call_tool_R], rule then_R [OF statements_R(1)]) (simp add: emit_R same)

lemma run_calls_R: "R s (snd (run_calls h ag run_id step calls s))"
proof (induction calls arbitrary: s)
  case Nil
  then show ?case by (simp add: same)
next
  case (Cons c cs)
  then show ?case by (auto intro!: then_R logged_call_R simp: same)
qed

lemma checkpoint_after_R: "R s (snd (checkpoint_after h ag run_id step v s))"
  by (simp add: checkpoint_after_def Let_def same statements_R)

lemma scratchpad_lines_R: "R s (snd (scratchpad_lines h ag keys s))"
proof (induction keys arbitrary: s)
  case Nil
  then show ?case by (simp add: same)
next
  case (Cons k ks)
  then show ?case by (auto intro!: then_R statements_R simp: same)
qed

lemma tool_round_R:
  assumes "rc_run_id rc = run_id"
  shows "R s (snd (tool_round h ag rc step answer calls v s))"
  by (auto simp: tool_round_def Let_def same assms intro!: then_R run_calls_R statements_R checkpoint_after_R)

lemma prefetch_R: "R s (snd (prefetch h ag run_id tool args told v s))"
  unfolding prefetch_def Let_def
  by (rule emit_R(2)) (auto intro!: then_R statements_R call_tool_R emit_R(1) simp: same)

lemma build_initial_messages_R: "R s (snd (build_initial_messages h ag input s))"
  unfolding build_initial_messages_def
  by (auto intro!: then_R on_tables_R prunes scratchpad_lines_R simp: same)

lemma before_loop_R:
  assumes "rc_run_id rc = run_id"
  shows "R s (snd (before_loop h ag rc input s))"
  unfolding before_loop_def Let_def assms
  by (auto intro!: then_R build_initial_messages_R ask_R prefetch_R simp: same split: if_splits)

end

section \<open>Writing and closing\<close>

text \<open>A relation that the writes of the agent's own keys and the closing statements respect, too.\<close>

locale full_run_relation = run_relation +
  assumes writes: "key \<in> set (sc_schema (as_state (ag_spec ag)))
      \<Longrightarrow> R s (s\<lparr>hs_tables := write_scratchpad now (ag_account ag) (agent_name ag) key v expires_at (hs_tables s)\<rparr>)"
    and closes: "R s (s\<lparr>hs_tables := finish_agent_run now run_id ms output escalated confidence (hs_tables s)\<rparr>)"
      "R s (s\<lparr>hs_tables := fail_agent_run now run_id ms error (hs_tables s)\<rparr>)"
      "R s (s\<lparr>hs_tables := timeout_run now run_id ms (hs_tables s)\<rparr>)"
begin

lemma closing_R:
  "R s (snd (do_finish_run h run_id started output escalated confidence s))"
  "R s (snd (do_fail_run h run_id started error s))"
  "R s (snd (do_timeout_run h run_id started s))"
  by (simp_all add: do_finish_run_def do_fail_run_def do_timeout_run_def on_tables_R closes)

lemma do_write_scratchpad_R:
  "key \<in> set (sc_schema (as_state (ag_spec ag))) \<Longrightarrow> R s (snd (do_write_scratchpad h ag key v ttl s))"
  by (auto simp: do_write_scratchpad_def same on_tables_R writes split: option.splits)

lemma scratch_round_R:
  assumes "rc_run_id rc = run_id"
  shows "R s (snd (scratch_round h ag rc step answer action v s))"
proof -
  have "R s (snd (handle_scratchpad_action h ag action s))"
    by (auto simp: handle_scratchpad_action_def ensure_allowed_scratchpad_key_def same
             intro!: then_R statements_R do_write_scratchpad_R split: scratchpad_action.splits sum.splits if_splits)
  then show ?thesis
    by (auto simp: scratch_round_def Let_def assms same intro!: then_R checkpoint_after_R)
qed

lemma accept_output_R:
  assumes "rc_run_id rc = run_id"
  shows "R s (snd (accept_output h ag rc output v s))"
  by (auto intro!: then_R emit_R(2) [OF closing_R(1)] simp: accept_output_def Let_def assms same split: prod.splits)

lemma run_step_R:
  assumes "rc_run_id rc = run_id"
  shows "R s (snd (run_step h ag rc step v s))"
proof -
  have *: "R s (snd (with_context w (await_host h f s)))" for w f s
    by (rule quiet) simp_all
  show ?thesis
    unfolding run_step_def Let_def
    by (rule emit_R(2))
       (auto intro!: then_R statements_R tool_round_R scratch_round_R accept_output_R *
             simp: assms same final_round_def split: option.splits sum.splits)
qed

lemma run_steps_R:
  assumes "rc_run_id rc = run_id"
  shows "R s (snd (run_steps h ag rc n step v s))"
proof (induction n arbitrary: step v s)
  case 0
  then show ?case by (simp add: same)
next
  case (Suc n)
  then show ?case by (auto intro!: then_R run_step_R assms simp: same split: sum.splits)
qed

lemma settle_failure_R:
  assumes "rc_run_id rc = run_id"
  shows "R s (snd (settle_failure h rc e s))"
  unfolding settle_failure_def assms
  by (rule then_R [OF emit_R(2) [OF closing_R(2)]]) (simp add: same)

lemma run_timed_R:
  assumes "rc_run_id rc = run_id"
  shows "R s (snd (run_timed h ag rc task_id v s))"
proof -
  let ?ex = "as_execution (ag_spec ag)"
  let ?d = "hs_ms s + 1000 * int (ex_timeout_secs ?ex)"
  obtain r s1 where r: "run_steps h ag rc (ex_max_iterations ?ex) 0 v (s\<lparr>hs_deadline := Some ?d\<rparr>) = (r, s1)"
    by fastforce
  have "R (s\<lparr>hs_deadline := Some ?d\<rparr>) s1"
    using run_steps_R [OF assms, of "s\<lparr>hs_deadline := Some ?d\<rparr>" "ex_max_iterations ?ex" 0 v] r by simp
  then have "R s s1" by (rule again [OF quiet, rotated 2]) simp_all
  then have 1: "R s (s1\<lparr>hs_deadline := None\<rparr>)" by (rule again) (rule quiet; simp)
  show ?thesis
  proof (cases r)
    case (Inr a)
    then show ?thesis using r 1 by (simp add: run_timed_def Let_def)
  next
    case (Inl e)
    have close: "R s (snd (do_timeout_run h run_id t (emit m (s1\<lparr>hs_deadline := None\<rparr>))))" for t m
      by (rule again [OF 1], rule emit_R(2), rule closing_R)
    show ?thesis
      using r 1 Inl again [OF 1 settle_failure_R [OF assms]]
      by (cases e) (auto simp: run_timed_def Let_def assms intro!: then_R close same)
  qed
qed

lemma run_ready_loop_R:
  assumes "rc_run_id rc = run_id"
  shows "R s (snd (and_then (before_loop h ag rc input s) (\<lambda>v s. run_timed h ag rc task_id v s)))"
  by (intro then_R before_loop_R run_timed_R assms)

end

section \<open>A run keeps to rows of its own\<close>

text \<open>
  From \<open>t\<close> to \<open>t'\<close> only the run \<open>rid\<close>, its checkpoints and its log changed, no run went, and of the
  scratchpads only keys of \<open>K\<close> of one agent; other keys of the agent can expire.
\<close>

definition run_key :: "agent_run_row \<Rightarrow> string \<times> string \<times> string \<times> string" where
  "run_key r = (rr_run_id r, rr_account r, rr_agent r, rr_task r)"

definition own_rows :: "string \<Rightarrow> string \<Rightarrow> string set \<Rightarrow> string \<Rightarrow> agent_tables \<Rightarrow> agent_tables \<Rightarrow> bool" where
  "own_rows a n K rid t t' \<longleftrightarrow>
     filter (\<lambda>r. rr_run_id r \<noteq> rid) (at_runs t') = filter (\<lambda>r. rr_run_id r \<noteq> rid) (at_runs t)
     \<and> run_key ` set (at_runs t) \<subseteq> run_key ` set (at_runs t')
     \<and> filter (\<lambda>c. ck_run_id c \<noteq> rid) (at_checkpoints t') = filter (\<lambda>c. ck_run_id c \<noteq> rid) (at_checkpoints t)
     \<and> (\<exists>rows. at_tool_log t' = at_tool_log t @ rows \<and> (\<forall>l \<in> set rows. tl_run_id l = rid))
     \<and> filter (\<lambda>r. \<not> (sp_account r = a \<and> sp_agent r = n)) (at_scratch t')
         = filter (\<lambda>r. \<not> (sp_account r = a \<and> sp_agent r = n)) (at_scratch t)
     \<and> {r \<in> set (at_scratch t'). sp_key r \<notin> K} \<subseteq> set (at_scratch t)"

lemma own_rows_refl [simp]: "own_rows a n K rid t t"
  by (auto simp: own_rows_def)

lemma own_rows_trans: "own_rows a n K rid t t1 \<Longrightarrow> own_rows a n K rid t1 t2 \<Longrightarrow> own_rows a n K rid t t2"
  by (auto simp: own_rows_def)

lemma own_update_run:
  assumes "\<And>r. run_key (f r) = run_key r"
  shows "own_rows a n K rid t (update_run rid f t)"
proof -
  have "rr_run_id (f r) = rr_run_id r" for r using assms [of r] by (simp add: run_key_def)
  moreover have "run_key ` set (sql_update p f rs) = run_key ` set rs" for p rs
    using map_sql_update [of p run_key f rs] assms by (metis set_map)
  ultimately show ?thesis by (simp add: own_rows_def update_run_def filter_sql_update_off)
qed

lemma own_record:
  "own_rows a n K rid t (record_step rid t)" "own_rows a n K rid t (record_llm_call rid i out t)"
  "own_rows a n K rid t (record_tool_calls rid k t)" "own_rows a n K rid t (finish_agent_run now rid ms result esc conf t)"
  "own_rows a n K rid t (fail_agent_run now rid ms error t)" "own_rows a n K rid t (timeout_run now rid ms t)"
  by (simp_all add: record_step_def record_llm_call_def record_tool_calls_def finish_agent_run_def fail_agent_run_def
        timeout_run_def own_update_run run_key_def)

lemma own_log: "own_rows a n K rid t (log_tool_call now rid step tool args result latency t)"
  by (simp add: own_rows_def log_tool_call_def)

lemma own_checkpoint: "own_rows a n K rid t (save_checkpoint now rid step messages t)"
  by (auto simp: own_rows_def save_checkpoint_def Let_def intro: filter_sql_update_off)

lemma own_prune: "own_rows a n K rid t (snd (prune_expired_scratchpad now a n t))"
  by (auto simp: own_rows_def prune_expired_scratchpad_def scratch_expired_def intro!: filter_cong)

lemma own_write: "key \<in> K \<Longrightarrow> own_rows a n K rid t (write_scratchpad now a n key v e t)"
  by (auto simp: own_rows_def write_scratchpad_def scratch_at_def sql_update_def
           intro: filter_sql_update_off [unfolded sql_update_def])

lemma own_insert: "own_rows a n K rid t (insert_run now rid account agent version task t)"
  by (auto simp: own_rows_def insert_run_def new_run_def)

abbreviation own_states :: "agent \<Rightarrow> string \<Rightarrow> harness \<Rightarrow> harness \<Rightarrow> bool" where
  "own_states ag rid s s' \<equiv>
     own_rows (ag_account ag) (agent_name ag) (set (sc_schema (as_state (ag_spec ag)))) rid (hs_tables s) (hs_tables s')"

interpretation own: full_run_relation "own_states ag rid" h ag rid for ag rid h
  by unfold_locales (auto intro: own_rows_trans own_log own_checkpoint own_prune own_write own_record)

end
