(* ===== verification/AgentGateFacts.thy ===== *)
theory AgentGateFacts
  imports AgentFacts
begin

text \<open>
  The wait for a complete database: what it changes, that it ends, and a run as a whole.
\<close>

section \<open>The gate\<close>

lemma request_work_types_tables [simp]:
  "hs_tables (request_work_types h ag payload ws s) = hs_tables s"
proof (induction ws arbitrary: s)
  case (Cons w ws)
  show ?case
    by (simp add: Cons.IH) (simp add: stmt_def Let_def split: option.splits)
qed simp

lemma request_tables [simp]:
  "hs_tables (snd (request_db_prerequisite_work h ag rid task_id sn missing s)) = hs_tables s"
  by (simp add: request_db_prerequisite_work_def)

lemma sleep_ms_tables [simp]: "hs_tables (sleep_ms h d s) = hs_tables s"
  by (simp add: sleep_ms_def Let_def)

lemma load_snapshot_tables [simp]: "hs_tables (snd (load_snapshot h ag what s)) = hs_tables s"
  using stmt_state [of h what _ s] by (auto simp: load_snapshot_def stmt_def Let_def split: option.splits)

lemma gate_log_own: "own_states ag rid s (log_db_completeness_event h ag rid event sn requested polls elapsed s)"
  unfolding log_db_completeness_event_def by (rule own.statements_R)

lemma gate_log_request:
  assumes "request_db_prerequisite_work h ag rid task_id sn missing s = (requested, s1)"
  shows "own_states ag rid s (log_db_completeness_event h ag rid event sn w polls elapsed s1)"
  using gate_log_own [of ag rid s1 h event sn w polls elapsed] request_tables [of h ag rid task_id sn missing s] assms
  by simp

lemma attach_own: "own_states ag rid s (snd (attach_mailbox_preparation_context h ag rid task_id input s))"
proof (cases "should_use_partial_db (agent_name ag) task_id")
  case True
  have "own_states ag rid s1
      (snd (case request_db_prerequisite_work h ag rid task_id sn (classify_db_prerequisite_work sn) s1 of
        (requested, s2) \<Rightarrow>
          let s3 = log_db_completeness_event h ag rid ''db_completeness_partial_context'' sn requested 1 0 s2
          in case input of
               JObject kvs \<Rightarrow>
                 (Inr (JObject (AList.update ''mailbox_preparation'' (mailbox_preparation sn requested) kvs)), s3)
             | _ \<Rightarrow> (Inl (Failure [''mail assistant chat input must be an object'']), s3)))" for sn s1
    by (auto simp: Let_def split: prod.split json.split elim!: gate_log_request)
  then show ?thesis
    unfolding attach_mailbox_preparation_context_def
    using True by (auto intro!: own.then_R simp: Let_def)
qed (simp add: attach_mailbox_preparation_context_def)

lemma wait_round_own: "own_states ag rid s (snd (wait_round h ag rid task_id started v s))"
  unfolding wait_round_def Let_def
proof (rule own.then_R, goal_cases)
  case 1
  then show ?case by simp
next
  case (2 sn s1)
  show ?case
    by (auto simp: gate_log_own split: prod.split elim!: gate_log_request)
qed

text \<open>Induction over the rounds of a wait.\<close>

lemma wait_loop_rounds:
  assumes run: "wait_loop h ag rid task_id started v s = Some y"
    and err: "\<And>v s e s'. wait_round h ag rid task_id started v s = (Inl e, s') \<Longrightarrow> Q s (Inl e, s')"
    and out: "\<And>v s w s'. wait_round h ag rid task_id started v s = (Inr (Inl w), s') \<Longrightarrow> Q s (Inr w, s')"
    and step: "\<And>v s v' s' y. wait_round h ag rid task_id started v s = (Inr (Inr v'), s') \<Longrightarrow> Q s' y \<Longrightarrow> Q s y"
  shows "Q s y"
proof -
  let ?P = "\<lambda>h' ag' rid' task' started' v s y. h' = h \<and> ag' = ag \<and> rid' = rid \<and> task' = task_id \<and> started' = started \<longrightarrow> Q s y"
  have "?P h ag rid task_id started v s y"
  proof (rule wait_loop.raw_induct [OF _ run, where P = ?P], intro impI, elim conjE, goal_cases)
    case (1 loop h' ag' rid' task' started' v s y)
    show ?case
    proof (cases "wait_round h ag rid task_id started v s")
      case (Pair r s1)
      show ?thesis
      proof (cases r)
        case (Inl e)
        then show ?thesis using 1 Pair err by auto
      next
        case (Inr q)
        show ?thesis
        proof (cases q)
          case (Inl w)
          then show ?thesis using 1 Pair Inr out by auto
        next
          case (Inr v')
          have "loop h ag rid task_id started v' s1 = Some y" using 1 Pair Inr \<open>r = Inr q\<close> by auto
          then have "Q s1 y" using 1(1) by blast
          then show ?thesis using Pair Inr \<open>r = Inr q\<close> step by blast
        qed
      qed
    qed
  qed
  then show ?thesis by simp
qed

lemma wait_loop_own:
  assumes "wait_loop h ag rid task_id started v s = Some y"
  shows "own_states ag rid s (snd y)"
  using wait_round_own [of ag rid _ h task_id started] own.again
  by (rule_tac wait_loop_rounds [OF assms]) (metis snd_conv)+

lemma wait_own:
  assumes "wait_for_db_completeness h ag rid task_id s = Some y"
  shows "own_states ag rid s (snd y)"
  using assms by (auto simp: wait_for_db_completeness_def wait_loop_own split: if_splits)

text \<open>A task of a chat never gets to the loop, so no wait ends as pending.\<close>

lemma wait_round_not_pending:
  assumes "\<not> should_complete_db_pending_for_task task_id"
  shows "wait_round h ag rid task_id started v s \<noteq> (Inr (Inl (DbPending p)), s')"
  using assms
  by (auto simp: wait_round_def and_then_def Let_def split: prod.splits sum.splits if_splits)

lemma wait_not_pending:
  assumes "wait_for_db_completeness h ag rid task_id s = Some y"
  shows "fst y \<noteq> Inr (DbPending p)"
proof (cases "should_complete_db_pending_for_task task_id")
  case True
  then have "\<not> (should_gate_db_completeness (agent_name ag) \<and> \<not> should_use_partial_db (agent_name ag) task_id)"
    by (auto simp: should_use_partial_db_def should_gate_db_completeness_def eq_ignore_ascii_case_def
          to_lower_def to_lower_char_def)
  then show ?thesis
    using assms by (auto simp: wait_for_db_completeness_def split: if_splits)
next
  case False
  have "fst y \<noteq> Inr (DbPending p)" if "wait_loop h ag rid task_id started v s = Some y" for started v
    by (rule wait_loop_rounds [OF that]) (use wait_round_not_pending [OF False] in auto)
  then show ?thesis
    using assms by (auto simp: wait_for_db_completeness_def split: if_splits)
qed

section \<open>The wait ends\<close>

lemma stmt_time: "hs_ms (snd (stmt h what f s)) = hs_ms (wait_one h s) \<or> hs_ms (snd (stmt h what f s)) = hs_ms (snd (f (wait_one h s)))"
  using stmt_state [of h what f s] by auto

lemma wait_one_time: "hs_ms s \<le> hs_ms (wait_one h s)"
  by (simp add: wait_one_def)

lemma log_time: "hs_ms s \<le> hs_ms (log_db_completeness_event h ag rid event sn w polls elapsed s)"
  using wait_one_time [of s h] stmt_time [of h _ _ s]
  by (auto simp: log_db_completeness_event_def do_log_tool_call_def on_tables_def stmt_def Let_def split: option.splits)

lemma request_time: "hs_ms s \<le> hs_ms (snd (request_db_prerequisite_work h ag rid task_id sn missing s))"
proof -
  have "hs_ms s \<le> hs_ms (request_work_types h ag payload ws s)" for payload ws
  proof (induction ws arbitrary: s)
    case (Cons w ws)
    show ?case
      using wait_one_time [of s h]
      by simp (rule order_trans [OF _ Cons.IH], auto simp: stmt_def Let_def split: option.splits)
  qed simp
  then show ?thesis by (simp add: request_db_prerequisite_work_def)
qed

lemma load_snapshot_time: "hs_ms s \<le> hs_ms (snd (load_snapshot h ag what s))"
  using wait_one_time [of s h] by (auto simp: load_snapshot_def stmt_def Let_def split: option.splits)

lemma wait_round_next:
  assumes "wait_round h ag rid task_id started v s = (Inr (Inr v'), s')"
  shows "wv_delay v' = min (2 * wv_delay v) (po_max_backoff_ms (ag_poll ag))"
    and "hs_ms s + wv_delay v \<le> hs_ms s'"
    and "hs_ms s - started < 1000 * max_wait_for_task (ag_poll ag) task_id"
proof -
  obtain sn s1 where l: "load_snapshot h ag ''load db completeness snapshot'' s = (Inr sn, s1)"
    using assms by (auto simp: wait_round_def and_then_def split: prod.splits sum.splits)
  define missing where "missing = filter (\<lambda>w. w \<notin> set (wv_requested v)) (classify_db_prerequisite_work sn)"
  obtain newly s2 where r: "request_db_prerequisite_work h ag rid task_id sn missing s1 = (newly, s2)"
    by fastforce
  have t: "hs_ms s \<le> hs_ms s1" "hs_ms s1 \<le> hs_ms s2"
    using load_snapshot_time [of s h ag] request_time [of s1 h ag rid task_id sn missing] l r by (metis snd_conv)+
  note * = assms [unfolded wait_round_def l and_then_simps Let_def missing_def [symmetric] r prod.case]
  show "wv_delay v' = min (2 * wv_delay v) (po_max_backoff_ms (ag_poll ag))"
    using * by (auto split: if_splits)
  show "hs_ms s - started < 1000 * max_wait_for_task (ag_poll ag) task_id"
    using * t by (auto split: if_splits)
  have "\<exists>w polls elapsed. s' = sleep_ms h (wv_delay v) (log_db_completeness_event h ag rid ''db_completeness_wait'' sn w polls elapsed s2)"
    using * by (auto split: if_splits)
  then obtain w polls elapsed where
    s': "s' = sleep_ms h (wv_delay v) (log_db_completeness_event h ag rid ''db_completeness_wait'' sn w polls elapsed s2)"
    by blast
  show "hs_ms s + wv_delay v \<le> hs_ms s'"
    using t log_time [of s2 h ag rid "''db_completeness_wait''" sn w polls elapsed]
      wait_one_time [of "log_db_completeness_event h ag rid ''db_completeness_wait'' sn w polls elapsed s2" h]
    unfolding s' sleep_ms_def Let_def by simp
qed

lemma wait_loop_returns:
  assumes "0 < wv_delay v" "0 < po_max_backoff_ms (ag_poll ag)"
  shows "\<exists>y. wait_loop h ag rid task_id started v s = Some y"
  using assms(1)
proof (induction "nat (1000 * max_wait_for_task (ag_poll ag) task_id - (hs_ms s - started))" arbitrary: v s rule: less_induct)
  case less
  show ?case
  proof (cases "wait_round h ag rid task_id started v s")
    case (Pair r s')
    show ?thesis
    proof (cases "\<exists>v'. r = Inr (Inr v')")
      case True
      then obtain v' where v': "r = Inr (Inr v')" by blast
      note n = wait_round_next [OF Pair [unfolded v']]
      have "\<exists>y. wait_loop h ag rid task_id started v' s' = Some y"
        by (rule less.hyps) (use n less.prems assms(2) in auto)
      then show ?thesis by (subst wait_loop.simps) (simp add: Pair v')
    next
      case False
      then show ?thesis
        by (subst wait_loop.simps) (auto simp: Pair split: sum.splits)
    qed
  qed
qed

lemma poll_config_positive:
  "0 < po_initial_backoff_ms (poll_config_from_env e)" "0 < po_max_backoff_ms (poll_config_from_env e)"
  by (simp_all add: poll_config_from_env_def Let_def less_max_iff_disj)

lemma wait_returns:
  assumes "ag_poll ag = poll_config_from_env e"
  shows "\<exists>y. wait_for_db_completeness h ag rid task_id s = Some y"
proof -
  let ?v = "\<lparr>wv_delay = po_initial_backoff_ms (ag_poll ag), wv_prev = None, wv_stable = 0, wv_requested = []\<rparr>"
  have "\<exists>y. wait_loop h ag rid task_id (hs_ms s) ?v s = Some y"
    by (rule wait_loop_returns) (simp_all add: assms poll_config_positive)
  then show ?thesis by (auto simp: wait_for_db_completeness_def)
qed

end
