(* ===== verification/AgentOutcome.thy ===== *)
theory AgentOutcome
  imports AgentGateFacts
begin

text \<open>
  What a run of an agent ends with: it keeps to its rows, its result comes from an accepted answer with
  the required tools in its log, and the part before the loop leaves the run as \<open>begin_run\<close> looks for it.
\<close>

section \<open>A run as a whole\<close>

lemma begin_run_own: "own_states ag (case fst (do_begin_run h ag task_id s) of Inr rid \<Rightarrow> rid | Inl _ \<Rightarrow> ah_run_id h) s
    (snd (do_begin_run h ag task_id s))"
proof -
  have q: "hs_tables (snd (stmt h w (ask_tables f) s)) = hs_tables s" for w f s
    using stmt_state [of h w "ask_tables f" s] by (auto simp: ask_tables_def)
  have i: "own_states ag (ah_run_id h) s (snd (stmt h w (\<lambda>s. on_tables (insert_run (now s) (ah_run_id h) a n v t) s) s))" for w now a n v t s
    using stmt_state [of h w "\<lambda>s. on_tables (insert_run (now s) (ah_run_id h) a n v t) s" s]
    by (auto simp: on_tables_def own_insert)
  obtain r s1 where r: "stmt h ''query existing running agent run''
      (ask_tables (\<lambda>s. find_running (ag_account ag) (agent_name ag) task_id (hs_tables s))) s = (r, s1)"
    by fastforce
  have t: "hs_tables s1 = hs_tables s" using q r by (metis snd_conv)
  show ?thesis
    using i [of s1 "''insert agent run''" "db_now h" "ag_account ag" "agent_name ag" "as_version (ag_spec ag)" task_id] t
    by (auto simp: do_begin_run_def r and_then_def split: sum.splits option.splits prod.splits)
qed

lemma calibrate_same [simp]:
  "agent_name (fst (calibrate h ag m)) = agent_name ag" "ag_account (fst (calibrate h ag m)) = ag_account ag"
  "ag_spec (fst (calibrate h ag m)) = ag_spec ag" "snd (calibrate h ag m) = snd m"
  by (simp_all add: calibrate_def agent_name_def)

lemma run_ready_own: "own_states ag rid s (snd (run_ready h ag task_id rid started input s))"
proof -
  let ?m = "do_read_scratchpad h ag (calibration_key (agent_name ag)) s"
  let ?ag = "fst (calibrate h ag ?m)"
  have 1: "own_states ag rid s (snd ?m)" by (rule own.statements_R)
  have 2: "own_states ?ag rid (snd ?m) (snd (and_then (before_loop h ?ag rc input (snd ?m)) (\<lambda>v s. run_timed h ?ag rc task_id v s)))"
    if "rc_run_id rc = rid" for rc
    by (rule own.run_ready_loop_R [OF that])
  show ?thesis
    unfolding run_ready_def
    by (simp add: Let_def split_beta) (rule own.again [OF 1], insert 2, simp)
qed

lemma settle_own: "rc_run_id rc = rid \<Longrightarrow> own_states ag rid s (snd (settle_failure h rc e s))"
  by (rule own.settle_failure_R)

lemma run_own:
  assumes "run_with_callback h ag task_id input s = Some (r, s')"
  shows "own_states ag (case fst (do_begin_run h ag task_id s) of Inr rid \<Rightarrow> rid | Inl _ \<Rightarrow> ah_run_id h) s s'"
proof (cases "do_begin_run h ag task_id s")
  case (Pair b s1)
  note begun = begin_run_own [of ag h task_id s, unfolded Pair fst_conv snd_conv]
  show ?thesis
  proof (cases b)
    case (Inl e)
    then show ?thesis using assms Pair begun by (simp add: run_with_callback_def)
  next
    case (Inr rid)
    define s2 where "s2 = emit (RunStarted rid task_id (agent_name ag)) s1"
    have 2: "own_states ag rid s s2" using begun Inr by (simp add: s2_def)
    obtain a s3 where a: "attach_mailbox_preparation_context h ag rid task_id input s2 = (a, s3)" by fastforce
    have 3: "own_states ag rid s s3"
      using own.again [OF 2 attach_own] a by (metis snd_conv)
    note run = assms [unfolded run_with_callback_def Pair Inr Let_def, simplified, folded s2_def, unfolded a, simplified]
    have settled: "own_states ag rid s s'" if "settle_failure h rc e sx = (r, s')" "own_states ag rid s sx" "rc_run_id rc = rid" for rc e sx
      using own.again [OF that(2) settle_own [OF that(3)]] that(1) by (metis snd_conv)
    have "own_states ag rid s s'"
    proof (cases a)
      case (Inl e)
      then show ?thesis using run 3 settled by (cases e) auto
    next
      case (Inr input')
      then obtain y where y: "wait_for_db_completeness h ag rid task_id s3 = Some y" using run by (auto split: option.splits)
      obtain w s4 where w: "y = (w, s4)" by fastforce
      have 4: "own_states ag rid s s4" using own.again [OF 3 wait_own [OF y]] w by simp
      show ?thesis
      proof (cases w)
        case (Inl e)
        then show ?thesis using run y w 4 settled \<open>a = Inr input'\<close> by (cases e) auto
      next
        case (Inr d)
        then have "d = DbReady" using wait_not_pending [OF y] w by (cases d) auto
        then show ?thesis
          using run y w Inr \<open>a = Inr input'\<close> own.again [OF 4 run_ready_own [of ag rid s4 h task_id "hs_ms s" input']] by simp
      qed
    qed
    then show ?thesis by (simp add: Pair \<open>b = Inr rid\<close>)
  qed
qed

section \<open>What a result rests on\<close>

definition logged :: "string \<Rightarrow> string set \<Rightarrow> harness \<Rightarrow> bool" where
  "logged rid tools s \<longleftrightarrow> (\<forall>t \<in> tools. \<exists>l \<in> set (at_tool_log (hs_tables s)). tl_run_id l = rid \<and> tl_tool l = t)"

lemma logged_empty [simp]: "logged rid {} s"
  by (simp add: logged_def)

lemma logged_Un [simp]: "logged rid (A \<union> B) s \<longleftrightarrow> logged rid A s \<and> logged rid B s"
  by (auto simp: logged_def)

lemma logged_mono: "own_rows a n K rid (hs_tables s) (hs_tables s') \<Longrightarrow> logged rid' A s \<Longrightarrow> logged rid' A s'"
  by (auto simp: own_rows_def logged_def) blast

lemma logged_own: "own_states ag rid s (snd m) \<Longrightarrow> m = (r, s') \<Longrightarrow> logged rid A s \<Longrightarrow> logged rid A s'"
  by (auto intro: logged_mono)

lemma and_then_InrE:
  assumes "and_then m f = (Inr y, s')"
  obtains v s1 where "m = (Inr v, s1)" "f v s1 = (Inr y, s')"
  using assms by (auto simp: and_then_Inr)

lemma log_logged: "do_log_tool_call h rid step name args result latency s = (Inr u, s') \<Longrightarrow> logged rid {name} s'"
  by (auto simp: do_log_tool_call_def on_tables_def log_tool_call_def logged_def dest!: stmt_Inr)

lemma logged_call_logged:
  assumes "logged_call h ag rid step name args s = (Inr r, s')"
  shows "logged rid {name} s'"
proof -
  obtain s1 s2 lat where "do_log_tool_call h rid step name args r lat s1 = (Inr (), s2)" "hs_tables s' = hs_tables s2"
    using assms by (auto simp: logged_call_def Let_def elim!: and_then_InrE)
  then show ?thesis using log_logged by (auto simp: logged_def)
qed

lemma run_calls_logged:
  "run_calls h ag rid step calls s = (Inr parts, s') \<Longrightarrow> logged rid (tc_name ` set calls) s'"
proof (induction calls arbitrary: s parts s')
  case (Cons c cs)
  then obtain r s1 ps where 1: "logged_call h ag rid step (tc_name c) (tc_arguments c) s = (Inr r, s1)"
    and 2: "run_calls h ag rid step cs s1 = (Inr ps, s')"
    by (auto elim!: and_then_InrE)
  have "logged rid {tc_name c} s'"
    by (rule logged_own [OF own.run_calls_R 2 logged_call_logged [OF 1]])
  moreover have "logged rid (tc_name ` set cs) s'" by (rule Cons.IH [OF 2])
  ultimately show ?case by (simp add: logged_def)
qed simp

text \<open>The budget of tool calls as the loop reads it, and of model calls.\<close>

abbreviation tool_budget :: "agent \<Rightarrow> int" where
  "tool_budget ag \<equiv> as_u32 (int (bu_max_tool_calls (as_budget (ag_spec ag))))"

abbreviation llm_budget :: "agent \<Rightarrow> int" where
  "llm_budget ag \<equiv> as_u32 (int (bu_max_llm_calls (as_budget (ag_spec ag))))"

lemma tool_round_Inr:
  assumes "tool_round h ag rc step answer calls v s = (Inr v', s')" "logged (rc_run_id rc) (set (rv_used v)) s"
  shows "rv_llm_calls v' = rv_llm_calls v" "int (rv_tool_calls v') \<le> tool_budget ag"
    "logged (rc_run_id rc) (set (rv_used v')) s'"
proof -
  let ?rid = "rc_run_id rc"
  obtain parts s1 s2 where 1: "run_calls h ag ?rid step calls s = (Inr parts, s1)"
    and 2: "do_record_tool_calls h ?rid (length calls) s1 = (Inr (), s2)"
    and v': "v' = push_exchange answer (join [CHR 0x0A, CHR 0x0A] parts)
                     (v\<lparr>rv_used := rv_used v @ map tc_name calls, rv_tool_calls := rv_tool_calls v + length calls\<rparr>)"
    and 3: "checkpoint_after h ag ?rid step v' s2 = (Inr (), s')"
    and le: "int (rv_tool_calls v + length calls) \<le> tool_budget ag"
    using assms(1) by (auto simp: tool_round_def Let_def not_less elim!: and_then_InrE split: if_splits)
  show "rv_llm_calls v' = rv_llm_calls v" "int (rv_tool_calls v') \<le> tool_budget ag"
    using le by (simp_all add: v' push_exchange_def)
  have "logged ?rid (set (rv_used v) \<union> tc_name ` set calls) s1"
    using logged_own [OF own.run_calls_R 1 assms(2)] run_calls_logged [OF 1] by simp
  then have "logged ?rid (set (rv_used v) \<union> tc_name ` set calls) s'"
    by (intro logged_own [OF own.checkpoint_after_R 3] logged_own [OF own.statements_R(4) 2])
  then show "logged ?rid (set (rv_used v')) s'" by (simp add: v' push_exchange_def)
qed

lemma scratch_round_Inr:
  assumes "scratch_round h ag rc step answer action v s = (Inr v', s')" "logged (rc_run_id rc) (set (rv_used v)) s"
  shows "rv_llm_calls v' = rv_llm_calls v" "rv_tool_calls v' = rv_tool_calls v" "logged (rc_run_id rc) (set (rv_used v')) s'"
proof -
  obtain reply where v': "v' = push_exchange answer reply v"
    using assms(1) by (auto simp: scratch_round_def Let_def elim!: and_then_InrE)
  show "rv_llm_calls v' = rv_llm_calls v" "rv_tool_calls v' = rv_tool_calls v" by (simp_all add: v' push_exchange_def)
  have "set (rv_used v') = set (rv_used v)" by (simp add: v' push_exchange_def)
  then show "logged (rc_run_id rc) (set (rv_used v')) s'"
    using logged_own [OF own.scratch_round_R assms] by simp
qed

text \<open>How a step goes on, and how it ends a run.\<close>

lemma run_step_calls:
  assumes "run_step h ag rc step v s = (Inr y, s')" "logged (rc_run_id rc) (set (rv_used v)) s"
  obtains w s1 answer calls where
    "int (rv_llm_calls v) < llm_budget ag" "rv_llm_calls w = rv_llm_calls v + 1" "rv_tool_calls w = rv_tool_calls v"
    "rv_used w = rv_used v" "logged (rc_run_id rc) (set (rv_used w)) s1"
    "(if calls \<noteq> [] then and_then (tool_round h ag rc step answer calls w s1) (\<lambda>v s. (Inr (Inr v), s))
      else (case parse_scratchpad_action (ah_json h) answer of
              Some action \<Rightarrow> and_then (scratch_round h ag rc step answer action w s1) (\<lambda>v s. (Inr (Inr v), s))
            | None \<Rightarrow> final_round h ag rc answer w s1)) = (Inr y, s')"
proof -
  let ?rid = "rc_run_id rc"
  obtain s1 response s2 s3 where lt: "int (rv_llm_calls v) < llm_budget ag"
    and 1: "do_record_step h ?rid (emit (StepStarted step) s) = (Inr (), s1)"
    and 2: "await_host h (\<lambda>n. ah_complete h n (request_of h ag v)) s1 = (Inr response, s2)"
    and 3: "do_record_llm_call h ?rid (usage_of tu_input_tokens response) (usage_of tu_output_tokens response) s2 = (Inr (), s3)"
    and rest: "(if tool_calls_of (ah_json h) response \<noteq> [] then and_then (tool_round h ag rc step (ai_content response)
            (tool_calls_of (ah_json h) response) (count_usage response v) s3) (\<lambda>v s. (Inr (Inr v), s))
      else (case parse_scratchpad_action (ah_json h) (ai_content response) of
              Some action \<Rightarrow> and_then (scratch_round h ag rc step (ai_content response) action (count_usage response v) s3) (\<lambda>v s. (Inr (Inr v), s))
            | None \<Rightarrow> final_round h ag rc (ai_content response) (count_usage response v) s3)) = (Inr y, s')"
    using assms(1) unfolding run_step_def Let_def
    by (auto simp: not_le elim!: and_then_InrE split: if_splits)
  have e: "logged ?rid (set (rv_used v)) (emit (StepStarted step) s)" using assms(2) by (simp add: logged_def)
  have "logged ?rid (set (rv_used v)) s1" by (rule logged_own [OF own.statements_R(2) 1 e])
  moreover have "hs_tables s2 = hs_tables s1"
    using 2 await_host_state [of h "\<lambda>n. ah_complete h n (request_of h ag v)" s1] by simp
  ultimately have "logged ?rid (set (rv_used v)) s2" by (simp add: logged_def)
  then have "logged ?rid (set (rv_used v)) s3" by (rule logged_own [OF own.statements_R(3) 3])
  then show ?thesis
    using that [OF lt _ _ _ _ rest] by (simp add: count_usage_def)
qed

lemma run_step_continues:
  assumes "run_step h ag rc step v s = (Inr (Inr v'), s')" "logged (rc_run_id rc) (set (rv_used v)) s"
  shows "int (rv_llm_calls v) < llm_budget ag" "rv_llm_calls v' = rv_llm_calls v + 1"
    "int (rv_tool_calls v') \<le> max (int (rv_tool_calls v)) (tool_budget ag)"
    "logged (rc_run_id rc) (set (rv_used v')) s'"
proof -
  obtain w s1 answer calls where w: "int (rv_llm_calls v) < llm_budget ag" "rv_llm_calls w = rv_llm_calls v + 1"
    "rv_tool_calls w = rv_tool_calls v" "rv_used w = rv_used v" "logged (rc_run_id rc) (set (rv_used w)) s1"
    and rest: "(if calls \<noteq> [] then and_then (tool_round h ag rc step answer calls w s1) (\<lambda>v s. (Inr (Inr v), s))
      else (case parse_scratchpad_action (ah_json h) answer of
              Some action \<Rightarrow> and_then (scratch_round h ag rc step answer action w s1) (\<lambda>v s. (Inr (Inr v), s))
            | None \<Rightarrow> final_round h ag rc answer w s1)) = (Inr (Inr v'), s')"
    by (rule run_step_calls [OF assms])
  have *: "rv_llm_calls v' = rv_llm_calls w \<and> int (rv_tool_calls v') \<le> max (int (rv_tool_calls w)) (tool_budget ag)
      \<and> logged (rc_run_id rc) (set (rv_used v')) s'"
  proof (cases "calls = []")
    case False
    then have "tool_round h ag rc step answer calls w s1 = (Inr v', s')" using rest by (auto elim: and_then_InrE)
    from tool_round_Inr [OF this w(5)] show ?thesis by simp
  next
    case True
    show ?thesis
    proof (cases "parse_scratchpad_action (ah_json h) answer")
      case None
      then show ?thesis
        using rest True w(5)
        by (auto simp: final_round_def push_exchange_def elim!: and_then_InrE split: sum.splits)
    next
      case (Some action)
      then have "scratch_round h ag rc step answer action w s1 = (Inr v', s')"
        using rest True by (auto elim: and_then_InrE)
      from scratch_round_Inr [OF this w(5)] show ?thesis by simp
    qed
  qed
  show "int (rv_llm_calls v) < llm_budget ag" by (rule w(1))
  show "rv_llm_calls v' = rv_llm_calls v + 1" using * w(2) by simp
  show "int (rv_tool_calls v') \<le> max (int (rv_tool_calls v)) (tool_budget ag)" using * w(3) by simp
  show "logged (rc_run_id rc) (set (rv_used v')) s'" using * by simp
qed

text \<open>The output of a result was accepted: \<open>accepted\<close> says by which variables and in which state.\<close>

definition accepted :: "agent_host \<Rightarrow> agent \<Rightarrow> run_ctx \<Rightarrow> run_vars \<Rightarrow> harness \<Rightarrow> run_result \<Rightarrow> harness \<Rightarrow> bool" where
  "accepted h ag rc v s result s' \<longleftrightarrow>
     (\<exists>answer. judge_answer h ag rc answer v = Inr (rn_output result))
     \<and> accept_output h ag rc (rn_output result) v s = (Inr result, s')
     \<and> logged (rc_run_id rc) (set (rv_used v)) s"

lemma accept_output_Inr:
  assumes "accept_output h ag rc output v s = (Inr result, s')"
  shows "rn_output result = output" "rn_run_id result = rc_run_id rc" "rn_llm_calls result = rv_llm_calls v"
    "rn_tool_calls result = rv_tool_calls v"
    "\<exists>now ms esc conf. hs_tables s' = finish_agent_run now (rc_run_id rc) ms output esc conf (hs_tables s)"
    "(rn_should_escalate result, rn_escalate_reason result)
       = evaluate_escalation_with_threshold (as_escalation (ag_spec ag)) output (ag_calibrated ag)"
  using assms
  by (auto simp: accept_output_def Let_def do_finish_run_def on_tables_def
           elim!: and_then_InrE dest!: stmt_Inr split: prod.splits)
    (intro exI, rule refl)

lemma accept_output_finish:
  assumes "accept_output h ag rc output v s = (Inr result, s')"
  shows "\<exists>now ms conf. hs_tables s' = finish_agent_run now (rc_run_id rc) ms output (rn_should_escalate result) conf (hs_tables s)"
  using assms
  by (auto simp: accept_output_def Let_def do_finish_run_def on_tables_def
           elim!: and_then_InrE dest!: stmt_Inr split: prod.splits)
    (intro exI, rule refl)

lemma run_step_ends:
  assumes "run_step h ag rc step v s = (Inr (Inl result), s')" "logged (rc_run_id rc) (set (rv_used v)) s"
  shows "\<exists>w s1. accepted h ag rc w s1 result s' \<and> int (rv_llm_calls w) \<le> llm_budget ag
      \<and> rv_llm_calls w = rv_llm_calls v + 1 \<and> rv_tool_calls w = rv_tool_calls v"
proof -
  obtain w s1 answer calls where w: "int (rv_llm_calls v) < llm_budget ag" "rv_llm_calls w = rv_llm_calls v + 1"
    "rv_tool_calls w = rv_tool_calls v" "rv_used w = rv_used v" "logged (rc_run_id rc) (set (rv_used w)) s1"
    and rest: "(if calls \<noteq> [] then and_then (tool_round h ag rc step answer calls w s1) (\<lambda>v s. (Inr (Inr v), s))
      else (case parse_scratchpad_action (ah_json h) answer of
              Some action \<Rightarrow> and_then (scratch_round h ag rc step answer action w s1) (\<lambda>v s. (Inr (Inr v), s))
            | None \<Rightarrow> final_round h ag rc answer w s1)) = (Inr (Inl result), s')"
    by (rule run_step_calls [OF assms])
  have "final_round h ag rc answer w s1 = (Inr (Inl result), s')"
    using rest by (auto elim!: and_then_InrE split: if_splits option.splits)
  then have "accepted h ag rc w s1 result s'"
    using w(5) accept_output_Inr(1)
    by (fastforce simp: final_round_def accepted_def elim!: and_then_InrE split: sum.splits)
  then show ?thesis using w by auto
qed

lemma run_steps_accepted:
  assumes "run_steps h ag rc n step v s = (Inr result, s')" "logged (rc_run_id rc) (set (rv_used v)) s"
  shows "\<exists>w s1. accepted h ag rc w s1 result s' \<and> int (rv_llm_calls w) \<le> llm_budget ag
      \<and> rv_llm_calls w \<le> rv_llm_calls v + n
      \<and> int (rv_tool_calls w) \<le> max (int (rv_tool_calls v)) (tool_budget ag)"
  using assms
proof (induction n arbitrary: step v s)
  case (Suc n)
  then obtain r s1 where 1: "run_step h ag rc step v s = (Inr r, s1)"
    and 2: "(case r of Inl result \<Rightarrow> (Inr result, s1) | Inr v' \<Rightarrow> run_steps h ag rc n (step + 1) v' s1) = (Inr result, s')"
    by (auto elim: and_then_InrE)
  show ?case
  proof (cases r)
    case (Inl r')
    then show ?thesis using run_step_ends [of h ag rc step v s r' s1] 1 2 Suc.prems(2) by fastforce
  next
    case (Inr v')
    then have r: "run_steps h ag rc n (step + 1) v' s1 = (Inr result, s')" using 2 by simp
    note c = run_step_continues [OF 1 [unfolded Inr] Suc.prems(2)]
    from Suc.IH [OF r c(4)] obtain w s2 where "accepted h ag rc w s2 result s'" "int (rv_llm_calls w) \<le> llm_budget ag"
      "rv_llm_calls w \<le> rv_llm_calls v' + n" "int (rv_tool_calls w) \<le> max (int (rv_tool_calls v')) (tool_budget ag)"
      by blast
    then show ?thesis using c by (intro exI [of _ w] exI [of _ s2]) auto
  qed
qed simp

lemma run_timed_Inr:
  assumes "run_timed h ag rc task_id v s = (Inr result, s')"
  obtains d s1 where "run_steps h ag rc (ex_max_iterations (as_execution (ag_spec ag))) 0 v (s\<lparr>hs_deadline := Some d\<rparr>) = (Inr result, s1)"
    "hs_tables s' = hs_tables s1"
proof -
  let ?d = "hs_ms s + 1000 * int (ex_timeout_secs (as_execution (ag_spec ag)))"
  obtain r s1 where r: "run_steps h ag rc (ex_max_iterations (as_execution (ag_spec ag))) 0 v (s\<lparr>hs_deadline := Some ?d\<rparr>) = (r, s1)"
    by fastforce
  show ?thesis
  proof (cases r)
    case (Inl e)
    then show ?thesis
      using assms r by (cases e) (auto simp: run_timed_def Let_def settle_failure_def elim!: and_then_InrE)
  next
    case (Inr result')
    then show ?thesis using assms r that [of ?d s1] by (auto simp: run_timed_def Let_def)
  qed
qed

lemma prefetch_Inr:
  assumes "prefetch h ag rid tool args told v s = (Inr v', s')" "logged rid (set (rv_used v)) s"
  shows "logged rid (set (rv_used v')) s'" "rv_llm_calls v' = rv_llm_calls v" "rv_tool_calls v' = rv_tool_calls v + 1"
proof -
  obtain result s1 s2 s3 lat where
    c: "call_tool h ag tool args (emit (ToolCallEvent 0 tool args) s) = (Inr result, s1)"
    and 1: "do_log_tool_call h rid 0 tool args result lat s1 = (Inr (), s2)"
    and 2: "do_record_tool_calls h rid 1 s2 = (Inr (), s3)"
    and v': "v' = v\<lparr>rv_used := rv_used v @ [tool], rv_tool_calls := rv_tool_calls v + 1,
                    rv_messages := rv_messages v @ [user_message (told result)]\<rparr>"
    and s': "s' = emit (ToolResultEvent 0 tool result lat) s3"
    using assms(1) by (auto simp: prefetch_def Let_def elim!: and_then_InrE)
  show "rv_llm_calls v' = rv_llm_calls v" "rv_tool_calls v' = rv_tool_calls v + 1" by (simp_all add: v')
  have "hs_tables s1 = hs_tables s"
    using c call_tool_state(1) [of h ag tool args "emit (ToolCallEvent 0 tool args) s"] by simp
  then have "logged rid (set (rv_used v)) s1" using assms(2) by (simp add: logged_def)
  then have "logged rid (set (rv_used v)) s2" by (rule logged_own [OF own.statements_R(1) 1])
  then have "logged rid (set (rv_used v) \<union> {tool}) s2" using log_logged [OF 1] by (simp only: logged_Un)
  then have "logged rid (set (rv_used v) \<union> {tool}) s3" by (rule logged_own [OF own.statements_R(4) 2])
  then show "logged rid (set (rv_used v')) s'" by (simp add: v' s' logged_def)
qed

definition required_tools :: "run_ctx \<Rightarrow> nat" where
  "required_tools rc = (if rc_count rc then 1 else 0) + (if rc_list rc then 1 else 0)"

lemma before_loop_Inr:
  assumes "before_loop h ag rc input s = (Inr v, s')"
  shows "logged (rc_run_id rc) (set (rv_used v)) s'" "rv_llm_calls v = 0" "rv_tool_calls v = required_tools rc"
proof -
  obtain messages s1 v1 s2 where
    1: "(if rc_count rc
         then prefetch h ag (rc_run_id rc) ''count_emails'' (count_emails_tool_args_for_input input) prefetched_count
                \<lparr>rv_messages = messages, rv_used = [], rv_llm_calls = 0, rv_tool_calls = 0, rv_input_tokens = 0, rv_output_tokens = 0\<rparr> s1
         else (Inr \<lparr>rv_messages = messages, rv_used = [], rv_llm_calls = 0, rv_tool_calls = 0, rv_input_tokens = 0, rv_output_tokens = 0\<rparr>, s1))
        = (Inr v1, s2)"
    and 2: "(if rc_list rc
           then prefetch h ag (rc_run_id rc) ''list_synced_emails'' (synced_email_list_tool_args_for_input input) prefetched_list v1 s2
           else (Inr v1, s2)) = (Inr v, s')"
    using assms by (auto simp: before_loop_def Let_def elim!: and_then_InrE)
  have 3: "logged (rc_run_id rc) (set (rv_used v1)) s2 \<and> rv_llm_calls v1 = 0 \<and> rv_tool_calls v1 = (if rc_count rc then 1 else 0)"
    using 1 prefetch_Inr by (auto split: if_splits; fastforce)
  then show "logged (rc_run_id rc) (set (rv_used v)) s'" "rv_llm_calls v = 0" "rv_tool_calls v = required_tools rc"
    using 2 prefetch_Inr by (auto simp: required_tools_def split: if_splits; fastforce)+
qed

lemma begin_run_row:
  assumes "do_begin_run h ag task_id s = (Inr rid, s1)"
  shows "(rid, ag_account ag, agent_name ag, task_id) \<in> run_key ` set (at_runs (hs_tables s1))"
proof -
  let ?running = "running_runs (ag_account ag) (agent_name ag) task_id (hs_tables s)"
  let ?existing = "find_running (ag_account ag) (agent_name ag) task_id (hs_tables s)"
  have 1: "(case ?existing of Some run_id \<Rightarrow> (Inr run_id, wait_one h s)
        | None \<Rightarrow> and_then (stmt h ''insert agent run''
                (\<lambda>s. on_tables (insert_run (db_now h s) (ah_run_id h) (ag_account ag) (agent_name ag)
                                  (as_version (ag_spec ag)) task_id) s) (wait_one h s)) (\<lambda>_ s. (Inr (ah_run_id h), s))) = (Inr rid, s1)"
    using assms by (auto simp: do_begin_run_def ask_tables_def elim!: and_then_InrE dest!: stmt_Inr)
  show ?thesis
  proof (cases ?existing)
    case None
    then show ?thesis
      using 1 by (auto simp: on_tables_def insert_run_def new_run_def run_key_def elim!: and_then_InrE dest!: stmt_Inr)
  next
    case (Some r)
    then obtain row rows where row: "sql_top (\<lambda>r. - rr_started r) 1 ?running = row # rows" "rr_run_id row = r"
      by (auto simp: find_running_def split: list.splits)
    then have "row \<in> set (sql_top (\<lambda>r. - rr_started r) 1 ?running)" by simp
    then have "row \<in> set ?running"
      unfolding sql_top_def by (metis in_set_takeD set_sort)
    moreover have "rid = r" "s1 = wait_one h s" using 1 Some by simp_all
    ultimately show ?thesis
      using row(2) by (force simp: running_runs_def run_key_def)
  qed
qed

lemma settle_failure_not_Inr [simp]: "settle_failure h rc e s \<noteq> (Inr r, s')"
  by (auto simp: settle_failure_def elim!: and_then_InrE)

lemma run_result_path:
  assumes "run_with_callback h ag task_id input s = Some (Inr res, s')"
  obtains rid s1 input' s3 s4 where "do_begin_run h ag task_id s = (Inr rid, s1)"
    "attach_mailbox_preparation_context h ag rid task_id input (emit (RunStarted rid task_id (agent_name ag)) s1) = (Inr input', s3)"
    "run_ready h ag task_id rid (hs_ms s) input' s4 = (Inr res, s')" "own_states ag rid s1 s4"
proof -
  obtain b s1 where b: "do_begin_run h ag task_id s = (b, s1)" by fastforce
  then obtain rid where rid: "b = Inr rid" using assms by (cases b) (auto simp: run_with_callback_def)
  define s2 where "s2 = emit (RunStarted rid task_id (agent_name ag)) s1"
  obtain a s3 where a: "attach_mailbox_preparation_context h ag rid task_id input s2 = (a, s3)" by fastforce
  note run = assms [unfolded run_with_callback_def b rid Let_def, simplified, folded s2_def, unfolded a, simplified]
  obtain input' where input': "a = Inr input'"
  proof (cases a)
    case (Inl e)
    then show ?thesis using run by (cases e) auto
  qed (use that in auto)
  then obtain w s4 where w: "wait_for_db_completeness h ag rid task_id s3 = Some (w, s4)"
    using run by (auto split: option.splits)
  have "w = Inr DbReady"
  proof (cases w)
    case (Inl e)
    then show ?thesis using run input' w by (cases e) auto
  next
    case (Inr d)
    then show ?thesis using wait_not_pending [OF w] by (cases d) auto
  qed
  then have "run_ready h ag task_id rid (hs_ms s) input' s4 = (Inr res, s')" using run input' w by simp
  moreover have "own_states ag rid s1 s4"
  proof -
    have "own_states ag rid s1 s2" by (simp add: s2_def)
    moreover have "own_states ag rid s2 s3" using attach_own [of ag rid s2 h task_id input] a by simp
    moreover have "own_states ag rid s3 s4" using wait_own [OF w] by simp
    ultimately show ?thesis by (blast intro: own_rows_trans)
  qed
  ultimately show ?thesis using that b rid a input' unfolding s2_def by blast
qed

text \<open>The context of a chat leaves alone what decides about the tools.\<close>

lemma attach_keeps:
  assumes "attach_mailbox_preparation_context h ag rid task_id input s = (Inr input', s')" "k \<noteq> ''mailbox_preparation''"
  shows "jget k input' = jget k input"
proof (cases "should_use_partial_db (agent_name ag) task_id")
  case True
  then obtain kvs v where "input = JObject kvs" "input' = JObject (AList.update ''mailbox_preparation'' v kvs)"
    using assms(1)
    by (auto simp: attach_mailbox_preparation_context_def Let_def elim!: and_then_InrE split: prod.splits json.splits)
  then show ?thesis using assms(2) by (simp add: jget_def update_conv')
qed (use assms in \<open>simp add: attach_mailbox_preparation_context_def\<close>)

lemma attach_keeps_tools:
  assumes "attach_mailbox_preparation_context h ag rid task_id input s = (Inr input', s')"
  shows "should_require_count_emails_tool n input' = should_require_count_emails_tool n input"
    "should_require_synced_email_list_tool n input' = should_require_synced_email_list_tool n input"
proof -
  note k = attach_keeps [OF assms]
  have m: "mail_assistant_input_text input' = mail_assistant_input_text input"
  proof -
    have "jget ''message'' input' = jget ''message'' input" "jget ''user_message'' input' = jget ''user_message'' input"
      by (simp_all add: k)
    then show ?thesis unfolding mail_assistant_input_text_def input_message_def by metis
  qed
  have "mail_assistant_recent_history_text input' i = mail_assistant_recent_history_text input i" for i
    by (simp add: mail_assistant_recent_history_text_def conversation_history_def k)
  then show "should_require_count_emails_tool n input' = should_require_count_emails_tool n input"
    "should_require_synced_email_list_tool n input' = should_require_synced_email_list_tool n input"
    by (simp_all add: should_require_count_emails_tool_def should_require_synced_email_list_tool_def m)
qed

text \<open>A result comes from an accepted answer.\<close>

lemma run_accepted:
  assumes "run_with_callback h ag task_id input s = Some (Inr res, s')"
  shows "\<exists>ag' rc w s1 s2.
      ag_spec ag' = ag_spec ag \<and> rc_run_id rc = rn_run_id res
      \<and> rc_count rc = should_require_count_emails_tool (agent_name ag) input
      \<and> rc_list rc = should_require_synced_email_list_tool (agent_name ag) input
      \<and> accepted h ag' rc w s1 res s2 \<and> hs_tables s' = hs_tables s2
      \<and> int (rv_llm_calls w) \<le> llm_budget ag \<and> rv_llm_calls w \<le> ex_max_iterations (as_execution (ag_spec ag))
      \<and> int (rv_tool_calls w) \<le> max (int (required_tools rc)) (tool_budget ag)
      \<and> (rn_run_id res, ag_account ag, agent_name ag, task_id) \<in> run_key ` set (at_runs (hs_tables s'))"
proof -
  obtain rid s1 input' s3 s4 where begun: "do_begin_run h ag task_id s = (Inr rid, s1)"
    and attached: "attach_mailbox_preparation_context h ag rid task_id input (emit (RunStarted rid task_id (agent_name ag)) s1) = (Inr input', s3)"
    and ready: "run_ready h ag task_id rid (hs_ms s) input' s4 = (Inr res, s')" and kept: "own_states ag rid s1 s4"
    by (rule run_result_path [OF assms])
  let ?m = "do_read_scratchpad h ag (calibration_key (agent_name ag)) s4"
  let ?ag = "fst (calibrate h ag ?m)"
  define rc where "rc = \<lparr>rc_run_id = rid, rc_started = hs_ms s,
      rc_count = should_require_count_emails_tool (agent_name ag) input',
      rc_list = should_require_synced_email_list_tool (agent_name ag) input'\<rparr>"
  have "and_then (before_loop h ?ag rc input' (snd ?m)) (\<lambda>v s. run_timed h ?ag rc task_id v s) = (Inr res, s')"
    using ready by (simp add: run_ready_def Let_def split_beta rc_def)
  then obtain v s5 where b: "before_loop h ?ag rc input' (snd ?m) = (Inr v, s5)" and t: "run_timed h ?ag rc task_id v s5 = (Inr res, s')"
    by (auto elim: and_then_InrE)
  obtain d s6 where r: "run_steps h ?ag rc (ex_max_iterations (as_execution (ag_spec ?ag))) 0 v (s5\<lparr>hs_deadline := Some d\<rparr>) = (Inr res, s6)"
    and s6: "hs_tables s' = hs_tables s6"
    by (rule run_timed_Inr [OF t])
  note bl = before_loop_Inr [OF b]
  have "logged (rc_run_id rc) (set (rv_used v)) (s5\<lparr>hs_deadline := Some d\<rparr>)" using bl(1) by (simp add: logged_def)
  from run_steps_accepted [OF r this] obtain w s7 where w: "accepted h ?ag rc w s7 res s6"
    "int (rv_llm_calls w) \<le> llm_budget ?ag" "rv_llm_calls w \<le> rv_llm_calls v + ex_max_iterations (as_execution (ag_spec ?ag))"
    "int (rv_tool_calls w) \<le> max (int (rv_tool_calls v)) (tool_budget ?ag)"
    by blast
  have rid: "rn_run_id res = rid" using w(1) accept_output_Inr(2) by (force simp: accepted_def rc_def)
  have "own_states ag rid s1 s'"
    using own.again [OF kept run_ready_own [of ag rid s4 h task_id "hs_ms s" input']] ready by simp
  then have "(rid, ag_account ag, agent_name ag, task_id) \<in> run_key ` set (at_runs (hs_tables s'))"
    using begin_run_row [OF begun] by (auto simp: own_rows_def)
  then show ?thesis
    using w bl s6 rid attach_keeps_tools [OF attached]
    by (intro exI [of _ ?ag] exI [of _ rc] exI [of _ w] exI [of _ s7] exI [of _ s6]) (simp add: rc_def)
qed

section \<open>Facts for the properties\<close>

lemma check_required_None: "check_required kvs f = None \<longleftrightarrow> (\<exists>v. map_of kvs f = Some v \<and> v \<noteq> JNull)"
  by (auto simp: check_required_def split: option.splits json.splits)

lemma check_enum_None: "check_enum f v allowed = None \<longleftrightarrow> v \<in> JString ` set allowed"
  by (cases v) (auto simp: check_enum_def field_error_def as_str_def)

lemma output_validate_Inr:
  assumes "output_validate sh config output = Inr ()"
  obtains kvs where "output = JObject kvs"
    "\<forall>f \<in> set (oc_required_fields config). \<exists>v. map_of kvs f = Some v \<and> v \<noteq> JNull"
    "\<forall>(f, fv) \<in> set (oc_validation config). \<forall>allowed v. fv_enum_values fv = Some allowed \<longrightarrow> map_of kvs f = Some v
       \<longrightarrow> v \<in> JString ` set allowed"
proof -
  obtain kvs where kvs: "output = JObject kvs" "find_map (check_required kvs) (oc_required_fields config) = None"
    "find_map (check_field sh kvs) (oc_validation config) = None"
    using assms by (auto simp: output_validate_def split: json.splits option.splits)
  moreover have "v \<in> JString ` set allowed"
    if "(f, fv) \<in> set (oc_validation config)" "fv_enum_values fv = Some allowed" "map_of kvs f = Some v" for f fv allowed v
  proof -
    have "check_field sh kvs (f, fv) = None" using kvs(3) that(1) by (auto simp: find_map_None)
    then have "check_enum f v allowed = None"
      using that(2,3) by (auto simp: check_field_def split: option.splits)
    then show ?thesis by (simp add: check_enum_None)
  qed
  ultimately show ?thesis
    by (intro that [of kvs]) (auto simp: find_map_None check_required_None)
qed

lemma validate_output_Inr:
  "validate_output jl answer config = Inr output \<Longrightarrow> output_validate (jl_show_f64 jl) config output = Inr ()"
  by (auto simp: validate_output_def Let_def split: sum.splits option.splits)

lemma judge_answer_Inr:
  assumes "judge_answer h ag rc answer v = Inr output"
  shows "output_validate (jl_show_f64 (ah_json h)) (as_output (ag_spec ag)) output = Inr ()"
    "rc_count rc \<Longrightarrow> ''count_emails'' \<in> set (rv_used v)"
    "rc_list rc \<Longrightarrow> ''list_synced_emails'' \<in> set (rv_used v)"
proof -
  have *: "validate_output (ah_json h) answer (as_output (ag_spec ag)) = Inr output
      \<and> (rc_count rc \<longrightarrow> ''count_emails'' \<in> set (rv_used v)) \<and> (rc_list rc \<longrightarrow> ''list_synced_emails'' \<in> set (rv_used v))"
    using assms unfolding judge_answer_def Let_def by (simp split: sum.splits if_splits)
  then show "output_validate (jl_show_f64 (ah_json h)) (as_output (ag_spec ag)) output = Inr ()"
    "rc_count rc \<Longrightarrow> ''count_emails'' \<in> set (rv_used v)"
    "rc_list rc \<Longrightarrow> ''list_synced_emails'' \<in> set (rv_used v)"
    using validate_output_Inr by blast+
qed

lemma update_run_rows:
  assumes "r \<in> set (at_runs (update_run rid f t))" "rr_run_id r = rid"
  shows "\<exists>r0. r = f r0"
proof -
  obtain r0 where "r = (if rr_run_id r0 = rid then f r0 else r0)"
    using assms(1) unfolding update_run_def sql_update_def by fastforce
  then show ?thesis using assms(2) by metis
qed

lemma finish_run_rows:
  assumes "r \<in> set (at_runs (finish_agent_run now rid ms output esc conf t))" "rr_run_id r = rid"
  shows "rr_status r = RunCompleted \<and> rr_result r = Some output \<and> rr_escalated r = esc"
  using update_run_rows [OF assms(1) [unfolded finish_agent_run_def] assms(2)] by (elim exE) simp

lemma begin_run_id:
  assumes "do_begin_run h ag task_id s = (Inr rid, s1)"
  shows "rid = ah_run_id h \<or> find_running (ag_account ag) (agent_name ag) task_id (hs_tables s) = Some rid"
  using assms
  by (auto simp: do_begin_run_def ask_tables_def elim!: and_then_InrE dest!: stmt_Inr split: option.splits)

lemma as_u32_le: "0 \<le> n \<Longrightarrow> as_u32 n \<le> n"
  by (simp add: as_u32_def zmod_le_nonneg_dividend)

lemma not_both_required: "\<not> (should_require_count_emails_tool n input \<and> should_require_synced_email_list_tool n input)"
  by (auto simp: should_require_count_emails_tool_def Let_def)

text \<open>The part before the loop keeps what \<open>begin_run\<close> looks at.\<close>

definition run_mark :: "agent_run_row \<Rightarrow> (string \<times> string \<times> string \<times> string) \<times> agent_run_status \<times> timestamp" where
  "run_mark r = (run_key r, rr_status r, rr_started r)"

abbreviation status_kept :: "harness \<Rightarrow> harness \<Rightarrow> bool" where
  "status_kept s s' \<equiv> map run_mark (at_runs (hs_tables s')) = map run_mark (at_runs (hs_tables s))"

interpretation kept: run_relation status_kept h ag rid for h ag rid
  by unfold_locales
     (simp_all add: record_step_def record_llm_call_def record_tool_calls_def update_run_def map_sql_update run_mark_def
        run_key_def log_tool_call_def save_checkpoint_def prune_expired_scratchpad_def Let_def)

lemma insort_key_map: "insort_key f (g x) (map g xs) = map g (insort_key (f \<circ> g) x xs)"
  by (induction xs) auto

lemma sort_key_map: "sort_key f (map g xs) = map g (sort_key (f \<circ> g) xs)"
  by (induction xs) (simp_all add: insort_key_map del: o_apply)

lemma find_running_marks:
  assumes "map run_mark (at_runs t') = map run_mark (at_runs t)"
  shows "find_running a n task t' = find_running a n task t"
proof -
  have "find_running a n task t = (case take 1 (sort_key (\<lambda>m. - snd (snd m))
      (filter (\<lambda>((_, a', n', k'), st, _). a' = a \<and> k' = task \<and> n' = n \<and> st = RunRunning) (map run_mark (at_runs t)))) of
      ((i, _), _) # _ \<Rightarrow> Some i | [] \<Rightarrow> None)" for t
  proof -
    have "sort_key (\<lambda>m. - snd (snd m)) (map run_mark xs) = map run_mark (sort_key (\<lambda>r. - rr_started r) xs)" for xs
      by (simp add: sort_key_map run_mark_def o_def)
    then show ?thesis
      by (auto simp: find_running_def running_runs_def sql_top_def filter_map o_def run_mark_def run_key_def take_map
          split: list.split)
  qed
  then show ?thesis using assms by simp
qed

end
