(* ===== verification/AgentProps.thy ===== *)
theory AgentProps
  imports AgentOutcome
begin

text \<open>
  The properties of the agent harness, of the calibration of its thresholds and of the cleaning of
  scratchpads, with an agent and hosts for their witnesses.
\<close>

section \<open>An agent\<close>

definition demo_spec :: agent_spec where
  "demo_spec =
     \<lparr>as_name = ''demo'', as_version = ''1.0'', as_description = [], as_skills = [],
      as_execution = \<lparr>ex_max_iterations = 2, ex_temperature = 0, ex_max_output_tokens = 64, ex_checkpoint_every = 1,
                      ex_timeout_secs = 60\<rparr>,
      as_budget = \<lparr>bu_max_llm_calls = 2, bu_max_tool_calls = 1\<rparr>,
      as_state = \<lparr>sc_schema = [''notes''], sc_ttl_hours = 1\<rparr>,
      as_output = \<lparr>oc_required_fields = [''status''],
                   oc_validation = [(''status'', \<lparr>fv_enum_values = Some [''fine''], fv_field_type = None, fv_min = None,
                                                fv_max = None\<rparr>)]\<rparr>,
      as_provider = \<lparr>pc_tier = WorkerTier, pc_prefer = ''local'', pc_fallback = ''frontier''\<rparr>,
      as_escalation = \<lparr>es_confidence_threshold = 3 / 4, es_always_escalate_on_phishing = True,
                       es_always_escalate_on_threat = []\<rparr>,
      as_system_prompt = ''Return JSON''\<rparr>"

definition demo_agent :: agent where
  "demo_agent = \<lparr>ag_spec = demo_spec, ag_account = ''a'', ag_tools = [echo_tool], ag_poll = poll_config_from_env (\<lambda>_. None),
                 ag_calibrated = None\<rparr>"

definition demo_json :: json_lib where
  "demo_json = \<lparr>jl_parse = (\<lambda>s. if s = ''ok'' then Some (JObject [(''status'', JString ''Fine'')]) else None),
                jl_text = (\<lambda>_. ''{}''), jl_pretty = (\<lambda>_. ''{}''), jl_show_f64 = (\<lambda>_. ''0''), jl_f32 = (\<lambda>q. q)\<rparr>"

definition demo_host :: "(nat \<Rightarrow> err option) \<Rightarrow> agent_host" where
  "demo_host fault =
     \<lparr>ah_took = (\<lambda>_. 1), ah_wall = (\<lambda>ms. 1000 * ms), ah_run_id = ''r1'', ah_fault = fault, ah_landed = (\<lambda>_. False),
      ah_mail = (\<lambda>_. empty_mail_store), ah_supports_tools = False,
      ah_complete = (\<lambda>_ _. Inr \<lparr>ai_content = ''ok'', ai_tool_calls = None, ai_usage = None\<rparr>),
      ah_json = demo_json, ah_add_hours = (\<lambda>t n. Some (t + 3600000000 * n))\<rparr>"

definition demo_state :: "checkpoint_row list \<Rightarrow> harness" where
  "demo_state cs =
     \<lparr>hs_tables = \<lparr>at_runs = [], at_checkpoints = cs, at_tool_log = [], at_scratch = [], at_next_log = 1\<rparr>,
      hs_core = \<lparr>ct_rows = [], ct_next_id = 1\<rparr>, hs_ms = 0, hs_tick = 0, hs_deadline = None, hs_events = []\<rparr>"

lemma demo_run:
  "\<exists>res s'. run_with_callback (demo_host (\<lambda>_. None)) demo_agent ''t1'' (JObject []) (demo_state []) = Some (Inr res, s')"
proof -
  have "case run_with_callback (demo_host (\<lambda>_. None)) demo_agent ''t1'' (JObject []) (demo_state []) of
      Some (Inr res, _) \<Rightarrow> True | _ \<Rightarrow> False"
    by code_simp
  then show ?thesis by (auto split: option.splits sum.splits prod.splits)
qed

section \<open>Runs\<close>



text \<open>C8: When a run returns a result, its output is an object that has every required field, not null, and every
  field with an enumeration holds one of its values; the mailbox tools the question calls for are in the log of
  the run; and the run is recorded as completed with this output.\<close>

theorem agent_answer_validated:
  assumes "run_with_callback h ag task_id input s = Some (Inr res, s')"
  shows "(\<exists>kvs. rn_output res = JObject kvs
      \<and> (\<forall>f \<in> set (oc_required_fields (as_output (ag_spec ag))). \<exists>v. map_of kvs f = Some v \<and> v \<noteq> JNull)
      \<and> (\<forall>(f, fv) \<in> set (oc_validation (as_output (ag_spec ag))). \<forall>allowed v. fv_enum_values fv = Some allowed
           \<longrightarrow> map_of kvs f = Some v \<longrightarrow> v \<in> JString ` set allowed))
    \<and> (should_require_count_emails_tool (agent_name ag) input \<longrightarrow>
        (\<exists>l \<in> set (at_tool_log (hs_tables s')). tl_run_id l = rn_run_id res \<and> tl_tool l = ''count_emails''))
    \<and> (should_require_synced_email_list_tool (agent_name ag) input \<longrightarrow>
        (\<exists>l \<in> set (at_tool_log (hs_tables s')). tl_run_id l = rn_run_id res \<and> tl_tool l = ''list_synced_emails''))
    \<and> (\<exists>r \<in> set (at_runs (hs_tables s')). run_key r = (rn_run_id res, ag_account ag, agent_name ag, task_id)
        \<and> rr_status r = RunCompleted \<and> rr_result r = Some (rn_output res) \<and> rr_escalated r = rn_should_escalate res)"
proof -
  obtain ag' rc w s1 s2 where ag': "ag_spec ag' = ag_spec ag" and rid: "rc_run_id rc = rn_run_id res"
    and tools: "rc_count rc = should_require_count_emails_tool (agent_name ag) input"
      "rc_list rc = should_require_synced_email_list_tool (agent_name ag) input"
    and acc: "accepted h ag' rc w s1 res s2" and s2: "hs_tables s' = hs_tables s2"
    and row: "(rn_run_id res, ag_account ag, agent_name ag, task_id) \<in> run_key ` set (at_runs (hs_tables s'))"
    using run_accepted [OF assms] by blast
  obtain answer where j: "judge_answer h ag' rc answer w = Inr (rn_output res)"
    and fin: "accept_output h ag' rc (rn_output res) w s1 = (Inr res, s2)"
    and log: "logged (rc_run_id rc) (set (rv_used w)) s1"
    using acc by (auto simp: accepted_def)
  have log2: "logged (rn_run_id res) (set (rv_used w)) s2"
    using logged_own [OF own.accept_output_R fin log] rid by simp
  obtain now ms conf where closed: "hs_tables s2 = finish_agent_run now (rn_run_id res) ms (rn_output res) (rn_should_escalate res) conf (hs_tables s1)"
    using accept_output_finish [OF fin] rid by auto
  obtain r where r: "r \<in> set (at_runs (hs_tables s'))" "run_key r = (rn_run_id res, ag_account ag, agent_name ag, task_id)"
    using row by auto
  have "rr_run_id r = rn_run_id res" using r(2) by (simp add: run_key_def)
  moreover have "r \<in> set (at_runs (finish_agent_run now (rn_run_id res) ms (rn_output res) (rn_should_escalate res) conf (hs_tables s1)))"
    using r(1) s2 closed by simp
  ultimately have row: "rr_status r = RunCompleted \<and> rr_result r = Some (rn_output res) \<and> rr_escalated r = rn_should_escalate res"
    using finish_run_rows by blast
  have used: "\<exists>l \<in> set (at_tool_log (hs_tables s')). tl_run_id l = rn_run_id res \<and> tl_tool l = tool"
    if "tool \<in> set (rv_used w)" for tool
    using log2 s2 that unfolding logged_def by simp
  show ?thesis
  proof (intro conjI impI)
    show "\<exists>kvs. rn_output res = JObject kvs
      \<and> (\<forall>f \<in> set (oc_required_fields (as_output (ag_spec ag))). \<exists>v. map_of kvs f = Some v \<and> v \<noteq> JNull)
      \<and> (\<forall>(f, fv) \<in> set (oc_validation (as_output (ag_spec ag))). \<forall>allowed v. fv_enum_values fv = Some allowed
           \<longrightarrow> map_of kvs f = Some v \<longrightarrow> v \<in> JString ` set allowed)"
      by (rule output_validate_Inr [OF judge_answer_Inr(1) [OF j, unfolded ag']]) blast
    show "\<exists>l \<in> set (at_tool_log (hs_tables s')). tl_run_id l = rn_run_id res \<and> tl_tool l = ''count_emails''"
      if "should_require_count_emails_tool (agent_name ag) input"
      by (rule used, rule judge_answer_Inr(2) [OF j]) (simp add: tools that)
    show "\<exists>l \<in> set (at_tool_log (hs_tables s')). tl_run_id l = rn_run_id res \<and> tl_tool l = ''list_synced_emails''"
      if "should_require_synced_email_list_tool (agent_name ag) input"
      by (rule used, rule judge_answer_Inr(3) [OF j]) (simp add: tools that)
    show "\<exists>r \<in> set (at_runs (hs_tables s')). run_key r = (rn_run_id res, ag_account ag, agent_name ag, task_id)
        \<and> rr_status r = RunCompleted \<and> rr_result r = Some (rn_output res) \<and> rr_escalated r = rn_should_escalate res"
      using r row by blast
  qed
qed

theorem agent_answer_validated_witness:
  "\<exists>res s'. run_with_callback (demo_host (\<lambda>_. None)) demo_agent ''t1'' (JObject []) (demo_state []) = Some (Inr res, s')
     \<and> (\<exists>kvs. rn_output res = JObject kvs \<and> map_of kvs ''status'' = Some (JString ''fine''))"
proof -
  obtain res s' where r: "run_with_callback (demo_host (\<lambda>_. None)) demo_agent ''t1'' (JObject []) (demo_state []) = Some (Inr res, s')"
    using demo_run by blast
  from agent_answer_validated [OF r] show ?thesis
    using r by (auto simp: demo_agent_def demo_spec_def)
qed



lemma run_returns:
  assumes "ag_poll ag = poll_config_from_env e"
  shows "\<exists>r s'. run_with_callback h ag task_id input s = Some (r, s')"
proof -
  have w: "\<exists>y. wait_for_db_completeness h ag rid task_id s1 = Some y" for rid s1
    by (rule wait_returns [OF assms])
  show ?thesis
  proof (cases "do_begin_run h ag task_id s")
    case (Pair b s1)
    show ?thesis
    proof (cases b)
      case (Inl e)
      then show ?thesis by (simp add: run_with_callback_def Pair)
    next
      case (Inr rid)
      obtain a s3 where a: "attach_mailbox_preparation_context h ag rid task_id input (emit (RunStarted rid task_id (agent_name ag)) s1) = (a, s3)"
        by fastforce
      obtain y s4 where "wait_for_db_completeness h ag rid task_id s3 = Some (y, s4)"
        using w [of rid s3] by (metis surj_pair)
      then show ?thesis
        by (auto simp: run_with_callback_def Pair Inr a Let_def split: sum.splits stop.splits wait_outcome.splits
              intro: surj_pair)
    qed
  qed
qed

text \<open>C23: With the settings read from the environment every run of an agent returns, however long operations
  take and whatever the mail tables hold while it waits for them to be complete.\<close>

theorem agent_run_returns:
  assumes "ag_poll ag = poll_config_from_env e"
  shows "\<exists>r s'. run_with_callback h ag task_id input s = Some (r, s')"
  by (rule run_returns [OF assms])

theorem agent_run_returns_witness:
  "\<exists>r s'. run_with_callback (demo_host (\<lambda>_. None)) (demo_agent\<lparr>ag_spec := demo_spec\<lparr>as_name := ''mail-assistant''\<rparr>\<rparr>) ''t1''
     (JObject []) (demo_state []) = Some (r, s')"
  by (rule agent_run_returns [of _ "\<lambda>_. None"]) (simp add: demo_agent_def)

text \<open>C25: An error before the loop (pruning or reading the scratchpad, reading a checkpoint, a tool called
  in advance) ends the run with nothing recorded: it stays running, and the next attempt at the task takes it
  up again.\<close>

theorem early_error_keeps_running:
  assumes "m = do_read_scratchpad h ag (calibration_key (agent_name ag)) s"
    and "rc = \<lparr>rc_run_id = rid, rc_started = started, rc_count = should_require_count_emails_tool (agent_name ag) input,
               rc_list = should_require_synced_email_list_tool (agent_name ag) input\<rparr>"
    and "before_loop h (fst (calibrate h ag m)) rc input (snd m) = (Inl (Failure e), s')"
  shows "run_ready h ag task_id rid started input s = (Inl (Failure e), s')
    \<and> find_running (ag_account ag) (agent_name ag) task_id (hs_tables s')
        = find_running (ag_account ag) (agent_name ag) task_id (hs_tables s)"
proof
  show "run_ready h ag task_id rid started input s = (Inl (Failure e), s')"
    using assms by (simp add: run_ready_def Let_def split_beta)
  have "status_kept s (snd m)" unfolding assms(1) by (rule kept.statements_R)
  moreover have "status_kept (snd m) s'"
  proof -
    have "status_kept (snd m) (snd (before_loop h (fst (calibrate h ag m)) rc input (snd m)))"
      by (rule kept.before_loop_R [OF refl])
    then show ?thesis using assms(3) by simp
  qed
  ultimately show "find_running (ag_account ag) (agent_name ag) task_id (hs_tables s')
        = find_running (ag_account ag) (agent_name ag) task_id (hs_tables s)"
    by (intro find_running_marks) simp
qed

definition begun_state :: harness where
  "begun_state = (demo_state [])\<lparr>hs_tables := insert_run 0 ''r1'' ''a'' ''demo'' ''1.0'' ''t1'' (hs_tables (demo_state []))\<rparr>"

lemma failure_case: "(case fst x of Inl (Failure e) \<Rightarrow> True | _ \<Rightarrow> False) \<Longrightarrow> \<exists>e s'. x = (Inl (Failure e), s')"
  by (cases x) (auto split: sum.splits stop.splits)

theorem early_error_keeps_running_witness:
  "\<exists>e s'. run_ready (demo_host (\<lambda>n. if n = 1 then Some [''connection reset''] else None)) demo_agent ''t1'' ''r1'' 0
       (JObject []) begun_state = (Inl (Failure e), s')
     \<and> find_running ''a'' ''demo'' ''t1'' (hs_tables s') = Some ''r1''"
proof -
  let ?h = "demo_host (\<lambda>n. if n = 1 then Some [''connection reset''] else None)"
  let ?m = "do_read_scratchpad ?h demo_agent (calibration_key (agent_name demo_agent)) begun_state"
  let ?rc = "\<lparr>rc_run_id = ''r1'', rc_started = 0, rc_count = should_require_count_emails_tool (agent_name demo_agent) (JObject []),
      rc_list = should_require_synced_email_list_tool (agent_name demo_agent) (JObject [])\<rparr>"
  have "case fst (before_loop ?h (fst (calibrate ?h demo_agent ?m)) ?rc (JObject []) (snd ?m)) of Inl (Failure e) \<Rightarrow> True | _ \<Rightarrow> False"
    by code_simp
  then obtain e s' where b: "before_loop ?h (fst (calibrate ?h demo_agent ?m)) ?rc (JObject []) (snd ?m) = (Inl (Failure e), s')"
    using failure_case by metis
  have "find_running ''a'' ''demo'' ''t1'' (hs_tables begun_state) = Some ''r1''" by code_simp
  then show ?thesis
    using early_error_keeps_running [OF refl refl b, of "''t1''"] by (auto simp: demo_agent_def demo_spec_def agent_name_def)
qed

lemma ask_state: "hs_tables (snd (stmt h what (ask_tables f) s)) = hs_tables s"
  using stmt_state [of h what "ask_tables f" s] by (auto simp: ask_tables_def)

lemma scratchpad_lines_tables: "hs_tables (snd (scratchpad_lines h ag keys s)) = hs_tables s"
proof (induction keys arbitrary: s)
  case (Cons k ks)
  have 1: "hs_tables (snd (do_read_scratchpad h ag k s)) = hs_tables s"
    by (simp add: do_read_scratchpad_def ask_state)
  show ?case
    using 1 Cons.IH by (auto simp: and_then_def split: prod.splits sum.splits) (metis snd_conv)+
qed simp

lemma before_loop_resumes:
  assumes "before_loop h ag rc input s = (Inr v, s')" "latest_checkpoint (rc_run_id rc) (hs_tables s) = Some c"
    "\<not> rc_count rc" "\<not> rc_list rc"
  shows "rv_messages v = ck_messages c" "at_checkpoints (hs_tables s') = at_checkpoints (hs_tables s)"
proof -
  obtain first s1 c' s2 where 1: "build_initial_messages h ag input s = (Inr first, s1)"
    and 2: "stmt h ''load latest checkpoint'' (ask_tables (\<lambda>s. latest_checkpoint (rc_run_id rc) (hs_tables s))) s1 = (Inr c', s2)"
    and v: "rv_messages v = (case c' of Some c \<Rightarrow> ck_messages c | None \<Rightarrow> first)" and s': "s' = s2"
    using assms by (auto simp: before_loop_def Let_def elim!: and_then_InrE)
  let ?sa = "(wait_one h s)\<lparr>hs_tables := snd (prune_expired_scratchpad (db_now h (wait_one h s)) (ag_account ag)
      (agent_name ag) (hs_tables s))\<rparr>"
  obtain lines where b: "scratchpad_lines h ag (sc_schema (as_state (ag_spec ag))) ?sa = (Inr lines, s1)"
    using 1 by (auto simp: build_initial_messages_def on_tables_def elim!: and_then_InrE dest!: stmt_Inr)
  have cks: "at_checkpoints (hs_tables s1) = at_checkpoints (hs_tables s)"
    using b scratchpad_lines_tables [of h ag "sc_schema (as_state (ag_spec ag))" ?sa]
    by (simp add: prune_expired_scratchpad_def)
  then have "c' = Some c" "hs_tables s2 = hs_tables s1"
    using 2 assms(2) by (auto simp: ask_tables_def latest_checkpoint_def dest!: stmt_Inr)
  then show "rv_messages v = ck_messages c" "at_checkpoints (hs_tables s') = at_checkpoints (hs_tables s)"
    using v s' cks by simp_all
qed

lemma latest_checkpoint_max:
  assumes "latest_checkpoint rid t = Some c"
  shows "c \<in> set (at_checkpoints t)" "ck_run_id c = rid"
    "\<And>d. d \<in> set (at_checkpoints t) \<Longrightarrow> ck_run_id d = rid \<Longrightarrow> ck_step d \<le> ck_step c"
proof -
  let ?xs = "filter (\<lambda>c. ck_run_id c = rid) (at_checkpoints t)"
  obtain cs where cs: "sort_key (\<lambda>c. - int (ck_step c)) ?xs = c # cs"
    using assms
    by (cases "sort_key (\<lambda>c. - int (ck_step c)) ?xs") (simp_all add: latest_checkpoint_def sql_top_def)
  have set: "set (c # cs) = set ?xs" using cs by (metis set_sort)
  then show "c \<in> set (at_checkpoints t)" "ck_run_id c = rid" by auto
  have "sorted (map (\<lambda>c. - int (ck_step c)) (c # cs))" using cs by (metis sorted_sort_key)
  then show "ck_step d \<le> ck_step c" if "d \<in> set (at_checkpoints t)" "ck_run_id d = rid" for d
    using set that by (auto simp: set_eq_iff)
qed

lemma latest_checkpoint_exists:
  assumes "c \<in> set (at_checkpoints t)" "ck_run_id c = rid"
  shows "\<exists>d. latest_checkpoint rid t = Some d"
proof -
  let ?xs = "filter (\<lambda>c. ck_run_id c = rid) (at_checkpoints t)"
  have "?xs \<noteq> []" using assms by (auto simp: filter_empty_conv)
  then have "sort_key (\<lambda>c. - int (ck_step c)) ?xs \<noteq> []" by (metis length_sort length_0_conv)
  then show ?thesis by (auto simp: latest_checkpoint_def sql_top_def neq_Nil_conv)
qed

text \<open>C24: A run that is taken up again starts from its latest checkpoint without the new input, with its budgets
  unspent and the steps counted from 0; what it saves at a step before that checkpoint's is never taken up, the
  old checkpoint stays the latest.\<close>

theorem resumed_run_starts_over:
  assumes "before_loop h ag rc input s = (Inr v, s')" "latest_checkpoint (rc_run_id rc) (hs_tables s) = Some c"
    and "\<not> rc_count rc" "\<not> rc_list rc" "step < ck_step c"
    and "uniq (\<lambda>c. (ck_run_id c, ck_step c)) (at_checkpoints (hs_tables s))"
  shows "rv_messages v = ck_messages c \<and> rv_llm_calls v = 0 \<and> rv_tool_calls v = 0
    \<and> latest_checkpoint (rc_run_id rc) (save_checkpoint now (rc_run_id rc) step messages (hs_tables s')) = Some c"
proof -
  let ?rid = "rc_run_id rc"
  let ?t = "save_checkpoint now ?rid step messages (hs_tables s')"
  note r = before_loop_resumes [OF assms(1-4)]
  note m = latest_checkpoint_max [OF assms(2)]
  have rows: "d \<in> set (at_checkpoints (hs_tables s)) \<or> ck_step d = step" if "d \<in> set (at_checkpoints ?t)" for d
    using that by (auto simp: save_checkpoint_def Let_def r(2) sql_update_def split: if_splits)
  have c: "c \<in> set (at_checkpoints ?t)"
    using m(1) assms(5) by (force simp: save_checkpoint_def Let_def r(2) sql_update_def)
  obtain d where d: "latest_checkpoint ?rid ?t = Some d" using latest_checkpoint_exists [OF c m(2)] by blast
  note dm = latest_checkpoint_max [OF d]
  have "ck_step c \<le> ck_step d" by (rule dm(3) [OF c m(2)])
  then have "d \<in> set (at_checkpoints (hs_tables s))" using rows [OF dm(1)] assms(5) by auto
  moreover from this have "ck_step d = ck_step c" using m(3) dm(2) \<open>ck_step c \<le> ck_step d\<close> by fastforce
  ultimately have "d = c"
    using assms(6) m(1,2) dm(2) by (auto simp: uniq_def distinct_map inj_on_def)
  then show ?thesis
    using d r(1) before_loop_Inr [OF assms(1)] assms(3,4) by (simp add: required_tools_def)
qed

theorem resumed_run_starts_over_witness:
  "\<exists>v s'. before_loop (demo_host (\<lambda>_. None)) demo_agent \<lparr>rc_run_id = ''r1'', rc_started = 0, rc_count = False, rc_list = False\<rparr>
        (JObject []) (demo_state [\<lparr>ck_run_id = ''r1'', ck_step = 5, ck_messages = [], ck_created = 0\<rparr>]) = (Inr v, s')
     \<and> latest_checkpoint ''r1'' (save_checkpoint 9 ''r1'' 0 [user_message ''new''] (hs_tables s'))
         = Some \<lparr>ck_run_id = ''r1'', ck_step = 5, ck_messages = [], ck_created = 0\<rparr>"
proof -
  let ?c = "\<lparr>ck_run_id = ''r1'', ck_step = 5, ck_messages = [], ck_created = 0\<rparr>"
  let ?rc = "\<lparr>rc_run_id = ''r1'', rc_started = 0, rc_count = False, rc_list = False\<rparr>"
  let ?b = "before_loop (demo_host (\<lambda>_. None)) demo_agent ?rc (JObject []) (demo_state [?c])"
  have "case fst ?b of Inr _ \<Rightarrow> True | _ \<Rightarrow> False" by code_simp
  then obtain v s' where b: "?b = (Inr v, s')" by (cases ?b) (auto split: sum.splits)
  have "latest_checkpoint (rc_run_id ?rc) (hs_tables (demo_state [?c])) = Some ?c"
    by (simp add: latest_checkpoint_def demo_state_def sql_top_def)
  from resumed_run_starts_over [OF b this, of 0 9 "[user_message ''new'']"] show ?thesis
    using b by (simp add: uniq_def demo_state_def)
qed

end
