(* ===== verification/AgentSpecProps.thy ===== *)
theory AgentSpecProps
  imports AgentProps
begin

text \<open>
  Specifications read from files: which files are read, and that a run with such a specification does not panic.
\<close>

section \<open>Files\<close>

lemma skill_name_plain: "validate_skill_name s = Inr () \<Longrightarrow> CHR ''/'' \<notin> set (s @ ''.md'')"
  by (auto simp: validate_skill_name_def list_all_iff is_ascii_alnum_def Let_def split: if_splits)

lemma skill_sections_cong:
  assumes "\<And>x. CHR ''/'' \<notin> set x \<Longrightarrow> sf_read fs' (dir @ [x]) = sf_read fs (dir @ [x])" "sf_shown fs' = sf_shown fs"
  shows "skill_sections fs' dir skills = skill_sections fs dir skills"
proof (induction skills)
  case (Cons s rest)
  show ?case
  proof (cases "validate_skill_name s")
    case (Inr u)
    then have eq: "sf_read fs' (dir @ [s @ ''.md'']) = sf_read fs (dir @ [s @ ''.md''])"
      by (intro assms(1) skill_name_plain) simp
    show ?thesis unfolding skill_sections.simps read_skill_doc_def Cons.IH assms(2) eq by (rule refl)
  qed simp
qed simp

text \<open>C40: Reading an agent's file reads no other file than itself and files that stand directly in its directory of
  skills: whatever else two file systems differ in, the result is the same, whatever skills the file names.\<close>

theorem spec_reads_confined:
  assumes "sf_read fs' p = sf_read fs p"
    and "\<And>dir x. skill_docs_dir fs p = Some dir \<Longrightarrow> CHR ''/'' \<notin> set x \<Longrightarrow> sf_read fs' (dir @ [x]) = sf_read fs (dir @ [x])"
    and "sf_exists fs' = sf_exists fs" "sf_is_dir fs' = sf_is_dir fs" "sf_shown fs' = sf_shown fs" "sf_toml fs' = sf_toml fs"
  shows "parse_file fs' p = parse_file fs p"
proof -
  have dir: "skill_docs_dir fs' p = skill_docs_dir fs p" unfolding skill_docs_dir_def assms(4) by (rule refl)
  have c: "compose_system_prompt fs' p prompt skills = compose_system_prompt fs p prompt skills" for prompt skills
  proof (cases "skill_docs_dir fs p")
    case None
    then show ?thesis by (simp add: compose_system_prompt_def dir assms(5))
  next
    case (Some d)
    have a: "sf_read fs' (d @ [''base-conventions.md'']) = sf_read fs (d @ [''base-conventions.md''])"
      by (rule assms(2) [OF Some]) simp
    have b: "skill_sections fs' d skills = skill_sections fs d skills"
      by (rule skill_sections_cong) (use assms(2) [OF Some] assms(5) in auto)
    show ?thesis
      unfolding compose_system_prompt_def dir Some assms(3) read_skill_doc_def assms(5) option.case Let_def a b
      by (rule refl)
  qed
  show ?thesis unfolding parse_file_def assms(1,5,6) c by (rule refl)
qed

definition demo_files :: "string \<Rightarrow> spec_files" where
  "demo_files secret =
     \<lparr>sf_read = (\<lambda>p. if p = [''specs'', ''agents'', ''a.md''] then Inr (''+++'' @ [CHR 0x0A] @ ''x'' @ [CHR 0x0A] @ ''+++'' @ [CHR 0x0A] @ ''Do it'')
                     else if p = [''secret''] then Inr secret else Inl [''not found'']),
      sf_exists = (\<lambda>_. False), sf_is_dir = (\<lambda>_. True), sf_shown = concat,
      sf_toml = (\<lambda>_. Inl [''invalid''])\<rparr>"

theorem spec_reads_confined_witness:
  "parse_file (demo_files ''one'') [''specs'', ''agents'', ''a.md''] = parse_file (demo_files ''two'') [''specs'', ''agents'', ''a.md'']"
  by (rule spec_reads_confined) (auto simp: demo_files_def skill_docs_dir_def parent_of_def)

section \<open>Panics\<close>

lemma parse_file_positive:
  assumes "parse_file fs p = Inr spec"
  shows "1 \<le> ex_checkpoint_every (as_execution spec)" "1 \<le> ex_max_iterations (as_execution spec)"
    "1 \<le> ex_timeout_secs (as_execution spec)" "1 \<le> bu_max_llm_calls (as_budget spec)" "1 \<le> bu_max_tool_calls (as_budget spec)"
proof -
  obtain raw prompt where "into_agent_spec raw prompt = Inr spec"
    using assms by (auto simp: parse_file_def split: sum.splits prod.splits)
  then have "as_execution spec = execution_of (ra_execution raw)" "as_budget spec = budget_of raw"
    by (auto simp: into_agent_spec_def split: if_splits sum.splits)
  then show "1 \<le> ex_checkpoint_every (as_execution spec)" "1 \<le> ex_max_iterations (as_execution spec)"
    "1 \<le> ex_timeout_secs (as_execution spec)" "1 \<le> bu_max_llm_calls (as_budget spec)" "1 \<le> bu_max_tool_calls (as_budget spec)"
    by (simp_all add: execution_of_def budget_of_def)
qed

definition calm :: "(stop + 'a) \<times> harness \<Rightarrow> bool" where
  "calm m \<longleftrightarrow> fst m \<noteq> Inl Panicked"

lemma calm_pair [simp]:
  "calm (Inr v, s)" "calm (Inl (Failure e), s)" "calm (Inl Elapsed, s)" "\<not> calm (Inl Panicked, s)"
  by (simp_all add: calm_def)

lemma calm_then:
  assumes "calm m" "\<And>v s. m = (Inr v, s) \<Longrightarrow> calm (f v s)"
  shows "calm (and_then m f)"
  using assms by (cases m; cases "fst m") (auto simp: and_then_def calm_def)

lemma calm_stmt [simp]: "calm (stmt h what f s)"
  by (auto simp: stmt_def Let_def split: option.splits prod.splits)

lemma calm_await [simp]: "calm (await_host h f s)"
  by (auto simp: await_host_def Let_def split: sum.splits)

lemma calm_with_context [simp]: "calm (with_context w m) \<longleftrightarrow> calm m"
  by (auto simp: with_context_def split: prod.splits sum.splits stop.splits)

lemma calm_ignore [simp]: "calm (ignore_failure m) \<longleftrightarrow> calm m"
  by (auto simp: ignore_failure_def split: prod.splits sum.splits stop.splits)

lemma calm_ops [simp]:
  "calm (do_log_tool_call h rid step tool args result latency s)" "calm (do_record_step h rid s)"
  "calm (do_record_llm_call h rid i out s)" "calm (do_record_tool_calls h rid n s)"
  "calm (do_save_checkpoint h rid step messages s)" "calm (do_read_scratchpad h ag key s)"
  "calm (do_finish_run h rid started output esc conf s)" "calm (do_fail_run h rid started error s)"
  "calm (do_timeout_run h rid started s)" "calm (load_snapshot h ag what s)" "calm (call_tool h ag name args s)"
  by (simp_all add: do_log_tool_call_def do_record_step_def do_record_llm_call_def do_record_tool_calls_def
        do_save_checkpoint_def do_read_scratchpad_def do_finish_run_def do_fail_run_def do_timeout_run_def
        load_snapshot_def call_tool_def split: sum.splits)

lemma calm_begin: "calm (do_begin_run h ag task_id s)"
  unfolding do_begin_run_def by (auto intro!: calm_then split: option.splits)

lemma calm_settle: "calm (settle_failure h rc e s)"
  unfolding settle_failure_def by (rule calm_then) auto

lemma calm_logged_call: "calm (logged_call h ag rid step name args s)"
  unfolding logged_call_def Let_def by (auto intro!: calm_then)

lemma calm_run_calls: "calm (run_calls h ag rid step calls s)"
  by (induction calls arbitrary: s) (auto intro!: calm_then calm_logged_call)

lemma calm_lines: "calm (scratchpad_lines h ag keys s)"
  by (induction keys arbitrary: s) (auto intro!: calm_then)

lemma calm_prefetch: "calm (prefetch h ag rid tool args told v s)"
  unfolding prefetch_def Let_def by (auto intro!: calm_then)

lemma calm_before_loop: "calm (before_loop h ag rc input s)"
  unfolding before_loop_def build_initial_messages_def Let_def
  by (auto intro!: calm_then calm_lines calm_prefetch split: if_splits)

lemma calm_attach: "calm (attach_mailbox_preparation_context h ag rid task_id input s)"
  unfolding attach_mailbox_preparation_context_def Let_def
  by (auto intro!: calm_then split: prod.splits json.splits)

lemma calm_wait:
  assumes "wait_for_db_completeness h ag rid task_id s = Some y"
  shows "calm y"
proof -
  have round: "calm (wait_round h ag rid task_id started v s)" for started v s
    unfolding wait_round_def Let_def
    by (rule calm_then) (auto split: prod.splits if_splits)
  have "calm y" if "wait_loop h ag rid task_id started v s = Some y" for started v
  proof (rule wait_loop_rounds [OF that])
    show "calm (Inl e, s')" if "wait_round h ag rid task_id started v s = (Inl e, s')" for v s e s'
      using round [of started v s] that by (simp add: calm_def)
  qed simp_all
  then show ?thesis using assms by (auto simp: wait_for_db_completeness_def split: if_splits)
qed

lemma calm_checkpoint: "0 < ex_checkpoint_every (as_execution (ag_spec ag)) \<Longrightarrow> calm (checkpoint_after h ag rid step v s)"
  by (simp add: checkpoint_after_def Let_def)

lemma calm_tool_round:
  assumes "0 < ex_checkpoint_every (as_execution (ag_spec ag))"
  shows "calm (tool_round h ag rc step answer calls v s)"
  using assms unfolding tool_round_def Let_def
  by (auto intro!: calm_then calm_run_calls calm_checkpoint)

lemma calm_write:
  assumes "\<And>t n. ah_add_hours h t n \<noteq> None"
  shows "calm (do_write_scratchpad h ag key v ttl s)"
  using assms by (auto simp: do_write_scratchpad_def ttl_to_expiry_def split: option.splits)

lemma calm_scratch_round:
  assumes "0 < ex_checkpoint_every (as_execution (ag_spec ag))" "\<And>t n. ah_add_hours h t n \<noteq> None"
  shows "calm (scratch_round h ag rc step answer action v s)"
proof -
  have "calm (handle_scratchpad_action h ag action s)"
    unfolding handle_scratchpad_action_def
    by (auto intro!: calm_then calm_write assms(2) split: scratchpad_action.splits sum.splits)
  then show ?thesis
    using assms(1) unfolding scratch_round_def Let_def by (auto intro!: calm_then calm_checkpoint)
qed

lemma calm_accept: "calm (accept_output h ag rc output v s)"
  unfolding accept_output_def Let_def by (auto intro!: calm_then split: prod.splits)

lemma calm_run_step:
  assumes "0 < ex_checkpoint_every (as_execution (ag_spec ag))" "\<And>t n. ah_add_hours h t n \<noteq> None"
  shows "calm (run_step h ag rc step v s)"
  unfolding run_step_def Let_def
  by (auto intro!: calm_then calm_tool_round calm_scratch_round calm_accept assms simp: final_round_def
      split: option.splits sum.splits)

lemma calm_run_steps:
  assumes "0 < ex_checkpoint_every (as_execution (ag_spec ag))" "\<And>t n. ah_add_hours h t n \<noteq> None"
  shows "calm (run_steps h ag rc n step v s)"
  by (induction n arbitrary: step v s) (auto intro!: calm_then calm_run_step assms split: sum.splits)

lemma calm_run_timed:
  assumes "0 < ex_checkpoint_every (as_execution (ag_spec ag))" "\<And>t n. ah_add_hours h t n \<noteq> None"
  shows "calm (run_timed h ag rc task_id v s)"
proof -
  let ?ex = "as_execution (ag_spec ag)"
  let ?d = "hs_ms s + 1000 * int (ex_timeout_secs ?ex)"
  let ?m = "run_steps h ag rc (ex_max_iterations ?ex) 0 v (s\<lparr>hs_deadline := Some ?d\<rparr>)"
  obtain r s1 where m: "?m = (r, s1)" by fastforce
  have "r \<noteq> Inl Panicked"
    using calm_run_steps [OF assms, of rc "ex_max_iterations ?ex" 0 v "s\<lparr>hs_deadline := Some ?d\<rparr>"] m by (simp add: calm_def)
  then consider q where "r = Inr q" | e where "r = Inl (Failure e)" | "r = Inl Elapsed"
    by (metis stop.exhaust sumE)
  then show ?thesis
  proof cases
    case 1
    then show ?thesis by (simp add: run_timed_def Let_def m)
  next
    case 2
    then show ?thesis by (simp add: run_timed_def Let_def m calm_settle)
  next
    case 3
    then show ?thesis by (auto simp: run_timed_def Let_def m intro!: calm_then)
  qed
qed


definition demo_source :: spec_files where
  "demo_source = (demo_files [])\<lparr>sf_is_dir := (\<lambda>_. False), sf_toml := (\<lambda>_. Inr
     \<lparr>ra_name = ''demo'', ra_version = None, ra_description = None, ra_skills = None,
      ra_execution = \<lparr>rx_max_iterations = Some 0, rx_temperature = None, rx_max_output_tokens = None,
                      rx_checkpoint_every = Some 0, rx_timeout_secs = None\<rparr>,
      ra_max_llm_calls = None, ra_max_tool_calls = None, ra_schema = None, ra_ttl_hours = None, ra_required_fields = None,
      ra_validation = None, ra_provider = \<lparr>rp_tier = None, rp_prefer = None, rp_fallback = None\<rparr>,
      ra_escalation = \<lparr>re_confidence_threshold = None, re_always_escalate_on_phishing = None,
                       re_always_escalate_on_threat = None\<rparr>\<rparr>)\<rparr>"


end
