(* ===== verification/AgentCareProps.thy ===== *)
theory AgentCareProps
  imports AgentQueries
begin

text \<open>
  The calibration of escalation thresholds and the cleaning of scratchpads: what the median of the recorded
  confidences does to a threshold, and which rows a cleaning can touch.
\<close>

section \<open>Calibration\<close>

lemma sorted_below:
  fixes ys :: "rat list"
  assumes "sorted ys" "i < length ys" "ys ! i < x"
  shows "i < length (filter (\<lambda>c. c < x) ys)"
proof -
  have "\<forall>c \<in> set (take (Suc i) ys). c < x"
    using assms by (auto simp: in_set_conv_nth) (meson le_less_trans less_Suc_eq_le sorted_nth_mono)
  then have "filter (\<lambda>c. c < x) (take (Suc i) ys) = take (Suc i) ys" by (simp add: filter_id_conv)
  moreover have "length (filter (\<lambda>c. c < x) (take (Suc i) ys)) \<le> length (filter (\<lambda>c. c < x) ys)"
    using filter_append [of "\<lambda>c. c < x" "take (Suc i) ys" "drop (Suc i) ys"] by (metis append_take_drop_id length_append le_add1)
  ultimately show ?thesis using assms(2) by simp
qed

text \<open>When less than half of the values lie below \<open>x\<close>, so does not the median.\<close>

lemma median_ge:
  assumes "2 * length (filter (\<lambda>c. c < x) cs) < length cs"
  shows "x \<le> percentile_cont (1 / 2) cs"
proof -
  let ?ys = "sort cs" and ?n = "length cs"
  define rn :: rat where "rn = 1 / 2 * of_nat (?n - 1)"
  define lo where "lo = nat \<lfloor>rn\<rfloor>"
  define hi where "hi = nat \<lceil>rn\<rceil>"
  have n: "0 < ?n" using assms by linarith
  have rn0: "0 \<le> rn" by (simp add: rn_def)
  have rn1: "rn \<le> of_nat (?n - 1)" by (simp add: rn_def)
  have lohi: "lo \<le> hi" unfolding lo_def hi_def by (intro nat_mono floor_le_ceiling)
  have hi: "hi < ?n"
  proof -
    have "\<lceil>rn\<rceil> \<le> int (?n - 1)" using rn1 by (simp add: ceiling_le_iff)
    then show ?thesis using n unfolding hi_def by linarith
  qed
  have frac: "of_nat lo \<le> rn"
    using rn0 unfolding lo_def by (simp add: of_nat_nat)
  have k: "length (filter (\<lambda>c. c < x) ?ys) \<le> lo"
  proof -
    have e: "length (filter (\<lambda>c. c < x) ?ys) = length (filter (\<lambda>c. c < x) cs)"
      by (metis filter_sort length_sort)
    have "of_nat (length (filter (\<lambda>c. c < x) cs)) \<le> rn"
      using assms n unfolding rn_def by (simp add: field_simps of_nat_diff)
    then show ?thesis unfolding e lo_def by (metis le_floor_iff of_int_of_nat_eq of_nat_le_iff zero_le_floor rn0 int_nat_eq nat_le_iff le_nat_iff)
  qed
  have ge: "x \<le> ?ys ! i" if "lo \<le> i" "i < ?n" for i
    using sorted_below [of ?ys i x] k that by (force simp: not_le [symmetric])
  have "?ys ! lo \<le> ?ys ! hi" using lohi hi by (simp add: sorted_nth_mono)
  then have "0 \<le> (rn - of_nat lo) * (?ys ! hi - ?ys ! lo)" using frac by simp
  moreover have "x \<le> ?ys ! lo" by (rule ge) (use lohi hi in auto)
  ultimately show ?thesis
    unfolding percentile_cont_def Let_def rn_def [symmetric] lo_def [symmetric] hi_def [symmetric] by linarith
qed

lemma recent_escalated:
  assumes "\<forall>(c, e) \<in> set xs. e \<longleftrightarrow> c < x"
  shows "length (filter snd xs) = length (filter (\<lambda>c. c < x) (map fst xs))"
proof -
  have "filter snd xs = filter (\<lambda>p. fst p < x) xs"
    by (rule filter_cong) (use assms in auto)
  then show ?thesis by (simp add: filter_map o_def)
qed


definition calibration_run :: "nat \<Rightarrow> agent_run_row" where
  "calibration_run i =
     (new_run (int i) (''r'' @ show_nat i) ''a'' ''demo'' None (''t'' @ show_nat i))
       \<lparr>rr_status := RunCompleted, rr_confidence := Some (if i < 5 then 7 / 10 else 9 / 10), rr_escalated := i < 5\<rparr>"

definition calibration_tables :: agent_tables where
  "calibration_tables = \<lparr>at_runs = map calibration_run [0..<20], at_checkpoints = [], at_tool_log = [], at_scratch = [], at_next_log = 1\<rparr>"

lemma calibration_sample:
  "recent_confident ''a'' ''demo'' 200 calibration_tables
     = map (\<lambda>i. if i < 5 then (7 / 10, True) else (9 / 10, False)) (rev [0..<20])"
  by code_simp


section \<open>Hygiene\<close>

text \<open>A target names the row of one agent and key, or a key of every agent.\<close>

definition target_names :: "string \<Rightarrow> scratch_row \<Rightarrow> bool" where
  "target_names target r \<longleftrightarrow>
     (case parse_entry_target target of Some (agent, key) \<Rightarrow> sp_agent r = agent \<and> sp_key r = key
      | None \<Rightarrow> sp_key r = trim target)"

lemma filter_entries_names: "e \<in> set (filter_entries_for_target es target) \<Longrightarrow> target_names target e"
  by (auto simp: filter_entries_for_target_def target_names_def split: option.splits)

text \<open>The rows a cleaning leaves alone: those of other accounts and those no target names.\<close>

definition spared :: "string \<Rightarrow> string set \<Rightarrow> scratch_row \<Rightarrow> bool" where
  "spared account targets r \<longleftrightarrow> sp_account r \<noteq> account \<or> (\<forall>target \<in> targets. \<not> target_names target r)"

definition only_scratch :: "(scratch_row \<Rightarrow> bool) \<Rightarrow> agent_tables \<Rightarrow> agent_tables \<Rightarrow> bool" where
  "only_scratch keep t t' \<longleftrightarrow> at_runs t' = at_runs t \<and> at_checkpoints t' = at_checkpoints t \<and> at_tool_log t' = at_tool_log t
     \<and> filter keep (at_scratch t') = filter keep (at_scratch t)"

lemma only_scratch_refl [simp]: "only_scratch keep t t"
  by (simp add: only_scratch_def)

lemma only_scratch_trans: "only_scratch keep t t1 \<Longrightarrow> only_scratch keep t1 t2 \<Longrightarrow> only_scratch keep t t2"
  by (simp add: only_scratch_def)

lemma target_names_cong:
  "sp_agent r = sp_agent e \<Longrightarrow> sp_key r = sp_key e \<Longrightarrow> target_names target r = target_names target e"
  by (simp add: target_names_def split: option.split)

lemma named_not_spared:
  assumes "scratch_at account (sp_agent e) (sp_key e) r" "target_names target e" "target \<in> targets"
  shows "\<not> spared account targets r"
  using assms target_names_cong [of r e] by (auto simp: scratch_at_def spared_def)

lemma delete_spares:
  assumes "target_names target e" "target \<in> targets"
  shows "only_scratch (spared account targets) t (snd (delete_scratchpad_entry account (sp_agent e) (sp_key e) t))"
proof -
  have "filter (spared account targets) (filter (\<lambda>r. \<not> scratch_at account (sp_agent e) (sp_key e) r) rs)
      = filter (spared account targets) rs" for rs
    by (simp, rule filter_cong) (auto dest: named_not_spared [OF _ assms])
  then show ?thesis by (simp add: only_scratch_def delete_scratchpad_entry_def)
qed

lemma update_spares:
  assumes "target_names target e" "target \<in> targets"
  shows "only_scratch (spared account targets) t (snd (update_scratchpad_entry_for_account now account (sp_agent e) (sp_key e) v t))"
proof -
  have same: "spared account targets (r\<lparr>sp_value := v, sp_updated := now\<rparr>) = spared account targets r" for r
    using target_names_cong [of "r\<lparr>sp_value := v, sp_updated := now\<rparr>" r] by (simp add: spared_def)
  show ?thesis
    by (simp add: only_scratch_def update_scratchpad_entry_for_account_def)
       (rule filter_sql_update_off, auto simp: same dest: named_not_spared [OF _ assms])
qed

lemma delete_entries_spares:
  assumes "\<forall>e \<in> set es. target_names target e" "target \<in> targets"
  shows "only_scratch (spared account targets) (snd acc) (snd (delete_entries account es acc))"
  using assms(1)
proof (induction es arbitrary: acc)
  case (Cons e es)
  obtain n t where acc: "acc = (n, t)" by fastforce
  have 1: "only_scratch (spared account targets) t (snd (delete_scratchpad_entry account (sp_agent e) (sp_key e) t))"
    by (rule delete_spares [OF _ assms(2)]) (use Cons.prems in simp)
  show ?case
    using only_scratch_trans [OF 1] Cons by (auto simp: acc split: prod.split)
qed simp

lemma update_entries_spares:
  assumes "\<forall>e \<in> set es. target_names target e" "target \<in> targets"
  shows "only_scratch (spared account targets) (snd acc) (snd (update_entries now account summary es acc))"
  using assms(1)
proof (induction es arbitrary: acc)
  case (Cons e es)
  obtain n t where acc: "acc = (n, t)" by fastforce
  have 1: "only_scratch (spared account targets) t
      (snd (update_scratchpad_entry_for_account now account (sp_agent e) (sp_key e) (JString summary) t))"
    by (rule update_spares [OF _ assms(2)]) (use Cons.prems in simp)
  show ?case
    using only_scratch_trans [OF 1] Cons by (auto simp: acc split: prod.split)
qed simp

lemma fold_spares:
  assumes "\<And>x acc. x \<in> set xs \<Longrightarrow> only_scratch keep (snd acc) (snd (f x acc))"
  shows "only_scratch keep (snd acc) (snd (fold f xs acc))"
  using assms
proof (induction xs arbitrary: acc)
  case (Cons x xs)
  have "only_scratch keep (snd acc) (snd (f x acc))" using Cons.prems by simp
  moreover have "only_scratch keep (snd (f x acc)) (snd (fold f xs (f x acc)))" by (rule Cons.IH) (use Cons.prems in simp)
  ultimately show ?case by (auto intro: only_scratch_trans)
qed simp

text \<open>C39: Whatever an agent answers, applying a cleaning leaves alone the runs, checkpoints and logs, the
  scratchpads of other accounts, and every row that none of the answer's targets names.\<close>

theorem hygiene_confined:
  "only_scratch (spared account (set (parse_delete_keys result) \<union> fst ` set (parse_summaries result))) t
     (snd (apply_hygiene now account entries result t))"
proof -
  let ?T = "set (parse_delete_keys result) \<union> fst ` set (parse_summaries result)"
  let ?del = "fold (\<lambda>target. delete_entries account (filter_entries_for_target entries target)) (parse_delete_keys result) (0, t)"
  let ?after = "list_scratchpad_entries now account None None (snd ?del)"
  let ?upd = "fold (\<lambda>(target, summary). update_entries now account summary (filter_entries_for_target ?after target))
      (parse_summaries result) (0, snd ?del)"
  have "only_scratch (spared account ?T) (snd acc) (snd (delete_entries account (filter_entries_for_target entries target) acc))"
    if "target \<in> set (parse_delete_keys result)" for target acc
    by (rule delete_entries_spares) (use that filter_entries_names in auto)
  then have 1: "only_scratch (spared account ?T) t (snd ?del)"
    by (rule fold_spares [where acc = "(0, t)", simplified])
  have "only_scratch (spared account ?T) (snd acc)
      (snd (update_entries now account (snd p) (filter_entries_for_target ?after (fst p)) acc))"
    if "p \<in> set (parse_summaries result)" for p acc
    by (rule update_entries_spares) (use that filter_entries_names in auto)
  then have 2: "only_scratch (spared account ?T) (snd ?del) (snd ?upd)"
    by (intro fold_spares [where acc = "(0, snd ?del)", simplified]) (simp add: split_beta)
  have "snd (apply_hygiene now account entries result t) = snd ?upd"
    by (simp add: apply_hygiene_def Let_def split: prod.split)
  then show ?thesis using only_scratch_trans [OF 1 2] by simp
qed

end
